(* ===== verification/Prelude.thy ===== *)
theory Prelude
  imports Main "HOL-Library.Multiset" "HOL-Library.Char_ord" "HOL-Library.List_Lexorder"
    "HOL-Library.Product_Lexorder" "HOL-Library.Sublist" "HOL-Library.Code_Target_Nat"
begin

text \<open>
  Prelude of the development: the collections the component theories feed, the contract of
  Go's \<open>sort.Slice\<close>/\<open>sort.SliceStable\<close> as a locale, and the two loops that occur all
  over the program: the loop that drops what a \<open>seen\<close> map already holds, and the loop
  that compacts neighbours of a sorted slice.
\<close>

named_theorems go_simps
  \<comment> \<open>unfolding equations of the Go library functions, for evaluation on concrete inputs\<close>

named_theorems wf_intros
  \<comment> \<open>preservation of a component's well-formedness by its operations\<close>

section \<open>Sorting with a less function\<close>

text \<open>
  \<open>sort.SliceStable\<close> is a stable sort by the function \<open>lt\<close>; \<open>sort.Slice\<close> is modelled by
  the same function: where keys are equal Go leaves the order open, and for slices of up to
  twelve elements the implementation is a (stable) insertion sort.
\<close>

fun insert_slice :: "('a \<Rightarrow> 'a \<Rightarrow> bool) \<Rightarrow> 'a \<Rightarrow> 'a list \<Rightarrow> 'a list" where
  "insert_slice lt x [] = [x]"
| "insert_slice lt x (y # ys) = (if lt y x then y # insert_slice lt x ys else x # y # ys)"

fun sort_slice :: "('a \<Rightarrow> 'a \<Rightarrow> bool) \<Rightarrow> 'a list \<Rightarrow> 'a list" where
  "sort_slice lt [] = []"
| "sort_slice lt (x # xs) = insert_slice lt x (sort_slice lt xs)"

lemma mset_insert_slice [simp]: "mset (insert_slice lt x ys) = add_mset x (mset ys)"
  by (induction ys) auto

lemma mset_sort_slice [simp]: "mset (sort_slice lt xs) = mset xs"
  by (induction xs) auto

lemma set_sort_slice [simp]: "set (sort_slice lt xs) = set xs"
  by (metis mset_sort_slice set_mset_mset)

lemma length_sort_slice [simp]: "length (sort_slice lt xs) = length xs"
  by (metis mset_sort_slice size_mset)

lemma sort_slice_Nil_iff [simp]: "sort_slice lt xs = [] \<longleftrightarrow> xs = []"
  by (metis length_0_conv length_sort_slice)

lemma distinct_sort_slice [simp]: "distinct (sort_slice lt xs) = distinct xs"
  by (metis mset_eq_imp_distinct_iff mset_sort_slice)

text \<open>The contract Go states for a less function: a strict weak order.\<close>

locale strict_weak_order =
  fixes lt :: "'a \<Rightarrow> 'a \<Rightarrow> bool"
  assumes lt_irrefl: "\<not> lt x x"
    and lt_trans: "lt x y \<Longrightarrow> lt y z \<Longrightarrow> lt x z"
    and ge_trans: "\<not> lt y x \<Longrightarrow> \<not> lt z y \<Longrightarrow> \<not> lt z x"
begin

lemma lt_asym: "lt x y \<Longrightarrow> \<not> lt y x"
  using lt_irrefl lt_trans by blast

lemma set_insert_slice: "set (insert_slice lt x ys) = insert x (set ys)"
  by (induction ys) auto

lemma sorted_insert_slice:
  "sorted_wrt (\<lambda>a b. \<not> lt b a) ys \<Longrightarrow> sorted_wrt (\<lambda>a b. \<not> lt b a) (insert_slice lt x ys)"
proof (induction ys)
  case Nil
  then show ?case by simp
next
  case (Cons y ys)
  show ?case
  proof (cases "lt y x")
    case True
    with Cons show ?thesis by (auto simp: set_insert_slice dest: lt_asym)
  next
    case False
    with Cons.prems show ?thesis by (auto dest: ge_trans)
  qed
qed

theorem sorted_sort_slice: "sorted_wrt (\<lambda>a b. \<not> lt b a) (sort_slice lt xs)"
  by (induction xs) (auto intro: sorted_insert_slice)

lemma sort_slice_sorted:
  "sorted_wrt (\<lambda>a b. \<not> lt b a) xs \<Longrightarrow> sort_slice lt xs = xs"
proof (induction xs)
  case Nil
  then show ?case by simp
next
  case (Cons x xs)
  then show ?case by (cases xs) auto
qed

lemma sort_slice_idem [simp]: "sort_slice lt (sort_slice lt xs) = sort_slice lt xs"
  by (rule sort_slice_sorted [OF sorted_sort_slice])

lemma sort_slice_map_fixed:
  assumes "\<And>x. f (f x) = f x"
  shows "sort_slice lt (map f (sort_slice lt (map f xs))) = sort_slice lt (map f xs)"
proof -
  have "map f (sort_slice lt (map f xs)) = sort_slice lt (map f xs)"
    by (rule map_idI) (auto simp: assms)
  then show ?thesis by simp
qed
end

text \<open>
  Most of the program's comparators order by a key (a chain of fields, compared one after the
  other); such a comparator is a strict weak order, and equal keys are the incomparable ones.
\<close>

locale keyed_order =
  fixes lt :: "'a \<Rightarrow> 'a \<Rightarrow> bool" and key :: "'a \<Rightarrow> 'k::linorder"
  assumes lt_key: "lt x y \<longleftrightarrow> key x < key y"

sublocale keyed_order \<subseteq> strict_weak_order lt
  by unfold_locales (auto simp: lt_key)

context keyed_order begin

lemma sorted_keys: "sorted (map key (sort_slice lt xs))"
  using sorted_sort_slice [of xs] by (simp add: sorted_map lt_key not_less)

lemma sort_slice_by_key: "sorted (map key xs) \<Longrightarrow> sort_slice lt xs = xs"
  by (rule sort_slice_sorted) (simp add: sorted_map lt_key not_less)

end

section \<open>Dropping what was seen\<close>

text \<open>
  \<open>if seen[x] \<dots> continue; seen[x] = true; out = append(out, x)\<close>.
\<close>

fun uniq_from :: "'a set \<Rightarrow> 'a list \<Rightarrow> 'a list" where
  "uniq_from seen [] = []"
| "uniq_from seen (x # xs) =
     (if x \<in> seen then uniq_from seen xs else x # uniq_from (insert x seen) xs)"

lemma set_uniq_from: "set (uniq_from seen xs) = set xs - seen"
  by (induction seen xs rule: uniq_from.induct) auto

lemma set_uniq_from_empty [simp]: "set (uniq_from {} xs) = set xs"
  by (simp add: set_uniq_from)

lemma distinct_uniq_from [simp]: "distinct (uniq_from seen xs)"
  by (induction seen xs rule: uniq_from.induct) (auto simp: set_uniq_from)

lemma subseq_uniq_from: "subseq (uniq_from seen xs) xs"
  by (induction seen xs rule: uniq_from.induct) auto

lemma uniq_from_id: "distinct xs \<Longrightarrow> set xs \<inter> seen = {} \<Longrightarrow> uniq_from seen xs = xs"
  by (induction seen xs rule: uniq_from.induct) auto

lemma uniq_from_idem [simp]: "uniq_from {} (uniq_from {} xs) = uniq_from {} xs"
  by (rule uniq_from_id) auto

lemma uniq_from_Nil_iff: "uniq_from seen xs = [] \<longleftrightarrow> set xs \<subseteq> seen"
  using set_uniq_from [of seen xs] by (metis Diff_eq_empty_iff set_empty)

section \<open>Compacting neighbours\<close>

text \<open>
  \<open>dedup := out[:1]; for _, o := range out[1:] { if o != dedup[len(dedup)-1] { append } }\<close>,
  with the comparison of the kept neighbour as a parameter.
\<close>

fun compact_from :: "('a \<Rightarrow> 'a \<Rightarrow> bool) \<Rightarrow> 'a \<Rightarrow> 'a list \<Rightarrow> 'a list" where
  "compact_from same last_kept [] = [last_kept]"
| "compact_from same last_kept (x # xs) =
     (if same x last_kept then compact_from same last_kept xs
      else last_kept # compact_from same x xs)"

fun compact_slice :: "('a \<Rightarrow> 'a \<Rightarrow> bool) \<Rightarrow> 'a list \<Rightarrow> 'a list" where
  "compact_slice same [] = []"
| "compact_slice same (x # xs) = compact_from same x xs"

lemma compact_from_subset: "set (compact_from same x xs) \<subseteq> insert x (set xs)"
  by (induction same x xs rule: compact_from.induct) auto

lemma set_compact_slice_subset: "set (compact_slice same xs) \<subseteq> set xs"
  by (cases xs) (use compact_from_subset in force)+

lemma compact_from_covers:
  assumes "\<And>a b. same a b \<longleftrightarrow> k a = k b"
  shows "k ` set (compact_from same x xs) = k ` insert x (set xs)"
  using assms by (induction same x xs rule: compact_from.induct) auto

lemma compact_slice_covers:
  assumes "\<And>a b. same a b \<longleftrightarrow> k a = k b"
  shows "k ` set (compact_slice same xs) = k ` set xs"
  using compact_from_covers [where k = k, OF assms] by (cases xs) simp_all

lemma compact_from_strict:
  fixes k :: "'a \<Rightarrow> 'k::linorder"
  assumes "\<And>a b. same a b \<longleftrightarrow> k a = k b" and "sorted (map k (x # xs))"
  shows "sorted_wrt (<) (map k (compact_from same x xs))"
  using assms(2)
proof (induction xs arbitrary: x)
  case Nil
  then show ?case by simp
next
  case (Cons y ys)
  show ?case
  proof (cases "same y x")
    case True
    with Cons show ?thesis by simp
  next
    case False
    with Cons.prems assms(1) have lt: "k x < k y" by force
    have tail: "sorted_wrt (<) (map k (compact_from same y ys))"
      using Cons by simp
    have "k x < k z" if "z \<in> set (compact_from same y ys)" for z
    proof -
      from that compact_from_subset have "z = y \<or> z \<in> set ys" by fastforce
      with lt Cons.prems show ?thesis by (force intro: less_le_trans)
    qed
    with False tail show ?thesis by simp
  qed
qed

lemma compact_slice_strict:
  fixes k :: "'a \<Rightarrow> 'k::linorder"
  assumes "\<And>a b. same a b \<longleftrightarrow> k a = k b" and "sorted (map k xs)"
  shows "sorted_wrt (<) (map k (compact_slice same xs))"
  using compact_from_strict [where k = k and same = same, OF assms(1)] assms(2) by (cases xs) simp_all

lemma compact_from_id:
  assumes "\<And>a b. same a b \<longleftrightarrow> k a = k b" and "distinct (map k (x # xs))"
  shows "compact_from same x xs = x # xs"
  using assms(2) by (induction xs arbitrary: x) (auto simp: assms(1))

lemma compact_slice_id:
  assumes "\<And>a b. same a b \<longleftrightarrow> k a = k b" and "distinct (map k xs)"
  shows "compact_slice same xs = xs"
  using compact_from_id [where k = k and same = same, OF assms(1)] assms(2) by (cases xs) simp_all

lemma compact_from_least:
  fixes key :: "'a \<Rightarrow> 'k::linorder" and k :: "'a \<Rightarrow> 'i::linorder"
  assumes "\<And>a b. same a b \<longleftrightarrow> k a = k b" and "\<And>a b. key a \<le> key b \<Longrightarrow> k a \<le> k b"
    and "inj key" and "sorted (map key (x # xs))"
  shows "e \<in> set (compact_from same x xs) \<longleftrightarrow>
    e = x \<or> (e \<in> set xs \<and> k e \<noteq> k x \<and> (\<forall>e' \<in> set xs. k e' = k e \<longrightarrow> key e \<le> key e'))"
  using assms(4)
proof (induction xs arbitrary: x)
  case Nil
  then show ?case by simp
next
  case (Cons y ys)
  have ord: "k x \<le> k y" "\<And>z. z \<in> set ys \<Longrightarrow> k y \<le> k z" "\<And>z. z \<in> set ys \<Longrightarrow> key y \<le> key z"
    using Cons.prems assms(2) by auto
  have eq: "key a \<le> key y \<Longrightarrow> a \<in> set ys \<Longrightarrow> a = y" for a
    using ord(3) [of a] \<open>inj key\<close> by (auto dest: injD order_antisym)
  show ?case
  proof (cases "same y x")
    case True
    with Cons show ?thesis by (auto simp: assms(1))
  next
    case False
    then have "k x < k y" using ord(1) assms(1) by (metis order_le_less)
    then have "z \<in> set ys \<Longrightarrow> k z \<noteq> k x" for z using ord(2) [of z] by auto
    with False Cons ord(3) eq show ?thesis by (auto simp: assms(1))
  qed
qed

lemma compact_slice_least:
  fixes key :: "'a \<Rightarrow> 'k::linorder" and k :: "'a \<Rightarrow> 'i::linorder"
  assumes "\<And>a b. same a b \<longleftrightarrow> k a = k b" and "\<And>a b. key a \<le> key b \<Longrightarrow> k a \<le> k b"
    and "inj key" and "sorted (map key xs)"
  shows "e \<in> set (compact_slice same xs) \<longleftrightarrow>
    e \<in> set xs \<and> (\<forall>e' \<in> set xs. k e' = k e \<longrightarrow> key e \<le> key e')"
proof (cases xs)
  case Nil
  then show ?thesis by simp
next
  case (Cons x ys)
  with assms(4) have least: "z \<in> set ys \<Longrightarrow> key x \<le> key z" for z by auto
  then have "key z \<le> key x \<Longrightarrow> z \<in> set ys \<Longrightarrow> z = x" for z
    using \<open>inj key\<close> by (meson injD order_antisym)
  with Cons assms least show ?thesis
    by (auto simp: compact_from_least [where k = k and key = key, OF assms(1-3)])
qed

lemma strict_list_unique:
  fixes k :: "'a \<Rightarrow> 'k::linorder"
  assumes "sorted_wrt (<) (map k xs)" "sorted_wrt (<) (map k ys)" "set xs = set ys" "inj k"
  shows "xs = ys"
proof -
  have "map k xs = map k ys"
    using assms(1-3) by (intro sorted_distinct_set_unique) (auto simp: strict_sorted_iff)
  with \<open>inj k\<close> show ?thesis by (simp add: inj_map_eq_map)
qed

end
