(* ===== verification/GoPath.thy ===== *)
theory GoPath
  imports GoStrings
begin

text \<open>
  Go's \<open>path.Clean\<close>, and what it guarantees for rooted paths: the result is a canonical path,
  that is \<open>/\<close> followed by segments none of which is empty, \<open>.\<close> or \<open>..\<close>.
\<close>

section \<open>path.Clean\<close>

text \<open>
  The segments of the path are read from the left; \<open>acc\<close> holds the segments kept so far, the
  last one first. \<open>..\<close> removes the last kept segment; in a rooted path a \<open>..\<close> at the root is
  dropped, in a relative one it is kept.
\<close>

fun clean_segs :: "bool \<Rightarrow> string list \<Rightarrow> string list \<Rightarrow> string list" where
  "clean_segs rooted acc [] = rev acc"
| "clean_segs rooted acc (s # ss) =
     (if s = '''' \<or> s = ''.'' then clean_segs rooted acc ss
      else if s = ''..'' then
        (case acc of
           [] \<Rightarrow> clean_segs rooted (if rooted then [] else [s]) ss
         | t # ts \<Rightarrow> if t = ''..'' then clean_segs rooted (s # acc) ss
                     else clean_segs rooted ts ss)
      else clean_segs rooted (s # acc) ss)"

definition path_clean :: "string \<Rightarrow> string" where
  "path_clean p =
     (if p = '''' then ''.''
      else let rooted = has_prefix p ''/'';
               out = join_on ''/'' (clean_segs rooted [] (split_on (CHR ''/'') p))
           in if rooted then CHR ''/'' # out else if out = '''' then ''.'' else out)"

section \<open>Canonical paths\<close>

definition seg_ok :: "string \<Rightarrow> bool" where
  "seg_ok s \<longleftrightarrow> s \<noteq> '''' \<and> s \<noteq> ''.'' \<and> s \<noteq> ''..'' \<and> CHR ''/'' \<notin> set s"

definition of_segs :: "string list \<Rightarrow> string" where
  "of_segs ss = CHR ''/'' # join_on ''/'' ss"

text \<open>The segments of a canonical path.\<close>

definition path_segs :: "string \<Rightarrow> string list" where
  "path_segs p = filter (\<lambda>s. s \<noteq> '''') (split_on (CHR ''/'') p)"

definition canonical_path :: "string \<Rightarrow> bool" where
  "canonical_path p \<longleftrightarrow> has_prefix p ''/'' \<and> list_all seg_ok (path_segs p) \<and> of_segs (path_segs p) = p"

lemma clean_segs_rooted_ok:
  assumes "list_all seg_ok acc" and "\<forall>s \<in> set ss. CHR ''/'' \<notin> set s"
  shows "list_all seg_ok (clean_segs True acc ss)"
  using assms
proof (induction ss arbitrary: acc)
  case Nil
  then show ?case by simp
next
  case (Cons s ss)
  then show ?case
    by (cases acc) (auto simp: seg_ok_def)
qed

lemma clean_segs_id:
  "list_all seg_ok ss \<Longrightarrow> clean_segs r acc ss = rev acc @ ss"
  by (induction ss arbitrary: acc) (auto simp: seg_ok_def)

lemma path_segs_of_segs: "list_all seg_ok ss \<Longrightarrow> path_segs (of_segs ss) = ss"
proof (cases "ss = []")
  case False
  assume ok: "list_all seg_ok ss"
  with False have "split_on (CHR ''/'') (join_on ''/'' ss) = ss"
    by (intro split_join_on) (auto simp: list_all_iff seg_ok_def)
  with ok show ?thesis
    by (auto simp: path_segs_def of_segs_def list_all_iff seg_ok_def intro!: filter_True)
qed (simp add: path_segs_def of_segs_def)

lemma canonical_of_segs: "list_all seg_ok ss \<Longrightarrow> canonical_path (of_segs ss)"
  by (auto simp: canonical_path_def path_segs_of_segs) (simp add: of_segs_def has_prefix_def)

lemma path_clean_rooted:
  "has_prefix p ''/'' \<Longrightarrow> path_clean p = of_segs (clean_segs True [] (split_on (CHR ''/'') p))"
  by (auto simp: path_clean_def of_segs_def has_prefix_def Let_def)

theorem path_clean_canonical: "has_prefix p ''/'' \<Longrightarrow> canonical_path (path_clean p)"
  by (simp add: path_clean_rooted)
    (intro canonical_of_segs clean_segs_rooted_ok, auto dest: split_on_no_sep)

lemma path_clean_canonical_id:
  assumes "canonical_path p"
  shows "path_clean p = p"
proof -
  let ?ss = "path_segs p"
  have p: "has_prefix p ''/''" "list_all seg_ok ?ss" "of_segs ?ss = p"
    using assms by (auto simp: canonical_path_def)
  have "clean_segs True [] (split_on (CHR ''/'') p) = ?ss"
  proof (cases "?ss = []")
    case True
    with p(3) have "p = ''/''" by (simp add: of_segs_def)
    with True show ?thesis by simp
  next
    case False
    with p(2) have "split_on (CHR ''/'') (join_on ''/'' ?ss) = ?ss"
      by (intro split_join_on) (auto simp: list_all_iff seg_ok_def)
    then have "split_on (CHR ''/'') p = [] # ?ss"
      by (subst p(3) [symmetric]) (simp add: of_segs_def)
    with p(2) show ?thesis by (simp add: clean_segs_id)
  qed
  with p show ?thesis by (simp add: path_clean_rooted)
qed

lemma canonical_inj:
  "canonical_path p \<Longrightarrow> canonical_path q \<Longrightarrow> path_segs p = path_segs q \<Longrightarrow> p = q"
  by (metis canonical_path_def)

lemma canonical_rooted: "canonical_path p \<Longrightarrow> has_prefix p ''/''"
  by (simp add: canonical_path_def)

section \<open>Segment prefixes\<close>

text \<open>
  A string prefix that ends on a segment boundary is a prefix of the segment lists. This is the
  meaning of the program's test \<open>p == prefix || HasPrefix(p, prefix + "/")\<close>.
\<close>

lemma path_segs_append_slash:
  "path_segs (p @ CHR ''/'' # q) = path_segs p @ path_segs q"
proof -
  have "split_on (CHR ''/'') (p @ CHR ''/'' # q)
      = split_on (CHR ''/'') p @ split_on (CHR ''/'') q"
    by (induction p) (auto split: list.splits)
  then show ?thesis by (simp add: path_segs_def)
qed

lemma segs_prefix_iff:
  assumes p: "canonical_path p" and q: "canonical_path q"
  shows "prefix (path_segs q) (path_segs p) \<longleftrightarrow> q = ''/'' \<or> p = q \<or> has_prefix p (q @ ''/'')"
proof
  assume "q = ''/'' \<or> p = q \<or> has_prefix p (q @ ''/'')"
  then consider "q = ''/''" | "p = q" | r where "p = q @ CHR ''/'' # r"
    by (auto simp: has_prefix_def prefix_def)
  then show "prefix (path_segs q) (path_segs p)"
  proof cases
    case 1
    then show ?thesis by (simp add: path_segs_def)
  next
    case 3
    then show ?thesis by (simp add: path_segs_append_slash)
  qed simp
next
  assume "prefix (path_segs q) (path_segs p)"
  then obtain rs where rs: "path_segs p = path_segs q @ rs" by (auto simp: prefix_def)
  have ps: "p = of_segs (path_segs q @ rs)" using p rs by (metis canonical_path_def)
  have qs: "q = of_segs (path_segs q)" using q by (metis canonical_path_def)
  show "q = ''/'' \<or> p = q \<or> has_prefix p (q @ ''/'')"
  proof (cases "path_segs q = [] \<or> rs = []")
    case True
    with ps qs show ?thesis by (auto simp: of_segs_def)
  next
    case False
    then have "p = q @ ''/'' @ join_on ''/'' rs"
      by (subst ps, subst qs) (simp add: of_segs_def join_on_append)
    then show ?thesis by (simp add: has_prefix_def prefix_def)
  qed
qed

end
