(* ===== verification/GoNet.thy ===== *)
theory GoNet
  imports GoPath
begin

text \<open>
  The parts of Go's \<open>net\<close>, \<open>net/netip\<close> and \<open>net/url\<close> packages that the program calls:
  \<open>netip.ParseAddr\<close> and \<open>Addr.String\<close>, \<open>net.ParseIP\<close> with \<open>IsLoopback\<close>/\<open>IsUnspecified\<close>,
  \<open>net.SplitHostPort\<close>, and \<open>url.Parse\<close> with \<open>Hostname\<close> and \<open>Port\<close>. Errors are \<open>None\<close>: the
  program only asks whether there was one. The host rules are those of the toolchain the module
  pins (Go 1.26: a bracketed host is a valid IPv6 address, at most one colon outside brackets).
\<close>

section \<open>Hexadecimal digits\<close>

definition is_hex :: "char \<Rightarrow> bool" where
  "is_hex c \<longleftrightarrow> is_digit c \<or> (65 \<le> code c \<and> code c \<le> 70) \<or> (97 \<le> code c \<and> code c \<le> 102)"

definition hex_val :: "char \<Rightarrow> nat" where
  "hex_val c = (if is_digit c then code c - 48 else if is_upper c then code c - 55 else code c - 87)"

definition hex_num :: "string \<Rightarrow> nat" where
  "hex_num s = foldl (\<lambda>n c. 16 * n + hex_val c) 0 s"

definition hex_digit :: "nat \<Rightarrow> char" where
  "hex_digit n = (if n < 10 then char_of (48 + n) else char_of (87 + n))"

function show_hex :: "nat \<Rightarrow> string" where
  "show_hex n = (if n < 16 then [hex_digit n] else show_hex (n div 16) @ [hex_digit (n mod 16)])"
  by pat_completeness auto
termination
  by (relation "measure id") auto

declare show_hex.simps [simp del]

section \<open>IP addresses\<close>

text \<open>An IPv4 address is its four octets, an IPv6 address its eight 16-bit groups and zone.\<close>

datatype ip_addr = V4 "nat list" | V6 "nat list" string

definition v4_field :: "string \<Rightarrow> nat option" where
  "v4_field s =
     (if s = '''' \<or> \<not> list_all is_digit s \<or> (length s > 1 \<and> hd s = CHR ''0'') \<or> digits_val s > 255
      then None else Some (digits_val s))"

definition parse_v4 :: "string \<Rightarrow> nat list option" where
  "parse_v4 s =
     (let fs = split_on (CHR ''.'') s
      in if length fs = 4 then those (map v4_field fs) else None)"

text \<open>
  The loop of \<open>parseIPv6\<close>: \<open>gs\<close> are the groups read so far, \<open>ell\<close> the position of \<open>::\<close> among
  them. It returns the unread rest, the groups and the position.
\<close>

function parse_v6_loop ::
  "string \<Rightarrow> nat list \<Rightarrow> nat option \<Rightarrow> (string \<times> nat list \<times> nat option) option" where
  "parse_v6_loop s gs ell =
     (if 8 \<le> length gs then Some (s, gs, ell)
      else
        let digits = takeWhile is_hex s; rest = dropWhile is_hex s
        in if digits = '''' \<or> length digits > 4 then None
           else if has_prefix rest ''.'' then
             (if ell = None \<and> length gs \<noteq> 6 then None
              else if length gs + 2 > 8 then None
              else (case parse_v4 s of
                      Some [a, b, c, d] \<Rightarrow> Some ('''', gs @ [256 * a + b, 256 * c + d], ell)
                    | _ \<Rightarrow> None))
           else
             let gs' = gs @ [hex_num digits]
             in (case rest of
                   [] \<Rightarrow> Some ('''', gs', ell)
                 | [c] \<Rightarrow> None
                 | c # d # r \<Rightarrow>
                     if c \<noteq> CHR '':'' then None
                     else if d = CHR '':'' then
                       (if ell \<noteq> None then None
                        else if r = '''' then Some ('''', gs', Some (length gs'))
                        else parse_v6_loop r gs' (Some (length gs')))
                     else parse_v6_loop (d # r) gs' ell))"
  by pat_completeness auto
termination
  by (relation "measure (\<lambda>(s, gs, ell). 8 - length gs)") auto

declare parse_v6_loop.simps [simp del]

definition expand_v6 :: "string \<times> nat list \<times> nat option \<Rightarrow> nat list option" where
  "expand_v6 r =
     (case r of (s, gs, ell) \<Rightarrow>
        if s \<noteq> '''' then None
        else (case ell of
                None \<Rightarrow> if length gs < 8 then None else Some gs
              | Some e \<Rightarrow> if length gs < 8
                          then Some (take e gs @ replicate (8 - length gs) 0 @ drop e gs)
                          else None))"

definition parse_v6 :: "string \<Rightarrow> ip_addr option" where
  "parse_v6 s =
     (let (addr, zone, has_zone) = cut_at (CHR ''%'') s
      in if has_zone \<and> zone = '''' then None
         else if addr = ''::'' then Some (V6 (replicate 8 0) zone)
         else map_option (\<lambda>gs. V6 gs zone)
                (Option.bind
                   (if has_prefix addr ''::'' then parse_v6_loop (drop 2 addr) [] (Some 0)
                    else parse_v6_loop addr [] None)
                   expand_v6))"

text \<open>\<open>ParseAddr\<close> decides by the first of the three bytes \<open>.\<close>, \<open>:\<close> and \<open>%\<close>.\<close>

definition parse_addr :: "string \<Rightarrow> ip_addr option" where
  "parse_addr s =
     (case find (\<lambda>c. c \<in> set ''.:%'') s of
        Some c \<Rightarrow> if c = CHR ''.'' then map_option V4 (parse_v4 s)
                  else if c = CHR '':'' then parse_v6 s else None
      | None \<Rightarrow> None)"

definition show_v4 :: "nat list \<Rightarrow> string" where
  "show_v4 os = join_on ''.'' (map show_nat os)"

text \<open>The first longest run of at least two zero groups, as start and end.\<close>

definition zero_run :: "nat list \<Rightarrow> nat \<times> nat" where
  "zero_run gs =
     foldl (\<lambda>(a, b) i. let l = length (takeWhile (\<lambda>g. g = 0) (drop i gs))
                       in if l \<ge> 2 \<and> l > b - a then (i, i + l) else (a, b))
       (8, 8) [0..<8]"

definition show_groups :: "nat list \<Rightarrow> string" where
  "show_groups gs =
     (let (a, b) = zero_run gs; hex = map show_hex gs
      in if a < 8 then join_on '':'' (take a hex) @ ''::'' @ join_on '':'' (drop b hex)
         else join_on '':'' hex)"

fun show_addr :: "ip_addr \<Rightarrow> string" where
  "show_addr (V4 os) = show_v4 os"
| "show_addr (V6 gs zone) =
     (let body = (if take 6 gs = [0, 0, 0, 0, 0, 65535]
                  then ''::ffff:'' @ show_v4 [gs ! 6 div 256, gs ! 6 mod 256, gs ! 7 div 256, gs ! 7 mod 256]
                  else show_groups gs)
      in body @ (if zone = '''' then '''' else CHR ''%'' # zone))"

text \<open>\<open>net.ParseIP\<close>: the 16-byte form, in which an IPv4 address is its mapped IPv6 address.\<close>

definition parse_ip :: "string \<Rightarrow> nat list option" where
  "parse_ip s =
     (case parse_addr s of
        Some (V4 os) \<Rightarrow> Some ([0, 0, 0, 0, 0, 65535] @ [256 * os ! 0 + os ! 1, 256 * os ! 2 + os ! 3])
      | Some (V6 gs zone) \<Rightarrow> if zone = '''' then Some gs else None
      | None \<Rightarrow> None)"

definition ip_is_v4 :: "nat list \<Rightarrow> bool" where
  "ip_is_v4 ip \<longleftrightarrow> take 6 ip = [0, 0, 0, 0, 0, 65535]"

definition ip_is_loopback :: "nat list \<Rightarrow> bool" where
  "ip_is_loopback ip \<longleftrightarrow>
     (if ip_is_v4 ip then ip ! 6 div 256 = 127 else ip = [0, 0, 0, 0, 0, 0, 0, 1])"

definition ip_is_unspecified :: "nat list \<Rightarrow> bool" where
  "ip_is_unspecified ip \<longleftrightarrow> ip = [0, 0, 0, 0, 0, 65535, 0, 0] \<or> ip = replicate 8 0"

section \<open>Host and port\<close>

text \<open>The last occurrence of a byte: what stands before and after it.\<close>

definition last_cut :: "char \<Rightarrow> string \<Rightarrow> string \<times> string \<times> bool" where
  "last_cut c s = (let (b, a, f) = cut_at c (rev s) in (rev a, rev b, f))"

definition split_host_port :: "string \<Rightarrow> (string \<times> string) option" where
  "split_host_port s =
     (let (h, p, colon) = last_cut (CHR '':'') s
      in if \<not> colon then None
         else if has_prefix s ''['' then
           (let (inside, after, closed) = cut_at (CHR '']'') (tl s)
            in if \<not> closed \<or> after \<noteq> CHR '':'' # p
                  \<or> CHR ''['' \<in> set (tl s) \<or> CHR '']'' \<in> set after
               then None else Some (inside, p))
         else if CHR '':'' \<in> set h \<or> CHR ''['' \<in> set s \<or> CHR '']'' \<in> set s then None
         else Some (h, p))"

definition valid_optional_port :: "string \<Rightarrow> bool" where
  "valid_optional_port p \<longleftrightarrow>
     (case p of [] \<Rightarrow> True | c # ds \<Rightarrow> c = CHR '':'' \<and> list_all is_digit ds)"

section \<open>url.Parse\<close>

record url =
  u_scheme :: string
  u_opaque :: string
  u_user :: bool \<comment> \<open>\<open>User != nil\<close>\<close>
  u_host :: string
  u_path :: string
  u_raw_query :: string
  u_fragment :: string

datatype esc_mode = EncPath | EncHost | EncZone | EncUser | EncFragment

definition unreserved :: "char \<Rightarrow> bool" where
  "unreserved c \<longleftrightarrow> is_alnum c \<or> c \<in> set ''-_.~''"

definition host_must_escape :: "char \<Rightarrow> bool" where
  "host_must_escape c \<longleftrightarrow>
     \<not> (unreserved c \<or> c \<in> set ''!$&()*+,;=:[]<>'' \<or> code c = 39 \<or> code c = 34)"

fun unescape :: "esc_mode \<Rightarrow> string \<Rightarrow> string option" where
  "unescape m [] = Some []"
| "unescape m (c # r) =
     (if c = CHR ''%'' then
        (case r of
           a # b # r' \<Rightarrow>
             let v = char_of (16 * hex_val a + hex_val b); pct = (a = CHR ''2'' \<and> b = CHR ''5'')
             in if \<not> is_hex a \<or> \<not> is_hex b then None
                else if m = EncHost \<and> hex_val a < 8 \<and> \<not> pct then None
                else if m = EncZone \<and> \<not> pct \<and> v \<noteq> CHR '' '' \<and> host_must_escape v then None
                else map_option (\<lambda>t. v # t) (unescape m r')
         | _ \<Rightarrow> None)
      else if (m = EncHost \<or> m = EncZone) \<and> code c < 128 \<and> host_must_escape c then None
      else map_option (\<lambda>t. c # t) (unescape m r))"

text \<open>\<open>getScheme\<close>: \<open>None\<close> is the error "missing protocol scheme".\<close>

fun scan_scheme :: "string \<Rightarrow> string \<Rightarrow> string \<Rightarrow> (string \<times> string) option" where
  "scan_scheme raw acc [] = Some ([], raw)"
| "scan_scheme raw acc (c # r) =
     (if is_upper c \<or> is_lower c then scan_scheme raw (c # acc) r
      else if is_digit c \<or> c \<in> set ''+-.'' then
        (if acc = [] then Some ([], raw) else scan_scheme raw (c # acc) r)
      else if c = CHR '':'' then (if acc = [] then None else Some (rev acc, r))
      else Some ([], raw))"

definition get_scheme :: "string \<Rightarrow> (string \<times> string) option" where
  "get_scheme raw = scan_scheme raw [] raw"

definition valid_userinfo :: "string \<Rightarrow> bool" where
  "valid_userinfo s \<longleftrightarrow>
     list_all (\<lambda>c. is_alnum c \<or> c \<in> set ''-._:~!$&()*+,;=%@'' \<or> code c = 39) s"

text \<open>\<open>strings.Index(hostname, "%25")\<close>: the part before, and the part from there on.\<close>

fun cut_zone :: "string \<Rightarrow> string \<times> string" where
  "cut_zone [] = ([], [])"
| "cut_zone (c # r) =
     (if has_prefix (c # r) ''%25'' then ([], c # r)
      else (let (h, z) = cut_zone r in (c # h, z)))"

definition parse_host :: "string \<Rightarrow> string option" where
  "parse_host h =
     (if CHR ''['' \<in> set h then
        (if \<not> has_prefix h ''['' \<or> CHR ''['' \<in> set (tl h) then None
         else
           let (name, port, closed) = last_cut (CHR '']'') (tl h); (hp, zp) = cut_zone name
           in if \<not> closed \<or> \<not> valid_optional_port port then None
              else (case (unescape EncHost hp, unescape EncZone zp) of
                      (Some a, Some z) \<Rightarrow>
                        (case parse_addr (a @ z) of
                           Some (V6 gs zone) \<Rightarrow> Some (''['' @ a @ z @ '']'' @ port)
                         | _ \<Rightarrow> None)
                    | _ \<Rightarrow> None))
      else if \<not> valid_optional_port (dropWhile (\<lambda>c. c \<noteq> CHR '':'') h) then None
      else unescape EncHost h)"

text \<open>\<open>parseAuthority\<close>: whether there is user information, and the host.\<close>

definition parse_authority :: "string \<Rightarrow> (bool \<times> string) option" where
  "parse_authority a =
     (let (user, h, at) = last_cut (CHR ''@'') a
      in case parse_host h of
           None \<Rightarrow> None
         | Some host \<Rightarrow>
             if \<not> at then Some (False, host)
             else if \<not> valid_userinfo user then None
             else (let (name, pass, f) = cut_at (CHR '':'') user
                   in case (unescape EncUser name, unescape EncUser pass) of
                        (Some _, Some _) \<Rightarrow> Some (True, host)
                      | _ \<Rightarrow> None))"

definition is_ctl :: "char \<Rightarrow> bool" where
  "is_ctl c \<longleftrightarrow> code c < 32 \<or> code c = 127"

definition url_finish :: "url \<Rightarrow> string \<Rightarrow> url option" where
  "url_finish u rest = map_option (\<lambda>p. u\<lparr>u_path := p\<rparr>) (unescape EncPath rest)"

definition url_parse_nofrag :: "string \<Rightarrow> url option" where
  "url_parse_nofrag raw =
     (if list_ex is_ctl raw then None
      else
        let empty = \<lparr>u_scheme = '''', u_opaque = '''', u_user = False, u_host = '''',
                     u_path = '''', u_raw_query = '''', u_fragment = ''''\<rparr>
        in if raw = ''*'' then Some (empty\<lparr>u_path := ''*''\<rparr>)
           else (case get_scheme raw of
              None \<Rightarrow> None
            | Some (sch, after) \<Rightarrow>
                let (rest, query, _) = cut_at (CHR ''?'') after;
                    u = empty\<lparr>u_scheme := to_lower sch, u_raw_query := query\<rparr>
                in if \<not> has_prefix rest ''/'' \<and> sch \<noteq> '''' then Some (u\<lparr>u_opaque := rest\<rparr>)
                   else if \<not> has_prefix rest ''/'' \<and> CHR '':'' \<in> set (fst (cut_at (CHR ''/'') rest)) then None
                   else if (sch \<noteq> '''' \<or> \<not> has_prefix rest ''///'') \<and> has_prefix rest ''//'' then
                     (case parse_authority (takeWhile (\<lambda>c. c \<noteq> CHR ''/'') (drop 2 rest)) of
                        None \<Rightarrow> None
                      | Some (user, host) \<Rightarrow>
                          url_finish (u\<lparr>u_user := user, u_host := host\<rparr>)
                            (dropWhile (\<lambda>c. c \<noteq> CHR ''/'') (drop 2 rest)))
                   else url_finish u rest))"

definition url_parse :: "string \<Rightarrow> url option" where
  "url_parse raw =
     (let (u, frag, _) = cut_at (CHR ''#'') raw
      in case url_parse_nofrag u of
           None \<Rightarrow> None
         | Some x \<Rightarrow>
             if frag = '''' then Some x
             else map_option (\<lambda>f. x\<lparr>u_fragment := f\<rparr>) (unescape EncFragment frag))"

definition is_abs :: "url \<Rightarrow> bool" where
  "is_abs u \<longleftrightarrow> u_scheme u \<noteq> ''''"

definition url_host_port :: "string \<Rightarrow> string \<times> string" where
  "url_host_port hp =
     (let (h, p, colon) = last_cut (CHR '':'') hp;
          (host, port) = (if colon \<and> list_all is_digit p then (h, p) else (hp, ''''));
          bare = (if has_prefix host ''['' \<and> has_suffix host '']''
                  then butlast (tl host) else host)
      in (bare, port))"

definition hostname :: "url \<Rightarrow> string" where
  "hostname u = fst (url_host_port (u_host u))"

definition url_port :: "url \<Rightarrow> string" where
  "url_port u = snd (url_host_port (u_host u))"

lemmas net_defs [go_simps] =
  is_hex_def hex_val_def hex_num_def hex_digit_def v4_field_def parse_v4_def
  expand_v6_def parse_v6_def parse_addr_def show_v4_def zero_run_def show_groups_def
  parse_ip_def last_cut_def split_host_port_def valid_optional_port_def unreserved_def
  host_must_escape_def get_scheme_def valid_userinfo_def parse_host_def parse_authority_def
  is_ctl_def url_finish_def url_parse_nofrag_def url_parse_def is_abs_def url_host_port_def
  hostname_def url_port_def

section \<open>Bounds of parsed addresses\<close>

lemma v4_field_le: "v4_field s = Some n \<Longrightarrow> n \<le> 255"
  by (auto simp: v4_field_def split: if_splits)

lemma those_Some_map: "those (map f xs) = Some ys \<Longrightarrow> length ys = length xs \<and> (\<forall>y \<in> set ys. \<exists>x \<in> set xs. f x = Some y)"
  by (induction xs arbitrary: ys) (fastforce split: option.splits)+

lemma parse_v4_octets: "parse_v4 s = Some os \<Longrightarrow> length os = 4 \<and> (\<forall>n \<in> set os. n \<le> 255)"
  by (auto simp: parse_v4_def Let_def split: if_splits dest!: those_Some_map v4_field_le)

end
