(* ===== verification/AssessTypes.thy ===== *)
theory AssessTypes
  imports GoNet
begin

text \<open>
  The data model of an assessment (\<open>internal/assessment/types.go\<close>): the vocabularies and the
  canonical configuration. Modes, assessment types, target kinds and access kinds are Go string
  types that arrive from the API as free text, so they are strings here too, with the program's
  constants; capabilities and evidence states are only ever produced by the program and are
  datatypes. Integers of the configuration are \<open>int\<close>; Go maps are association lists whose order
  is the iteration order.
\<close>

section \<open>Vocabularies\<close>

definition ModeBlackBox :: string where [simp]: "ModeBlackBox = ''BLACK_BOX''"
definition ModeGrayBox :: string where [simp]: "ModeGrayBox = ''GRAY_BOX''"
definition ModeWhiteBox :: string where [simp]: "ModeWhiteBox = ''WHITE_BOX''"

definition mode_valid :: "string \<Rightarrow> bool" where
  "mode_valid m \<longleftrightarrow> m = ModeBlackBox \<or> m = ModeGrayBox \<or> m = ModeWhiteBox"

definition TypeNetwork :: string where [simp]: "TypeNetwork = ''NETWORK''"
definition TypeWebApplication :: string where [simp]: "TypeWebApplication = ''WEB_APPLICATION''"
definition TypeAPI :: string where [simp]: "TypeAPI = ''API''"
definition TypeSourceCode :: string where [simp]: "TypeSourceCode = ''SOURCE_CODE''"
definition TypeDependencies :: string where [simp]: "TypeDependencies = ''DEPENDENCIES''"
definition TypeContainer :: string where [simp]: "TypeContainer = ''CONTAINER''"
definition TypeHost :: string where [simp]: "TypeHost = ''HOST''"
definition TypeCloud :: string where [simp]: "TypeCloud = ''CLOUD''"
definition TypeKubernetes :: string where [simp]: "TypeKubernetes = ''KUBERNETES''"
definition TypeIaC :: string where [simp]: "TypeIaC = ''INFRASTRUCTURE_AS_CODE''"
definition TypeCompliance :: string where [simp]: "TypeCompliance = ''COMPLIANCE''"

definition AllTypes :: "string list" where
  "AllTypes = [TypeNetwork, TypeWebApplication, TypeAPI, TypeSourceCode, TypeDependencies,
     TypeContainer, TypeHost, TypeCloud, TypeKubernetes, TypeIaC, TypeCompliance]"

definition type_valid :: "string \<Rightarrow> bool" where
  "type_valid t \<longleftrightarrow> t \<in> set AllTypes"

definition KindDomain :: string where [simp]: "KindDomain = ''DOMAIN''"
definition KindURL :: string where [simp]: "KindURL = ''URL''"
definition KindIP :: string where [simp]: "KindIP = ''IP''"
definition KindCIDR :: string where [simp]: "KindCIDR = ''CIDR''"
definition KindRepository :: string where [simp]: "KindRepository = ''REPOSITORY''"
definition KindLocalSourcePath :: string where [simp]: "KindLocalSourcePath = ''LOCAL_SOURCE_PATH''"
definition KindDockerImage :: string where [simp]: "KindDockerImage = ''DOCKER_IMAGE''"
definition KindHost :: string where [simp]: "KindHost = ''HOST''"
definition KindCloudAccount :: string where [simp]: "KindCloudAccount = ''CLOUD_ACCOUNT''"
definition KindKubernetesCluster :: string where [simp]: "KindKubernetesCluster = ''KUBERNETES_CLUSTER''"
definition KindSBOM :: string where [simp]: "KindSBOM = ''SBOM''"

definition AllTargetKinds :: "string list" where
  "AllTargetKinds = [KindDomain, KindURL, KindIP, KindCIDR, KindRepository, KindLocalSourcePath,
     KindDockerImage, KindHost, KindCloudAccount, KindKubernetesCluster, KindSBOM]"

definition kind_valid :: "string \<Rightarrow> bool" where
  "kind_valid k \<longleftrightarrow> k \<in> set AllTargetKinds"

datatype capability =
  CapNetwork | CapWeb | CapAuthWeb | CapAPI | CapSchema | CapSource | CapGit | CapDependency
| CapImage | CapHost | CapSSH | CapWindows | CapCloud | CapKubernetes | CapIaC | CapSBOM

definition AccessApplicationHeaders :: string where [simp]: "AccessApplicationHeaders = ''APPLICATION_HEADERS''"
definition AccessApplicationCookies :: string where [simp]: "AccessApplicationCookies = ''APPLICATION_COOKIES''"
definition AccessBearerToken :: string where [simp]: "AccessBearerToken = ''BEARER_TOKEN''"
definition AccessAPIKey :: string where [simp]: "AccessAPIKey = ''API_KEY''"
definition AccessFormLogin :: string where [simp]: "AccessFormLogin = ''FORM_LOGIN''"
definition AccessRepositoryCreds :: string where [simp]: "AccessRepositoryCreds = ''REPOSITORY_CREDENTIALS''"
definition AccessSSH :: string where [simp]: "AccessSSH = ''SSH''"
definition AccessWindows :: string where [simp]: "AccessWindows = ''WINDOWS''"
definition AccessCloud :: string where [simp]: "AccessCloud = ''CLOUD''"
definition AccessKubernetes :: string where [simp]: "AccessKubernetes = ''KUBERNETES''"

definition AllAccessKinds :: "string list" where
  "AllAccessKinds = [AccessApplicationHeaders, AccessApplicationCookies, AccessBearerToken,
     AccessAPIKey, AccessFormLogin, AccessRepositoryCreds, AccessSSH, AccessWindows, AccessCloud,
     AccessKubernetes]"

definition access_valid :: "string \<Rightarrow> bool" where
  "access_valid a \<longleftrightarrow> a \<in> set AllAccessKinds"

datatype evidence_state =
  StateDeclared | StateAvailable | StateVerified | StateUnavailable | StateFailed | StateExpired

section \<open>Targets, access and evidence\<close>

record target =
  tgt_id :: string
  tgt_kind :: string
  tgt_value :: string
  tgt_branch :: string
  tgt_related_to :: string

record access_binding =
  ab_verify_browser :: bool
  ab_target_ids :: "string list"
  ab_kind :: string
  ab_credential_id :: string
  ab_identity :: string
  ab_role :: string
  ab_verify_url :: string
  ab_verify_marker :: string
  ab_negative_marker :: string
  ab_api_operations :: "string list"

record capability_evidence =
  ev_capability :: capability
  ev_target_id :: string
  ev_reference_id :: string
  ev_access_kind :: string
  ev_state :: evidence_state
  ev_provenance :: string
  ev_reason :: string

section \<open>API inputs and approvals\<close>

record api_definition_binding =
  adb_target_id :: string
  adb_definition_id :: string

record api_operation_input =
  inp_definition_id :: string
  inp_operation_id :: string
  inp_path_params :: "(string \<times> string) list"
  inp_query :: "(string \<times> string) list"
  inp_request_body_ref :: string

record write_approval =
  wa_target_id :: string
  wa_method :: string
  wa_path :: string
  wa_operation_id :: string
  wa_fixture_ref :: string
  wa_content_type :: string
  wa_cleanup_method :: string
  wa_cleanup_path :: string
  wa_cleanup_ref :: string
  wa_cleanup_content_type :: string

record fuzz_approval =
  fz_write :: write_approval \<comment> \<open>the embedded \<open>WriteApproval\<close>\<close>
  fz_scanner :: string
  fz_request_limit :: int
  fz_repeat_testing_approved :: bool

record authorization_expectation =
  ax_operation_id :: string
  ax_identity :: string
  ax_expect :: string
  ax_resource_fixture_ref :: string

record nextjs_scan_options =
  nx_max_pages :: int
  nx_max_scripts :: int
  nx_max_route_checks :: int
  nx_max_requests :: int
  nx_max_response_bytes :: int

record nextjs_action_case =
  nc_id :: string
  nc_identity :: string
  nc_expect :: string
  nc_cross_origin :: bool

record nextjs_action_approval =
  na_id :: string
  na_target_id :: string
  na_fixture_ref :: string
  na_owner_identity :: string
  na_cases :: "nextjs_action_case list"

record nextjs_boundary_approval =
  nb_id :: string
  nb_target_id :: string
  nb_kind :: string
  nb_fixture_ref :: string
  nb_owner_identity :: string
  nb_identity :: string

section \<open>Scope, providers and the configuration\<close>

record approved_origin =
  ao_target_id :: string
  ao_scheme :: string
  ao_host :: string
  ao_port :: int
  ao_path_prefix :: string

record exclusion =
  ex_target_id :: string
  ex_origin :: string
  ex_method :: string
  ex_path_pattern :: string
  ex_reason :: string

definition ProviderSubfinder :: string where [simp]: "ProviderSubfinder = ''subfinder''"
definition ProviderAmass :: string where [simp]: "ProviderAmass = ''amass''"
definition ProviderGau :: string where [simp]: "ProviderGau = ''gau''"
definition ProviderWaybackurls :: string where [simp]: "ProviderWaybackurls = ''waybackurls''"
definition ProviderNone :: string where [simp]: "ProviderNone = ''none''"
definition ProviderTestssl :: string where [simp]: "ProviderTestssl = ''testssl''"
definition ProviderSSLyze :: string where [simp]: "ProviderSSLyze = ''sslyze''"

record discovery_providers =
  dp_subdomain :: "string list"
  dp_historical :: string
  dp_tls :: string

definition historical_authorized :: "discovery_providers option \<Rightarrow> bool" where
  "historical_authorized d =
     (case d of None \<Rightarrow> False
      | Some p \<Rightarrow> let h = to_lower (trim_space (dp_historical p)) in h \<noteq> '''' \<and> h \<noteq> ProviderNone)"

record scanner_selection =
  ss_mode :: string
  ss_variants :: "string list"

record assessment_config =
  cfg_nextjs_boundary_approvals :: "nextjs_boundary_approval list"
  cfg_nextjs_action_approvals :: "nextjs_action_approval list"
  cfg_nextjs :: nextjs_scan_options
  cfg_workflow_version :: string
  cfg_parent_assessment_id :: string
  cfg_parent_plan_fingerprint :: string
  cfg_approval_preview_fingerprint :: string
  cfg_mode :: string
  cfg_types :: "string list"
  cfg_targets :: "target list"
  cfg_access :: "access_binding list"
  cfg_profile :: string
  cfg_scanner_selection :: scanner_selection
  cfg_api_definition_ids :: "string list"
  cfg_api_definitions :: "api_definition_binding list"
  cfg_api_operation_inputs :: "api_operation_input list"
  cfg_fuzz_approvals :: "fuzz_approval list"
  cfg_write_approvals :: "write_approval list"
  cfg_authorization_expectations :: "authorization_expectation list"
  cfg_subdomain_discovery :: bool
  cfg_approved_origins :: "approved_origin list"
  cfg_exclusions :: "exclusion list"
  cfg_test_environment :: bool
  cfg_wapiti_mode :: string
  cfg_discovery_providers :: "discovery_providers option"
  cfg_manual_seeds :: "string list"

text \<open>The zero value of the Go struct.\<close>

definition empty_config :: assessment_config where
  "empty_config = \<lparr>
     cfg_nextjs_boundary_approvals = [], cfg_nextjs_action_approvals = [],
     cfg_nextjs = \<lparr>nx_max_pages = 0, nx_max_scripts = 0, nx_max_route_checks = 0,
                   nx_max_requests = 0, nx_max_response_bytes = 0\<rparr>,
     cfg_workflow_version = '''', cfg_parent_assessment_id = '''',
     cfg_parent_plan_fingerprint = '''', cfg_approval_preview_fingerprint = '''',
     cfg_mode = '''', cfg_types = [], cfg_targets = [], cfg_access = [], cfg_profile = '''',
     cfg_scanner_selection = \<lparr>ss_mode = '''', ss_variants = []\<rparr>,
     cfg_api_definition_ids = [], cfg_api_definitions = [], cfg_api_operation_inputs = [],
     cfg_fuzz_approvals = [], cfg_write_approvals = [], cfg_authorization_expectations = [],
     cfg_subdomain_discovery = False, cfg_approved_origins = [], cfg_exclusions = [],
     cfg_test_environment = False, cfg_wapiti_mode = '''', cfg_discovery_providers = None,
     cfg_manual_seeds = []\<rparr>"

end
