(* ===== verification/AppScope.thy ===== *)
theory AppScope
  imports AssessTypes
begin

text \<open>
  The request boundary of an application (\<open>internal/assessment/scope.go\<close>): normalisation of
  approved origins and exclusions, the scope built from them, the decision \<open>Allows\<close>, the
  exclusion test \<open>Excluded\<close>, and the scope a configuration gives a target. The reasons the Go
  functions return as prose are constructors that carry what the prose names.
\<close>

section \<open>Normalisation of origins\<close>

definition default_port :: "string \<Rightarrow> int" where
  "default_port scheme = (if scheme = ''http'' then 80 else if scheme = ''https'' then 443 else 0)"

definition canonical_host :: "string \<Rightarrow> string" where
  "canonical_host h0 =
     (let h1 = to_lower (trim_space h0);
          h2 = trim_suffix (trim_prefix h1 ''['') '']'';
          h = trim_suffix h2 ''.''
      in case parse_addr h of Some a \<Rightarrow> show_addr a | None \<Rightarrow> h)"

definition clean_path :: "string \<Rightarrow> string" where
  "clean_path p0 =
     (let p = replace_char (CHR 0x5C) (CHR ''/'') p0
      in path_clean (if has_prefix p ''/'' then p else CHR ''/'' # p))"

definition path_within :: "string \<Rightarrow> string \<Rightarrow> bool" where
  "path_within p pre \<longleftrightarrow> pre = '''' \<or> pre = ''/'' \<or> p = pre \<or> has_prefix p (pre @ ''/'')"

definition normalize_origin :: "approved_origin \<Rightarrow> approved_origin \<times> bool" where
  "normalize_origin o0 =
     (let scheme = to_lower (trim_space (ao_scheme o0));
          pre0 = trim_space (ao_path_prefix o0);
          pre = (if pre0 = '''' \<or> \<not> contains_any pre0 ''?#'' then clean_path pre0 else pre0);
          o1 = o0\<lparr>ao_target_id := trim_space (ao_target_id o0), ao_scheme := scheme,
                  ao_host := canonical_host (ao_host o0), ao_path_prefix := pre\<rparr>
      in if default_port scheme = 0 then (o1, False)
         else if ao_port o1 = 0 then (o1\<lparr>ao_port := default_port scheme\<rparr>, True)
         else (o1, True))"

datatype origin_problem =
  OriginScheme | OriginHost | OriginHostPort | OriginPort | OriginPathPrefix

definition valid_origin :: "approved_origin \<Rightarrow> origin_problem option" where
  "valid_origin ori =
     (if default_port (ao_scheme ori) = 0 then Some OriginScheme
      else if ao_host ori = '''' \<or> contains_any (ao_host ori) (CHR 0x09 # ''/?#@ []%'') then Some OriginHost
      else if CHR '':'' \<in> set (ao_host ori) \<and> parse_addr (ao_host ori) = None then Some OriginHostPort
      else if ao_port ori < 1 \<or> ao_port ori > 65535 then Some OriginPort
      else if \<not> has_prefix (ao_path_prefix ori) ''/'' \<or> contains_any (ao_path_prefix ori) ''?#''
      then Some OriginPathPrefix
      else None)"

text \<open>\<open>Origin()\<close> and \<open>String()\<close>.\<close>

definition origin_string :: "approved_origin \<Rightarrow> string" where
  "origin_string ori =
     (let h0 = ao_host ori;
          h1 = (if CHR '':'' \<in> set h0 then ''['' @ h0 @ '']'' else h0);
          h = (if ao_port ori \<noteq> 0 \<and> ao_port ori \<noteq> default_port (ao_scheme ori)
               then h1 @ '':'' @ itoa (ao_port ori) else h1)
      in ao_scheme ori @ ''://'' @ h)"

definition origin_full_string :: "approved_origin \<Rightarrow> string" where
  "origin_full_string ori =
     (if ao_path_prefix ori = '''' \<or> ao_path_prefix ori = ''/'' then origin_string ori @ ''/''
      else origin_string ori @ ao_path_prefix ori)"

datatype parse_origin_error = OriginNotAbsolute | OriginBadPort | OriginNotHTTP | OriginInvalid origin_problem

definition parse_approved_origin :: "string \<Rightarrow> string \<Rightarrow> parse_origin_error + approved_origin" where
  "parse_approved_origin target_id raw =
     (case url_parse (trim_space raw) of
        None \<Rightarrow> Inl OriginNotAbsolute
      | Some u \<Rightarrow>
          if \<not> is_abs u \<or> hostname u = '''' \<or> u_user u then Inl OriginNotAbsolute
          else (case (if url_port u = '''' then Some 0 else atoi (url_port u)) of
              None \<Rightarrow> Inl OriginBadPort
            | Some port \<Rightarrow>
                (let (ori, ok) = normalize_origin \<lparr>ao_target_id = target_id, ao_scheme = u_scheme u,
                       ao_host = hostname u, ao_port = port, ao_path_prefix = u_path u\<rparr>
                 in if \<not> ok then Inl OriginNotHTTP
                    else case valid_origin ori of
                           Some reason \<Rightarrow> Inl (OriginInvalid reason)
                         | None \<Rightarrow> Inr ori)))"

section \<open>Sorted, de-duplicated origins\<close>

definition origin_less :: "approved_origin \<Rightarrow> approved_origin \<Rightarrow> bool" where
  "origin_less a b =
     (if ao_target_id a \<noteq> ao_target_id b then ao_target_id a < ao_target_id b
      else if ao_scheme a \<noteq> ao_scheme b then ao_scheme a < ao_scheme b
      else if ao_host a \<noteq> ao_host b then ao_host a < ao_host b
      else if ao_port a \<noteq> ao_port b then ao_port a < ao_port b
      else ao_path_prefix a < ao_path_prefix b)"

definition sort_dedupe_origins :: "approved_origin list \<Rightarrow> approved_origin list" where
  "sort_dedupe_origins os = compact_slice (\<lambda>ori kept. ori = kept) (sort_slice origin_less os)"

section \<open>Exclusions\<close>

definition normalize_exclusion :: "exclusion \<Rightarrow> exclusion" where
  "normalize_exclusion e =
     (let method0 = to_upper (trim_space (ex_method e));
          method = (if method0 = ''*'' then '''' else method0);
          origin0 = trim_space (ex_origin e);
          origin = (if origin0 = '''' then origin0
                    else case parse_approved_origin '''' origin0 of
                           Inr ori \<Rightarrow> if ao_path_prefix ori = ''/'' then origin_string ori else origin0
                         | Inl _ \<Rightarrow> origin0);
          pat0 = trim_space (ex_path_pattern e);
          pat = (if has_prefix pat0 ''/'' \<and> \<not> contains_any pat0 ''?#'' then clean_path pat0 else pat0)
      in e\<lparr>ex_target_id := trim_space (ex_target_id e), ex_method := method,
           ex_reason := trim_space (ex_reason e), ex_origin := origin, ex_path_pattern := pat\<rparr>)"

definition normalize_exclusions :: "exclusion list \<Rightarrow> exclusion list" where
  "normalize_exclusions es = map normalize_exclusion es"

definition exclusion_less :: "exclusion \<Rightarrow> exclusion \<Rightarrow> bool" where
  "exclusion_less a b =
     (if ex_target_id a \<noteq> ex_target_id b then ex_target_id a < ex_target_id b
      else if ex_origin a \<noteq> ex_origin b then ex_origin a < ex_origin b
      else if ex_method a \<noteq> ex_method b then ex_method a < ex_method b
      else if ex_path_pattern a \<noteq> ex_path_pattern b then ex_path_pattern a < ex_path_pattern b
      else ex_reason a < ex_reason b)"

definition same_exclusion :: "exclusion \<Rightarrow> exclusion \<Rightarrow> bool" where
  "same_exclusion e last_kept \<longleftrightarrow>
     ex_target_id e = ex_target_id last_kept \<and> ex_origin e = ex_origin last_kept
     \<and> ex_method e = ex_method last_kept \<and> ex_path_pattern e = ex_path_pattern last_kept"

definition sort_dedupe_exclusions :: "exclusion list \<Rightarrow> exclusion list" where
  "sort_dedupe_exclusions es = compact_slice same_exclusion (sort_slice exclusion_less es)"

section \<open>The path expression of an exclusion\<close>

text \<open>
  \<open>PathRegex\<close> builds the text of a Go regular expression; \<open>compile_re\<close> reads the fragment of
  RE2's syntax that such a text uses, and \<open>re_match\<close> is its meaning: letters match in either
  case, \<open>.\<close> matches any byte but a newline, and the final group matches the end of the text or
  \<open>/\<close> and a rest without a newline.
\<close>

definition quote_meta :: "string \<Rightarrow> string" where
  "quote_meta s =
     concat (map (\<lambda>c. if c \<in> set (CHR 0x5C # ''.+*?()|[]{}^$'') then [CHR 0x5C, c] else [c]) s)"

definition path_regex :: "exclusion \<Rightarrow> string" where
  "path_regex e =
     (let pat = trim_suffix (clean_path (ex_path_pattern e)) ''/'';
          parts = map quote_meta (split_on (CHR ''*'') pat)
      in ''(?i)^'' @ join_on ''.*'' parts @ ''(?:/.*)?$'')"

datatype re_token = ReLit char | ReAny

fun parse_re :: "string \<Rightarrow> re_token list option" where
  "parse_re [] = None"
| "parse_re (c # r) =
     (if c # r = ''(?:/.*)?$'' then Some []
      else if c = CHR 0x5C then
        (case r of d # r' \<Rightarrow> map_option (\<lambda>ts. ReLit d # ts) (parse_re r') | [] \<Rightarrow> None)
      else if c = CHR ''.'' then
        (case r of d # r' \<Rightarrow> if d = CHR ''*'' then map_option (\<lambda>ts. ReAny # ts) (parse_re r') else None
         | [] \<Rightarrow> None)
      else if c \<in> set ''+*?()|[]{}^$'' then None
      else map_option (\<lambda>ts. ReLit c # ts) (parse_re r))"

definition compile_re :: "string \<Rightarrow> re_token list option" where
  "compile_re s = (if has_prefix s ''(?i)^'' then parse_re (drop 5 s) else None)"

text \<open>\<open>MustCompile\<close> panics where \<open>compile_re\<close> is \<open>None\<close>; lemma \<open>path_regex_compiles\<close> shows it never is.\<close>

definition must_compile :: "string \<Rightarrow> re_token list" where
  "must_compile s = the (compile_re s)"

function re_match :: "re_token list \<Rightarrow> string \<Rightarrow> bool" where
  "re_match [] s \<longleftrightarrow> (case s of [] \<Rightarrow> True | c # r \<Rightarrow> c = CHR ''/'' \<and> CHR 0x0A \<notin> set r)"
| "re_match (ReLit c # ts) s \<longleftrightarrow>
     (case s of [] \<Rightarrow> False | d # r \<Rightarrow> lower_char c = lower_char d \<and> re_match ts r)"
| "re_match (ReAny # ts) s \<longleftrightarrow>
     re_match ts s \<or> (case s of [] \<Rightarrow> False | d # r \<Rightarrow> d \<noteq> CHR 0x0A \<and> re_match (ReAny # ts) r)"
  by pat_completeness auto
termination
  by (relation "measures [\<lambda>(ts, s). length ts, \<lambda>(ts, s). length s]") auto

section \<open>The scope\<close>

record app_scope =
  sc_origins :: "approved_origin list"
  sc_exclusions :: "exclusion list"
  sc_exclude_re :: "re_token list list"

definition empty_scope :: app_scope where
  "empty_scope = \<lparr>sc_origins = [], sc_exclusions = [], sc_exclude_re = []\<rparr>"

definition usable_origins :: "approved_origin list \<Rightarrow> approved_origin list" where
  "usable_origins os =
     concat (map (\<lambda>ori. let (n, ok) = normalize_origin ori in if ok \<and> valid_origin n = None then [n] else []) os)"

definition new_app_scope :: "approved_origin list \<Rightarrow> exclusion list \<Rightarrow> app_scope" where
  "new_app_scope os es =
     (let ex = sort_dedupe_exclusions (normalize_exclusions es)
      in \<lparr>sc_origins = sort_dedupe_origins (usable_origins os),
          sc_exclusions = ex,
          sc_exclude_re = map (\<lambda>e. must_compile (path_regex e)) ex\<rparr>)"

text \<open>Decoding a marshalled scope goes through \<open>NewAppScope\<close> again.\<close>

definition scope_json :: "app_scope \<Rightarrow> approved_origin list \<times> exclusion list" where
  "scope_json s = (sc_origins s, sc_exclusions s)"

definition scope_of_json :: "approved_origin list \<times> exclusion list \<Rightarrow> app_scope" where
  "scope_of_json v = new_app_scope (fst v) (snd v)"

section \<open>Destinations and decisions\<close>

record destination =
  d_scheme :: string
  d_host :: string
  d_port :: int
  d_path :: string

datatype dest_error = NotAbsoluteURL | EmbedsCredentials | SchemeNotHTTP string | InvalidPort

definition parse_destination :: "string \<Rightarrow> dest_error + destination" where
  "parse_destination raw =
     (case url_parse (trim_space raw) of
        None \<Rightarrow> Inl NotAbsoluteURL
      | Some u \<Rightarrow>
          let scheme = to_lower (u_scheme u)
          in if \<not> is_abs u \<or> hostname u = '''' then Inl NotAbsoluteURL
             else if u_user u then Inl EmbedsCredentials
             else if scheme \<noteq> ''http'' \<and> scheme \<noteq> ''https'' then Inl (SchemeNotHTTP (u_scheme u))
             else (case (if url_port u = '''' then Some (default_port scheme)
                         else case atoi (url_port u) of
                                None \<Rightarrow> None
                              | Some n \<Rightarrow> if n < 1 \<or> n > 65535 then None else Some n) of
                     None \<Rightarrow> Inl InvalidPort
                   | Some port \<Rightarrow>
                       Inr \<lparr>d_scheme = scheme, d_host = canonical_host (hostname u), d_port = port,
                            d_path = clean_path (u_path u)\<rparr>))"

definition dest_origin :: "destination \<Rightarrow> string" where
  "dest_origin d = origin_string \<lparr>ao_target_id = '''', ao_scheme = d_scheme d, ao_host = d_host d,
                                  ao_port = d_port d, ao_path_prefix = ''''\<rparr>"

datatype allow_reason =
  BadDestination dest_error | NoApprovedOrigins | WithinOrigin string
| OutsidePath string string | NotApprovedOrigin string

definition same_origin :: "approved_origin \<Rightarrow> destination \<Rightarrow> bool" where
  "same_origin ori d \<longleftrightarrow> ao_scheme ori = d_scheme d \<and> ao_host ori = d_host d \<and> ao_port ori = d_port d"

fun allows_loop :: "destination \<Rightarrow> bool \<Rightarrow> approved_origin list \<Rightarrow> bool \<times> allow_reason" where
  "allows_loop d same [] =
     (False, if same then OutsidePath (d_path d) (dest_origin d) else NotApprovedOrigin (dest_origin d))"
| "allows_loop d same (ori # os) =
     (if \<not> same_origin ori d then allows_loop d same os
      else if path_within (d_path d) (ao_path_prefix ori) then (True, WithinOrigin (origin_full_string ori))
      else allows_loop d True os)"

definition allows :: "app_scope \<Rightarrow> string \<Rightarrow> bool \<times> allow_reason" where
  "allows s raw =
     (case parse_destination raw of
        Inl reason \<Rightarrow> (False, BadDestination reason)
      | Inr d \<Rightarrow> if sc_origins s = [] then (False, NoApprovedOrigins)
                 else allows_loop d False (sc_origins s))"

definition target_owns :: "app_scope \<Rightarrow> string \<Rightarrow> destination \<Rightarrow> bool" where
  "target_owns s tid d \<longleftrightarrow>
     list_ex (\<lambda>ori. ao_target_id ori = tid \<and> same_origin ori d
                    \<and> path_within (d_path d) (ao_path_prefix ori)) (sc_origins s)"

datatype exclude_reason = CannotCheck dest_error | Because string

definition exclusion_hits :: "app_scope \<Rightarrow> string \<Rightarrow> destination \<Rightarrow> exclusion \<Rightarrow> re_token list \<Rightarrow> bool" where
  "exclusion_hits s method d e re \<longleftrightarrow>
     \<not> (ex_method e \<noteq> '''' \<and> ex_method e \<noteq> method)
     \<and> \<not> (ex_origin e \<noteq> '''' \<and> ex_origin e \<noteq> dest_origin d)
     \<and> \<not> (ex_target_id e \<noteq> '''' \<and> \<not> target_owns s (ex_target_id e) d)
     \<and> re_match re (d_path d)"

definition exclusion_why :: "exclusion \<Rightarrow> string" where
  "exclusion_why e =
     (if ex_reason e = '''' then ''matches exclusion '' @ ex_path_pattern e else ex_reason e)"

fun excluded_loop ::
  "app_scope \<Rightarrow> string \<Rightarrow> destination \<Rightarrow> (exclusion \<times> re_token list) list \<Rightarrow> exclude_reason option" where
  "excluded_loop s method d [] = None"
| "excluded_loop s method d ((e, re) # es) =
     (if exclusion_hits s method d e re then Some (Because (exclusion_why e))
      else excluded_loop s method d es)"

text \<open>\<open>Some reason\<close> is the Go result \<open>(true, reason)\<close>.\<close>

definition excluded :: "app_scope \<Rightarrow> string \<Rightarrow> string \<Rightarrow> exclude_reason option" where
  "excluded s method0 raw =
     (if sc_exclusions s = [] then None
      else case parse_destination raw of
             Inl reason \<Rightarrow> Some (CannotCheck reason)
           | Inr d \<Rightarrow> excluded_loop s (to_upper (trim_space method0)) d
                        (zip (sc_exclusions s) (sc_exclude_re s)))"

section \<open>The scope of a target\<close>

definition derived_origins :: "target \<Rightarrow> approved_origin list" where
  "derived_origins t =
     (let v = trim_space (tgt_value t); kind = to_upper (trim_space (tgt_kind t))
      in if kind = KindURL then
           (case parse_approved_origin (tgt_id t) v of Inr ori \<Rightarrow> [ori] | Inl _ \<Rightarrow> [])
         else if kind = KindDomain \<or> kind = KindIP \<or> kind = KindHost then
           (case (case split_host_port v of
                    None \<Rightarrow> Some (v, 0)
                  | Some (h, p) \<Rightarrow> (case atoi p of None \<Rightarrow> None | Some n \<Rightarrow> Some (h, n))) of
              None \<Rightarrow> []
            | Some (host, port) \<Rightarrow>
                if host = '''' \<or> contains_any host ''/?#@ '' then []
                else [\<lparr>ao_target_id = tgt_id t, ao_scheme = ''http'', ao_host = host, ao_port = port,
                       ao_path_prefix = ''/''\<rparr>,
                      \<lparr>ao_target_id = tgt_id t, ao_scheme = ''https'', ao_host = host, ao_port = port,
                       ao_path_prefix = ''/''\<rparr>])
         else [])"

definition app_scope_for_target :: "assessment_config \<Rightarrow> string \<Rightarrow> app_scope" where
  "app_scope_for_target cfg tid0 =
     (let tid = trim_space tid0
      in case find (\<lambda>t. trim_space (tgt_id t) = tid) (cfg_targets cfg) of
           None \<Rightarrow> empty_scope
         | Some t \<Rightarrow>
             let own = filter (\<lambda>ori. trim_space (ao_target_id ori) = tid) (cfg_approved_origins cfg);
                 os = (if own = [] then derived_origins t else own);
                 es = filter (\<lambda>e. let id = trim_space (ex_target_id e) in id = '''' \<or> id = tid)
                        (cfg_exclusions cfg)
             in new_app_scope os es)"

section \<open>Comparators\<close>

definition origin_key :: "approved_origin \<Rightarrow> string \<times> string \<times> string \<times> int \<times> string" where
  "origin_key ori = (ao_target_id ori, ao_scheme ori, ao_host ori, ao_port ori, ao_path_prefix ori)"

definition exclusion_key :: "exclusion \<Rightarrow> string \<times> string \<times> string \<times> string \<times> string" where
  "exclusion_key e = (ex_target_id e, ex_origin e, ex_method e, ex_path_pattern e, ex_reason e)"

definition exclusion_id :: "exclusion \<Rightarrow> string \<times> string \<times> string \<times> string" where
  "exclusion_id e = (ex_target_id e, ex_origin e, ex_method e, ex_path_pattern e)"

interpretation origin_ord: keyed_order origin_less origin_key
  by unfold_locales (auto simp: origin_less_def origin_key_def less_prod_def less_le)

interpretation exclusion_ord: keyed_order exclusion_less exclusion_key
  by unfold_locales (auto simp: exclusion_less_def exclusion_key_def less_prod_def less_le)

lemma origin_key_inj: "(a :: approved_origin) = b \<longleftrightarrow> origin_key a = origin_key b"
  by (cases a; cases b) (auto simp: origin_key_def)

lemma same_exclusion_id: "same_exclusion a b \<longleftrightarrow> exclusion_id a = exclusion_id b"
  by (auto simp: same_exclusion_def exclusion_id_def)

lemma exclusion_id_mono: "exclusion_key a \<le> exclusion_key b \<Longrightarrow> exclusion_id a \<le> exclusion_id b"
  by (auto simp: exclusion_key_def exclusion_id_def less_eq_prod_def)

lemma sort_dedupe_origins_strict: "sorted_wrt (<) (map origin_key (sort_dedupe_origins os))"
  unfolding sort_dedupe_origins_def
  by (rule compact_slice_strict [where k = origin_key])
    (auto simp: origin_key_inj origin_ord.sorted_keys)

lemma set_sort_dedupe_origins [simp]: "set (sort_dedupe_origins os) = set os"
proof -
  have "origin_key ` set (sort_dedupe_origins os) = origin_key ` set os"
    unfolding sort_dedupe_origins_def
    by (subst compact_slice_covers [where k = origin_key]) (auto simp: origin_key_inj)
  moreover have "inj origin_key" by (rule injI) (simp add: origin_key_inj)
  ultimately show ?thesis by (simp add: inj_image_eq_iff)
qed

lemma sort_dedupe_exclusions_strict: "sorted_wrt (<) (map exclusion_id (sort_dedupe_exclusions es))"
  unfolding sort_dedupe_exclusions_def
proof (rule compact_slice_strict [where k = exclusion_id])
  have "sorted_wrt (\<lambda>a b. exclusion_id a \<le> exclusion_id b) (sort_slice exclusion_less es)"
    using exclusion_ord.sorted_keys [of es]
    by (auto simp: sorted_map intro: sorted_wrt_mono_rel [rotated] exclusion_id_mono)
  then show "sorted (map exclusion_id (sort_slice exclusion_less es))"
    by (simp add: sorted_map)
qed (simp add: same_exclusion_id)

lemma exclusion_ids_sort_dedupe:
  "exclusion_id ` set (sort_dedupe_exclusions es) = exclusion_id ` set es"
  unfolding sort_dedupe_exclusions_def
  by (subst compact_slice_covers [where k = exclusion_id]) (auto simp: same_exclusion_id)

section \<open>Well-formed scopes\<close>

definition wf_origin :: "approved_origin \<Rightarrow> bool" where
  "wf_origin ori \<longleftrightarrow>
     ao_scheme ori \<in> {''http'', ''https''} \<and> ao_host ori \<noteq> '''' \<and> 1 \<le> ao_port ori \<and> ao_port ori \<le> 65535
     \<and> canonical_path (ao_path_prefix ori)"

definition wf_scope :: "app_scope \<Rightarrow> bool" where
  "wf_scope s \<longleftrightarrow>
     list_all wf_origin (sc_origins s)
     \<and> sorted_wrt (<) (map origin_key (sc_origins s))
     \<and> sorted_wrt (<) (map exclusion_id (sc_exclusions s))
     \<and> sc_exclude_re s = map (\<lambda>e. must_compile (path_regex e)) (sc_exclusions s)"

lemma clean_path_canonical [simp]: "canonical_path (clean_path p)"
  unfolding clean_path_def Let_def by (rule path_clean_canonical) (simp add: has_prefix_def)

lemma default_port_0: "default_port s = 0 \<longleftrightarrow> s \<noteq> ''http'' \<and> s \<noteq> ''https''"
  by (simp add: default_port_def)

lemma normalize_origin_wf:
  assumes "normalize_origin ori = (n, True)" and "valid_origin n = None"
  shows "wf_origin n"
proof -
  from assms(1) have pre: "ao_path_prefix n = clean_path (trim_space (ao_path_prefix ori))
      \<or> contains_any (ao_path_prefix n) ''?#''"
    by (auto simp: normalize_origin_def Let_def split: if_splits)
  with assms(2) show ?thesis
    by (auto simp: wf_origin_def valid_origin_def default_port_0 split: if_splits)
qed

lemma usable_origins_wf: "ori \<in> set (usable_origins os) \<Longrightarrow> wf_origin ori"
  by (auto simp: usable_origins_def normalize_origin_wf split: prod.splits if_splits)

lemma wf_new_app_scope [wf_intros]: "wf_scope (new_app_scope os es)"
  by (auto simp: wf_scope_def new_app_scope_def Let_def list_all_iff sort_dedupe_origins_strict
      sort_dedupe_exclusions_strict usable_origins_wf)

lemma wf_empty_scope [wf_intros]: "wf_scope empty_scope"
  by (simp add: wf_scope_def empty_scope_def)

lemma wf_app_scope_for_target [wf_intros]: "wf_scope (app_scope_for_target cfg tid)"
  by (auto simp: app_scope_for_target_def Let_def intro: wf_intros split: option.split)

lemma parse_destination_path: "parse_destination raw = Inr d \<Longrightarrow> canonical_path (d_path d)"
  by (auto simp: parse_destination_def Let_def split: option.splits if_splits)

lemma parse_destination_port:
  "parse_destination raw = Inr d \<Longrightarrow> d_scheme d \<in> {''http'', ''https''} \<and> 1 \<le> d_port d \<and> d_port d \<le> 65535"
  by (auto simp: parse_destination_def Let_def default_port_def split: option.splits if_splits)

section \<open>The specification of the boundary\<close>

text \<open>
  What an approved origin promises: the destination has its scheme, host and port, and the
  segments of the destination's path begin with the segments of the approved prefix.
\<close>

definition in_boundary :: "approved_origin \<Rightarrow> destination \<Rightarrow> bool" where
  "in_boundary ori d \<longleftrightarrow>
     same_origin ori d \<and> prefix (path_segs (ao_path_prefix ori)) (path_segs (d_path d))"

lemma path_within_segs:
  "canonical_path p \<Longrightarrow> canonical_path q \<Longrightarrow> path_within p q \<longleftrightarrow> prefix (path_segs q) (path_segs p)"
  by (subst segs_prefix_iff) (auto simp: path_within_def canonical_path_def has_prefix_def)

lemma allows_loop_fst:
  "fst (allows_loop d same os) \<longleftrightarrow> (\<exists>ori \<in> set os. same_origin ori d \<and> path_within (d_path d) (ao_path_prefix ori))"
  by (induction os arbitrary: same) auto

lemma allows_iff:
  assumes "wf_scope s"
  shows "fst (allows s raw) \<longleftrightarrow>
    (\<exists>d. parse_destination raw = Inr d \<and> (\<exists>ori \<in> set (sc_origins s). in_boundary ori d))"
proof (cases "parse_destination raw")
  case (Inl e)
  then show ?thesis by (simp add: allows_def)
next
  case (Inr d)
  then have "canonical_path (d_path d)" by (rule parse_destination_path)
  with assms have "path_within (d_path d) (ao_path_prefix ori)
      \<longleftrightarrow> prefix (path_segs (ao_path_prefix ori)) (path_segs (d_path d))"
    if "ori \<in> set (sc_origins s)" for ori
    using that by (auto simp: wf_scope_def list_all_iff wf_origin_def path_within_segs)
  with Inr show ?thesis
    by (auto simp: allows_def allows_loop_fst in_boundary_def)
qed

lemma target_owns_iff:
  assumes "wf_scope s" and "canonical_path (d_path d)"
  shows "target_owns s tid d \<longleftrightarrow> (\<exists>ori \<in> set (sc_origins s). ao_target_id ori = tid \<and> in_boundary ori d)"
  using assms
  by (auto simp: target_owns_def list_ex_iff wf_scope_def list_all_iff wf_origin_def
      in_boundary_def path_within_segs)

lemma set_sc_origins: "set (sc_origins (new_app_scope os es)) = set (usable_origins os)"
  by (simp add: new_app_scope_def Let_def)

lemma usable_origins_append [simp]: "usable_origins (os @ os') = usable_origins os @ usable_origins os'"
  by (simp add: usable_origins_def)

lemma set_usable_origins:
  "set (usable_origins os) = {n. \<exists>ori \<in> set os. normalize_origin ori = (n, True) \<and> valid_origin n = None}"
  by (auto simp: usable_origins_def Let_def split: prod.splits if_splits) metis

lemma sc_origins_cong:
  assumes "set os = set os'"
  shows "sc_origins (new_app_scope os es) = sc_origins (new_app_scope os' es')"
proof (rule strict_list_unique [where k = origin_key])
  show "set (sc_origins (new_app_scope os es)) = set (sc_origins (new_app_scope os' es'))"
    using assms by (simp add: set_sc_origins set_usable_origins)
  show "inj origin_key" by (rule injI) (simp add: origin_key_inj)
qed (simp_all add: new_app_scope_def Let_def sort_dedupe_origins_strict)

section \<open>What an exclusion's expression matches\<close>

definition pat_tokens :: "string \<Rightarrow> re_token list" where
  "pat_tokens pat = map (\<lambda>c. if c = CHR ''*'' then ReAny else ReLit c) pat"

definition exclusion_pattern :: "exclusion \<Rightarrow> string" where
  "exclusion_pattern e = trim_suffix (clean_path (ex_path_pattern e)) ''/''"

lemma quote_meta_Cons:
  "quote_meta (c # s) = (if c \<in> set (CHR 0x5C # ''.+*?()|[]{}^$'') then [CHR 0x5C, c] else [c]) @ quote_meta s"
  by (simp add: quote_meta_def)

lemma quote_meta_single:
  "quote_meta [c] = (if c \<in> set (CHR 0x5C # ''.+*?()|[]{}^$'') then [CHR 0x5C, c] else [c])"
  by (simp add: quote_meta_def)

lemma quoted_pattern_Cons:
  "join_on ''.*'' (map quote_meta (split_on (CHR ''*'') (c # s))) =
     (if c = CHR ''*'' then ''.*'' else quote_meta [c]) @ join_on ''.*'' (map quote_meta (split_on (CHR ''*'') s))"
proof -
  obtain t ts where "split_on (CHR ''*'') s = t # ts" by (cases "split_on (CHR ''*'') s") auto
  then show ?thesis
    by (cases ts) (auto simp: quote_meta_Cons [of c t] quote_meta_Cons [of c "[]"] quote_meta_def [of "[]"])
qed

lemma parse_re_pattern:
  "parse_re (join_on ''.*'' (map quote_meta (split_on (CHR ''*'') s)) @ ''(?:/.*)?$'') = Some (pat_tokens s)"
proof (induction s)
  case Nil
  then show ?case by (simp add: quote_meta_def pat_tokens_def)
next
  case (Cons c s)
  have "pat_tokens (c # s) = (if c = CHR ''*'' then ReAny else ReLit c) # pat_tokens s"
    by (simp add: pat_tokens_def)
  with Cons show ?case
    by (simp only: quoted_pattern_Cons quote_meta_single) auto
qed

lemma path_regex_compiles: "compile_re (path_regex e) = Some (pat_tokens (exclusion_pattern e))"
  by (simp add: path_regex_def Let_def compile_re_def has_prefix_def exclusion_pattern_def parse_re_pattern)

lemma must_compile_path_regex [simp]: "must_compile (path_regex e) = pat_tokens (exclusion_pattern e)"
  by (simp add: must_compile_def path_regex_compiles)

lemma re_match_below:
  "re_match ts s \<Longrightarrow> CHR 0x0A \<notin> set r \<Longrightarrow> re_match ts (s @ CHR ''/'' # r)"
proof (induction ts s rule: re_match.induct)
  case (1 s)
  then show ?case by (cases s) auto
next
  case (2 c ts s)
  then show ?case by (cases s) auto
next
  case (3 ts s)
  then show ?case by (cases s) auto
qed

lemma split_lower_Cons:
  "(\<exists>q r. d # t = q @ r \<and> to_lower q = to_lower (c # p) \<and> R r) \<longleftrightarrow>
   lower_char c = lower_char d \<and> (\<exists>q r. t = q @ r \<and> to_lower q = to_lower p \<and> R r)" (is "?l \<longleftrightarrow> ?r")
proof
  assume ?l
  then obtain q r where q: "d # t = q @ r" "to_lower q = to_lower (c # p)" "R r" by blast
  then obtain q' where "q = d # q'" "t = q' @ r" by (cases q) (auto simp: to_lower_def)
  with q show ?r by (auto simp: to_lower_def)
next
  assume ?r
  then obtain q r where "lower_char c = lower_char d" "t = q @ r" "to_lower q = to_lower p" "R r" by blast
  then have "d # t = (d # q) @ r \<and> to_lower (d # q) = to_lower (c # p) \<and> R r"
    by (simp add: to_lower_def)
  then show ?l by blast
qed

lemma re_match_literal:
  assumes "CHR ''*'' \<notin> set p"
  shows "re_match (pat_tokens p) s \<longleftrightarrow>
    (\<exists>q r. s = q @ r \<and> to_lower q = to_lower p \<and> (r = [] \<or> (\<exists>r'. r = CHR ''/'' # r' \<and> CHR 0x0A \<notin> set r')))"
  using assms
proof (induction p arbitrary: s)
  case Nil
  then show ?case by (cases s) (auto simp: pat_tokens_def to_lower_def)
next
  case (Cons c p)
  show ?case
  proof (cases s)
    case Nil
    then show ?thesis using Cons.prems by (auto simp: pat_tokens_def to_lower_def)
  next
    case (Cons d t)
    have "re_match (pat_tokens (c # p)) s \<longleftrightarrow> lower_char c = lower_char d \<and> re_match (pat_tokens p) t"
      using \<open>s = d # t\<close> Cons.prems by (auto simp: pat_tokens_def)
    also have "\<dots> \<longleftrightarrow> (\<exists>q r. s = q @ r \<and> to_lower q = to_lower (c # p)
        \<and> (r = [] \<or> (\<exists>r'. r = CHR ''/'' # r' \<and> CHR 0x0A \<notin> set r')))"
      using Cons.IH [of t] Cons.prems
      by (simp only: \<open>s = d # t\<close> split_lower_Cons) simp
    finally show ?thesis .
  qed
qed

text \<open>
  What a pattern promises, stated without the expression: \<open>*\<close> stands for any run of bytes but a
  newline, every other byte for itself in either case, and the pattern covers the path it
  describes and everything below it that has no newline.
\<close>

inductive glob :: "string \<Rightarrow> string \<Rightarrow> bool" where
  glob_Nil: "glob [] []"
| glob_lit: "c \<noteq> CHR ''*'' \<Longrightarrow> lower_char c = lower_char d \<Longrightarrow> glob p q \<Longrightarrow> glob (c # p) (d # q)"
| glob_star: "CHR 0x0A \<notin> set u \<Longrightarrow> glob p q \<Longrightarrow> glob (CHR ''*'' # p) (u @ q)"

inductive_simps glob_Nil_simp: "glob [] q"
inductive_simps glob_Cons_simp: "glob (c # p) q"

definition at_or_below :: "string \<Rightarrow> string \<Rightarrow> bool" where
  "at_or_below pat p \<longleftrightarrow>
     (\<exists>q r. p = q @ r \<and> glob pat q \<and> (r = [] \<or> (\<exists>r'. r = CHR ''/'' # r' \<and> CHR 0x0A \<notin> set r')))"

lemma at_or_below_Nil: "at_or_below [] p \<longleftrightarrow> re_match [] p"
proof -
  have "glob [] q \<longleftrightarrow> q = []" for q by (auto elim: glob.cases intro: glob.intros)
  then show ?thesis by (cases p) (auto simp: at_or_below_def)
qed

lemma at_or_below_lit:
  assumes "c \<noteq> CHR ''*''"
  shows "at_or_below (c # pat) p \<longleftrightarrow>
    (case p of [] \<Rightarrow> False | d # r \<Rightarrow> lower_char c = lower_char d \<and> at_or_below pat r)"
proof -
  have g: "glob (c # pat) q \<longleftrightarrow> (\<exists>d q'. q = d # q' \<and> lower_char c = lower_char d \<and> glob pat q')" for q
    using assms by (auto elim: glob.cases intro: glob.intros)
  show ?thesis
    unfolding at_or_below_def g by (cases p) (auto simp: Cons_eq_append_conv)
qed

lemma at_or_below_star:
  "at_or_below (CHR ''*'' # pat) p \<longleftrightarrow> (\<exists>u v. p = u @ v \<and> CHR 0x0A \<notin> set u \<and> at_or_below pat v)"
proof -
  have g: "glob (CHR ''*'' # pat) q \<longleftrightarrow> (\<exists>u q'. q = u @ q' \<and> CHR 0x0A \<notin> set u \<and> glob pat q')" for q
    by (auto simp: glob_Cons_simp)
  show ?thesis (is "?l \<longleftrightarrow> ?r")
  proof
    assume ?l
    then obtain s r where "p = s @ r" "glob (CHR ''*'' # pat) s"
      and r: "r = [] \<or> (\<exists>r'. r = CHR ''/'' # r' \<and> CHR 0x0A \<notin> set r')"
      unfolding at_or_below_def by blast
    then obtain u q where "p = u @ (q @ r)" "CHR 0x0A \<notin> set u" "glob pat q"
      unfolding g by (metis append.assoc)
    with r show ?r unfolding at_or_below_def by blast
  next
    assume ?r
    then obtain u q r where "p = (u @ q) @ r" "CHR 0x0A \<notin> set u" "glob pat q"
      "r = [] \<or> (\<exists>r'. r = CHR ''/'' # r' \<and> CHR 0x0A \<notin> set r')"
      by (auto simp: at_or_below_def)
    moreover from this have "glob (CHR ''*'' # pat) (u @ q)" by (blast intro: glob_star)
    ultimately show ?l unfolding at_or_below_def by blast
  qed
qed

lemma re_match_star:
  "re_match (ReAny # ts) s \<longleftrightarrow> (\<exists>u v. s = u @ v \<and> CHR 0x0A \<notin> set u \<and> re_match ts v)"
proof (induction s)
  case Nil
  then show ?case by simp
next
  case (Cons d s)
  have "(\<exists>u v. d # s = u @ v \<and> CHR 0x0A \<notin> set u \<and> re_match ts v) \<longleftrightarrow>
      re_match ts (d # s) \<or> (d \<noteq> CHR 0x0A \<and> (\<exists>u v. s = u @ v \<and> CHR 0x0A \<notin> set u \<and> re_match ts v))"
    (is "?l \<longleftrightarrow> ?r")
  proof
    assume ?l
    then obtain u v where "d # s = u @ v" "CHR 0x0A \<notin> set u" "re_match ts v" by blast
    then show ?r by (cases u) auto
  next
    assume ?r
    then consider "re_match ts (d # s)"
      | u v where "d \<noteq> CHR 0x0A" "s = u @ v" "CHR 0x0A \<notin> set u" "re_match ts v" by blast
    then show ?l
    proof cases
      case 1
      then show ?thesis by (intro exI [of _ "[]"] exI [of _ "d # s"]) simp
    next
      case (2 u v)
      then show ?thesis by (intro exI [of _ "d # u"] exI [of _ v]) simp
    qed
  qed
  with Cons show ?case by simp
qed

lemma re_match_pattern: "re_match (pat_tokens pat) p \<longleftrightarrow> at_or_below pat p"
proof (induction pat arbitrary: p)
  case Nil
  then show ?case by (simp add: at_or_below_Nil pat_tokens_def)
next
  case (Cons c pat)
  show ?case
  proof (cases "c = CHR ''*''")
    case True
    then have "pat_tokens (c # pat) = ReAny # pat_tokens pat" by (simp add: pat_tokens_def)
    with True Cons show ?thesis by (simp only: re_match_star at_or_below_star)
  next
    case False
    then have "pat_tokens (c # pat) = ReLit c # pat_tokens pat" by (simp add: pat_tokens_def)
    with False Cons show ?thesis by (cases p) (simp_all add: at_or_below_lit)
  qed
qed
lemma excluded_loop_Some:
  "(\<exists>y. excluded_loop s m d es = Some y) \<longleftrightarrow> (\<exists>(e, re) \<in> set es. exclusion_hits s m d e re)"
  by (induction s m d es rule: excluded_loop.induct) auto

lemma zip_map_self: "set (zip xs (map f xs)) = {(x, f x) |x. x \<in> set xs}"
  by (induction xs) auto

lemma excluded_iff:
  assumes "wf_scope s"
  shows "excluded s m raw \<noteq> None \<longleftrightarrow>
    sc_exclusions s \<noteq> [] \<and>
    (case parse_destination raw of
       Inl _ \<Rightarrow> True
     | Inr d \<Rightarrow> \<exists>e \<in> set (sc_exclusions s).
                 exclusion_hits s (to_upper (trim_space m)) d e (pat_tokens (exclusion_pattern e)))"
  using assms
  by (auto simp: excluded_def wf_scope_def zip_map_self excluded_loop_Some split: sum.splits)

lemma exclusion_key_inj: "inj exclusion_key"
proof (rule injI)
  fix a b :: exclusion
  assume "exclusion_key a = exclusion_key b"
  then show "a = b" by (cases a; cases b) (simp add: exclusion_key_def)
qed

lemma set_sort_dedupe_exclusions:
  "e \<in> set (sort_dedupe_exclusions es) \<longleftrightarrow>
     e \<in> set es \<and> (\<forall>e' \<in> set es. exclusion_id e' = exclusion_id e \<longrightarrow> exclusion_key e \<le> exclusion_key e')"
  unfolding sort_dedupe_exclusions_def
  by (subst compact_slice_least [where k = exclusion_id and key = exclusion_key])
    (auto simp: same_exclusion_id exclusion_id_mono exclusion_key_inj exclusion_ord.sorted_keys)

lemma sort_dedupe_exclusions_cong:
  assumes "set es = set es'"
  shows "sort_dedupe_exclusions es = sort_dedupe_exclusions es'"
proof (rule strict_list_unique [where k = exclusion_key])
  have "sorted_wrt (<) (map exclusion_key (sort_dedupe_exclusions xs))" for xs
    using sort_dedupe_exclusions_strict [of xs]
    by (auto simp: sorted_wrt_map exclusion_key_def exclusion_id_def less_prod_def
        intro: sorted_wrt_mono_rel [rotated])
  then show "sorted_wrt (<) (map exclusion_key (sort_dedupe_exclusions es))"
    "sorted_wrt (<) (map exclusion_key (sort_dedupe_exclusions es'))" by blast+
  show "set (sort_dedupe_exclusions es) = set (sort_dedupe_exclusions es')"
    using assms by (auto simp: set_sort_dedupe_exclusions)
qed (rule exclusion_key_inj)

lemma new_app_scope_cong:
  assumes "set os = set os'" and "set es = set es'"
  shows "new_app_scope os es = new_app_scope os' es'"
proof -
  have "sort_dedupe_exclusions (normalize_exclusions es) = sort_dedupe_exclusions (normalize_exclusions es')"
    using assms(2) by (intro sort_dedupe_exclusions_cong) (simp add: normalize_exclusions_def)
  with sc_origins_cong [OF assms(1), of es es'] show ?thesis
    by (simp add: new_app_scope_def Let_def)
qed

section \<open>Scopes that are already normal\<close>

lemma sort_dedupe_origins_id:
  assumes "sorted_wrt (<) (map origin_key os)"
  shows "sort_dedupe_origins os = os"
proof -
  from assms have "sorted (map origin_key os)" "distinct (map origin_key os)"
    by (simp_all add: strict_sorted_iff)
  then show ?thesis unfolding sort_dedupe_origins_def
    by (simp add: origin_ord.sort_slice_by_key compact_slice_id [where k = origin_key] origin_key_inj)
qed

lemma sort_dedupe_exclusions_idem [simp]:
  "sort_dedupe_exclusions (sort_dedupe_exclusions es) = sort_dedupe_exclusions es" (is "_ = ?xs")
proof -
  have ids: "sorted_wrt (<) (map exclusion_id ?xs)" by (rule sort_dedupe_exclusions_strict)
  then have "sorted_wrt (<) (map exclusion_key ?xs)"
    by (auto simp: sorted_wrt_map exclusion_key_def exclusion_id_def less_prod_def
        intro: sorted_wrt_mono_rel [rotated])
  then have "sort_slice exclusion_less ?xs = ?xs"
    by (intro exclusion_ord.sort_slice_by_key) (simp add: strict_sorted_iff)
  moreover from ids have "distinct (map exclusion_id ?xs)" by (simp add: strict_sorted_iff)
  then have "compact_slice same_exclusion ?xs = ?xs"
    by (intro compact_slice_id [where k = exclusion_id]) (simp_all add: same_exclusion_id)
  ultimately show ?thesis by (simp add: sort_dedupe_exclusions_def [of ?xs])
qed

lemma usable_origins_fixed:
  assumes "\<And>ori. ori \<in> set os \<Longrightarrow> normalize_origin ori = (ori, True)"
    and "\<And>ori. ori \<in> set os \<Longrightarrow> valid_origin ori = None"
  shows "usable_origins os = os"
  using assms by (induction os) (auto simp: usable_origins_def)

lemma scope_of_json_fixed:
  assumes "s = new_app_scope os es"
    and "\<And>ori. ori \<in> set (sc_origins s) \<Longrightarrow> normalize_origin ori = (ori, True)"
    and "\<And>e. e \<in> set (sc_exclusions s) \<Longrightarrow> normalize_exclusion e = e"
  shows "scope_of_json (scope_json s) = s"
proof -
  have "valid_origin ori = None" if "ori \<in> set (sc_origins s)" for ori
    using that assms(1) by (auto simp: set_sc_origins set_usable_origins)
  then have "usable_origins (sc_origins s) = sc_origins s"
    using assms(2) by (intro usable_origins_fixed) auto
  moreover have "normalize_exclusions (sc_exclusions s) = sc_exclusions s"
    using assms(3) by (simp add: normalize_exclusions_def map_idI)
  ultimately show ?thesis
    unfolding scope_of_json_def scope_json_def
    using assms(1) by (simp add: new_app_scope_def Let_def sort_dedupe_origins_id
        sort_dedupe_origins_strict)
qed

end
