(* ===== verification/ScopeProperties.thy ===== *)
theory ScopeProperties
  imports AppScope
begin

text \<open>
  What the request boundary of \<open>scope.go\<close> guarantees: the decision of \<open>Allows\<close> against the
  segment-wise specification, the scope of a target, the exclusions, and the stability of a scope.
\<close>

text \<open>C1: \<open>Allows\<close> accepts a URL exactly when it parses as an absolute http(s) URL without
  credentials and lies, segment by segment after decoding and dot-segment resolution, in the
  boundary of one of the origins given to \<open>NewAppScope\<close> that could be normalised. Origins that
  cannot be normalised authorise nothing, and no traversal escapes a path prefix.\<close>

theorem allows_refines_boundary:
  "fst (allows (new_app_scope os es) raw) \<longleftrightarrow>
     (\<exists>d. parse_destination raw = Inr d \<and>
        (\<exists>ori n. ori \<in> set os \<and> normalize_origin ori = (n, True) \<and> valid_origin n = None \<and> in_boundary n d))"
proof -
  have "fst (allows (new_app_scope os es) raw) \<longleftrightarrow>
      (\<exists>d. parse_destination raw = Inr d \<and> (\<exists>n \<in> set (usable_origins os). in_boundary n d))"
    by (simp only: allows_iff [OF wf_new_app_scope] set_sc_origins)
  then show ?thesis by (auto simp: set_usable_origins)
qed

lemma in_derived_or_own:
  assumes "app_scope_for_target cfg tid = new_app_scope os es" "fst (allows (new_app_scope os es) raw)"
  shows "\<exists>d n ori. parse_destination raw = Inr d \<and> ori \<in> set os \<and> normalize_origin ori = (n, True) \<and> in_boundary n d"
proof -
  from assms(2) have "\<exists>d. parse_destination raw = Inr d \<and> (\<exists>n \<in> set (usable_origins os). in_boundary n d)"
    by (simp only: allows_iff [OF wf_new_app_scope] set_sc_origins)
  then show ?thesis by (auto simp: set_usable_origins)
qed

lemma target_scope_own_or_derived:
  assumes "fst (allows (app_scope_for_target cfg tid) raw)"
  shows "\<exists>t d n ori. t \<in> set (cfg_targets cfg) \<and> trim_space (tgt_id t) = trim_space tid
    \<and> parse_destination raw = Inr d \<and> normalize_origin ori = (n, True) \<and> in_boundary n d
    \<and> (if \<exists>a \<in> set (cfg_approved_origins cfg). trim_space (ao_target_id a) = trim_space tid
       then ori \<in> set (cfg_approved_origins cfg) \<and> trim_space (ao_target_id ori) = trim_space tid
       else ori \<in> set (derived_origins t))"
proof -
  let ?own = "filter (\<lambda>ori. trim_space (ao_target_id ori) = trim_space tid) (cfg_approved_origins cfg)"
  let ?es = "filter (\<lambda>e. trim_space (ex_target_id e) = '''' \<or> trim_space (ex_target_id e) = trim_space tid)
               (cfg_exclusions cfg)"
  have "app_scope_for_target cfg tid \<noteq> empty_scope"
    using assms by (auto simp: empty_scope_def allows_def split: sum.splits)
  then obtain t where t: "find (\<lambda>t. trim_space (tgt_id t) = trim_space tid) (cfg_targets cfg) = Some t"
    by (auto simp: app_scope_for_target_def Let_def split: option.splits)
  then have mem: "t \<in> set (cfg_targets cfg)" "trim_space (tgt_id t) = trim_space tid"
    by (auto simp: find_Some_iff)
  have scope: "app_scope_for_target cfg tid
      = new_app_scope (if ?own = [] then derived_origins t else ?own) ?es"
    using t by (simp add: app_scope_for_target_def Let_def)
  from in_derived_or_own [OF scope assms [unfolded scope]]
  obtain d n ori where d: "parse_destination raw = Inr d" "normalize_origin ori = (n, True)"
    "in_boundary n d" and ori: "ori \<in> set (if ?own = [] then derived_origins t else ?own)"
    by blast
  have own: "?own = [] \<longleftrightarrow> \<not> (\<exists>a \<in> set (cfg_approved_origins cfg). trim_space (ao_target_id a) = trim_space tid)"
    by (auto simp: filter_empty_conv)
  have "if \<exists>a \<in> set (cfg_approved_origins cfg). trim_space (ao_target_id a) = trim_space tid
       then ori \<in> set (cfg_approved_origins cfg) \<and> trim_space (ao_target_id ori) = trim_space tid
       else ori \<in> set (derived_origins t)"
    using ori own by (auto simp del: filter_empty_conv split: if_splits)
  with d mem show ?thesis by blast
qed

text \<open>whatever a target's scope lets through is inside an origin approved for that very
  target, or, when none is, inside an origin derived from that target's value; in particular an
  id no target of the configuration has authorises nothing.\<close>

theorem target_scope_confined:
  assumes "fst (allows (app_scope_for_target cfg tid) raw)"
  shows "\<exists>t d n ori. t \<in> set (cfg_targets cfg) \<and> trim_space (tgt_id t) = trim_space tid
    \<and> parse_destination raw = Inr d \<and> normalize_origin ori = (n, True) \<and> in_boundary n d
    \<and> (if \<exists>a \<in> set (cfg_approved_origins cfg). trim_space (ao_target_id a) = trim_space tid
       then ori \<in> set (cfg_approved_origins cfg) \<and> trim_space (ao_target_id ori) = trim_space tid
       else ori \<in> set (derived_origins t))"
  by (rule target_scope_own_or_derived [OF assms])

definition sample_target :: target where
  "sample_target = \<lparr>tgt_id = ''t1'', tgt_kind = ''DOMAIN'', tgt_value = ''shop.test'',
     tgt_branch = '''', tgt_related_to = ''''\<rparr>"

definition sample_config :: assessment_config where
  "sample_config = empty_config\<lparr>cfg_targets := [sample_target]\<rparr>"

theorem target_scope_confined_witness:
  "\<exists>t d n ori. t \<in> set (cfg_targets sample_config) \<and> trim_space (tgt_id t) = trim_space ''t1''
    \<and> parse_destination ''https://Shop.test/a'' = Inr d \<and> normalize_origin ori = (n, True) \<and> in_boundary n d
    \<and> (if \<exists>a \<in> set (cfg_approved_origins sample_config). trim_space (ao_target_id a) = trim_space ''t1''
       then ori \<in> set (cfg_approved_origins sample_config) \<and> trim_space (ao_target_id ori) = trim_space ''t1''
       else ori \<in> set (derived_origins t))"
  by (rule target_scope_confined) code_simp

text \<open>A host, domain or IP target without approved origins reaches that host only, over
  http or https, and only on the scheme's default port when its value names none.\<close>

theorem host_target_reaches_host_only:
  assumes "cfg_targets cfg = [t]" "cfg_approved_origins cfg = []"
    "to_upper (trim_space (tgt_kind t)) \<in> {KindDomain, KindIP, KindHost}"
    "split_host_port (trim_space (tgt_value t)) = None"
    "fst (allows (app_scope_for_target cfg (tgt_id t)) raw)"
  shows "\<exists>d. parse_destination raw = Inr d \<and> d_host d = canonical_host (trim_space (tgt_value t))
    \<and> d_port d = default_port (d_scheme d)"
proof -
  obtain d n ori where d: "parse_destination raw = Inr d" and n: "normalize_origin ori = (n, True)" "in_boundary n d"
    and ori: "ori \<in> set (derived_origins t)"
    using target_scope_own_or_derived [OF assms(5)] assms(1,2) by auto
  from ori assms(3,4) have "ao_host ori = trim_space (tgt_value t)" "ao_port ori = 0"
    by (auto simp: derived_origins_def Let_def split: if_splits)
  with n have "d_host d = canonical_host (trim_space (tgt_value t))" "d_port d = default_port (d_scheme d)"
    by (auto simp: normalize_origin_def Let_def in_boundary_def same_origin_def split: if_splits)
  with d show ?thesis by blast
qed

theorem host_target_reaches_host_only_witness:
  "\<exists>d. parse_destination ''https://Shop.test/b'' = Inr d
    \<and> d_host d = canonical_host (trim_space (tgt_value sample_target)) \<and> d_port d = default_port (d_scheme d)"
  by (rule host_target_reaches_host_only [of sample_config sample_target]) code_simp+

text \<open>C2: a request is excluded exactly when the scope has exclusions and either its URL cannot be
  parsed (fail closed), or one of them applies to its method, origin and target and covers its
  path: the path is matched by the pattern or lies below a path that is, in either case of the
  letters, with no newline in what the stars and the part below stand for.\<close>

theorem excluded_meets_spec:
  assumes "s = new_app_scope os es"
  shows "excluded s m raw \<noteq> None \<longleftrightarrow>
    sc_exclusions s \<noteq> [] \<and>
    (case parse_destination raw of
       Inl _ \<Rightarrow> True
     | Inr d \<Rightarrow> (\<exists>e \<in> set (sc_exclusions s).
          (ex_method e = '''' \<or> ex_method e = to_upper (trim_space m))
          \<and> (ex_origin e = '''' \<or> ex_origin e = dest_origin d)
          \<and> (ex_target_id e = '''' \<or> (\<exists>ori \<in> set (sc_origins s). ao_target_id ori = ex_target_id e \<and> in_boundary ori d))
          \<and> at_or_below (exclusion_pattern e) (d_path d)))"
proof -
  have wf: "wf_scope s" using assms by (simp add: wf_new_app_scope)
  show ?thesis
  proof (cases "parse_destination raw")
    case (Inl r)
    with excluded_iff [OF wf] show ?thesis by simp
  next
    case (Inr d)
    from parse_destination_path [OF Inr] excluded_iff [OF wf] Inr wf show ?thesis
      by (simp add: exclusion_hits_def re_match_pattern target_owns_iff)
  qed
qed

definition admin_exclusion :: exclusion where
  "admin_exclusion = \<lparr>ex_target_id = '''', ex_origin = '''', ex_method = '''',
     ex_path_pattern = ''/admin'', ex_reason = ''''\<rparr>"

theorem excluded_meets_spec_witness:
  "let s = new_app_scope [] [admin_exclusion] in
    excluded s ''GET'' ''http://h/Admin/x'' \<noteq> None \<longleftrightarrow>
    sc_exclusions s \<noteq> [] \<and>
    (case parse_destination ''http://h/Admin/x'' of
       Inl _ \<Rightarrow> True
     | Inr d \<Rightarrow> (\<exists>e \<in> set (sc_exclusions s).
          (ex_method e = '''' \<or> ex_method e = to_upper (trim_space ''GET''))
          \<and> (ex_origin e = '''' \<or> ex_origin e = dest_origin d)
          \<and> (ex_target_id e = '''' \<or> (\<exists>ori \<in> set (sc_origins s). ao_target_id ori = ex_target_id e \<and> in_boundary ori d))
          \<and> at_or_below (exclusion_pattern e) (d_path d)))"
  unfolding Let_def by (rule excluded_meets_spec [OF refl])

definition shop_origin :: approved_origin where
  "shop_origin = \<lparr>ao_target_id = ''t1'', ao_scheme = ''https'', ao_host = ''shop.test'', ao_port = 0,
     ao_path_prefix = ''''\<rparr>"

text \<open>an encoded newline below an excluded path escapes the exclusion while the scope still
  allows the request: with the exclusion \<open>/admin\<close> the request for \<open>/admin/x\<close> is excluded, the one
  for \<open>/admin/x%0Ay\<close> is not, and both are inside the approved origin.\<close>

theorem newline_escapes_exclusion:
  "let s = new_app_scope [shop_origin] [admin_exclusion] in
     excluded s ''GET'' ''https://shop.test/admin/x'' \<noteq> None
     \<and> excluded s ''GET'' ''https://shop.test/admin/x%0Ay'' = None
     \<and> fst (allows s ''https://shop.test/admin/x%0Ay'')"
  by code_simp

text \<open>a scope does not depend on the order in which origins and exclusions are written, nor on
  repetitions; its origins and exclusions are strictly sorted (so free of duplicates), every
  origin has scheme http or https, a host, a port from 1 to 65535 and a canonical path prefix.\<close>

theorem scope_order_independent:
  assumes "set os = set os'" and "set es = set es'"
  shows "new_app_scope os es = new_app_scope os' es' \<and> wf_scope (new_app_scope os es)"
  using new_app_scope_cong [OF assms] wf_new_app_scope by blast

theorem scope_order_independent_witness:
  "new_app_scope [shop_origin, shop_origin] [admin_exclusion] = new_app_scope [shop_origin] [admin_exclusion, admin_exclusion]
   \<and> wf_scope (new_app_scope [shop_origin, shop_origin] [admin_exclusion])"
  by (rule scope_order_independent) auto

text \<open>a scope whose origins and exclusions are fixed points of their normalisation survives
  \<open>MarshalJSON\<close> followed by \<open>UnmarshalJSON\<close> unchanged.\<close>

theorem scope_json_roundtrip:
  assumes "s = new_app_scope os es"
    and "list_all (\<lambda>ori. normalize_origin ori = (ori, True)) (sc_origins s)"
    and "list_all (\<lambda>e. normalize_exclusion e = e) (sc_exclusions s)"
  shows "scope_of_json (scope_json s) = s"
  using assms by (intro scope_of_json_fixed) (auto simp: list_all_iff)

theorem scope_json_roundtrip_witness:
  "scope_of_json (scope_json (new_app_scope [shop_origin] [admin_exclusion])) = new_app_scope [shop_origin] [admin_exclusion]"
proof (rule scope_json_roundtrip [OF refl])
  show "list_all (\<lambda>ori. normalize_origin ori = (ori, True)) (sc_origins (new_app_scope [shop_origin] [admin_exclusion]))"
    by code_simp
  show "list_all (\<lambda>e. normalize_exclusion e = e) (sc_exclusions (new_app_scope [shop_origin] [admin_exclusion]))"
    by code_simp
qed

text \<open>The normalisation is not idempotent, so the round trip of C7 needs its hypothesis: a
  host written with two trailing dots loses one dot on each pass, and the decoded scope is a
  different one.\<close>

theorem scope_json_drifts:
  "let s = new_app_scope [shop_origin\<lparr>ao_host := ''shop.test..''\<rparr>] []
   in map ao_host (sc_origins s) = [''shop.test.'']
      \<and> map ao_host (sc_origins (scope_of_json (scope_json s))) = [''shop.test'']"
  by code_simp

end
