(* ===== verification/GoStd.thy ===== *)
theory GoStd
  imports GoNet "HOL-Library.AList"
begin

text \<open>
  Smaller pieces of Go's standard library the program calls: \<open>netip.ParsePrefix\<close>,
  \<open>hex.DecodeString\<close>, the error result of \<open>mime.ParseMediaType\<close>, maps that are filled in a loop,
  and slices de-duplicated by a key.
\<close>

section \<open>Prefixes and hexadecimal\<close>

fun zone_of :: "ip_addr \<Rightarrow> string" where
  "zone_of (V4 os) = ''''"
| "zone_of (V6 gs zone) = zone"

fun max_bits :: "ip_addr \<Rightarrow> int" where
  "max_bits (V4 os) = 32"
| "max_bits (V6 gs zone) = 128"

definition parse_prefix :: "string \<Rightarrow> (ip_addr \<times> int) option" where
  "parse_prefix s =
     (let (addr, bits, slash) = last_cut (CHR ''/'') s
      in if \<not> slash then None
         else case parse_addr addr of
                None \<Rightarrow> None
              | Some ip \<Rightarrow>
                  if zone_of ip \<noteq> '''' then None
                  else if length bits > 1 \<and> (hd bits < CHR ''1'' \<or> CHR ''9'' < hd bits) then None
                  else (case atoi bits of
                          None \<Rightarrow> None
                        | Some n \<Rightarrow> if n < 0 \<or> n > max_bits ip then None else Some (ip, n)))"

fun hex_decode :: "string \<Rightarrow> char list option" where
  "hex_decode [] = Some []"
| "hex_decode [c] = None"
| "hex_decode (a # b # r) =
     (if is_hex a \<and> is_hex b
      then map_option (\<lambda>t. char_of (16 * hex_val a + hex_val b) # t) (hex_decode r) else None)"

lemma hex_decode_Some:
  "hex_decode s = Some bs \<Longrightarrow> length s = 2 * length bs \<and> list_all is_hex s"
  by (induction s arbitrary: bs rule: hex_decode.induct) (auto split: if_splits)

lemma hex_decode_total: "even (length s) \<Longrightarrow> list_all is_hex s \<Longrightarrow> \<exists>bs. hex_decode s = Some bs"
  by (induction s rule: hex_decode.induct) auto

lemma hex_decode_length: "(\<exists>bs. hex_decode s = Some bs \<and> length bs = n) \<longleftrightarrow> length s = 2 * n \<and> list_all is_hex s"
  using hex_decode_Some hex_decode_total [of s] by fastforce

section \<open>Media types\<close>

definition is_tspecial :: "char \<Rightarrow> bool" where
  "is_tspecial c \<longleftrightarrow> c \<in> set (CHR 0x5C # CHR 0x22 # ''()<>@,;:/[]?='')"

definition is_token_char :: "char \<Rightarrow> bool" where
  "is_token_char c \<longleftrightarrow> 32 < code c \<and> code c < 127 \<and> \<not> is_tspecial c"

definition consume_token :: "string \<Rightarrow> string \<times> string" where
  "consume_token v = (takeWhile is_token_char v, dropWhile is_token_char v)"

text \<open>The inside of a quoted string: the value and what follows the closing quote.\<close>

fun consume_quoted :: "string \<Rightarrow> (string \<times> string) option" where
  "consume_quoted [] = None"
| "consume_quoted (c # r) =
     (if c = CHR 0x22 then Some ('''', r)
      else if c = CHR 0x5C \<and> (case r of d # _ \<Rightarrow> is_tspecial d | [] \<Rightarrow> False)
      then (case r of d # r' \<Rightarrow> map_option (\<lambda>(v, rest). (d # v, rest)) (consume_quoted r') | [] \<Rightarrow> None)
      else if c = CHR 0x0D \<or> c = CHR 0x0A then None
      else map_option (\<lambda>(v, rest). (c # v, rest)) (consume_quoted r))"

definition consume_value :: "string \<Rightarrow> string \<times> string" where
  "consume_value v =
     (case v of [] \<Rightarrow> ('''', '''')
      | c # r \<Rightarrow> if c \<noteq> CHR 0x22 then consume_token v
                 else (case consume_quoted r of None \<Rightarrow> ('''', v) | Some x \<Rightarrow> x))"

definition consume_media_param :: "string \<Rightarrow> (string \<times> string \<times> string) option" where
  "consume_media_param v =
     (let r0 = trim_left v
      in if \<not> has_prefix r0 '';'' then None
         else let (param, r1) = consume_token (trim_left (tl r0)); r2 = trim_left r1
              in if param = '''' \<or> \<not> has_prefix r2 ''='' then None
                 else let r3 = trim_left (tl r2); (value, r4) = consume_value r3
                      in if value = '''' \<and> r4 = r3 then None
                         else Some (to_lower param, value, r4))"

lemma consume_token_le: "consume_token v = (t, r) \<Longrightarrow> length r \<le> length v"
  by (auto simp: consume_token_def length_dropWhile_le)

lemma consume_quoted_le: "consume_quoted v = Some (x, r) \<Longrightarrow> length r < length v"
  by (induction v arbitrary: x rule: consume_quoted.induct)
    (fastforce split: if_splits list.splits)+

lemma consume_value_le: "consume_value v = (x, r) \<Longrightarrow> length r \<le> length v"
  by (cases v) (fastforce simp: consume_value_def split: if_splits option.splits
      dest!: consume_quoted_le consume_token_le)+

lemma trim_left_le: "length (trim_left v) \<le> length v"
  by (simp add: trim_left_def length_dropWhile_le)

lemma consume_media_param_less:
  assumes "consume_media_param v = Some (p, x, r)"
  shows "length r < length v"
proof -
  from assms obtain param r1 where r0: "has_prefix (trim_left v) '';''"
    and p: "consume_token (trim_left (tl (trim_left v))) = (param, r1)"
    and q: "has_prefix (trim_left r1) ''=''"
    and c: "consume_value (trim_left (tl (trim_left r1))) = (x, r)"
    by (auto simp: consume_media_param_def Let_def split: if_splits prod.splits)
  have "length r \<le> length (trim_left (tl (trim_left r1)))" by (rule consume_value_le [OF c])
  also have "\<dots> \<le> length (tl (trim_left r1))" by (rule trim_left_le)
  also have "\<dots> < length (trim_left r1)" using q by (cases "trim_left r1") (auto simp: has_prefix_def)
  also have "\<dots> \<le> length r1" by (rule trim_left_le)
  also have "\<dots> \<le> length (trim_left (tl (trim_left v)))" by (rule consume_token_le [OF p])
  also have "\<dots> \<le> length (tl (trim_left v))" by (rule trim_left_le)
  also have "\<dots> \<le> length (trim_left v)" by simp
  also have "\<dots> \<le> length v" by (rule trim_left_le)
  finally show ?thesis .
qed

text \<open>The parameters of a media type; \<open>False\<close> is an error.\<close>

function media_params_ok :: "(string \<times> string) list \<Rightarrow> string \<Rightarrow> bool" where
  "media_params_ok seen v \<longleftrightarrow>
     (let v1 = trim_left v
      in v1 = '''' \<or>
         (case consume_media_param v1 of
            None \<Rightarrow> trim_space v1 = '';''
          | Some (key, value, rest) \<Rightarrow>
              (case map_of seen key of Some old \<Rightarrow> old = value | None \<Rightarrow> True)
              \<and> media_params_ok ((key, value) # seen) rest))"
  by pat_completeness auto
termination
proof (relation "measure (\<lambda>(seen, v). length v)")
  fix seen :: "(string \<times> string) list" and v v1 p y rest key w
  assume "v1 = trim_left v" "consume_media_param v1 = Some p" "(key, y) = p" "(w, rest) = y"
  then have "length rest < length (trim_left v)" by (auto intro: consume_media_param_less)
  then show "(((key, w) # seen, rest), seen, v) \<in> measure (\<lambda>(seen, v). length v)"
    using trim_left_le [of v] by simp
qed simp

declare media_params_ok.simps [simp del]

definition media_type_ok :: "string \<Rightarrow> bool" where
  "media_type_ok v =
     (let base = takeWhile (\<lambda>c. c \<noteq> CHR '';'') v;
          (typ, r) = consume_token (trim_space (to_lower base))
      in typ \<noteq> ''''
         \<and> (r = '''' \<or>
            (has_prefix r ''/'' \<and>
             (let (sub, r') = consume_token (tl r) in sub \<noteq> '''' \<and> r' = '''')))
         \<and> media_params_ok [] (dropWhile (\<lambda>c. c \<noteq> CHR '';'') v))"

section \<open>Maps and keyed slices\<close>

text \<open>A Go map as an association list in the order its keys were first stored.\<close>

fun put :: "'k \<Rightarrow> 'v \<Rightarrow> ('k \<times> 'v) list \<Rightarrow> ('k \<times> 'v) list" where
  "put k v [] = [(k, v)]"
| "put k v ((k', v') # m) = (if k = k' then (k, v) # m else (k', v') # put k v m)"

lemma map_of_put: "map_of (put k v m) = (map_of m)(k \<mapsto> v)"
  by (induction m) auto

lemma keys_put: "fst ` set (put k v m) = insert k (fst ` set m)"
  by (induction k v m rule: put.induct) auto

lemma distinct_put: "distinct (map fst m) \<Longrightarrow> distinct (map fst (put k v m))"
proof (induction k v m rule: put.induct)
  case (2 k v k' v' m)
  then show ?case by (simp add: keys_put)
qed simp

fun uniq_by :: "('a \<Rightarrow> 'k) \<Rightarrow> 'k set \<Rightarrow> 'a list \<Rightarrow> 'a list" where
  "uniq_by key seen [] = []"
| "uniq_by key seen (x # xs) =
     (if key x \<in> seen then uniq_by key seen xs else x # uniq_by key (insert (key x) seen) xs)"

lemma keys_uniq_by: "key ` set (uniq_by key seen xs) = key ` set xs - seen"
  by (induction key seen xs rule: uniq_by.induct) auto

lemma distinct_uniq_by [simp]: "distinct (map key (uniq_by key seen xs))"
proof (induction key seen xs rule: uniq_by.induct)
  case (2 key seen x xs)
  then show ?case using keys_uniq_by [of key "insert (key x) seen" xs] by auto
qed simp

lemma set_uniq_by: "set (uniq_by key seen xs) \<subseteq> set xs"
  by (induction key seen xs rule: uniq_by.induct) auto

end
