(* ===== verification/Normalize.thy ===== *)
theory Normalize
  imports AppScope GoStd
begin

text \<open>
  \<open>Normalize\<close> of \<open>internal/assessment/validate.go\<close> and the approval normalisers of
  \<open>nextjs_actions.go\<close> and \<open>nextjs_boundaries.go\<close>, one definition per section of the function, in
  its order. A nil slice and an empty one are both \<open>[]\<close>. A Go map is the association list of its
  iteration order, which Go leaves open.
\<close>

definition NUL :: char where "NUL = CHR 0x00"

definition normalize_types :: "string list \<Rightarrow> string list" where
  "normalize_types ts =
     uniq_from {} (filter (\<lambda>t. t \<noteq> '''') (map (\<lambda>t. to_upper (trim_space t)) ts))"

definition normalize_target :: "nat \<Rightarrow> target \<Rightarrow> target" where
  "normalize_target i t =
     (let id = trim_space (tgt_id t)
      in t\<lparr>tgt_kind := to_upper (trim_space (tgt_kind t)), tgt_value := trim_space (tgt_value t),
           tgt_id := (if id = '''' then CHR ''t'' # show_nat (i + 1) else id),
           tgt_related_to := trim_space (tgt_related_to t)\<rparr>)"

definition normalize_targets :: "target list \<Rightarrow> target list" where
  "normalize_targets ts = map (\<lambda>(i, t). normalize_target i t) (enumerate 0 ts)"

definition normalize_access :: "access_binding \<Rightarrow> access_binding" where
  "normalize_access ab =
     ab\<lparr>ab_kind := to_upper (trim_space (ab_kind ab)), ab_identity := trim_space (ab_identity ab),
        ab_role := trim_space (ab_role ab)\<rparr>"

definition binding_key :: "api_definition_binding \<Rightarrow> string" where
  "binding_key b = adb_target_id b @ NUL # adb_definition_id b"

definition normalize_bindings :: "api_definition_binding list \<Rightarrow> api_definition_binding list" where
  "normalize_bindings bs =
     uniq_by binding_key {} (map (\<lambda>b. b\<lparr>adb_target_id := trim_space (adb_target_id b),
                                        adb_definition_id := trim_space (adb_definition_id b)\<rparr>) bs)"

definition normalize_input_map :: "(string \<times> string) list \<Rightarrow> (string \<times> string) list" where
  "normalize_input_map m = foldl (\<lambda>out (k, v). put (trim_space k) v out) [] m"

definition normalize_input :: "api_operation_input \<Rightarrow> api_operation_input" where
  "normalize_input x =
     x\<lparr>inp_definition_id := trim_space (inp_definition_id x),
       inp_operation_id := trim_space (inp_operation_id x),
       inp_request_body_ref := to_lower (trim_space (inp_request_body_ref x)),
       inp_path_params := normalize_input_map (inp_path_params x),
       inp_query := normalize_input_map (inp_query x)\<rparr>"

definition input_key :: "api_operation_input \<Rightarrow> string" where
  "input_key x = inp_definition_id x @ NUL # inp_operation_id x"

definition input_less :: "api_operation_input \<Rightarrow> api_operation_input \<Rightarrow> bool" where
  "input_less a b \<longleftrightarrow> input_key a < input_key b"

definition normalize_inputs :: "api_operation_input list \<Rightarrow> api_operation_input list" where
  "normalize_inputs xs = sort_slice input_less (map normalize_input xs)"

definition normalize_write_approval :: "write_approval \<Rightarrow> write_approval" where
  "normalize_write_approval a =
     a\<lparr>wa_target_id := trim_space (wa_target_id a), wa_method := to_upper (trim_space (wa_method a)),
       wa_path := trim_space (wa_path a), wa_operation_id := trim_space (wa_operation_id a),
       wa_fixture_ref := to_lower (trim_space (wa_fixture_ref a)),
       wa_content_type := trim_space (wa_content_type a),
       wa_cleanup_method := to_upper (trim_space (wa_cleanup_method a)),
       wa_cleanup_path := trim_space (wa_cleanup_path a),
       wa_cleanup_ref := to_lower (trim_space (wa_cleanup_ref a)),
       wa_cleanup_content_type := trim_space (wa_cleanup_content_type a)\<rparr>"

definition write_key :: "write_approval \<Rightarrow> string" where
  "write_key a = wa_target_id a @ NUL # wa_method a @ NUL # wa_path a"

definition write_less :: "write_approval \<Rightarrow> write_approval \<Rightarrow> bool" where
  "write_less a b \<longleftrightarrow> write_key a < write_key b"

definition normalize_fuzz :: "fuzz_approval \<Rightarrow> fuzz_approval" where
  "normalize_fuzz f =
     f\<lparr>fz_scanner := to_lower (trim_space (fz_scanner f)), fz_write := normalize_write_approval (fz_write f)\<rparr>"

definition fuzz_key :: "fuzz_approval \<Rightarrow> string" where
  "fuzz_key f = wa_target_id (fz_write f) @ NUL # wa_operation_id (fz_write f)"

definition fuzz_less :: "fuzz_approval \<Rightarrow> fuzz_approval \<Rightarrow> bool" where
  "fuzz_less a b \<longleftrightarrow> fuzz_key a < fuzz_key b"

definition normalize_expectation :: "authorization_expectation \<Rightarrow> authorization_expectation" where
  "normalize_expectation e =
     e\<lparr>ax_operation_id := trim_space (ax_operation_id e), ax_identity := trim_space (ax_identity e),
       ax_expect := to_lower (trim_space (ax_expect e)),
       ax_resource_fixture_ref := to_lower (trim_space (ax_resource_fixture_ref e))\<rparr>"

definition expectation_key :: "authorization_expectation \<Rightarrow> string" where
  "expectation_key e = ax_operation_id e @ NUL # ax_identity e"

definition expectation_less :: "authorization_expectation \<Rightarrow> authorization_expectation \<Rightarrow> bool" where
  "expectation_less a b \<longleftrightarrow> expectation_key a < expectation_key b"

definition normalize_nextjs_case :: "nextjs_action_case \<Rightarrow> nextjs_action_case" where
  "normalize_nextjs_case c =
     c\<lparr>nc_id := trim_space (nc_id c), nc_identity := trim_space (nc_identity c),
       nc_expect := to_lower (trim_space (nc_expect c))\<rparr>"

definition nextjs_action_less :: "nextjs_action_approval \<Rightarrow> nextjs_action_approval \<Rightarrow> bool" where
  "nextjs_action_less a b \<longleftrightarrow> na_target_id a @ NUL # na_id a < na_target_id b @ NUL # na_id b"

definition normalize_nextjs_action_approvals ::
  "nextjs_action_approval list \<Rightarrow> nextjs_action_approval list" where
  "normalize_nextjs_action_approvals xs =
     sort_slice nextjs_action_less
       (map (\<lambda>a. a\<lparr>na_id := trim_space (na_id a), na_target_id := trim_space (na_target_id a),
                    na_owner_identity := trim_space (na_owner_identity a),
                    na_fixture_ref := to_lower (trim_space (na_fixture_ref a)),
                    na_cases := map normalize_nextjs_case (na_cases a)\<rparr>) xs)"

definition nextjs_boundary_less :: "nextjs_boundary_approval \<Rightarrow> nextjs_boundary_approval \<Rightarrow> bool" where
  "nextjs_boundary_less a b \<longleftrightarrow> nb_target_id a @ NUL # nb_id a < nb_target_id b @ NUL # nb_id b"

definition normalize_nextjs_boundary_approvals ::
  "nextjs_boundary_approval list \<Rightarrow> nextjs_boundary_approval list" where
  "normalize_nextjs_boundary_approvals xs =
     sort_slice nextjs_boundary_less
       (map (\<lambda>a. a\<lparr>nb_id := trim_space (nb_id a), nb_target_id := trim_space (nb_target_id a),
                    nb_kind := to_lower (trim_space (nb_kind a)),
                    nb_fixture_ref := to_lower (trim_space (nb_fixture_ref a)),
                    nb_owner_identity := trim_space (nb_owner_identity a),
                    nb_identity := trim_space (nb_identity a)\<rparr>) xs)"

definition normalize_discovery_providers :: "discovery_providers option \<Rightarrow> discovery_providers option" where
  "normalize_discovery_providers d =
     (case d of None \<Rightarrow> None
      | Some p \<Rightarrow>
          let h0 = to_lower (trim_space (dp_historical p));
              h = (if h0 = ProviderNone then '''' else h0);
              tls = to_lower (trim_space (dp_tls p));
              subs = sort_slice (<) (uniq_from {} (filter (\<lambda>x. x \<noteq> '''')
                       (map (\<lambda>x. to_lower (trim_space x)) (dp_subdomain p))))
          in if subs = [] \<and> h = '''' \<and> tls = '''' then None
             else Some \<lparr>dp_subdomain = subs, dp_historical = h, dp_tls = tls\<rparr>)"

definition normalize_origins :: "approved_origin list \<Rightarrow> approved_origin list" where
  "normalize_origins os = sort_dedupe_origins (map (\<lambda>ori. fst (normalize_origin ori)) os)"

definition normalize_seeds :: "string list \<Rightarrow> string list" where
  "normalize_seeds ss = sort_slice (<) (uniq_from {} (filter (\<lambda>s. s \<noteq> '''') (map trim_space ss)))"

definition normalize_selection :: "scanner_selection \<Rightarrow> scanner_selection" where
  "normalize_selection s =
     (let mode = to_lower (trim_space (ss_mode s)) in s\<lparr>ss_mode := (if mode = '''' then ''auto'' else mode)\<rparr>)"

definition normalize_config :: "assessment_config \<Rightarrow> assessment_config" where
  "normalize_config cfg =
     cfg\<lparr>cfg_mode := to_upper (trim_space (cfg_mode cfg)),
         cfg_types := normalize_types (cfg_types cfg),
         cfg_targets := normalize_targets (cfg_targets cfg),
         cfg_access := map normalize_access (cfg_access cfg),
         cfg_api_definition_ids := uniq_from {} (map trim_space (cfg_api_definition_ids cfg)),
         cfg_api_definitions := normalize_bindings (cfg_api_definitions cfg),
         cfg_api_operation_inputs := normalize_inputs (cfg_api_operation_inputs cfg),
         cfg_nextjs_boundary_approvals := normalize_nextjs_boundary_approvals (cfg_nextjs_boundary_approvals cfg),
         cfg_nextjs_action_approvals := normalize_nextjs_action_approvals (cfg_nextjs_action_approvals cfg),
         cfg_write_approvals := sort_slice write_less (map normalize_write_approval (cfg_write_approvals cfg)),
         cfg_fuzz_approvals := sort_slice fuzz_less (map normalize_fuzz (cfg_fuzz_approvals cfg)),
         cfg_authorization_expectations :=
           sort_slice expectation_less (map normalize_expectation (cfg_authorization_expectations cfg)),
         cfg_scanner_selection := normalize_selection (cfg_scanner_selection cfg),
         cfg_approved_origins := normalize_origins (cfg_approved_origins cfg),
         cfg_exclusions := sort_dedupe_exclusions (normalize_exclusions (cfg_exclusions cfg)),
         cfg_discovery_providers := normalize_discovery_providers (cfg_discovery_providers cfg),
         cfg_manual_seeds := normalize_seeds (cfg_manual_seeds cfg)\<rparr>"

section \<open>The comparators are key orders\<close>

interpretation input_ord: keyed_order input_less input_key
  by unfold_locales (simp add: input_less_def)

interpretation write_ord: keyed_order write_less write_key
  by unfold_locales (simp add: write_less_def)

interpretation fuzz_ord: keyed_order fuzz_less fuzz_key
  by unfold_locales (simp add: fuzz_less_def)

interpretation expectation_ord: keyed_order expectation_less expectation_key
  by unfold_locales (simp add: expectation_less_def)

interpretation action_ord: keyed_order nextjs_action_less "\<lambda>a. na_target_id a @ NUL # na_id a"
  by unfold_locales (simp add: nextjs_action_less_def)

interpretation boundary_ord: keyed_order nextjs_boundary_less "\<lambda>a. nb_target_id a @ NUL # nb_id a"
  by unfold_locales (simp add: nextjs_boundary_less_def)

interpretation string_ord: keyed_order "(<) :: string \<Rightarrow> string \<Rightarrow> bool" "\<lambda>s. s"
  by unfold_locales simp

section \<open>Normalising twice\<close>

lemma filter_id: "(\<And>x. x \<in> set xs \<Longrightarrow> P x) \<Longrightarrow> filter P xs = xs"
  by (induction xs) auto

lemma uniq_filter_map_fixed:
  assumes "\<And>x. f (f x) = f x"
  shows "uniq_from {} (filter P (map f (uniq_from {} (filter P (map f xs))))) = uniq_from {} (filter P (map f xs))"
proof -
  let ?u = "uniq_from {} (filter P (map f xs))"
  have "map f ?u = ?u" by (rule map_idI) (auto simp: assms)
  then have "filter P (map f ?u) = ?u" by (simp add: filter_id)
  then show ?thesis by simp
qed

lemma normalize_types_idem: "normalize_types (normalize_types ts) = normalize_types ts"
  unfolding normalize_types_def
  by (rule uniq_filter_map_fixed) (simp add: trim_space_to_upper)

lemma enumerate_map_enumerate:
  "map (\<lambda>(i, t). f i t) (enumerate n (map (\<lambda>(i, t). g i t) (enumerate n xs))) =
   map (\<lambda>(i, t). f i (g i t)) (enumerate n xs)"
  by (induction xs arbitrary: n) auto

lemma show_nat_trimmed: "trim_space (CHR ''t'' # show_nat n) = CHR ''t'' # show_nat n"
proof (rule trim_space_trimmed)
  have "list_all is_digit (show_nat n)" by (rule show_nat_digits)
  then have "is_digit (last (show_nat n))"
    by (simp add: list_all_iff last_in_set)
  then have "\<not> is_space (last (show_nat n))"
    by (auto simp: is_digit_def is_space_def)
  then show "trimmed (CHR ''t'' # show_nat n)"
    by (simp add: trimmed_def is_space_def code_def)
qed

lemma normalize_target_idem: "normalize_target i (normalize_target i t) = normalize_target i t"
  by (cases t) (auto simp: normalize_target_def Let_def trim_space_to_upper show_nat_trimmed)

lemma normalize_targets_idem: "normalize_targets (normalize_targets ts) = normalize_targets ts"
  by (simp add: normalize_targets_def enumerate_map_enumerate normalize_target_idem)

lemma normalize_access_idem: "normalize_access (normalize_access ab) = normalize_access ab"
  by (simp add: normalize_access_def trim_space_to_upper)

lemma uniq_by_id: "distinct (map key xs) \<Longrightarrow> key ` set xs \<inter> seen = {} \<Longrightarrow> uniq_by key seen xs = xs"
  by (induction key seen xs rule: uniq_by.induct) auto

lemma normalize_bindings_idem: "normalize_bindings (normalize_bindings bs) = normalize_bindings bs"
proof -
  let ?f = "\<lambda>b. b\<lparr>adb_target_id := trim_space (adb_target_id b), adb_definition_id := trim_space (adb_definition_id b)\<rparr>"
  let ?u = "uniq_by binding_key {} (map ?f bs)"
  have "map ?f ?u = ?u"
    by (rule map_idI) (use set_uniq_by [of binding_key "{}" "map ?f bs"] in auto)
  then show ?thesis
    unfolding normalize_bindings_def by (simp only:) (rule uniq_by_id, simp_all)
qed

lemma foldl_put_distinct:
  assumes "distinct (map fst m)" "fst ` set m \<inter> fst ` set acc = {}"
  shows "foldl (\<lambda>out (k, v). put k v out) acc m = acc @ m"
  using assms
proof (induction m arbitrary: acc)
  case Nil
  then show ?case by simp
next
  case (Cons p m)
  have new: "k \<notin> fst ` set acc \<Longrightarrow> put k v acc = acc @ [(k, v)]" for k :: 'a and v :: 'b
    by (induction k v acc rule: put.induct) auto
  obtain k v where "p = (k, v)" by (cases p)
  with Cons.prems new [of k v] Cons.IH [of "acc @ [(k, v)]"] show ?case by auto
qed

lemma normalize_input_map_keys:
  "distinct (map fst (normalize_input_map m)) \<and> (\<forall>k \<in> fst ` set (normalize_input_map m). trim_space k = k)"
proof -
  have "distinct (map fst out) \<Longrightarrow> (\<forall>k \<in> fst ` set out. trim_space k = k) \<Longrightarrow>
      distinct (map fst (foldl (\<lambda>out (k, v). put (trim_space k) v out) out m)) \<and>
      (\<forall>k \<in> fst ` set (foldl (\<lambda>out (k, v). put (trim_space k) v out) out m). trim_space k = k)" for out
  proof (induction m arbitrary: out)
    case (Cons p m)
    show ?case
    proof (cases p)
      case (Pair k v)
      have "distinct (map fst (put (trim_space k) v out))" by (rule distinct_put) (rule Cons.prems)
      moreover have "\<forall>x \<in> fst ` set (put (trim_space k) v out). trim_space x = x"
        using Cons.prems(2) by (simp add: keys_put)
      ultimately show ?thesis unfolding Pair foldl_Cons prod.case by (rule Cons.IH)
    qed
  qed simp
  from this [of "[]"] show ?thesis by (simp add: normalize_input_map_def)
qed

lemma normalize_input_map_idem: "normalize_input_map (normalize_input_map m) = normalize_input_map m"
proof -
  have "foldl (\<lambda>out (k, v). put (trim_space k) v out) acc xs = foldl (\<lambda>out (k, v). put k v out) acc xs"
    if "\<forall>k \<in> fst ` set xs. trim_space k = k" for acc xs :: "(string \<times> string) list"
    using that by (induction xs arbitrary: acc) auto
  with normalize_input_map_keys [of m] show ?thesis
    by (simp add: normalize_input_map_def [of "normalize_input_map m"] foldl_put_distinct)
qed

lemma normalize_input_idem: "normalize_input (normalize_input x) = normalize_input x"
  by (simp add: normalize_input_def trim_space_to_lower normalize_input_map_idem)

lemma normalize_write_approval_idem:
  "normalize_write_approval (normalize_write_approval a) = normalize_write_approval a"
  by (simp add: normalize_write_approval_def trim_space_to_lower trim_space_to_upper)

lemma normalize_fuzz_idem: "normalize_fuzz (normalize_fuzz f) = normalize_fuzz f"
  by (simp add: normalize_fuzz_def trim_space_to_lower normalize_write_approval_idem)

lemma normalize_expectation_idem: "normalize_expectation (normalize_expectation e) = normalize_expectation e"
  by (simp add: normalize_expectation_def trim_space_to_lower)

lemma normalize_nextjs_case_idem: "normalize_nextjs_case (normalize_nextjs_case c) = normalize_nextjs_case c"
  by (simp add: normalize_nextjs_case_def trim_space_to_lower)

lemma normalize_action_approvals_idem:
  "normalize_nextjs_action_approvals (normalize_nextjs_action_approvals xs) = normalize_nextjs_action_approvals xs"
  unfolding normalize_nextjs_action_approvals_def
  by (rule action_ord.sort_slice_map_fixed)
    (simp add: trim_space_to_lower normalize_nextjs_case_idem comp_def)

lemma normalize_boundary_approvals_idem:
  "normalize_nextjs_boundary_approvals (normalize_nextjs_boundary_approvals xs) = normalize_nextjs_boundary_approvals xs"
  unfolding normalize_nextjs_boundary_approvals_def
  by (rule boundary_ord.sort_slice_map_fixed) (simp add: trim_space_to_lower)

lemma sort_uniq_filter_map_fixed:
  assumes "\<And>x. f (f x) = f x"
  shows "sort_slice (<) (uniq_from {} (filter P (map f (sort_slice (<) (uniq_from {} (filter P (map f (xs :: string list)))))))) =
    sort_slice (<) (uniq_from {} (filter P (map f xs)))"
proof -
  let ?s = "sort_slice (<) (uniq_from {} (filter P (map f xs)))"
  have "map f ?s = ?s" by (rule map_idI) (auto simp: assms)
  then have "uniq_from {} (filter P (map f ?s)) = ?s" by (simp add: filter_id uniq_from_id)
  then show ?thesis by simp
qed

lemma normalize_seeds_idem: "normalize_seeds (normalize_seeds ss) = normalize_seeds ss"
  unfolding normalize_seeds_def by (rule sort_uniq_filter_map_fixed) simp

definition normalize_names :: "string list \<Rightarrow> string list" where
  "normalize_names xs =
     sort_slice (<) (uniq_from {} (filter (\<lambda>x. x \<noteq> '''') (map (\<lambda>x. to_lower (trim_space x)) xs)))"

lemma normalize_names_idem: "normalize_names (normalize_names xs) = normalize_names xs"
  unfolding normalize_names_def by (rule sort_uniq_filter_map_fixed) (simp add: trim_space_to_lower)

lemma normalize_providers_fixed:
  assumes "normalize_names subs = subs" "to_lower (trim_space h) = h" "h \<noteq> ProviderNone"
    "to_lower (trim_space tls) = tls" "\<not> (subs = [] \<and> h = '''' \<and> tls = '''')"
  shows "normalize_discovery_providers (Some \<lparr>dp_subdomain = subs, dp_historical = h, dp_tls = tls\<rparr>) =
    Some \<lparr>dp_subdomain = subs, dp_historical = h, dp_tls = tls\<rparr>"
  using assms
  by (simp only: normalize_discovery_providers_def normalize_names_def Let_def option.case
      discovery_providers.simps if_False)

lemma normalize_providers_idem:
  "normalize_discovery_providers (normalize_discovery_providers d) = normalize_discovery_providers d"
proof (cases "normalize_discovery_providers d")
  case None
  then show ?thesis by (simp add: normalize_discovery_providers_def)
next
  case (Some q)
  then obtain p where "d = Some p" by (cases d) (auto simp: normalize_discovery_providers_def)
  let ?h0 = "to_lower (trim_space (dp_historical p))"
  let ?h = "if ?h0 = ProviderNone then '''' else ?h0"
  let ?t = "to_lower (trim_space (dp_tls p))"
  let ?n = "normalize_names (dp_subdomain p)"
  from Some have val: "(if ?n = [] \<and> ?h = '''' \<and> ?t = '''' then None
      else Some \<lparr>dp_subdomain = ?n, dp_historical = ?h, dp_tls = ?t\<rparr>) = Some q"
    by (simp only: \<open>d = Some p\<close> normalize_discovery_providers_def normalize_names_def Let_def option.case)
  then have ne: "\<not> (?n = [] \<and> ?h = '''' \<and> ?t = '''')" by (metis option.distinct(1))
  with val have q: "q = \<lparr>dp_subdomain = ?n, dp_historical = ?h, dp_tls = ?t\<rparr>"
    by (metis option.inject)
  have "to_lower (trim_space ?h) = ?h"
    by (simp add: trim_space_to_lower trim_space_trimmed to_lower_def [of "[]"])
  then show ?thesis
    unfolding Some unfolding q
    by (intro normalize_providers_fixed ne normalize_names_idem)
      (simp_all add: trim_space_to_lower)
qed
lemma normalize_selection_idem: "normalize_selection (normalize_selection s) = normalize_selection s"
proof -
  have "to_lower (trim_space ''auto'') = ''auto''" by code_simp
  then show ?thesis by (simp add: normalize_selection_def Let_def trim_space_to_lower)
qed

end
