(* ===== verification/Validate.thy ===== *)
theory Validate
  imports Normalize
begin

text \<open>
  \<open>Validate\<close> of \<open>internal/assessment/validate.go\<close> with the checks it calls
  (\<open>ValidateNextjsActionApprovals\<close>, \<open>ValidateNextjsBoundaryApprovals\<close>, \<open>validateScopePolicy\<close>,
  \<open>validateModePolicy\<close>), one definition per section in the order of the code. A problem is its
  code and whether it blocks; the prose message is left out. A Go set (\<open>map[string]bool\<close>) is a
  HOL set.
\<close>

record problem =
  pb_code :: string
  pb_blocking :: bool

definition blocking :: "string \<Rightarrow> problem" where
  "blocking c = \<lparr>pb_code = c, pb_blocking = True\<rparr>"

definition advisory :: "string \<Rightarrow> problem" where
  "advisory c = \<lparr>pb_code = c, pb_blocking = False\<rparr>"

text \<open>\<open>if cond { probs = append(probs, p) }\<close>.\<close>

abbreviation flag :: "bool \<Rightarrow> 'p \<Rightarrow> 'p list" where
  "flag c p \<equiv> (if c then [p] else [])"

definition first_blocking :: "problem list \<Rightarrow> problem option" where
  "first_blocking ps = find pb_blocking ps"

definition valid_fixture_ref :: "string \<Rightarrow> bool" where
  "valid_fixture_ref r = (case hex_decode r of Some bs \<Rightarrow> length bs = 32 | None \<Rightarrow> False)"

lemma valid_fixture_ref_code [code]: "valid_fixture_ref r \<longleftrightarrow> length r = 64 \<and> list_all is_hex r"
  using hex_decode_length [of r 32] by (auto simp: valid_fixture_ref_def split: option.splits)

definition line_breaks :: string where
  "line_breaks = [CHR 0x0D, CHR 0x0A, CHR 0x00]"

definition path_breaks :: string where
  "path_breaks = ''?#'' @ line_breaks"

definition internal_access_kind :: "string \<Rightarrow> bool" where
  "internal_access_kind k \<longleftrightarrow>
     k \<in> set [AccessApplicationHeaders, AccessApplicationCookies, AccessBearerToken, AccessAPIKey,
              AccessFormLogin, AccessRepositoryCreds, AccessSSH, AccessWindows, AccessCloud, AccessKubernetes]"

definition internal_resource_kind :: "string \<Rightarrow> bool" where
  "internal_resource_kind k \<longleftrightarrow>
     k \<in> set [KindRepository, KindLocalSourcePath, KindDockerImage, KindCloudAccount, KindKubernetesCluster]"

text \<open>The five access kinds of an application credential.\<close>

definition application_access :: "string \<Rightarrow> bool" where
  "application_access k \<longleftrightarrow>
     k \<in> set [AccessApplicationHeaders, AccessApplicationCookies, AccessBearerToken, AccessAPIKey, AccessFormLogin]"

section \<open>Target values\<close>

datatype target_error =
  URLTargetInvalid | URLTargetPort | IPTargetInvalid | CIDRTargetInvalid | RepositoryList
| RepositoryInvalid | DomainTargetInvalid | HostTargetInvalid

definition url_target_error :: "string \<Rightarrow> target_error option" where
  "url_target_error v =
     (case url_parse v of
        None \<Rightarrow> Some URLTargetInvalid
      | Some u \<Rightarrow>
          if \<not> is_abs u \<or> (to_lower (u_scheme u) \<noteq> ''http'' \<and> to_lower (u_scheme u) \<noteq> ''https'')
             \<or> hostname u = '''' \<or> u_user u \<or> u_fragment u \<noteq> '''' then Some URLTargetInvalid
          else if url_port u \<noteq> '''' then
            (case atoi (url_port u) of
               None \<Rightarrow> Some URLTargetPort
             | Some n \<Rightarrow> if n < 1 \<or> n > 65535 then Some URLTargetPort else None)
          else None)"

definition repository_error :: "string \<Rightarrow> target_error option" where
  "repository_error v =
     (if contains_any v (CHR '' '' # CHR 0x09 # CHR 0x0D # CHR 0x0A # '','') then Some RepositoryList
      else case url_parse v of
             None \<Rightarrow> Some RepositoryInvalid
           | Some u \<Rightarrow>
               if to_lower (u_scheme u) \<noteq> ''https'' \<or> hostname u = '''' \<or> u_user u
                  \<or> u_raw_query u \<noteq> '''' \<or> u_fragment u \<noteq> '''' then Some RepositoryInvalid else None)"

definition validate_target_value :: "string \<Rightarrow> string \<Rightarrow> target_error option" where
  "validate_target_value kind raw =
     (let v = trim_space raw
      in if kind = KindURL then url_target_error v
         else if kind = KindIP then (if parse_addr v = None then Some IPTargetInvalid else None)
         else if kind = KindCIDR then (if parse_prefix v = None then Some CIDRTargetInvalid else None)
         else if kind = KindRepository then repository_error v
         else if kind = KindDomain then
           (if contains_any v ''/:? #'' \<or> v = '''' then Some DomainTargetInvalid else None)
         else if kind = KindHost then (if contains_any v ''/?#'' then Some HostTargetInvalid else None)
         else None)"

section \<open>Next.js approvals\<close>

definition approval_id_ok :: "string \<Rightarrow> bool" where
  "approval_id_ok s \<longleftrightarrow> 1 \<le> length s \<and> length s \<le> 64 \<and> list_all (\<lambda>c. is_alnum c \<or> c \<in> set ''_-'') s"

text \<open>\<open>bound\<close>: the identity has an application credential for the target.\<close>

definition identity_bound :: "assessment_config \<Rightarrow> string \<Rightarrow> string \<Rightarrow> bool" where
  "identity_bound cfg tid name \<longleftrightarrow>
     list_ex (\<lambda>b. ab_identity b = name \<and> tid \<in> set (ab_target_ids b) \<and> ab_credential_id b \<noteq> ''''
                  \<and> application_access (ab_kind b)) (cfg_access cfg)"

definition url_target_known :: "assessment_config \<Rightarrow> string \<Rightarrow> bool" where
  "url_target_known cfg tid \<longleftrightarrow> list_ex (\<lambda>t. tgt_id t = tid \<and> tgt_kind t = KindURL) (cfg_targets cfg)"

definition action_problem :: "string \<Rightarrow> problem" where
  "action_problem c = blocking (''nextjs_action.'' @ c)"

definition case_variant :: "nextjs_action_case \<Rightarrow> string" where
  "case_variant c = nc_identity c @ NUL # (if nc_cross_origin c then ''true'' else ''false'')"

fun action_case_problems ::
  "assessment_config \<Rightarrow> nextjs_action_approval \<Rightarrow> string set \<Rightarrow> string set \<Rightarrow> nat \<Rightarrow>
   nextjs_action_case list \<Rightarrow> problem list" where
  "action_case_problems cfg a ids variants i [] = []"
| "action_case_problems cfg a ids variants i (c # cs) =
     flag (\<not> approval_id_ok (nc_id c) \<or> nc_id c \<in> ids) (action_problem ''case_id'')
     @ flag (case_variant c \<in> variants) (action_problem ''case_duplicate'')
     @ flag (nc_cross_origin c \<and> nc_identity c \<noteq> na_owner_identity a) (action_problem ''origin_identity'')
     @ flag (nc_identity c \<noteq> ''anonymous'' \<and> \<not> identity_bound cfg (na_target_id a) (nc_identity c))
         (action_problem ''identity'')
     @ flag (i > 0 \<and> (nc_expect c \<noteq> ''deny''
                      \<or> (nc_identity c = na_owner_identity a \<and> \<not> nc_cross_origin c)))
         (action_problem ''expectation'')
     @ action_case_problems cfg a (insert (nc_id c) ids) (insert (case_variant c) variants) (i + 1) cs"

definition action_cases_problems :: "assessment_config \<Rightarrow> nextjs_action_approval \<Rightarrow> problem list" where
  "action_cases_problems cfg a =
     (if length (na_cases a) < 2 \<or> length (na_cases a) > 8 then [action_problem ''cases'']
      else (let first = hd (na_cases a)
            in flag (nc_identity first \<noteq> na_owner_identity a \<or> nc_expect first \<noteq> ''allow''
                     \<or> nc_cross_origin first) (action_problem ''baseline''))
           @ action_case_problems cfg a {} {} 0 (na_cases a))"

fun action_loop :: "assessment_config \<Rightarrow> string set \<Rightarrow> nextjs_action_approval list \<Rightarrow> problem list" where
  "action_loop cfg seen [] = []"
| "action_loop cfg seen (a # as) =
     (let key = na_target_id a @ NUL # na_id a
      in flag (\<not> approval_id_ok (na_id a) \<or> key \<in> seen \<or> \<not> valid_fixture_ref (na_fixture_ref a))
           (action_problem ''approval'')
         @ flag (\<not> url_target_known cfg (na_target_id a)) (action_problem ''target'')
         @ flag (na_owner_identity a = '''' \<or> na_owner_identity a = ''anonymous''
                 \<or> \<not> identity_bound cfg (na_target_id a) (na_owner_identity a)) (action_problem ''owner'')
         @ action_cases_problems cfg a
         @ action_loop cfg (insert key seen) as)"

definition gray_or_white :: "assessment_config \<Rightarrow> bool" where
  "gray_or_white cfg \<longleftrightarrow> cfg_mode cfg = ModeGrayBox \<or> cfg_mode cfg = ModeWhiteBox"

definition web_or_api :: "assessment_config \<Rightarrow> bool" where
  "web_or_api cfg \<longleftrightarrow> TypeWebApplication \<in> set (cfg_types cfg) \<or> TypeAPI \<in> set (cfg_types cfg)"

definition validate_nextjs_action_approvals :: "assessment_config \<Rightarrow> problem list" where
  "validate_nextjs_action_approvals cfg =
     (if cfg_nextjs_action_approvals cfg = [] then []
      else flag (\<not> cfg_test_environment cfg \<or> \<not> gray_or_white cfg) (action_problem ''environment'')
           @ flag (cfg_workflow_version cfg \<noteq> ''unified-v1'') (action_problem ''workflow'')
           @ flag (\<not> web_or_api cfg) (action_problem ''type'')
           @ flag (length (cfg_nextjs_action_approvals cfg) > 20) (action_problem ''limit'')
           @ action_loop cfg {} (cfg_nextjs_action_approvals cfg))"

definition boundary_problem :: problem where
  "boundary_problem = blocking ''nextjs_boundary.approval''"

definition boundary_kind_problems :: "assessment_config \<Rightarrow> nextjs_boundary_approval \<Rightarrow> problem list" where
  "boundary_kind_problems cfg a =
     (if nb_kind a = ''cache'' then
        flag (nb_owner_identity a = '''' \<or> nb_owner_identity a = ''anonymous''
              \<or> nb_owner_identity a = nb_identity a
              \<or> \<not> identity_bound cfg (nb_target_id a) (nb_owner_identity a)) boundary_problem
      else if nb_kind a = ''redirect'' \<or> nb_kind a = ''proxy'' then
        flag (nb_owner_identity a \<noteq> '''') boundary_problem
      else [boundary_problem])"

fun boundary_loop :: "assessment_config \<Rightarrow> string set \<Rightarrow> nextjs_boundary_approval list \<Rightarrow> problem list" where
  "boundary_loop cfg seen [] = []"
| "boundary_loop cfg seen (a # as) =
     (let key = nb_target_id a @ NUL # nb_id a
      in flag (\<not> approval_id_ok (nb_id a) \<or> \<not> valid_fixture_ref (nb_fixture_ref a) \<or> key \<in> seen) boundary_problem
         @ flag (\<not> url_target_known cfg (nb_target_id a)) boundary_problem
         @ flag (nb_identity a \<noteq> ''anonymous'' \<and> \<not> identity_bound cfg (nb_target_id a) (nb_identity a)) boundary_problem
         @ boundary_kind_problems cfg a
         @ boundary_loop cfg (insert key seen) as)"

definition validate_nextjs_boundary_approvals :: "assessment_config \<Rightarrow> problem list" where
  "validate_nextjs_boundary_approvals cfg =
     (if cfg_nextjs_boundary_approvals cfg = [] then []
      else flag (\<not> cfg_test_environment cfg \<or> \<not> gray_or_white cfg
                 \<or> cfg_workflow_version cfg \<noteq> ''unified-v1'') boundary_problem
           @ flag (\<not> web_or_api cfg) boundary_problem
           @ flag (length (cfg_nextjs_boundary_approvals cfg) > 20) boundary_problem
           @ boundary_loop cfg {} (cfg_nextjs_boundary_approvals cfg))"

definition nextjs_limit_problems :: "nextjs_scan_options \<Rightarrow> problem list" where
  "nextjs_limit_problems n =
     concat (map (\<lambda>(x, bound). flag (x < 0 \<or> x > bound) (blocking ''nextjs.limit.invalid''))
       [(nx_max_pages n, 250), (nx_max_scripts n, 500), (nx_max_route_checks n, 500),
        (nx_max_requests n, 5000), (nx_max_response_bytes n, 268435456)])"

section \<open>Mode, types and targets\<close>

definition mode_type_problems :: "assessment_config \<Rightarrow> problem list" where
  "mode_type_problems cfg =
     flag (\<not> mode_valid (cfg_mode cfg)) (blocking ''mode.invalid'')
     @ flag (cfg_types cfg = []) (blocking ''types.empty'')
     @ concat (map (\<lambda>t. flag (\<not> type_valid t) (blocking ''types.invalid'')) (cfg_types cfg))
     @ flag (cfg_targets cfg = []) (blocking ''targets.empty'')"

definition target_value_problems :: "target \<Rightarrow> problem list" where
  "target_value_problems t =
     flag (\<not> kind_valid (tgt_kind t)) (blocking ''target.kind.invalid'')
     @ (if trim_space (tgt_value t) = '''' then [blocking ''target.value.empty'']
        else flag (validate_target_value (tgt_kind t) (tgt_value t) \<noteq> None) (blocking ''target.value.invalid''))"

fun target_loop :: "string set \<Rightarrow> target list \<Rightarrow> problem list" where
  "target_loop ids [] = []"
| "target_loop ids (t # ts) =
     target_value_problems t
     @ flag (tgt_id t \<in> ids) (blocking ''target.id.duplicate'')
     @ target_loop (insert (tgt_id t) ids) ts"

definition target_ids :: "assessment_config \<Rightarrow> string set" where
  "target_ids cfg = set (map tgt_id (cfg_targets cfg))"

definition related_problems :: "assessment_config \<Rightarrow> problem list" where
  "related_problems cfg =
     concat (map (\<lambda>t. flag (tgt_related_to t \<noteq> '''' \<and> (tgt_related_to t \<notin> target_ids cfg \<or> tgt_related_to t = tgt_id t))
                        (blocking ''target.related_to.invalid'')) (cfg_targets cfg))"

section \<open>Access bindings\<close>

definition verification_url_within_scope :: "app_scope \<Rightarrow> string \<Rightarrow> bool" where
  "verification_url_within_scope s raw =
     (case url_parse raw of
        None \<Rightarrow> False
      | Some u \<Rightarrow>
          if u_fragment u \<noteq> '''' \<or> u_raw_query u \<noteq> '''' \<or> has_suffix raw ''#'' \<or> has_suffix raw ''?''
          then False else fst (allows s raw))"

definition access_form_problems :: "access_binding \<Rightarrow> problem list" where
  "access_form_problems ab =
     flag (\<not> access_valid (ab_kind ab)) (blocking ''access.kind.invalid'')
     @ flag (ab_verify_browser ab \<and> trim_space (ab_verify_marker ab) = '''') (blocking ''access.browser_marker.required'')
     @ flag (ab_kind ab = AccessFormLogin \<and> length (ab_target_ids ab) \<noteq> 1) (blocking ''access.form_login.single_target'')
     @ flag (ab_target_ids ab = []) (blocking ''access.unbound'')
     @ flag (ab_identity ab \<noteq> '''' \<and> trim_space (ab_credential_id ab) = '''')
         (blocking ''access.identity.credential_required'')
     @ flag (length (ab_identity ab) > 128 \<or> length (ab_role ab) > 128
             \<or> contains_any (ab_identity ab @ ab_role ab) line_breaks) (blocking ''access.identity.invalid'')"

definition access_credential_problems :: "access_binding \<Rightarrow> problem list" where
  "access_credential_problems ab =
     (if application_access (ab_kind ab) \<and> trim_space (ab_credential_id ab) \<noteq> '''' then
        (if ab_kind ab = AccessFormLogin \<and> trim_space (ab_verify_url ab) = ''''
         then [blocking ''access.verification_required'']
         else if ab_verify_url ab \<noteq> ''''
         then flag (validate_target_value KindURL (ab_verify_url ab) \<noteq> None) (blocking ''access.verify_url.invalid'')
         else [])
        @ flag (length (ab_verify_marker ab) > 256 \<or> contains_any (ab_verify_marker ab) line_breaks)
            (blocking ''access.verify_marker.invalid'')
        @ flag (length (ab_negative_marker ab) > 256 \<or> contains_any (ab_negative_marker ab) line_breaks)
            (blocking ''access.negative_marker.invalid'')
      else [])"

definition access_target_problems :: "assessment_config \<Rightarrow> access_binding \<Rightarrow> string \<Rightarrow> problem list" where
  "access_target_problems cfg ab tid =
     flag (tid \<notin> target_ids cfg) (blocking ''access.target.unknown'')
     @ (if application_access (ab_kind ab) then
          concat (map (\<lambda>t. if tgt_id t = tid \<and> tgt_kind t \<noteq> KindURL then [blocking ''access.target_must_be_url'']
              else if tgt_id t = tid \<and> ab_verify_url ab \<noteq> ''''
                      \<and> \<not> verification_url_within_scope (app_scope_for_target cfg tid) (ab_verify_url ab)
              then [blocking ''access.verify_url.out_of_scope''] else []) (cfg_targets cfg))
        else [])"

definition access_problems :: "assessment_config \<Rightarrow> problem list" where
  "access_problems cfg =
     concat (map (\<lambda>ab. access_form_problems ab @ access_credential_problems ab
                       @ concat (map (access_target_problems cfg ab) (ab_target_ids ab))) (cfg_access cfg))"

section \<open>API operation inputs\<close>

definition api_definition_known :: "assessment_config \<Rightarrow> string \<Rightarrow> bool" where
  "api_definition_known cfg d \<longleftrightarrow>
     d \<in> set (cfg_api_definition_ids cfg) \<or> d \<in> set (map adb_definition_id (cfg_api_definitions cfg))"

definition api_value_bad :: "string \<times> string \<Rightarrow> bool" where
  "api_value_bad nv =
     (case nv of (name, v) \<Rightarrow> trim_space name = '''' \<or> length name > 256 \<or> length v > 4096
        \<or> contains_any (name @ v) line_breaks)"

definition api_input_one :: "assessment_config \<Rightarrow> string set \<Rightarrow> api_operation_input \<Rightarrow> problem list" where
  "api_input_one cfg seen x =
     flag (inp_definition_id x = '''' \<or> inp_operation_id x = ''''
           \<or> \<not> api_definition_known cfg (inp_definition_id x)) (blocking ''api_input.operation.invalid'')
     @ flag (input_key x \<in> seen) (blocking ''api_input.operation.duplicate'')
     @ flag (\<not> web_or_api cfg) (blocking ''api_input.type_required'')
     @ flag (list_ex api_value_bad (inp_path_params x)) (blocking ''api_input.value.invalid'')
     @ flag (list_ex api_value_bad (inp_query x)) (blocking ''api_input.value.invalid'')
     @ flag (inp_request_body_ref x \<noteq> '''' \<and> \<not> valid_fixture_ref (inp_request_body_ref x))
         (blocking ''api_input.fixture.invalid'')"

fun api_input_loop :: "assessment_config \<Rightarrow> string set \<Rightarrow> api_operation_input list \<Rightarrow> problem list" where
  "api_input_loop cfg seen [] = []"
| "api_input_loop cfg seen (x # xs) =
     api_input_one cfg seen x @ api_input_loop cfg (insert (input_key x) seen) xs"

section \<open>Write and fuzz approvals\<close>

definition fuzz_problems :: "assessment_config \<Rightarrow> problem list" where
  "fuzz_problems cfg =
     concat (map (\<lambda>f.
       flag (cfg_workflow_version cfg \<noteq> ''unified-v1'' \<or> \<not> fz_repeat_testing_approved f
             \<or> fz_scanner f \<noteq> ''wapiti'' \<or> fz_request_limit f < 1 \<or> fz_request_limit f > 1000)
         (blocking ''fuzz.approval.invalid'')
       @ flag (wa_method (fz_write f) \<noteq> ''POST''
               \<or> wa_content_type (fz_write f) \<noteq> ''application/x-www-form-urlencoded'')
           (blocking ''fuzz.input.unsupported'')) (cfg_fuzz_approvals cfg))"

definition all_write_approvals :: "assessment_config \<Rightarrow> write_approval list" where
  "all_write_approvals cfg = cfg_write_approvals cfg @ map fz_write (cfg_fuzz_approvals cfg)"

definition bound_to_target :: "assessment_config \<Rightarrow> string \<Rightarrow> bool" where
  "bound_to_target cfg tid \<longleftrightarrow>
     list_ex (\<lambda>b. adb_target_id b = tid) (cfg_api_definitions cfg)
     \<or> (cfg_api_definition_ids cfg \<noteq> [] \<and> length (cfg_targets cfg) = 1 \<and> tgt_id (hd (cfg_targets cfg)) = tid)"

definition write_form_problems :: "assessment_config \<Rightarrow> write_approval \<Rightarrow> problem list" where
  "write_form_problems cfg a =
     flag (\<not> cfg_test_environment cfg \<or> cfg_mode cfg = ModeBlackBox) (blocking ''api_write.test_environment_required'')
     @ flag (TypeAPI \<notin> set (cfg_types cfg) \<or> wa_target_id a \<notin> target_ids cfg \<or> wa_operation_id a = '''')
         (blocking ''api_write.operation.invalid'')
     @ flag (\<not> bound_to_target cfg (wa_target_id a)) (blocking ''api_write.definition_required'')
     @ flag (wa_method a \<notin> set [''POST'', ''PUT'', ''PATCH'', ''DELETE'']) (blocking ''api_write.method.invalid'')
     @ flag (\<not> has_prefix (wa_path a) ''/'' \<or> contains_any (wa_path a) path_breaks) (blocking ''api_write.path.invalid'')"

text \<open>The URL a path stands for under an approved origin.\<close>

definition request_url :: "approved_origin \<Rightarrow> string \<Rightarrow> string" where
  "request_url ori p =
     (let pre0 = trim_suffix (ao_path_prefix ori) ''/''; pre = (if pre0 = ''/'' then '''' else pre0)
      in origin_string ori @ pre @ p)"

text \<open>The loop over the scope's origins: the exclusion problems, and whether the path is in scope.\<close>

definition path_scope_problems :: "app_scope \<Rightarrow> string \<Rightarrow> string \<Rightarrow> string \<Rightarrow> string \<Rightarrow> problem list" where
  "path_scope_problems s method p excluded_code out_code =
     (let urls = filter (\<lambda>u. fst (allows s u)) (map (\<lambda>ori. request_url ori p) (sc_origins s))
      in concat (map (\<lambda>u. flag (excluded s method u \<noteq> None) (blocking excluded_code)) urls)
         @ flag (urls = []) (blocking out_code))"

definition write_scope_problems :: "assessment_config \<Rightarrow> write_approval \<Rightarrow> problem list" where
  "write_scope_problems cfg a =
     concat (map (\<lambda>t. if tgt_id t \<noteq> wa_target_id a then []
       else let s = app_scope_for_target cfg (tgt_id t)
            in path_scope_problems s (wa_method a) (wa_path a) ''api_write.excluded'' ''api_write.out_of_scope''
               @ (if wa_cleanup_path a \<noteq> '''' \<and> wa_cleanup_method a \<noteq> ''''
                  then path_scope_problems s (wa_cleanup_method a) (wa_cleanup_path a)
                         ''api_write.cleanup_excluded'' ''api_write.cleanup_out_of_scope''
                  else [])) (cfg_targets cfg))"

definition put_or_patch :: "string \<Rightarrow> bool" where
  "put_or_patch m \<longleftrightarrow> m = ''PUT'' \<or> m = ''PATCH''"

definition write_cleanup_problems :: "write_approval \<Rightarrow> problem list" where
  "write_cleanup_problems a =
     flag (wa_method a \<noteq> ''DELETE'' \<and> \<not> valid_fixture_ref (wa_fixture_ref a)) (blocking ''api_write.fixture.required'')
     @ flag (wa_method a \<noteq> ''DELETE'' \<and> wa_content_type a = '''') (blocking ''api_write.content_type.required'')
     @ flag (wa_cleanup_method a = '''' \<or> wa_cleanup_path a = '''') (blocking ''api_write.cleanup.required'')
     @ flag (wa_method a = ''POST'' \<and> wa_cleanup_method a \<noteq> ''DELETE'') (blocking ''api_write.cleanup_method.invalid'')
     @ flag (wa_method a = ''DELETE'' \<and> wa_cleanup_method a \<noteq> ''PUT'') (blocking ''api_write.cleanup_method.invalid'')
     @ (if wa_cleanup_method a \<noteq> '''' \<or> wa_cleanup_path a \<noteq> '''' \<or> wa_cleanup_ref a \<noteq> '''' then
          flag (wa_cleanup_method a \<notin> set [''DELETE'', ''PUT'', ''PATCH'']) (blocking ''api_write.cleanup_method.invalid'')
          @ flag (\<not> has_prefix (wa_cleanup_path a) ''/'' \<or> contains_any (wa_cleanup_path a) path_breaks)
              (blocking ''api_write.cleanup_path.invalid'')
          @ flag (wa_cleanup_ref a \<noteq> '''' \<and> \<not> valid_fixture_ref (wa_cleanup_ref a))
              (blocking ''api_write.cleanup_fixture.invalid'')
          @ flag (put_or_patch (wa_cleanup_method a) \<and> \<not> valid_fixture_ref (wa_cleanup_ref a))
              (blocking ''api_write.cleanup_fixture.required'')
          @ flag (put_or_patch (wa_cleanup_method a) \<and> wa_cleanup_content_type a = '''')
              (blocking ''api_write.cleanup_content_type.required'')
        else [])
     @ flag (wa_content_type a \<noteq> '''' \<and> \<not> media_type_ok (wa_content_type a)) (blocking ''api_write.content_type.invalid'')
     @ flag (wa_cleanup_content_type a \<noteq> '''' \<and> \<not> media_type_ok (wa_cleanup_content_type a))
         (blocking ''api_write.cleanup_content_type.invalid'')"

fun write_loop :: "assessment_config \<Rightarrow> string set \<Rightarrow> write_approval list \<Rightarrow> problem list" where
  "write_loop cfg seen [] = []"
| "write_loop cfg seen (a # as) =
     write_form_problems cfg a @ write_scope_problems cfg a @ write_cleanup_problems a
     @ flag (write_key a \<in> seen) (blocking ''api_write.duplicate'')
     @ write_loop cfg (insert (write_key a) seen) as"

section \<open>Authorization expectations and API definitions\<close>

definition identity_problems :: "assessment_config \<Rightarrow> problem list" where
  "identity_problems cfg =
     concat (map (\<lambda>b. flag (ab_identity b = ''anonymous'') (blocking ''access.identity.reserved'')) (cfg_access cfg))"

definition bound_identities :: "assessment_config \<Rightarrow> string set" where
  "bound_identities cfg = set (filter (\<lambda>i. i \<noteq> '''') (map ab_identity (cfg_access cfg)))"

definition expectation_problems :: "assessment_config \<Rightarrow> authorization_expectation \<Rightarrow> problem list" where
  "expectation_problems cfg e =
     flag (ax_operation_id e = '''' \<or> ax_identity e = '''' \<or> (ax_expect e \<noteq> ''allow'' \<and> ax_expect e \<noteq> ''deny'')
           \<or> \<not> valid_fixture_ref (ax_resource_fixture_ref e)) (blocking ''api_authorization_expectation.invalid'')
     @ flag (ax_identity e \<noteq> ''anonymous'' \<and> ax_identity e \<notin> bound_identities cfg)
         (blocking ''api_authorization_expectation.identity_unknown'')
     @ flag (\<not> web_or_api cfg) (blocking ''api_authorization_expectation.type_required'')"

text \<open>\<open>expectationIdentities\<close>: the identities expected for each operation.\<close>

definition expectation_identities :: "authorization_expectation list \<Rightarrow> (string \<times> string list) list" where
  "expectation_identities es =
     map (\<lambda>op. (op, uniq_from {} (map ax_identity (filter (\<lambda>e. ax_operation_id e = op) es))))
       (uniq_from {} (map ax_operation_id es))"

definition two_identities_problems :: "authorization_expectation list \<Rightarrow> problem list" where
  "two_identities_problems es =
     concat (map (\<lambda>(op, is). flag (length is < 2) (blocking ''api_authorization_expectation.two_identities''))
       (expectation_identities es))"

definition definition_problems :: "assessment_config \<Rightarrow> problem list" where
  "definition_problems cfg =
     flag (cfg_api_definition_ids cfg \<noteq> [] \<and> cfg_api_definitions cfg \<noteq> []) (blocking ''api_definition.ambiguous'')
     @ flag (cfg_api_definition_ids cfg \<noteq> [] \<and> length (cfg_targets cfg) \<noteq> 1) (blocking ''api_definition.target_required'')
     @ concat (map (\<lambda>d. flag (trim_space d = '''') (blocking ''api_definition.id_empty'')) (cfg_api_definition_ids cfg))
     @ concat (map (\<lambda>b.
         flag (adb_target_id b \<notin> target_ids cfg) (blocking ''api_definition.target_unknown'')
         @ flag (adb_definition_id b = '''') (blocking ''api_definition.id_empty'')
         @ concat (map (\<lambda>t. flag (tgt_id t = adb_target_id b \<and> tgt_kind t \<noteq> KindURL)
                              (blocking ''api_definition.target_must_be_url'')) (cfg_targets cfg)))
         (cfg_api_definitions cfg))
     @ flag (cfg_api_definition_ids cfg \<noteq> [] \<and> length (cfg_targets cfg) = 1 \<and> tgt_kind (hd (cfg_targets cfg)) \<noteq> KindURL)
         (blocking ''api_definition.target_must_be_url'')"

section \<open>Scope policy\<close>

definition http_methods :: "string list" where
  "http_methods = [''GET'', ''HEAD'', ''POST'', ''PUT'', ''PATCH'', ''DELETE'', ''OPTIONS'', ''TRACE'', ''CONNECT'']"

text \<open>\<open>targetKind\<close>: the last target with an id decides.\<close>

definition target_kind_of :: "assessment_config \<Rightarrow> string \<Rightarrow> string" where
  "target_kind_of cfg tid =
     (case map_of (rev (map (\<lambda>t. (tgt_id t, tgt_kind t)) (cfg_targets cfg))) tid of Some k \<Rightarrow> k | None \<Rightarrow> '''')"

definition origin_problems :: "assessment_config \<Rightarrow> approved_origin \<Rightarrow> problem list" where
  "origin_problems cfg ori =
     (if ao_target_id ori \<notin> target_ids cfg then [blocking ''origin.target.unknown'']
      else flag (target_kind_of cfg (ao_target_id ori) \<notin> set [KindURL, KindDomain, KindIP, KindHost])
             (blocking ''origin.target_kind'')
           @ flag (valid_origin ori \<noteq> None) (blocking ''origin.invalid''))"

definition has_origins :: "assessment_config \<Rightarrow> string \<Rightarrow> bool" where
  "has_origins cfg tid \<longleftrightarrow>
     list_ex (\<lambda>ori. ao_target_id ori = tid \<and> tid \<in> target_ids cfg \<and> valid_origin ori = None) (cfg_approved_origins cfg)"

definition coverage_problems :: "assessment_config \<Rightarrow> problem list" where
  "coverage_problems cfg =
     concat (map (\<lambda>t. flag (tgt_kind t = KindURL \<and> has_origins cfg (tgt_id t)
                            \<and> \<not> fst (allows (app_scope_for_target cfg (tgt_id t)) (tgt_value t)))
                        (blocking ''origin.target_not_covered'')) (cfg_targets cfg))"

definition exclusion_origin_known :: "assessment_config \<Rightarrow> exclusion \<Rightarrow> bool" where
  "exclusion_origin_known cfg e \<longleftrightarrow>
     list_ex (\<lambda>t. \<not> (ex_target_id e \<noteq> '''' \<and> tgt_id t \<noteq> ex_target_id e)
                  \<and> list_ex (\<lambda>ori. origin_string ori = ex_origin e)
                      (sc_origins (app_scope_for_target cfg (tgt_id t)))) (cfg_targets cfg)"

definition exclusion_problems :: "assessment_config \<Rightarrow> exclusion \<Rightarrow> problem list" where
  "exclusion_problems cfg e =
     flag (\<not> has_prefix (ex_path_pattern e) ''/'' \<or> contains_any (ex_path_pattern e) ''?#'') (blocking ''exclusion.invalid'')
     @ flag (ex_method e \<noteq> '''' \<and> ex_method e \<notin> set http_methods) (blocking ''exclusion.invalid'')
     @ (if ex_target_id e \<noteq> '''' \<and> ex_target_id e \<notin> target_ids cfg then [blocking ''exclusion.target.unknown'']
        else flag (ex_origin e \<noteq> '''' \<and> \<not> exclusion_origin_known cfg e) (blocking ''exclusion.origin.unknown''))"

definition wapiti_problems :: "assessment_config \<Rightarrow> problem list" where
  "wapiti_problems cfg =
     flag (cfg_mode cfg = ModeBlackBox \<and> cfg_test_environment cfg) (blocking ''blackbox.test_environment.forbidden'')
     @ flag (cfg_wapiti_mode cfg \<notin> set ['''', ''safe'', ''full'']) (blocking ''wapiti.mode.invalid'')
     @ flag (cfg_wapiti_mode cfg = ''full'' \<and> cfg_mode cfg = ModeBlackBox) (blocking ''wapiti.mode.full_forbidden'')"

definition provider_problems :: "assessment_config \<Rightarrow> problem list" where
  "provider_problems cfg =
     (case cfg_discovery_providers cfg of None \<Rightarrow> []
      | Some dp \<Rightarrow>
          concat (map (\<lambda>p. flag (p \<noteq> ProviderSubfinder \<and> p \<noteq> ProviderAmass) (blocking ''discovery.subdomain.invalid''))
                   (dp_subdomain dp))
          @ (if dp_subdomain dp \<noteq> [] then
               flag (\<not> cfg_subdomain_discovery cfg) (blocking ''discovery.subdomain.not_authorized'')
               @ flag (\<not> list_ex (\<lambda>t. tgt_kind t = KindDomain) (cfg_targets cfg)) (blocking ''discovery.subdomain.domain_required'')
             else [])
          @ flag (dp_historical dp \<noteq> '''') (blocking ''discovery.historical.removed'')
          @ flag (dp_tls dp \<notin> set ['''', ProviderTestssl, ProviderSSLyze]) (blocking ''discovery.tls.invalid''))"

text \<open>The first target whose scope allows the seed decides whether it is excluded; an exclusion
  always has a reason, so \<open>excluded != ""\<close> is the hit itself (lemma \<open>exclusion_why_nonempty\<close>).\<close>

definition seed_problems :: "assessment_config \<Rightarrow> string \<Rightarrow> problem list" where
  "seed_problems cfg seed =
     (if validate_target_value KindURL seed \<noteq> None then [blocking ''manual_seed.invalid'']
      else case find (\<lambda>s. fst (allows s seed)) (map (\<lambda>t. app_scope_for_target cfg (tgt_id t)) (cfg_targets cfg)) of
             None \<Rightarrow> [blocking ''manual_seed.out_of_scope'']
           | Some s \<Rightarrow> flag (excluded s ''GET'' seed \<noteq> None) (blocking ''manual_seed.excluded''))"

lemma exclusion_why_nonempty: "exclusion_why e \<noteq> ''''"
  by (simp add: exclusion_why_def)

definition validate_scope_policy :: "assessment_config \<Rightarrow> problem list" where
  "validate_scope_policy cfg =
     concat (map (origin_problems cfg) (cfg_approved_origins cfg))
     @ coverage_problems cfg
     @ concat (map (exclusion_problems cfg) (cfg_exclusions cfg))
     @ wapiti_problems cfg
     @ provider_problems cfg
     @ concat (map (seed_problems cfg) (cfg_manual_seeds cfg))"

section \<open>Mode policy\<close>

definition validate_mode_policy :: "assessment_config \<Rightarrow> problem list" where
  "validate_mode_policy cfg =
     (if cfg_mode cfg = ModeBlackBox then
        concat (map (\<lambda>ab. flag (internal_access_kind (ab_kind ab)) (blocking ''blackbox.access.forbidden'')) (cfg_access cfg))
        @ concat (map (\<lambda>t. flag (internal_resource_kind (tgt_kind t)) (blocking ''blackbox.resource.forbidden'')) (cfg_targets cfg))
      else if cfg_mode cfg = ModeGrayBox then
        concat (map (\<lambda>t. if tgt_kind t \<in> set [KindRepository, KindLocalSourcePath, KindDockerImage]
                          then [blocking ''graybox.resource.requires_whitebox'']
                          else if tgt_kind t \<in> set [KindCloudAccount, KindKubernetesCluster]
                          then [advisory ''graybox.resource.unsupported''] else []) (cfg_targets cfg))
      else [])"

section \<open>The whole check\<close>

definition validate :: "assessment_config \<Rightarrow> problem list" where
  "validate cfg =
     (if cfg_workflow_version cfg \<noteq> '''' \<and> cfg_workflow_version cfg \<noteq> ''unified-v1''
      then [blocking ''workflow.version.invalid'']
      else validate_nextjs_action_approvals cfg
           @ validate_nextjs_boundary_approvals cfg
           @ nextjs_limit_problems (cfg_nextjs cfg)
           @ mode_type_problems cfg
           @ target_loop {} (cfg_targets cfg)
           @ related_problems cfg
           @ access_problems cfg
           @ api_input_loop cfg {} (cfg_api_operation_inputs cfg)
           @ fuzz_problems cfg
           @ write_loop cfg {} (all_write_approvals cfg)
           @ identity_problems cfg
           @ concat (map (expectation_problems cfg) (cfg_authorization_expectations cfg))
           @ two_identities_problems (cfg_authorization_expectations cfg)
           @ definition_problems cfg
           @ validate_scope_policy cfg
           @ validate_mode_policy cfg)"

text \<open>A configuration is accepted when no problem blocks.\<close>

definition accepted :: "assessment_config \<Rightarrow> bool" where
  "accepted cfg \<longleftrightarrow> first_blocking (validate cfg) = None"

section \<open>Reading an accepted configuration\<close>

definition quiet :: "problem list \<Rightarrow> bool" where
  "quiet ps \<longleftrightarrow> (\<forall>p \<in> set ps. \<not> pb_blocking p)"

lemma first_blocking_None: "first_blocking ps = None \<longleftrightarrow> quiet ps"
  by (auto simp: first_blocking_def quiet_def find_None_iff)

lemma quiet_simps [simp]:
  "quiet []"
  "quiet (p # ps) \<longleftrightarrow> \<not> pb_blocking p \<and> quiet ps"
  "quiet (ps @ qs) \<longleftrightarrow> quiet ps \<and> quiet qs"
  by (auto simp: quiet_def)

lemma quiet_concat_map [simp]: "quiet (concat (map f xs)) \<longleftrightarrow> (\<forall>x \<in> set xs. quiet (f x))"
  by (auto simp: quiet_def)

lemma pb_blocking_simps [simp]: "pb_blocking (blocking c)" "\<not> pb_blocking (advisory c)"
  by (simp_all add: blocking_def advisory_def)

lemma pb_blocking_approvals [simp]: "pb_blocking (action_problem c)" "pb_blocking boundary_problem"
  by (simp_all add: action_problem_def boundary_problem_def)

lemma quiet_flag [simp]: "quiet (flag c (blocking s)) \<longleftrightarrow> \<not> c"
  by simp

lemma accepted_iff:
  "accepted cfg \<longleftrightarrow>
     cfg_workflow_version cfg \<in> {'''', ''unified-v1''}
     \<and> quiet (validate_nextjs_action_approvals cfg) \<and> quiet (validate_nextjs_boundary_approvals cfg)
     \<and> quiet (nextjs_limit_problems (cfg_nextjs cfg)) \<and> quiet (mode_type_problems cfg)
     \<and> quiet (target_loop {} (cfg_targets cfg)) \<and> quiet (related_problems cfg) \<and> quiet (access_problems cfg)
     \<and> quiet (api_input_loop cfg {} (cfg_api_operation_inputs cfg)) \<and> quiet (fuzz_problems cfg)
     \<and> quiet (write_loop cfg {} (all_write_approvals cfg)) \<and> quiet (identity_problems cfg)
     \<and> quiet (concat (map (expectation_problems cfg) (cfg_authorization_expectations cfg)))
     \<and> quiet (two_identities_problems (cfg_authorization_expectations cfg))
     \<and> quiet (definition_problems cfg) \<and> quiet (validate_scope_policy cfg) \<and> quiet (validate_mode_policy cfg)"
  unfolding accepted_def validate_def first_blocking_None by (simp del: quiet_concat_map)

lemma target_loop_quiet:
  "quiet (target_loop ids ts) \<longleftrightarrow>
     (\<forall>t \<in> set ts. quiet (target_value_problems t)) \<and> distinct (map tgt_id ts) \<and> set (map tgt_id ts) \<inter> ids = {}"
  by (induction ids ts rule: target_loop.induct) auto

lemma target_value_quiet:
  "quiet (target_value_problems t) \<longleftrightarrow>
     kind_valid (tgt_kind t) \<and> trim_space (tgt_value t) \<noteq> '''' \<and> validate_target_value (tgt_kind t) (tgt_value t) = None"
  by (auto simp: target_value_problems_def)

lemma write_loop_quiet:
  "quiet (write_loop cfg seen as) \<longleftrightarrow>
     (\<forall>a \<in> set as. quiet (write_form_problems cfg a) \<and> quiet (write_scope_problems cfg a) \<and> quiet (write_cleanup_problems a))
     \<and> distinct (map write_key as) \<and> set (map write_key as) \<inter> seen = {}"
  by (induction cfg seen as rule: write_loop.induct) auto

lemma api_input_loop_keys:
  "quiet (api_input_loop cfg seen xs) \<Longrightarrow> distinct (map input_key xs) \<and> set (map input_key xs) \<inter> seen = {}"
  by (induction cfg seen xs rule: api_input_loop.induct) (auto simp: api_input_one_def)

lemma path_scope_quiet:
  "quiet (path_scope_problems s m p c c') \<longleftrightarrow>
     (\<exists>ori \<in> set (sc_origins s). fst (allows s (request_url ori p)))
     \<and> (\<forall>ori \<in> set (sc_origins s). fst (allows s (request_url ori p)) \<longrightarrow> excluded s m (request_url ori p) = None)"
  by (auto simp: path_scope_problems_def Let_def filter_empty_conv)

lemma action_case_ids:
  "quiet (action_case_problems cfg a ids vs i cs) \<Longrightarrow>
     distinct (map nc_id cs) \<and> set (map nc_id cs) \<inter> ids = {}"
  by (induction cfg a ids vs i cs rule: action_case_problems.induct) (auto split: if_splits)

lemma action_case_variants:
  "quiet (action_case_problems cfg a ids vs i cs) \<Longrightarrow>
     distinct (map case_variant cs) \<and> set (map case_variant cs) \<inter> vs = {}"
  by (induction cfg a ids vs i cs rule: action_case_problems.induct) (auto split: if_splits)

lemma action_case_each:
  "quiet (action_case_problems cfg a ids vs i cs) \<Longrightarrow> c \<in> set cs \<Longrightarrow>
     approval_id_ok (nc_id c) \<and> (nc_cross_origin c \<longrightarrow> nc_identity c = na_owner_identity a)
     \<and> (nc_identity c = ''anonymous'' \<or> identity_bound cfg (na_target_id a) (nc_identity c))"
  by (induction cfg a ids vs i cs rule: action_case_problems.induct) (auto split: if_splits)

lemma action_case_later:
  "quiet (action_case_problems cfg a ids vs i cs) \<Longrightarrow> 0 < i \<Longrightarrow> c \<in> set cs \<Longrightarrow>
     nc_expect c = ''deny'' \<and> (nc_identity c = na_owner_identity a \<longrightarrow> nc_cross_origin c)"
  by (induction cfg a ids vs i cs rule: action_case_problems.induct) (auto split: if_splits)

lemma action_loop_quiet:
  "quiet (action_loop cfg seen as) \<longleftrightarrow>
     (\<forall>a \<in> set as. approval_id_ok (na_id a) \<and> valid_fixture_ref (na_fixture_ref a) \<and> url_target_known cfg (na_target_id a)
        \<and> na_owner_identity a \<noteq> '''' \<and> na_owner_identity a \<noteq> ''anonymous''
        \<and> identity_bound cfg (na_target_id a) (na_owner_identity a) \<and> quiet (action_cases_problems cfg a))
     \<and> distinct (map (\<lambda>a. na_target_id a @ NUL # na_id a) as)
     \<and> set (map (\<lambda>a. na_target_id a @ NUL # na_id a) as) \<inter> seen = {}"
  by (induction cfg seen as rule: action_loop.induct) (auto simp: Let_def)

lemma identity_bound_nonempty: "identity_bound cfg tid name \<Longrightarrow> \<exists>ab \<in> set (cfg_access cfg). ab_identity ab = name"
  by (auto simp: identity_bound_def list_ex_iff)

lemma internal_access_valid: "access_valid k \<longleftrightarrow> internal_access_kind k"
  by (simp add: access_valid_def internal_access_kind_def AllAccessKinds_def)

lemma expectation_two:
  assumes "quiet (two_identities_problems es)" and "e \<in> set es"
  shows "\<exists>e' \<in> set es. ax_operation_id e' = ax_operation_id e \<and> ax_identity e' \<noteq> ax_identity e"
proof -
  let ?is = "uniq_from {} (map ax_identity (filter (\<lambda>x. ax_operation_id x = ax_operation_id e) es))"
  have "(ax_operation_id e, ?is) \<in> set (expectation_identities es)"
    using assms(2) by (auto simp: expectation_identities_def)
  with assms(1) have "\<not> length ?is < 2"
    by (auto simp: two_identities_problems_def split: if_splits)
  then have "\<not> set ?is \<subseteq> {ax_identity e}"
    using card_mono [of "{ax_identity e}" "set ?is"] distinct_card [of ?is] by force
  then show ?thesis by auto
qed

lemma black_box_no_access:
  assumes "accepted cfg" "cfg_mode cfg = ModeBlackBox"
  shows "cfg_access cfg = []"
proof (rule ccontr)
  assume "cfg_access cfg \<noteq> []"
  then obtain ab where ab: "ab \<in> set (cfg_access cfg)" by (cases "cfg_access cfg") auto
  with assms(1) have "access_valid (ab_kind ab)"
    by (auto simp: accepted_iff access_problems_def access_form_problems_def)
  moreover from ab assms have "\<not> internal_access_kind (ab_kind ab)"
    by (auto simp: accepted_iff validate_mode_policy_def)
  ultimately show False by (simp add: internal_access_valid)
qed

lemma black_box_no_resource:
  assumes "accepted cfg" "cfg_mode cfg = ModeBlackBox"
  shows "list_all (\<lambda>t. \<not> internal_resource_kind (tgt_kind t)) (cfg_targets cfg)"
  using assms by (auto simp: accepted_iff validate_mode_policy_def list_all_iff)

end
