(* ===== verification/ValidateProperties.thy ===== *)
theory ValidateProperties
  imports Validate
begin

text \<open>
  What an accepted configuration guarantees (\<open>Validate\<close> reports no blocking problem) and what
  \<open>Normalize\<close> keeps. The witnesses use one Gray Box configuration of an API with a write
  approval, a Server Action campaign, authorization expectations, an exclusion and a manual seed.
\<close>

section \<open>A configuration for the witnesses\<close>

definition body_ref :: string where
  "body_ref = replicate 64 (CHR ''a'')"

definition api_target :: target where
  "api_target = \<lparr>tgt_id = ''t1'', tgt_kind = ''URL'', tgt_value = ''https://api.test/v1'', tgt_branch = '''',
     tgt_related_to = ''''\<rparr>"

definition owner_access :: access_binding where
  "owner_access = \<lparr>ab_verify_browser = False, ab_target_ids = [''t1''], ab_kind = ''BEARER_TOKEN'',
     ab_credential_id = ''c1'', ab_identity = ''owner'', ab_role = '''', ab_verify_url = ''https://api.test/v1/me'',
     ab_verify_marker = '''', ab_negative_marker = '''', ab_api_operations = []\<rparr>"

definition create_pet :: write_approval where
  "create_pet = \<lparr>wa_target_id = ''t1'', wa_method = ''POST'', wa_path = ''/pets'', wa_operation_id = ''createPet'',
     wa_fixture_ref = body_ref, wa_content_type = ''application/json'', wa_cleanup_method = ''DELETE'',
     wa_cleanup_path = ''/pets/1'', wa_cleanup_ref = '''', wa_cleanup_content_type = ''''\<rparr>"

definition campaign :: nextjs_action_approval where
  "campaign = \<lparr>na_id = ''a1'', na_target_id = ''t1'', na_fixture_ref = body_ref, na_owner_identity = ''owner'',
     na_cases = [\<lparr>nc_id = ''c1'', nc_identity = ''owner'', nc_expect = ''allow'', nc_cross_origin = False\<rparr>,
                 \<lparr>nc_id = ''c2'', nc_identity = ''anonymous'', nc_expect = ''deny'', nc_cross_origin = False\<rparr>]\<rparr>"

definition expect_pet :: "string \<Rightarrow> string \<Rightarrow> authorization_expectation" where
  "expect_pet identity outcome = \<lparr>ax_operation_id = ''getPet'', ax_identity = identity, ax_expect = outcome,
     ax_resource_fixture_ref = body_ref\<rparr>"

definition v1_admin :: exclusion where
  "v1_admin = \<lparr>ex_target_id = '''', ex_origin = '''', ex_method = '''', ex_path_pattern = ''/v1/admin'', ex_reason = ''''\<rparr>"

definition api_config :: assessment_config where
  "api_config = empty_config\<lparr>cfg_workflow_version := ''unified-v1'', cfg_mode := ''GRAY_BOX'',
     cfg_types := [''API'', ''WEB_APPLICATION''], cfg_targets := [api_target], cfg_access := [owner_access],
     cfg_api_definition_ids := [''d1''], cfg_write_approvals := [create_pet], cfg_test_environment := True,
     cfg_nextjs_action_approvals := [campaign],
     cfg_authorization_expectations := [expect_pet ''owner'' ''allow'', expect_pet ''anonymous'' ''deny''],
     cfg_exclusions := [v1_admin], cfg_manual_seeds := [''https://api.test/v1/x'']\<rparr>"

lemma api_config_accepted: "accepted api_config"
proof -
  have q: "ps = [] \<Longrightarrow> quiet ps" for ps by simp
  show ?thesis
    unfolding accepted_iff validate_scope_policy_def quiet_simps
    by (intro conjI) ((rule q)?, code_simp)+
qed

definition domain_config :: assessment_config where
  "domain_config = empty_config\<lparr>cfg_mode := ''BLACK_BOX'', cfg_types := [''NETWORK''],
     cfg_targets := [\<lparr>tgt_id = ''t1'', tgt_kind = ''DOMAIN'', tgt_value = ''shop.test'', tgt_branch = '''',
                      tgt_related_to = ''''\<rparr>]\<rparr>"

lemma domain_config_accepted: "accepted domain_config"
  by code_simp

section \<open>Accepted configurations\<close>

text \<open>C4: an accepted configuration has one of the three modes, at least one assessment type and
  only known ones, at least one target, distinct target ids, target kinds and values that fit
  each other, and related targets that are other targets of the configuration.\<close>

theorem accepted_well_formed:
  assumes "accepted cfg"
  shows "mode_valid (cfg_mode cfg) \<and> cfg_types cfg \<noteq> [] \<and> list_all type_valid (cfg_types cfg)
    \<and> cfg_targets cfg \<noteq> [] \<and> distinct (map tgt_id (cfg_targets cfg))
    \<and> list_all (\<lambda>t. kind_valid (tgt_kind t) \<and> validate_target_value (tgt_kind t) (tgt_value t) = None
         \<and> (tgt_related_to t = '''' \<or>
            (tgt_related_to t \<noteq> tgt_id t \<and> tgt_related_to t \<in> target_ids cfg))) (cfg_targets cfg)"
  using assms unfolding accepted_iff
  by (auto simp: mode_type_problems_def target_loop_quiet target_value_quiet related_problems_def list_all_iff)

theorem accepted_well_formed_witness:
  "mode_valid (cfg_mode api_config) \<and> cfg_types api_config \<noteq> [] \<and> list_all type_valid (cfg_types api_config)
    \<and> cfg_targets api_config \<noteq> [] \<and> distinct (map tgt_id (cfg_targets api_config))
    \<and> list_all (\<lambda>t. kind_valid (tgt_kind t) \<and> validate_target_value (tgt_kind t) (tgt_value t) = None
         \<and> (tgt_related_to t = '''' \<or>
            (tgt_related_to t \<noteq> tgt_id t \<and> tgt_related_to t \<in> target_ids api_config))) (cfg_targets api_config)"
  by (rule accepted_well_formed [OF api_config_accepted])

lemma black_box_no_expectations:
  assumes "accepted cfg" and "cfg_mode cfg = ModeBlackBox"
  shows "cfg_authorization_expectations cfg = []"
proof (rule ccontr)
  note acc = assms(1) [unfolded accepted_iff]
  assume "cfg_authorization_expectations cfg \<noteq> []"
  then obtain e where e: "e \<in> set (cfg_authorization_expectations cfg)"
    by (cases "cfg_authorization_expectations cfg") auto
  with acc expectation_two obtain e' where e': "e' \<in> set (cfg_authorization_expectations cfg)"
    "ax_identity e' \<noteq> ax_identity e" by blast
  have "ax_identity x = ''anonymous''" if "x \<in> set (cfg_authorization_expectations cfg)" for x
    using acc that black_box_no_access [OF assms] by (auto simp: expectation_problems_def bound_identities_def)
  with e e' show False by simp
qed

lemma black_box_no_approvals:
  assumes "accepted cfg" and "cfg_mode cfg = ModeBlackBox"
  shows "\<not> cfg_test_environment cfg \<and> cfg_wapiti_mode cfg \<in> {'''', ''safe''} \<and> all_write_approvals cfg = []
    \<and> cfg_nextjs_action_approvals cfg = [] \<and> cfg_nextjs_boundary_approvals cfg = []"
proof -
  note acc = assms(1) [unfolded accepted_iff]
  have env: "\<not> cfg_test_environment cfg" and wapiti: "cfg_wapiti_mode cfg \<in> {'''', ''safe''}"
    using acc assms(2) by (auto simp: validate_scope_policy_def wapiti_problems_def)
  have "all_write_approvals cfg = []" "cfg_nextjs_action_approvals cfg = []" "cfg_nextjs_boundary_approvals cfg = []"
    using acc env
    by (auto simp: write_loop_quiet write_form_problems_def validate_nextjs_action_approvals_def
        validate_nextjs_boundary_approvals_def neq_Nil_conv split: if_splits)
  with env wapiti show ?thesis by blast
qed

text \<open>an accepted Black Box configuration has no access binding of any kind, no internal
  resource among its targets, no test environment, no full Wapiti mode, and no write, fuzz,
  Server Action or boundary approval and no authorization expectation.\<close>

theorem black_box_is_external:
  assumes "accepted cfg" and "cfg_mode cfg = ModeBlackBox"
  shows "cfg_access cfg = [] \<and> list_all (\<lambda>t. \<not> internal_resource_kind (tgt_kind t)) (cfg_targets cfg)
    \<and> \<not> cfg_test_environment cfg \<and> cfg_wapiti_mode cfg \<in> {'''', ''safe''}
    \<and> all_write_approvals cfg = [] \<and> cfg_nextjs_action_approvals cfg = []
    \<and> cfg_nextjs_boundary_approvals cfg = [] \<and> cfg_authorization_expectations cfg = []"
  using black_box_no_access [OF assms] black_box_no_resource [OF assms] black_box_no_approvals [OF assms]
    black_box_no_expectations [OF assms] by blast

theorem black_box_is_external_witness:
  "cfg_access domain_config = [] \<and> list_all (\<lambda>t. \<not> internal_resource_kind (tgt_kind t)) (cfg_targets domain_config)
    \<and> \<not> cfg_test_environment domain_config \<and> cfg_wapiti_mode domain_config \<in> {'''', ''safe''}
    \<and> all_write_approvals domain_config = [] \<and> cfg_nextjs_action_approvals domain_config = []
    \<and> cfg_nextjs_boundary_approvals domain_config = [] \<and> cfg_authorization_expectations domain_config = []"
  by (rule black_box_is_external [OF domain_config_accepted]) (simp add: domain_config_def)

definition approved_path :: "app_scope \<Rightarrow> string \<Rightarrow> string \<Rightarrow> bool" where
  "approved_path s m p \<longleftrightarrow>
     list_ex (\<lambda>ori. fst (allows s (request_url ori p))) (sc_origins s)
     \<and> list_all (\<lambda>ori. \<not> fst (allows s (request_url ori p)) \<or> excluded s m (request_url ori p) = None) (sc_origins s)"

text \<open>C5: every write an accepted configuration approves (fuzz approvals included) belongs to a
  declared test environment outside Black Box mode and to a known target, its path lies in the
  target's scope under some approved origin and is excluded under none that reaches it, and the
  same holds of its mandatory cleanup; no two approve the same target, method and path.\<close>

theorem accepted_writes_confined:
  assumes "accepted cfg" and "a \<in> set (all_write_approvals cfg)"
  shows "cfg_test_environment cfg \<and> cfg_mode cfg \<noteq> ModeBlackBox \<and> wa_target_id a \<in> target_ids cfg
    \<and> approved_path (app_scope_for_target cfg (wa_target_id a)) (wa_method a) (wa_path a)
    \<and> wa_cleanup_method a \<noteq> '''' \<and> wa_cleanup_path a \<noteq> ''''
    \<and> approved_path (app_scope_for_target cfg (wa_target_id a)) (wa_cleanup_method a) (wa_cleanup_path a)
    \<and> distinct (map write_key (all_write_approvals cfg))"
proof -
  have q: "quiet (write_form_problems cfg a)" "quiet (write_scope_problems cfg a)"
    "quiet (write_cleanup_problems a)" "distinct (map write_key (all_write_approvals cfg))"
    using assms by (auto simp: accepted_iff write_loop_quiet)
  from q(1) have form: "cfg_test_environment cfg" "cfg_mode cfg \<noteq> ModeBlackBox" "wa_target_id a \<in> target_ids cfg"
    by (simp_all add: write_form_problems_def)
  from q(3) have cleanup: "wa_cleanup_method a \<noteq> ''''" "wa_cleanup_path a \<noteq> ''''"
    by (auto simp: write_cleanup_problems_def)
  from form(3) obtain t where t: "t \<in> set (cfg_targets cfg)" "tgt_id t = wa_target_id a"
    by (auto simp: target_ids_def)
  let ?s = "app_scope_for_target cfg (wa_target_id a)"
  from q(2) t cleanup
  have "quiet (path_scope_problems ?s (wa_method a) (wa_path a) ''api_write.excluded'' ''api_write.out_of_scope'')"
    "quiet (path_scope_problems ?s (wa_cleanup_method a) (wa_cleanup_path a)
              ''api_write.cleanup_excluded'' ''api_write.cleanup_out_of_scope'')"
    unfolding write_scope_problems_def quiet_concat_map Let_def by (auto split: if_splits)
  then have "approved_path ?s (wa_method a) (wa_path a)"
    "approved_path ?s (wa_cleanup_method a) (wa_cleanup_path a)"
    unfolding path_scope_quiet approved_path_def by (auto simp: list_ex_iff list_all_iff)
  with form cleanup q(4) show ?thesis by blast
qed

theorem accepted_writes_confined_witness:
  "cfg_test_environment api_config \<and> cfg_mode api_config \<noteq> ModeBlackBox \<and> wa_target_id create_pet \<in> target_ids api_config
    \<and> approved_path (app_scope_for_target api_config (wa_target_id create_pet)) (wa_method create_pet) (wa_path create_pet)
    \<and> wa_cleanup_method create_pet \<noteq> '''' \<and> wa_cleanup_path create_pet \<noteq> ''''
    \<and> approved_path (app_scope_for_target api_config (wa_target_id create_pet)) (wa_cleanup_method create_pet) (wa_cleanup_path create_pet)
    \<and> distinct (map write_key (all_write_approvals api_config))"
  by (rule accepted_writes_confined [OF api_config_accepted])
    (simp add: all_write_approvals_def api_config_def)

text \<open>every manual seed of an accepted configuration is an http(s) URL target value and lies
  in the scope of one of the targets, and that scope does not exclude a GET of it.\<close>

theorem accepted_seeds_confined:
  assumes "accepted cfg" and "seed \<in> set (cfg_manual_seeds cfg)"
  shows "validate_target_value KindURL seed = None
    \<and> (\<exists>t \<in> set (cfg_targets cfg). fst (allows (app_scope_for_target cfg (tgt_id t)) seed)
         \<and> excluded (app_scope_for_target cfg (tgt_id t)) ''GET'' seed = None)"
proof -
  from assms have q: "quiet (seed_problems cfg seed)"
    by (simp add: accepted_iff validate_scope_policy_def)
  then obtain s where v: "validate_target_value KindURL seed = None"
    and s: "find (\<lambda>s. fst (allows s seed)) (map (\<lambda>t. app_scope_for_target cfg (tgt_id t)) (cfg_targets cfg)) = Some s"
    and e: "excluded s ''GET'' seed = None"
    by (auto simp: seed_problems_def split: if_splits option.splits)
  from s have "s \<in> set (map (\<lambda>t. app_scope_for_target cfg (tgt_id t)) (cfg_targets cfg))" "fst (allows s seed)"
    by (auto simp: find_Some_iff)
  with v e show ?thesis by auto
qed

theorem accepted_seeds_confined_witness:
  "validate_target_value KindURL ''https://api.test/v1/x'' = None
    \<and> (\<exists>t \<in> set (cfg_targets api_config). fst (allows (app_scope_for_target api_config (tgt_id t)) ''https://api.test/v1/x'')
         \<and> excluded (app_scope_for_target api_config (tgt_id t)) ''GET'' ''https://api.test/v1/x'' = None)"
  by (rule accepted_seeds_confined [OF api_config_accepted]) (simp add: api_config_def)

text \<open>In an accepted configuration every operation with an authorization expectation has one
  for a second, different identity, every expected identity is anonymous or bound to a credential,
  and no credential carries the reserved name anonymous.\<close>

theorem accepted_expectations_compare:
  assumes "accepted cfg" and "e \<in> set (cfg_authorization_expectations cfg)"
  shows "(\<exists>e' \<in> set (cfg_authorization_expectations cfg).
            ax_operation_id e' = ax_operation_id e \<and> ax_identity e' \<noteq> ax_identity e)
    \<and> (ax_identity e = ''anonymous'' \<or> (\<exists>ab \<in> set (cfg_access cfg). ab_identity ab = ax_identity e))
    \<and> list_all (\<lambda>ab. ab_identity ab \<noteq> ''anonymous'') (cfg_access cfg)
    \<and> ax_expect e \<in> {''allow'', ''deny''}"
proof -
  note acc = assms(1) [unfolded accepted_iff]
  from acc assms(2) have "quiet (expectation_problems cfg e)" by simp
  then have e: "ax_expect e \<in> {''allow'', ''deny''}"
    "ax_identity e = ''anonymous'' \<or> (\<exists>ab \<in> set (cfg_access cfg). ab_identity ab = ax_identity e)"
    by (force simp: expectation_problems_def bound_identities_def)+
  from acc have "list_all (\<lambda>ab. ab_identity ab \<noteq> ''anonymous'') (cfg_access cfg)"
    by (auto simp: identity_problems_def list_all_iff)
  moreover have "\<exists>e' \<in> set (cfg_authorization_expectations cfg).
      ax_operation_id e' = ax_operation_id e \<and> ax_identity e' \<noteq> ax_identity e"
    using acc assms(2) by (intro expectation_two) simp
  ultimately show ?thesis using e by blast
qed

theorem accepted_expectations_compare_witness:
  "(\<exists>e' \<in> set (cfg_authorization_expectations api_config).
            ax_operation_id e' = ax_operation_id (expect_pet ''owner'' ''allow'')
            \<and> ax_identity e' \<noteq> ax_identity (expect_pet ''owner'' ''allow''))
    \<and> (ax_identity (expect_pet ''owner'' ''allow'') = ''anonymous''
       \<or> (\<exists>ab \<in> set (cfg_access api_config). ab_identity ab = ax_identity (expect_pet ''owner'' ''allow'')))
    \<and> list_all (\<lambda>ab. ab_identity ab \<noteq> ''anonymous'') (cfg_access api_config)
    \<and> ax_expect (expect_pet ''owner'' ''allow'') \<in> {''allow'', ''deny''}"
  by (rule accepted_expectations_compare [OF api_config_accepted]) (simp add: api_config_def)

text \<open>an accepted Server Action campaign names a URL target and an owner with a credential
  for it, has two to eight cases with distinct ids, starts with the owner being allowed from the
  same origin, and every later case must be denied and differs from the baseline in identity or
  origin; a cross-origin case always uses the owner, every other identity is anonymous or bound to
  the target, and no identity is tried twice from the same kind of origin.\<close>

theorem accepted_campaigns_controlled:
  assumes "accepted cfg" and "a \<in> set (cfg_nextjs_action_approvals cfg)"
  shows "cfg_test_environment cfg \<and> gray_or_white cfg \<and> url_target_known cfg (na_target_id a)
    \<and> na_owner_identity a \<noteq> ''anonymous'' \<and> identity_bound cfg (na_target_id a) (na_owner_identity a)
    \<and> (\<exists>c cs. na_cases a = c # cs \<and> 1 \<le> length cs \<and> length cs \<le> 7
         \<and> nc_identity c = na_owner_identity a \<and> nc_expect c = ''allow'' \<and> \<not> nc_cross_origin c
         \<and> list_all (\<lambda>x. nc_expect x = ''deny'' \<and> nc_cross_origin x = (nc_identity x = na_owner_identity a)
              \<and> (nc_identity x = ''anonymous'' \<or> identity_bound cfg (na_target_id a) (nc_identity x))) cs)
    \<and> distinct (map nc_id (na_cases a)) \<and> distinct (map (\<lambda>c. (nc_identity c, nc_cross_origin c)) (na_cases a))"
proof -
  from assms have q: "cfg_test_environment cfg" "gray_or_white cfg"
    "quiet (action_loop cfg {} (cfg_nextjs_action_approvals cfg))"
    by (auto simp: accepted_iff validate_nextjs_action_approvals_def split: if_splits)
  with assms(2) have a: "url_target_known cfg (na_target_id a)" "na_owner_identity a \<noteq> ''anonymous''"
    "identity_bound cfg (na_target_id a) (na_owner_identity a)" "quiet (action_cases_problems cfg a)"
    by (auto simp: action_loop_quiet)
  then obtain c cs where c: "na_cases a = c # cs" "1 \<le> length cs" "length cs \<le> 7"
    "nc_identity c = na_owner_identity a" "nc_expect c = ''allow''" "\<not> nc_cross_origin c"
    and all: "quiet (action_case_problems cfg a {} {} 0 (na_cases a))"
    by (cases "na_cases a") (auto simp: action_cases_problems_def Suc_le_eq split: if_splits)
  have ids: "distinct (map nc_id (na_cases a))" using action_case_ids [OF all] by simp
  have "distinct (map case_variant (na_cases a))" using action_case_variants [OF all] by simp
  then have "distinct (map (\<lambda>c. (nc_identity c, nc_cross_origin c)) (na_cases a))"
    by (auto simp: distinct_map inj_on_def case_variant_def)
  moreover have "list_all (\<lambda>x. nc_expect x = ''deny'' \<and> nc_cross_origin x = (nc_identity x = na_owner_identity a)
      \<and> (nc_identity x = ''anonymous'' \<or> identity_bound cfg (na_target_id a) (nc_identity x))) cs"
  proof -
    from all c have later: "quiet (action_case_problems cfg a {nc_id c} {case_variant c} 1 cs)" by simp
    show ?thesis
      using action_case_later [OF later] action_case_each [OF later] by (auto simp: list_all_iff)
  qed
  ultimately show ?thesis using q a c ids by blast
qed

theorem accepted_campaigns_controlled_witness:
  "cfg_test_environment api_config \<and> gray_or_white api_config \<and> url_target_known api_config (na_target_id campaign)
    \<and> na_owner_identity campaign \<noteq> ''anonymous'' \<and> identity_bound api_config (na_target_id campaign) (na_owner_identity campaign)
    \<and> (\<exists>c cs. na_cases campaign = c # cs \<and> 1 \<le> length cs \<and> length cs \<le> 7
         \<and> nc_identity c = na_owner_identity campaign \<and> nc_expect c = ''allow'' \<and> \<not> nc_cross_origin c
         \<and> list_all (\<lambda>x. nc_expect x = ''deny'' \<and> nc_cross_origin x = (nc_identity x = na_owner_identity campaign)
              \<and> (nc_identity x = ''anonymous'' \<or> identity_bound api_config (na_target_id campaign) (nc_identity x))) cs)
    \<and> distinct (map nc_id (na_cases campaign)) \<and> distinct (map (\<lambda>c. (nc_identity c, nc_cross_origin c)) (na_cases campaign))"
  by (rule accepted_campaigns_controlled [OF api_config_accepted]) (simp add: api_config_def)

section \<open>Normalisation\<close>

text \<open>normalising a configuration twice is normalising it once, provided its normalised
  origins and exclusions are fixed points of their own normalisation.\<close>

theorem normalize_idempotent:
  assumes "list_all (\<lambda>ori. fst (normalize_origin ori) = ori) (cfg_approved_origins (normalize_config cfg))"
    and "list_all (\<lambda>e. normalize_exclusion e = e) (cfg_exclusions (normalize_config cfg))"
  shows "normalize_config (normalize_config cfg) = normalize_config cfg"
proof -
  have "map (\<lambda>ori. fst (normalize_origin ori)) (normalize_origins (cfg_approved_origins cfg)) =
      normalize_origins (cfg_approved_origins cfg)"
    using assms(1) by (intro map_idI) (auto simp: normalize_config_def list_all_iff)
  then have os: "normalize_origins (normalize_origins (cfg_approved_origins cfg)) = normalize_origins (cfg_approved_origins cfg)"
    by (simp add: normalize_origins_def sort_dedupe_origins_id sort_dedupe_origins_strict)
  let ?es = "sort_dedupe_exclusions (normalize_exclusions (cfg_exclusions cfg))"
  have "normalize_exclusions ?es = ?es"
    using assms(2) unfolding normalize_exclusions_def
    by (intro map_idI) (auto simp: normalize_config_def list_all_iff normalize_exclusions_def)
  then have es: "sort_dedupe_exclusions (normalize_exclusions ?es) = ?es" by simp
  have access: "map (normalize_access \<circ> normalize_access) xs = map normalize_access xs" for xs
    by (simp add: normalize_access_idem comp_def)
  have ids: "uniq_from {} (map trim_space (uniq_from {} (map trim_space xs))) = uniq_from {} (map trim_space xs)" for xs
    using uniq_filter_map_fixed [of trim_space "\<lambda>_. True"] by simp
  show ?thesis
    unfolding normalize_config_def
    by (simp add: os es access ids trim_space_to_upper normalize_types_idem normalize_targets_idem
        normalize_bindings_idem normalize_boundary_approvals_idem normalize_action_approvals_idem
        normalize_selection_idem normalize_providers_idem normalize_seeds_idem normalize_inputs_def
        input_ord.sort_slice_map_fixed [OF normalize_input_idem]
        write_ord.sort_slice_map_fixed [OF normalize_write_approval_idem]
        fuzz_ord.sort_slice_map_fixed [OF normalize_fuzz_idem]
        expectation_ord.sort_slice_map_fixed [OF normalize_expectation_idem])
qed

theorem normalize_idempotent_witness:
  "normalize_config (normalize_config api_config) = normalize_config api_config"
  by (rule normalize_idempotent) code_simp+

text \<open>\<open>normalizeInputMap\<close> keeps one value for two names that differ only in surrounding
  white space, and which one depends on the iteration order of the Go map: two orders of the same
  map give different values, so the normalised configuration and its fingerprint are not
  determined by the input.\<close>

theorem input_map_order_dependent:
  "map_of [(''id'', ''1''), ('' id'', ''2'')] = map_of [('' id'', ''2''), (''id'', ''1'')]
   \<and> map_of (normalize_input_map [(''id'', ''1''), ('' id'', ''2'')]) ''id'' = Some ''2''
   \<and> map_of (normalize_input_map [('' id'', ''2''), (''id'', ''1'')]) ''id'' = Some ''1''"
proof (intro conjI)
  show "map_of [(''id'', ''1''), ('' id'', ''2'')] = map_of [('' id'', ''2''), (''id'', ''1'')]"
    by (auto simp: fun_eq_iff)
qed code_simp+

end
