(* ===== verification/Capabilities.thy ===== *)
theory Capabilities
  imports ValidateProperties
begin

text \<open>
  Derivation of capability evidence from a normalised configuration
  (\<open>internal/assessment/capabilities.go\<close>): what each target establishes by itself, what an API
  schema adds, and what the access bindings add to the targets they name.
\<close>

definition ev :: "capability \<Rightarrow> string \<Rightarrow> evidence_state \<Rightarrow> string \<Rightarrow> string \<Rightarrow> capability_evidence" where
  "ev c tid st prov reason = \<lparr>ev_capability = c, ev_target_id = tid, ev_reference_id = '''', ev_access_kind = '''',
     ev_state = st, ev_provenance = prov, ev_reason = reason\<rparr>"

definition contains_type :: "string list \<Rightarrow> string \<Rightarrow> bool" where
  "contains_type ts want = list_ex (\<lambda>t. t = want) ts"

definition is_http_url :: "string \<Rightarrow> bool" where
  "is_http_url v = (let lv = to_lower (trim_space v) in has_prefix lv ''http://'' \<or> has_prefix lv ''https://'')"

definition target_evidence :: "bool \<Rightarrow> target \<Rightarrow> capability_evidence list" where
  "target_evidence want_api t =
     (let tid = tgt_id t; k = tgt_kind t in
      if k = KindDomain then
        [ev CapNetwork tid StateDeclared ''domain'' ''domain establishes network scope'',
         ev CapWeb tid StateDeclared ''domain'' ''domain may resolve to web hosts (discovery required)'']
      else if k = KindIP then [ev CapNetwork tid StateDeclared ''ip'' ''IP establishes network scope'']
      else if k = KindCIDR then [ev CapNetwork tid StateDeclared ''cidr'' ''CIDR establishes bounded network scope'']
      else if k = KindHost then
        [ev CapNetwork tid StateDeclared ''host'' ''host establishes network scope'',
         ev CapHost tid StateDeclared ''host'' ''host target requested for host-level checks'']
      else if k = KindURL then
        [ev CapWeb tid StateAvailable ''url'' ''explicit HTTP(S) URL is a concrete web target'']
        @ (if want_api \<and> is_http_url (tgt_value t)
           then [ev CapAPI tid StateAvailable ''url'' ''URL usable as an API base for API assessment''] else [])
      else if k = KindRepository then
        [ev CapSource tid StateDeclared ''repository'' ''remote repository requires checkout before source access'',
         ev CapGit tid StateDeclared ''repository'' ''repository provides Git history once prepared'']
      else if k = KindLocalSourcePath then
        [ev CapSource tid StateDeclared ''local_source'' ''local source path establishes source access once verified readable'']
      else if k = KindDockerImage then
        [ev CapImage tid StateDeclared ''image'' ''image reference is conditional until the runtime can pull it'']
      else if k = KindSBOM then [ev CapSBOM tid StateAvailable ''sbom'' ''SBOM resource is directly consumable'']
      else if k = KindCloudAccount then
        [ev CapCloud tid StateUnavailable ''cloud'' ''no cloud adapter is available in this release'']
      else if k = KindKubernetesCluster then
        [ev CapKubernetes tid StateUnavailable ''kubernetes'' ''no Kubernetes adapter is available in this release'']
      else [])"

definition has_schema :: "assessment_config \<Rightarrow> target \<Rightarrow> bool" where
  "has_schema cfg t \<longleftrightarrow>
     list_ex (\<lambda>b. adb_target_id b = tgt_id t \<and> adb_definition_id b \<noteq> '''') (cfg_api_definitions cfg)
     \<or> (length (cfg_targets cfg) = 1 \<and> cfg_api_definition_ids cfg \<noteq> [])"

definition schema_evidence :: "assessment_config \<Rightarrow> target \<Rightarrow> capability_evidence list" where
  "schema_evidence cfg t =
     (if contains_type (cfg_types cfg) TypeAPI \<and> has_schema cfg t \<and> (tgt_kind t = KindURL \<or> tgt_kind t = KindDomain)
      then [ev CapSchema (tgt_id t) StateDeclared ''api_definition'' ''uploaded API schema declared for this target'']
      else [])"

definition access_evidence :: "access_binding \<Rightarrow> string \<Rightarrow> capability_evidence list" where
  "access_evidence ab tid =
     (let k = ab_kind ab; cred = trim_space (ab_credential_id ab) in
      if application_access k then
        [(ev CapAuthWeb tid (if cred \<noteq> '''' then StateAvailable else StateDeclared) ''credential_ref''
            (if cred \<noteq> '''' then ''credential reference supplied; verification pending''
             else ''authenticated access requested without a resolvable credential''))
           \<lparr>ev_reference_id := cred, ev_access_kind := k\<rparr>]
      else if k = AccessRepositoryCreds then [ev CapGit tid StateAvailable ''credential_ref'' ''repository credentials supplied'']
      else if k = AccessSSH then
        [(ev CapSSH tid StateDeclared ''credential_ref'' ''SSH alias reference requires target-bound credential resolution'')
           \<lparr>ev_reference_id := cred, ev_access_kind := k\<rparr>]
      else if k = AccessWindows then [ev CapWindows tid StateUnavailable ''windows'' ''no Windows adapter is available in this release'']
      else if k = AccessCloud then [ev CapCloud tid StateUnavailable ''cloud'' ''no cloud adapter is available in this release'']
      else if k = AccessKubernetes then
        [ev CapKubernetes tid StateUnavailable ''kubernetes'' ''no Kubernetes adapter is available in this release'']
      else [])"

definition derive_capabilities :: "assessment_config \<Rightarrow> capability_evidence list" where
  "derive_capabilities cfg =
     concat (map (\<lambda>t. target_evidence (contains_type (cfg_types cfg) TypeAPI) t @ schema_evidence cfg t) (cfg_targets cfg))
     @ concat (map (\<lambda>ab. concat (map (access_evidence ab) (ab_target_ids ab))) (cfg_access cfg))"

lemma ev_fields [simp]:
  "ev_capability (ev c t s p r) = c" "ev_target_id (ev c t s p r) = t" "ev_state (ev c t s p r) = s"
  "ev_reference_id (ev c t s p r) = ''''" "ev_access_kind (ev c t s p r) = ''''"
  by (simp_all add: ev_def)

lemma target_evidence_fields:
  "x \<in> set (target_evidence w t) \<Longrightarrow>
     ev_target_id x = tgt_id t \<and> ev_state x \<in> {StateDeclared, StateAvailable, StateUnavailable}
     \<and> ev_capability x \<notin> {CapAuthWeb, CapSSH, CapWindows}"
  by (auto simp: target_evidence_def Let_def split: if_splits)

lemma target_evidence_external:
  "x \<in> set (target_evidence w t) \<Longrightarrow>
     ev_capability x \<in> {CapNetwork, CapWeb, CapAPI, CapHost, CapSBOM} \<or> internal_resource_kind (tgt_kind t)"
  by (auto simp: target_evidence_def internal_resource_kind_def Let_def split: if_splits)

lemma schema_evidence_fields:
  "x \<in> set (schema_evidence cfg t) \<Longrightarrow> ev_target_id x = tgt_id t \<and> ev_state x = StateDeclared \<and> ev_capability x = CapSchema"
  by (auto simp: schema_evidence_def split: if_splits)

lemma access_evidence_fields:
  "x \<in> set (access_evidence ab tid) \<Longrightarrow>
     ev_target_id x = tid \<and> ev_state x \<in> {StateDeclared, StateAvailable, StateUnavailable}
     \<and> (ev_capability x = CapAuthWeb \<longleftrightarrow> application_access (ab_kind ab))"
  by (auto simp: access_evidence_def Let_def split: if_splits)

lemma set_derive_capabilities:
  "x \<in> set (derive_capabilities cfg) \<longleftrightarrow>
     (\<exists>t \<in> set (cfg_targets cfg). x \<in> set (target_evidence (contains_type (cfg_types cfg) TypeAPI) t) \<or> x \<in> set (schema_evidence cfg t))
     \<or> (\<exists>ab \<in> set (cfg_access cfg). \<exists>tid \<in> set (ab_target_ids ab). x \<in> set (access_evidence ab tid))"
  by (auto simp: derive_capabilities_def)

text \<open>Derived evidence is never verified, failed or expired, and it is never about a target the
  configuration does not name: its target is one of the targets or one an access binding lists; in
  an accepted configuration it is always one of the targets.\<close>

theorem evidence_never_verified:
  assumes "accepted cfg" and "x \<in> set (derive_capabilities cfg)"
  shows "ev_state x \<in> {StateDeclared, StateAvailable, StateUnavailable} \<and> ev_target_id x \<in> target_ids cfg"
proof -
  from assms(1) have "tid \<in> target_ids cfg" if "ab \<in> set (cfg_access cfg)" "tid \<in> set (ab_target_ids ab)" for ab tid
    using that by (auto simp: accepted_iff access_problems_def access_target_problems_def)
  with assms(2) show ?thesis
    by (auto simp: set_derive_capabilities target_ids_def
        dest!: target_evidence_fields schema_evidence_fields access_evidence_fields)
qed

theorem evidence_never_verified_witness:
  "ev_state (ev CapWeb ''t1'' StateAvailable ''url'' ''explicit HTTP(S) URL is a concrete web target'')
      \<in> {StateDeclared, StateAvailable, StateUnavailable}
   \<and> ev_target_id (ev CapWeb ''t1'' StateAvailable ''url'' ''explicit HTTP(S) URL is a concrete web target'') \<in> target_ids api_config"
  by (rule evidence_never_verified [OF api_config_accepted])
    code_simp

text \<open>authenticated web evidence for a target exists exactly when an application access binding
  of the configuration names that very target, and it is available only when one of them carries a
  credential; capabilities of one target are never derived from a binding of another.\<close>

theorem authenticated_evidence_bound:
  "(\<exists>x \<in> set (derive_capabilities cfg). ev_capability x = CapAuthWeb \<and> ev_target_id x = tid \<and> P (ev_state x)) \<longleftrightarrow>
   (\<exists>ab \<in> set (cfg_access cfg). application_access (ab_kind ab) \<and> tid \<in> set (ab_target_ids ab)
      \<and> P (if trim_space (ab_credential_id ab) \<noteq> '''' then StateAvailable else StateDeclared))" (is "?l \<longleftrightarrow> ?r")
proof
  assume ?l
  then obtain x where x: "x \<in> set (derive_capabilities cfg)" "ev_capability x = CapAuthWeb" "ev_target_id x = tid" "P (ev_state x)"
    by blast
  then obtain ab i where ab: "ab \<in> set (cfg_access cfg)" "i \<in> set (ab_target_ids ab)" "x \<in> set (access_evidence ab i)"
    by (auto simp: set_derive_capabilities dest!: target_evidence_fields schema_evidence_fields)
  with access_evidence_fields [OF ab(3)] x show ?r
    by (intro bexI [of _ ab]) (auto simp: access_evidence_def Let_def split: if_splits)
next
  assume ?r
  then obtain ab where ab: "ab \<in> set (cfg_access cfg)" "application_access (ab_kind ab)" "tid \<in> set (ab_target_ids ab)"
    "P (if trim_space (ab_credential_id ab) \<noteq> '''' then StateAvailable else StateDeclared)" by blast
  let ?x = "hd (access_evidence ab tid)"
  from ab(2) have x: "?x \<in> set (access_evidence ab tid)" "ev_capability ?x = CapAuthWeb" "ev_target_id ?x = tid"
    "ev_state ?x = (if trim_space (ab_credential_id ab) \<noteq> '''' then StateAvailable else StateDeclared)"
    by (simp_all add: access_evidence_def Let_def)
  with ab show ?l by (intro bexI [of _ ?x]) (auto simp: set_derive_capabilities)
qed

text \<open>An accepted Black Box configuration yields no authenticated, source, image, SSH, Windows,
  cloud or Kubernetes evidence at all.\<close>

theorem black_box_evidence_external:
  assumes "accepted cfg" and "cfg_mode cfg = ModeBlackBox" and "x \<in> set (derive_capabilities cfg)"
  shows "ev_capability x \<in> {CapNetwork, CapWeb, CapAPI, CapHost, CapSBOM, CapSchema}"
  using black_box_no_access [OF assms(1,2)] black_box_no_resource [OF assms(1,2)] assms(3)
  by (auto simp: set_derive_capabilities list_all_iff dest!: schema_evidence_fields target_evidence_external)

theorem black_box_evidence_external_witness:
  "ev_capability (ev CapNetwork ''t1'' StateDeclared ''domain'' ''domain establishes network scope'')
     \<in> {CapNetwork, CapWeb, CapAPI, CapHost, CapSBOM, CapSchema}"
  by (rule black_box_evidence_external [OF domain_config_accepted])
    code_simp+

end
