(* ===== verification/Registry.thy ===== *)
theory Registry
  imports AssessTypes
begin

text \<open>
  The scanner registry and the workflow stages (\<open>internal/scanner/registry.go\<close>,
  \<open>descriptor.go\<close>, the name lists and \<open>NormalizeScanners\<close> of \<open>types.go\<close>). A registry entry is
  the Go struct without its one-line summary for the UI.
\<close>

section \<open>Vocabulary\<close>

datatype phase =
  PhaseRecon | PhaseWeb | PhaseServer | PhaseSAST | PhaseCloud | PhaseKubernetes | PhaseFinalize

definition GroupWebAPI :: string where [simp]: "GroupWebAPI = ''web_api''"
definition GroupNetwork :: string where [simp]: "GroupNetwork = ''network_servers''"
definition GroupCloud :: string where [simp]: "GroupCloud = ''cloud''"
definition GroupKubernetes :: string where [simp]: "GroupKubernetes = ''kubernetes''"
definition GroupCode :: string where [simp]: "GroupCode = ''code''"

definition PolicyGetHeadOnly :: string where "PolicyGetHeadOnly = ''get_head_only''"
definition PolicyExclusions :: string where "PolicyExclusions = ''exclusions''"
definition PolicyRateLimited :: string where "PolicyRateLimited = ''rate_limited''"
definition PolicyScopeRegex :: string where "PolicyScopeRegex = ''scope_regex''"
definition PolicyWriteCapable :: string where "PolicyWriteCapable = ''write_capable''"
definition PolicyOASTDisabled :: string where "PolicyOASTDisabled = ''oast_disabled''"

record scanner_definition =
  sd_id :: string
  sd_name :: string
  sd_category :: phase
  sd_group :: string
  sd_types :: "string list"
  sd_kinds :: "string list"
  sd_required :: "capability list"
  sd_optional :: "capability list"
  sd_auth :: bool
  sd_default :: string
  sd_risk :: string
  sd_available :: bool
  sd_selectable :: bool
  sd_stage :: string
  sd_policy :: "string list"
  sd_format :: string

section \<open>Workflow stages\<close>

definition StageScope :: string where [simp]: "StageScope = ''scope''"
definition StageDiscovery :: string where [simp]: "StageDiscovery = ''discovery''"
definition StageDNS :: string where [simp]: "StageDNS = ''dns''"
definition StageReachability :: string where [simp]: "StageReachability = ''reachability''"
definition StageAuth :: string where [simp]: "StageAuth = ''auth''"
definition StageCrawl :: string where [simp]: "StageCrawl = ''crawl''"
definition StageInventory :: string where [simp]: "StageInventory = ''inventory''"
definition StagePassive :: string where [simp]: "StagePassive = ''passive''"
definition StageTemplates :: string where [simp]: "StageTemplates = ''templates''"
definition StageTLS :: string where [simp]: "StageTLS = ''tls''"
definition StageDAST :: string where [simp]: "StageDAST = ''dast''"
definition StageValidation :: string where [simp]: "StageValidation = ''validation''"
definition StageWrite :: string where [simp]: "StageWrite = ''write_validation''"
definition StageResults :: string where [simp]: "StageResults = ''results''"

definition stage_order :: "string list" where
  "stage_order = [StageScope, StageDiscovery, StageDNS, StageReachability, StageAuth, StageCrawl,
     StageInventory, StagePassive, StageTemplates, StageTLS, StageDAST, StageValidation, StageWrite,
     StageResults]"

definition stage_prerequisites :: "(string \<times> string list) list" where
  "stage_prerequisites =
     [(StageDiscovery, [StageScope]), (StageDNS, [StageDiscovery]), (StageReachability, [StageDNS]),
      (StageAuth, [StageReachability]), (StageCrawl, [StageAuth]), (StageInventory, [StageCrawl]),
      (StagePassive, [StageInventory]), (StageTemplates, [StageInventory]), (StageTLS, [StageReachability]),
      (StageDAST, [StageInventory]), (StageValidation, [StageInventory]), (StageWrite, [StageValidation]),
      (StageResults, [StagePassive, StageTemplates, StageTLS, StageDAST, StageValidation, StageWrite])]"

text \<open>Indexing a Go map: the zero value for a missing key.\<close>

definition prerequisites :: "string \<Rightarrow> string list" where
  "prerequisites s = (case map_of stage_prerequisites s of Some ps \<Rightarrow> ps | None \<Rightarrow> [])"

definition stage_for_scanner :: "string \<Rightarrow> string" where
  "stage_for_scanner sid =
     (if sid \<in> set [''subfinder'', ''amass''] then StageDiscovery
      else if sid = ''dnsx'' then StageDNS
      else if sid \<in> set [''httpx'', ''nmap'', ''masscan''] then StageReachability
      else if sid = ''auth'' then StageAuth
      else if sid \<in> set [''katana'', ''gau'', ''waybackurls''] then StageCrawl
      else if sid \<in> set [''nuclei'', ''nikto''] then StageTemplates
      else if sid \<in> set [''testssl'', ''sslyze''] then StageTLS
      else if sid = ''dalfox'' then StageValidation
      else if sid = ''apichecks'' then StageValidation
      else if sid \<in> set [''apiwrites'', ''nextjs-actions'', ''nextjs-boundaries''] then StageWrite
      else if sid = ''nextjs-assets'' then StagePassive
      else StageDAST)"

fun rank_from :: "int \<Rightarrow> string list \<Rightarrow> string \<Rightarrow> int" where
  "rank_from i [] stage = -1"
| "rank_from i (s # ss) stage = (if s = stage then i else rank_from (i + 1) ss stage)"

definition stage_rank :: "string \<Rightarrow> int" where
  "stage_rank stage = rank_from 0 stage_order stage"

text \<open>Every prerequisite lies strictly earlier on the ladder, and every scanner's stage is on it.\<close>

lemma prerequisites_earlier: "p \<in> set (prerequisites s) \<Longrightarrow> 0 \<le> stage_rank p \<and> stage_rank p < stage_rank s"
proof -
  assume p: "p \<in> set (prerequisites s)"
  have "list_all (\<lambda>(s, ps). list_all (\<lambda>p. 0 \<le> stage_rank p \<and> stage_rank p < stage_rank s) ps) stage_prerequisites"
    by code_simp
  moreover from p have "(s, prerequisites s) \<in> set stage_prerequisites"
    by (auto simp: prerequisites_def split: option.splits dest: map_of_SomeD)
  ultimately show ?thesis using p by (fastforce simp: list_all_iff)
qed

lemma stage_for_scanner_known: "stage_for_scanner sid \<in> set stage_order"
  unfolding stage_for_scanner_def stage_order_def by simp

lemma rank_from_ge: "s \<in> set ss \<Longrightarrow> i \<le> rank_from i ss s"
  by (induction i ss s rule: rank_from.induct) auto

lemma stage_rank_known: "s \<in> set stage_order \<Longrightarrow> 0 \<le> stage_rank s"
  by (simp add: stage_rank_def rank_from_ge)

section \<open>Names\<close>

definition OrderedNames :: "string list" where
  "OrderedNames = [''nuclei'', ''zap'', ''testssl'', ''openvas'', ''trivy'', ''semgrep'', ''gitleaks'', ''vuls'', ''osv'']"

definition assessment_only_names :: "string list" where
  "assessment_only_names = [''nextjs-deps'', ''nextjs-sast'', ''kube-exposure'', ''nextjs-assets'', ''actuator'',
     ''vcs-exposure'', ''exposed-files'']"

text \<open>\<open>NormalizeScanners\<close>: \<open>Inl\<close> is the error naming the unknown scanner.\<close>

fun select_scanners :: "string set \<Rightarrow> string list \<Rightarrow> string + string set" where
  "select_scanners sel [] = Inr sel"
| "select_scanners sel (raw # raws) =
     (let name = to_lower (trim_space raw)
      in if name = '''' then select_scanners sel raws
         else if name \<notin> set OrderedNames \<and> name \<notin> set assessment_only_names then Inl raw
         else select_scanners (insert name sel) raws)"

definition normalize_scanners :: "string list \<Rightarrow> string + string list" where
  "normalize_scanners names =
     (case select_scanners {} names of
        Inl raw \<Rightarrow> Inl raw
      | Inr sel \<Rightarrow> if sel = {} then Inr []
                   else Inr (filter (\<lambda>n. n \<in> sel) (OrderedNames @ assessment_only_names)))"

section \<open>The catalog\<close>

definition network_types :: "string list" where "network_types = [TypeNetwork, TypeHost]"
definition web_types :: "string list" where "web_types = [TypeWebApplication]"
definition api_types :: "string list" where "api_types = [TypeAPI]"
definition source_types :: "string list" where "source_types = [TypeSourceCode]"

definition def_subfinder :: scanner_definition where
  "def_subfinder = \<lparr>sd_id = ''subfinder'', sd_name = ''subfinder'', sd_category = PhaseRecon, sd_group = '''',
     sd_types = [TypeNetwork, TypeWebApplication, TypeAPI],
     sd_kinds = [KindDomain],
     sd_required = [CapNetwork], sd_optional = [], sd_auth = False,
     sd_default = ''conditional'', sd_risk = ''low'', sd_available = True,
     sd_selectable = False, sd_stage = '''', sd_policy = [], sd_format = ''''\<rparr>"

definition def_amass :: scanner_definition where
  "def_amass = \<lparr>sd_id = ''amass'', sd_name = ''amass'', sd_category = PhaseRecon, sd_group = '''',
     sd_types = [TypeWebApplication, TypeAPI],
     sd_kinds = [KindDomain],
     sd_required = [CapNetwork], sd_optional = [], sd_auth = False,
     sd_default = ''optional'', sd_risk = ''low'', sd_available = False,
     sd_selectable = False, sd_stage = '''', sd_policy = [], sd_format = ''''\<rparr>"

definition def_dnsx :: scanner_definition where
  "def_dnsx = \<lparr>sd_id = ''dnsx'', sd_name = ''dnsx'', sd_category = PhaseRecon, sd_group = '''',
     sd_types = [TypeWebApplication, TypeAPI],
     sd_kinds = [KindDomain, KindHost],
     sd_required = [CapNetwork], sd_optional = [], sd_auth = False,
     sd_default = ''automatic'', sd_risk = ''low'', sd_available = False,
     sd_selectable = False, sd_stage = '''', sd_policy = [], sd_format = ''''\<rparr>"

definition def_httpx :: scanner_definition where
  "def_httpx = \<lparr>sd_id = ''httpx'', sd_name = ''httpx'', sd_category = PhaseRecon, sd_group = '''',
     sd_types = [TypeWebApplication, TypeAPI],
     sd_kinds = [KindDomain, KindURL, KindHost],
     sd_required = [CapWeb], sd_optional = [], sd_auth = False,
     sd_default = ''automatic'', sd_risk = ''low'', sd_available = True,
     sd_selectable = False, sd_stage = '''', sd_policy = [], sd_format = ''''\<rparr>"

definition def_nmap :: scanner_definition where
  "def_nmap = \<lparr>sd_id = ''nmap'', sd_name = ''nmap'', sd_category = PhaseRecon, sd_group = '''',
     sd_types = network_types,
     sd_kinds = [KindDomain, KindIP, KindCIDR, KindHost],
     sd_required = [CapNetwork], sd_optional = [], sd_auth = False,
     sd_default = ''automatic'', sd_risk = ''medium'', sd_available = True,
     sd_selectable = False, sd_stage = '''', sd_policy = [], sd_format = ''''\<rparr>"

definition def_katana :: scanner_definition where
  "def_katana = \<lparr>sd_id = ''katana'', sd_name = ''katana'', sd_category = PhaseRecon, sd_group = '''',
     sd_types = web_types @ api_types,
     sd_kinds = [KindURL, KindDomain, KindHost],
     sd_required = [CapWeb], sd_optional = [], sd_auth = False,
     sd_default = ''automatic'', sd_risk = ''low'', sd_available = False,
     sd_selectable = False, sd_stage = '''', sd_policy = [], sd_format = ''''\<rparr>"

definition def_nuclei :: scanner_definition where
  "def_nuclei = \<lparr>sd_id = ''nuclei'', sd_name = ''nuclei'', sd_category = PhaseWeb, sd_group = '''',
     sd_types = web_types @ api_types,
     sd_kinds = [KindURL, KindDomain, KindIP, KindHost],
     sd_required = [CapWeb], sd_optional = [], sd_auth = False,
     sd_default = ''automatic'', sd_risk = ''medium'', sd_available = True,
     sd_selectable = False, sd_stage = '''', sd_policy = [], sd_format = ''''\<rparr>"

definition def_zap :: scanner_definition where
  "def_zap = \<lparr>sd_id = ''zap'', sd_name = ''zap'', sd_category = PhaseWeb, sd_group = '''',
     sd_types = web_types @ api_types,
     sd_kinds = [KindURL, KindDomain, KindHost],
     sd_required = [CapWeb], sd_optional = [CapAuthWeb, CapSchema], sd_auth = True,
     sd_default = ''automatic'', sd_risk = ''high'', sd_available = True,
     sd_selectable = False, sd_stage = '''', sd_policy = [], sd_format = ''''\<rparr>"

definition def_apichecks :: scanner_definition where
  "def_apichecks = \<lparr>sd_id = ''apichecks'', sd_name = ''Native API checks'', sd_category = PhaseWeb, sd_group = '''',
     sd_types = web_types @ api_types,
     sd_kinds = [KindURL, KindDomain, KindHost],
     sd_required = [CapWeb], sd_optional = [], sd_auth = False,
     sd_default = ''automatic'', sd_risk = ''low'', sd_available = True,
     sd_selectable = False, sd_stage = '''', sd_policy = [], sd_format = ''''\<rparr>"

definition def_kube_exposure :: scanner_definition where
  "def_kube_exposure = \<lparr>sd_id = ''kube-exposure'', sd_name = ''Kubernetes exposure'', sd_category = PhaseWeb, sd_group = '''',
     sd_types = web_types @ api_types,
     sd_kinds = [KindURL],
     sd_required = [CapWeb], sd_optional = [], sd_auth = False,
     sd_default = ''optional'', sd_risk = ''low'', sd_available = True,
     sd_selectable = False, sd_stage = '''', sd_policy = [], sd_format = ''''\<rparr>"

definition def_nextjs_boundaries :: scanner_definition where
  "def_nextjs_boundaries = \<lparr>sd_id = ''nextjs-boundaries'', sd_name = ''Next.js controlled boundary probes'', sd_category = PhaseWeb, sd_group = '''',
     sd_types = web_types @ api_types,
     sd_kinds = [KindURL],
     sd_required = [CapWeb], sd_optional = [], sd_auth = False,
     sd_default = ''explicit_opt_in'', sd_risk = ''high'', sd_available = True,
     sd_selectable = False, sd_stage = '''', sd_policy = [], sd_format = ''''\<rparr>"

definition def_nextjs_actions :: scanner_definition where
  "def_nextjs_actions = \<lparr>sd_id = ''nextjs-actions'', sd_name = ''Next.js Server Action campaigns'', sd_category = PhaseWeb, sd_group = '''',
     sd_types = web_types @ api_types,
     sd_kinds = [KindURL],
     sd_required = [CapWeb], sd_optional = [], sd_auth = False,
     sd_default = ''explicit_opt_in'', sd_risk = ''high'', sd_available = True,
     sd_selectable = False, sd_stage = '''', sd_policy = [], sd_format = ''''\<rparr>"

definition def_nextjs_assets :: scanner_definition where
  "def_nextjs_assets = \<lparr>sd_id = ''nextjs-assets'', sd_name = ''Next.js assets'', sd_category = PhaseWeb, sd_group = '''',
     sd_types = web_types @ api_types,
     sd_kinds = [KindURL, KindDomain, KindHost],
     sd_required = [CapWeb], sd_optional = [], sd_auth = False,
     sd_default = ''optional'', sd_risk = ''low'', sd_available = True,
     sd_selectable = False, sd_stage = '''', sd_policy = [], sd_format = ''''\<rparr>"

definition def_actuator :: scanner_definition where
  "def_actuator = \<lparr>sd_id = ''actuator'', sd_name = ''Spring Boot Actuator'', sd_category = PhaseWeb, sd_group = '''',
     sd_types = web_types @ api_types,
     sd_kinds = [KindURL],
     sd_required = [CapWeb], sd_optional = [], sd_auth = False,
     sd_default = ''optional'', sd_risk = ''low'', sd_available = True,
     sd_selectable = False, sd_stage = '''', sd_policy = [], sd_format = ''''\<rparr>"

definition def_vcs_exposure :: scanner_definition where
  "def_vcs_exposure = \<lparr>sd_id = ''vcs-exposure'', sd_name = ''Source-control exposure'', sd_category = PhaseWeb, sd_group = '''',
     sd_types = web_types @ api_types,
     sd_kinds = [KindURL],
     sd_required = [CapWeb], sd_optional = [], sd_auth = False,
     sd_default = ''optional'', sd_risk = ''low'', sd_available = True,
     sd_selectable = False, sd_stage = '''', sd_policy = [], sd_format = ''''\<rparr>"

definition def_exposed_files :: scanner_definition where
  "def_exposed_files = \<lparr>sd_id = ''exposed-files'', sd_name = ''Exposed secret & backup files'', sd_category = PhaseWeb, sd_group = '''',
     sd_types = web_types @ api_types,
     sd_kinds = [KindURL],
     sd_required = [CapWeb], sd_optional = [], sd_auth = False,
     sd_default = ''optional'', sd_risk = ''low'', sd_available = True,
     sd_selectable = False, sd_stage = '''', sd_policy = [], sd_format = ''''\<rparr>"

definition def_testssl :: scanner_definition where
  "def_testssl = \<lparr>sd_id = ''testssl'', sd_name = ''testssl'', sd_category = PhaseWeb, sd_group = '''',
     sd_types = [TypeWebApplication, TypeNetwork],
     sd_kinds = [KindURL, KindDomain, KindIP, KindHost],
     sd_required = [CapNetwork], sd_optional = [], sd_auth = False,
     sd_default = ''automatic'', sd_risk = ''low'', sd_available = True,
     sd_selectable = False, sd_stage = '''', sd_policy = [], sd_format = ''''\<rparr>"

definition def_sslyze :: scanner_definition where
  "def_sslyze = \<lparr>sd_id = ''sslyze'', sd_name = ''sslyze'', sd_category = PhaseWeb, sd_group = '''',
     sd_types = [TypeWebApplication, TypeAPI],
     sd_kinds = [KindURL, KindDomain, KindIP, KindHost],
     sd_required = [CapNetwork], sd_optional = [], sd_auth = False,
     sd_default = ''optional'', sd_risk = ''low'', sd_available = False,
     sd_selectable = False, sd_stage = '''', sd_policy = [], sd_format = ''''\<rparr>"

definition def_openvas :: scanner_definition where
  "def_openvas = \<lparr>sd_id = ''openvas'', sd_name = ''openvas'', sd_category = PhaseServer, sd_group = '''',
     sd_types = network_types,
     sd_kinds = [KindDomain, KindIP, KindCIDR, KindHost],
     sd_required = [CapNetwork], sd_optional = [CapSSH], sd_auth = False,
     sd_default = ''automatic'', sd_risk = ''medium'', sd_available = True,
     sd_selectable = False, sd_stage = '''', sd_policy = [], sd_format = ''''\<rparr>"

definition def_vuls :: scanner_definition where
  "def_vuls = \<lparr>sd_id = ''vuls'', sd_name = ''vuls'', sd_category = PhaseServer, sd_group = '''',
     sd_types = [TypeHost],
     sd_kinds = [KindHost, KindIP, KindDomain],
     sd_required = [CapSSH], sd_optional = [], sd_auth = False,
     sd_default = ''automatic'', sd_risk = ''low'', sd_available = True,
     sd_selectable = False, sd_stage = '''', sd_policy = [], sd_format = ''''\<rparr>"

definition def_trivy :: scanner_definition where
  "def_trivy = \<lparr>sd_id = ''trivy'', sd_name = ''trivy'', sd_category = PhaseSAST, sd_group = '''',
     sd_types = [TypeSourceCode, TypeDependencies, TypeContainer, TypeIaC],
     sd_kinds = [KindRepository, KindLocalSourcePath, KindDockerImage, KindSBOM],
     sd_required = [CapSource], sd_optional = [CapImage, CapDependency, CapIaC, CapSBOM], sd_auth = False,
     sd_default = ''automatic'', sd_risk = ''low'', sd_available = True,
     sd_selectable = False, sd_stage = '''', sd_policy = [], sd_format = ''''\<rparr>"

definition def_nextjs_deps :: scanner_definition where
  "def_nextjs_deps = \<lparr>sd_id = ''nextjs-deps'', sd_name = ''Next.js locked dependencies'', sd_category = PhaseSAST, sd_group = '''',
     sd_types = [TypeSourceCode, TypeDependencies],
     sd_kinds = [KindRepository, KindLocalSourcePath],
     sd_required = [CapSource], sd_optional = [], sd_auth = False,
     sd_default = ''optional'', sd_risk = ''low'', sd_available = True,
     sd_selectable = False, sd_stage = '''', sd_policy = [], sd_format = ''''\<rparr>"

definition def_nextjs_sast :: scanner_definition where
  "def_nextjs_sast = \<lparr>sd_id = ''nextjs-sast'', sd_name = ''Next.js source checks'', sd_category = PhaseSAST, sd_group = '''',
     sd_types = source_types,
     sd_kinds = [KindRepository, KindLocalSourcePath],
     sd_required = [CapSource], sd_optional = [], sd_auth = False,
     sd_default = ''optional'', sd_risk = ''low'', sd_available = True,
     sd_selectable = False, sd_stage = '''', sd_policy = [], sd_format = ''''\<rparr>"

definition def_semgrep :: scanner_definition where
  "def_semgrep = \<lparr>sd_id = ''semgrep'', sd_name = ''semgrep'', sd_category = PhaseSAST, sd_group = '''',
     sd_types = source_types,
     sd_kinds = [KindRepository, KindLocalSourcePath],
     sd_required = [CapSource], sd_optional = [], sd_auth = False,
     sd_default = ''automatic'', sd_risk = ''low'', sd_available = True,
     sd_selectable = False, sd_stage = '''', sd_policy = [], sd_format = ''''\<rparr>"

definition def_gitleaks :: scanner_definition where
  "def_gitleaks = \<lparr>sd_id = ''gitleaks'', sd_name = ''gitleaks'', sd_category = PhaseSAST, sd_group = '''',
     sd_types = source_types,
     sd_kinds = [KindRepository, KindLocalSourcePath],
     sd_required = [CapSource], sd_optional = [], sd_auth = False,
     sd_default = ''automatic'', sd_risk = ''low'', sd_available = True,
     sd_selectable = False, sd_stage = '''', sd_policy = [], sd_format = ''''\<rparr>"

definition def_osv :: scanner_definition where
  "def_osv = \<lparr>sd_id = ''osv'', sd_name = ''osv'', sd_category = PhaseSAST, sd_group = '''',
     sd_types = [TypeDependencies],
     sd_kinds = [KindRepository, KindLocalSourcePath, KindSBOM],
     sd_required = [CapDependency], sd_optional = [CapSBOM], sd_auth = False,
     sd_default = ''automatic'', sd_risk = ''low'', sd_available = True,
     sd_selectable = False, sd_stage = '''', sd_policy = [], sd_format = ''''\<rparr>"

definition def_masscan :: scanner_definition where
  "def_masscan = \<lparr>sd_id = ''masscan'', sd_name = ''masscan'', sd_category = PhaseRecon, sd_group = '''',
     sd_types = network_types,
     sd_kinds = [KindIP, KindCIDR],
     sd_required = [CapNetwork], sd_optional = [], sd_auth = False,
     sd_default = ''optional'', sd_risk = ''medium'', sd_available = False,
     sd_selectable = False, sd_stage = '''', sd_policy = [], sd_format = ''''\<rparr>"

definition def_nikto :: scanner_definition where
  "def_nikto = \<lparr>sd_id = ''nikto'', sd_name = ''nikto'', sd_category = PhaseWeb, sd_group = '''',
     sd_types = web_types @ network_types,
     sd_kinds = [KindURL, KindIP, KindHost, KindDomain],
     sd_required = [CapWeb], sd_optional = [], sd_auth = False,
     sd_default = ''optional'', sd_risk = ''medium'', sd_available = False,
     sd_selectable = False, sd_stage = '''', sd_policy = [], sd_format = ''''\<rparr>"

definition def_dalfox :: scanner_definition where
  "def_dalfox = \<lparr>sd_id = ''dalfox'', sd_name = ''dalfox'', sd_category = PhaseWeb, sd_group = '''',
     sd_types = web_types @ api_types,
     sd_kinds = [KindURL],
     sd_required = [CapWeb], sd_optional = [CapAuthWeb], sd_auth = True,
     sd_default = ''optional'', sd_risk = ''medium'', sd_available = False,
     sd_selectable = False, sd_stage = '''', sd_policy = [], sd_format = ''''\<rparr>"

definition def_wapiti :: scanner_definition where
  "def_wapiti = \<lparr>sd_id = ''wapiti'', sd_name = ''wapiti'', sd_category = PhaseWeb, sd_group = '''',
     sd_types = web_types,
     sd_kinds = [KindURL],
     sd_required = [CapWeb], sd_optional = [CapAuthWeb], sd_auth = True,
     sd_default = ''optional'', sd_risk = ''medium'', sd_available = False,
     sd_selectable = False, sd_stage = '''', sd_policy = [], sd_format = ''''\<rparr>"

definition def_lynis :: scanner_definition where
  "def_lynis = \<lparr>sd_id = ''lynis'', sd_name = ''lynis'', sd_category = PhaseServer, sd_group = '''',
     sd_types = [TypeHost, TypeCompliance],
     sd_kinds = [KindHost],
     sd_required = [CapSSH], sd_optional = [], sd_auth = False,
     sd_default = ''automatic'', sd_risk = ''low'', sd_available = False,
     sd_selectable = False, sd_stage = '''', sd_policy = [], sd_format = ''''\<rparr>"

definition def_prowler :: scanner_definition where
  "def_prowler = \<lparr>sd_id = ''prowler'', sd_name = ''prowler'', sd_category = PhaseCloud, sd_group = '''',
     sd_types = [TypeCloud, TypeCompliance],
     sd_kinds = [KindCloudAccount],
     sd_required = [CapCloud], sd_optional = [], sd_auth = True,
     sd_default = ''optional'', sd_risk = ''low'', sd_available = False,
     sd_selectable = False, sd_stage = '''', sd_policy = [], sd_format = ''''\<rparr>"

definition def_scoutsuite :: scanner_definition where
  "def_scoutsuite = \<lparr>sd_id = ''scoutsuite'', sd_name = ''scoutsuite'', sd_category = PhaseCloud, sd_group = '''',
     sd_types = [TypeCloud, TypeCompliance],
     sd_kinds = [KindCloudAccount],
     sd_required = [CapCloud], sd_optional = [], sd_auth = True,
     sd_default = ''optional'', sd_risk = ''low'', sd_available = False,
     sd_selectable = False, sd_stage = '''', sd_policy = [], sd_format = ''''\<rparr>"

definition def_kube_bench :: scanner_definition where
  "def_kube_bench = \<lparr>sd_id = ''kube-bench'', sd_name = ''kube-bench'', sd_category = PhaseKubernetes, sd_group = '''',
     sd_types = [TypeKubernetes, TypeCompliance],
     sd_kinds = [KindKubernetesCluster],
     sd_required = [CapKubernetes], sd_optional = [], sd_auth = True,
     sd_default = ''optional'', sd_risk = ''low'', sd_available = False,
     sd_selectable = False, sd_stage = '''', sd_policy = [], sd_format = ''''\<rparr>"

definition registry_entries :: "scanner_definition list" where
  "registry_entries =
     [def_subfinder, def_amass, def_dnsx, def_httpx, def_nmap, def_katana,
      def_nuclei, def_zap, def_apichecks, def_kube_exposure, def_nextjs_boundaries, def_nextjs_actions,
      def_nextjs_assets, def_actuator, def_vcs_exposure, def_exposed_files, def_testssl, def_sslyze,
      def_openvas, def_vuls, def_trivy, def_nextjs_deps, def_nextjs_sast, def_semgrep,
      def_gitleaks, def_osv, def_masscan, def_nikto, def_dalfox, def_wapiti,
      def_lynis, def_prowler, def_scoutsuite, def_kube_bench]"

definition web_scanner_metadata :: "(string \<times> string list \<times> string) list" where
  "web_scanner_metadata =
     [(''subfinder'', [PolicyRateLimited], ''jsonl''),
      (''amass'', [PolicyRateLimited], ''text''),
      (''dnsx'', [PolicyRateLimited], ''jsonl''),
      (''sslyze'', [PolicyGetHeadOnly], ''json''),
      (''httpx'', [PolicyGetHeadOnly, PolicyRateLimited], ''jsonl''),
      (''katana'', [PolicyExclusions, PolicyRateLimited, PolicyScopeRegex], ''jsonl''),
      (''nuclei'', [PolicyOASTDisabled, PolicyRateLimited, PolicyWriteCapable], ''jsonl''),
      (''kube-exposure'', [PolicyExclusions, PolicyGetHeadOnly, PolicyRateLimited], ''jsonl''),
      (''nextjs-boundaries'', [PolicyExclusions, PolicyRateLimited, PolicyScopeRegex, PolicyWriteCapable], ''jsonl''),
      (''nextjs-actions'', [PolicyExclusions, PolicyRateLimited, PolicyScopeRegex, PolicyWriteCapable], ''jsonl''),
      (''nextjs-assets'', [PolicyExclusions, PolicyGetHeadOnly, PolicyRateLimited, PolicyScopeRegex], ''jsonl''),
      (''actuator'', [PolicyExclusions, PolicyGetHeadOnly, PolicyRateLimited], ''jsonl''),
      (''vcs-exposure'', [PolicyExclusions, PolicyGetHeadOnly, PolicyRateLimited], ''jsonl''),
      (''exposed-files'', [PolicyExclusions, PolicyGetHeadOnly, PolicyRateLimited], ''jsonl''),
      (''zap'', [PolicyExclusions, PolicyScopeRegex, PolicyWriteCapable], ''json''),
      (''apichecks'', [PolicyExclusions, PolicyGetHeadOnly, PolicyRateLimited, PolicyScopeRegex], ''jsonl''),
      (''testssl'', [PolicyGetHeadOnly], ''json''),
      (''nikto'', [PolicyRateLimited], ''json''),
      (''dalfox'', [PolicyOASTDisabled, PolicyRateLimited, PolicyWriteCapable], ''jsonl''),
      (''wapiti'', [PolicyExclusions, PolicyWriteCapable], ''json'')]"

definition scanner_groups :: "(string \<times> string) list" where
  "scanner_groups =
     [(''auth'', GroupWebAPI), (''subfinder'', GroupWebAPI), (''amass'', GroupWebAPI),
      (''dnsx'', GroupWebAPI), (''sslyze'', GroupWebAPI), (''httpx'', GroupWebAPI),
      (''katana'', GroupWebAPI), (''nuclei'', GroupWebAPI), (''zap'', GroupWebAPI),
      (''apichecks'', GroupWebAPI), (''apiwrites'', GroupWebAPI), (''nextjs-actions'', GroupWebAPI),
      (''nextjs-boundaries'', GroupWebAPI), (''testssl'', GroupWebAPI), (''kube-exposure'', GroupWebAPI),
      (''nextjs-assets'', GroupWebAPI), (''actuator'', GroupWebAPI), (''vcs-exposure'', GroupWebAPI),
      (''exposed-files'', GroupWebAPI), (''nikto'', GroupWebAPI), (''dalfox'', GroupWebAPI),
      (''wapiti'', GroupWebAPI), (''nmap'', GroupNetwork), (''masscan'', GroupNetwork),
      (''openvas'', GroupNetwork), (''vuls'', GroupNetwork), (''lynis'', GroupNetwork),
      (''trivy'', GroupCode), (''semgrep'', GroupCode), (''nextjs-sast'', GroupCode),
      (''nextjs-deps'', GroupCode), (''gitleaks'', GroupCode), (''osv'', GroupCode),
      (''prowler'', GroupCloud), (''scoutsuite'', GroupCloud), (''kube-bench'', GroupKubernetes)]"

text \<open>The loop that fills in group, stage, policy and format; a missing map entry is the zero value.\<close>

definition group_of :: "string \<Rightarrow> string" where
  "group_of sid = (case map_of scanner_groups sid of Some g \<Rightarrow> g | None \<Rightarrow> '''')"

definition complete_entry :: "scanner_definition \<Rightarrow> scanner_definition" where
  "complete_entry d =
     (let d1 = d\<lparr>sd_selectable := sd_id d \<in> set OrderedNames \<or> sd_id d \<in> set assessment_only_names,
                 sd_group := group_of (sd_id d)\<rparr>
      in if sd_group d1 = GroupWebAPI then
           (let (policy, format) = (case map_of web_scanner_metadata (sd_id d) of Some m \<Rightarrow> m | None \<Rightarrow> ([], ''''))
            in d1\<lparr>sd_stage := stage_for_scanner (sd_id d), sd_policy := policy, sd_format := format\<rparr>)
         else d1)"

definition scanner_registry :: "scanner_definition list" where
  "scanner_registry = map complete_entry registry_entries"

definition registry_entry :: "string \<Rightarrow> scanner_definition option" where
  "registry_entry sid = find (\<lambda>d. sd_id d = sid) scanner_registry"

definition web_workflow_scanner :: "string \<Rightarrow> bool" where
  "web_workflow_scanner sid \<longleftrightarrow> group_of sid = GroupWebAPI"

end
