(* ===== verification/Planner.thy ===== *)
theory Planner
  imports Registry Capabilities
begin

text \<open>
  The assessment planner (\<open>internal/scanner/planner.go\<close>) with the job expansions it calls
  (\<open>tls_services.go\<close>, \<open>identity_routing.go\<close>, \<open>discovery_preparation.go\<close>, \<open>appendFuzzJobs\<close> of
  \<open>wapiti_post.go\<close>). The prose reasons are left out; the hashes (SHA-256 of strings and of JSON)
  are the parameter \<open>dg\<close>. A Go map in the input is an association list.
\<close>

section \<open>Data\<close>

datatype plan_state =
  PlanSelected | PlanOptional | PlanConditional | PlanUnavailable | PlanNotApplicable | PlanSkipped

record plan_decision =
  pd_scanner :: string
  pd_target_id :: string
  pd_types :: "string list"
  pd_state :: plan_state
  pd_code :: string
  pd_exec :: string

record plan_job =
  pj_fuzz_id :: string
  pj_ctx_id :: string
  pj_ctx_identity :: string
  pj_ctx_role :: string
  pj_id :: string
  pj_state :: plan_state
  pj_scanner :: string
  pj_target_id :: string
  pj_target :: string
  pj_type :: string
  pj_types :: "string list"
  pj_variant :: string
  pj_stage :: string
  pj_deps :: "string list"
  pj_exec :: string

definition empty_job :: plan_job where
  "empty_job = \<lparr>pj_fuzz_id = '''', pj_ctx_id = '''', pj_ctx_identity = '''', pj_ctx_role = '''',
     pj_id = '''', pj_state = PlanSelected, pj_scanner = '''', pj_target_id = '''', pj_target = '''',
     pj_type = '''', pj_types = [], pj_variant = '''', pj_stage = '''', pj_deps = [], pj_exec = ''''\<rparr>"

record type_coverage =
  cov_type :: string
  cov_state :: string

record plan_input =
  in_config :: assessment_config
  in_availability :: "(string \<times> bool) list"
  in_unavailable :: "(string \<times> string) list"
  in_credentials :: "(string \<times> bool) list"
  in_tool_versions :: "(string \<times> string) list"
  in_revisions :: "(string \<times> string) list"

record assessment_plan =
  pl_config :: assessment_config
  pl_capabilities :: "capability_evidence list"
  pl_decisions :: "plan_decision list"
  pl_jobs :: "plan_job list"
  pl_coverage :: "type_coverage list"
  pl_warnings :: "problem list"
  pl_errors :: "problem list"
  pl_tool_versions :: "(string \<times> string) list"
  pl_fingerprint :: string

text \<open>The hashes: \<open>dg_short\<close> is the hexadecimal of the first twelve bytes of the SHA-256 of a string,
  \<open>dg_fuzz_json\<close> the JSON of a fuzz approval, \<open>dg_plan\<close> the hash of the plan's JSON;
  \<open>dg_catalogs\<close> are the versions of the embedded catalogs and rule sets (some are hashes of files).\<close>

record digests =
  dg_catalogs :: "(string \<times> string) list"
  dg_short :: "string \<Rightarrow> string"
  dg_fuzz_json :: "fuzz_approval \<Rightarrow> string"
  dg_plan :: "assessment_config \<times> capability_evidence list \<times> plan_decision list \<times> plan_job list
    \<times> (string \<times> string) list \<times> (string \<times> string) list \<Rightarrow> string"

definition ProfileNextjsDeep :: string where "ProfileNextjsDeep = ''nextjs-deep''"

section \<open>Credentials and eligibility\<close>

definition credential_key :: "string \<Rightarrow> string \<Rightarrow> string \<Rightarrow> string" where
  "credential_key tid kind cred = tid @ NUL # kind @ NUL # cred"

definition resolve_credential :: "(string \<times> bool) list \<Rightarrow> capability_evidence \<Rightarrow> capability_evidence" where
  "resolve_credential creds e =
     (if ev_capability e \<noteq> CapAuthWeb \<and> ev_capability e \<noteq> CapSSH then e
      else if ev_reference_id e = '''' then e\<lparr>ev_state := StateUnavailable\<rparr>
      else if map_of creds (credential_key (ev_target_id e) (ev_access_kind e) (ev_reference_id e)) = Some True
      then e\<lparr>ev_state := StateAvailable\<rparr>
      else e\<lparr>ev_state := StateUnavailable\<rparr>)"

definition target_supports_type :: "target \<Rightarrow> string \<Rightarrow> bool" where
  "target_supports_type t typ \<longleftrightarrow>
     (let k = tgt_kind t in
      if k = KindDomain then typ \<in> set [TypeNetwork, TypeWebApplication, TypeAPI, TypeHost]
      else if k = KindURL then typ \<in> set [TypeWebApplication, TypeAPI, TypeNetwork]
      else if k = KindIP \<or> k = KindCIDR then typ \<in> set [TypeNetwork, TypeHost]
      else if k = KindHost then typ \<in> set [TypeNetwork, TypeHost, TypeWebApplication, TypeAPI, TypeCompliance]
      else if k = KindRepository \<or> k = KindLocalSourcePath then typ \<in> set [TypeSourceCode, TypeDependencies, TypeIaC]
      else if k = KindDockerImage then typ \<in> set [TypeContainer, TypeDependencies]
      else if k = KindSBOM then typ = TypeDependencies
      else if k = KindCloudAccount then typ = TypeCloud
      else if k = KindKubernetesCluster then typ = TypeKubernetes
      else False)"

definition has_capability ::
  "capability_evidence list \<Rightarrow> capability \<Rightarrow> string \<Rightarrow> evidence_state \<Rightarrow> bool" where
  "has_capability es c tid st \<longleftrightarrow>
     list_ex (\<lambda>e. ev_capability e = c \<and> ev_target_id e = tid \<and> ev_state e = st) es"

definition required_capability :: "scanner_definition \<Rightarrow> target \<Rightarrow> capability \<Rightarrow> capability" where
  "required_capability d t c =
     (if sd_id d = ''trivy'' \<and> c = CapSource then
        (if tgt_kind t = KindDockerImage then CapImage else if tgt_kind t = KindSBOM then CapSBOM else c)
      else c)"

text \<open>One turn of the loop over the required capabilities: whether it is found, and \<open>conditional\<close>.\<close>

definition check_capability ::
  "scanner_definition \<Rightarrow> target \<Rightarrow> capability_evidence list \<Rightarrow> bool \<Rightarrow> capability \<Rightarrow> bool \<times> bool" where
  "check_capability d t evidence conditional req =
     (let es = filter (\<lambda>e. ev_target_id e = tgt_id t \<and> ev_capability e = req \<and> ev_state e \<noteq> StateUnavailable) evidence;
          prep = (req = CapDependency \<or> req = CapIaC) \<and> (tgt_kind t = KindRepository \<or> tgt_kind t = KindLocalSourcePath);
          found = es \<noteq> [] \<or> prep
                  \<or> (req = CapNetwork \<and> tgt_kind t = KindURL \<and> sd_id d = ''testssl'')
                  \<or> (req = CapWeb \<and> sd_id d = ''nikto'' \<and> tgt_kind t \<in> set [KindIP, KindHost, KindDomain]);
          cond = conditional
                 \<or> (req \<in> {CapWeb, CapSource, CapImage, CapDependency, CapIaC} \<and> list_ex (\<lambda>e. ev_state e = StateDeclared) es)
                 \<or> prep
                 \<or> (tgt_kind t = KindSBOM \<and> sd_id d = ''trivy'')
                 \<or> (req = CapSSH \<and> (sd_id d = ''vuls'' \<or> sd_id d = ''lynis''))
      in (found, cond))"

text \<open>\<open>None\<close>: a required capability is missing; \<open>Some c\<close>: all found, and whether conditionally.\<close>

fun check_capabilities ::
  "scanner_definition \<Rightarrow> target \<Rightarrow> capability_evidence list \<Rightarrow> bool \<Rightarrow> capability list \<Rightarrow> bool option" where
  "check_capabilities d t evidence conditional [] = Some conditional"
| "check_capabilities d t evidence conditional (c # cs) =
     (let (found, cond) = check_capability d t evidence conditional (required_capability d t c)
      in if found then check_capabilities d t evidence cond cs else None)"

definition scanner_available :: "(string \<times> bool) list \<Rightarrow> scanner_definition \<Rightarrow> bool" where
  "scanner_available avail d = (case map_of avail (sd_id d) of Some v \<Rightarrow> v | None \<Rightarrow> sd_available d)"

definition eligibility ::
  "scanner_definition \<Rightarrow> target \<Rightarrow> capability_evidence list \<Rightarrow> (string \<times> bool) list \<Rightarrow> (string \<times> string) list
   \<Rightarrow> plan_state \<times> string" where
  "eligibility d t evidence avail unavail =
     (if \<not> scanner_available avail d then
        (case map_of unavail (sd_id d) of
           Some r \<Rightarrow> if r \<noteq> '''' then (PlanUnavailable, ''scanner.capability_unavailable'')
                     else (PlanUnavailable, ''scanner.unavailable'')
         | None \<Rightarrow> (PlanUnavailable, ''scanner.unavailable''))
      else (case check_capabilities d t evidence False (sd_required d) of
              None \<Rightarrow> (PlanNotApplicable, ''capability.missing'')
            | Some conditional \<Rightarrow>
                if sd_default d = ''optional'' \<or> sd_default d = ''explicit_opt_in''
                then (PlanOptional, ''scanner.explicit_opt_in'')
                else if conditional then (PlanConditional, ''resource.preparation_required'')
                else (PlanSelected, ''scanner.applicable'')))"

section \<open>Providers\<close>

text \<open>\<open>providerSelections\<close>: the chosen registry ids, and for each replaced one what replaced it.\<close>

definition subdomain_selections :: "string list \<Rightarrow> string list \<times> (string \<times> string) list" where
  "subdomain_selections subs =
     (if subs = [] then ([], [])
      else (subs, map (\<lambda>alt. (alt, join_on '', '' subs))
                    (filter (\<lambda>alt. alt \<notin> set subs) [ProviderSubfinder, ProviderAmass])))"

definition provider_selections :: "discovery_providers option \<Rightarrow> string list \<times> (string \<times> string) list" where
  "provider_selections dp =
     (case dp of None \<Rightarrow> ([], [])
      | Some p \<Rightarrow>
          let (chosen, replaced) = subdomain_selections (dp_subdomain p)
          in if dp_tls p = ProviderTestssl then (chosen @ [ProviderTestssl], replaced @ [(ProviderSSLyze, ProviderTestssl)])
             else if dp_tls p = ProviderSSLyze then (chosen @ [ProviderSSLyze], replaced @ [(ProviderTestssl, ProviderSSLyze)])
             else (chosen, replaced))"

definition provider_replaced :: "discovery_providers option \<Rightarrow> string \<Rightarrow> bool" where
  "provider_replaced dp sid \<longleftrightarrow>
     (case map_of (snd (provider_selections dp)) sid of Some by_name \<Rightarrow> by_name \<noteq> '''' | None \<Rightarrow> False)"

section \<open>The decision for one scanner, target and type\<close>

definition custom_mode :: "assessment_config \<Rightarrow> bool" where
  "custom_mode cfg \<longleftrightarrow> ss_mode (cfg_scanner_selection cfg) = ''custom''"

definition in_custom :: "assessment_config \<Rightarrow> string \<Rightarrow> bool" where
  "in_custom cfg sid \<longleftrightarrow> sid \<in> set (ss_variants (cfg_scanner_selection cfg))"

definition provider_chosen :: "assessment_config \<Rightarrow> string \<Rightarrow> bool" where
  "provider_chosen cfg sid \<longleftrightarrow> sid \<in> set (fst (provider_selections (cfg_discovery_providers cfg)))"

definition deep_nextjs :: "assessment_config \<Rightarrow> string \<Rightarrow> bool" where
  "deep_nextjs cfg sid \<longleftrightarrow>
     cfg_profile cfg = ProfileNextjsDeep \<and> sid \<in> set [''nextjs-assets'', ''nextjs-sast'', ''nextjs-deps'']"

definition scanner_selected :: "assessment_config \<Rightarrow> scanner_definition \<Rightarrow> bool" where
  "scanner_selected cfg d \<longleftrightarrow>
     (let s0 = (sd_default d = ''automatic'' \<or> sd_default d = ''conditional'');
          s1 = (if deep_nextjs cfg (sd_id d) then True else s0);
          s2 = (if custom_mode cfg then in_custom cfg (sd_id d) else s1)
      in if provider_chosen cfg (sd_id d) then True else s2)"

definition decide ::
  "assessment_config \<Rightarrow> plan_input \<Rightarrow> capability_evidence list \<Rightarrow> scanner_definition \<Rightarrow> target \<Rightarrow> plan_state \<times> string" where
  "decide cfg inp caps d t =
     (let sid = sd_id d;
          r0 = eligibility d t caps (in_availability inp) (in_unavailable inp);
          r1 = (if sid = ''subfinder'' \<and> tgt_kind t = KindDomain \<and> fst r0 \<noteq> PlanUnavailable then
                  (if cfg_subdomain_discovery cfg then (PlanConditional, ''discovery.subdomain_opt_in'')
                   else (PlanOptional, ''discovery.subdomain_opt_in_required''))
                else r0);
          r2 = (if deep_nextjs cfg sid \<and> \<not> custom_mode cfg \<and> fst r1 = PlanOptional
                then (PlanSelected, ''profile.nextjs_deep'') else r1);
          r3 = (if custom_mode cfg \<and> in_custom cfg sid \<and> fst r2 = PlanOptional
                   \<and> \<not> (sid = ''subfinder'' \<and> \<not> cfg_subdomain_discovery cfg)
                then (PlanSelected, ''scanner.explicitly_selected'') else r2);
          r4 = (if provider_chosen cfg sid \<and> fst r3 = PlanOptional
                then (PlanSelected, ''discovery.provider_selected'') else r3);
          r5 = (if provider_replaced (cfg_discovery_providers cfg) sid
                   \<and> fst r4 \<in> {PlanSelected, PlanConditional, PlanOptional}
                then (PlanSkipped, ''selection.provider_alternative'') else r4)
      in if fst r5 \<in> {PlanSelected, PlanConditional} \<and> \<not> scanner_selected cfg d
         then (PlanSkipped, ''selection.customized'') else r5)"

definition exec_mode :: "capability_evidence list \<Rightarrow> scanner_definition \<Rightarrow> target \<Rightarrow> string" where
  "exec_mode caps d t =
     (if sd_auth d \<and> has_capability caps CapAuthWeb (tgt_id t) StateVerified then ''authenticated''
      else if sd_auth d then ''unauthenticated'' else '''')"

fun append_plan_job :: "plan_job list \<Rightarrow> plan_job \<Rightarrow> plan_job list" where
  "append_plan_job [] job = [job]"
| "append_plan_job (e # es) job =
     (if pj_scanner e \<noteq> pj_scanner job \<or> pj_target_id e \<noteq> pj_target_id job \<or> pj_variant e \<noteq> pj_variant job
      then e # append_plan_job es job
      else (let types = (if pj_type job \<in> set (pj_types e) then pj_types e else pj_types e @ [pj_type job]);
                st = (if pj_state e = PlanConditional \<and> pj_state job = PlanSelected then PlanSelected else pj_state e)
            in e\<lparr>pj_types := types, pj_state := st\<rparr> # es))"

section \<open>The scanner loop\<close>

type_synonym plan_acc = "plan_decision list \<times> plan_job list"

definition apichecks_skipped :: "assessment_config \<Rightarrow> scanner_definition \<Rightarrow> string \<Rightarrow> bool" where
  "apichecks_skipped cfg d typ \<longleftrightarrow>
     sd_id d = ''apichecks'' \<and> typ = TypeWebApplication \<and> cfg_profile cfg \<noteq> ProfileNextjsDeep
     \<and> cfg_authorization_expectations cfg = [] \<and> \<not> in_custom cfg (sd_id d)"

definition registry_job :: "scanner_definition \<Rightarrow> target \<Rightarrow> string \<Rightarrow> plan_state \<Rightarrow> string \<Rightarrow> plan_job" where
  "registry_job d t typ st mode =
     empty_job\<lparr>pj_id := sd_id d @ '':'' @ tgt_id t @ '':'' @ sd_id d, pj_state := st, pj_scanner := sd_id d,
       pj_target_id := tgt_id t, pj_target := tgt_value t, pj_type := typ, pj_types := [typ],
       pj_variant := sd_id d, pj_exec := mode\<rparr>"

definition plan_one ::
  "assessment_config \<Rightarrow> plan_input \<Rightarrow> capability_evidence list \<Rightarrow> scanner_definition \<Rightarrow> target \<Rightarrow> string \<Rightarrow> plan_acc \<Rightarrow> plan_acc" where
  "plan_one cfg inp caps d t typ acc =
     (if apichecks_skipped cfg d typ \<or> typ \<notin> set (sd_types d) \<or> \<not> target_supports_type t typ then acc
      else case acc of (ds, js) \<Rightarrow>
        let (st, code) = decide cfg inp caps d t;
            mode = exec_mode caps d t;
            dec = \<lparr>pd_scanner = sd_id d, pd_target_id = tgt_id t, pd_types = [typ], pd_state = st, pd_code = code, pd_exec = mode\<rparr>
        in (ds @ [dec],
            if st = PlanSelected \<or> st = PlanConditional then append_plan_job js (registry_job d t typ st mode) else js))"

definition not_applicable_decision :: "string \<Rightarrow> plan_decision" where
  "not_applicable_decision sid = \<lparr>pd_scanner = sid, pd_target_id = '''', pd_types = [], pd_state = PlanNotApplicable,
     pd_code = ''target_or_type_missing'', pd_exec = ''''\<rparr>"

definition plan_scanner ::
  "assessment_config \<Rightarrow> plan_input \<Rightarrow> capability_evidence list \<Rightarrow> scanner_definition \<Rightarrow> plan_acc \<Rightarrow> plan_acc" where
  "plan_scanner cfg inp caps d acc =
     (if sd_id d \<in> set [''katana'', ''nextjs-actions'', ''nextjs-boundaries''] then acc
      else
        let matched = filter (\<lambda>t. tgt_kind t \<in> set (sd_kinds d)) (cfg_targets cfg)
        in if matched = [] then (fst acc @ [not_applicable_decision (sd_id d)], snd acc)
           else
             let (ds, js) = fold (\<lambda>t a. fold (\<lambda>typ. plan_one cfg inp caps d t typ) (cfg_types cfg) a) matched acc
             in if list_ex (\<lambda>x. pd_scanner x = sd_id d) ds then (ds, js)
                else (ds @ [not_applicable_decision (sd_id d)], js))"

section \<open>Workflow jobs\<close>

definition web_auth_bound :: "access_binding list \<Rightarrow> string \<Rightarrow> bool" where
  "web_auth_bound bs tid \<longleftrightarrow> list_ex (\<lambda>b. application_access (ab_kind b) \<and> tid \<in> set (ab_target_ids b)) bs"

text \<open>\<open>known && !available\<close>.\<close>

definition known_missing :: "plan_input \<Rightarrow> string \<Rightarrow> bool" where
  "known_missing inp sid \<longleftrightarrow> map_of (in_availability inp) sid = Some False"

definition workflow_job :: "string \<Rightarrow> target \<Rightarrow> string \<Rightarrow> plan_state \<Rightarrow> plan_job" where
  "workflow_job sid t stage st =
     empty_job\<lparr>pj_id := sid @ '':'' @ tgt_id t @ '':'' @ sid, pj_state := st, pj_scanner := sid,
       pj_target_id := tgt_id t, pj_target := tgt_value t, pj_variant := sid, pj_stage := stage\<rparr>"

definition workflow_decision :: "string \<Rightarrow> target \<Rightarrow> string list \<Rightarrow> plan_state \<Rightarrow> string \<Rightarrow> plan_decision" where
  "workflow_decision sid t types st rc =
     \<lparr>pd_scanner = sid, pd_target_id = tgt_id t, pd_types = types, pd_state = st, pd_code = rc, pd_exec = ''''\<rparr>"

definition crawl_target :: "assessment_config \<Rightarrow> plan_input \<Rightarrow> target \<Rightarrow> plan_acc \<Rightarrow> plan_acc" where
  "crawl_target cfg inp t acc =
     (if tgt_kind t \<notin> set [KindURL, KindDomain, KindHost] then acc
      else
        let js = snd acc @ (if web_auth_bound (cfg_access cfg) (tgt_id t)
                            then [workflow_job ''auth'' t StageAuth PlanSelected] else []);
            st = (if known_missing inp ''katana'' then PlanUnavailable else PlanSelected)
        in (fst acc @ [workflow_decision ''katana'' t [] st ''workflow.crawl''],
            js @ [workflow_job ''katana'' t StageCrawl st]))"

definition crawl_jobs :: "assessment_config \<Rightarrow> plan_input \<Rightarrow> plan_acc \<Rightarrow> plan_acc" where
  "crawl_jobs cfg inp acc =
     (if web_or_api cfg then fold (crawl_target cfg inp) (cfg_targets cfg) acc else acc)"

text \<open>\<open>proposedDiscoveryActions\<close>: the scanners it names.\<close>

definition proposed_discovery_actions :: "assessment_config \<Rightarrow> bool \<Rightarrow> string list" where
  "proposed_discovery_actions cfg is_host =
     (if is_host then [''dnsx''] else []) @ (if web_or_api cfg then [''httpx''] else [])
     @ (if is_host \<and> (\<not> custom_mode cfg \<or> in_custom cfg ''nmap'') then [''nmap''] else [])"

definition prepare_action :: "assessment_config \<Rightarrow> plan_input \<Rightarrow> target \<Rightarrow> string \<Rightarrow> plan_acc \<Rightarrow> plan_acc" where
  "prepare_action cfg inp t sid acc =
     (if sid = ''nmap'' then acc
      else case acc of (ds, js) \<Rightarrow>
        let avail = (case map_of (in_availability inp) sid of Some v \<Rightarrow> v | None \<Rightarrow> sid = ''httpx'');
            st = (if avail then PlanSelected else PlanUnavailable);
            typ = (if TypeWebApplication \<in> set (cfg_types cfg) then TypeWebApplication
                   else if TypeAPI \<in> set (cfg_types cfg) then TypeAPI else TypeNetwork);
            mine = (\<lambda>d. pd_scanner d = sid \<and> pd_target_id d = tgt_id t);
            ds1 = map (\<lambda>d. if mine d then d\<lparr>pd_state := st, pd_code := ''discovery.approved_preparation''\<rparr> else d) ds;
            ds2 = (if list_ex mine ds then ds1 else ds1 @ [workflow_decision sid t [typ] st ''discovery.approved_preparation'']);
            js2 = (if list_ex (\<lambda>j. pj_scanner j = sid \<and> pj_target_id j = tgt_id t) js then js
                   else js @ [(workflow_job sid t '''' st)\<lparr>pj_type := typ, pj_types := [typ]\<rparr>])
        in (ds2, js2))"

definition prepare_target :: "assessment_config \<Rightarrow> plan_input \<Rightarrow> target \<Rightarrow> plan_acc \<Rightarrow> plan_acc" where
  "prepare_target cfg inp t acc =
     (if \<not> has_prefix (tgt_id t) ''discovered-'' then acc
      else if tgt_kind t = KindHost then fold (prepare_action cfg inp t) (proposed_discovery_actions cfg True) acc
      else if tgt_kind t \<noteq> KindURL then acc
      else fold (prepare_action cfg inp t) (proposed_discovery_actions cfg False) acc)"

definition ensure_discovery_preparation :: "assessment_config \<Rightarrow> plan_input \<Rightarrow> plan_acc \<Rightarrow> plan_acc" where
  "ensure_discovery_preparation cfg inp acc =
     (if cfg_workflow_version cfg \<noteq> ''unified-v1'' \<or> cfg_parent_plan_fingerprint cfg = '''' then acc
      else fold (prepare_target cfg inp) (cfg_targets cfg) acc)"

definition fuzz_approval_id :: "digests \<Rightarrow> fuzz_approval \<Rightarrow> string" where
  "fuzz_approval_id dg f = dg_short dg (dg_fuzz_json dg f)"

definition fuzz_job :: "digests \<Rightarrow> plan_input \<Rightarrow> fuzz_approval \<Rightarrow> target \<Rightarrow> plan_job" where
  "fuzz_job dg inp f t =
     (let i = fuzz_approval_id dg f
      in empty_job\<lparr>pj_id := ''wapiti-post:'' @ tgt_id t @ '':'' @ i, pj_scanner := ''wapiti'', pj_target_id := tgt_id t,
           pj_target := tgt_value t, pj_variant := ''wapiti-post:'' @ i, pj_fuzz_id := i,
           pj_state := (if known_missing inp ''wapiti'' then PlanUnavailable else PlanSelected),
           pj_type := TypeAPI, pj_types := [TypeAPI]\<rparr>)"

definition append_fuzz_jobs :: "digests \<Rightarrow> assessment_config \<Rightarrow> plan_input \<Rightarrow> plan_job list \<Rightarrow> plan_job list" where
  "append_fuzz_jobs dg cfg inp js =
     js @ concat (map (\<lambda>f. map (fuzz_job dg inp f)
                           (filter (\<lambda>t. tgt_id t = wa_target_id (fz_write f)) (cfg_targets cfg))) (cfg_fuzz_approvals cfg))"

text \<open>The targets of a list of approvals, each once, in the order of the approvals.\<close>

definition approval_targets :: "assessment_config \<Rightarrow> string list \<Rightarrow> target list" where
  "approval_targets cfg ids = concat (map (\<lambda>i. filter (\<lambda>t. tgt_id t = i) (cfg_targets cfg)) (uniq_from {} ids))"

definition write_job :: "target \<Rightarrow> plan_job" where
  "write_job t = (workflow_job ''apiwrites'' t StageWrite PlanSelected)\<lparr>pj_type := TypeAPI, pj_types := [TypeAPI]\<rparr>"

definition write_jobs :: "assessment_config \<Rightarrow> plan_acc \<Rightarrow> plan_acc" where
  "write_jobs cfg acc =
     (let ts = approval_targets cfg (map wa_target_id (cfg_write_approvals cfg))
      in (fst acc @ map (\<lambda>t. workflow_decision ''apiwrites'' t [TypeAPI] PlanSelected ''api_write.explicit_approval'') ts,
          snd acc @ map write_job ts))"

definition nextjs_job :: "plan_input \<Rightarrow> string \<Rightarrow> target \<Rightarrow> plan_job" where
  "nextjs_job inp sid t =
     (workflow_job sid t StageWrite (if known_missing inp sid then PlanUnavailable else PlanSelected))
       \<lparr>pj_id := sid @ '':'' @ tgt_id t, pj_type := TypeWebApplication, pj_types := [TypeWebApplication]\<rparr>"

definition nextjs_jobs :: "assessment_config \<Rightarrow> plan_input \<Rightarrow> string \<Rightarrow> string \<Rightarrow> string list \<Rightarrow> plan_acc \<Rightarrow> plan_acc" where
  "nextjs_jobs cfg inp sid rc ids acc =
     (let ts = approval_targets cfg ids
      in (fst acc @ map (\<lambda>t. workflow_decision sid t [TypeWebApplication, TypeAPI]
                               (if known_missing inp sid then PlanUnavailable else PlanSelected) rc) ts,
          snd acc @ map (nextjs_job inp sid) ts))"

section \<open>Gaps and coverage\<close>

definition provider_template :: "string \<Rightarrow> string" where
  "provider_template sid = (if sid = ProviderAmass then ''subfinder'' else if sid = ProviderSSLyze then ''testssl'' else '''')"

definition unregistered_one :: "assessment_config \<Rightarrow> string \<Rightarrow> plan_decision list" where
  "unregistered_one cfg sid =
     (if sid = '''' \<or> registry_entry sid \<noteq> None then []
      else case registry_entry (provider_template sid) of
             None \<Rightarrow> []
           | Some tmpl \<Rightarrow>
               concat (map (\<lambda>t. map (\<lambda>typ. workflow_decision sid t [typ] PlanUnavailable ''scanner.unavailable'')
                   (filter (\<lambda>typ. typ \<in> set (sd_types tmpl) \<and> target_supports_type t typ) (cfg_types cfg)))
                 (filter (\<lambda>t. tgt_kind t \<in> set (sd_kinds tmpl)) (cfg_targets cfg))))"

definition unregistered_provider_decisions :: "assessment_config \<Rightarrow> plan_decision list" where
  "unregistered_provider_decisions cfg =
     (case cfg_discovery_providers cfg of None \<Rightarrow> []
      | Some dp \<Rightarrow> concat (map (unregistered_one cfg) (dp_subdomain dp @ [dp_tls dp])))"

definition add_adapter_gap :: "target \<Rightarrow> string \<Rightarrow> plan_decision list \<Rightarrow> plan_decision list" where
  "add_adapter_gap t typ ds =
     (if \<not> target_supports_type t typ \<or> list_ex (\<lambda>d. pd_target_id d = tgt_id t \<and> typ \<in> set (pd_types d)) ds then ds
      else ds @ [workflow_decision ''adapter'' t [typ] PlanUnavailable ''adapter.unavailable''])"

definition adapter_gaps :: "assessment_config \<Rightarrow> plan_decision list \<Rightarrow> plan_decision list" where
  "adapter_gaps cfg ds = fold (\<lambda>t a. fold (add_adapter_gap t) (cfg_types cfg) a) (cfg_targets cfg) ds"

definition coverage_step :: "string \<Rightarrow> plan_decision \<Rightarrow> string \<Rightarrow> string" where
  "coverage_step typ d st =
     (if typ \<notin> set (pd_types d) then st
      else case pd_state d of
             PlanSelected \<Rightarrow> ''planned''
           | PlanConditional \<Rightarrow> if st \<noteq> ''planned'' then ''conditional'' else st
           | PlanUnavailable \<Rightarrow> if st = ''not_applicable'' then ''unavailable'' else st
           | _ \<Rightarrow> st)"

definition type_coverages :: "assessment_config \<Rightarrow> plan_decision list \<Rightarrow> type_coverage list" where
  "type_coverages cfg ds =
     map (\<lambda>typ. \<lparr>cov_type = typ, cov_state = fold (coverage_step typ) ds ''not_applicable''\<rparr>) (cfg_types cfg)"

section \<open>Job expansions\<close>

definition tls_service_job :: "plan_job \<Rightarrow> approved_origin \<Rightarrow> plan_job" where
  "tls_service_job j ori =
     j\<lparr>pj_target := origin_string ori,
       pj_variant := pj_scanner j @ '':'' @ ao_host ori @ '':'' @ itoa (ao_port ori),
       pj_id := pj_id j @ '':'' @ origin_string ori\<rparr>"

definition tls_expand_one :: "assessment_config \<Rightarrow> plan_job \<Rightarrow> plan_job list" where
  "tls_expand_one cfg j =
     (if pj_scanner j \<noteq> ''testssl'' \<and> pj_scanner j \<noteq> ''sslyze'' then [j]
      else case map_of (rev (map (\<lambda>t. (tgt_id t, t)) (cfg_targets cfg))) (pj_target_id j) of
             None \<Rightarrow> [j]
           | Some t \<Rightarrow>
               if tgt_kind t \<notin> set [KindURL, KindDomain, KindHost] then [j]
               else
                 let services = uniq_by origin_string {}
                       (filter (\<lambda>ori. ao_scheme ori = ''https'') (sc_origins (app_scope_for_target cfg (tgt_id t))))
                 in if services = [] then [j\<lparr>pj_state := PlanSkipped\<rparr>] else map (tls_service_job j) services)"

definition expand_tls_service_jobs :: "assessment_config \<Rightarrow> plan_job list \<Rightarrow> plan_job list" where
  "expand_tls_service_jobs cfg js = (if \<not> web_or_api cfg then js else concat (map (tls_expand_one cfg) js))"

definition identity_routed_scanner :: "string \<Rightarrow> bool" where
  "identity_routed_scanner name \<longleftrightarrow> name \<in> set [''auth'', ''nuclei'', ''zap'', ''wapiti'', ''dalfox'']"

text \<open>\<open>identities\<close>: target, then identity, then role; the outer map is iterated in the order its
  keys were stored (Go leaves the order open; the final sort of the jobs makes it irrelevant).\<close>

definition identity_roles :: "assessment_config \<Rightarrow> (string \<times> (string \<times> string) list) list" where
  "identity_roles cfg =
     foldl (\<lambda>m (b, tid). put tid (put (ab_identity b) (ab_role b) (case map_of m tid of Some r \<Rightarrow> r | None \<Rightarrow> [])) m) []
       (concat (map (\<lambda>b. map (\<lambda>tid. (b, tid)) (ab_target_ids b))
          (filter (\<lambda>b. application_access (ab_kind b)) (cfg_access cfg))))"

definition authentication_context_id :: "digests \<Rightarrow> string \<Rightarrow> string \<Rightarrow> string" where
  "authentication_context_id dg tid identity = dg_short dg (tid @ NUL # trim_space identity)"

definition identity_job :: "digests \<Rightarrow> string \<Rightarrow> string \<times> string \<Rightarrow> plan_job \<Rightarrow> plan_job" where
  "identity_job dg tid ir j =
     (let i = authentication_context_id dg tid (fst ir)
      in j\<lparr>pj_id := pj_id j @ '':identity:'' @ i, pj_variant := pj_variant j @ '':identity:'' @ i,
           pj_ctx_id := i, pj_ctx_identity := fst ir, pj_ctx_role := snd ir\<rparr>)"

definition identity_jobs_for :: "digests \<Rightarrow> plan_job list \<Rightarrow> string \<times> (string \<times> string) list \<Rightarrow> plan_job list" where
  "identity_jobs_for dg js entry =
     (case entry of (tid, roles) \<Rightarrow>
        let names = sort_slice (<) (map fst roles)
        in if length names < 2 then []
           else concat (map (\<lambda>i. map (identity_job dg tid (i, case map_of roles i of Some r \<Rightarrow> r | None \<Rightarrow> ''''))
                  (filter (\<lambda>j. pj_target_id j = tid \<and> pj_fuzz_id j = '''' \<and> identity_routed_scanner (pj_scanner j)) js))
                (tl names)))"

definition expand_identity_jobs :: "digests \<Rightarrow> assessment_config \<Rightarrow> plan_job list \<Rightarrow> plan_job list" where
  "expand_identity_jobs dg cfg js =
     (if cfg_workflow_version cfg \<noteq> ''unified-v1'' then js
      else js @ concat (map (identity_jobs_for dg js) (identity_roles cfg)))"

section \<open>Stages and dependencies\<close>

text \<open>The key of \<open>byStage\<close>: target and authentication context.\<close>

definition job_key :: "plan_job \<Rightarrow> string" where
  "job_key j = pj_target_id j @ NUL # pj_ctx_id j"

definition set_stage :: "plan_job \<Rightarrow> plan_job" where
  "set_stage j = j\<lparr>pj_stage := (if pj_fuzz_id j \<noteq> '''' then StageWrite else stage_for_scanner (pj_scanner j))\<rparr>"

definition by_stage :: "plan_job list \<Rightarrow> string \<Rightarrow> string \<Rightarrow> string list" where
  "by_stage js key stage =
     map pj_id (filter (\<lambda>j. web_workflow_scanner (pj_scanner j) \<and> job_key j = key \<and> pj_stage j = stage) js)"

text \<open>
  The recursive closure \<open>visit\<close> as a loop over the prerequisites still to be looked at: where a
  prerequisite has no job its own prerequisites go to the front of the list.
\<close>

function visit :: "(string \<Rightarrow> string list) \<Rightarrow> string list \<Rightarrow> string set \<Rightarrow> string list \<Rightarrow> string list" where
  "visit stages [] visited deps = deps"
| "visit stages (p # ps) visited deps =
     (if p \<in> visited then visit stages ps visited deps
      else if stages p \<noteq> [] then visit stages ps (insert p visited) (deps @ stages p)
      else visit stages (prerequisites p @ ps) (insert p visited) deps)"
  by pat_completeness auto
termination
proof (relation "measures [\<lambda>(stages, ps, visited, deps). card (set stage_order - visited),
    \<lambda>(stages, ps, visited, deps). length ps]")
  have drop_known: "card (set stage_order - insert p v) < card (set stage_order - v)"
    if "p \<notin> v" "p \<in> set stage_order" for p v
    using that by (intro psubset_card_mono) auto
  have keep_unknown: "set stage_order - insert p v = set stage_order - v" if "p \<notin> set stage_order" for p v
    using that by auto
  have known: "p \<in> set stage_order" if "prerequisites p \<noteq> []" for p
  proof -
    have "list_all (\<lambda>(s, ps). s \<in> set stage_order) stage_prerequisites" by code_simp
    with that show ?thesis
      by (auto simp: prerequisites_def list_all_iff split: option.splits dest!: map_of_SomeD)
  qed
  fix stages :: "string \<Rightarrow> string list" and p :: string and ps v deps
  assume "p \<notin> v"
  then show "((stages, ps, insert p v, deps @ stages p), stages, p # ps, v, deps)
      \<in> measures [\<lambda>(stages, ps, visited, deps). card (set stage_order - visited), \<lambda>(stages, ps, visited, deps). length ps]"
    using drop_known [of p v] keep_unknown [of p v] by (cases "p \<in> set stage_order") auto
  show "((stages, prerequisites p @ ps, insert p v, deps), stages, p # ps, v, deps)
      \<in> measures [\<lambda>(stages, ps, visited, deps). card (set stage_order - visited), \<lambda>(stages, ps, visited, deps). length ps]"
    using \<open>p \<notin> v\<close> drop_known [of p v] keep_unknown [of p v] known [of p]
    by (cases "p \<in> set stage_order") auto
qed auto

definition job_dependencies :: "plan_job list \<Rightarrow> plan_job \<Rightarrow> string list" where
  "job_dependencies js j =
     (if \<not> web_workflow_scanner (pj_scanner j) then []
      else compact_slice (\<lambda>a b. a = b)
             (sort_slice (<) (visit (by_stage js (job_key j)) (prerequisites (pj_stage j)) {} [])))"

definition assign_stages :: "plan_job list \<Rightarrow> plan_job list" where
  "assign_stages js =
     (let staged = map set_stage js in map (\<lambda>j. j\<lparr>pj_deps := job_dependencies staged j\<rparr>) staged)"

definition job_less :: "plan_job \<Rightarrow> plan_job \<Rightarrow> bool" where
  "job_less a b \<longleftrightarrow>
     (if stage_rank (pj_stage a) \<noteq> stage_rank (pj_stage b) then stage_rank (pj_stage a) < stage_rank (pj_stage b)
      else pj_id a < pj_id b)"

section \<open>The planner\<close>

definition plan_acc_of :: "digests \<Rightarrow> assessment_config \<Rightarrow> plan_input \<Rightarrow> capability_evidence list \<Rightarrow> plan_acc" where
  "plan_acc_of dg cfg inp caps =
     (let a0 = fold (plan_scanner cfg inp caps) scanner_registry ([], []);
          a1 = crawl_jobs cfg inp a0;
          a2 = ensure_discovery_preparation cfg inp a1;
          a3 = (fst a2, append_fuzz_jobs dg cfg inp (snd a2));
          a4 = write_jobs cfg a3;
          a5 = nextjs_jobs cfg inp ''nextjs-actions'' ''nextjs_action.explicit_approval''
                 (map na_target_id (cfg_nextjs_action_approvals cfg)) a4;
          a6 = nextjs_jobs cfg inp ''nextjs-boundaries'' ''nextjs_boundary.explicit_approval''
                 (map nb_target_id (cfg_nextjs_boundary_approvals cfg)) a5
      in (adapter_gaps cfg (fst a6 @ unregistered_provider_decisions cfg), snd a6))"

definition finish_jobs :: "digests \<Rightarrow> assessment_config \<Rightarrow> plan_job list \<Rightarrow> plan_job list" where
  "finish_jobs dg cfg js =
     sort_slice job_less (assign_stages (expand_identity_jobs dg cfg (expand_tls_service_jobs cfg js)))"

definition selection_errors :: "assessment_config \<Rightarrow> problem list" where
  "selection_errors cfg =
     flag (custom_mode cfg \<and> ss_variants (cfg_scanner_selection cfg) = []) (blocking ''selection.empty'')
     @ concat (map (\<lambda>v. flag (registry_entry v = None) (blocking ''selection.unknown''))
         (ss_variants (cfg_scanner_selection cfg)))"

definition seal_plan :: "digests \<Rightarrow> plan_input \<Rightarrow> assessment_plan \<Rightarrow> assessment_plan" where
  "seal_plan dg inp p =
     p\<lparr>pl_fingerprint := dg_plan dg (pl_config p, pl_capabilities p, pl_decisions p, pl_jobs p,
         in_tool_versions inp, in_revisions inp)\<rparr>"

definition tool_versions :: "digests \<Rightarrow> plan_input \<Rightarrow> (string \<times> string) list" where
  "tool_versions dg inp = foldl (\<lambda>m (k, v). put k v m) (in_tool_versions inp) (dg_catalogs dg)"

definition plan_assessment :: "digests \<Rightarrow> plan_input \<Rightarrow> assessment_plan" where
  "plan_assessment dg inp =
     (let cfg = normalize_config (in_config inp);
          caps = map (resolve_credential (in_credentials inp)) (derive_capabilities cfg);
          problems = validate cfg;
          p0 = \<lparr>pl_config = cfg, pl_capabilities = caps, pl_decisions = [], pl_jobs = [], pl_coverage = [],
                pl_warnings = filter (\<lambda>p. \<not> pb_blocking p) problems, pl_errors = filter pb_blocking problems,
                pl_tool_versions = tool_versions dg inp, pl_fingerprint = ''''\<rparr>
      in if pl_errors p0 \<noteq> [] then seal_plan dg inp p0
         else if selection_errors cfg \<noteq> [] then seal_plan dg inp (p0\<lparr>pl_errors := selection_errors cfg\<rparr>)
         else
           let (ds, js) = plan_acc_of dg cfg inp caps
           in seal_plan dg inp (p0\<lparr>pl_decisions := ds, pl_coverage := type_coverages cfg ds, pl_jobs := finish_jobs dg cfg js\<rparr>))"

end
