(* ===== verification/PlannerProperties.thy ===== *)
theory PlannerProperties
  imports Planner ValidateProperties
begin

text \<open>
  Where the jobs of a plan come from, as an inductive predicate, and what follows from it; the
  order of the jobs and their dependencies; and what a refused configuration plans.
\<close>

section \<open>Where jobs come from\<close>

inductive planned_job ::
  "digests \<Rightarrow> assessment_config \<Rightarrow> plan_input \<Rightarrow> capability_evidence list \<Rightarrow> plan_job \<Rightarrow> bool"
  for dg :: digests and cfg :: assessment_config and inp :: plan_input and caps :: "capability_evidence list"
where
  from_registry: "d \<in> set scanner_registry \<Longrightarrow> t \<in> set (cfg_targets cfg) \<Longrightarrow> decide cfg inp caps d t = (st, rc) \<Longrightarrow>
     sd_id d \<notin> set [''katana'', ''nextjs-actions'', ''nextjs-boundaries''] \<Longrightarrow>
     st \<in> {PlanSelected, PlanConditional} \<Longrightarrow>
     planned_job dg cfg inp caps (registry_job d t typ st (exec_mode caps d t))"
| from_auth: "t \<in> set (cfg_targets cfg) \<Longrightarrow> web_auth_bound (cfg_access cfg) (tgt_id t) \<Longrightarrow>
     planned_job dg cfg inp caps (workflow_job ''auth'' t StageAuth PlanSelected)"
| from_crawl: "t \<in> set (cfg_targets cfg) \<Longrightarrow> planned_job dg cfg inp caps (workflow_job ''katana'' t StageCrawl st)"
| from_preparation: "t \<in> set (cfg_targets cfg) \<Longrightarrow> sid \<in> {''dnsx'', ''httpx''} \<Longrightarrow>
     planned_job dg cfg inp caps ((workflow_job sid t '''' st)\<lparr>pj_type := typ, pj_types := [typ]\<rparr>)"
| from_fuzz: "f \<in> set (cfg_fuzz_approvals cfg) \<Longrightarrow> t \<in> set (cfg_targets cfg) \<Longrightarrow> tgt_id t = wa_target_id (fz_write f) \<Longrightarrow>
     planned_job dg cfg inp caps (fuzz_job dg inp f t)"
| from_write: "a \<in> set (cfg_write_approvals cfg) \<Longrightarrow> t \<in> set (cfg_targets cfg) \<Longrightarrow> tgt_id t = wa_target_id a \<Longrightarrow>
     planned_job dg cfg inp caps (write_job t)"
| from_action: "a \<in> set (cfg_nextjs_action_approvals cfg) \<Longrightarrow> t \<in> set (cfg_targets cfg) \<Longrightarrow> tgt_id t = na_target_id a \<Longrightarrow>
     planned_job dg cfg inp caps (nextjs_job inp ''nextjs-actions'' t)"
| from_boundary: "b \<in> set (cfg_nextjs_boundary_approvals cfg) \<Longrightarrow> t \<in> set (cfg_targets cfg) \<Longrightarrow> tgt_id t = nb_target_id b \<Longrightarrow>
     planned_job dg cfg inp caps (nextjs_job inp ''nextjs-boundaries'' t)"
| merged: "planned_job dg cfg inp caps j \<Longrightarrow> planned_job dg cfg inp caps (j\<lparr>pj_types := ts, pj_state := st\<rparr>)"
| skipped: "planned_job dg cfg inp caps j \<Longrightarrow> planned_job dg cfg inp caps (j\<lparr>pj_state := PlanSkipped\<rparr>)"
| tls_service: "planned_job dg cfg inp caps j \<Longrightarrow>
     planned_job dg cfg inp caps (j\<lparr>pj_target := tgt, pj_variant := v, pj_id := i\<rparr>)"
| for_identity: "planned_job dg cfg inp caps j \<Longrightarrow> identity_routed_scanner (pj_scanner j) \<Longrightarrow> pj_fuzz_id j = '''' \<Longrightarrow>
     planned_job dg cfg inp caps (identity_job dg tid ir j)"
| staged: "planned_job dg cfg inp caps j \<Longrightarrow> planned_job dg cfg inp caps ((set_stage j)\<lparr>pj_deps := ds\<rparr>)"

definition sourced :: "digests \<Rightarrow> assessment_config \<Rightarrow> plan_input \<Rightarrow> capability_evidence list \<Rightarrow> plan_job list \<Rightarrow> bool" where
  "sourced dg cfg inp caps js \<longleftrightarrow> (\<forall>j \<in> set js. planned_job dg cfg inp caps j)"

lemma sourced_simps [simp]:
  "sourced dg cfg inp caps []"
  "sourced dg cfg inp caps (j # js) \<longleftrightarrow> planned_job dg cfg inp caps j \<and> sourced dg cfg inp caps js"
  "sourced dg cfg inp caps (js @ ks) \<longleftrightarrow> sourced dg cfg inp caps js \<and> sourced dg cfg inp caps ks"
  by (auto simp: sourced_def)

lemma sourced_append_plan_job:
  "sourced dg cfg inp caps js \<Longrightarrow> planned_job dg cfg inp caps job \<Longrightarrow> sourced dg cfg inp caps (append_plan_job js job)"
  by (induction js job rule: append_plan_job.induct) (auto simp: Let_def merged)

lemma sourced_plan_one:
  assumes "d \<in> set scanner_registry" "t \<in> set (cfg_targets cfg)"
    "sd_id d \<notin> set [''katana'', ''nextjs-actions'', ''nextjs-boundaries'']" "sourced dg cfg inp caps (snd acc)"
  shows "sourced dg cfg inp caps (snd (plan_one cfg inp caps d t typ acc))"
proof -
  obtain ds js where acc: "acc = (ds, js)" by (cases acc)
  obtain st rc where dec: "decide cfg inp caps d t = (st, rc)" by (cases "decide cfg inp caps d t")
  have "sourced dg cfg inp caps (append_plan_job js (registry_job d t typ st (exec_mode caps d t)))"
    if "st = PlanSelected \<or> st = PlanConditional"
    using that assms acc dec by (intro sourced_append_plan_job from_registry [where rc = rc]) auto
  with assms(4) acc dec show ?thesis by (auto simp: plan_one_def Let_def)
qed

lemma sourced_plan_scanner:
  assumes "d \<in> set scanner_registry" "sourced dg cfg inp caps (snd acc)"
  shows "sourced dg cfg inp caps (snd (plan_scanner cfg inp caps d acc))"
proof -
  let ?m = "filter (\<lambda>t. tgt_kind t \<in> set (sd_kinds d)) (cfg_targets cfg)"
  let ?r = "fold (\<lambda>t a. fold (\<lambda>typ. plan_one cfg inp caps d t typ) (cfg_types cfg) a) ?m acc"
  show ?thesis
  proof (cases "sd_id d \<in> set [''katana'', ''nextjs-actions'', ''nextjs-boundaries'']")
    case True
    with assms(2) show ?thesis by (simp add: plan_scanner_def)
  next
    case False
    have "sourced dg cfg inp caps (snd ?r)"
    proof (rule fold_invariant [where Q = "\<lambda>t. t \<in> set (cfg_targets cfg)" and P = "\<lambda>a. sourced dg cfg inp caps (snd a)"])
      fix t and a :: plan_acc
      assume "t \<in> set (cfg_targets cfg)" "sourced dg cfg inp caps (snd a)"
      then show "sourced dg cfg inp caps (snd (fold (\<lambda>typ. plan_one cfg inp caps d t typ) (cfg_types cfg) a))"
        using assms(1) False
        by (intro fold_invariant [where Q = "\<lambda>_. True" and P = "\<lambda>a. sourced dg cfg inp caps (snd a)"] sourced_plan_one) auto
    qed (use assms(2) in auto)
    with assms(2) False show ?thesis
      by (auto simp: plan_scanner_def Let_def split: prod.split)
  qed
qed

lemma sourced_crawl_jobs:
  "sourced dg cfg inp caps (snd acc) \<Longrightarrow> sourced dg cfg inp caps (snd (crawl_jobs cfg inp acc))"
proof -
  assume acc: "sourced dg cfg inp caps (snd acc)"
  have "sourced dg cfg inp caps (snd (fold (crawl_target cfg inp) (cfg_targets cfg) acc))"
    by (rule fold_invariant [where Q = "\<lambda>t. t \<in> set (cfg_targets cfg)" and P = "\<lambda>a. sourced dg cfg inp caps (snd a)"])
      (use acc in \<open>auto simp: crawl_target_def Let_def from_auth [simplified] from_crawl [simplified]\<close>)
  with acc show ?thesis by (simp add: crawl_jobs_def)
qed

lemma sourced_prepare_action:
  assumes "t \<in> set (cfg_targets cfg)" "sid \<in> {''dnsx'', ''httpx'', ''nmap''}" "sourced dg cfg inp caps (snd acc)"
  shows "sourced dg cfg inp caps (snd (prepare_action cfg inp t sid acc))"
  using assms by (auto simp: prepare_action_def Let_def from_preparation split: prod.split)

lemma sourced_preparation:
  assumes "sourced dg cfg inp caps (snd acc)"
  shows "sourced dg cfg inp caps (snd (ensure_discovery_preparation cfg inp acc))"
proof -
  have actions: "sid \<in> set (proposed_discovery_actions cfg h) \<Longrightarrow> sid \<in> {''dnsx'', ''httpx'', ''nmap''}" for sid h
    by (auto simp: proposed_discovery_actions_def split: if_splits)
  have "sourced dg cfg inp caps (snd (fold (prepare_target cfg inp) (cfg_targets cfg) acc))"
  proof (rule fold_invariant [where Q = "\<lambda>t. t \<in> set (cfg_targets cfg)" and P = "\<lambda>a. sourced dg cfg inp caps (snd a)"])
    fix t and a :: plan_acc
    assume t: "t \<in> set (cfg_targets cfg)" and a: "sourced dg cfg inp caps (snd a)"
    have "sourced dg cfg inp caps (snd (fold (prepare_action cfg inp t) (proposed_discovery_actions cfg h) a))" for h
      by (rule fold_invariant [where Q = "\<lambda>s. s \<in> {''dnsx'', ''httpx'', ''nmap''}" and P = "\<lambda>a. sourced dg cfg inp caps (snd a)"])
        (use t a actions in \<open>auto intro: sourced_prepare_action\<close>)
    with a show "sourced dg cfg inp caps (snd (prepare_target cfg inp t a))"
      by (simp add: prepare_target_def)
  qed (use assms in auto)
  with assms show ?thesis by (simp add: ensure_discovery_preparation_def)
qed

lemma approval_targets_in: "t \<in> set (approval_targets cfg is) \<Longrightarrow> t \<in> set (cfg_targets cfg) \<and> tgt_id t \<in> set is"
  by (auto simp: approval_targets_def)

lemma sourced_plan_acc: "sourced dg cfg inp caps (snd (plan_acc_of dg cfg inp caps))"
proof -
  let ?a0 = "fold (plan_scanner cfg inp caps) scanner_registry ([], [])"
  have "sourced dg cfg inp caps (snd ?a0)"
    by (rule fold_invariant [where Q = "\<lambda>d. d \<in> set scanner_registry" and P = "\<lambda>a. sourced dg cfg inp caps (snd a)"])
      (auto intro: sourced_plan_scanner)
  then have "sourced dg cfg inp caps (snd (ensure_discovery_preparation cfg inp (crawl_jobs cfg inp ?a0)))"
    by (intro sourced_preparation sourced_crawl_jobs)
  then show ?thesis
    by (auto simp: plan_acc_of_def Let_def append_fuzz_jobs_def write_jobs_def nextjs_jobs_def sourced_def
        dest!: approval_targets_in intro: from_fuzz from_write from_action from_boundary)
qed

lemma sourced_tls: "sourced dg cfg inp caps js \<Longrightarrow> sourced dg cfg inp caps (expand_tls_service_jobs cfg js)"
proof -
  have "planned_job dg cfg inp caps j \<Longrightarrow> k \<in> set (tls_expand_one cfg j) \<Longrightarrow> planned_job dg cfg inp caps k" for j k
    by (auto simp: tls_expand_one_def Let_def tls_service_job_def tls_service skipped split: if_splits option.splits)
  then show "sourced dg cfg inp caps js \<Longrightarrow> ?thesis"
    by (auto simp: expand_tls_service_jobs_def sourced_def)
qed

lemma sourced_identity:
  assumes "sourced dg cfg inp caps js"
  shows "sourced dg cfg inp caps (expand_identity_jobs dg cfg js)"
  using assms
  by (auto simp: expand_identity_jobs_def sourced_def identity_jobs_for_def Let_def for_identity
      split: prod.splits if_splits)

lemma sourced_finish:
  assumes "sourced dg cfg inp caps js"
  shows "sourced dg cfg inp caps (finish_jobs dg cfg js)"
proof -
  have "sourced dg cfg inp caps (expand_identity_jobs dg cfg (expand_tls_service_jobs cfg js))"
    using assms by (intro sourced_identity sourced_tls)
  then show ?thesis
    by (auto simp: finish_jobs_def assign_stages_def Let_def sourced_def staged)
qed

section \<open>Reading a plan\<close>

lemmas job_defs = registry_job_def workflow_job_def fuzz_job_def write_job_def nextjs_job_def
  identity_job_def set_stage_def empty_job_def

lemma planned_target: "planned_job dg cfg inp caps j \<Longrightarrow> pj_target_id j \<in> target_ids cfg"
  by (induction rule: planned_job.induct) (auto simp: job_defs target_ids_def Let_def intro: rev_image_eqI)

lemma planned_exec:
  assumes "planned_job dg cfg inp caps j" and "\<And>e. e \<in> set caps \<Longrightarrow> ev_state e \<noteq> StateVerified"
  shows "pj_exec j \<in> {'''', ''unauthenticated''}"
  using assms(1)
proof (induction rule: planned_job.induct)
  case (from_registry d t st rc ty)
  with assms(2) show ?case
    by (auto simp: job_defs exec_mode_def has_capability_def list_ex_iff)
qed (auto simp: job_defs Let_def)

lemma registry_write_free:
  "d \<in> set scanner_registry \<Longrightarrow> sd_id d \<noteq> ''apiwrites''"
proof -
  have "list_all (\<lambda>d. sd_id d \<noteq> ''apiwrites'') scanner_registry" by code_simp
  then show "d \<in> set scanner_registry \<Longrightarrow> ?thesis" by (auto simp: list_all_iff)
qed

lemma planned_approved:
  assumes "planned_job dg cfg inp caps j"
  shows "(pj_scanner j = ''apiwrites'' \<longrightarrow> pj_target_id j \<in> wa_target_id ` set (cfg_write_approvals cfg))
    \<and> (pj_scanner j = ''nextjs-actions'' \<longrightarrow> pj_target_id j \<in> na_target_id ` set (cfg_nextjs_action_approvals cfg))
    \<and> (pj_scanner j = ''nextjs-boundaries'' \<longrightarrow> pj_target_id j \<in> nb_target_id ` set (cfg_nextjs_boundary_approvals cfg))
    \<and> (pj_fuzz_id j \<noteq> '''' \<longrightarrow> pj_fuzz_id j \<in> fuzz_approval_id dg ` set (cfg_fuzz_approvals cfg))
    \<and> (pj_scanner j = ''auth'' \<longrightarrow> web_auth_bound (cfg_access cfg) (pj_target_id j))"
  using assms
proof (induction rule: planned_job.induct)
  case (from_registry d t st rc ty)
  have "list_all (\<lambda>d. sd_id d \<noteq> ''auth'') scanner_registry" by code_simp
  with from_registry registry_write_free [OF from_registry(1)] show ?case
    by (auto simp: job_defs list_all_iff)
qed (auto simp: job_defs Let_def)

lemma provider_replaced_ids:
  "provider_replaced dp sid \<Longrightarrow> sid \<in> {ProviderSubfinder, ProviderAmass, ProviderTestssl, ProviderSSLyze}"
  by (auto simp: provider_replaced_def provider_selections_def subdomain_selections_def Let_def
      split: option.splits if_splits prod.splits dest!: map_of_SomeD)

lemma planned_not_replaced:
  assumes "planned_job dg cfg inp caps j"
  shows "\<not> provider_replaced (cfg_discovery_providers cfg) (pj_scanner j)"
  using assms
proof (induction rule: planned_job.induct)
  case (from_registry d t st rc ty)
  show ?case
  proof
    assume "provider_replaced (cfg_discovery_providers cfg) (pj_scanner (registry_job d t ty st (exec_mode caps d t)))"
    then have "provider_replaced (cfg_discovery_providers cfg) (sd_id d)" by (simp add: job_defs)
    then have "fst (decide cfg inp caps d t) \<notin> {PlanSelected, PlanConditional}"
      unfolding decide_def Let_def by (simp split: if_splits)
    with from_registry show False by simp
  qed
qed (auto simp: job_defs Let_def dest: provider_replaced_ids)

lemma plan_assessment_cases:
  obtains (refused) "pl_jobs (plan_assessment dg inp) = []" "pl_decisions (plan_assessment dg inp) = []"
      "pl_errors (plan_assessment dg inp) \<noteq> []"
  | (planned) ds js where "validate (normalize_config (in_config inp)) = pl_warnings (plan_assessment dg inp)"
      "accepted (normalize_config (in_config inp))"
      "pl_errors (plan_assessment dg inp) = []"
      "plan_acc_of dg (normalize_config (in_config inp)) inp
         (map (resolve_credential (in_credentials inp)) (derive_capabilities (normalize_config (in_config inp)))) = (ds, js)"
      "pl_decisions (plan_assessment dg inp) = ds"
      "pl_jobs (plan_assessment dg inp) = finish_jobs dg (normalize_config (in_config inp)) js"
proof -
  let ?cfg = "normalize_config (in_config inp)"
  let ?caps = "map (resolve_credential (in_credentials inp)) (derive_capabilities ?cfg)"
  obtain ds js where acc: "plan_acc_of dg ?cfg inp ?caps = (ds, js)" by (cases "plan_acc_of dg ?cfg inp ?caps")
  show thesis
  proof (cases "filter pb_blocking (validate ?cfg) = [] \<and> selection_errors ?cfg = []")
    case True
    then have "accepted ?cfg" "filter (\<lambda>p. \<not> pb_blocking p) (validate ?cfg) = validate ?cfg"
      by (auto simp: accepted_def first_blocking_None quiet_def filter_empty_conv filter_id)
    with True acc show thesis
      by (intro planned [of ds js]) (simp_all add: plan_assessment_def Let_def seal_plan_def)
  next
    case False
    then show thesis
      by (intro refused) (auto simp: plan_assessment_def Let_def seal_plan_def)
  qed
qed

lemma pl_config_plan [simp]: "pl_config (plan_assessment dg inp) = normalize_config (in_config inp)"
  by (simp add: plan_assessment_def Let_def seal_plan_def split: prod.split)

definition plan_capabilities :: "plan_input \<Rightarrow> capability_evidence list" where
  "plan_capabilities inp = map (resolve_credential (in_credentials inp)) (derive_capabilities (normalize_config (in_config inp)))"

lemma plan_jobs_sourced:
  "sourced dg (normalize_config (in_config inp)) inp (plan_capabilities inp) (pl_jobs (plan_assessment dg inp))"
proof (cases rule: plan_assessment_cases [of dg inp])
  case refused
  then show ?thesis by simp
next
  case (planned ds js)
  have "sourced dg (normalize_config (in_config inp)) inp (plan_capabilities inp) js"
    using sourced_plan_acc [of dg "normalize_config (in_config inp)" inp "plan_capabilities inp"] planned(4)
    by (simp add: plan_capabilities_def)
  then show ?thesis unfolding planned(6) by (rule sourced_finish)
qed

lemma derive_not_verified: "e \<in> set (derive_capabilities cfg) \<Longrightarrow> ev_state e \<noteq> StateVerified"
  by (auto simp: set_derive_capabilities dest!: target_evidence_fields schema_evidence_fields access_evidence_fields)

lemma plan_capabilities_not_verified: "e \<in> set (plan_capabilities inp) \<Longrightarrow> ev_state e \<noteq> StateVerified"
  using derive_not_verified by (auto simp: plan_capabilities_def resolve_credential_def split: if_splits)

text \<open>C6: whatever the input, every job of a plan is for a target of the normalized configuration
  and runs unauthenticated (planning never marks a job as authenticated); a plan with a planning
  error has neither jobs nor decisions.\<close>

theorem plan_jobs_confined:
  "pj_target_id ` set (pl_jobs (plan_assessment dg inp)) \<subseteq> tgt_id ` set (cfg_targets (pl_config (plan_assessment dg inp)))
   \<and> pj_exec ` set (pl_jobs (plan_assessment dg inp)) \<subseteq> {'''', ''unauthenticated''}
   \<and> (pl_errors (plan_assessment dg inp) = []
      \<or> (pl_jobs (plan_assessment dg inp) = [] \<and> pl_decisions (plan_assessment dg inp) = []))"
proof (intro conjI)
  note jobs = plan_jobs_sourced [of dg inp, unfolded sourced_def]
  show "pj_target_id ` set (pl_jobs (plan_assessment dg inp)) \<subseteq> tgt_id ` set (cfg_targets (pl_config (plan_assessment dg inp)))"
    using jobs planned_target by (fastforce simp: target_ids_def)
  show "pj_exec ` set (pl_jobs (plan_assessment dg inp)) \<subseteq> {'''', ''unauthenticated''}"
    using jobs planned_exec [where caps = "plan_capabilities inp"] plan_capabilities_not_verified by blast
  show "pl_errors (plan_assessment dg inp) = []
      \<or> (pl_jobs (plan_assessment dg inp) = [] \<and> pl_decisions (plan_assessment dg inp) = [])"
    by (cases rule: plan_assessment_cases [of dg inp]) simp_all
qed

text \<open>C7: the intrusive jobs of a plan are backed by the configuration: a write job, a Server
  Action job and a boundary job only for the target of such an approval, a fuzz job only for the id
  of an approved fuzz contract, and a login job only for a target an application identity is bound to.\<close>

theorem plan_jobs_approved:
  "pj_target_id ` {j \<in> set (pl_jobs (plan_assessment dg inp)). pj_scanner j = ''apiwrites''}
     \<subseteq> wa_target_id ` set (cfg_write_approvals (normalize_config (in_config inp)))
   \<and> pj_target_id ` {j \<in> set (pl_jobs (plan_assessment dg inp)). pj_scanner j = ''nextjs-actions''}
     \<subseteq> na_target_id ` set (cfg_nextjs_action_approvals (normalize_config (in_config inp)))
   \<and> pj_target_id ` {j \<in> set (pl_jobs (plan_assessment dg inp)). pj_scanner j = ''nextjs-boundaries''}
     \<subseteq> nb_target_id ` set (cfg_nextjs_boundary_approvals (normalize_config (in_config inp)))
   \<and> pj_fuzz_id ` set (pl_jobs (plan_assessment dg inp))
     \<subseteq> insert '''' (fuzz_approval_id dg ` set (cfg_fuzz_approvals (normalize_config (in_config inp))))
   \<and> pj_target_id ` {j \<in> set (pl_jobs (plan_assessment dg inp)). pj_scanner j = ''auth''}
     \<subseteq> {t. web_auth_bound (cfg_access (normalize_config (in_config inp))) t}"
  using plan_jobs_sourced [of dg inp, unfolded sourced_def] planned_approved by blast

lemma black_box_jobs:
  assumes "accepted cfg" and "cfg_mode cfg = ModeBlackBox" and "planned_job dg cfg inp caps j"
  shows "pj_scanner j \<notin> {''apiwrites'', ''nextjs-actions'', ''nextjs-boundaries'', ''auth''} \<and> pj_fuzz_id j = ''''"
  using planned_approved [OF assms(3)] black_box_no_access [OF assms(1,2)] black_box_no_approvals [OF assms(1,2)]
  by (auto simp: all_write_approvals_def web_auth_bound_def)

text \<open>C8: a Black Box plan contains no write, Server Action, boundary, fuzz or login job.\<close>

theorem black_box_plan_external:
  assumes "cfg_mode (normalize_config (in_config inp)) = ModeBlackBox"
  shows "filter (\<lambda>j. pj_scanner j \<in> {''apiwrites'', ''nextjs-actions'', ''nextjs-boundaries'', ''auth''}
    \<or> pj_fuzz_id j \<noteq> '''') (pl_jobs (plan_assessment dg inp)) = []"
proof (cases rule: plan_assessment_cases [of dg inp])
  case refused
  then show ?thesis by simp
next
  case (planned ds js)
  from planned(2) assms plan_jobs_sourced [of dg inp] show ?thesis
    by (auto simp: sourced_def filter_empty_conv dest: black_box_jobs)
qed

definition plain_digests :: digests where
  "plain_digests = \<lparr>dg_catalogs = [], dg_short = (\<lambda>s. s), dg_fuzz_json = (\<lambda>f. wa_path (fz_write f)),
     dg_plan = (\<lambda>(cfg, caps, ds, js, vs, rs). cfg_mode cfg)\<rparr>"

definition plain_input :: "assessment_config \<Rightarrow> plan_input" where
  "plain_input cfg = \<lparr>in_config = cfg, in_availability = [], in_unavailable = [], in_credentials = [],
     in_tool_versions = [], in_revisions = []\<rparr>"

theorem black_box_plan_external_witness:
  "filter (\<lambda>j. pj_scanner j \<in> {''apiwrites'', ''nextjs-actions'', ''nextjs-boundaries'', ''auth''}
    \<or> pj_fuzz_id j \<noteq> '''') (pl_jobs (plan_assessment plain_digests (plain_input domain_config))) = []"
  by (rule black_box_plan_external) code_simp

text \<open>when the configuration names a TLS or subdomain provider, the alternative it replaces has
  no job in the plan.\<close>

theorem replaced_provider_not_planned:
  "pj_scanner ` set (pl_jobs (plan_assessment dg inp))
     \<inter> {sid. provider_replaced (cfg_discovery_providers (normalize_config (in_config inp))) sid} = {}"
  using plan_jobs_sourced [of dg inp, unfolded sourced_def] planned_not_replaced by blast

text \<open>The fingerprint of a plan does not depend on the versions of the embedded catalogs and
  rule sets: two builds that differ in them give the same plan fingerprint, while the versions do
  appear in the tool versions the plan reports.\<close>

theorem fingerprint_ignores_catalogs:
  "pl_fingerprint (plan_assessment (dg\<lparr>dg_catalogs := c\<rparr>) inp) = pl_fingerprint (plan_assessment dg inp)
   \<and> pl_tool_versions (plan_assessment (dg\<lparr>dg_catalogs := c\<rparr>) inp) = foldl (\<lambda>m (k, v). put k v m) (in_tool_versions inp) c"
proof -
  have "plan_acc_of (dg\<lparr>dg_catalogs := c\<rparr>) cfg inp caps = plan_acc_of dg cfg inp caps" for cfg caps
    by (simp add: plan_acc_of_def append_fuzz_jobs_def fuzz_job_def [abs_def] fuzz_approval_id_def Let_def)
  moreover have "identity_job (dg\<lparr>dg_catalogs := c\<rparr>) = identity_job dg"
    by (intro ext) (simp add: identity_job_def authentication_context_id_def)
  then have "identity_jobs_for (dg\<lparr>dg_catalogs := c\<rparr>) = identity_jobs_for dg"
    by (intro ext) (auto simp: identity_jobs_for_def split: prod.split)
  then have "finish_jobs (dg\<lparr>dg_catalogs := c\<rparr>) cfg js = finish_jobs dg cfg js" for cfg js
    by (simp add: finish_jobs_def expand_identity_jobs_def)
  ultimately show ?thesis
    by (simp add: plan_assessment_def seal_plan_def tool_versions_def Let_def split: prod.split)
qed

section \<open>Decisions and coverage\<close>

definition decided :: "plan_decision list \<Rightarrow> target \<Rightarrow> string \<Rightarrow> bool" where
  "decided ds t typ \<longleftrightarrow> list_ex (\<lambda>d. pd_target_id d = tgt_id t \<and> typ \<in> set (pd_types d)) ds"

lemma decided_append [simp]: "decided (ds @ es) t typ \<longleftrightarrow> decided ds t typ \<or> decided es t typ"
  by (simp add: decided_def)

lemma add_adapter_gap_decided:
  "decided ds t' typ' \<Longrightarrow> decided (add_adapter_gap t typ ds) t' typ'"
  "target_supports_type t typ \<Longrightarrow> decided (add_adapter_gap t typ ds) t typ"
  by (auto simp: add_adapter_gap_def decided_def workflow_decision_def)

lemma fold_reaches:
  assumes "\<And>x a. P a \<Longrightarrow> P (f x a)" and "\<And>a. P (f y a)" and "y \<in> set ys"
  shows "P (fold f ys a)"
proof -
  have keep: "P a \<Longrightarrow> P (fold f zs a)" for zs a
    by (rule fold_invariant [where Q = "\<lambda>_. True" and P = P]) (auto intro: assms(1))
  from assms(3) show ?thesis
    by (induction ys arbitrary: a) (auto intro: keep assms(2))
qed

lemma fold_gaps_keep: "decided ds t typ \<Longrightarrow> decided (fold (add_adapter_gap t') ts ds) t typ"
  by (rule fold_invariant [where Q = "\<lambda>_. True" and P = "\<lambda>ds. decided ds t typ"]) (auto intro: add_adapter_gap_decided)

lemma adapter_gaps_decided:
  assumes "t \<in> set (cfg_targets cfg)" "typ \<in> set (cfg_types cfg)" "target_supports_type t typ"
  shows "decided (adapter_gaps cfg ds) t typ"
  unfolding adapter_gaps_def
proof (rule fold_reaches [where P = "\<lambda>ds. decided ds t typ", OF _ _ assms(1)])
  show "decided (fold (add_adapter_gap t) (cfg_types cfg) a) t typ" for a
    by (rule fold_reaches [where P = "\<lambda>ds. decided ds t typ", OF _ _ assms(2)])
      (auto intro: add_adapter_gap_decided assms(3))
qed (rule fold_gaps_keep)

lemma plan_decisions_decided:
  assumes "plan_acc_of dg cfg inp caps = (ds, js)"
    "t \<in> set (cfg_targets cfg)" "typ \<in> set (cfg_types cfg)" "target_supports_type t typ"
  shows "decided ds t typ"
  using adapter_gaps_decided [OF assms(2-4)] assms(1) by (auto simp: plan_acc_of_def Let_def)

lemma plan_accepted:
  "accepted (normalize_config (in_config inp)) \<Longrightarrow> selection_errors (normalize_config (in_config inp)) = [] \<Longrightarrow>
     pl_errors (plan_assessment dg inp) = []"
  by (auto simp: plan_assessment_def Let_def seal_plan_def accepted_def first_blocking_None quiet_def
      filter_empty_conv split: prod.split)

text \<open>no silent gap: in a plan without errors every configured assessment type a target supports
  has a decision for that target, if only the one that says no adapter is available.\<close>

theorem every_supported_pair_decided:
  assumes "pl_errors (plan_assessment dg inp) = []"
    and "t \<in> set (cfg_targets (pl_config (plan_assessment dg inp)))"
    and "typ \<in> set (cfg_types (pl_config (plan_assessment dg inp)))"
    and "target_supports_type t typ"
  shows "\<exists>d \<in> set (pl_decisions (plan_assessment dg inp)). pd_target_id d = tgt_id t \<and> typ \<in> set (pd_types d)"
proof (cases rule: plan_assessment_cases [of dg inp])
  case refused
  with assms(1) show ?thesis by simp
next
  case (planned ds js)
  from plan_decisions_decided [OF planned(4)] assms(2-4) planned(5) show ?thesis
    by (auto simp: decided_def list_ex_iff)
qed

theorem every_supported_pair_decided_witness:
  "\<exists>d \<in> set (pl_decisions (plan_assessment plain_digests (plain_input domain_config))).
     pd_target_id d = ''t1'' \<and> TypeNetwork \<in> set (pd_types d)"
proof -
  let ?cfg = "normalize_config (in_config (plain_input domain_config))"
  let ?t = "\<lparr>tgt_id = ''t1'', tgt_kind = ''DOMAIN'', tgt_value = ''shop.test'', tgt_branch = '''', tgt_related_to = ''''\<rparr>"
  have "accepted ?cfg" "selection_errors ?cfg = []" by code_simp+
  then have errors: "pl_errors (plan_assessment plain_digests (plain_input domain_config)) = []"
    by (rule plan_accepted)
  have "cfg_targets ?cfg = [?t]" "cfg_types ?cfg = [TypeNetwork]" by code_simp+
  then have "?t \<in> set (cfg_targets (pl_config (plan_assessment plain_digests (plain_input domain_config))))"
    and "TypeNetwork \<in> set (cfg_types (pl_config (plan_assessment plain_digests (plain_input domain_config))))"
    by simp_all
  moreover have "target_supports_type ?t TypeNetwork" by code_simp
  ultimately have "\<exists>d \<in> set (pl_decisions (plan_assessment plain_digests (plain_input domain_config))).
     pd_target_id d = tgt_id ?t \<and> TypeNetwork \<in> set (pd_types d)"
    by (rule every_supported_pair_decided [OF errors])
  then show ?thesis by simp
qed

text \<open>The state of a type, read off its decisions without regard to their order.\<close>

definition has_decision :: "string \<Rightarrow> plan_state \<Rightarrow> plan_decision list \<Rightarrow> bool" where
  "has_decision typ st ds \<longleftrightarrow> list_ex (\<lambda>d. typ \<in> set (pd_types d) \<and> pd_state d = st) ds"

definition coverage_of :: "string \<Rightarrow> plan_decision list \<Rightarrow> string" where
  "coverage_of typ ds =
     (if has_decision typ PlanSelected ds then ''planned''
      else if has_decision typ PlanConditional ds then ''conditional''
      else if has_decision typ PlanUnavailable ds then ''unavailable'' else ''not_applicable'')"

lemma coverage_fold:
  "st \<in> {''planned'', ''conditional'', ''unavailable'', ''not_applicable''} \<Longrightarrow>
   fold (coverage_step typ) ds st =
     (if st = ''planned'' \<or> has_decision typ PlanSelected ds then ''planned''
      else if st = ''conditional'' \<or> has_decision typ PlanConditional ds then ''conditional''
      else if st = ''unavailable'' \<or> has_decision typ PlanUnavailable ds then ''unavailable'' else st)"
proof (induction ds arbitrary: st)
  case (Cons d ds)
  have "coverage_step typ d st \<in> {''planned'', ''conditional'', ''unavailable'', ''not_applicable''}"
    using Cons.prems by (auto simp: coverage_step_def split: plan_state.splits)
  from Cons.IH [OF this] Cons.prems show ?case
    by (cases "pd_state d") (auto simp: coverage_step_def has_decision_def)
qed (auto simp: has_decision_def)

text \<open>the coverage a plan reports for a configured type: planned exactly when some decision for
  the type is selected, otherwise conditional when one is conditional, otherwise unavailable when one
  is unavailable, and not applicable otherwise; the order of the decisions does not matter. A plan
  with errors reports no coverage.\<close>

theorem coverage_meets_spec:
  "pl_coverage (plan_assessment dg inp) =
     (if pl_errors (plan_assessment dg inp) = []
      then map (\<lambda>typ. \<lparr>cov_type = typ, cov_state = coverage_of typ (pl_decisions (plan_assessment dg inp))\<rparr>)
             (cfg_types (pl_config (plan_assessment dg inp)))
      else [])"
proof -
  have "fold (coverage_step ty) ds ''not_applicable'' = coverage_of ty ds" for ty ds
    by (simp add: coverage_fold coverage_of_def)
  then show ?thesis
    by (simp add: plan_assessment_def Let_def seal_plan_def type_coverages_def split: prod.split)
qed

end
