(* ===== verification/PlanStages.thy ===== *)
theory PlanStages
  imports Planner
begin

text \<open>
  The stages and dependencies \<open>AssessmentPlanner.Plan\<close> gives the jobs: the closure \<open>visit\<close> against
  an inductive reading of ``the nearest earlier stage that has a job'', and the order of the jobs.
\<close>

section \<open>The nearest stages that have jobs\<close>

inductive nearest :: "(string \<Rightarrow> string list) \<Rightarrow> string \<Rightarrow> string \<Rightarrow> bool" for stages :: "string \<Rightarrow> string list"
where
  nearest_here: "stages p \<noteq> [] \<Longrightarrow> nearest stages p p"
| nearest_skip: "stages p = [] \<Longrightarrow> p' \<in> set (prerequisites p) \<Longrightarrow> nearest stages p' q \<Longrightarrow> nearest stages p q"

lemma nearest_present: "nearest stages p q \<Longrightarrow> stages q \<noteq> []"
  by (induction rule: nearest.induct) auto

lemma nearest_rank: "nearest stages p q \<Longrightarrow> stage_rank q \<le> stage_rank p"
  by (induction rule: nearest.induct) (auto dest: prerequisites_earlier)

lemma visit_sound:
  "d \<in> set (visit stages ps visited deps) \<Longrightarrow>
     d \<in> set deps \<or> (\<exists>p \<in> set ps. \<exists>q. nearest stages p q \<and> d \<in> set (stages q))"
proof (induction stages ps visited deps rule: visit.induct)
  case (2 stages p ps visited deps)
  then show ?case
    by (auto split: if_splits intro: nearest_here nearest_skip)
qed simp

definition closed_under :: "(string \<Rightarrow> string list) \<Rightarrow> string set \<Rightarrow> string set \<Rightarrow> string set \<Rightarrow> bool" where
  "closed_under stages visited ps deps \<longleftrightarrow>
     (\<forall>x \<in> visited. (stages x \<noteq> [] \<longrightarrow> set (stages x) \<subseteq> deps)
        \<and> (stages x = [] \<longrightarrow> set (prerequisites x) \<subseteq> visited \<union> ps))"

lemma closed_under_done:
  "nearest stages p q \<Longrightarrow> p \<in> visited \<Longrightarrow> closed_under stages visited {} deps \<Longrightarrow> set (stages q) \<subseteq> deps"
proof (induction rule: nearest.induct)
  case (nearest_skip p p' q)
  then have "p' \<in> visited" by (auto simp: closed_under_def)
  with nearest_skip show ?case by blast
qed (auto simp: closed_under_def)

lemma visit_complete:
  "closed_under stages visited (set ps) (set deps) \<Longrightarrow> p \<in> set ps \<union> visited \<Longrightarrow> nearest stages p q \<Longrightarrow>
     set (stages q) \<subseteq> set (visit stages ps visited deps)"
proof (induction stages ps visited deps arbitrary: p rule: visit.induct)
  case (1 stages visited deps)
  then show ?case using closed_under_done [of stages p q visited "set deps"] by simp
next
  case (2 stages x ps visited deps)
  consider (seen) "x \<in> visited" | (jobs) "x \<notin> visited" "stages x \<noteq> []" | (none) "x \<notin> visited" "stages x = []"
    by blast
  then show ?case
  proof cases
    case seen
    then have "visited \<union> set (x # ps) = visited \<union> set ps" by auto
    with 2 have "closed_under stages visited (set ps) (set deps)" by (simp add: closed_under_def)
    with seen 2 show ?thesis by auto
  next
    case jobs
    with 2 have "closed_under stages (insert x visited) (set ps) (set (deps @ stages x))"
      by (auto simp: closed_under_def split: if_splits)
    with jobs 2 show ?thesis by auto
  next
    case none
    with 2 have "closed_under stages (insert x visited) (set (prerequisites x @ ps)) (set deps)"
      by (auto simp: closed_under_def split: if_splits)
    with none 2 show ?thesis by auto
  qed
qed

lemma set_visit:
  "set (visit stages ps {} []) = {d. \<exists>p \<in> set ps. \<exists>q. nearest stages p q \<and> d \<in> set (stages q)}"
  using visit_sound [of _ stages ps "{}" "[]"] visit_complete [of stages "{}" ps "[]"]
  by (fastforce simp: closed_under_def)

section \<open>The order of jobs\<close>

interpretation job_ord: strict_weak_order job_less
proof
  show "\<not> job_less a a" for a by (simp add: job_less_def)
  show "job_less a b \<Longrightarrow> job_less b c \<Longrightarrow> job_less a c" for a b c
    by (auto simp: job_less_def split: if_splits)
  show "\<not> job_less b a \<Longrightarrow> \<not> job_less c b \<Longrightarrow> \<not> job_less c a" for a b c
    by (auto simp: job_less_def split: if_splits)
qed

lemma sorted_jobs_before:
  assumes "sort_slice job_less js = xs @ j # ys" and "k \<in> set js" and "stage_rank (pj_stage k) < stage_rank (pj_stage j)"
  shows "k \<in> set xs"
proof -
  have "sorted_wrt (\<lambda>a b. \<not> job_less b a) (xs @ j # ys)"
    using job_ord.sorted_sort_slice [of js] assms(1) by simp
  then have "\<not> job_less k j" if "k \<in> set ys" using that by (simp add: sorted_wrt_append)
  moreover have "job_less k j" using assms(3) by (simp add: job_less_def)
  moreover have "k \<noteq> j" using assms(3) by auto
  moreover have "k \<in> set (xs @ j # ys)" using assms(1,2) by (metis set_sort_slice)
  ultimately show ?thesis by auto
qed

section \<open>The dependencies of the jobs\<close>

lemma set_by_stage:
  "set (by_stage js key s) =
     pj_id ` {k \<in> set js. web_workflow_scanner (pj_scanner k) \<and> job_key k = key \<and> pj_stage k = s}"
  by (auto simp: by_stage_def)

text \<open>What the closure reads of a job; the assignment of dependencies leaves it alone.\<close>

definition job_view :: "plan_job \<Rightarrow> string \<times> string \<times> string \<times> string" where
  "job_view k = (pj_scanner k, job_key k, pj_stage k, pj_id k)"

lemma job_view_assigned: "map job_view (assign_stages js) = map job_view (map set_stage js)"
  by (simp add: assign_stages_def Let_def job_view_def job_key_def)

lemma by_stage_view:
  "by_stage js key s = map (snd \<circ> snd \<circ> snd) (filter (\<lambda>(sc, k, st, i). web_workflow_scanner sc \<and> k = key \<and> st = s)
     (map job_view js))"
  by (simp add: by_stage_def job_view_def filter_map comp_def)

lemma by_stage_assigned [simp]: "by_stage (assign_stages js) = by_stage (map set_stage js)"
  by (intro ext) (simp only: by_stage_view job_view_assigned)

lemma ids_view:
  "pj_id ` {k \<in> set js. Q (pj_scanner k) (job_key k) (pj_stage k)}
     = (snd \<circ> snd \<circ> snd) ` {x \<in> set (map job_view js). case x of (sc, k, st, i) \<Rightarrow> Q sc k st}"
  by (force simp: job_view_def)

lemma ids_assigned:
  "pj_id ` {k \<in> set (assign_stages js). Q (pj_scanner k) (job_key k) (pj_stage k)}
     = pj_id ` {k \<in> set (map set_stage js). Q (pj_scanner k) (job_key k) (pj_stage k)}"
  unfolding ids_view [of _ Q] job_view_assigned ..

lemma set_job_dependencies:
  "set (job_dependencies js j) =
     (if web_workflow_scanner (pj_scanner j)
      then pj_id ` {k \<in> set js. web_workflow_scanner (pj_scanner k) \<and> job_key k = job_key j
             \<and> (\<exists>p \<in> set (prerequisites (pj_stage j)). nearest (by_stage js (job_key j)) p (pj_stage k))}
      else {})"
proof -
  let ?v = "sort_slice (<) (visit (by_stage js (job_key j)) (prerequisites (pj_stage j)) {} [])"
  have "set (compact_slice (\<lambda>a b. a = b) ?v) = set ?v"
    using compact_slice_covers [of "\<lambda>a b. a = b" "\<lambda>x::string. x" ?v] by simp
  then show ?thesis
    by (auto simp: job_dependencies_def set_visit set_by_stage)
qed

lemma assigned_job:
  assumes "j \<in> set (assign_stages js)"
  shows "pj_deps j = job_dependencies (map set_stage js) j"
  using assms by (auto simp: assign_stages_def Let_def job_dependencies_def job_key_def)

text \<open>the jobs a web workflow job waits for are exactly the web workflow jobs of the same
  target and authentication context in the nearest earlier stages that have jobs (an empty stage is
  passed over to its own prerequisites); a job outside the web workflow waits for nothing. The ids
  are sorted and each stands once.\<close>

theorem dependencies_are_nearest_stages:
  assumes "j \<in> set (assign_stages js)"
  shows "set (pj_deps j) =
     (if web_workflow_scanner (pj_scanner j)
      then pj_id ` {k \<in> set (assign_stages js). web_workflow_scanner (pj_scanner k) \<and> job_key k = job_key j
             \<and> (\<exists>p \<in> set (prerequisites (pj_stage j)). nearest (by_stage (assign_stages js) (job_key j)) p (pj_stage k))}
      else {}) \<and> sorted_wrt (<) (pj_deps j)"
proof
  let ?Q = "\<lambda>sc key st. web_workflow_scanner sc \<and> key = job_key j
             \<and> (\<exists>p \<in> set (prerequisites (pj_stage j)). nearest (by_stage (map set_stage js) (job_key j)) p st)"
  from ids_assigned [of js ?Q] show "set (pj_deps j) =
     (if web_workflow_scanner (pj_scanner j)
      then pj_id ` {k \<in> set (assign_stages js). web_workflow_scanner (pj_scanner k) \<and> job_key k = job_key j
             \<and> (\<exists>p \<in> set (prerequisites (pj_stage j)). nearest (by_stage (assign_stages js) (job_key j)) p (pj_stage k))}
      else {})"
    unfolding assigned_job [OF assms] set_job_dependencies by simp
  have "sorted_wrt (<) (map (\<lambda>x. x) (compact_slice (\<lambda>a b. a = b) (sort_slice (<) xs)))" for xs :: "string list"
    using string_ord.sorted_keys [of xs] by (intro compact_slice_strict) simp_all
  then show "sorted_wrt (<) (pj_deps j)"
    unfolding assigned_job [OF assms] by (simp add: job_dependencies_def)
qed

definition sample_jobs :: "plan_job list" where
  "sample_jobs =
     (let t = \<lparr>tgt_id = ''t1'', tgt_kind = ''URL'', tgt_value = ''https://api.test/'', tgt_branch = '''', tgt_related_to = ''''\<rparr>
      in [workflow_job ''nuclei'' t '''' PlanSelected, workflow_job ''apiwrites'' t '''' PlanSelected,
          workflow_job ''katana'' t '''' PlanSelected, workflow_job ''auth'' t '''' PlanSelected,
          workflow_job ''httpx'' t '''' PlanSelected, workflow_job ''nmap'' t '''' PlanSelected])"

theorem dependencies_are_nearest_stages_witness:
  "set (pj_deps (hd (assign_stages sample_jobs))) =
     (if web_workflow_scanner (pj_scanner (hd (assign_stages sample_jobs)))
      then pj_id ` {k \<in> set (assign_stages sample_jobs). web_workflow_scanner (pj_scanner k)
             \<and> job_key k = job_key (hd (assign_stages sample_jobs))
             \<and> (\<exists>p \<in> set (prerequisites (pj_stage (hd (assign_stages sample_jobs)))).
                   nearest (by_stage (assign_stages sample_jobs) (job_key (hd (assign_stages sample_jobs)))) p (pj_stage k))}
      else {}) \<and> sorted_wrt (<) (pj_deps (hd (assign_stages sample_jobs)))
   \<and> pj_deps (hd (assign_stages sample_jobs)) = [''katana:t1:katana'']"
proof -
  have "hd (assign_stages sample_jobs) \<in> set (assign_stages sample_jobs)"
    by (rule hd_in_set) code_simp
  moreover have "pj_deps (hd (assign_stages sample_jobs)) = [''katana:t1:katana'']" by code_simp
  ultimately show ?thesis using dependencies_are_nearest_stages by blast
qed

text \<open>C9: the planned jobs are in an order in which they can be run: whatever stands in the job list,
  each dependency of a job is the id of a job before it in the list, of the same target and
  authentication context and of a strictly earlier stage.\<close>

theorem jobs_in_dependency_order:
  assumes "finish_jobs dg cfg js = xs @ j # ys"
  shows "set (pj_deps j) \<subseteq>
     pj_id ` {k \<in> set xs. job_key k = job_key j \<and> stage_rank (pj_stage k) < stage_rank (pj_stage j)}"
proof -
  let ?js = "expand_identity_jobs dg cfg (expand_tls_service_jobs cfg js)"
  have sorted: "sort_slice job_less (assign_stages ?js) = xs @ j # ys"
    using assms by (simp add: finish_jobs_def)
  then have j: "j \<in> set (assign_stages ?js)" by (metis in_set_conv_decomp set_sort_slice)
  show ?thesis
  proof
    fix d assume "d \<in> set (pj_deps j)"
    then obtain k p where k: "k \<in> set (map set_stage ?js)" "d = pj_id k" "job_key k = job_key j"
      and p: "p \<in> set (prerequisites (pj_stage j))"
        "nearest (by_stage (map set_stage ?js) (job_key j)) p (pj_stage k)"
      unfolding assigned_job [OF j] set_job_dependencies by (auto split: if_splits)
    from p have rank: "stage_rank (pj_stage k) < stage_rank (pj_stage j)"
      using nearest_rank [OF p(2)] prerequisites_earlier [OF p(1)] by linarith
    from k(1) have "job_view k \<in> job_view ` set (assign_stages ?js)"
      using job_view_assigned [of ?js] by (metis imageI list.set_map)
    then obtain k' where k': "k' \<in> set (assign_stages ?js)" "pj_id k' = d" "job_key k' = job_key j" "pj_stage k' = pj_stage k"
      using k(2,3) by (auto simp: job_view_def)
    with rank sorted_jobs_before [OF sorted k'(1)] show
      "d \<in> pj_id ` {k \<in> set xs. job_key k = job_key j \<and> stage_rank (pj_stage k) < stage_rank (pj_stage j)}" by auto
  qed
qed

definition sample_plan :: "plan_job list" where
  "sample_plan = finish_jobs \<lparr>dg_catalogs = [], dg_short = (\<lambda>s. s), dg_fuzz_json = (\<lambda>f. ''''), dg_plan = (\<lambda>p. '''')\<rparr>
      empty_config sample_jobs"

theorem jobs_in_dependency_order_witness:
  "set (pj_deps (sample_plan ! 4)) \<subseteq>
     pj_id ` {k \<in> set (take 4 sample_plan). job_key k = job_key (sample_plan ! 4)
       \<and> stage_rank (pj_stage k) < stage_rank (pj_stage (sample_plan ! 4))}
   \<and> map pj_scanner sample_plan = [''httpx'', ''nmap'', ''auth'', ''katana'', ''nuclei'', ''apiwrites'']"
proof -
  have scanners: "map pj_scanner sample_plan = [''httpx'', ''nmap'', ''auth'', ''katana'', ''nuclei'', ''apiwrites'']"
    by code_simp
  have "4 < length sample_plan" using arg_cong [OF scanners, of length] by simp
  then have "sample_plan = take 4 sample_plan @ sample_plan ! 4 # drop (Suc 4) sample_plan"
    by (rule id_take_nth_drop)
  from jobs_in_dependency_order [OF this [unfolded sample_plan_def], folded sample_plan_def] scanners
  show ?thesis by blast
qed

end
