(* ===== verification/ScopeGuard.thy ===== *)
theory ScopeGuard
  imports GoNet
begin

text \<open>
  \<open>internal/scopeguard\<close>: is a target the operator's own machine? \<open>net.LookupHost\<close> is the parameter
  \<open>lookup\<close> (\<open>None\<close>: an error) and \<open>net.InterfaceAddrs\<close> the parameter \<open>ifaces\<close> (\<open>None\<close>: an error; an
  address without an IP is an inner \<open>None\<close>). IP addresses are the eight groups of the 16-byte form,
  on which \<open>IP.Equal\<close> is equality.
\<close>

section \<open>The guard\<close>

record guard_config =
  gc_bind_addr :: string
  gc_port :: int
  gc_loopback_ports :: "int list"
  gc_allow_local :: bool

definition local_targets_allowed :: "guard_config \<Rightarrow> string \<Rightarrow> bool" where
  "local_targets_allowed cfg port \<longleftrightarrow>
     gc_allow_local cfg \<and> (port = '''' \<or> atoi port \<noteq> Some (gc_port cfg))"

definition loopback_port_allowed :: "guard_config \<Rightarrow> string \<Rightarrow> bool" where
  "loopback_port_allowed cfg port \<longleftrightarrow>
     port \<noteq> '''' \<and> gc_loopback_ports cfg \<noteq> []
     \<and> (case atoi port of None \<Rightarrow> False | Some n \<Rightarrow> n \<noteq> gc_port cfg \<and> n \<in> set (gc_loopback_ports cfg))"

definition scheme_default_port :: "string \<Rightarrow> string" where
  "scheme_default_port scheme =
     (if to_lower scheme \<in> set [''http'', ''ws''] then ''80''
      else if to_lower scheme \<in> set [''https'', ''wss''] then ''443'' else '''')"

text \<open>The host and port of a target, in the several forms it may be written.\<close>

definition guard_target :: "string \<Rightarrow> string \<times> string" where
  "guard_target target =
     (let (host, port) =
        (case url_parse target of
           None \<Rightarrow> (target, '''')
         | Some u \<Rightarrow> if u_host u = '''' then (target, '''')
                     else (hostname u, if url_port u = '''' then scheme_default_port (u_scheme u) else url_port u))
      in case split_host_port host of
           None \<Rightarrow> (host, port)
         | Some (h, p) \<Rightarrow> (h, if port = '''' then p else port))"

definition self_listener :: "guard_config \<Rightarrow> string \<Rightarrow> string \<Rightarrow> bool" where
  "self_listener cfg host port \<longleftrightarrow>
     port \<noteq> '''' \<and> atoi port = Some (gc_port cfg)
     \<and> (let bind = to_lower (trim_space (gc_bind_addr cfg));
            own = (if bind = '''' then ''127.0.0.1'' else bind);
            h = to_lower (trim_space host)
        in h = own \<or> h = ''0.0.0.0'' \<or> h = ''::'')"

definition local_name :: "string \<Rightarrow> bool" where
  "local_name host \<longleftrightarrow> to_lower host \<in> set [''localhost'', ''0.0.0.0'', ''[::1]'', ''::1'']"

text \<open>The addresses of a host: a literal is itself; no address when the lookup fails or gives none.\<close>

definition resolve_ips :: "(string \<Rightarrow> string list option) \<Rightarrow> string \<Rightarrow> nat list list" where
  "resolve_ips lookup host =
     (case parse_ip host of
        Some ip \<Rightarrow> [ip]
      | None \<Rightarrow> (case lookup host of None \<Rightarrow> [] | Some addrs \<Rightarrow> List.map_filter parse_ip addrs))"

text \<open>The loop over the addresses: a verdict, or none when every address was passed over.\<close>

fun check_ips :: "bool \<Rightarrow> nat list list \<Rightarrow> bool option" where
  "check_ips allow_loopback [] = None"
| "check_ips allow_loopback (ip # ips) =
     (if ip_is_loopback ip then Some (\<not> allow_loopback)
      else if ip_is_unspecified ip then Some True
      else check_ips allow_loopback ips)"

definition ips_match_interface :: "nat list option list option \<Rightarrow> nat list list \<Rightarrow> bool" where
  "ips_match_interface ifaces ips \<longleftrightarrow>
     (case ifaces of None \<Rightarrow> False | Some addrs \<Rightarrow> list_ex (\<lambda>ip. Some ip \<in> set addrs) ips)"

definition is_local_or_listener ::
  "(string \<Rightarrow> string list option) \<Rightarrow> nat list option list option \<Rightarrow> guard_config \<Rightarrow> string \<Rightarrow> bool" where
  "is_local_or_listener lookup ifaces cfg target =
     (let (host, port) = guard_target target;
          allow_loopback = (loopback_port_allowed cfg port \<or> local_targets_allowed cfg port);
          ips = resolve_ips lookup host
      in if self_listener cfg host port then True
         else if local_name host then \<not> (allow_loopback \<and> to_lower host \<noteq> ''0.0.0.0'')
         else case check_ips allow_loopback ips of
                Some verdict \<Rightarrow> verdict
              | None \<Rightarrow> if ips_match_interface ifaces ips then \<not> local_targets_allowed cfg port else False)"

section \<open>The verdict\<close>

text \<open>An address of the operator's machine.\<close>

definition own_ip :: "nat list option list option \<Rightarrow> nat list \<Rightarrow> bool" where
  "own_ip ifaces ip \<longleftrightarrow> ip_is_loopback ip \<or> ip_is_unspecified ip \<or> ips_match_interface ifaces [ip]"

lemma check_ips_strict:
  "check_ips False ips =
     (if list_ex (\<lambda>ip. ip_is_loopback ip \<or> ip_is_unspecified ip) ips then Some True else None)"
  by (induction ips) auto

lemma own_ips:
  "list_ex (own_ip ifaces) ips \<longleftrightarrow>
     list_ex (\<lambda>ip. ip_is_loopback ip \<or> ip_is_unspecified ip) ips \<or> ips_match_interface ifaces ips"
  by (induction ips) (auto simp: own_ip_def ips_match_interface_def split: option.splits)

lemma is_local_or_listener_strict:
  assumes "\<not> loopback_port_allowed cfg (snd (guard_target target))"
    and "\<not> local_targets_allowed cfg (snd (guard_target target))"
  shows "is_local_or_listener lookup ifaces cfg target \<longleftrightarrow>
     self_listener cfg (fst (guard_target target)) (snd (guard_target target))
     \<or> local_name (fst (guard_target target))
     \<or> list_ex (own_ip ifaces) (resolve_ips lookup (fst (guard_target target)))"
  using assms
  by (cases "guard_target target")
    (auto simp: is_local_or_listener_def Let_def check_ips_strict own_ips split: if_splits)

text \<open>C19: without an opt-in the guard refuses exactly the operator's own machine: the listener named
  by its bind address and port, the local host names, and any host one of whose addresses is a
  loopback address, unspecified, or an address of a local interface. Private, link-local and cloud
  metadata addresses of other machines pass.\<close>

theorem strict_guard_refuses_own_machine:
  assumes "gc_loopback_ports cfg = []" and "\<not> gc_allow_local cfg"
  shows "is_local_or_listener lookup ifaces cfg target \<longleftrightarrow>
     self_listener cfg (fst (guard_target target)) (snd (guard_target target))
     \<or> local_name (fst (guard_target target))
     \<or> list_ex (own_ip ifaces) (resolve_ips lookup (fst (guard_target target)))"
  using assms
  by (intro is_local_or_listener_strict) (auto simp: loopback_port_allowed_def local_targets_allowed_def)

definition strict_config :: guard_config where
  "strict_config = \<lparr>gc_bind_addr = '''', gc_port = 9137, gc_loopback_ports = [], gc_allow_local = False\<rparr>"

theorem strict_guard_refuses_own_machine_witness:
  "(is_local_or_listener (\<lambda>h. Some [''10.0.0.5'']) (Some [Some [0, 0, 0, 0, 0, 65535, 2560, 5]]) strict_config ''https://app.test/x''
      \<longleftrightarrow> list_ex (own_ip (Some [Some [0, 0, 0, 0, 0, 65535, 2560, 5]])) [[0, 0, 0, 0, 0, 65535, 2560, 5]])
   \<and> \<not> is_local_or_listener (\<lambda>h. None) (Some []) strict_config ''http://169.254.169.254/latest''"
proof -
  have "guard_target ''https://app.test/x'' = (''app.test'', ''443'')"
    "guard_target ''http://169.254.169.254/latest'' = (''169.254.169.254'', ''80'')" by code_simp+
  moreover have "\<not> self_listener strict_config ''app.test'' ''443''" "\<not> local_name ''app.test''"
    "resolve_ips (\<lambda>h. Some [''10.0.0.5'']) ''app.test'' = [[0, 0, 0, 0, 0, 65535, 2560, 5]]"
    "\<not> is_local_or_listener (\<lambda>h. None) (Some []) strict_config ''http://169.254.169.254/latest''" by code_simp+
  moreover have "gc_loopback_ports strict_config = []" "\<not> gc_allow_local strict_config"
    by (simp_all add: strict_config_def)
  ultimately show ?thesis using strict_guard_refuses_own_machine [of strict_config] by simp
qed

text \<open>the dashboard's own port is never opted in: for a target whose port is, as a number, the
  listener's port, the loopback allowlist and the local-scan switch change nothing and the guard
  refuses the listener, every local name and every host with an address of the operator's machine.\<close>

theorem own_port_never_opted_in:
  assumes "atoi (snd (guard_target target)) = Some (gc_port cfg)"
  shows "is_local_or_listener lookup ifaces cfg target \<longleftrightarrow>
     self_listener cfg (fst (guard_target target)) (snd (guard_target target))
     \<or> local_name (fst (guard_target target))
     \<or> list_ex (own_ip ifaces) (resolve_ips lookup (fst (guard_target target)))"
proof -
  have "snd (guard_target target) \<noteq> ''''" using assms by (auto simp: atoi_def)
  with assms show ?thesis
    by (intro is_local_or_listener_strict) (auto simp: loopback_port_allowed_def local_targets_allowed_def)
qed

definition local_config :: guard_config where
  "local_config = \<lparr>gc_bind_addr = ''10.1.1.1'', gc_port = 80, gc_loopback_ports = [80, 3000], gc_allow_local = True\<rparr>"

theorem own_port_never_opted_in_witness:
  "is_local_or_listener (\<lambda>h. Some [''127.0.0.1'']) (Some []) local_config ''http://app.test/''
   \<and> \<not> is_local_or_listener (\<lambda>h. Some [''127.0.0.1'']) (Some []) local_config ''http://app.test:3000/''"
proof -
  have "guard_target ''http://app.test/'' = (''app.test'', ''80'')" by code_simp
  moreover have "atoi ''80'' = Some (gc_port local_config)" by code_simp
  moreover have "list_ex (own_ip (Some [])) (resolve_ips (\<lambda>h. Some [''127.0.0.1'']) ''app.test'')" by code_simp
  moreover have "\<not> is_local_or_listener (\<lambda>h. Some [''127.0.0.1'']) (Some []) local_config ''http://app.test:3000/''"
    by code_simp
  ultimately show ?thesis using own_port_never_opted_in [of "''http://app.test/''" local_config] by simp
qed

text \<open>Two holes of the opt-ins. The addresses are checked in order and an opted-in loopback
  address ends the check, so a name that also resolves to the unspecified address passes or is
  refused depending on the order; and the dashboard's port is only recognised as a number, so with
  the local-scan switch the listener's port under its service name is let through.\<close>

theorem opt_in_holes:
  "\<not> is_local_or_listener (\<lambda>h. Some [''127.0.0.1'', ''0.0.0.0'']) (Some []) local_config ''http://app.test:3000/''
   \<and> is_local_or_listener (\<lambda>h. Some [''0.0.0.0'', ''127.0.0.1'']) (Some []) local_config ''http://app.test:3000/''
   \<and> is_local_or_listener (\<lambda>h. None) (Some []) local_config ''127.0.0.1:80''
   \<and> \<not> is_local_or_listener (\<lambda>h. None) (Some []) local_config ''127.0.0.1:http''"
  by code_simp

end
