(* ===== verification/Budget.thy ===== *)
theory Budget
  imports GoNet
begin

text \<open>
  \<open>internal/scanner/budget.go\<close> over \<open>internal/ratelimit\<close>: the one rate, endpoint and time budget of an
  assessment. Times are nanoseconds; the clock is an argument. The token bucket itself is the
  third-party package \<open>golang.org/x/time/rate\<close>: \<open>bucket\<close> is what its \<open>Wait\<close> returns under a deadline
  (\<open>None\<close>: a token was granted). A nil budget is \<open>None\<close>.
\<close>

section \<open>The limiter\<close>

text \<open>The buckets of a limiter are made on demand, one for each host; only their keys matter here.\<close>

record limiter =
  li_hosts :: "string list"
  li_rps :: int
  li_burst :: int

definition new_limiter :: "int \<Rightarrow> int \<Rightarrow> limiter" where
  "new_limiter rps burst = \<lparr>li_hosts = [], li_rps = rps, li_burst = (if burst < 1 then 1 else burst)\<rparr>"

definition limiter_domain :: "string \<Rightarrow> string" where
  "limiter_domain raw =
     (case url_parse raw of None \<Rightarrow> raw | Some u \<Rightarrow> if u_host u = '''' then raw else hostname u)"

definition limiter_for :: "string \<Rightarrow> limiter \<Rightarrow> limiter" where
  "limiter_for host l = (if host \<in> set (li_hosts l) then l else l\<lparr>li_hosts := li_hosts l @ [host]\<rparr>)"

text \<open>\<open>WaitCtx\<close>: \<open>ctx_err\<close> is \<open>ctx.Err()\<close>, \<open>bucket\<close> the answer of the bucket of the target's host.\<close>

definition wait_ctx :: "limiter \<Rightarrow> string option \<Rightarrow> (string \<Rightarrow> string option) \<Rightarrow> string \<Rightarrow> limiter \<times> string option" where
  "wait_ctx l ctx_err bucket target =
     (if li_rps l \<le> 0 then (l, ctx_err)
      else (let host = limiter_domain target in (limiter_for host l, bucket host)))"

section \<open>The budget\<close>

record budget =
  bu_limiter :: limiter
  bu_max_endpoints :: int
  bu_deadline :: "int option"
  bu_endpoints :: "string list"
  bu_refused :: bool

definition NoBudgetDeadline :: int where "NoBudgetDeadline = 9223372036854775807"

definition budget_limiter_key :: string where "budget_limiter_key = ''assessment''"

definition new_budget :: "int \<Rightarrow> int \<Rightarrow> int \<Rightarrow> int \<Rightarrow> budget" where
  "new_budget now rps max_endpoints duration =
     \<lparr>bu_limiter = new_limiter rps 1, bu_max_endpoints = max_endpoints,
      bu_deadline = (if duration > 0 then Some (now + duration) else None),
      bu_endpoints = [], bu_refused = False\<rparr>"

datatype wait_error = CtxError string | BudgetExhausted string | LimiterError string

text \<open>
  \<open>Wait\<close>: \<open>ctx_err\<close> and \<open>after\<close> are the caller's \<open>ctx.Err()\<close> at the start and after the limiter
  returned; \<open>bucket d host\<close> is the bucket's answer under the deadline \<open>d\<close> (and the caller's context).
\<close>

definition budget_wait ::
  "budget option \<Rightarrow> int \<Rightarrow> string option \<Rightarrow> (int option \<Rightarrow> string \<Rightarrow> string option) \<Rightarrow> string option
   \<Rightarrow> budget option \<times> wait_error option" where
  "budget_wait bo now ctx_err bucket after =
     (case bo of None \<Rightarrow> (None, map_option CtxError ctx_err)
      | Some b \<Rightarrow>
          if ctx_err \<noteq> None then (Some b, map_option CtxError ctx_err)
          else if (case bu_deadline b of Some d \<Rightarrow> d \<le> now | None \<Rightarrow> False) then (Some b, Some (BudgetExhausted ''''))
          else
            let (l, err) = wait_ctx (bu_limiter b) ctx_err (bucket (bu_deadline b)) budget_limiter_key;
                b' = Some (b\<lparr>bu_limiter := l\<rparr>)
            in case err of None \<Rightarrow> (b', None)
               | Some e \<Rightarrow>
                   (case after of Some c \<Rightarrow> (b', Some (CtxError c))
                    | None \<Rightarrow> if bu_deadline b \<noteq> None then (b', Some (BudgetExhausted e))
                              else (b', Some (LimiterError e))))"

fun reserve_loop :: "string list \<Rightarrow> string list \<Rightarrow> budget option \<Rightarrow> budget option \<times> string list" where
  "reserve_loop seen [] bo = (bo, [])"
| "reserve_loop seen (raw # raws) bo =
     (let i = trim_space raw
      in if i = '''' \<or> i \<in> set seen then reserve_loop seen raws bo
         else case bo of
           None \<Rightarrow> (let (b', out) = reserve_loop (i # seen) raws None in (b', i # out))
         | Some b \<Rightarrow>
             if i \<in> set (bu_endpoints b) then
               (let (b', out) = reserve_loop (i # seen) raws (Some b) in (b', i # out))
             else if bu_max_endpoints b > 0 \<and> int (length (bu_endpoints b)) \<ge> bu_max_endpoints b then
               reserve_loop (i # seen) raws (Some (b\<lparr>bu_refused := True\<rparr>))
             else
               (let (b', out) = reserve_loop (i # seen) raws (Some (b\<lparr>bu_endpoints := i # bu_endpoints b\<rparr>))
                in (b', i # out)))"

definition reserve_endpoints :: "budget option \<Rightarrow> string list \<Rightarrow> budget option \<times> string list" where
  "reserve_endpoints bo raws = reserve_loop [] raws bo"

definition budget_deadline :: "budget option \<Rightarrow> int option" where
  "budget_deadline bo = (case bo of None \<Rightarrow> None | Some b \<Rightarrow> bu_deadline b)"

definition budget_remaining :: "budget option \<Rightarrow> int \<Rightarrow> int" where
  "budget_remaining bo now =
     (case budget_deadline bo of None \<Rightarrow> NoBudgetDeadline | Some d \<Rightarrow> max (d - now) 0)"

definition GapBudgetExhausted :: string where "GapBudgetExhausted = ''budget_exhausted''"

definition budget_exhausted :: "budget option \<Rightarrow> int \<Rightarrow> bool \<times> string" where
  "budget_exhausted bo now =
     (case bo of None \<Rightarrow> (False, '''')
      | Some b \<Rightarrow>
          if (case bu_deadline b of Some d \<Rightarrow> d \<le> now | None \<Rightarrow> False) \<or> bu_refused b
          then (True, GapBudgetExhausted) else (False, ''''))"

section \<open>Reservations\<close>

definition wf_budget :: "budget \<Rightarrow> bool" where
  "wf_budget b \<longleftrightarrow> distinct (bu_endpoints b)
     \<and> (bu_max_endpoints b > 0 \<longrightarrow> int (length (bu_endpoints b)) \<le> bu_max_endpoints b)"

lemma wf_new_budget [wf_intros]: "wf_budget (new_budget now rps m d)"
  by (simp add: wf_budget_def new_budget_def)

text \<open>What one call leaves behind: \<open>b\<close> before, \<open>bo\<close> after, \<open>out\<close> the granted ids.\<close>

definition reserved :: "string list \<Rightarrow> budget \<Rightarrow> budget option \<Rightarrow> string list \<Rightarrow> bool" where
  "reserved seen b bo out \<longleftrightarrow>
     (\<exists>b'. bo = Some b' \<and> wf_budget b' \<and> bu_max_endpoints b' = bu_max_endpoints b \<and> bu_deadline b' = bu_deadline b
        \<and> set (bu_endpoints b') = set (bu_endpoints b) \<union> set out \<and> distinct out \<and> set out \<inter> set seen = {})"

lemma reserved_Cons:
  "reserved (i # seen) b bo out \<Longrightarrow> i \<in> set (bu_endpoints b) \<Longrightarrow> i \<notin> set seen \<Longrightarrow> reserved seen b bo (i # out)"
  by (auto simp: reserved_def)

lemma reserve_loop_reserved:
  "wf_budget b \<Longrightarrow> reserved seen b (fst (reserve_loop seen raws (Some b))) (snd (reserve_loop seen raws (Some b)))"
proof (induction raws arbitrary: seen b)
  case (Cons raw raws)
  let ?i = "trim_space raw"
  consider (skip) "?i = '''' \<or> ?i \<in> set seen"
    | (known) "\<not> (?i = '''' \<or> ?i \<in> set seen)" "?i \<in> set (bu_endpoints b)"
    | (full) "\<not> (?i = '''' \<or> ?i \<in> set seen)" "?i \<notin> set (bu_endpoints b)"
        "bu_max_endpoints b > 0 \<and> int (length (bu_endpoints b)) \<ge> bu_max_endpoints b"
    | (new) "\<not> (?i = '''' \<or> ?i \<in> set seen)" "?i \<notin> set (bu_endpoints b)"
        "\<not> (bu_max_endpoints b > 0 \<and> int (length (bu_endpoints b)) \<ge> bu_max_endpoints b)"
    by blast
  then show ?case
  proof cases
    case skip
    with Cons.IH [OF Cons.prems, of seen] show ?thesis by (simp add: Let_def)
  next
    case known
    with Cons.IH [OF Cons.prems, of "?i # seen"] show ?thesis
      by (auto simp: Let_def split_beta intro: reserved_Cons)
  next
    case full
    from Cons.prems have "wf_budget (b\<lparr>bu_refused := True\<rparr>)" by (simp add: wf_budget_def)
    from Cons.IH [OF this, of "?i # seen"] full show ?thesis
      by (auto simp: Let_def reserved_def)
  next
    case new
    from Cons.prems new have "wf_budget (b\<lparr>bu_endpoints := ?i # bu_endpoints b\<rparr>)" by (auto simp: wf_budget_def)
    from Cons.IH [OF this, of "?i # seen"] new show ?thesis
      by (auto simp: Let_def split_beta reserved_def)
  qed
qed (simp add: reserved_def)

lemma reserve_again: "distinct out \<Longrightarrow> \<forall>i \<in> set out. trimmed i \<and> i \<noteq> [] \<and> i \<in> set (bu_endpoints b) \<Longrightarrow>
    set out \<inter> set seen = {} \<Longrightarrow> reserve_loop seen out (Some b) = (Some b, out)"
  by (induction out arbitrary: seen) (auto simp: Let_def trim_space_trimmed)

lemma reserve_loop_out:
  "i \<in> set (snd (reserve_loop seen raws bo)) \<Longrightarrow>
     trimmed i \<and> i \<noteq> [] \<and> i \<notin> set seen \<and> i \<in> trim_space ` set raws"
proof (induction raws arbitrary: seen bo)
  case (Cons raw raws)
  let ?i = "trim_space raw"
  from Cons.prems consider (old) seen' bo' where "set seen \<subseteq> set seen'" "i \<in> set (snd (reserve_loop seen' raws bo'))"
    | (new) "i = ?i" "?i \<noteq> []" "?i \<notin> set seen"
    by (auto simp: Let_def split_beta split: if_splits option.splits) (metis set_subset_Cons subset_refl)+
  then show ?case
  proof cases
    case old
    with Cons.IH [OF old(2)] show ?thesis by auto
  qed auto
qed simp

lemma reserve_loop_refused:
  "fst (reserve_loop seen raws (Some b)) = Some b' \<Longrightarrow>
     bu_refused b' \<longleftrightarrow> bu_refused b \<or> (\<exists>i \<in> trim_space ` set raws. i \<noteq> [] \<and> i \<notin> set seen
        \<and> i \<notin> set (snd (reserve_loop seen raws (Some b))))"
proof (induction raws arbitrary: seen b)
  case (Cons raw raws)
  show ?case
    using Cons.prems Cons.IH [of seen b] Cons.IH [of "trim_space raw # seen" b]
      Cons.IH [of "trim_space raw # seen" "b\<lparr>bu_refused := True\<rparr>"]
      Cons.IH [of "trim_space raw # seen" "b\<lparr>bu_endpoints := trim_space raw # bu_endpoints b\<rparr>"]
      reserve_loop_out [of "trim_space raw" "trim_space raw # seen" raws "Some (b\<lparr>bu_refused := True\<rparr>)"]
    by (auto simp: Let_def split_beta split: if_splits)
qed simp

section \<open>A run of reservations\<close>

text \<open>The calls of all scanners and targets, in the order the mutex lets them in.\<close>

fun reserve_all :: "budget option \<Rightarrow> string list list \<Rightarrow> budget option \<times> string list list" where
  "reserve_all bo [] = (bo, [])"
| "reserve_all bo (raws # calls) =
     (let (bo', out) = reserve_endpoints bo raws; (bo'', outs) = reserve_all bo' calls in (bo'', out # outs))"

lemma reserve_all_bounded:
  "wf_budget b \<Longrightarrow>
     \<exists>b'. fst (reserve_all (Some b) calls) = Some b' \<and> wf_budget b' \<and> bu_max_endpoints b' = bu_max_endpoints b
       \<and> set (bu_endpoints b') = set (bu_endpoints b) \<union> set (concat (snd (reserve_all (Some b) calls)))"
proof (induction calls arbitrary: b)
  case (Cons raws calls)
  from reserve_loop_reserved [OF Cons.prems, of "[]" raws] obtain b1 where b1:
    "fst (reserve_loop [] raws (Some b)) = Some b1" "wf_budget b1"
    "bu_max_endpoints b1 = bu_max_endpoints b"
    "set (bu_endpoints b1) = set (bu_endpoints b) \<union> set (snd (reserve_loop [] raws (Some b)))"
    by (auto simp: reserved_def)
  from Cons.IH [OF b1(2)] b1 show ?case
    by (auto simp: reserve_endpoints_def split_beta)
qed simp

text \<open>C20: whatever scanners and targets ask for, in whatever order, an assessment with an endpoint cap
  is never granted more than that many different endpoints over all calls together.\<close>

theorem endpoint_cap_holds:
  assumes "0 < m"
  shows "int (card (set (concat (snd (reserve_all (Some (new_budget now rps m d)) calls))))) \<le> m"
proof -
  from reserve_all_bounded [OF wf_new_budget, of now rps m d calls] obtain b where b: "wf_budget b"
    "bu_max_endpoints b = m" "set (bu_endpoints b) = set (concat (snd (reserve_all (Some (new_budget now rps m d)) calls)))"
    by (auto simp: new_budget_def)
  then have "int (length (bu_endpoints b)) \<le> m" using assms by (simp add: wf_budget_def)
  with b(3) show ?thesis using card_length [of "bu_endpoints b"] by simp
qed

theorem endpoint_cap_holds_witness:
  "int (card (set (concat (snd (reserve_all (Some (new_budget 0 5 2 60)) [[''a'', '' b''], [''c'', ''a'', '''']]))))) \<le> 2
   \<and> snd (reserve_all (Some (new_budget 0 5 2 60)) [[''a'', '' b''], [''c'', ''a'', '''']]) = [[''a'', ''b''], [''a'']]"
proof
  show "snd (reserve_all (Some (new_budget 0 5 2 60)) [[''a'', '' b''], [''c'', ''a'', '''']]) = [[''a'', ''b''], [''a'']]"
    by code_simp
qed (rule endpoint_cap_holds, simp)

text \<open>What one reservation does to a budget in a state it can reach: the granted ids are distinct,
  trimmed, not blank and taken from the request; granting the same ids again costs nothing and
  changes nothing; and the budget is marked exhausted exactly when it was before or some non-blank
  requested id was not granted.\<close>

theorem reservation_behaviour:
  assumes "wf_budget b"
  shows "\<exists>b' out. reserve_endpoints (Some b) raws = (Some b', out) \<and> wf_budget b' \<and> distinct out
    \<and> set out \<subseteq> trim_space ` set raws - {''''}
    \<and> set (bu_endpoints b') = set (bu_endpoints b) \<union> set out
    \<and> reserve_endpoints (Some b') out = (Some b', out)
    \<and> (bu_refused b' \<longleftrightarrow> (if trim_space ` set raws \<subseteq> insert '''' (set out) then bu_refused b else True))"
proof -
  let ?r = "reserve_loop [] raws (Some b)"
  from reserve_loop_reserved [OF assms, of "[]" raws] obtain b' where b': "fst ?r = Some b'" "wf_budget b'"
    "set (bu_endpoints b') = set (bu_endpoints b) \<union> set (snd ?r)" "distinct (snd ?r)"
    by (auto simp: reserved_def)
  have out: "i \<in> set (snd ?r) \<Longrightarrow> trimmed i \<and> i \<noteq> [] \<and> i \<in> trim_space ` set raws" for i
    using reserve_loop_out [of i "[]" raws "Some b"] by simp
  then have "reserve_loop [] (snd ?r) (Some b') = (Some b', snd ?r)"
    using b' by (intro reserve_again) auto
  moreover have "bu_refused b' \<longleftrightarrow> bu_refused b \<or> \<not> trim_space ` set raws \<subseteq> insert '''' (set (snd ?r))"
    using reserve_loop_refused [OF b'(1)] by auto
  moreover have "?r = (Some b', snd ?r)" using b'(1) by (intro prod_eqI) simp_all
  ultimately show ?thesis
    using b' out by (intro exI [of _ b'] exI [of _ "snd ?r"]) (auto simp: reserve_endpoints_def)
qed

theorem reservation_behaviour_witness:
  "\<exists>b' out. reserve_endpoints (Some (new_budget 0 5 1 60)) ['' a'', ''b'', ''a''] = (Some b', out) \<and> wf_budget b' \<and> distinct out
    \<and> set out \<subseteq> trim_space ` set ['' a'', ''b'', ''a''] - {''''}
    \<and> set (bu_endpoints b') = set (bu_endpoints (new_budget 0 5 1 60)) \<union> set out
    \<and> reserve_endpoints (Some b') out = (Some b', out)
    \<and> (bu_refused b' \<longleftrightarrow> (if trim_space ` set ['' a'', ''b'', ''a''] \<subseteq> insert '''' (set out)
          then bu_refused (new_budget 0 5 1 60) else True))"
  by (rule reservation_behaviour) (rule wf_new_budget)

end
