(* ===== verification/GoHttp.thy ===== *)
theory GoHttp
  imports GoStd
begin

text \<open>
  The parts of \<open>net/url\<close>, \<open>mime\<close>, \<open>net/http\<close> and \<open>io\<close> that the request paths use: query strings
  (\<open>QueryUnescape\<close>, \<open>QueryEscape\<close>, \<open>ParseQuery\<close>), the media type of a \<open>Content-Type\<close>, header maps
  with canonical keys, and bounded reads.
\<close>

section \<open>Query strings\<close>

fun query_unescape :: "string \<Rightarrow> string option" where
  "query_unescape [] = Some []"
| "query_unescape (c # r) =
     (if c = CHR ''%'' then
        (case r of
           a # b # r' \<Rightarrow>
             if is_hex a \<and> is_hex b
             then map_option (\<lambda>t. char_of (16 * hex_val a + hex_val b) # t) (query_unescape r') else None
         | _ \<Rightarrow> None)
      else if c = CHR ''+'' then map_option (\<lambda>t. CHR '' '' # t) (query_unescape r)
      else map_option (\<lambda>t. c # t) (query_unescape r))"

definition upper_hex :: "nat \<Rightarrow> char" where
  "upper_hex n = (if n < 10 then char_of (48 + n) else char_of (55 + n))"

definition query_escape :: "string \<Rightarrow> string" where
  "query_escape s =
     concat (map (\<lambda>c. if unreserved c then [c] else if c = CHR '' '' then ''+''
                      else [CHR ''%'', upper_hex (code c div 16), upper_hex (code c mod 16)]) s)"

text \<open>\<open>ParseQuery\<close>: the pairs in the order they are appended, and whether every pair was good. Go
  refuses more than 10000 pairs at once.\<close>

definition parse_pair :: "string \<Rightarrow> (string \<times> string) option" where
  "parse_pair part =
     (let (k, v, _) = cut_at (CHR ''='') part
      in if CHR '';'' \<in> set part then None
         else case query_unescape k of
                None \<Rightarrow> None
              | Some key \<Rightarrow> map_option (\<lambda>val. (key, val)) (query_unescape v))"

definition parse_query :: "string \<Rightarrow> (string \<times> string) list \<times> bool" where
  "parse_query q =
     (let parts = filter (\<lambda>p. p \<noteq> '''') (split_on (CHR ''&'') q)
      in if int (length (split_on (CHR ''&'') q)) > 10000 then ([], False)
         else (List.map_filter parse_pair parts, list_all (\<lambda>p. parse_pair p \<noteq> None) parts))"

text \<open>\<open>Values\<close> as the map it is: the values of a key, in order.\<close>

definition values_of :: "(string \<times> string) list \<Rightarrow> string \<Rightarrow> string list" where
  "values_of vs k = map snd (filter (\<lambda>(k', v). k' = k) vs)"

definition values_get :: "(string \<times> string) list \<Rightarrow> string \<Rightarrow> string" where
  "values_get vs k = (case values_of vs k of [] \<Rightarrow> '''' | v # _ \<Rightarrow> v)"

definition values_keys :: "(string \<times> string) list \<Rightarrow> string list" where
  "values_keys vs = remdups (map fst vs)"

section \<open>Media types\<close>

text \<open>\<open>mime.ParseMediaType\<close>: the media type, or none on an error.\<close>

definition media_type :: "string \<Rightarrow> string option" where
  "media_type v =
     (if media_type_ok v then Some (trim_space (to_lower (takeWhile (\<lambda>c. c \<noteq> CHR '';'') v))) else None)"

section \<open>Headers\<close>

definition header_byte :: "char \<Rightarrow> bool" where
  "header_byte c \<longleftrightarrow> is_token_char c \<and> c \<noteq> CHR ''{'' \<and> c \<noteq> CHR ''}''"

fun canonical_from :: "bool \<Rightarrow> string \<Rightarrow> string" where
  "canonical_from up [] = []"
| "canonical_from up (c # r) =
     (let d = (if up then upper_char c else lower_char c) in d # canonical_from (d = CHR ''-'') r)"

definition canonical_key :: "string \<Rightarrow> string" where
  "canonical_key s = (if list_all header_byte s then canonical_from True s else s)"

text \<open>An \<open>http.Header\<close>: the values of each canonical key, one entry for a key.\<close>

type_synonym header = "(string \<times> string list) list"

definition header_get :: "header \<Rightarrow> string \<Rightarrow> string" where
  "header_get h k = (case map_of h (canonical_key k) of Some (v # _) \<Rightarrow> v | _ \<Rightarrow> '''')"

definition header_del :: "string \<Rightarrow> header \<Rightarrow> header" where
  "header_del k h = filter (\<lambda>(k', vs). k' \<noteq> canonical_key k) h"

definition header_set :: "string \<Rightarrow> string \<Rightarrow> header \<Rightarrow> header" where
  "header_set k v h = put (canonical_key k) [v] h"

lemma map_of_header_del [simp]: "map_of (header_del k h) = (map_of h)(canonical_key k := None)"
  by (rule ext) (induction h, auto simp: header_del_def)

lemma map_of_header_set [simp]: "map_of (header_set k v h) = (map_of h)(canonical_key k \<mapsto> [v])"
  by (simp add: header_set_def map_of_put)

lemma header_get_del [simp]: "header_get (header_del k h) k = ''''"
  by (simp add: header_get_def)

lemma header_get_set [simp]: "header_get (header_set k v h) k = v"
  by (simp add: header_get_def)

section \<open>Bounded reads\<close>

text \<open>\<open>ReadAll(LimitReader(r, n))\<close> of a body that holds \<open>s\<close>.\<close>

definition read_limited :: "int \<Rightarrow> string \<Rightarrow> string" where
  "read_limited n s = (if int (length s) \<le> n then s else take (nat n) s)"

lemma length_read_limited: "0 \<le> n \<Longrightarrow> int (length (read_limited n s)) \<le> n"
  by (auto simp: read_limited_def)

text \<open>A 64-bit \<open>int\<close>: the wrapped value.\<close>

definition wrap64 :: "int \<Rightarrow> int" where
  "wrap64 i = (i + 2 ^ 63) mod 2 ^ 64 - 2 ^ 63"

lemma wrap64_id: "- (2 ^ 63) \<le> i \<Longrightarrow> i < 2 ^ 63 \<Longrightarrow> wrap64 i = i"
  by (simp add: wrap64_def)

end
