(* ===== verification/Redact.thy ===== *)
theory Redact
  imports GoHttp
begin

text \<open>
  \<open>RedactURL\<close> of \<open>internal/scanner/source.go\<close>, with the part of \<open>URL.String\<close> it reaches: a URL without
  user information, query and fragment. \<open>RawPath\<close> and \<open>OmitHost\<close> are read off the
  written URL.
\<close>

section \<open>URL.String\<close>

definition path_must_escape :: "char \<Rightarrow> bool" where
  "path_must_escape c \<longleftrightarrow> \<not> (unreserved c \<or> c \<in> set ''$&+,/:;=@'')"

definition escape_with :: "(char \<Rightarrow> bool) \<Rightarrow> string \<Rightarrow> string" where
  "escape_with must s =
     concat (map (\<lambda>c. if must c then [CHR ''%'', upper_hex (code c div 16), upper_hex (code c mod 16)] else [c]) s)"

definition valid_encoded_path :: "string \<Rightarrow> bool" where
  "valid_encoded_path p \<longleftrightarrow>
     list_all (\<lambda>c. c \<in> set ''!$&()*+,;=:@[]%'' \<or> code c = 39 \<or> \<not> path_must_escape c) p"

text \<open>\<open>EscapedPath\<close> of the path that was written as \<open>p\<close>.\<close>

definition escaped_path :: "string \<Rightarrow> string \<Rightarrow> string" where
  "escaped_path path p =
     (if p \<noteq> escape_with path_must_escape path \<and> valid_encoded_path p then p
      else if path = ''*'' then ''*'' else escape_with path_must_escape path)"

text \<open>The written URL after its scheme, without query and fragment, and the path in it.\<close>

definition written_rest :: "string \<Rightarrow> string" where
  "written_rest raw =
     (case get_scheme (fst (cut_at (CHR ''#'') raw)) of
        None \<Rightarrow> [] | Some (sch, after) \<Rightarrow> fst (cut_at (CHR ''?'') after))"

definition written_path :: "string \<Rightarrow> string \<Rightarrow> string" where
  "written_path sch rest =
     (if (sch \<noteq> '''' \<or> \<not> has_prefix rest ''///'') \<and> has_prefix rest ''//''
      then dropWhile (\<lambda>c. c \<noteq> CHR ''/'') (drop 2 rest) else rest)"

definition bare_url_string :: "string \<Rightarrow> url \<Rightarrow> string" where
  "bare_url_string raw u =
     (let sch = (if u_scheme u = '''' then '''' else u_scheme u @ '':'')
      in if u_opaque u \<noteq> '''' then sch @ u_opaque u
         else
           let rest = written_rest raw;
               omit_host = (u_scheme u \<noteq> '''' \<and> has_prefix rest ''/'' \<and> \<not> has_prefix rest ''//'');
               path = escaped_path (u_path u) (written_path (u_scheme u) rest);
               auth = (if u_host u = '''' \<and> (u_scheme u = '''' \<or> omit_host) then ''''
                       else (if u_host u \<noteq> '''' \<or> u_path u \<noteq> '''' then ''//'' else '''')
                            @ escape_with host_must_escape (u_host u));
               head = sch @ auth @ (if path \<noteq> '''' \<and> \<not> has_prefix path ''/'' \<and> u_host u \<noteq> '''' then ''/'' else '''')
           in head @ (if head = '''' \<and> CHR '':'' \<in> set (fst (cut_at (CHR ''/'') path)) then ''./'' else '''') @ path)"

section \<open>RedactURL\<close>

definition redacted_url :: string where "redacted_url = ''<redacted URL>''"

fun has_url_scheme_from :: "nat \<Rightarrow> string \<Rightarrow> bool" where
  "has_url_scheme_from i [] = False"
| "has_url_scheme_from i (c # r) =
     (if is_upper c \<or> is_lower c then has_url_scheme_from (i + 1) r
      else if is_digit c \<or> c \<in> set ''+-.'' then (if i = 0 then False else has_url_scheme_from (i + 1) r)
      else if c = CHR '':'' then i > 0 else False)"

definition has_url_scheme :: "string \<Rightarrow> bool" where
  "has_url_scheme raw = has_url_scheme_from 0 raw"

definition redact_url :: "string \<Rightarrow> string" where
  "redact_url raw =
     (if \<not> has_url_scheme raw then raw
      else case url_parse raw of
        None \<Rightarrow> redacted_url
      | Some u \<Rightarrow>
          if u_opaque u \<noteq> '''' \<and> CHR ''@'' \<in> set (u_opaque u) then redacted_url
          else if \<not> u_user u \<and> u_raw_query u = '''' \<and> u_fragment u = '''' then raw
          else bare_url_string raw u)"

definition redact_clone_provenance :: "string \<Rightarrow> string" where
  "redact_clone_provenance prov =
     (if has_prefix prov ''clone:'' then ''clone:'' @ redact_url (trim_prefix prov ''clone:'') else prov)"

end
