(* ===== verification/WriteJournal.thy ===== *)
theory WriteJournal
  imports Redact
begin

text \<open>
  The write-ahead journal of state-changing requests (\<open>internal/scanner/write_journal.go\<close>): the
  operations of one process as functions of the file and the process's copy, with the file-system
  calls that can fail as an argument, and a step relation of several processes that share the file,
  crash, and may find it damaged.
\<close>

section \<open>Entries and the file\<close>

datatype write_state = WriteIntent | WriteSent | WriteCleanupDone | WriteCleanupFailed | WriteOther string

record journal_entry =
  je_operation :: string
  je_job :: string
  je_method :: string
  je_url :: string
  je_fixture_ref :: string
  je_cleanup_method :: string
  je_cleanup_url :: string
  je_cleanup_ref :: string
  je_state :: write_state
  je_intent_at :: string
  je_sent_at :: string
  je_cleanup_at :: string

definition WriteJournalSchemaVersion :: int where "WriteJournalSchemaVersion = 1"

definition entry_unresolved :: "journal_entry \<Rightarrow> bool" where
  "entry_unresolved e \<longleftrightarrow>
     (case je_state e of
        WriteSent \<Rightarrow> je_cleanup_method e \<noteq> '''' \<or> je_cleanup_url e \<noteq> '''' \<or> je_cleanup_ref e \<noteq> ''''
      | WriteCleanupDone \<Rightarrow> False | WriteCleanupFailed \<Rightarrow> False
      | _ \<Rightarrow> True)"

text \<open>The file as a reader finds it: absent, not readable or not JSON, or a schema version and entries.\<close>

datatype journal_file = NoFile | BadFile | JournalFile int "journal_entry list"

datatype journal_error =
  ErrCorrupt | ErrAlreadyJournaled string | ErrNoOperation | ErrUnknown string | ErrState string | ErrIO

definition load_journal :: "journal_file \<Rightarrow> journal_error + journal_entry list" where
  "load_journal f =
     (case f of NoFile \<Rightarrow> Inr [] | BadFile \<Rightarrow> Inl ErrCorrupt
      | JournalFile v es \<Rightarrow> if v \<noteq> WriteJournalSchemaVersion then Inl ErrCorrupt else Inr es)"

definition unreadable_placeholder :: journal_entry where
  "unreadable_placeholder =
     \<lparr>je_operation = ''unreadable-write-journal'', je_job = '''', je_method = '''', je_url = '''', je_fixture_ref = '''',
      je_cleanup_method = '''', je_cleanup_url = '''', je_cleanup_ref = '''', je_state = WriteIntent,
      je_intent_at = '''', je_sent_at = '''', je_cleanup_at = ''''\<rparr>"

definition unresolved_writes :: "journal_file \<Rightarrow> journal_entry list \<times> journal_error option" where
  "unresolved_writes f =
     (case load_journal f of
        Inl e \<Rightarrow> ([unreadable_placeholder], Some e)
      | Inr es \<Rightarrow> (filter entry_unresolved es, None))"

section \<open>The operations of one process\<close>

text \<open>
  What the file system does during one call: the directory and the lock can fail, and a commit can
  fail before the rename (the file is unchanged) or after it (the file is new, the sync failed).
\<close>

datatype commit_fate = CommitOk | CommitFailsBefore | CommitFailsAfter

record journal_io =
  io_dir_ok :: bool
  io_lock_ok :: bool
  io_commit :: commit_fate

type_synonym journal_state = "journal_file \<times> journal_entry list"

text \<open>\<open>commitLocked\<close>: the file, the copy in memory, and the error.\<close>

definition commit_locked ::
  "commit_fate \<Rightarrow> journal_entry list \<Rightarrow> journal_state \<Rightarrow> journal_state \<times> journal_error option" where
  "commit_locked fate es s =
     (case fate of
        CommitOk \<Rightarrow> ((JournalFile WriteJournalSchemaVersion es, es), None)
      | CommitFailsBefore \<Rightarrow> (s, Some ErrIO)
      | CommitFailsAfter \<Rightarrow> ((JournalFile WriteJournalSchemaVersion es, snd s), Some ErrIO))"

definition refresh_with_disk_lock :: "journal_io \<Rightarrow> journal_state \<Rightarrow> journal_state \<times> journal_error option" where
  "refresh_with_disk_lock io s =
     (if \<not> io_dir_ok io \<or> \<not> io_lock_ok io then (s, Some ErrIO)
      else case load_journal (fst s) of
             Inl e \<Rightarrow> (s, Some e)
           | Inr es \<Rightarrow> ((fst s, es), None))"

fun find_index :: "('a \<Rightarrow> bool) \<Rightarrow> 'a list \<Rightarrow> nat option" where
  "find_index P [] = None"
| "find_index P (x # xs) = (if P x then Some 0 else map_option Suc (find_index P xs))"

definition index_locked :: "string \<Rightarrow> journal_entry list \<Rightarrow> nat option" where
  "index_locked op es = find_index (\<lambda>e. je_operation e = op) es"

definition intent_entry :: "string \<Rightarrow> journal_entry \<Rightarrow> journal_entry" where
  "intent_entry now e =
     e\<lparr>je_method := to_upper (trim_space (je_method e)), je_url := redact_url (je_url e),
       je_cleanup_method := to_upper (trim_space (je_cleanup_method e)),
       je_cleanup_url := (if je_cleanup_url e \<noteq> '''' then redact_url (je_cleanup_url e) else ''''),
       je_state := WriteIntent, je_intent_at := now, je_sent_at := '''', je_cleanup_at := ''''\<rparr>"

definition record_intent ::
  "journal_io \<Rightarrow> string \<Rightarrow> journal_entry \<Rightarrow> journal_state \<Rightarrow> journal_state \<times> journal_error option" where
  "record_intent io now e s =
     (if trim_space (je_operation e) = '''' then (s, Some ErrNoOperation)
      else case refresh_with_disk_lock io s of
        (s', Some err) \<Rightarrow> (s', Some err)
      | (s', None) \<Rightarrow>
          if index_locked (je_operation e) (snd s') \<noteq> None then (s', Some (ErrAlreadyJournaled (je_operation e)))
          else commit_locked (io_commit io) (snd s' @ [intent_entry now e]) s')"

definition transition ::
  "journal_io \<Rightarrow> string \<Rightarrow> write_state \<Rightarrow> (journal_entry \<Rightarrow> journal_entry) \<Rightarrow> journal_state
   \<Rightarrow> journal_state \<times> journal_error option" where
  "transition io op from_state apply_to s =
     (case refresh_with_disk_lock io s of
        (s', Some err) \<Rightarrow> (s', Some err)
      | (s', None) \<Rightarrow>
          (case index_locked op (snd s') of
             None \<Rightarrow> (s', Some (ErrUnknown op))
           | Some i \<Rightarrow>
               if je_state (snd s' ! i) \<noteq> from_state then (s', Some (ErrState op))
               else commit_locked (io_commit io) ((snd s')[i := apply_to (snd s' ! i)]) s'))"

definition mark_sent :: "journal_io \<Rightarrow> string \<Rightarrow> string \<Rightarrow> journal_state \<Rightarrow> journal_state \<times> journal_error option" where
  "mark_sent io now op = transition io op WriteIntent (\<lambda>e. e\<lparr>je_state := WriteSent, je_sent_at := now\<rparr>)"

definition mark_cleanup ::
  "journal_io \<Rightarrow> string \<Rightarrow> string \<Rightarrow> bool \<Rightarrow> journal_state \<Rightarrow> journal_state \<times> journal_error option" where
  "mark_cleanup io now op succeeded =
     transition io op WriteSent
       (\<lambda>e. e\<lparr>je_state := (if succeeded then WriteCleanupDone else WriteCleanupFailed), je_cleanup_at := now\<rparr>)"

definition open_journal :: "journal_file \<Rightarrow> journal_error + journal_entry list" where
  "open_journal f = load_journal f"

section \<open>Importing the journals of earlier attempts\<close>

text \<open>What the walk over \<open>jobs/\<close> meets: an error, a journal that is not a regular file, or a journal.\<close>

datatype prior_journal = WalkError | IrregularJournal | PriorJournal journal_file

fun import_entries :: "journal_entry list \<Rightarrow> journal_entry list \<Rightarrow> journal_entry list" where
  "import_entries acc [] = acc"
| "import_entries acc (e # es) =
     (if je_operation e \<in> je_operation ` set acc then import_entries acc es else import_entries (acc @ [e]) es)"

fun import_priors :: "journal_entry list \<Rightarrow> prior_journal list \<Rightarrow> journal_error + journal_entry list" where
  "import_priors acc [] = Inr acc"
| "import_priors acc (WalkError # ps) = Inl ErrIO"
| "import_priors acc (IrregularJournal # ps) = Inl ErrCorrupt"
| "import_priors acc (PriorJournal f # ps) =
     (case load_journal f of Inl e \<Rightarrow> Inl e | Inr es \<Rightarrow> import_priors (import_entries acc es) ps)"

text \<open>\<open>openRequestWriteJournal\<close> for a request with a shared journal directory: the new file, and the
  entries of the opened journal or an error.\<close>

definition open_shared_journal ::
  "journal_io \<Rightarrow> prior_journal list \<Rightarrow> journal_file \<Rightarrow> journal_file \<times> (journal_error + journal_entry list)" where
  "open_shared_journal io priors f =
     (case open_journal f of
        Inl e \<Rightarrow> (f, Inl e)
      | Inr es0 \<Rightarrow>
          (case refresh_with_disk_lock io (f, es0) of
             (s, Some err) \<Rightarrow> (f, Inl err)
           | (s, None) \<Rightarrow>
               (case import_priors (snd s) priors of
                  Inl e \<Rightarrow> (f, Inl e)
                | Inr next_entries \<Rightarrow>
                    if length next_entries = length (snd s) then (f, Inr (snd s))
                    else (case commit_locked (io_commit io) next_entries s of
                            (s', Some err) \<Rightarrow> (fst s', Inl err)
                          | (s', None) \<Rightarrow> (fst s', Inr (snd s'))))))"

end
