(* ===== verification/JournalRuns.thy ===== *)
theory JournalRuns
  imports WriteJournal
begin

text \<open>
  What the operations do to the file, as an update of a map from operation ids to states; and the
  runs of several processes that share a journal, crash between any two calls, and may find the
  file damaged: no approved write is sent twice.
\<close>

section \<open>The file as a map\<close>

definition journal_map :: "journal_file \<Rightarrow> (string \<Rightarrow> write_state option) option" where
  "journal_map f =
     (case load_journal f of Inl _ \<Rightarrow> None
      | Inr es \<Rightarrow> Some (map_of (map (\<lambda>e. (je_operation e, je_state e)) es)))"

lemma load_JournalFile [simp]: "load_journal (JournalFile WriteJournalSchemaVersion es) = Inr es"
  by (simp add: load_journal_def)

lemma journal_map_file [simp]:
  "journal_map (JournalFile WriteJournalSchemaVersion es) = Some (map_of (map (\<lambda>e. (je_operation e, je_state e)) es))"
  by (simp add: journal_map_def)

lemma index_locked_None: "index_locked op es = None \<longleftrightarrow> op \<notin> je_operation ` set es"
  unfolding index_locked_def by (induction es) auto

lemma journal_keys: "map_of (map (\<lambda>e. (je_operation e, je_state e)) es) op = None \<longleftrightarrow> op \<notin> je_operation ` set es"
  by (auto simp: map_of_eq_None_iff image_image)

lemma find_index_Some: "find_index P xs = Some i \<Longrightarrow> i < length xs \<and> P (xs ! i) \<and> (\<forall>j < i. \<not> P (xs ! j))"
  by (induction xs arbitrary: i) (auto simp: less_Suc_eq_0_disj split: if_splits)

lemma map_of_index:
  "index_locked op es = Some i \<Longrightarrow> map_of (map (\<lambda>e. (je_operation e, je_state e)) es) op = Some (je_state (es ! i))"
  unfolding index_locked_def
  by (induction es arbitrary: i) (auto split: if_splits)

lemma map_of_index_update:
  "index_locked op es = Some i \<Longrightarrow> je_operation x = op \<Longrightarrow>
     map_of (map (\<lambda>e. (je_operation e, je_state e)) (es[i := x]))
       = (map_of (map (\<lambda>e. (je_operation e, je_state e)) es))(op \<mapsto> je_state x)"
  unfolding index_locked_def
  by (induction es arbitrary: i) (auto split: if_splits)

lemma map_of_None_append:
  "op \<notin> je_operation ` set es \<Longrightarrow> je_operation x = op \<Longrightarrow>
     map_of (map (\<lambda>e. (je_operation e, je_state e)) (es @ [x]))
       = (map_of (map (\<lambda>e. (je_operation e, je_state e)) es))(op \<mapsto> je_state x)"
  by (induction es) auto

text \<open>
  An attempt to move one operation from a state to another: refused with an error and the file as it
  was, or done, or (an error of the disk after the rename) done and reported as failed.
\<close>

definition moves :: "journal_file \<Rightarrow> string \<Rightarrow> write_state option \<Rightarrow> write_state \<Rightarrow> journal_file \<Rightarrow> journal_error option \<Rightarrow> bool" where
  "moves f op before after f' r \<longleftrightarrow>
     (if r = None \<or> f' \<noteq> f
      then (\<exists>m. journal_map f = Some m \<and> m op = before \<and> journal_map f' = Some (m(op \<mapsto> after))) \<and> r \<in> {None, Some ErrIO}
      else f' = f)"

lemma commit_locked_cases:
  assumes "commit_locked fate es s = ((f, es'), r)"
  shows "r = Some ErrIO \<and> f = fst s \<or> f = JournalFile WriteJournalSchemaVersion es \<and> (r = None \<or> r = Some ErrIO)"
  using assms by (cases fate) (auto simp: commit_locked_def)

lemma refresh_cases:
  assumes "refresh_with_disk_lock io s = (s', r)"
  shows "fst s' = fst s \<and> (r = None \<longrightarrow> load_journal (fst s) = Inr (snd s'))"
  using assms by (auto simp: refresh_with_disk_lock_def split: if_splits sum.splits)

lemma record_intent_moves:
  assumes "record_intent io now e (f, es) = ((f', es'), r)"
  shows "moves f (je_operation e) None WriteIntent f' r"
proof -
  obtain s1 r1 where refresh: "refresh_with_disk_lock io (f, es) = (s1, r1)" by (cases "refresh_with_disk_lock io (f, es)")
  note s1 = refresh_cases [OF refresh]
  show ?thesis
  proof (cases "trim_space (je_operation e) = '''' \<or> r1 \<noteq> None \<or> index_locked (je_operation e) (snd s1) \<noteq> None")
    case True
    then have "f' = f \<and> r \<noteq> None"
      using assms refresh s1 by (cases s1) (auto simp: record_intent_def split: if_splits option.splits)
    then show ?thesis by (auto simp: moves_def)
  next
    case False
    then have c: "commit_locked (io_commit io) (snd s1 @ [intent_entry now e]) s1 = ((f', es'), r)"
      and fresh: "je_operation e \<notin> je_operation ` set (snd s1)"
      using assms refresh by (auto simp: record_intent_def index_locked_None)
    have op: "je_operation (intent_entry now e) = je_operation e" "je_state (intent_entry now e) = WriteIntent"
      by (simp_all add: intent_entry_def)
    have m: "journal_map f = Some (map_of (map (\<lambda>e. (je_operation e, je_state e)) (snd s1)))"
      using False s1 by (simp add: journal_map_def)
    have "map_of (map (\<lambda>e. (je_operation e, je_state e)) (snd s1)) (je_operation e) = None"
      using fresh by (simp add: journal_keys)
    with commit_locked_cases [OF c] m s1 map_of_None_append [OF fresh op(1)] op(2) show ?thesis
      by (auto simp: moves_def)
  qed
qed

lemma transition_moves:
  assumes "transition io op from_state g (f, es) = ((f', es'), r)"
    and "\<And>e. je_operation (g e) = je_operation e" and "\<And>e. je_state (g e) = after"
  shows "moves f op (Some from_state) after f' r"
proof -
  obtain s1 r1 where refresh: "refresh_with_disk_lock io (f, es) = (s1, r1)" by (cases "refresh_with_disk_lock io (f, es)")
  note s1 = refresh_cases [OF refresh]
  show ?thesis
  proof (cases "\<exists>i. r1 = None \<and> index_locked op (snd s1) = Some i \<and> je_state (snd s1 ! i) = from_state")
    case False
    then have "f' = f \<and> r \<noteq> None"
      using assms(1) refresh s1 by (cases s1) (auto simp: transition_def split: if_splits option.splits)
    then show ?thesis by (auto simp: moves_def)
  next
    case True
    then obtain i where i: "r1 = None" "index_locked op (snd s1) = Some i" "je_state (snd s1 ! i) = from_state" by blast
    then have c: "commit_locked (io_commit io) ((snd s1)[i := g (snd s1 ! i)]) s1 = ((f', es'), r)"
      using assms(1) refresh by (simp add: transition_def)
    have "je_operation (snd s1 ! i) = op"
      using find_index_Some [of "\<lambda>e. je_operation e = op" "snd s1" i] i(2) by (simp add: index_locked_def)
    then have "je_operation (g (snd s1 ! i)) = op" by (simp add: assms(2))
    from map_of_index_update [OF i(2) this] map_of_index [OF i(2)] commit_locked_cases [OF c] s1 i show ?thesis
      by (auto simp: moves_def journal_map_def assms(3))
  qed
qed

lemma prod_triple: "x = ((fst (fst x), snd (fst x)), snd x)"
  by simp

definition healthy_io :: journal_io where
  "healthy_io = \<lparr>io_dir_ok = True, io_lock_ok = True, io_commit = CommitOk\<rparr>"

lemma refresh_healthy:
  "refresh_with_disk_lock healthy_io (f, es) =
     (case load_journal f of Inl e \<Rightarrow> ((f, es), Some e) | Inr es' \<Rightarrow> ((f, es'), None))"
  by (cases "load_journal f") (simp_all add: refresh_with_disk_lock_def healthy_io_def)

lemma healthy_commit [simp]: "io_commit healthy_io = CommitOk"
  by (simp add: healthy_io_def)

lemma index_of_map:
  "(\<exists>i. index_locked op es = Some i \<and> je_state (es ! i) = st) \<longleftrightarrow>
     map_of (map (\<lambda>e. (je_operation e, je_state e)) es) op = Some st"
proof (cases "index_locked op es")
  case None
  then have "map_of (map (\<lambda>e. (je_operation e, je_state e)) es) op = None"
    by (auto simp: index_locked_None journal_keys)
  with None show ?thesis by simp
next
  case (Some i)
  with map_of_index [OF Some] show ?thesis by simp
qed

lemma record_intent_healthy:
  "snd (record_intent healthy_io now e (f, es)) = None \<longleftrightarrow>
     trim_space (je_operation e) \<noteq> '''' \<and> (\<exists>m. journal_map f = Some m \<and> m (je_operation e) = None)"
  by (auto simp: record_intent_def refresh_healthy journal_map_def index_locked_None journal_keys
      commit_locked_def split: sum.split)

lemma transition_healthy:
  "snd (transition healthy_io op st g (f, es)) = None \<longleftrightarrow> (\<exists>m. journal_map f = Some m \<and> m op = Some st)"
  by (auto simp: transition_def refresh_healthy journal_map_def commit_locked_def
      index_of_map [symmetric] split: sum.split option.split)

text \<open>C18: the journal file implements a map from operation ids to states. Every call either is refused
  and leaves the file as it was, or makes exactly its own move: recording an intent adds an id that
  was not there, marking sent takes it from intent to sent, marking the cleanup from sent to its
  outcome; it reports success only when the move is on disk. With a working file system a call
  succeeds exactly when the file is readable and the map allows its move.\<close>

theorem journal_refines_map:
  "moves f (je_operation e) None WriteIntent
     (fst (fst (record_intent io now e (f, es)))) (snd (record_intent io now e (f, es)))
   \<and> moves f op (Some WriteIntent) WriteSent
       (fst (fst (mark_sent io now op (f, es)))) (snd (mark_sent io now op (f, es)))
   \<and> moves f op (Some WriteSent) (if succeeded then WriteCleanupDone else WriteCleanupFailed)
       (fst (fst (mark_cleanup io now op succeeded (f, es)))) (snd (mark_cleanup io now op succeeded (f, es)))
   \<and> (snd (record_intent healthy_io now e (f, es)) = None \<longleftrightarrow>
        trim_space (je_operation e) \<noteq> '''' \<and> (\<exists>m. journal_map f = Some m \<and> m (je_operation e) = None))
   \<and> (snd (mark_sent healthy_io now op (f, es)) = None \<longleftrightarrow> (\<exists>m. journal_map f = Some m \<and> m op = Some WriteIntent))
   \<and> (snd (mark_cleanup healthy_io now op succeeded (f, es)) = None \<longleftrightarrow>
        (\<exists>m. journal_map f = Some m \<and> m op = Some WriteSent))"
proof (intro conjI)
  show "moves f (je_operation e) None WriteIntent
     (fst (fst (record_intent io now e (f, es)))) (snd (record_intent io now e (f, es)))"
    by (rule record_intent_moves) (rule prod_triple)
  show "moves f op (Some WriteIntent) WriteSent
       (fst (fst (mark_sent io now op (f, es)))) (snd (mark_sent io now op (f, es)))"
    unfolding mark_sent_def by (rule transition_moves [OF prod_triple]) simp_all
  show "moves f op (Some WriteSent) (if succeeded then WriteCleanupDone else WriteCleanupFailed)
       (fst (fst (mark_cleanup io now op succeeded (f, es)))) (snd (mark_cleanup io now op succeeded (f, es)))"
    unfolding mark_cleanup_def by (rule transition_moves [OF prod_triple]) simp_all
qed (simp_all add: record_intent_healthy transition_healthy mark_sent_def mark_cleanup_def)

section \<open>Importing\<close>

lemma ops_import_entries:
  "je_operation ` set (import_entries acc es) = je_operation ` set acc \<union> je_operation ` set es"
  by (induction acc es rule: import_entries.induct) auto

lemma prefix_import_entries: "prefix acc (import_entries acc es)"
proof (induction acc es rule: import_entries.induct)
  case (2 acc e es)
  then show ?case by (auto dest: append_prefixD)
qed simp

lemma import_priors_ok:
  "import_priors acc ps = Inr out \<Longrightarrow> prefix acc out \<and>
     (\<forall>p \<in> set ps. \<exists>f es. p = PriorJournal f \<and> load_journal f = Inr es \<and> je_operation ` set es \<subseteq> je_operation ` set out)
     \<and> je_operation ` set acc \<subseteq> je_operation ` set out"
proof (induction acc ps rule: import_priors.induct)
  case (4 acc f ps)
  then obtain es where es: "load_journal f = Inr es" "import_priors (import_entries acc es) ps = Inr out"
    by (auto split: sum.splits)
  from 4(1) [OF es] have "je_operation ` set acc \<subseteq> je_operation ` set out" "je_operation ` set es \<subseteq> je_operation ` set out"
    by (auto simp: ops_import_entries)
  moreover have "prefix acc out"
    using 4(1) [OF es] prefix_import_entries [of acc es] by (blast intro: prefix_order.trans)
  ultimately show ?case using 4(1) [OF es] es(1) by auto
qed auto

lemma prefix_same_length: "prefix xs ys \<Longrightarrow> length xs = length ys \<Longrightarrow> xs = ys"
  by (auto simp: prefix_def)

lemma open_shared:
  assumes "open_shared_journal io ps f = (f', r)"
  shows "(f' = f \<or> (\<exists>es es2. load_journal f = Inr es \<and> f' = JournalFile WriteJournalSchemaVersion es2 \<and> prefix es es2))
    \<and> (\<forall>out. r = Inr out \<longrightarrow> load_journal f' = Inr out \<and> (\<exists>es. load_journal f = Inr es \<and> import_priors es ps = Inr out))"
proof (cases "\<exists>es out. load_journal f = Inr es \<and> io_dir_ok io \<and> io_lock_ok io \<and> import_priors es ps = Inr out")
  case False
  then show ?thesis
    using assms by (auto simp: open_shared_journal_def open_journal_def refresh_with_disk_lock_def split: sum.splits if_splits)
next
  case True
  then obtain es out where es: "load_journal f = Inr es" "io_dir_ok io" "io_lock_ok io" "import_priors es ps = Inr out"
    by blast
  with import_priors_ok [OF es(4)] have "prefix es out" by blast
  with assms es prefix_same_length [OF this] show ?thesis
    by (cases "io_commit io")
      (auto simp: open_shared_journal_def open_journal_def refresh_with_disk_lock_def commit_locked_def split: if_splits)
qed

lemma record_intent_refused:
  assumes "load_journal f = Inr es" and "je_operation e \<in> je_operation ` set es"
  shows "snd (record_intent io now e (f, es')) \<noteq> None \<and> fst (fst (record_intent io now e (f, es'))) = f"
proof -
  obtain s1 r1 where refresh: "refresh_with_disk_lock io (f, es') = (s1, r1)" by (cases "refresh_with_disk_lock io (f, es')")
  have "r1 = None \<Longrightarrow> index_locked (je_operation e) (snd s1) \<noteq> None"
    using refresh_cases [OF refresh] assms by (auto simp: index_locked_None)
  with refresh_cases [OF refresh] refresh show ?thesis
    by (auto simp: record_intent_def split: option.split)
qed

text \<open>opening the shared journal of an expanded run takes over the journals of all earlier attempts
  or fails: it succeeds only when every one of them could be read, and afterwards no operation that
  any of them recorded, whatever became of it, can be journaled again.\<close>

theorem imported_writes_blocked:
  assumes "open_shared_journal io ps f = (f', Inr es)"
  shows "list_all (\<lambda>p. \<exists>g old. p = PriorJournal g \<and> load_journal g = Inr old
    \<and> list_all (\<lambda>x. snd (record_intent io' now (e\<lparr>je_operation := je_operation x\<rparr>) (f', es')) \<noteq> None
         \<and> fst (fst (record_intent io' now (e\<lparr>je_operation := je_operation x\<rparr>) (f', es'))) = f') old) ps"
proof -
  from open_shared [OF assms] obtain es0 where es: "load_journal f' = Inr es" "import_priors es0 ps = Inr es" by blast
  have blocked: "snd (record_intent io' now (e\<lparr>je_operation := je_operation x\<rparr>) (f', es')) \<noteq> None
         \<and> fst (fst (record_intent io' now (e\<lparr>je_operation := je_operation x\<rparr>) (f', es'))) = f'"
    if "je_operation x \<in> je_operation ` set es" for x
    using that by (intro record_intent_refused [OF es(1)]) simp
  show ?thesis
    unfolding list_all_iff
  proof (rule ballI)
    fix p assume "p \<in> set ps"
    then obtain g old where "p = PriorJournal g" "load_journal g = Inr old" "je_operation ` set old \<subseteq> je_operation ` set es"
      using import_priors_ok [OF es(2)] by blast
    with blocked show "\<exists>g old. p = PriorJournal g \<and> load_journal g = Inr old \<and>
      (\<forall>x \<in> set old. snd (record_intent io' now (e\<lparr>je_operation := je_operation x\<rparr>) (f', es')) \<noteq> None
         \<and> fst (fst (record_intent io' now (e\<lparr>je_operation := je_operation x\<rparr>) (f', es'))) = f')"
      by (intro exI [of _ g] exI [of _ old]) blast
  qed
qed

definition sample_entry :: "string \<Rightarrow> write_state \<Rightarrow> journal_entry" where
  "sample_entry op st = unreadable_placeholder\<lparr>je_operation := op, je_method := ''POST'', je_state := st\<rparr>"

theorem imported_writes_blocked_witness:
  "list_all (\<lambda>p. \<exists>g old. p = PriorJournal g \<and> load_journal g = Inr old
    \<and> list_all (\<lambda>x. snd (record_intent healthy_io ''now'' (sample_entry '''' WriteIntent\<lparr>je_operation := je_operation x\<rparr>)
             (JournalFile 1 [sample_entry ''a'' WriteSent, sample_entry ''b'' WriteIntent], [])) \<noteq> None
         \<and> fst (fst (record_intent healthy_io ''now'' (sample_entry '''' WriteIntent\<lparr>je_operation := je_operation x\<rparr>)
             (JournalFile 1 [sample_entry ''a'' WriteSent, sample_entry ''b'' WriteIntent], [])))
           = JournalFile 1 [sample_entry ''a'' WriteSent, sample_entry ''b'' WriteIntent]) old)
     [PriorJournal (JournalFile 1 [sample_entry ''a'' WriteIntent, sample_entry ''b'' WriteIntent])]"
proof -
  have "open_shared_journal healthy_io
      [PriorJournal (JournalFile 1 [sample_entry ''a'' WriteIntent, sample_entry ''b'' WriteIntent])]
      (JournalFile 1 [sample_entry ''a'' WriteSent])
    = (JournalFile 1 [sample_entry ''a'' WriteSent, sample_entry ''b'' WriteIntent],
       Inr [sample_entry ''a'' WriteSent, sample_entry ''b'' WriteIntent])"
    by (simp add: open_shared_journal_def open_journal_def load_journal_def WriteJournalSchemaVersion_def
        refresh_with_disk_lock_def commit_locked_def healthy_io_def sample_entry_def)
  from imported_writes_blocked [OF this] show ?thesis .
qed

section \<open>Runs of several processes\<close>

text \<open>
  Processes are numbers. A process may send a write only while it holds the permit a successful
  \<open>RecordIntent\<close> gave it, and sends it at most once for each; crashing loses the permits and the copy
  in memory. The file lock makes each call one step. \<open>jw_sent\<close> is what reached the network, in order.
\<close>

record journal_world =
  jw_file :: journal_file
  jw_open :: "nat \<Rightarrow> journal_entry list option"
  jw_permits :: "(nat \<times> string) list"
  jw_sent :: "string list"

inductive journal_step :: "journal_world \<Rightarrow> journal_world \<Rightarrow> bool" where
  open_own: "open_journal (jw_file w) = Inr es \<Longrightarrow>
     journal_step w (w\<lparr>jw_open := (jw_open w)(p \<mapsto> es)\<rparr>)"
| open_import: "open_shared_journal io priors (jw_file w) = (f, Inr es) \<Longrightarrow>
     journal_step w (w\<lparr>jw_file := f, jw_open := (jw_open w)(p \<mapsto> es)\<rparr>)"
| open_failed: "open_shared_journal io priors (jw_file w) = (f, Inl err) \<Longrightarrow> journal_step w (w\<lparr>jw_file := f\<rparr>)"
| intent: "jw_open w p = Some es \<Longrightarrow> record_intent io now e (jw_file w, es) = ((f, es'), r) \<Longrightarrow>
     journal_step w (w\<lparr>jw_file := f, jw_open := (jw_open w)(p \<mapsto> es'),
       jw_permits := jw_permits w @ (if r = None then [(p, je_operation e)] else [])\<rparr>)"
| send: "(p, op) \<in> set (jw_permits w) \<Longrightarrow>
     journal_step w (w\<lparr>jw_permits := remove1 (p, op) (jw_permits w), jw_sent := jw_sent w @ [op]\<rparr>)"
| sent: "jw_open w p = Some es \<Longrightarrow> mark_sent io now op (jw_file w, es) = ((f, es'), r) \<Longrightarrow>
     journal_step w (w\<lparr>jw_file := f, jw_open := (jw_open w)(p \<mapsto> es')\<rparr>)"
| cleaned: "jw_open w p = Some es \<Longrightarrow> mark_cleanup io now op ok (jw_file w, es) = ((f, es'), r) \<Longrightarrow>
     journal_step w (w\<lparr>jw_file := f, jw_open := (jw_open w)(p \<mapsto> es')\<rparr>)"
| crash: "journal_step w (w\<lparr>jw_open := (jw_open w)(p := None),
     jw_permits := filter (\<lambda>x. fst x \<noteq> p) (jw_permits w)\<rparr>)"
| damage: "journal_step w (w\<lparr>jw_file := BadFile\<rparr>)"

inductive journal_run :: "journal_world \<Rightarrow> bool" where
  start: "journal_run \<lparr>jw_file = f, jw_open = (\<lambda>_. None), jw_permits = [], jw_sent = []\<rparr>"
| step: "journal_run w \<Longrightarrow> journal_step w w' \<Longrightarrow> journal_run w'"

text \<open>What was sent or may still be sent: each once, and in the journal while that can be read.\<close>

definition claimed :: "journal_world \<Rightarrow> string list" where
  "claimed w = jw_sent w @ map snd (jw_permits w)"

definition journal_inv :: "journal_world \<Rightarrow> bool" where
  "journal_inv w \<longleftrightarrow> distinct (claimed w)
     \<and> (\<forall>m. journal_map (jw_file w) = Some m \<longrightarrow> set (claimed w) \<subseteq> dom m)"

text \<open>A call keeps every id of the file, and makes no damaged file readable.\<close>

definition keeps :: "journal_file \<Rightarrow> journal_file \<Rightarrow> bool" where
  "keeps f f' \<longleftrightarrow> (\<forall>m'. journal_map f' = Some m' \<longrightarrow> (\<exists>m. journal_map f = Some m \<and> dom m \<subseteq> dom m'))"

lemma keeps_refl [simp]: "keeps f f"
  by (simp add: keeps_def)

lemma keeps_BadFile [simp]: "keeps f BadFile"
  by (simp add: keeps_def journal_map_def load_journal_def)

lemma moves_keeps: "moves f op before after f' r \<Longrightarrow> keeps f f'"
  by (auto simp: moves_def keeps_def split: if_splits)

lemma open_shared_keeps:
  assumes "open_shared_journal io ps f = (f', r)"
  shows "keeps f f'"
proof -
  have "je_operation ` set es \<subseteq> je_operation ` set es2" if "prefix es es2" for es es2 :: "journal_entry list"
    using that by (auto simp: prefix_def)
  with open_shared [OF assms] show ?thesis
    by (fastforce simp: keeps_def journal_map_def dom_map_of_conv_image_fst image_image)
qed

lemma journal_inv_file:
  assumes "journal_inv w" and "keeps (jw_file w) f"
  shows "journal_inv (w\<lparr>jw_file := f\<rparr>)" and "journal_inv (w\<lparr>jw_file := f, jw_open := os\<rparr>)"
proof -
  have "set (claimed w) \<subseteq> dom m" if m: "journal_map f = Some m" for m
  proof -
    from assms(2) m obtain m0 where "journal_map (jw_file w) = Some m0" "dom m0 \<subseteq> dom m" by (auto simp: keeps_def)
    with assms(1) show ?thesis unfolding journal_inv_def by blast
  qed
  with assms(1) show "journal_inv (w\<lparr>jw_file := f\<rparr>)" "journal_inv (w\<lparr>jw_file := f, jw_open := os\<rparr>)"
    by (simp_all add: journal_inv_def claimed_def)
qed

lemma mset_claimed_send:
  "(p, op) \<in> set ps \<Longrightarrow> mset (map snd (remove1 (p, op) ps)) + {#op#} = mset (map snd ps)"
  by (metis (no_types, lifting) add_mset_add_single image_mset_add_mset insert_DiffM mset_map mset_remove1
      set_mset_mset snd_conv)

lemma journal_step_inv: "journal_step w w' \<Longrightarrow> journal_inv w \<Longrightarrow> journal_inv w'"
proof (induction rule: journal_step.induct)
  case (intent w p es io now e f es' r)
  note m = record_intent_moves [OF intent(2)]
  show ?case
  proof (cases r)
    case (Some err)
    with journal_inv_file(2) [OF intent(3) moves_keeps [OF m]] show ?thesis by simp
  next
    case None
    with m obtain mp where mp: "journal_map (jw_file w) = Some mp" "mp (je_operation e) = None"
      "journal_map f = Some (mp(je_operation e \<mapsto> WriteIntent))"
      by (auto simp: moves_def)
    with intent(3) have "set (claimed w) \<subseteq> dom mp" "distinct (claimed w)" by (auto simp: journal_inv_def)
    with mp None show ?thesis by (auto simp: journal_inv_def claimed_def)
  qed
next
  case (send p op w)
  let ?w = "w\<lparr>jw_permits := remove1 (p, op) (jw_permits w), jw_sent := jw_sent w @ [op]\<rparr>"
  have "mset (claimed ?w) = mset (claimed w)"
    using mset_claimed_send [OF send(1)] by (simp add: claimed_def)
  then have "set (claimed ?w) = set (claimed w)" "distinct (claimed ?w) = distinct (claimed w)"
    by (metis set_mset_mset, metis mset_eq_imp_distinct_iff)
  with send(2) show ?case unfolding journal_inv_def by simp
next
  case (crash w p)
  let ?w = "w\<lparr>jw_open := (jw_open w)(p := None), jw_permits := filter (\<lambda>x. fst x \<noteq> p) (jw_permits w)\<rparr>"
  have "set (claimed ?w) \<subseteq> set (claimed w)" "distinct (claimed w) \<Longrightarrow> distinct (claimed ?w)"
    by (auto simp: claimed_def distinct_map_filter)
  with crash show ?case unfolding journal_inv_def by auto
next
  case (sent w p es io now op f es' r)
  have "moves (jw_file w) op (Some WriteIntent) WriteSent f r"
    using sent(2) unfolding mark_sent_def by (rule transition_moves) simp_all
  from journal_inv_file(2) [OF sent(3) moves_keeps [OF this]] show ?case .
next
  case (cleaned w p es io now op ok f es' r)
  have "moves (jw_file w) op (Some WriteSent) (if ok then WriteCleanupDone else WriteCleanupFailed) f r"
    using cleaned(2) unfolding mark_cleanup_def by (rule transition_moves) simp_all
  from journal_inv_file(2) [OF cleaned(3) moves_keeps [OF this]] show ?case .
next
  case (open_import io priors w f es p)
  from journal_inv_file(2) [OF open_import(2) open_shared_keeps [OF open_import(1)]] show ?case .
next
  case (open_failed io priors w f err)
  from journal_inv_file(1) [OF open_failed(2) open_shared_keeps [OF open_failed(1)]] show ?case .
next
  case (damage w)
  from journal_inv_file(1) [OF damage keeps_BadFile] show ?case .
qed (simp add: journal_inv_def claimed_def)

lemma journal_run_inv: "journal_run w \<Longrightarrow> journal_inv w"
proof (induction rule: journal_run.induct)
  case (start f)
  show ?case by (simp add: journal_inv_def claimed_def)
next
  case (step w w')
  then show ?case by (blast intro: journal_step_inv)
qed

text \<open>C17: no replay: however many processes share a journal, in whatever order they open it, record,
  send, crash and come back, whatever their disk errors, and even if the file is damaged on the way,
  no operation is sent to the target twice; and while the file can be read every sent operation is
  in it.\<close>

theorem no_write_replayed:
  assumes "journal_run w"
  shows "distinct (jw_sent w)
    \<and> journal_map (jw_file w) \<in> insert None (Some ` {m. set (jw_sent w) \<subseteq> dom m})"
proof -
  from journal_run_inv [OF assms] have inv: "journal_inv w" .
  then have "distinct (jw_sent w)" by (simp add: journal_inv_def claimed_def)
  moreover have "set (jw_sent w) \<subseteq> dom m" if "journal_map (jw_file w) = Some m" for m
    using inv that by (auto simp: journal_inv_def claimed_def)
  ultimately show ?thesis by (cases "journal_map (jw_file w)") auto
qed

text \<open>A first process records and sends \<open>a\<close> and crashes; a second one is refused \<open>a\<close> and holds no permit.\<close>

definition sample_file :: journal_file where
  "sample_file = JournalFile 1 [intent_entry ''now'' (sample_entry ''a'' WriteIntent)]"

definition sample_world :: journal_world where
  "sample_world =
     \<lparr>jw_file = sample_file,
      jw_open = (\<lambda>_. None)(1 := None, 2 \<mapsto> [intent_entry ''now'' (sample_entry ''a'' WriteIntent)]),
      jw_permits = [], jw_sent = [''a'']\<rparr>"

lemma sample_run: "journal_run sample_world"
proof -
  let ?e = "sample_entry ''a'' WriteIntent"
  let ?es = "[intent_entry ''now'' ?e]"
  let ?w = "\<lambda>f os ps ss. \<lparr>jw_file = f, jw_open = os, jw_permits = ps, jw_sent = ss\<rparr>"
  have op: "je_operation ?e = ''a''" by (simp add: sample_entry_def)
  have spaces: "trim_space ''a'' \<noteq> ''''" by code_simp
  have load: "load_journal sample_file = Inr ?es"
    by (simp add: sample_file_def load_journal_def WriteJournalSchemaVersion_def)
  have refresh: "refresh_with_disk_lock healthy_io (sample_file, es) = ((sample_file, ?es), None)" for es
    by (simp add: refresh_healthy load)
  have first: "record_intent healthy_io ''now'' ?e (NoFile, []) = ((sample_file, ?es), None)"
    using spaces by (simp add: record_intent_def op refresh_healthy load_journal_def index_locked_def
        commit_locked_def sample_file_def WriteJournalSchemaVersion_def)
  have second: "record_intent healthy_io ''now'' ?e (sample_file, ?es) = ((sample_file, ?es), Some (ErrAlreadyJournaled ''a''))"
    using spaces by (simp add: record_intent_def op refresh index_locked_def intent_entry_def)
  have "journal_run (?w NoFile (\<lambda>_. None) [] [])" by (rule start)
  from step [OF this open_own [of _ "[]" 1]] have "journal_run (?w NoFile ((\<lambda>_. None)(1 \<mapsto> [])) [] [])"
    by (simp add: open_journal_def load_journal_def)
  from step [OF this intent [of _ 1 "[]" healthy_io "''now''" ?e sample_file ?es None]]
  have "journal_run (?w sample_file ((\<lambda>_. None)(1 \<mapsto> ?es)) [(1, ''a'')] [])"
    by (simp add: first op)
  from step [OF this send [of 1 "''a''"]]
  have "journal_run (?w sample_file ((\<lambda>_. None)(1 \<mapsto> ?es)) [] [''a''])" by simp
  from step [OF this crash [of _ 1]] have "journal_run (?w sample_file ((\<lambda>_. None)(1 := None)) [] [''a''])" by simp
  from step [OF this open_own [of _ ?es 2]]
  have "journal_run (?w sample_file ((\<lambda>_. None)(1 := None, 2 \<mapsto> ?es)) [] [''a''])"
    by (simp add: open_journal_def load)
  from step [OF this intent [of _ 2 ?es healthy_io "''now''" ?e sample_file ?es "Some (ErrAlreadyJournaled ''a'')"]]
  show ?thesis by (simp add: second sample_world_def)
qed

theorem no_write_replayed_witness:
  "distinct (jw_sent sample_world)
    \<and> journal_map (jw_file sample_world) \<in> insert None (Some ` {m. set (jw_sent sample_world) \<subseteq> dom m})
    \<and> jw_sent sample_world = [''a'']"
  using no_write_replayed [OF sample_run] by (simp add: sample_world_def)

end
