(* ===== verification/Telemetry.thy ===== *)
theory Telemetry
  imports Redact
begin

text \<open>
  The URLs that are written to manifests and coverage events: \<open>SafeTelemetryURL\<close> and
  \<open>sensitiveTelemetryKey\<close> of \<open>internal/scanner/input_manifest.go\<close>, with the query and fragment part
  of \<open>URL.String\<close>.
\<close>

definition sensitive_markers :: "string list" where
  "sensitive_markers =
     [''token'', ''secret'', ''password'', ''passwd'', ''session'', ''key'', ''signature'', ''credential'',
      ''authorization'', ''csrf'', ''cookie'']"

definition sensitive_telemetry_key :: "string \<Rightarrow> bool" where
  "sensitive_telemetry_key name =
     (let lower = to_lower name
      in if list_ex (\<lambda>m. contains lower m) sensitive_markers then True
         else lower \<in> set [''sig'', ''jwt'', ''code'', ''auth'', ''pwd''])"

definition redacted_mark :: string where "redacted_mark = ''[REDACTED]''"

definition safe_query_part :: "string \<Rightarrow> string" where
  "safe_query_part part =
     (let (key, v, has_value) = cut_at (CHR ''='') part
      in case query_unescape key of
           None \<Rightarrow> ''[invalid parameter omitted]''
         | Some name \<Rightarrow>
             if sensitive_telemetry_key name then key @ ''='' @ query_escape redacted_mark
             else if has_value \<and> query_unescape part = None
             then key @ ''='' @ query_escape ''[invalid value omitted]''
             else part)"

definition safe_query :: "string \<Rightarrow> string" where
  "safe_query q = join_on ''&'' (map safe_query_part (split_on (CHR ''&'') q))"

definition fragment_must_escape :: "char \<Rightarrow> bool" where
  "fragment_must_escape c \<longleftrightarrow> \<not> (unreserved c \<or> c \<in> set ''$&+,/:;=?@!()*'')"

definition valid_encoded_fragment :: "string \<Rightarrow> bool" where
  "valid_encoded_fragment f \<longleftrightarrow>
     list_all (\<lambda>c. c \<in> set ''!$&()*+,;=:@[]%'' \<or> code c = 39 \<or> \<not> fragment_must_escape c) f"

text \<open>\<open>EscapedFragment\<close> of the fragment that was written as \<open>f\<close>.\<close>

definition escaped_fragment :: "string \<Rightarrow> string \<Rightarrow> string" where
  "escaped_fragment frag f =
     (if f \<noteq> escape_with fragment_must_escape frag \<and> valid_encoded_fragment f then f
      else escape_with fragment_must_escape frag)"

definition fragment_sensitive :: "string \<Rightarrow> bool" where
  "fragment_sensitive frag =
     (let (plain, after, q) = cut_at (CHR ''?'') frag
      in list_ex (\<lambda>part. case query_unescape (fst (cut_at (CHR ''='') part)) of
                           None \<Rightarrow> True | Some name \<Rightarrow> sensitive_telemetry_key name)
           (split_on (CHR ''&'') (if q then after else frag)))"

definition force_query :: "string \<Rightarrow> bool" where
  "force_query raw =
     (case get_scheme (fst (cut_at (CHR ''#'') raw)) of
        None \<Rightarrow> False
      | Some (sch, after) \<Rightarrow> (let (rest, query, found) = cut_at (CHR ''?'') after in found \<and> query = ''''))"

definition safe_telemetry_url :: "string \<Rightarrow> string" where
  "safe_telemetry_url raw =
     (case url_parse raw of
        None \<Rightarrow> ''[invalid URL]''
      | Some u \<Rightarrow>
          let q = safe_query (u_raw_query u);
              written = fst (snd (cut_at (CHR ''#'') raw));
              frag = (if fragment_sensitive (u_fragment u) then escape_with fragment_must_escape redacted_mark
                      else escaped_fragment (u_fragment u) written)
          in bare_url_string raw u
             @ (if force_query raw \<or> q \<noteq> '''' then CHR ''?'' # q else '''')
             @ (if frag = '''' then '''' else CHR ''#'' # frag))"

end
