(* ===== verification/GatewayState.thy ===== *)
theory GatewayState
  imports AppScope Budget Telemetry
begin

text \<open>
  The data of the recording gateway (\<open>internal/scanner/recording_gateway.go\<close>): the part of a scan
  request and of the configuration it reads, the proxied requests, its own state and the coverage
  events it writes. The GraphQL parser (a third-party package), SHA-256, the JSON of a POST body and
  the prose of a scope verdict are the fields of \<open>gateway_env\<close>; the clock, the budget's token bucket
  and the event file are those of a \<open>moment\<close>.
\<close>

section \<open>Requests and configuration\<close>

record scanner_input =
  si_auth_context_id :: string
  si_replay_ref :: string
  si_read_only :: bool
  si_headers :: "(string \<times> string) list"
  si_inventory_scope :: string
  si_endpoint_id :: string
  si_url :: string
  si_method :: string
  si_content_type :: string
  si_body_digest :: string
  si_selected :: bool
  si_reason :: string
  si_body :: string

record scan_request =
  rq_app_scope :: "app_scope option"
  rq_post_approval :: "fuzz_approval option"
  rq_post_url :: string
  rq_post_body :: string
  rq_test_environment :: bool
  rq_zap_discovery_only :: bool
  rq_input_requests :: "scanner_input list"
  rq_target :: string
  rq_auth_context_id :: string
  rq_attempt_id :: string

text \<open>\<open>ScopeGuard\<close> takes a URL and the addresses it resolved to, when they are known; \<open>Some reason\<close> is
  blocked.\<close>

record scan_config =
  cf_web_max_endpoints :: int
  cf_scope_guard :: "(string \<Rightarrow> string list \<Rightarrow> string option) option"

datatype gql_kind = GqlQuery | GqlMutation | GqlSubscription

record gql_operation =
  go_kind :: gql_kind
  go_name :: string

record gateway_env =
  ge_gql :: "string \<Rightarrow> gql_operation list option"
  ge_payload :: "string \<Rightarrow> (string \<times> string) option" \<comment> \<open>the query and the operation name\<close>
  ge_sha :: "string \<Rightarrow> string" \<comment> \<open>hexadecimal\<close>
  ge_fuzz_json :: "fuzz_approval \<Rightarrow> string"
  ge_scope_text :: "allow_reason \<Rightarrow> string"
  ge_exclude_text :: "exclude_reason \<Rightarrow> string"

definition inventory_id :: "gateway_env \<Rightarrow> string list \<Rightarrow> string" where
  "inventory_id env parts = take 24 (ge_sha env (join_on [CHR 0x00] parts))"

definition body_digest :: "gateway_env \<Rightarrow> string \<Rightarrow> string" where
  "body_digest env body = (if body = '''' then '''' else ge_sha env body)"

definition gateway_fuzz_id :: "gateway_env \<Rightarrow> fuzz_approval \<Rightarrow> string" where
  "gateway_fuzz_id env a = inventory_id env [ge_fuzz_json env a]"

section \<open>Proxied requests\<close>

text \<open>What the scanner sends: \<open>hr_url\<close> is \<open>URL.String()\<close>, \<open>hr_body\<close> the bytes the body would deliver and
  whether reading it fails; none for a missing body.\<close>

record proxied =
  hr_method :: string
  hr_url :: string
  hr_host :: string
  hr_header :: header
  hr_body :: "(string \<times> bool) option"

text \<open>What the gateway sends on.\<close>

record outgoing =
  og_method :: string
  og_url :: string
  og_header :: header
  og_body :: string

datatype upstream = UpstreamError | Answer int header string bool

section \<open>State\<close>

record coverage_event =
  ce_attempt_id :: string
  ce_scanner :: string
  ce_endpoint_ids :: "string list"
  ce_url :: string
  ce_method :: string
  ce_phase :: string
  ce_kind :: string
  ce_at :: string
  ce_response_code :: int
  ce_reason :: string
  ce_native_ref :: string

definition blank_event :: coverage_event where
  "blank_event = \<lparr>ce_attempt_id = '''', ce_scanner = '''', ce_endpoint_ids = [], ce_url = '''', ce_method = '''',
     ce_phase = '''', ce_kind = '''', ce_at = '''', ce_response_code = 0, ce_reason = '''', ce_native_ref = ''''\<rparr>"

record moment =
  mo_at :: string
  mo_encode :: "coverage_event \<Rightarrow> bool"
  mo_now :: int
  mo_ctx :: "string option"
  mo_bucket :: "int option \<Rightarrow> string \<Rightarrow> string option"
  mo_ctx_after :: "string option"

record gateway =
  gw_scanner :: string
  gw_authorization :: string \<comment> \<open>the proxy credentials of this attempt\<close>
  gw_target_auth :: string
  gw_closing :: bool
  gw_file_open :: bool
  gw_events :: "coverage_event list"
  gw_failed :: bool
  gw_limitations :: "string list"
  gw_in_flight :: int
  gw_fuzz_observed :: int
  gw_fuzz_uncertain :: bool
  gw_fuzz_armed :: bool
  gw_fuzz_requests :: int
  gw_requests :: int
  gw_phase :: string
  gw_budget :: "budget option"

section \<open>Recording\<close>

definition record_event :: "scan_request \<Rightarrow> moment \<Rightarrow> coverage_event \<Rightarrow> gateway \<Rightarrow> gateway" where
  "record_event rq mo e g =
     (let fuzzing = (rq_post_approval rq \<noteq> None \<and> ce_method e = ''POST'');
          g1 = g\<lparr>gw_fuzz_observed := gw_fuzz_observed g + (if fuzzing \<and> ce_kind e = ''observed'' then 1 else 0),
                 gw_fuzz_uncertain := (gw_fuzz_uncertain g \<or> (fuzzing \<and> ce_kind e = ''failed''))\<rparr>;
          e1 = e\<lparr>ce_scanner := gw_scanner g, ce_attempt_id := rq_attempt_id rq, ce_at := mo_at mo,
                 ce_phase := (if ce_phase e = '''' then gw_phase g else ce_phase e)\<rparr>;
          g2 = (if (ce_kind e1 = ''blocked'' \<or> ce_kind e1 = ''failed'') \<and> length (gw_limitations g1) < 16
                then g1\<lparr>gw_limitations := List.insert (ce_reason e1) (gw_limitations g1)\<rparr> else g1);
          e2 = e1\<lparr>ce_url := safe_telemetry_url (ce_url e1)\<rparr>
      in if \<not> gw_file_open g2 then g2
         else if mo_encode mo e2 then g2\<lparr>gw_events := gw_events g2 @ [e2]\<rparr>
         else g2\<lparr>gw_failed := True\<rparr>)"

definition arm_form_fuzz :: "gateway \<Rightarrow> gateway" where
  "arm_form_fuzz g = g\<lparr>gw_fuzz_armed := True\<rparr>"

definition update_target_auth :: "string list \<Rightarrow> gateway \<Rightarrow> gateway" where
  "update_target_auth headers g = g\<lparr>gw_target_auth := join_on [CHR 0x0A] headers\<rparr>"

definition set_phase :: "string \<Rightarrow> gateway \<Rightarrow> gateway" where
  "set_phase phase g = g\<lparr>gw_phase := phase\<rparr>"

text \<open>\<open>NewRecordingGateway\<close>: no gateway without an approved scope; the inputs are recorded as routed.
  The listener, certificates and files are outside the model.\<close>

definition routing_event :: "scanner_input \<Rightarrow> coverage_event" where
  "routing_event i = blank_event\<lparr>ce_kind := (if si_selected i then ''selected'' else ''skipped''), ce_url := si_url i,
     ce_method := si_method i, ce_endpoint_ids := [si_endpoint_id i], ce_reason := si_reason i, ce_phase := ''routing''\<rparr>"

definition new_gateway ::
  "scan_request \<Rightarrow> moment \<Rightarrow> string \<Rightarrow> string \<Rightarrow> string \<Rightarrow> budget option \<Rightarrow> gateway option" where
  "new_gateway rq mo scanner authorization target_auth budget =
     (if rq_app_scope rq = None then None
      else Some (fold (\<lambda>i. record_event rq mo (routing_event i)) (rq_input_requests rq)
        \<lparr>gw_scanner = scanner, gw_authorization = authorization, gw_target_auth = target_auth, gw_closing = False,
         gw_file_open = True, gw_events = [], gw_failed = False, gw_limitations = [], gw_in_flight = 0,
         gw_fuzz_observed = 0, gw_fuzz_uncertain = False, gw_fuzz_armed = False, gw_fuzz_requests = 0,
         gw_requests = 0, gw_phase = ''active_test'', gw_budget = budget\<rparr>))"

text \<open>\<open>Close\<close>: \<open>synced\<close> is whether the file's \<open>Sync\<close> succeeded. \<open>drainFormFuzz\<close> disarms and waits for the
  admitted POSTs; \<open>True\<close> is its return without an error.\<close>

definition close_gateway :: "bool \<Rightarrow> gateway \<Rightarrow> gateway" where
  "close_gateway synced g =
     g\<lparr>gw_closing := True, gw_failed := (gw_failed g \<or> (gw_file_open g \<and> \<not> synced)), gw_file_open := False\<rparr>"

definition disarm_form_fuzz :: "gateway \<Rightarrow> gateway" where
  "disarm_form_fuzz g = g\<lparr>gw_fuzz_armed := False\<rparr>"

definition form_fuzz_drained :: "gateway \<Rightarrow> bool" where
  "form_fuzz_drained g \<longleftrightarrow> gw_in_flight g = 0"

section \<open>Outcome\<close>

record run_outcome =
  ro_status :: string
  ro_outcome :: string
  ro_completeness :: string
  ro_limitations :: "(string \<times> string) list"

definition apply_outcome :: "gateway \<Rightarrow> run_outcome \<Rightarrow> run_outcome" where
  "apply_outcome g run =
     (if gw_limitations g = [] then run
      else run\<lparr>ro_limitations := ro_limitations run
                 @ map (\<lambda>reason. (''gateway_restriction'', reason)) (sort_slice (<) (gw_limitations g)),
               ro_completeness := ''partial'',
               ro_outcome := (if ro_status run = ''completed'' then ''PARTIAL'' else ro_outcome run)\<rparr>)"

section \<open>What recording leaves alone\<close>

lemmas gateway_update_defs = record_event_def Let_def

lemma record_event_keeps [simp]:
  "gw_in_flight (record_event rq mo e g) = gw_in_flight g"
  "gw_fuzz_requests (record_event rq mo e g) = gw_fuzz_requests g"
  "gw_fuzz_armed (record_event rq mo e g) = gw_fuzz_armed g"
  "gw_requests (record_event rq mo e g) = gw_requests g"
  "gw_target_auth (record_event rq mo e g) = gw_target_auth g"
  "gw_budget (record_event rq mo e g) = gw_budget g"
  "gw_closing (record_event rq mo e g) = gw_closing g"
  "gw_file_open (record_event rq mo e g) = gw_file_open g"
  "gw_authorization (record_event rq mo e g) = gw_authorization g"
  "gw_phase (record_event rq mo e g) = gw_phase g"
  by (simp_all add: gateway_update_defs)

end
