(* ===== verification/Gateway.thy ===== *)
theory Gateway
  imports GatewayState
begin

text \<open>
  The decisions of the recording gateway: the request policy of \<open>browser_discovery.go\<close> and
  \<open>browser_request_policy.go\<close>, the admission of form fuzzing of \<open>wapiti_post.go\<close>, and \<open>forward\<close> of
  \<open>recording_gateway.go\<close>, cut where the code waits for the upstream: \<open>forward_begin\<close> is everything up
  to the request that is sent, \<open>forward_end\<close> what is done with the answer. A reason is \<open>Some text\<close>
  where the Go function returns an error.
\<close>

section \<open>The request policy\<close>

definition graphql_like :: "string \<Rightarrow> bool" where
  "graphql_like query \<longleftrightarrow>
     CHR ''{'' \<in> set query \<or> has_prefix query ''query '' \<or> has_prefix query ''query(''
     \<or> has_prefix query ''mutation'' \<or> has_prefix query ''subscription''"

definition url_query_refused :: "gateway_env \<Rightarrow> string \<Rightarrow> string option" where
  "url_query_refused env raw =
     (case url_parse raw of None \<Rightarrow> None
      | Some u \<Rightarrow>
          let query = trim_space (values_get (fst (parse_query (u_raw_query u))) ''query'')
          in if \<not> graphql_like query then None
             else (case ge_gql env query of
                     None \<Rightarrow> Some ''GraphQL query is invalid''
                   | Some ops \<Rightarrow> if list_ex (\<lambda>opn. go_kind opn \<noteq> GqlQuery) ops
                                 then Some ''GraphQL writes require explicit operation approval'' else None))"

definition scope_refused :: "gateway_env \<Rightarrow> app_scope \<Rightarrow> string \<Rightarrow> string \<Rightarrow> string option" where
  "scope_refused env s method raw =
     (let (ok, why) = allows s raw
      in if \<not> ok then Some (ge_scope_text env why)
         else case excluded s method raw of
                Some why' \<Rightarrow> Some (''excluded: '' @ ge_exclude_text env why')
              | None \<Rightarrow> None)"

definition guard_refused :: "scan_config \<Rightarrow> string \<Rightarrow> string list \<Rightarrow> string option" where
  "guard_refused cf raw resolved = (case cf_scope_guard cf of None \<Rightarrow> None | Some guard \<Rightarrow> guard raw resolved)"

definition first_reason :: "string option \<Rightarrow> string option \<Rightarrow> string option" where
  "first_reason a b = (case a of None \<Rightarrow> b | Some r \<Rightarrow> Some r)"

definition browser_request_refused ::
  "gateway_env \<Rightarrow> scan_request \<Rightarrow> scan_config \<Rightarrow> string \<Rightarrow> string \<Rightarrow> string option" where
  "browser_request_refused env rq cf method raw =
     (case rq_app_scope rq of
        None \<Rightarrow> Some ''approved scope required''
      | Some s \<Rightarrow>
          first_reason (scope_refused env s method raw)
            (first_reason (url_query_refused env raw)
              (if method \<notin> set [''GET'', ''HEAD'', ''OPTIONS'']
               then Some ''state-changing browser request requires explicit operation approval''
               else guard_refused cf raw [])))"

text \<open>A POST body that is one selected operation of a document of queries.\<close>

definition graphql_body_refused :: "gateway_env \<Rightarrow> string \<Rightarrow> string \<Rightarrow> string option" where
  "graphql_body_refused env content_type body =
     (if media_type content_type \<noteq> Some ''application/json'' \<or> int (length body) > 2097152
      then Some ''browser POST requires an explicit read-only GraphQL JSON operation''
      else case ge_payload env body of
        None \<Rightarrow> Some ''browser POST requires a single explicit GraphQL query''
      | Some (query, name) \<Rightarrow>
          if query = '''' then Some ''browser POST requires a single explicit GraphQL query''
          else (case ge_gql env query of
             None \<Rightarrow> Some ''GraphQL query is invalid''
           | Some ops \<Rightarrow>
               if ops = [] then Some ''GraphQL query is invalid''
               else if list_ex (\<lambda>opn. go_kind opn \<noteq> GqlQuery) ops
               then Some ''GraphQL writes require explicit operation approval''
               else if length (filter (\<lambda>opn. name = '''' \<or> go_name opn = name) ops) \<noteq> 1
               then Some ''GraphQL query selection is missing or ambiguous''
               else None))"

definition browser_discovery_refused ::
  "gateway_env \<Rightarrow> scan_request \<Rightarrow> scan_config \<Rightarrow> string \<Rightarrow> string \<Rightarrow> string \<Rightarrow> string \<Rightarrow> string option" where
  "browser_discovery_refused env rq cf method raw content_type body =
     (if method \<noteq> ''POST'' then browser_request_refused env rq cf method raw
      else first_reason (browser_request_refused env rq cf ''GET'' raw)
        (case rq_app_scope rq of
           None \<Rightarrow> Some ''approved scope required''
         | Some s \<Rightarrow>
             first_reason (scope_refused env s method raw)
               (first_reason (guard_refused cf raw []) (graphql_body_refused env content_type body))))"

section \<open>Form fuzzing\<close>

text \<open>The form of a body: its fields and how often each occurs, against the approved fixture.\<close>

definition same_form :: "(string \<times> string) list \<Rightarrow> (string \<times> string) list \<Rightarrow> bool" where
  "same_form vs os \<longleftrightarrow>
     length (values_keys vs) = length (values_keys os)
     \<and> list_all (\<lambda>name. length (values_of vs name) = length (values_of os name)) (values_keys os)"

text \<open>The checks of \<open>admitFormFuzzDecision\<close> before it takes the lock.\<close>

definition form_fuzz_refused ::
  "scan_request \<Rightarrow> fuzz_approval \<Rightarrow> string \<Rightarrow> string \<Rightarrow> string \<Rightarrow> string option" where
  "form_fuzz_refused rq a raw content_type body =
     (if \<not> fz_repeat_testing_approved a \<or> raw \<noteq> rq_post_url rq \<or> \<not> rq_test_environment rq
      then Some ''POST is outside the exact approved form operation''
      else if media_type content_type \<noteq> Some ''application/x-www-form-urlencoded''
      then Some ''POST content type is not the approved URL-encoded format''
      else if (case rq_app_scope rq of None \<Rightarrow> True | Some s \<Rightarrow> \<not> fst (allows s raw))
      then Some ''POST destination is outside approved scope''
      else if (case rq_app_scope rq of None \<Rightarrow> True | Some s \<Rightarrow> excluded s ''POST'' raw \<noteq> None)
      then Some ''POST operation is excluded''
      else
        let (vs, ok) = parse_query body; (os, ok') = parse_query (rq_post_body rq)
        in if \<not> ok \<or> int (length body) > 65536 then Some ''POST body is malformed or exceeds the fixture budget''
           else if \<not> ok' \<or> length (values_keys vs) \<noteq> length (values_keys os)
           then Some ''POST field structure differs from the approved fixture''
           else if \<not> same_form vs os
           then Some ''POST field multiplicity differs from the approved fixture''
           else None)"

definition admit_form_fuzz ::
  "scan_request \<Rightarrow> string \<Rightarrow> string \<Rightarrow> string \<Rightarrow> gateway \<Rightarrow> gateway \<times> bool \<times> string" where
  "admit_form_fuzz rq raw content_type body g =
     (case rq_post_approval rq of
        None \<Rightarrow> (g, False, '''')
      | Some a \<Rightarrow>
          (case form_fuzz_refused rq a raw content_type body of
             Some why \<Rightarrow> (g, False, why)
           | None \<Rightarrow>
               if \<not> gw_fuzz_armed g then (g, False, ''form fuzz journal intent is not active'')
               else if gw_fuzz_requests g \<ge> fz_request_limit a
               then (g, False, ''approved POST request budget exhausted'')
               else (g\<lparr>gw_fuzz_requests := gw_fuzz_requests g + 1, gw_in_flight := gw_in_flight g + 1\<rparr>, True, '''')))"

section \<open>The POST gate\<close>

definition selected_post :: "gateway_env \<Rightarrow> scan_request \<Rightarrow> string \<Rightarrow> string \<Rightarrow> bool" where
  "selected_post env rq raw body \<longleftrightarrow>
     list_ex (\<lambda>i. si_selected i \<and> si_read_only i \<and> si_method i = ''POST'' \<and> si_url i = raw
                  \<and> si_body_digest i \<noteq> '''' \<and> si_body_digest i = body_digest env body) (rq_input_requests rq)"

definition max_body :: int where "max_body = 2097152"

text \<open>The body as the gateway reads it, and whether that failed.\<close>

definition read_body :: "proxied \<Rightarrow> string \<times> bool" where
  "read_body r =
     (case hr_body r of None \<Rightarrow> ('''', False) | Some (s, err) \<Rightarrow> (read_limited (max_body + 1) s, err))"

text \<open>The verdict on a POST: whether it was admitted as form fuzzing, and the reason it is blocked for.\<close>

definition post_gate ::
  "gateway_env \<Rightarrow> scan_request \<Rightarrow> scan_config \<Rightarrow> proxied \<Rightarrow> gateway \<Rightarrow> gateway \<times> bool \<times> string option" where
  "post_gate env rq cf r g =
     (let (body, err) = read_body r; raw = hr_url r; ct = header_get (hr_header r) ''Content-Type'';
          (g1, fuzz, why) = (if err then (g, False, '''') else admit_form_fuzz rq raw ct body g)
      in if err \<or> int (length body) > max_body
            \<or> (\<not> fuzz \<and> (\<not> selected_post env rq raw body
                         \<or> browser_discovery_refused env rq cf (hr_method r) raw ct body \<noteq> None))
         then (g1, fuzz, Some (if why = '''' then ''POST does not match an approved read-only request'' else why))
         else (g1, fuzz, None))"

section \<open>Credentials\<close>

text \<open>The origin of a URL, or the zero value that \<open>ParseApprovedOrigin\<close> returns with its error.\<close>

definition origin_or_zero :: "string \<Rightarrow> string \<times> string \<times> int" where
  "origin_or_zero raw =
     (case parse_approved_origin '''' raw of
        Inl _ \<Rightarrow> ('''', '''', 0) | Inr ori \<Rightarrow> (ao_scheme ori, ao_host ori, ao_port ori))"

definition bound_lines :: "string \<Rightarrow> (string \<times> string) list" where
  "bound_lines auth =
     List.map_filter (\<lambda>h. let (name, v, ok) = cut_at (CHR '':'') h
                          in if ok then Some (trim_space name, trim_space v) else None)
       (split_on (CHR 0x0A) auth)"

definition bind_headers :: "string \<Rightarrow> bool \<Rightarrow> header \<Rightarrow> header" where
  "bind_headers auth same h =
     (let h1 = header_del ''Proxy-Connection'' (header_del ''Proxy-Authorization'' h);
          h2 = fold (\<lambda>(name, v). header_del name) (bound_lines auth) h1
      in if same then fold (\<lambda>(name, v). header_set name v) (bound_lines auth) h2
         else header_del ''Cookie'' (header_del ''Authorization'' h2))"

section \<open>Receipts\<close>

text \<open>The last argument is \<open>contextIDs[0]\<close>, the request's own authentication context. The loop over
  the headers of an input is over a Go map; it only asks whether all sensitive ones match and one did.\<close>

definition input_authentication_matches ::
  "gateway_env \<Rightarrow> scanner_input \<Rightarrow> header \<Rightarrow> string \<Rightarrow> bool \<Rightarrow> string \<Rightarrow> bool" where
  "input_authentication_matches env i h auth same context =
     (let bound = (same \<and> trim_space auth \<noteq> '''')
      in if si_auth_context_id i = ''''
         then \<not> (bound \<or> header_get h ''Authorization'' \<noteq> '''' \<or> header_get h ''Cookie'' \<noteq> '''')
         else if bound
         then (if context \<noteq> '''' then si_auth_context_id i = context
               else si_auth_context_id i = inventory_id env [si_inventory_scope i, ''target-bound''])
         else
           let sensitive = filter (\<lambda>(name, v). sensitive_telemetry_key name) (si_headers i)
           in sensitive \<noteq> [] \<and> list_all (\<lambda>(name, v). v \<noteq> '''' \<and> header_get h name = v) sensitive)"

definition url_escaped_path :: "string \<Rightarrow> url \<Rightarrow> string" where
  "url_escaped_path raw u = escaped_path (u_path u) (written_path (u_scheme u) (written_rest raw))"

definition same_resource :: "string \<Rightarrow> string \<Rightarrow> bool" where
  "same_resource candidate raw \<longleftrightarrow>
     (case (url_parse candidate, parse_approved_origin '''' candidate, url_parse raw) of
        (Some c, Inr _, Some u) \<Rightarrow>
          origin_or_zero candidate = origin_or_zero raw
          \<and> url_escaped_path candidate c = url_escaped_path raw u
          \<and> u_raw_query c = u_raw_query u \<and> force_query candidate = force_query raw
      | _ \<Rightarrow> False)"

definition credited ::
  "gateway_env \<Rightarrow> scan_request \<Rightarrow> proxied \<Rightarrow> string \<Rightarrow> header \<Rightarrow> string \<Rightarrow> bool \<Rightarrow> scanner_input \<Rightarrow> bool" where
  "credited env rq r body h auth same i \<longleftrightarrow>
     si_selected i \<and> si_method i = hr_method r
     \<and> input_authentication_matches env i h auth same (rq_auth_context_id rq)
     \<and> \<not> (body \<noteq> '''' \<and> si_body_digest i = '''') \<and> \<not> (si_body_digest i \<noteq> '''' \<and> si_body_digest i \<noteq> ge_sha env body)
     \<and> \<not> (si_content_type i \<noteq> ''''
          \<and> to_lower (trim_space (si_content_type i))
            \<noteq> to_lower (trim_space (header_get (hr_header r) ''Content-Type'')))
     \<and> same_resource (si_url i) (hr_url r)"

section \<open>forward\<close>

record pending =
  pe_event :: coverage_event
  pe_outgoing :: outgoing
  pe_fuzz :: bool

definition request_limit :: "scan_request \<Rightarrow> scan_config \<Rightarrow> int" where
  "request_limit rq cf =
     (if rq_zap_discovery_only rq then cf_web_max_endpoints cf else wrap64 (cf_web_max_endpoints cf * 100))"

definition form_entry_refused :: "scan_request \<Rightarrow> proxied \<Rightarrow> bool" where
  "form_entry_refused rq r \<longleftrightarrow>
     rq_post_approval rq \<noteq> None \<and> hr_method r \<noteq> ''POST''
     \<and> (hr_url r \<noteq> rq_post_url rq \<or> (hr_method r \<noteq> ''GET'' \<and> hr_method r \<noteq> ''HEAD''))"

definition release :: "bool \<Rightarrow> gateway \<Rightarrow> gateway" where
  "release fuzz g = (if fuzz then g\<lparr>gw_in_flight := gw_in_flight g - 1\<rparr> else g)"

definition block ::
  "scan_request \<Rightarrow> moment \<Rightarrow> coverage_event \<Rightarrow> string \<Rightarrow> int \<Rightarrow> gateway \<Rightarrow> gateway \<times> (int + pending)" where
  "block rq mo e reason status g =
     (record_event rq mo (e\<lparr>ce_kind := ''blocked'', ce_reason := reason\<rparr>) g, Inl status)"

text \<open>The request that goes out, and the event that says so.\<close>

definition dispatch ::
  "gateway_env \<Rightarrow> scan_request \<Rightarrow> moment \<Rightarrow> proxied \<Rightarrow> string \<Rightarrow> coverage_event \<Rightarrow> bool \<Rightarrow> gateway \<Rightarrow>
   gateway \<times> (int + pending)" where
  "dispatch env rq mo r body e fuzz g =
     (let auth = gw_target_auth g; same = (origin_or_zero (rq_target rq) = origin_or_zero (hr_url r));
          h = bind_headers auth same (hr_header r);
          e1 = e\<lparr>ce_endpoint_ids := map si_endpoint_id (filter (credited env rq r body h auth same) (rq_input_requests rq)),
                 ce_kind := ''requested''\<rparr>
      in (record_event rq mo e1 g,
          Inr \<lparr>pe_event = e1,
               pe_outgoing = \<lparr>og_method = hr_method r, og_url = hr_url r, og_header = h, og_body = body\<rparr>,
               pe_fuzz = fuzz\<rparr>))"

text \<open>The budgets and the body, after the request has passed the policy.\<close>

definition spend ::
  "gateway_env \<Rightarrow> scan_request \<Rightarrow> scan_config \<Rightarrow> moment \<Rightarrow> proxied \<Rightarrow> coverage_event \<Rightarrow> bool \<Rightarrow> gateway \<Rightarrow>
   gateway \<times> (int + pending)" where
  "spend env rq cf mo r e fuzz g =
     (let g1 = g\<lparr>gw_requests := gw_requests g + 1\<rparr>;
          (budget, waited) = budget_wait (gw_budget g1) (mo_now mo) (mo_ctx mo) (mo_bucket mo) (mo_ctx_after mo);
          g2 = g1\<lparr>gw_budget := budget\<rparr>; (body, err) = read_body r
      in if gw_failed g1 \<or> (request_limit rq cf > 0 \<and> gw_requests g1 > request_limit rq cf)
         then block rq mo e ''recording or request budget unavailable'' 429 g1
         else if waited \<noteq> None then block rq mo e ''assessment budget exhausted'' 429 g2
         else if err \<or> int (length body) > max_body
         then block rq mo e ''request body exceeds recording budget'' 413 g2
         else dispatch env rq mo r body e fuzz g2)"

definition forward_begin ::
  "gateway_env \<Rightarrow> scan_request \<Rightarrow> scan_config \<Rightarrow> moment \<Rightarrow> proxied \<Rightarrow> gateway \<Rightarrow> gateway \<times> (int + pending)" where
  "forward_begin env rq cf mo r g =
     (let e = blank_event\<lparr>ce_url := hr_url r, ce_method := hr_method r\<rparr>
      in if form_entry_refused rq r
         then block rq mo e ''form fuzzing is restricted to its approved entry point'' 403 g
         else if hr_method r = ''POST'' then
           (case post_gate env rq cf r g of
              (g1, fuzz, Some reason) \<Rightarrow> block rq mo e reason 403 (release fuzz g1)
            | (g1, fuzz, None) \<Rightarrow>
                let e1 = (case rq_post_approval rq of
                            Some a \<Rightarrow> if fuzz then e\<lparr>ce_native_ref := ''approved-form-fuzz:'' @ gateway_fuzz_id env a\<rparr> else e
                          | None \<Rightarrow> e)
                in (case spend env rq cf mo r e1 fuzz g1 of
                      (g2, Inl status) \<Rightarrow> (release fuzz g2, Inl status)
                    | (g2, Inr p) \<Rightarrow> (g2, Inr p)))
         else (case browser_request_refused env rq cf (hr_method r) (hr_url r) of
                 Some reason \<Rightarrow> block rq mo e reason 403 g
               | None \<Rightarrow> spend env rq cf mo r e False g))"

text \<open>The answer: what is recorded and what the scanner gets, its status, headers and body.\<close>

definition max_response :: int where "max_response = 8388608"

definition forward_end ::
  "scan_request \<Rightarrow> moment \<Rightarrow> pending \<Rightarrow> upstream \<Rightarrow> gateway \<Rightarrow> gateway \<times> int \<times> header \<times> string" where
  "forward_end rq mo p up g =
     (let fail = (\<lambda>reason. record_event rq mo ((pe_event p)\<lparr>ce_kind := ''failed'', ce_reason := reason\<rparr>) g)
      in case up of
           UpstreamError \<Rightarrow> (release (pe_fuzz p) (fail ''upstream request failed''), 502, [], '''')
         | Answer status h body err \<Rightarrow>
             let data = read_limited (max_response + 1) body
             in if err \<or> int (length data) > max_response
                then (release (pe_fuzz p) (fail ''upstream response exceeds recording limit''), 502, [], '''')
                else (release (pe_fuzz p)
                        (record_event rq mo ((pe_event p)\<lparr>ce_kind := ''observed'', ce_response_code := status\<rparr>) g),
                      status, filter (\<lambda>(k, vs). to_lower k \<noteq> ''connection'') h, data))"

section \<open>ServeHTTP\<close>

text \<open>A CONNECT is answered only for an approved origin; the request inside the tunnel is then
  forwarded with the tunnel's scheme and host, whatever its own headers say.\<close>

definition connect_refused :: "scan_request \<Rightarrow> string \<Rightarrow> int option" where
  "connect_refused rq host =
     (case parse_approved_origin '''' (''https://'' @ host @ ''/'') of
        Inl _ \<Rightarrow> Some 400
      | Inr ori \<Rightarrow>
          if (case rq_app_scope rq of None \<Rightarrow> False
              | Some s \<Rightarrow> list_ex (\<lambda>a. ao_scheme a = ao_scheme ori \<and> ao_host a = ao_host ori \<and> ao_port a = ao_port ori)
                            (sc_origins s))
          then None else Some 403)"

text \<open>\<open>hr_url\<close> of the inner request is its path and query.\<close>

definition tunnelled :: "string \<Rightarrow> proxied \<Rightarrow> proxied" where
  "tunnelled host inner =
     inner\<lparr>hr_host := host,
           hr_url := ''https://'' @ escape_with host_must_escape host
             @ (if hr_url inner \<noteq> '''' \<and> \<not> has_prefix (hr_url inner) ''/'' \<and> \<not> has_prefix (hr_url inner) ''?'' then ''/'' else '''')
             @ hr_url inner\<rparr>"

definition serve_begin ::
  "gateway_env \<Rightarrow> scan_request \<Rightarrow> scan_config \<Rightarrow> moment \<Rightarrow> proxied \<Rightarrow> proxied option \<Rightarrow> gateway \<Rightarrow>
   gateway \<times> (int + pending)" where
  "serve_begin env rq cf mo r inner g =
     (if gw_closing g then (g, Inl 503)
      else if header_get (hr_header r) ''Proxy-Authorization'' \<noteq> gw_authorization g then (g, Inl 407)
      else if hr_method r = ''CONNECT'' then
        (case connect_refused rq (hr_host r) of
           Some status \<Rightarrow>
             if status = 403
             then block rq mo (blank_event\<lparr>ce_method := ''CONNECT'', ce_url := ''https://'' @ hr_host r @ ''/''\<rparr>)
                    ''origin not approved'' 403 g
             else (g, Inl status)
         | None \<Rightarrow> (case inner of None \<Rightarrow> (g, Inl 200)
                    | Some q \<Rightarrow> forward_begin env rq cf mo (tunnelled (hr_host r) q) g))
      else forward_begin env rq cf mo r g)"

section \<open>Dialling\<close>

text \<open>\<open>guardedDial\<close>: \<open>lookup\<close> is the resolver (\<open>None\<close>: an error), \<open>dial\<close> whether a connection to an address
  succeeds. The result is the address connected to.\<close>

definition show_ip :: "nat list \<Rightarrow> string" where
  "show_ip ip =
     (if ip_is_v4 ip then show_v4 [ip ! 6 div 256, ip ! 6 mod 256, ip ! 7 div 256, ip ! 7 mod 256] else show_groups ip)"

definition join_host_port :: "string \<Rightarrow> string \<Rightarrow> string" where
  "join_host_port host port =
     (if CHR '':'' \<in> set host then ''['' @ host @ '']:'' @ port else host @ '':'' @ port)"

definition guarded_dial ::
  "scan_request \<Rightarrow> scan_config \<Rightarrow> moment \<Rightarrow> (string \<Rightarrow> string list option) \<Rightarrow> (string \<Rightarrow> bool) \<Rightarrow> string \<Rightarrow> gateway \<Rightarrow>
   gateway \<times> string option" where
  "guarded_dial rq cf mo lookup dial address g =
     (case split_host_port address of
        None \<Rightarrow> (g, None)
      | Some (host, port) \<Rightarrow>
          (case (case parse_ip host of Some ip \<Rightarrow> Some [show_ip ip] | None \<Rightarrow> lookup host) of
             None \<Rightarrow> (g, None)
           | Some addrs \<Rightarrow>
               if addrs = [] then (g, None)
               else (case guard_refused cf (''http://'' @ address @ ''/'') addrs of
                       Some reason \<Rightarrow>
                         (record_event rq mo (blank_event\<lparr>ce_kind := ''blocked'', ce_url := ''http://'' @ address @ ''/'',
                            ce_reason := reason\<rparr>) g, None)
                     | None \<Rightarrow> (g, find dial (map (\<lambda>a. join_host_port a port) addrs)))))"

lemma guarded_dial_checked:
  assumes "guarded_dial rq cf mo lookup dial address g = (g', Some conn)"
  obtains host port addrs a where "split_host_port address = Some (host, port)"
    "addrs = (case parse_ip host of Some ip \<Rightarrow> [show_ip ip] | None \<Rightarrow> the (lookup host))"
    "guard_refused cf (''http://'' @ address @ ''/'') addrs = None" "a \<in> set addrs" "conn = join_host_port a port"
  using assms
  by (fastforce simp: guarded_dial_def find_Some_iff in_set_conv_nth split: option.splits if_splits prod.splits)

end
