(* ===== verification/GatewayRuns.thy ===== *)
theory GatewayRuns
  imports Gateway
begin

text \<open>
  The recording gateway at work. Its connections run concurrently; the code takes its lock to admit a
  form POST, to count a request and to record an event, and waits for the upstream without it. A
  \<open>gateway_step\<close> is one side of that wait, or one call of the scanner's owner, in any order;
  \<open>gw_world\<close> also keeps what is under way and everything that was ever sent.
\<close>

section \<open>Steps\<close>

record gw_world =
  wd_gateway :: gateway
  wd_pending :: "pending list"
  wd_sent :: "pending list"

inductive gateway_step ::
  "gateway_env \<Rightarrow> scan_request \<Rightarrow> scan_config \<Rightarrow> gw_world \<Rightarrow> gw_world \<Rightarrow> bool"
  for env rq cf where
  sends: "serve_begin env rq cf mo r inner (wd_gateway w) = (g, Inr p) \<Longrightarrow>
    gateway_step env rq cf w \<lparr>wd_gateway = g, wd_pending = wd_pending w @ [p], wd_sent = wd_sent w @ [p]\<rparr>"
| refuses: "serve_begin env rq cf mo r inner (wd_gateway w) = (g, Inl status) \<Longrightarrow>
    gateway_step env rq cf w (w\<lparr>wd_gateway := g\<rparr>)"
| answers: "p \<in> set (wd_pending w) \<Longrightarrow> forward_end rq mo p up (wd_gateway w) = (g, reply) \<Longrightarrow>
    gateway_step env rq cf w (w\<lparr>wd_gateway := g, wd_pending := remove1 p (wd_pending w)\<rparr>)"
| arms: "gateway_step env rq cf w (w\<lparr>wd_gateway := arm_form_fuzz (wd_gateway w)\<rparr>)"
| disarms: "gateway_step env rq cf w (w\<lparr>wd_gateway := disarm_form_fuzz (wd_gateway w)\<rparr>)"
| reauthenticates: "gateway_step env rq cf w (w\<lparr>wd_gateway := update_target_auth headers (wd_gateway w)\<rparr>)"
| enters: "gateway_step env rq cf w (w\<lparr>wd_gateway := set_phase phase (wd_gateway w)\<rparr>)"
| closes: "gateway_step env rq cf w (w\<lparr>wd_gateway := close_gateway synced (wd_gateway w)\<rparr>)"

inductive gateway_run :: "gateway_env \<Rightarrow> scan_request \<Rightarrow> scan_config \<Rightarrow> gw_world \<Rightarrow> bool"
  for env rq cf where
  opened: "new_gateway rq mo scanner authorization auth budget = Some g \<Longrightarrow>
    gateway_run env rq cf \<lparr>wd_gateway = g, wd_pending = [], wd_sent = []\<rparr>"
| continued: "gateway_run env rq cf w \<Longrightarrow> gateway_step env rq cf w w' \<Longrightarrow> gateway_run env rq cf w'"

section \<open>What may be sent\<close>

text \<open>A POST with exactly the fields of the approved fixture, to the approved form.\<close>

definition form_post :: "scan_request \<Rightarrow> outgoing \<Rightarrow> bool" where
  "form_post rq out \<longleftrightarrow>
     (\<exists>a. rq_post_approval rq = Some a \<and> fz_repeat_testing_approved a) \<and> rq_test_environment rq
     \<and> og_url out = rq_post_url rq \<and> snd (parse_query (og_body out)) \<and> snd (parse_query (rq_post_body rq))
     \<and> (\<forall>name. length (values_of (fst (parse_query (og_body out))) name)
              = length (values_of (fst (parse_query (rq_post_body rq))) name))"

text \<open>A POST that is byte for byte a selected read-only request and reads by one GraphQL query.\<close>

definition read_only_post :: "gateway_env \<Rightarrow> scan_request \<Rightarrow> outgoing \<Rightarrow> bool" where
  "read_only_post env rq out \<longleftrightarrow>
     (\<exists>i \<in> set (rq_input_requests rq). si_selected i \<and> si_read_only i \<and> si_method i = ''POST''
        \<and> si_url i = og_url out \<and> si_body_digest i = ge_sha env (og_body out))
     \<and> (\<exists>query name ops. ge_payload env (og_body out) = Some (query, name) \<and> ge_gql env query = Some ops
        \<and> (\<forall>opn \<in> set ops. go_kind opn = GqlQuery)
        \<and> length (filter (\<lambda>opn. name = '''' \<or> go_name opn = name) ops) = 1)"

definition approved_outgoing :: "gateway_env \<Rightarrow> scan_request \<Rightarrow> pending \<Rightarrow> bool" where
  "approved_outgoing env rq p \<longleftrightarrow>
     (let out = pe_outgoing p in
      (\<exists>s. rq_app_scope rq = Some s \<and> fst (allows s (og_url out)) \<and> excluded s (og_method out) (og_url out) = None)
      \<and> (if pe_fuzz p then og_method out = ''POST'' \<and> form_post rq out
         else og_method out \<in> {''GET'', ''HEAD'', ''OPTIONS''} \<or> og_method out = ''POST'' \<and> read_only_post env rq out))"

section \<open>The parts of a decision\<close>

lemma first_reason_None [simp]: "first_reason a b = None \<longleftrightarrow> a = None \<and> b = None"
  by (simp add: first_reason_def split: option.split)

lemma scope_refused_None:
  "scope_refused env s m raw = None \<longleftrightarrow> fst (allows s raw) \<and> excluded s m raw = None"
  by (auto simp: scope_refused_def split: prod.split option.split)

lemma browser_request_refused_None:
  "browser_request_refused env rq cf m raw = None \<Longrightarrow>
     (\<exists>s. rq_app_scope rq = Some s \<and> fst (allows s raw) \<and> excluded s m raw = None)
     \<and> m \<in> {''GET'', ''HEAD'', ''OPTIONS''}"
  by (auto simp: browser_request_refused_def scope_refused_None split: option.splits if_splits)

lemma graphql_body_refused_None:
  "graphql_body_refused env ct body = None \<Longrightarrow>
     \<exists>query name ops. ge_payload env body = Some (query, name) \<and> ge_gql env query = Some ops
        \<and> (\<forall>opn \<in> set ops. go_kind opn = GqlQuery)
        \<and> length (filter (\<lambda>opn. name = '''' \<or> go_name opn = name) ops) = 1"
  by (auto simp: graphql_body_refused_def list_ex_iff split: option.splits if_splits)

lemma browser_discovery_refused_None:
  "browser_discovery_refused env rq cf ''POST'' raw ct body = None \<Longrightarrow>
     (\<exists>s. rq_app_scope rq = Some s \<and> fst (allows s raw) \<and> excluded s ''POST'' raw = None)
     \<and> graphql_body_refused env ct body = None"
  by (auto simp: browser_discovery_refused_def scope_refused_None split: option.splits)

lemma values_of_Nil_iff: "values_of vs k = [] \<longleftrightarrow> k \<notin> set (values_keys vs)"
  by (force simp: values_of_def values_keys_def filter_empty_conv)

lemma same_form_iff: "same_form vs os \<longleftrightarrow> (\<forall>k. length (values_of vs k) = length (values_of os k))"
proof
  assume form: "same_form vs os"
  have sub: "set (values_keys os) \<subseteq> set (values_keys vs)"
  proof
    fix k assume k: "k \<in> set (values_keys os)"
    then have "length (values_of vs k) = length (values_of os k)"
      using form by (simp add: same_form_def list_all_iff)
    with k show "k \<in> set (values_keys vs)"
      using values_of_Nil_iff [of vs k] values_of_Nil_iff [of os k] by auto
  qed
  have "distinct (values_keys vs)" "distinct (values_keys os)" by (simp_all add: values_keys_def)
  with form have "card (set (values_keys vs)) = card (set (values_keys os))"
    by (simp add: same_form_def distinct_card)
  with sub have eq: "set (values_keys os) = set (values_keys vs)" by (simp add: card_subset_eq)
  show "\<forall>k. length (values_of vs k) = length (values_of os k)"
  proof
    fix k show "length (values_of vs k) = length (values_of os k)"
      using form eq values_of_Nil_iff [of vs k] values_of_Nil_iff [of os k]
      by (cases "k \<in> set (values_keys os)") (auto simp: same_form_def list_all_iff)
  qed
next
  assume all: "\<forall>k. length (values_of vs k) = length (values_of os k)"
  have "k \<in> set (values_keys vs) \<longleftrightarrow> k \<in> set (values_keys os)" for k
    using all values_of_Nil_iff [of vs k] values_of_Nil_iff [of os k] by (metis length_0_conv)
  then have "set (values_keys vs) = set (values_keys os)" by blast
  moreover have "distinct (values_keys vs)" "distinct (values_keys os)" by (simp_all add: values_keys_def)
  ultimately have "length (values_keys vs) = length (values_keys os)" by (metis distinct_card)
  with all show "same_form vs os" by (simp add: same_form_def list_all_iff)
qed

text \<open>Admission as form fuzzing takes one of the approved requests and one place in flight.\<close>

definition admitted :: "scan_request \<Rightarrow> bool \<Rightarrow> gateway \<Rightarrow> gateway \<Rightarrow> bool" where
  "admitted rq fuzz g g' \<longleftrightarrow>
     (if fuzz then gw_fuzz_armed g \<and> gw_in_flight g' = gw_in_flight g + 1
        \<and> gw_fuzz_requests g' = gw_fuzz_requests g + 1
        \<and> (\<exists>a. rq_post_approval rq = Some a \<and> gw_fuzz_requests g' \<le> fz_request_limit a)
      else gw_in_flight g' = gw_in_flight g \<and> gw_fuzz_requests g' = gw_fuzz_requests g)"

definition steady :: "gateway \<Rightarrow> gateway \<Rightarrow> bool" where
  "steady g g' \<longleftrightarrow> gw_fuzz_armed g' = gw_fuzz_armed g \<and> gw_target_auth g' = gw_target_auth g"

lemma admit_form_fuzz_admitted:
  "admit_form_fuzz rq raw ct body g = (g', fuzz, why) \<Longrightarrow>
     admitted rq fuzz g g' \<and> steady g g' \<and> gw_requests g' = gw_requests g
     \<and> (if fuzz then \<exists>a. rq_post_approval rq = Some a \<and> form_fuzz_refused rq a raw ct body = None else True)"
  by (auto simp: admit_form_fuzz_def admitted_def steady_def split: option.splits if_splits)

lemma form_fuzz_refused_None:
  "form_fuzz_refused rq a raw ct body = None \<Longrightarrow>
     fz_repeat_testing_approved a \<and> raw = rq_post_url rq \<and> rq_test_environment rq
     \<and> (\<exists>s. rq_app_scope rq = Some s \<and> fst (allows s raw) \<and> excluded s ''POST'' raw = None)
     \<and> snd (parse_query body) \<and> snd (parse_query (rq_post_body rq))
     \<and> same_form (fst (parse_query body)) (fst (parse_query (rq_post_body rq)))"
  by (auto simp: form_fuzz_refused_def Let_def split: if_splits option.splits prod.splits)

lemma selected_post_iff:
  "selected_post env rq raw body \<Longrightarrow>
     \<exists>i \<in> set (rq_input_requests rq). si_selected i \<and> si_read_only i \<and> si_method i = ''POST''
        \<and> si_url i = raw \<and> si_body_digest i = ge_sha env body"
  by (force simp: selected_post_def list_ex_iff body_digest_def split: if_splits)

lemma post_gate_passes:
  assumes "post_gate env rq cf r g = (g', fuzz, why)" "hr_method r = ''POST''"
  shows "admitted rq fuzz g g' \<and> steady g g' \<and> gw_requests g' = gw_requests g"
    and "why = None \<Longrightarrow> og_method out = ''POST'' \<Longrightarrow> og_url out = hr_url r \<Longrightarrow> og_body out = fst (read_body r) \<Longrightarrow>
      approved_outgoing env rq \<lparr>pe_event = e, pe_outgoing = out, pe_fuzz = fuzz\<rparr>"
proof -
  obtain body err where rb: "read_body r = (body, err)" by (cases "read_body r")
  let ?ct = "header_get (hr_header r) ''Content-Type''"
  obtain g1 f1 w1 where adm: "(if err then (g, False, '''') else admit_form_fuzz rq (hr_url r) ?ct body g) = (g1, f1, w1)"
    by (cases "if err then (g, False, '''') else admit_form_fuzz rq (hr_url r) ?ct body g")
  have g': "g' = g1" "fuzz = f1" and pass: "why = None \<Longrightarrow> \<not> err \<and> (fuzz \<or> selected_post env rq (hr_url r) body
      \<and> browser_discovery_refused env rq cf (hr_method r) (hr_url r) ?ct body = None)"
    using assms(1) by (auto simp: post_gate_def rb adm Let_def split: if_splits)
  show "admitted rq fuzz g g' \<and> steady g g' \<and> gw_requests g' = gw_requests g"
  proof (cases err)
    case True
    with adm show ?thesis by (auto simp: g' admitted_def steady_def)
  next
    case False
    with adm have "admit_form_fuzz rq (hr_url r) ?ct body g = (g1, f1, w1)" by simp
    from admit_form_fuzz_admitted [OF this] show ?thesis by (simp add: g')
  qed
  assume "why = None" and out: "og_method out = ''POST''" "og_url out = hr_url r" "og_body out = fst (read_body r)"
  note pass = pass [OF \<open>why = None\<close>]
  show "approved_outgoing env rq \<lparr>pe_event = e, pe_outgoing = out, pe_fuzz = fuzz\<rparr>"
  proof (cases fuzz)
    case True
    with adm pass have a: "admit_form_fuzz rq (hr_url r) ?ct body g = (g1, True, w1)" by (simp add: g')
    from admit_form_fuzz_admitted [OF this] obtain a where
      "rq_post_approval rq = Some a" "form_fuzz_refused rq a (hr_url r) ?ct body = None" by auto
    with form_fuzz_refused_None [OF this(2)] True out rb show ?thesis
      by (auto simp: approved_outgoing_def form_post_def same_form_iff)
  next
    case False
    with pass assms(2) have s: "selected_post env rq (hr_url r) body"
      and d: "browser_discovery_refused env rq cf ''POST'' (hr_url r) ?ct body = None" by auto
    with browser_discovery_refused_None [OF d] graphql_body_refused_None [of env ?ct body] False out rb
      selected_post_iff [OF s]
    show ?thesis by (auto simp: approved_outgoing_def read_only_post_def)
  qed
qed

text \<open>Spending: a request that is sent was counted within the limit.\<close>

lemma block_facts:
  "block rq mo e reason st g = (g', Inl st') \<Longrightarrow>
     gw_in_flight g' = gw_in_flight g \<and> gw_fuzz_requests g' = gw_fuzz_requests g \<and> steady g g'
     \<and> gw_requests g' = gw_requests g"
  by (auto simp: block_def steady_def)

lemma dispatch_facts:
  "dispatch env rq mo r body e fuzz g = (g', res) \<Longrightarrow>
     gw_in_flight g' = gw_in_flight g \<and> gw_fuzz_requests g' = gw_fuzz_requests g \<and> steady g g'
     \<and> gw_requests g' = gw_requests g
     \<and> (\<exists>p. res = Inr p \<and> pe_fuzz p = fuzz \<and> og_method (pe_outgoing p) = hr_method r \<and> og_url (pe_outgoing p) = hr_url r
        \<and> og_body (pe_outgoing p) = body
        \<and> og_header (pe_outgoing p) = bind_headers (gw_target_auth g)
            (origin_or_zero (rq_target rq) = origin_or_zero (hr_url r)) (hr_header r))"
  by (auto simp: dispatch_def steady_def Let_def)

definition sent_as :: "scan_request \<Rightarrow> proxied \<Rightarrow> bool \<Rightarrow> gateway \<Rightarrow> pending \<Rightarrow> bool" where
  "sent_as rq r fuzz g p \<longleftrightarrow>
     pe_fuzz p = fuzz \<and> og_method (pe_outgoing p) = hr_method r \<and> og_url (pe_outgoing p) = hr_url r
     \<and> og_body (pe_outgoing p) = fst (read_body r)
     \<and> og_header (pe_outgoing p) = bind_headers (gw_target_auth g)
         (origin_or_zero (rq_target rq) = origin_or_zero (hr_url r)) (hr_header r)"

lemma spend_facts:
  assumes "spend env rq cf mo r e fuzz g = (g', res)"
  shows "gw_in_flight g' = gw_in_flight g \<and> gw_fuzz_requests g' = gw_fuzz_requests g \<and> steady g g'
     \<and> gw_requests g' = gw_requests g + 1
     \<and> (\<forall>p. res = Inr p \<longrightarrow> (request_limit rq cf > 0 \<longrightarrow> gw_requests g' \<le> request_limit rq cf) \<and> sent_as rq r fuzz g p)"
proof -
  obtain budget waited where w: "budget_wait (gw_budget g) (mo_now mo) (mo_ctx mo) (mo_bucket mo) (mo_ctx_after mo) = (budget, waited)"
    by (cases "budget_wait (gw_budget g) (mo_now mo) (mo_ctx mo) (mo_bucket mo) (mo_ctx_after mo)")
  obtain body err where rb: "read_body r = (body, err)" by (cases "read_body r")
  show ?thesis
    using assms dispatch_facts [of env rq mo r body e fuzz "g\<lparr>gw_requests := gw_requests g + 1, gw_budget := budget\<rparr>" g' res]
    by (auto simp: spend_def w rb Let_def block_def steady_def sent_as_def split: if_splits)
qed

section \<open>One request\<close>

lemma release_facts [simp]:
  "gw_in_flight (release fuzz g) = gw_in_flight g - of_bool fuzz"
  "gw_fuzz_requests (release fuzz g) = gw_fuzz_requests g"
  "gw_fuzz_armed (release fuzz g) = gw_fuzz_armed g"
  "gw_target_auth (release fuzz g) = gw_target_auth g"
  "gw_requests (release fuzz g) = gw_requests g"
  by (simp_all add: release_def)

text \<open>What a request that is sent does to the counters, and what one that is not.\<close>

definition sends_one :: "gateway_env \<Rightarrow> scan_request \<Rightarrow> scan_config \<Rightarrow> proxied \<Rightarrow> gateway \<Rightarrow> gateway \<Rightarrow> pending \<Rightarrow> bool" where
  "sends_one env rq cf r g g' p \<longleftrightarrow>
     admitted rq (pe_fuzz p) g g' \<and> steady g g' \<and> gw_requests g' = gw_requests g + 1
     \<and> (request_limit rq cf > 0 \<longrightarrow> gw_requests g' \<le> request_limit rq cf)
     \<and> approved_outgoing env rq p \<and> sent_as rq r (pe_fuzz p) g p"

definition sends_none :: "scan_request \<Rightarrow> gateway \<Rightarrow> gateway \<Rightarrow> bool" where
  "sends_none rq g g' \<longleftrightarrow>
     steady g g' \<and> gw_in_flight g' = gw_in_flight g \<and> gw_requests g \<le> gw_requests g'
     \<and> gw_fuzz_requests g \<le> gw_fuzz_requests g'
     \<and> (gw_fuzz_requests g' = gw_fuzz_requests g
        \<or> (\<exists>a. rq_post_approval rq = Some a \<and> gw_fuzz_requests g' \<le> fz_request_limit a))"

lemma steady_trans: "steady a b \<Longrightarrow> steady b c \<Longrightarrow> steady a c"
  by (simp add: steady_def)

lemma steady_auth: "steady a b \<Longrightarrow> gw_target_auth b = gw_target_auth a"
  by (simp add: steady_def)

lemma spend_after_gate:
  assumes gate: "post_gate env rq cf r g = (g1, fuzz, None)" "hr_method r = ''POST''"
    and spend: "spend env rq cf mo r e fuzz g1 = (g', res)"
  shows "case res of Inr p \<Rightarrow> sends_one env rq cf r g g' p | Inl st \<Rightarrow> sends_none rq g (release fuzz g')"
proof -
  note adm = post_gate_passes(1) [OF gate]
  note ok = post_gate_passes(2) [OF gate]
  note sp = spend_facts [OF spend]
  show ?thesis
  proof (cases res)
    case (Inl st)
    with adm sp show ?thesis
      by (auto simp: sends_none_def admitted_def steady_def split: if_splits)
  next
    case (Inr p)
    with sp have lim: "request_limit rq cf > 0 \<longrightarrow> gw_requests g' \<le> request_limit rq cf" and as: "sent_as rq r fuzz g1 p"
      by auto
    from adm have auth: "gw_target_auth g1 = gw_target_auth g" by (simp add: steady_def)
    have fz: "pe_fuzz p = fuzz" using as by (simp add: sent_as_def)
    have "approved_outgoing env rq \<lparr>pe_event = pe_event p, pe_outgoing = pe_outgoing p, pe_fuzz = fuzz\<rparr>"
      using as gate(2) by (intro ok) (simp_all add: sent_as_def)
    then have "approved_outgoing env rq p" by (simp add: approved_outgoing_def fz)
    moreover have "sent_as rq r (pe_fuzz p) g p" using as auth by (simp add: sent_as_def)
    moreover have "admitted rq (pe_fuzz p) g g'" using adm sp unfolding fz admitted_def by auto
    ultimately show ?thesis using adm sp lim
      by (simp add: Inr sends_one_def steady_def)
  qed
qed

lemma forward_begin_facts:
  assumes "forward_begin env rq cf mo r g = (g', res)"
  shows "case res of Inr p \<Rightarrow> sends_one env rq cf r g g' p | Inl st \<Rightarrow> sends_none rq g g'"
proof -
  let ?e = "blank_event\<lparr>ce_url := hr_url r, ce_method := hr_method r\<rparr>"
  consider (entry) "form_entry_refused rq r"
    | (post) "\<not> form_entry_refused rq r" "hr_method r = ''POST''"
    | (other) "\<not> form_entry_refused rq r" "hr_method r \<noteq> ''POST''" by blast
  then show ?thesis
  proof cases
    case entry
    with assms show ?thesis by (auto simp: forward_begin_def block_def sends_none_def steady_def Let_def)
  next
    case post
    obtain g1 fuzz why where gate: "post_gate env rq cf r g = (g1, fuzz, why)" by (cases "post_gate env rq cf r g")
    show ?thesis
    proof (cases why)
      case (Some reason)
      with assms post gate post_gate_passes(1) [OF gate post(2)] show ?thesis
        by (auto simp: forward_begin_def block_def sends_none_def steady_def admitted_def Let_def split: if_splits)
    next
      case None
      let ?e1 = "case rq_post_approval rq of
          Some a \<Rightarrow> if fuzz then ?e\<lparr>ce_native_ref := ''approved-form-fuzz:'' @ gateway_fuzz_id env a\<rparr> else ?e | None \<Rightarrow> ?e"
      obtain g2 res2 where sp: "spend env rq cf mo r ?e1 fuzz g1 = (g2, res2)" by (cases "spend env rq cf mo r ?e1 fuzz g1")
      from assms post gate None sp [unfolded post(2)]
      have "(case res2 of Inl st \<Rightarrow> (release fuzz g2, Inl st) | Inr p \<Rightarrow> (g2, Inr p)) = (g', res)"
        by (simp add: forward_begin_def Let_def)
      with spend_after_gate [OF gate [unfolded None] post(2) sp] show ?thesis
        by (auto split: sum.splits)
    qed
  next
    case other
    show ?thesis
    proof (cases "browser_request_refused env rq cf (hr_method r) (hr_url r)")
      case (Some reason)
      with assms other show ?thesis
        by (auto simp: forward_begin_def block_def sends_none_def steady_def Let_def)
    next
      case None
      with assms other have sp: "spend env rq cf mo r ?e False g = (g', res)" by (simp add: forward_begin_def Let_def)
      from browser_request_refused_None [OF None] spend_facts [OF sp] show ?thesis
        by (auto simp: sends_one_def sends_none_def admitted_def approved_outgoing_def sent_as_def split: sum.split)
    qed
  qed
qed

lemma serve_begin_facts:
  assumes "serve_begin env rq cf mo r inner g = (g', res)"
  shows "case res of Inr p \<Rightarrow> \<exists>q. sends_one env rq cf q g g' p | Inl st \<Rightarrow> sends_none rq g g'"
proof -
  have fw: "case res of Inr p \<Rightarrow> \<exists>q. sends_one env rq cf q g g' p | Inl st \<Rightarrow> sends_none rq g g'"
    if "forward_begin env rq cf mo q g = (g', res)" for q
    using forward_begin_facts [OF that] by (auto split: sum.splits)
  have same: "sends_none rq g g" by (simp add: sends_none_def steady_def)
  show ?thesis
    using assms fw same unfolding serve_begin_def
    by (auto split: if_splits option.splits simp: block_def sends_none_def steady_def)
qed

lemma forward_end_facts:
  "forward_end rq mo p up g = (g', reply) \<Longrightarrow>
     gw_in_flight g' = gw_in_flight g - of_bool (pe_fuzz p) \<and> gw_fuzz_requests g' = gw_fuzz_requests g
     \<and> steady g g' \<and> gw_requests g' = gw_requests g"
  by (auto simp: forward_end_def steady_def Let_def split: upstream.splits if_splits)

section \<open>The invariant of a run\<close>

definition fuzz_cap :: "scan_request \<Rightarrow> int" where
  "fuzz_cap rq = (case rq_post_approval rq of None \<Rightarrow> 0 | Some a \<Rightarrow> max 0 (fz_request_limit a))"

definition gw_inv :: "gateway_env \<Rightarrow> scan_request \<Rightarrow> scan_config \<Rightarrow> gw_world \<Rightarrow> bool" where
  "gw_inv env rq cf w \<longleftrightarrow>
     list_all (approved_outgoing env rq) (wd_sent w)
     \<and> gw_in_flight (wd_gateway w) = int (length (filter pe_fuzz (wd_pending w)))
     \<and> int (length (filter pe_fuzz (wd_sent w))) \<le> gw_fuzz_requests (wd_gateway w)
     \<and> gw_fuzz_requests (wd_gateway w) \<le> fuzz_cap rq
     \<and> int (length (wd_sent w)) \<le> gw_requests (wd_gateway w)
     \<and> (request_limit rq cf > 0 \<longrightarrow> int (length (wd_sent w)) \<le> request_limit rq cf)"

lemma fold_record_keeps:
  "gw_in_flight (fold (\<lambda>i. record_event rq mo (f i)) is g) = gw_in_flight g
   \<and> gw_fuzz_requests (fold (\<lambda>i. record_event rq mo (f i)) is g) = gw_fuzz_requests g
   \<and> gw_requests (fold (\<lambda>i. record_event rq mo (f i)) is g) = gw_requests g
   \<and> gw_fuzz_armed (fold (\<lambda>i. record_event rq mo (f i)) is g) = gw_fuzz_armed g"
  by (induction "is" arbitrary: g) auto

lemma length_filter_remove1:
  "p \<in> set ps \<Longrightarrow> int (length (filter Q (remove1 p ps))) = int (length (filter Q ps)) - of_bool (Q p)"
  by (induction ps) auto

lemma gw_inv_step:
  assumes "gateway_step env rq cf w w'" "gw_inv env rq cf w"
  shows "gw_inv env rq cf w'"
  using assms
proof (cases rule: gateway_step.cases)
  case (sends mo r inner g p)
  from serve_begin_facts [OF sends(2)] obtain q where "sends_one env rq cf q (wd_gateway w) g p" by auto
  with assms(2) sends(1) show ?thesis
    by (auto simp: gw_inv_def sends_one_def admitted_def fuzz_cap_def split: if_splits)
next
  case (refuses mo r inner g status)
  from serve_begin_facts [OF refuses(2)] have "sends_none rq (wd_gateway w) g" by simp
  with assms(2) refuses(1) show ?thesis
    by (auto simp: gw_inv_def sends_none_def fuzz_cap_def)
next
  case (answers p mo up g reply)
  with assms(2) forward_end_facts [OF answers(3)] length_filter_remove1 [OF answers(2), of pe_fuzz] show ?thesis
    by (auto simp: gw_inv_def)
qed (auto simp: gw_inv_def arm_form_fuzz_def disarm_form_fuzz_def update_target_auth_def set_phase_def close_gateway_def)

lemma gw_inv_run: "gateway_run env rq cf w \<Longrightarrow> gw_inv env rq cf w"
proof (induction rule: gateway_run.induct)
  case (opened mo scanner authorization auth budget g)
  then show ?case
    by (auto simp: new_gateway_def gw_inv_def fuzz_cap_def fold_record_keeps split: if_splits option.splits)
qed (blast intro: gw_inv_step)

end
