(* ===== verification/GatewayProperties.thy ===== *)
theory GatewayProperties
  imports GatewayRuns
begin

text \<open>
  What the recording gateway promises: only approved requests leave it, approved form fuzzing stays
  within its budget and is over before the cleanup, and credentials stay with the origin they are
  bound to.
\<close>

section \<open>A gateway to evaluate\<close>

definition demo_write :: write_approval where
  "demo_write = \<lparr>wa_target_id = ''t1'', wa_method = ''POST'', wa_path = ''/form'', wa_operation_id = ''op'',
     wa_fixture_ref = ''f'', wa_content_type = ''application/x-www-form-urlencoded'', wa_cleanup_method = ''DELETE'',
     wa_cleanup_path = ''/form'', wa_cleanup_ref = '''', wa_cleanup_content_type = ''''\<rparr>"

definition demo_request :: scan_request where
  "demo_request = \<lparr>
     rq_app_scope = Some (new_app_scope [\<lparr>ao_target_id = ''t1'', ao_scheme = ''https'', ao_host = ''shop.test'', ao_port = 0,
       ao_path_prefix = ''''\<rparr>] []),
     rq_post_approval = Some \<lparr>fz_write = demo_write, fz_scanner = ''wapiti'', fz_request_limit = 1, fz_repeat_testing_approved = True\<rparr>,
     rq_post_url = ''https://shop.test/form'', rq_post_body = ''a=1&b=2'', rq_test_environment = True,
     rq_zap_discovery_only = False, rq_input_requests = [], rq_target = ''https://shop.test'',
     rq_auth_context_id = '''', rq_attempt_id = ''n1''\<rparr>"

definition demo_config :: scan_config where
  "demo_config = \<lparr>cf_web_max_endpoints = 2, cf_scope_guard = None\<rparr>"

definition demo_env :: gateway_env where
  "demo_env = \<lparr>ge_gql = (\<lambda>_. None), ge_payload = (\<lambda>_. None), ge_sha = (\<lambda>s. s), ge_fuzz_json = (\<lambda>_. ''json''),
     ge_scope_text = (\<lambda>_. ''out of scope''), ge_exclude_text = (\<lambda>_. ''excluded'')\<rparr>"

definition demo_moment :: moment where
  "demo_moment = \<lparr>mo_at = '''', mo_encode = (\<lambda>_. True), mo_now = 0, mo_ctx = None, mo_bucket = (\<lambda>_ _. None), mo_ctx_after = None\<rparr>"

definition demo_proxied :: "string \<Rightarrow> string \<Rightarrow> string \<Rightarrow> proxied" where
  "demo_proxied method url body = \<lparr>hr_method = method, hr_url = url, hr_host = ''shop.test'',
     hr_header = [(''Content-Type'', [''application/x-www-form-urlencoded'']), (''Proxy-Authorization'', [''key'']),
       (''Authorization'', [''scanner''])],
     hr_body = Some (body, False)\<rparr>"

definition demo_gateway :: gateway where
  "demo_gateway = arm_form_fuzz (the (new_gateway demo_request demo_moment ''wapiti'' ''key'' ''Authorization: Bearer t'' None))"

definition demo_pending :: pending where
  "demo_pending = \<lparr>
     pe_event = blank_event\<lparr>ce_url := ''https://shop.test/form'', ce_method := ''POST'', ce_kind := ''requested'',
       ce_native_ref := ''approved-form-fuzz:json''\<rparr>,
     pe_outgoing = \<lparr>og_method = ''POST'', og_url = ''https://shop.test/form'',
       og_header = [(''Content-Type'', [''application/x-www-form-urlencoded'']), (''Authorization'', [''Bearer t''])],
       og_body = ''b=x&a=y''\<rparr>,
     pe_fuzz = True\<rparr>"

definition demo_after :: gateway where
  "demo_after = demo_gateway\<lparr>gw_in_flight := 1, gw_fuzz_requests := 1, gw_requests := 1,
     gw_events := [blank_event\<lparr>ce_attempt_id := ''n1'', ce_scanner := ''wapiti'', ce_url := ''https://shop.test/form'',
       ce_method := ''POST'', ce_phase := ''active_test'', ce_kind := ''requested'',
       ce_native_ref := ''approved-form-fuzz:json''\<rparr>]\<rparr>"

lemma demo_sends:
  "serve_begin demo_env demo_request demo_config demo_moment
     (demo_proxied ''POST'' ''https://shop.test/form'' ''b=x&a=y'') None demo_gateway = (demo_after, Inr demo_pending)"
  by code_simp

definition demo_world :: gw_world where
  "demo_world = \<lparr>wd_gateway = demo_after, wd_pending = [demo_pending], wd_sent = [demo_pending]\<rparr>"

lemma demo_run: "gateway_run demo_env demo_request demo_config demo_world"
proof -
  let ?run = "gateway_run demo_env demo_request demo_config"
  let ?new = "new_gateway demo_request demo_moment ''wapiti'' ''key'' ''Authorization: Bearer t'' None"
  have "?new = Some (the ?new)" by (simp add: new_gateway_def demo_request_def)
  then have "?run \<lparr>wd_gateway = the ?new, wd_pending = [], wd_sent = []\<rparr>" by (rule gateway_run.opened)
  from gateway_run.continued [OF this gateway_step.arms]
  have run: "?run \<lparr>wd_gateway = demo_gateway, wd_pending = [], wd_sent = []\<rparr>" by (simp add: demo_gateway_def)
  from demo_sends have "serve_begin demo_env demo_request demo_config demo_moment
     (demo_proxied ''POST'' ''https://shop.test/form'' ''b=x&a=y'') None
     (wd_gateway \<lparr>wd_gateway = demo_gateway, wd_pending = [], wd_sent = []\<rparr>) = (demo_after, Inr demo_pending)" by simp
  from gateway_run.continued [OF run gateway_step.sends [OF this]] show ?thesis
    by (simp add: demo_world_def)
qed

section \<open>Policy\<close>

text \<open>C21: whatever scanners send through the recording gateway, directly or in a tunnel, in any
  interleaving and across re-authentication, every request that leaves it is inside the approved
  scope and not excluded for its method, and it is a GET, HEAD or OPTIONS, or a POST that repeats a
  selected read-only request byte for byte and reads by a single GraphQL query, or a POST to the
  approved form with exactly the fields of the approved fixture.\<close>

theorem gateway_sends_only_approved:
  assumes "gateway_run env rq cf w"
  shows "list_all (approved_outgoing env rq) (wd_sent w)"
  using gw_inv_run [OF assms] by (simp add: gw_inv_def)

theorem gateway_sends_only_approved_witness:
  "list_all (approved_outgoing demo_env demo_request) (wd_sent demo_world)
   \<and> map (og_url \<circ> pe_outgoing) (wd_sent demo_world) = [''https://shop.test/form'']"
proof
  show "map (og_url \<circ> pe_outgoing) (wd_sent demo_world) = [''https://shop.test/form'']" by (simp add: demo_world_def demo_pending_def)
qed (rule gateway_sends_only_approved [OF demo_run])

text \<open>over a whole run no more form-fuzzing POSTs leave the gateway than the operator approved,
  and no more requests than the configured endpoints allow.\<close>

theorem gateway_budgets_hold:
  assumes "gateway_run env rq cf w"
  shows "int (length (filter pe_fuzz (wd_sent w)))
      \<le> (case rq_post_approval rq of None \<Rightarrow> 0 | Some a \<Rightarrow> max 0 (fz_request_limit a))
    \<and> (if 0 < request_limit rq cf then int (length (wd_sent w)) \<le> request_limit rq cf else True)"
  using gw_inv_run [OF assms] by (simp add: gw_inv_def fuzz_cap_def)

theorem gateway_budgets_hold_witness:
  "int (length (filter pe_fuzz (wd_sent demo_world))) \<le> 1 \<and> length (filter pe_fuzz (wd_sent demo_world)) = 1
   \<and> snd (serve_begin demo_env demo_request demo_config demo_moment
       (demo_proxied ''POST'' ''https://shop.test/form'' ''a=1&b=2'') None (wd_gateway demo_world)) = Inl 403"
proof -
  have "length (filter pe_fuzz (wd_sent demo_world)) = 1" by (simp add: demo_world_def demo_pending_def)
  moreover have "snd (serve_begin demo_env demo_request demo_config demo_moment
       (demo_proxied ''POST'' ''https://shop.test/form'' ''a=1&b=2'') None (wd_gateway demo_world)) = Inl 403"
    by code_simp
  ultimately show ?thesis
    using gateway_budgets_hold [OF demo_run] by (simp add: demo_request_def)
qed

section \<open>Draining\<close>

text \<open>Steps in which the owner does not arm the form fuzzing.\<close>

definition unarmed_step :: "gateway_env \<Rightarrow> scan_request \<Rightarrow> scan_config \<Rightarrow> gw_world \<Rightarrow> gw_world \<Rightarrow> bool" where
  "unarmed_step env rq cf w w' \<longleftrightarrow> gateway_step env rq cf w w' \<and> \<not> gw_fuzz_armed (wd_gateway w')"

lemma unarmed_step_quiet:
  assumes "unarmed_step env rq cf w w'" "\<not> gw_fuzz_armed (wd_gateway w)" "filter pe_fuzz (wd_pending w) = []"
  shows "filter pe_fuzz (wd_sent w') = filter pe_fuzz (wd_sent w) \<and> filter pe_fuzz (wd_pending w') = []"
  using assms(1) [unfolded unarmed_step_def, THEN conjunct1]
proof (cases rule: gateway_step.cases)
  case (sends mo r inner g p)
  from serve_begin_facts [OF sends(2)] obtain q where "sends_one env rq cf q (wd_gateway w) g p" by auto
  with assms(2) have "\<not> pe_fuzz p" by (auto simp: sends_one_def admitted_def)
  with sends(1) assms(3) show ?thesis by simp
next
  case (answers p mo up g reply)
  with assms(3) show ?thesis by (auto simp: filter_empty_conv dest: notin_set_remove1)
qed (use assms in simp_all)

text \<open>once the form fuzzing is disarmed and drained, as it is before the declared cleanup, none of its
  POSTs is under way, and none is sent until its owner arms it again, whatever else happens.\<close>

theorem drained_before_cleanup:
  assumes "gateway_run env rq cf w" "\<not> gw_fuzz_armed (wd_gateway w)" "form_fuzz_drained (wd_gateway w)"
    and "(unarmed_step env rq cf)\<^sup>*\<^sup>* w w'"
  shows "filter pe_fuzz (wd_pending w') = [] \<and> filter pe_fuzz (wd_sent w') = filter pe_fuzz (wd_sent w)"
proof -
  have quiet: "filter pe_fuzz (wd_pending w) = []"
    using gw_inv_run [OF assms(1)] assms(3) by (simp add: gw_inv_def form_fuzz_drained_def)
  from assms(4) have "\<not> gw_fuzz_armed (wd_gateway w') \<and> filter pe_fuzz (wd_pending w') = []
      \<and> filter pe_fuzz (wd_sent w') = filter pe_fuzz (wd_sent w)"
  proof (induction rule: rtranclp_induct)
    case base
    with assms(2) quiet show ?case by simp
  next
    case (step y z)
    with unarmed_step_quiet [OF step(2)] show ?case by (simp add: unarmed_step_def)
  qed
  then show ?thesis by simp
qed

definition demo_drained :: gw_world where
  "demo_drained = demo_world\<lparr>wd_gateway := disarm_form_fuzz (fst (forward_end demo_request demo_moment
      demo_pending UpstreamError (wd_gateway demo_world))), wd_pending := []\<rparr>"

lemma demo_drained_run: "gateway_run demo_env demo_request demo_config demo_drained"
proof -
  let ?p = demo_pending
  let ?e = "forward_end demo_request demo_moment ?p UpstreamError (wd_gateway demo_world)"
  have p: "?p \<in> set (wd_pending demo_world)" by (simp add: demo_world_def)
  have e: "?e = (fst ?e, snd ?e)" by simp
  have d: "demo_drained = (demo_world\<lparr>wd_gateway := fst ?e, wd_pending := remove1 ?p (wd_pending demo_world)\<rparr>)
      \<lparr>wd_gateway := disarm_form_fuzz (wd_gateway (demo_world\<lparr>wd_gateway := fst ?e, wd_pending := remove1 ?p (wd_pending demo_world)\<rparr>))\<rparr>"
    by (simp add: demo_drained_def demo_world_def)
  show ?thesis
    unfolding d by (rule gateway_run.continued [OF gateway_run.continued [OF demo_run gateway_step.answers [OF p e]] gateway_step.disarms])
qed

theorem drained_before_cleanup_witness:
  "filter pe_fuzz (wd_pending demo_drained) = [] \<and> length (filter pe_fuzz (wd_sent demo_drained)) = 1"
proof -
  have "length (filter pe_fuzz (wd_sent demo_drained)) = 1" by (simp add: demo_drained_def demo_world_def demo_pending_def)
  moreover have "filter pe_fuzz (wd_pending demo_drained) = []"
  proof (rule drained_before_cleanup [THEN conjunct1, OF demo_drained_run _ _ rtranclp.rtrancl_refl])
    show "\<not> gw_fuzz_armed (wd_gateway demo_drained)" by (simp add: demo_drained_def disarm_form_fuzz_def)
    show "form_fuzz_drained (wd_gateway demo_drained)" by (simp add: demo_drained_def form_fuzz_drained_def disarm_form_fuzz_def forward_end_def demo_pending_def demo_world_def demo_after_def Let_def)
  qed
  ultimately show ?thesis by simp
qed

text \<open>C22: draining ends: from every state of a run, once the requests under way have been answered, in
  order and whatever the upstream did with each of them, no form-fuzzing POST is left in flight.\<close>

theorem drain_returns:
  assumes "gateway_run env rq cf w" "length ups = length (wd_pending w)"
  shows "form_fuzz_drained (fold (\<lambda>(p, up) g. fst (forward_end rq mo p up g)) (zip (wd_pending w) ups)
    (disarm_form_fuzz (wd_gateway w)))"
proof -
  have "gw_in_flight (fold (\<lambda>(p, up) g. fst (forward_end rq mo p up g)) (zip ps ups) g)
      = gw_in_flight g - int (length (filter pe_fuzz ps))" if "length ups = length ps" for ps g
    using that
  proof (induction ps arbitrary: ups g)
    case (Cons p ps)
    then obtain up ups' where ups: "ups = up # ups'" "length ups' = length ps" by (cases ups) auto
    have "gw_in_flight (fst (forward_end rq mo p up g)) = gw_in_flight g - of_bool (pe_fuzz p)"
      using forward_end_facts [of rq mo p up g] by (cases "forward_end rq mo p up g") auto
    with Cons.IH [OF ups(2)] show ?case by (simp add: ups)
  qed simp
  from this [OF assms(2), of "disarm_form_fuzz (wd_gateway w)"] gw_inv_run [OF assms(1)] show ?thesis
    by (simp add: form_fuzz_drained_def gw_inv_def disarm_form_fuzz_def)
qed

theorem drain_returns_witness:
  "form_fuzz_drained (fold (\<lambda>(p, up) g. fst (forward_end demo_request demo_moment p up g))
     (zip (wd_pending demo_world) [Answer 200 [] ''ok'' False]) (disarm_form_fuzz (wd_gateway demo_world)))
   \<and> \<not> form_fuzz_drained (disarm_form_fuzz (wd_gateway demo_world))"
proof
  show "\<not> form_fuzz_drained (disarm_form_fuzz (wd_gateway demo_world))" by (simp add: form_fuzz_drained_def disarm_form_fuzz_def demo_world_def demo_after_def)
qed (rule drain_returns [OF demo_run], simp add: demo_world_def)

section \<open>Credentials\<close>

lemma map_of_del_lines:
  "map_of (fold (\<lambda>(name, v). header_del name) ls h) k
     = (if k \<in> (canonical_key \<circ> fst) ` set ls then None else map_of h k)"
  by (induction ls arbitrary: h) (auto simp: split_beta)

lemma map_of_set_lines:
  "map_of (fold (\<lambda>(name, v). header_set name v) ls h) (canonical_key name) = Some vs \<Longrightarrow>
     name \<in> fst ` set ls \<Longrightarrow> \<exists>v \<in> snd ` set ls. vs = [v]"
proof (induction ls rule: rev_induct)
  case (snoc l ls)
  then show ?case by (auto simp: split_beta split: if_splits)
qed simp

lemma map_of_set_lines_dom:
  "name \<in> fst ` set ls \<Longrightarrow> map_of (fold (\<lambda>(name, v). header_set name v) ls h) (canonical_key name) \<noteq> None"
  by (induction ls rule: rev_induct) (auto simp: split_beta)

lemma map_of_set_lines_other:
  "k \<notin> (canonical_key \<circ> fst) ` set ls \<Longrightarrow>
     map_of (fold (\<lambda>(name, v). header_set name v) ls h) k = map_of h k"
  by (induction ls arbitrary: h) (auto simp: split_beta)

lemma bind_headers_same:
  assumes "name \<in> fst ` set (bound_lines auth)"
  shows "header_get (bind_headers auth True h) name \<in> snd ` set (bound_lines auth)"
proof -
  let ?h = "\<lambda>h. fold (\<lambda>(name, v). header_set name v) (bound_lines auth) h"
  let ?h1 = "fold (\<lambda>(name, v). header_del name) (bound_lines auth)
    (header_del ''Proxy-Connection'' (header_del ''Proxy-Authorization'' h))"
  from map_of_set_lines_dom [OF assms] obtain vs where vs: "map_of (?h ?h1) (canonical_key name) = Some vs" by blast
  from map_of_set_lines [OF this assms] obtain v where "v \<in> snd ` set (bound_lines auth)" "vs = [v]" by blast
  with vs show ?thesis by (simp add: bind_headers_def header_get_def Let_def)
qed

lemma bind_headers_other:
  assumes "name \<in> fst ` set (bound_lines auth) \<union> {''Authorization'', ''Cookie''}"
  shows "header_get (bind_headers auth False h) name = ''''"
  using assms by (auto simp: bind_headers_def header_get_def Let_def map_of_del_lines image_iff)

lemma bind_headers_proxy:
  assumes "canonical_key ''Proxy-Authorization'' \<notin> (canonical_key \<circ> fst) ` set (bound_lines auth)"
  shows "header_get (bind_headers auth same h) ''Proxy-Authorization'' = ''''"
  using assms by (auto simp: bind_headers_def header_get_def Let_def map_of_del_lines map_of_set_lines_other)

lemma bind_headers_cases:
  "(if same then header_get (bind_headers auth same h) ` fst ` set (bound_lines auth) \<subseteq> snd ` set (bound_lines auth)
    else header_get (bind_headers auth same h) ` (fst ` set (bound_lines auth) \<union> {''Authorization'', ''Cookie''}) \<subseteq> {''''})
   \<and> (if canonical_key ''Proxy-Authorization'' \<in> (canonical_key \<circ> fst) ` set (bound_lines auth) then True
      else header_get (bind_headers auth same h) ''Proxy-Authorization'' = '''')"
  using bind_headers_same [of _ auth h] bind_headers_other [of _ auth h] bind_headers_proxy [of auth same h]
  by (cases same) (simp_all add: image_subset_iff)

lemma parsed_origin_scheme: "parse_approved_origin tid raw = Inr ori \<Longrightarrow> ao_scheme ori \<noteq> ''''"
  by (auto simp: parse_approved_origin_def Let_def valid_origin_def default_port_def
      split: option.splits if_splits prod.splits)

lemma same_zero_origin:
  assumes "parse_approved_origin '''' target = Inr b"
  shows "origin_or_zero target = origin_or_zero raw \<longleftrightarrow>
    (\<exists>ori. parse_approved_origin '''' raw = Inr ori
       \<and> (ao_scheme ori, ao_host ori, ao_port ori) = (ao_scheme b, ao_host b, ao_port b))"
  using parsed_origin_scheme [OF assms] by (auto simp: origin_or_zero_def assms split: sum.split)

text \<open>C23: the credentials bound to a target follow its origin: on a request to that origin every bound
  header has a value bound to the target, whatever the scanner put there; on a request to any other origin no bound
  header is left, nor any Authorization or Cookie; and the gateway's own proxy credentials never go out,
  unless a bound header has their name. The target's own URL has to be an http(s) URL.\<close>

theorem credentials_stay_bound:
  assumes "serve_begin env rq cf mo r inner g = (g', Inr p)" "parse_approved_origin '''' (rq_target rq) = Inr b"
  defines "bound \<equiv> bound_lines (gw_target_auth g)" and "h \<equiv> og_header (pe_outgoing p)"
  shows "(if \<exists>ori. parse_approved_origin '''' (og_url (pe_outgoing p)) = Inr ori
             \<and> (ao_scheme ori, ao_host ori, ao_port ori) = (ao_scheme b, ao_host b, ao_port b)
          then header_get h ` fst ` set bound \<subseteq> snd ` set bound
          else header_get h ` (fst ` set bound \<union> {''Authorization'', ''Cookie''}) \<subseteq> {''''})
    \<and> (if canonical_key ''Proxy-Authorization'' \<in> (canonical_key \<circ> fst) ` set bound then True
       else header_get h ''Proxy-Authorization'' = '''')"
proof -
  from serve_begin_facts [OF assms(1)] obtain q where "sent_as rq q (pe_fuzz p) g p"
    by (auto simp: sends_one_def)
  then have h: "h = bind_headers (gw_target_auth g)
      (origin_or_zero (rq_target rq) = origin_or_zero (og_url (pe_outgoing p))) (hr_header q)"
    by (auto simp: sent_as_def h_def)
  show ?thesis
    unfolding h bound_def same_zero_origin [OF assms(2)] by (rule bind_headers_cases)
qed

theorem credentials_stay_bound_witness:
  "header_get (og_header (pe_outgoing demo_pending)) ''Authorization'' = ''Bearer t''"
proof -
  have "parse_approved_origin '''' (rq_target demo_request) = Inr \<lparr>ao_target_id = '''', ao_scheme = ''https'',
      ao_host = ''shop.test'', ao_port = 443, ao_path_prefix = ''/''\<rparr>" by code_simp
  note bound = credentials_stay_bound [OF demo_sends this]
  have out: "parse_approved_origin '''' (og_url (pe_outgoing demo_pending)) = Inr \<lparr>ao_target_id = '''', ao_scheme = ''https'',
      ao_host = ''shop.test'', ao_port = 443, ao_path_prefix = ''/form''\<rparr>" by code_simp
  have "bound_lines (gw_target_auth demo_gateway) = [(''Authorization'', ''Bearer t'')]" by code_simp
  with bound out show "header_get (og_header (pe_outgoing demo_pending)) ''Authorization'' = ''Bearer t''" by simp
qed

definition demo_other_request :: scan_request where
  "demo_other_request = demo_request\<lparr>rq_target := ''shop.test'', rq_post_approval := None,
     rq_app_scope := Some (new_app_scope
       [\<lparr>ao_target_id = ''t1'', ao_scheme = ''https'', ao_host = ''cdn.test'', ao_port = 0, ao_path_prefix = ''''\<rparr>] [])\<rparr>"

text \<open>a target that is not a URL has no origin, and the gateway then takes every request whose own
  origin cannot be parsed, as with an encoded question mark in its path, for one to the target: for a
  target that is a bare host name the bound credentials go to another approved origin with
  \<open>/x%3Fy\<close>, though not with \<open>/x\<close>.\<close>

theorem unparsed_origins_share_credentials:
  "map (\<lambda>url. case snd (serve_begin demo_env demo_other_request demo_config demo_moment (demo_proxied ''GET'' url '''') None demo_gateway)
              of Inl status \<Rightarrow> ''refused'' | Inr p \<Rightarrow> header_get (og_header (pe_outgoing p)) ''Authorization'')
     [''https://cdn.test/x'', ''https://cdn.test/x%3Fy'', ''https://shop.test/x'']
   = ['''', ''Bearer t'', ''refused'']"
  by code_simp

end
