(* ===== verification/Merge.thy ===== *)
theory Merge
  imports GoStd "HOL-Library.Sublist"
begin

text \<open>
  The cross-scanner merge of findings (\<open>internal/scanner/merge.go\<close>) and the record of a finding
  (\<open>internal/scanner/parse.go\<close>). A CVSS score is an \<open>int\<close> in tenths of a point: the merge only compares
  and copies scores. The Go map from merge keys to positions is an association list.
\<close>

section \<open>Findings\<close>

record finding_source =
  fs_scanner :: string
  fs_source_id :: string
  fs_endpoint :: string
  fs_evidence_ref :: string

record finding =
  fd_source_id :: string
  fd_scanner :: string
  fd_rule_id :: string
  fd_title :: string
  fd_severity :: string
  fd_target :: string
  fd_endpoint :: string
  fd_method :: string
  fd_parameter :: string
  fd_parameter_location :: string
  fd_protocol :: string
  fd_port :: string
  fd_package :: string
  fd_package_version :: string
  fd_source_location :: string
  fd_container :: string
  fd_resource :: string
  fd_description :: string
  fd_evidence :: string
  fd_native_message_id :: string
  fd_attack :: string
  fd_remediation :: string
  fd_evidence_ref :: string
  fd_cve :: string
  fd_cwe :: string
  fd_cvss :: int
  fd_severity_unrated :: bool
  fd_scope :: string
  fd_sources :: "finding_source list"
  fd_fingerprint :: string
  fd_confidence :: string
  fd_native_confidence :: string
  fd_evidence_completeness :: string

section \<open>Severities and identifiers\<close>

definition severity :: "string \<Rightarrow> string" where
  "severity s =
     (case find (\<lambda>v. contains (to_lower s) v) [''critical'', ''high'', ''medium'', ''low'', ''info''] of
        Some v \<Rightarrow> v | None \<Rightarrow> ''info'')"

definition severity_rank :: "string \<Rightarrow> int" where
  "severity_rank s =
     (let v = severity s
      in if v = ''critical'' then 4 else if v = ''high'' then 3 else if v = ''medium'' then 2
         else if v = ''low'' then 1 else 0)"

text \<open>\<open>^CVE-\d{4}-\d{4,}$\<close>\<close>

definition cve_pattern :: "string \<Rightarrow> bool" where
  "cve_pattern c \<longleftrightarrow>
     has_prefix c ''CVE-'' \<and> length (take 4 (drop 4 c)) = 4 \<and> list_all is_digit (take 4 (drop 4 c))
     \<and> has_prefix (drop 8 c) ''-'' \<and> 4 \<le> length (drop 9 c) \<and> list_all is_digit (drop 9 c)"

definition single_cve :: "string \<Rightarrow> string" where
  "single_cve s = (let c = to_upper (trim_space s) in if cve_pattern c then c else '''')"

section \<open>The merge\<close>

definition source_of :: "finding \<Rightarrow> finding_source" where
  "source_of f = \<lparr>fs_scanner = fd_scanner f, fs_source_id = fd_source_id f, fs_endpoint = fd_endpoint f,
     fs_evidence_ref = fd_evidence_ref f\<rparr>"

definition merge_location :: "finding \<Rightarrow> string" where
  "merge_location f =
     (if has_prefix (fd_scope f) ''source:'' then
        (if trim_space (fd_target f) = '''' then '''' else ''source:'' @ path_clean (fd_target f))
      else if trim_space (fd_endpoint f) = '''' then ''''
      else join_on [CHR 0x00] [''endpoint:'' @ trim_space (fd_endpoint f), to_upper (trim_space (fd_method f)),
             trim_space (fd_parameter f)])"

text \<open>The key a finding is merged under; none when it never is.\<close>

definition merge_key :: "finding \<Rightarrow> string option" where
  "merge_key f =
     (if single_cve (fd_cve f) = '''' \<or> merge_location f = '''' then None
      else Some (fd_scope f @ CHR 0x00 # single_cve (fd_cve f) @ CHR 0x00 # merge_location f))"

definition raise_severity :: "finding \<Rightarrow> finding \<Rightarrow> finding" where
  "raise_severity f m =
     (if fd_severity_unrated f then m
      else if fd_severity_unrated m then m\<lparr>fd_severity := fd_severity f, fd_severity_unrated := False\<rparr>
      else if severity_rank (fd_severity f) > severity_rank (fd_severity m) then m\<lparr>fd_severity := fd_severity f\<rparr>
      else m)"

definition absorb :: "finding \<Rightarrow> finding \<Rightarrow> finding" where
  "absorb f m =
     (let m1 = m\<lparr>fd_sources := (if fd_sources m = [] then [source_of m] else fd_sources m) @ [source_of f]\<rparr>;
          m2 = raise_severity f m1;
          m3 = (if fd_cvss f > fd_cvss m2 then m2\<lparr>fd_cvss := fd_cvss f\<rparr> else m2)
      in if fd_cwe m3 = '''' then m3\<lparr>fd_cwe := fd_cwe f\<rparr> else m3)"

definition already_from :: "finding \<Rightarrow> finding \<Rightarrow> bool" where
  "already_from m f \<longleftrightarrow>
     fd_scanner m = fd_scanner f \<or> list_ex (\<lambda>s. fs_scanner s = fd_scanner f) (fd_sources m)"

definition merge_step :: "finding \<Rightarrow> (string \<times> nat) list \<times> finding list \<Rightarrow> (string \<times> nat) list \<times> finding list" where
  "merge_step f acc =
     (case acc of (primary, out) \<Rightarrow>
        (case merge_key f of
           None \<Rightarrow> (primary, out @ [f])
         | Some key \<Rightarrow>
             (case map_of primary key of
                None \<Rightarrow> (put key (length out) primary, out @ [f])
              | Some i \<Rightarrow> if already_from (out ! i) f then (primary, out @ [f])
                           else (primary, out[i := absorb f (out ! i)]))))"

definition merge_cross_scanner :: "finding list \<Rightarrow> finding list" where
  "merge_cross_scanner fs = snd (fold merge_step fs ([], []))"

section \<open>What a merged finding stands for\<close>

definition contributors :: "finding \<Rightarrow> finding_source list" where
  "contributors m = (if fd_sources m = [] then [source_of m] else fd_sources m)"

text \<open>What the report shows of a finding: itself, whatever is merged into it.\<close>

definition native :: "finding \<Rightarrow> string \<times> string \<times> string" where
  "native f = (fd_scanner f, fd_source_id f, fd_evidence_ref f)"

lemma fs_scanner_source_of [simp]: "fs_scanner (source_of f) = fd_scanner f"
  by (simp add: source_of_def)

lemma raise_severity_keeps [simp]:
  "fd_sources (raise_severity f m) = fd_sources m" "fd_cvss (raise_severity f m) = fd_cvss m"
  "fd_cwe (raise_severity f m) = fd_cwe m" "fd_scope (raise_severity f m) = fd_scope m"
  "fd_cve (raise_severity f m) = fd_cve m" "fd_target (raise_severity f m) = fd_target m"
  "fd_endpoint (raise_severity f m) = fd_endpoint m" "fd_method (raise_severity f m) = fd_method m"
  "fd_parameter (raise_severity f m) = fd_parameter m" "fd_scanner (raise_severity f m) = fd_scanner m"
  "fd_source_id (raise_severity f m) = fd_source_id m" "fd_evidence_ref (raise_severity f m) = fd_evidence_ref m"
  by (simp_all add: raise_severity_def)

lemma absorb_keeps [simp]:
  "fd_scope (absorb f m) = fd_scope m" "fd_cve (absorb f m) = fd_cve m" "fd_target (absorb f m) = fd_target m"
  "fd_endpoint (absorb f m) = fd_endpoint m" "fd_method (absorb f m) = fd_method m"
  "fd_parameter (absorb f m) = fd_parameter m" "fd_scanner (absorb f m) = fd_scanner m"
  "fd_source_id (absorb f m) = fd_source_id m" "fd_evidence_ref (absorb f m) = fd_evidence_ref m"
  by (simp_all add: absorb_def Let_def)

lemma native_absorb [simp]: "native (absorb f m) = native m"
  by (simp add: native_def)

lemma merge_key_absorb [simp]: "merge_key (absorb f m) = merge_key m"
  by (simp add: merge_key_def merge_location_def)

lemma contributors_absorb [simp]: "contributors (absorb f m) = contributors m @ [source_of f]"
  by (simp add: absorb_def contributors_def Let_def)

text \<open>One rating is at least another: no higher severity is known, and no higher score.\<close>

definition rated_at_least :: "finding \<Rightarrow> finding \<Rightarrow> bool" where
  "rated_at_least m f \<longleftrightarrow>
     (if fd_severity_unrated f then True
      else \<not> fd_severity_unrated m \<and> severity_rank (fd_severity f) \<le> severity_rank (fd_severity m))
     \<and> fd_cvss f \<le> fd_cvss m"

lemma rated_refl [simp]: "rated_at_least m m"
  by (simp add: rated_at_least_def)

lemma rated_trans: "rated_at_least a b \<Longrightarrow> rated_at_least b c \<Longrightarrow> rated_at_least a c"
  by (auto simp: rated_at_least_def split: if_splits)

lemma absorb_rating:
  "fd_severity_unrated (absorb f m) = (fd_severity_unrated m \<and> fd_severity_unrated f)"
  "fd_cvss (absorb f m) = max (fd_cvss m) (fd_cvss f)"
  by (auto simp: absorb_def raise_severity_def Let_def)

lemma absorb_severity:
  "fd_severity (absorb f m) =
     (if fd_severity_unrated f then fd_severity m
      else if fd_severity_unrated m \<or> severity_rank (fd_severity f) > severity_rank (fd_severity m) then fd_severity f
      else fd_severity m)"
  by (auto simp: absorb_def raise_severity_def Let_def)

lemma rated_absorb: "rated_at_least (absorb f m) m \<and> rated_at_least (absorb f m) f"
  by (auto simp: rated_at_least_def absorb_rating absorb_severity)

section \<open>The invariant of the loop\<close>

definition merge_inv :: "finding list \<Rightarrow> (string \<times> nat) list \<times> finding list \<Rightarrow> bool" where
  "merge_inv fs acc \<longleftrightarrow>
     (case acc of (primary, out) \<Rightarrow>
        (\<forall>key i. map_of primary key = Some i \<longrightarrow> i < length out \<and> merge_key (out ! i) = Some key)
        \<and> mset (concat (map contributors out)) = mset (map source_of fs)
        \<and> subseq (map native out) (map native fs)
        \<and> (\<forall>f \<in> set fs. \<exists>m \<in> set out. source_of f \<in> set (contributors m) \<and> rated_at_least m f \<and> merge_key m = merge_key f)
        \<and> (\<forall>m \<in> set out. distinct (map fs_scanner (contributors m))
             \<and> set (contributors m) \<subseteq> source_of ` {f \<in> set fs. merge_key f = merge_key m}
             \<and> (1 < length (contributors m) \<longrightarrow> merge_key m \<noteq> None)))"

lemma already_from_contributors:
  "\<not> already_from m f \<Longrightarrow> fd_scanner f \<notin> fs_scanner ` set (contributors m)"
  by (auto simp: already_from_def contributors_def source_of_def list_ex_iff)

lemma merge_inv_append:
  assumes "merge_inv fs (primary, out)" "fd_sources f = []"
    and "\<forall>key i. map_of primary' key = Some i \<longrightarrow> i < length (out @ [f]) \<and> merge_key ((out @ [f]) ! i) = Some key"
  shows "merge_inv (fs @ [f]) (primary', out @ [f])"
proof -
  have f: "contributors f = [source_of f]" using assms(2) by (simp add: contributors_def)
  have "subseq (map native out @ [native f]) (map native fs @ [native f])"
    using assms(1) by (simp add: merge_inv_def list_emb_append_mono)
  moreover have "\<forall>g \<in> set (fs @ [f]). \<exists>m \<in> set (out @ [f]). source_of g \<in> set (contributors m) \<and> rated_at_least m g
      \<and> merge_key m = merge_key g"
    using assms(1) f by (auto simp: merge_inv_def)
  moreover have "\<forall>m \<in> set (out @ [f]). distinct (map fs_scanner (contributors m))
      \<and> set (contributors m) \<subseteq> source_of ` {g \<in> set (fs @ [f]). merge_key g = merge_key m}
      \<and> (1 < length (contributors m) \<longrightarrow> merge_key m \<noteq> None)"
    using assms(1) f unfolding merge_inv_def by fastforce
  ultimately show ?thesis
    using assms(1,3) f by (simp add: merge_inv_def)
qed

lemma mset_concat_update:
  assumes "i < length xs" "g y = g (xs ! i) @ [a]"
  shows "mset (concat (map g (xs[i := y]))) = add_mset a (mset (concat (map g xs)))"
proof -
  have xs: "xs = take i xs @ xs ! i # drop (Suc i) xs" using assms(1) by (simp add: id_take_nth_drop)
  show ?thesis
    using assms by (subst (2) xs) (simp add: upd_conv_take_nth_drop)
qed

lemma merge_inv_absorb:
  assumes inv: "merge_inv fs (primary, out)" and f: "fd_sources f = []"
    and key: "merge_key f = Some key" "map_of primary key = Some i" and new: "\<not> already_from (out ! i) f"
  shows "merge_inv (fs @ [f]) (primary, out[i := absorb f (out ! i)])"
proof -
  let ?m = "out ! i" let ?out = "out[i := absorb f ?m]"
  have i: "i < length out" "merge_key ?m = Some key" using inv key(2) by (auto simp: merge_inv_def)
  have mem: "?m \<in> set out" using i(1) by simp
  have mf: "merge_key ?m = merge_key f" using i(2) key(1) by simp
  have sub: "m \<in> set ?out \<Longrightarrow> m = absorb f ?m \<or> m \<in> set out" for m
    using set_update_subset_insert [of out i "absorb f ?m"] by auto
  have new_mem: "absorb f ?m \<in> set ?out" using i(1) by (simp add: set_update_memI)
  have "map native ?out = map native out"
    using i(1) by (simp add: map_update) (metis list_update_id map_update)
  moreover have "subseq (map native out @ []) (map native fs @ [native f])"
    using inv by (intro list_emb_append_mono) (simp_all add: merge_inv_def)
  ultimately have order: "subseq (map native ?out) (map native (fs @ [f]))" by simp
  have cov: "\<exists>m \<in> set ?out. source_of g \<in> set (contributors m) \<and> rated_at_least m g \<and> merge_key m = merge_key g"
    if "g \<in> set (fs @ [f])" for g
  proof (cases "g = f")
    case True
    with mf show ?thesis by (intro bexI [OF _ new_mem]) (simp add: rated_absorb)
  next
    case False
    with that inv obtain m where m: "m \<in> set out" "source_of g \<in> set (contributors m)" "rated_at_least m g" "merge_key m = merge_key g"
      by (auto simp: merge_inv_def)
    show ?thesis
    proof (cases "m = ?m")
      case True
      with m show ?thesis
        by (intro bexI [OF _ new_mem]) (auto intro: rated_trans [OF conjunct1 [OF rated_absorb]])
    next
      case False
      with m(1) have "m \<in> set ?out" using i(1) by (metis in_set_conv_nth length_list_update nth_list_update_neq)
      with m show ?thesis by blast
    qed
  qed
  have each: "distinct (map fs_scanner (contributors m))
      \<and> set (contributors m) \<subseteq> source_of ` {g \<in> set (fs @ [f]). merge_key g = merge_key m}
      \<and> (1 < length (contributors m) \<longrightarrow> merge_key m \<noteq> None)" if "m \<in> set ?out" for m
  proof (cases "m = absorb f ?m")
    case True
    have "distinct (map fs_scanner (contributors ?m))"
      "set (contributors ?m) \<subseteq> source_of ` {g \<in> set fs. merge_key g = merge_key ?m}"
      using inv mem by (auto simp: merge_inv_def)
    with already_from_contributors [OF new] mf i(2) show ?thesis by (auto simp: True)
  next
    case False
    with sub [OF that] inv show ?thesis unfolding merge_inv_def by fastforce
  qed
  have "mset (concat (map contributors ?out)) = mset (map source_of (fs @ [f]))"
    using mset_concat_update [OF i(1), of contributors "absorb f ?m" "source_of f"] inv by (simp add: merge_inv_def)
  moreover have "\<forall>k j. map_of primary k = Some j \<longrightarrow> j < length ?out \<and> merge_key (?out ! j) = Some k"
  proof (intro allI impI)
    fix k j assume "map_of primary k = Some j"
    with inv have "j < length out" "merge_key (out ! j) = Some k" by (auto simp: merge_inv_def)
    then show "j < length ?out \<and> merge_key (?out ! j) = Some k" by (cases "i = j") simp_all
  qed
  ultimately show ?thesis
    using order cov each by (simp add: merge_inv_def)
qed

lemma merge_inv_step:
  assumes "merge_inv fs acc" "fd_sources f = []"
  shows "merge_inv (fs @ [f]) (merge_step f acc)"
proof -
  obtain primary out where acc: "acc = (primary, out)" by (cases acc)
  have old: "\<forall>key i. map_of primary key = Some i \<longrightarrow> i < length (out @ [f]) \<and> merge_key ((out @ [f]) ! i) = Some key"
    using assms(1) unfolding acc merge_inv_def prod.case
    by (metis length_append_singleton less_SucI nth_append)
  show ?thesis
  proof (cases "merge_key f")
    case None
    with merge_inv_append [OF assms(1) [unfolded acc] assms(2) old] show ?thesis by (simp add: acc merge_step_def)
  next
    case (Some key)
    show ?thesis
    proof (cases "map_of primary key")
      case None
      have "\<forall>k i. map_of (put key (length out) primary) k = Some i \<longrightarrow> i < length (out @ [f]) \<and> merge_key ((out @ [f]) ! i) = Some k"
        using old Some by (auto simp: map_of_put)
      from merge_inv_append [OF assms(1) [unfolded acc] assms(2) this] Some None show ?thesis
        by (simp add: acc merge_step_def)
    next
      case (Some i)
      with \<open>merge_key f = Some key\<close> merge_inv_append [OF assms(1) [unfolded acc] assms(2) old]
        merge_inv_absorb [OF assms(1) [unfolded acc] assms(2) \<open>merge_key f = Some key\<close> Some]
      show ?thesis by (simp add: acc merge_step_def)
    qed
  qed
qed

lemma merge_inv_fold:
  "fd_sources ` set fs \<subseteq> {[]} \<Longrightarrow> merge_inv fs (fold merge_step fs ([], []))"
proof (induction fs rule: rev_induct)
  case (snoc f fs)
  then show ?case using merge_inv_step [of fs _ f] by simp
qed (simp add: merge_inv_def)

section \<open>What the merge promises\<close>

definition blank_finding :: finding where
  "blank_finding = \<lparr>fd_source_id = '''', fd_scanner = '''', fd_rule_id = '''', fd_title = '''', fd_severity = '''',
     fd_target = '''', fd_endpoint = '''', fd_method = '''', fd_parameter = '''', fd_parameter_location = '''',
     fd_protocol = '''', fd_port = '''', fd_package = '''', fd_package_version = '''', fd_source_location = '''',
     fd_container = '''', fd_resource = '''', fd_description = '''', fd_evidence = '''', fd_native_message_id = '''',
     fd_attack = '''', fd_remediation = '''', fd_evidence_ref = '''', fd_cve = '''', fd_cwe = '''', fd_cvss = 0,
     fd_severity_unrated = False, fd_scope = '''', fd_sources = [], fd_fingerprint = '''', fd_confidence = '''',
     fd_native_confidence = '''', fd_evidence_completeness = ''''\<rparr>"

definition cve_report :: "string \<Rightarrow> string \<Rightarrow> string \<Rightarrow> int \<Rightarrow> bool \<Rightarrow> finding" where
  "cve_report scanner sid sev cvss unrated =
     blank_finding\<lparr>fd_scanner := scanner, fd_source_id := sid, fd_severity := sev, fd_cvss := cvss,
       fd_severity_unrated := unrated, fd_scope := ''host:h'', fd_cve := ''cve-2024-12345'', fd_endpoint := ''https://h/a''\<rparr>"

definition cve_reports :: "finding list" where
  "cve_reports = [cve_report ''nuclei'' ''1'' ''medium'' 0 True, cve_report ''zap'' ''2'' ''low'' 31 False,
     cve_report ''zap'' ''3'' ''high'' 75 False, cve_report ''nikto'' ''4'' ''info'' 90 True]"

text \<open>the merge of fresh findings loses and invents no report: the contributors of its findings are
  exactly the reports that went in, as a multiset, and what remains keeps its own source id and
  evidence and the order in which it was first seen.\<close>

theorem merge_loses_nothing:
  assumes "fd_sources ` set fs \<subseteq> {[]}"
  shows "mset (concat (map contributors (merge_cross_scanner fs))) = mset (map source_of fs)
    \<and> subseq (map native (merge_cross_scanner fs)) (map native fs)"
  using merge_inv_fold [OF assms]
  by (cases "fold merge_step fs ([], [])") (simp add: merge_cross_scanner_def merge_inv_def)

theorem merge_loses_nothing_witness:
  "mset (concat (map contributors (merge_cross_scanner cve_reports))) = mset (map source_of cve_reports)
   \<and> map (map fs_source_id \<circ> contributors) (merge_cross_scanner cve_reports) = [[''1'', ''2'', ''4''], [''3'']]"
proof
  show "map (map fs_source_id \<circ> contributors) (merge_cross_scanner cve_reports) = [[''1'', ''2'', ''4''], [''3'']]"
    by code_simp
qed (rule merge_loses_nothing [THEN conjunct1], code_simp)

text \<open>C33: every report stands in a finding that is rated at least as high: a rated severity is never
  lowered, by an unrated placeholder or otherwise, nor a score; and the reports of one finding come
  from different scanners and agree on scope, CVE and location. The findings are fresh from the parsers: none
  has been merged before.\<close>

theorem merge_never_downgrades:
  assumes "fd_sources ` set fs \<subseteq> {[]}" "f \<in> set fs"
  shows "\<exists>m. m \<in> set (merge_cross_scanner fs) \<and> source_of f \<in> set (contributors m) \<and> rated_at_least m f
    \<and> merge_key m = merge_key f \<and> distinct (map fs_scanner (contributors m))
    \<and> set (contributors m) \<subseteq> source_of ` {g \<in> set fs. merge_key g = merge_key f}
    \<and> (if merge_key f = None then contributors m = [source_of f] else True)"
proof -
  obtain primary out where acc: "fold merge_step fs ([], []) = (primary, out)" by (cases "fold merge_step fs ([], [])")
  note inv = merge_inv_fold [OF assms(1), unfolded acc]
  with assms(2) obtain m where m: "m \<in> set out" "source_of f \<in> set (contributors m)" "rated_at_least m f" "merge_key m = merge_key f"
    by (auto simp: merge_inv_def)
  from inv m(1) have c: "distinct (map fs_scanner (contributors m))" "1 < length (contributors m) \<longrightarrow> merge_key m \<noteq> None"
    "set (contributors m) \<subseteq> source_of ` {g \<in> set fs. merge_key g = merge_key m}"
    by (auto simp: merge_inv_def)
  have "contributors m = [source_of f]" if "merge_key f = None"
    using c(2) m(2,4) that by (cases "contributors m"; cases "tl (contributors m)") auto
  with m c show ?thesis by (intro exI [of _ m]) (simp add: merge_cross_scanner_def acc)
qed

theorem merge_never_downgrades_witness:
  "\<exists>m. m \<in> set (merge_cross_scanner cve_reports) \<and> source_of (cve_report ''zap'' ''2'' ''low'' 31 False) \<in> set (contributors m)
    \<and> rated_at_least m (cve_report ''zap'' ''2'' ''low'' 31 False)"
  using merge_never_downgrades [of cve_reports "cve_report ''zap'' ''2'' ''low'' 31 False"]
  by (auto simp: cve_reports_def cve_report_def blank_finding_def)

end
