(* ===== verification/PlanBuild.thy ===== *)
theory PlanBuild
  imports Planner ScopeGuard
begin

text \<open>
  How the server builds the plan of an assessment (\<open>internal/web/scanner_handlers.go\<close>): what is
  available on this machine, the state of the bound credentials, the planner, and the scope guard
  over targets and approved origins. A record gathers what the server reads of its machine at one
  moment: \<open>sv_found\<close> is \<open>exec.LookPath\<close> of the path configured for a tool, \<open>sv_vault\<close> the credential
  records by id (\<open>None\<close>: the vault does not open), \<open>sv_content_problems\<close> what the checks of stored
  fixtures and API definitions add to a plan without errors.
\<close>

section \<open>The machine\<close>

record credential_record =
  cr_kind :: string
  cr_target_ids :: "string list"
  cr_revision :: int
  cr_ssh_alias :: string

record server_env =
  sv_vault :: "(string \<Rightarrow> credential_record option) option"
  sv_found :: "string \<Rightarrow> bool"
  sv_masscan_reason :: string
  sv_zap_url :: string
  sv_zap_dedicated :: bool
  sv_zap_quarantined :: bool
  sv_gvm_host :: string
  sv_gvm_socket :: string
  sv_gvm_username :: string
  sv_gvm_password :: string
  sv_tool_versions :: "(string \<times> string) list"
  sv_unified_workflow :: bool
  sv_bind_addr :: string
  sv_port :: int
  sv_allow_local :: bool
  sv_lookup :: "string \<Rightarrow> string list option"
  sv_ifaces :: "nat list option list option"
  sv_content_problems :: "assessment_plan \<Rightarrow> problem list"

definition vault_revision :: "(string \<Rightarrow> credential_record option) \<Rightarrow> string \<Rightarrow> int option" where
  "vault_revision vault i = map_option cr_revision (vault i)"

definition vault_get :: "(string \<Rightarrow> credential_record option) \<Rightarrow> string \<Rightarrow> string \<Rightarrow> credential_record option" where
  "vault_get vault i target =
     (case vault i of
        None \<Rightarrow> None
      | Some r \<Rightarrow> if target \<noteq> '''' \<and> target \<notin> set (cr_target_ids r) then None else Some r)"

section \<open>Availability\<close>

text \<open>The tools with a path of their own; two adapters run another tool's binary.\<close>

definition tool_of :: "(string \<times> string) list" where
  "tool_of =
     map (\<lambda>n. (n, n))
       [''subfinder'', ''amass'', ''dnsx'', ''httpx'', ''nmap'', ''masscan'', ''nikto'', ''nuclei'', ''testssl'',
        ''sslyze'', ''vuls'', ''trivy'', ''semgrep'']
     @ [(''nextjs-sast'', ''semgrep''), (''gitleaks'', ''gitleaks''), (''osv'', ''osv''), (''lynis'', ''ssh'')]
     @ map (\<lambda>n. (n, n)) [''katana'', ''dalfox'', ''wapiti'', ''kube-bench'', ''prowler'', ''scoutsuite'']"

definition local_availability :: "server_env \<Rightarrow> (string \<times> bool) list" where
  "local_availability sv =
     (let a0 = map (\<lambda>(n, tool). (n, sv_found sv tool)) tool_of;
          a1 = (if sv_masscan_reason sv \<noteq> '''' then put ''masscan'' False a0 else a0);
          a2 = put ''zap'' (trim_space (sv_zap_url sv) \<noteq> '''' \<and> sv_zap_dedicated sv \<and> \<not> sv_zap_quarantined sv) a1
      in put ''openvas''
           ((trim_space (sv_gvm_host sv) \<noteq> '''' \<or> trim_space (sv_gvm_socket sv) \<noteq> '''')
            \<and> sv_gvm_username sv \<noteq> '''' \<and> sv_gvm_password sv \<noteq> '''') a2)"

definition pipeline_runners :: "string list" where
  "pipeline_runners =
     [''nuclei'', ''zap'', ''testssl'', ''openvas'', ''vuls'', ''trivy'', ''semgrep'', ''gitleaks'', ''osv'']"

definition has_assessment_runner :: "string \<Rightarrow> bool" where
  "has_assessment_runner i \<longleftrightarrow>
     i \<in> set [''auth'', ''katana'', ''dnsx'', ''subfinder'', ''amass'', ''httpx'', ''sslyze'', ''apichecks'', ''apiwrites'',
       ''nextjs-actions'', ''nextjs-boundaries'', ''kube-exposure'', ''nextjs-assets'', ''nextjs-sast'', ''nextjs-deps'',
       ''actuator'', ''vcs-exposure'', ''exposed-files'']
     \<or> i \<in> set [''nmap'', ''masscan'', ''nikto'', ''lynis'', ''dalfox'', ''wapiti'', ''kube-bench'', ''prowler'', ''scoutsuite'']
     \<or> i \<in> set pipeline_runners"

definition assessment_availability :: "server_env \<Rightarrow> (string \<times> bool) list" where
  "assessment_availability sv =
     foldl (\<lambda>m d. if has_assessment_runner (sd_id d) then m else put (sd_id d) False m)
       (local_availability sv) scanner_registry"

definition unavailable_reasons :: "server_env \<Rightarrow> (string \<times> string) list" where
  "unavailable_reasons sv =
     (if sv_found sv ''masscan'' \<and> sv_masscan_reason sv \<noteq> '''' then [(''masscan'', sv_masscan_reason sv)] else [])"

section \<open>Credentials\<close>

text \<open>\<open>^[A-Za-z0-9][A-Za-z0-9._-]{0,127}$\<close>\<close>

definition ssh_alias_ok :: "string \<Rightarrow> bool" where
  "ssh_alias_ok s \<longleftrightarrow>
     s \<noteq> '''' \<and> is_alnum (hd s) \<and> length (tl s) \<le> 127
     \<and> list_all (\<lambda>c. is_alnum c \<or> c = CHR ''.'' \<or> c = CHR ''_'' \<or> c = CHR ''-'') (tl s)"

definition credential_usable :: "(string \<Rightarrow> credential_record option) \<Rightarrow> access_binding \<Rightarrow> string \<Rightarrow> bool" where
  "credential_usable vault b target \<longleftrightarrow>
     (case vault_get vault (ab_credential_id b) target of
        None \<Rightarrow> False
      | Some r \<Rightarrow> cr_kind r = ab_kind b
          \<and> (ab_kind b = AccessSSH \<longrightarrow> ssh_alias_ok (trim_space (cr_ssh_alias r))))"

definition bound_credentials :: "access_binding list \<Rightarrow> access_binding list" where
  "bound_credentials bs = filter (\<lambda>b. trim_space (ab_credential_id b) \<noteq> '''') bs"

definition credential_availability :: "server_env \<Rightarrow> access_binding list \<Rightarrow> (string \<times> bool) list" where
  "credential_availability sv bs =
     (case sv_vault sv of
        None \<Rightarrow> []
      | Some vault \<Rightarrow>
          fold (\<lambda>b. fold (\<lambda>t. put (credential_key t (ab_kind b) (ab_credential_id b)) (credential_usable vault b t))
                  (ab_target_ids b))
            (bound_credentials bs) [])"

definition credential_revisions :: "server_env \<Rightarrow> access_binding list \<Rightarrow> (string \<times> string) list" where
  "credential_revisions sv bs =
     (case sv_vault sv of
        None \<Rightarrow> []
      | Some vault \<Rightarrow>
          fold (\<lambda>b m. case vault_revision vault (ab_credential_id b) of
                        None \<Rightarrow> m | Some r \<Rightarrow> put (ab_credential_id b) (itoa r) m)
            (bound_credentials bs) [])"

section \<open>The plan of the server\<close>

definition blocked_target_for_scan :: "server_env \<Rightarrow> int list \<Rightarrow> string \<Rightarrow> bool" where
  "blocked_target_for_scan sv ports target =
     is_local_or_listener (sv_lookup sv) (sv_ifaces sv)
       \<lparr>gc_bind_addr = sv_bind_addr sv, gc_port = sv_port sv, gc_loopback_ports = ports,
        gc_allow_local = sv_allow_local sv\<rparr> target"

definition assessment_scope_problems :: "server_env \<Rightarrow> int list \<Rightarrow> assessment_config \<Rightarrow> problem list" where
  "assessment_scope_problems sv ports cfg =
     concat (map (\<lambda>t. flag (tgt_kind t \<in> set [KindDomain, KindURL, KindIP, KindCIDR, KindHost]
                            \<and> blocked_target_for_scan sv ports (tgt_value t)) (blocking ''target.scope_blocked''))
         (cfg_targets cfg))
     @ concat (map (\<lambda>a. flag (blocked_target_for_scan sv ports (origin_string a)) (blocking ''target.scope_blocked''))
         (cfg_approved_origins cfg))"

definition server_plan_input :: "server_env \<Rightarrow> assessment_config \<Rightarrow> plan_input" where
  "server_plan_input sv cfg =
     \<lparr>in_config = cfg, in_availability = assessment_availability sv, in_unavailable = unavailable_reasons sv,
      in_credentials = credential_availability sv (cfg_access cfg), in_tool_versions = sv_tool_versions sv,
      in_revisions = credential_revisions sv (cfg_access cfg)\<rparr>"

definition server_errors :: "digests \<Rightarrow> server_env \<Rightarrow> int list \<Rightarrow> assessment_config \<Rightarrow> problem list" where
  "server_errors dg sv ports cfg =
     pl_errors (plan_assessment dg (server_plan_input sv cfg)) @ assessment_scope_problems sv ports cfg
     @ flag (cfg_workflow_version cfg = ''unified-v1'' \<and> \<not> sv_unified_workflow sv) (blocking ''workflow.disabled'')"

definition build_plan_for_scan :: "digests \<Rightarrow> server_env \<Rightarrow> int list \<Rightarrow> assessment_config \<Rightarrow> assessment_plan" where
  "build_plan_for_scan dg sv ports cfg =
     (let p = (plan_assessment dg (server_plan_input sv cfg))\<lparr>pl_errors := server_errors dg sv ports cfg\<rparr>
      in if pl_errors p = [] then p\<lparr>pl_errors := sv_content_problems sv p\<rparr> else p)"

definition build_plan :: "digests \<Rightarrow> server_env \<Rightarrow> assessment_config \<Rightarrow> assessment_plan" where
  "build_plan dg sv cfg = build_plan_for_scan dg sv [] cfg"

text \<open>A plan without errors: its configuration is valid and no target or approved origin is the
  operator's own machine.\<close>

lemma concat_flags: "concat (map (\<lambda>x. flag (P x) e) xs) = [] \<longleftrightarrow> (\<forall>x \<in> set xs. \<not> P x)"
  by (induction xs) simp_all

lemma scope_problems_none:
  "assessment_scope_problems sv ports cfg = [] \<longleftrightarrow>
     (\<forall>t \<in> set (cfg_targets cfg). \<not> (tgt_kind t \<in> set [KindDomain, KindURL, KindIP, KindCIDR, KindHost]
        \<and> blocked_target_for_scan sv ports (tgt_value t)))
     \<and> (\<forall>a \<in> set (cfg_approved_origins cfg). \<not> blocked_target_for_scan sv ports (origin_string a))"
  by (simp only: assessment_scope_problems_def append_is_Nil_conv concat_flags)

lemma build_plan_errors:
  assumes "pl_errors (build_plan_for_scan dg sv ports cfg) = []"
  shows "pl_errors (plan_assessment dg (server_plan_input sv cfg)) = []
    \<and> assessment_scope_problems sv ports cfg = []
    \<and> (cfg_workflow_version cfg = ''unified-v1'' \<longrightarrow> sv_unified_workflow sv)"
proof (cases "server_errors dg sv ports cfg = []")
  case True
  then show ?thesis by (simp add: server_errors_def split: if_splits)
next
  case False
  with assms show ?thesis by (simp add: build_plan_for_scan_def)
qed

lemma seal_plan_errors [simp]: "pl_errors (seal_plan dg inp p) = pl_errors p"
  by (simp add: seal_plan_def)

lemma plan_errors_valid:
  assumes "pl_errors (plan_assessment dg inp) = []"
  shows "filter pb_blocking (validate (normalize_config (in_config inp))) = []"
  using assms by (auto simp: plan_assessment_def Let_def split: if_splits prod.splits)

end
