(* ===== verification/Calendar.thy ===== *)
theory Calendar
  imports Main
begin

text \<open>
  The part of Go's \<open>time\<close> package the scheduler calls: dates of the proleptic Gregorian calendar,
  \<open>time.Date\<close> with its normalisation, \<open>AddDate\<close>, \<open>Weekday\<close>, and locations. An instant is the number of
  nanoseconds since 1970-01-01 UTC. A location is what its time zone lookup gives for a number of
  seconds: the offset in force, and the start and end of its validity.
\<close>

section \<open>Dates\<close>

definition leap :: "int \<Rightarrow> bool" where
  "leap y \<longleftrightarrow> y mod 4 = 0 \<and> (y mod 100 \<noteq> 0 \<or> y mod 400 = 0)"

text \<open>Days from the first of January of the year 1 to that of the year \<open>y\<close>.\<close>

definition year_start :: "int \<Rightarrow> int" where
  "year_start y = (let x = y - 1 in 365 * x + x div 4 - x div 100 + x div 400)"

definition month_lengths :: "bool \<Rightarrow> int list" where
  "month_lengths lp = [31, if lp then 29 else 28, 31, 30, 31, 30, 31, 31, 30, 31, 30, 31]"

definition month_start :: "int \<Rightarrow> int \<Rightarrow> int" where
  "month_start y m = sum_list (take (nat (m - 1)) (month_lengths (leap y)))"

definition month_length :: "int \<Rightarrow> int \<Rightarrow> int" where
  "month_length y m = month_lengths (leap y) ! nat (m - 1)"

definition epoch_day :: int where "epoch_day = 719162"

text \<open>The day number of a date; the month may be out of range, and so may the day.\<close>

definition day_number :: "int \<Rightarrow> int \<Rightarrow> int \<Rightarrow> int" where
  "day_number y m d =
     (let y' = y + (m - 1) div 12; m' = (m - 1) mod 12 + 1
      in year_start y' + month_start y' m' + d - 1 - epoch_day)"

definition year_of :: "int \<Rightarrow> int" where
  "year_of n =
     (let y = 400 * (n + epoch_day) div 146097 + 1
      in if year_start y > n + epoch_day then y - 1 else if year_start (y + 1) \<le> n + epoch_day then y + 1 else y)"

definition month_of :: "int \<Rightarrow> int \<Rightarrow> int" where
  "month_of y doy = int (length (filter (\<lambda>k. month_start y k \<le> doy) [1, 2, 3, 4, 5, 6, 7, 8, 9, 10, 11, 12]))"

definition civil :: "int \<Rightarrow> int \<times> int \<times> int" where
  "civil n =
     (let y = year_of n; doy = n + epoch_day - year_start y; m = month_of y doy
      in (y, m, doy - month_start y m + 1))"

lemma div_pred: "0 < k \<Longrightarrow> y div k = (y - 1) div k + (if y mod k = 0 then 1 else 0)" for y k :: int
proof (cases "y mod k = 0")
  case True
  assume "0 < k"
  from True have "k * (y div k) = y" using mult_div_mod_eq [of k y] by simp
  then have "y - 1 = k * (y div k - 1) + (k - 1)" by (simp add: right_diff_distrib)
  from int_div_pos_eq [OF this] \<open>0 < k\<close> True show ?thesis by simp
next
  case False
  assume k: "0 < k"
  have "y - 1 = k * (y div k) + (y mod k - 1)" by (metis add_diff_eq mult_div_mod_eq)
  moreover have "0 \<le> y mod k - 1" "y mod k - 1 < k"
    using False k pos_mod_bound [of k y] pos_mod_sign [of k y] by linarith+
  ultimately have "(y - 1) div k = y div k" by (rule int_div_pos_eq)
  with False show ?thesis by simp
qed

lemma div_bounds:
  fixes x k :: int
  assumes "0 < k"
  shows "k * (x div k) \<le> x \<and> x \<le> k * (x div k) + (k - 1)"
proof -
  have bound: "a + b = c \<Longrightarrow> 0 \<le> b \<Longrightarrow> b < k \<Longrightarrow> a \<le> c \<and> c \<le> a + (k - 1)" for a b c :: int by simp
  show ?thesis
    using assms by (intro bound [OF mult_div_mod_eq]) simp_all
qed

lemma leap_cases:
  "(C \<Longrightarrow> B) \<Longrightarrow> (B \<Longrightarrow> A) \<Longrightarrow>
     (if A \<and> (\<not> B \<or> C) then 366 else 365) = 365 + (if A then 1 else 0) - (if B then 1 else 0) + (if C then 1 else (0::int))"
  by (cases A; cases B; cases C) simp_all

lemma sum_steps:
  "a = a' + i \<Longrightarrow> b = b' + j \<Longrightarrow> c = c' + k \<Longrightarrow>
     365 * y + a - b + c = 365 * (y - 1) + a' - b' + c' + (365 + i - j + k)" for y :: int
  by simp

lemma year_start_Suc: "year_start (y + 1) = year_start y + (if leap y then 366 else 365)"
proof -
  have "400 dvd y \<Longrightarrow> 100 dvd y" "100 dvd y \<Longrightarrow> 4 dvd y"
    using dvd_trans [of 100 400 y] dvd_trans [of 4 100 y] by simp_all
  then have "y mod 400 = 0 \<Longrightarrow> y mod 100 = 0" "y mod 100 = 0 \<Longrightarrow> y mod 4 = 0" by (simp_all add: mod_eq_0_iff_dvd)
  from leap_cases [OF this] have leap: "(if leap y then 366 else 365)
      = 365 + (if y mod 4 = 0 then 1 else 0) - (if y mod 100 = 0 then 1 else 0) + (if y mod 400 = 0 then 1 else (0::int))"
    by (simp only: leap_def)
  have "year_start (y + 1) = 365 * y + y div 4 - y div 100 + y div 400" by (simp add: year_start_def Let_def)
  moreover have "year_start y = 365 * (y - 1) + (y - 1) div 4 - (y - 1) div 100 + (y - 1) div 400"
    by (simp only: year_start_def Let_def)
  moreover have "y div 4 = (y - 1) div 4 + (if y mod 4 = 0 then 1 else 0)"
    "y div 100 = (y - 1) div 100 + (if y mod 100 = 0 then 1 else 0)"
    "y div 400 = (y - 1) div 400 + (if y mod 400 = 0 then 1 else 0)" by (rule div_pred, simp)+
  from sum_steps [OF this] have "365 * y + y div 4 - y div 100 + y div 400
      = 365 * (y - 1) + (y - 1) div 4 - (y - 1) div 100 + (y - 1) div 400 + (if leap y then 366 else 365)"
    by (simp only: leap)
  ultimately show ?thesis by (simp only:)
qed

lemma year_start_bounds:
  "146097 * (y - 1) - 699 \<le> 400 * year_start y" "400 * year_start y \<le> 146097 * (y - 1) + 396"
proof -
  have "4 * ((y - 1) div 4) \<le> y - 1 \<and> y - 1 \<le> 4 * ((y - 1) div 4) + (4 - 1)"
    "100 * ((y - 1) div 100) \<le> y - 1 \<and> y - 1 \<le> 100 * ((y - 1) div 100) + (100 - 1)"
    "400 * ((y - 1) div 400) \<le> y - 1 \<and> y - 1 \<le> 400 * ((y - 1) div 400) + (400 - 1)"
    by (rule div_bounds, simp)+
  note q = this
  have bounds: "4 * a \<le> x \<and> x \<le> 4 * a + (4 - 1) \<Longrightarrow> 100 * b \<le> x \<and> x \<le> 100 * b + (100 - 1) \<Longrightarrow>
      400 * c \<le> x \<and> x \<le> 400 * c + (400 - 1) \<Longrightarrow>
      146097 * x - 699 \<le> 400 * (365 * x + a - b + c) \<and> 400 * (365 * x + a - b + c) \<le> 146097 * x + 396"
    for a b c x :: int by simp
  show "146097 * (y - 1) - 699 \<le> 400 * year_start y" "400 * year_start y \<le> 146097 * (y - 1) + 396"
    using bounds [OF q] by (simp_all only: year_start_def Let_def)
qed

lemma year_of_bracket: "year_start (year_of n) \<le> n + epoch_day \<and> n + epoch_day < year_start (year_of n + 1)"
proof -
  let ?n = "n + epoch_day" let ?q = "400 * ?n div 146097"
  have q: "146097 * ?q \<le> 400 * ?n \<and> 400 * ?n \<le> 146097 * ?q + (146097 - 1)" by (rule div_bounds) simp
  have lo: "400 * s \<le> 146097 * (q - 1) + 396 \<Longrightarrow> 146097 * q \<le> 400 * m \<and> u \<Longrightarrow> s \<le> m"
    and hi: "146097 * (q + 3 - 1) - 699 \<le> 400 * s \<Longrightarrow> u \<and> 400 * m \<le> 146097 * q + (146097 - 1) \<Longrightarrow> m < s"
    for s q m :: int and u by simp_all
  note lo [OF year_start_bounds(2) q] hi [OF year_start_bounds(1) q]
  then have "year_start ?q \<le> ?n" "?n < year_start (?q + 3)" by simp_all
  moreover have "s1 \<le> m \<Longrightarrow> m < s4 \<Longrightarrow>
      y = (if year_start (q + 1) > m then q + 1 - 1 else if year_start (q + 1 + 1) \<le> m then q + 1 + 1 else q + 1) \<Longrightarrow>
      s1 = year_start q \<Longrightarrow> s4 = year_start (q + 3) \<Longrightarrow> year_start y \<le> m \<and> m < year_start (y + 1)"
    for s1 s4 q m y by (auto simp: add.assoc)
  ultimately show ?thesis by (simp only: year_of_def Let_def)
qed

lemma month_range:
  "1 \<le> m \<Longrightarrow> m \<le> 12 \<Longrightarrow>
     m = 1 \<or> m = 2 \<or> m = 3 \<or> m = 4 \<or> m = 5 \<or> m = 6 \<or> m = 7 \<or> m = 8 \<or> m = 9 \<or> m = 10 \<or> m = 11 \<or> m = (12::int)"
  by presburger

lemma month_start_simps:
  "month_start y 1 = 0" "month_start y 2 = 31" "month_start y 3 = (if leap y then 60 else 59)"
  "month_start y 4 = (if leap y then 91 else 90)" "month_start y 5 = (if leap y then 121 else 120)"
  "month_start y 6 = (if leap y then 152 else 151)" "month_start y 7 = (if leap y then 182 else 181)"
  "month_start y 8 = (if leap y then 213 else 212)" "month_start y 9 = (if leap y then 244 else 243)"
  "month_start y 10 = (if leap y then 274 else 273)" "month_start y 11 = (if leap y then 305 else 304)"
  "month_start y 12 = (if leap y then 335 else 334)" "month_start y 13 = (if leap y then 366 else 365)"
  by (simp_all add: month_start_def month_lengths_def numeral_eq_Suc)

lemma month_start_Suc:
  "1 \<le> m \<Longrightarrow> m \<le> 12 \<Longrightarrow> month_start y (m + 1) = month_start y m + month_length y m \<and> 28 \<le> month_length y m"
  by (drule (1) month_range)
    (auto simp: month_start_simps month_length_def month_lengths_def numeral_eq_Suc)

lemma month_start_mono:
  assumes "1 \<le> j" "j \<le> k" "k \<le> 13"
  shows "month_start y j \<le> month_start y k"
  using assms(2,3)
proof (induction k rule: int_ge_induct)
  case (step i)
  with assms(1) month_start_Suc [of i y] show ?case by simp
qed simp

lemma bracket_index: "s 0 \<le> x \<Longrightarrow> x < s n \<Longrightarrow> \<exists>k < n. s k \<le> x \<and> x < s (Suc k)" for s :: "nat \<Rightarrow> int"
proof (induction n)
  case (Suc n)
  then show ?case by (cases "x < s n") (auto intro: less_SucI)
qed simp

lemma month_of_day:
  assumes "0 \<le> doy" "doy < (if leap y then 366 else 365)"
    and "m = month_of y doy"
  shows "1 \<le> m \<and> m \<le> 12 \<and> month_start y m \<le> doy \<and> doy < month_start y (m + 1)"
proof -
  have "month_start y 1 \<le> doy" "doy < month_start y 13" using assms(1,2) by (simp_all add: month_start_simps)
  then obtain j where j: "j < 12" "month_start y (int j + 1) \<le> doy" "doy < month_start y (int (Suc j) + 1)"
    using bracket_index [of "\<lambda>k. month_start y (int k + 1)" doy 12] by auto
  then obtain k where k: "1 \<le> k" "k \<le> 12" "month_start y k \<le> doy" "doy < month_start y (k + 1)"
    by (intro that [of "int j + 1"]) (simp_all add: add.commute)
  have "month_start y j \<le> doy \<longleftrightarrow> j \<le> k" if "1 \<le> j" "j \<le> 12" for j
    using month_start_mono [OF \<open>1 \<le> j\<close>, of k y] month_start_mono [of "k + 1" j y] that k by linarith
  then have "filter (\<lambda>k. month_start y k \<le> doy) [1, 2, 3, 4, 5, 6, 7, 8, 9, 10, 11, 12]
      = filter (\<lambda>j. j \<le> k) [1, 2, 3, 4, 5, 6, 7, 8, 9, 10, 11, 12]" by (intro filter_cong refl) auto
  with month_range [OF k(1,2)] have "m = k" unfolding assms(3) month_of_def by (elim disjE) simp_all
  with k show ?thesis by simp
qed

text \<open>The month of a day of the year, and that the parts of a date are what \<open>day_number\<close> puts together.\<close>

lemma civil_bracket:
  assumes "civil n = (y, m, d)"
  shows "1 \<le> m \<and> m \<le> 12 \<and> 1 \<le> d \<and> d \<le> month_length y m \<and> day_number y m d = n \<and> y = year_of n"
proof -
  let ?doy = "n + epoch_day - year_start (year_of n)"
  have y: "y = year_of n" and m: "m = month_of y ?doy" and d: "d = ?doy - month_start y m + 1"
    using assms by (auto simp: civil_def Let_def)
  have doy: "0 \<le> ?doy" "?doy < (if leap y then 366 else 365)"
    using year_of_bracket [of n] year_start_Suc [of "year_of n"] by (auto simp: y)
  note range = month_of_day [OF doy m]
  with month_start_Suc [of m y] have "1 \<le> d" "d \<le> month_length y m" by (auto simp: d)
  moreover have "day_number y m d = n" using range by (simp add: day_number_def d Let_def y)
  ultimately show ?thesis using range y by simp
qed

lemma year_start_mono: "y \<le> z \<Longrightarrow> year_start y \<le> year_start z"
proof (induction z rule: int_ge_induct)
  case (step i)
  then show ?case by (simp add: year_start_Suc)
qed simp

lemma year_of_unique:
  assumes "year_start y \<le> n + epoch_day" "n + epoch_day < year_start (y + 1)"
  shows "year_of n = y"
proof -
  note b = year_of_bracket [of n]
  have "\<not> year_of n + 1 \<le> y" using year_start_mono [of "year_of n + 1" y] b assms by linarith
  moreover have "\<not> y + 1 \<le> year_of n" using year_start_mono [of "y + 1" "year_of n"] b assms by linarith
  ultimately show ?thesis by simp
qed

text \<open>A date with a month and a day in their ranges is read back from its number.\<close>

lemma month_of_unique:
  assumes m: "1 \<le> m" "m \<le> 12" and b: "month_start y m \<le> doy" "doy < month_start y (m + 1)"
  shows "month_of y doy = m"
proof -
  have "month_start y j \<le> doy \<longleftrightarrow> j \<le> m" if "1 \<le> j" "j \<le> 12" for j
    using month_start_mono [OF \<open>1 \<le> j\<close>, of m y] month_start_mono [of "m + 1" j y] that m b by linarith
  then have "filter (\<lambda>k. month_start y k \<le> doy) [1, 2, 3, 4, 5, 6, 7, 8, 9, 10, 11, 12]
      = filter (\<lambda>j. j \<le> m) [1, 2, 3, 4, 5, 6, 7, 8, 9, 10, 11, 12]" by (intro filter_cong refl) auto
  with month_range [OF m] show ?thesis unfolding month_of_def by (elim disjE) simp_all
qed

lemma civil_day_number:
  assumes "1 \<le> m" "m \<le> 12" "1 \<le> d" "d \<le> month_length y m"
  shows "civil (day_number y m d) = (y, m, d)"
proof -
  let ?n = "day_number y m d"
  have n: "?n + epoch_day = year_start y + month_start y m + d - 1"
    using assms(1,2) by (simp add: day_number_def Let_def div_pos_pos_trivial mod_pos_pos_trivial)
  have range: "month_start y m \<le> month_start y m + d - 1" "month_start y m + d - 1 < month_start y (m + 1)"
    using assms month_start_Suc [of m y] by simp_all
  have "0 \<le> month_start y m" using month_start_mono [of 1 m y] assms(1,2) by (simp add: month_start_simps)
  moreover have "month_start y (m + 1) \<le> (if leap y then 366 else 365)"
    using month_start_mono [of "m + 1" 13 y] assms(1,2) by (simp add: month_start_simps)
  ultimately have year: "year_of ?n = y"
    using range by (intro year_of_unique) (simp_all add: n year_start_Suc split: if_splits)
  have doy: "?n + epoch_day - year_start y = month_start y m + d - 1" using n by simp
  show ?thesis
    unfolding civil_def Let_def year doy month_of_unique [OF assms(1,2) range] by simp
qed

section \<open>Instants and locations\<close>

type_synonym zone = "int \<Rightarrow> int \<times> int \<times> int"

definition nanos :: int where "nanos = 1000000000"

definition local_seconds :: "zone \<Rightarrow> int \<Rightarrow> int" where
  "local_seconds zn t = t div nanos + fst (zn (t div nanos))"

definition date_in :: "zone \<Rightarrow> int \<Rightarrow> int \<times> int \<times> int" where
  "date_in zn t = civil (local_seconds zn t div 86400)"

definition second_of_day :: "zone \<Rightarrow> int \<Rightarrow> int" where
  "second_of_day zn t = local_seconds zn t mod 86400"

definition weekday_in :: "zone \<Rightarrow> int \<Rightarrow> int" where
  "weekday_in zn t = (local_seconds zn t div 86400 + 4) mod 7"

text \<open>\<open>time.Date\<close>: the units below the day overflow linearly into it.\<close>

definition go_date :: "zone \<Rightarrow> int \<Rightarrow> int \<Rightarrow> int \<Rightarrow> int \<Rightarrow> int \<Rightarrow> int \<Rightarrow> int \<Rightarrow> int" where
  "go_date zn y m d hour minute sec nsec =
     (let unix = day_number y m d * 86400 + hour * 3600 + minute * 60 + sec + nsec div nanos;
          (offset, from, till) = zn unix; utc = unix - offset;
          unix' = (if offset = 0 then unix
                   else if utc < from \<or> till \<le> utc then unix - fst (zn utc) else utc)
      in unix' * nanos + nsec mod nanos)"

definition add_date :: "zone \<Rightarrow> int \<Rightarrow> int \<Rightarrow> int \<Rightarrow> int \<Rightarrow> int" where
  "add_date zn t years months days =
     (let (y, m, d) = date_in zn t; sod = second_of_day zn t
      in go_date zn (y + years) (m + months) (d + days) (sod div 3600) (sod mod 3600 div 60) (sod mod 60) (t mod nanos))"

section \<open>Locations with a fixed offset\<close>

definition fixed_zone :: "int \<Rightarrow> zone \<Rightarrow> bool" where
  "fixed_zone off zn \<longleftrightarrow> (\<forall>t. fst (zn t) = off)"

text \<open>The day of an instant, and its nanosecond in that day.\<close>

definition day_in :: "int \<Rightarrow> int \<Rightarrow> int" where
  "day_in off t = (t + off * nanos) div (86400 * nanos)"

definition clock_in :: "int \<Rightarrow> int \<Rightarrow> int" where
  "clock_in off t = (t + off * nanos) mod (86400 * nanos)"

lemma day_clock: "t = day_in off t * (86400 * nanos) + clock_in off t - off * nanos"
  unfolding day_in_def clock_in_def by (simp add: nanos_def)

lemma clock_range: "0 \<le> clock_in off t \<and> clock_in off t < 86400 * nanos"
  by (simp add: clock_in_def nanos_def)

lemma day_in_unique:
  assumes "t = n * (86400 * nanos) + c - off * nanos" "0 \<le> c" "c < 86400 * nanos"
  shows "day_in off t = n" "clock_in off t = c"
proof -
  have "t + off * nanos = (86400 * nanos) * n + c" using assms(1) by simp
  with assms(2,3) show "day_in off t = n" "clock_in off t = c"
    unfolding day_in_def clock_in_def by (simp_all add: int_div_pos_eq int_mod_pos_eq)
qed

lemma local_seconds_fixed: "fixed_zone off zn \<Longrightarrow> local_seconds zn t = (t + off * nanos) div nanos"
  by (simp add: local_seconds_def fixed_zone_def nanos_def)

lemma local_day: "fixed_zone off zn \<Longrightarrow> local_seconds zn t div 86400 = day_in off t"
  by (simp add: local_seconds_fixed day_in_def nanos_def div_mult2_eq [symmetric] zdiv_zmult2_eq [symmetric] mult.commute)

lemma div_range:
  fixes c k a :: int
  assumes "0 < k" "0 \<le> c" "c < a * k"
  shows "0 \<le> c div k" "c div k < a"
proof -
  show "0 \<le> c div k" using assms(1,2) by (simp add: pos_imp_zdiv_nonneg_iff)
  have "k * (c div k) < k * a"
    using conjunct1 [OF div_bounds [OF assms(1), of c]] assms(3) by (simp only: mult.commute [of k a] order.strict_trans1)
  with assms(1) show "c div k < a" by (simp only: mult_less_cancel_left_pos)
qed

lemma split_seconds: "s div 3600 * 3600 + s mod 3600 div 60 * 60 + s mod 60 = s" for s :: int
proof -
  have "s mod 3600 mod 60 = s mod 60" by (rule mod_mod_cancel) simp
  then have "s mod 3600 = s mod 3600 div 60 * 60 + s mod 60" by (metis div_mult_mod_eq)
  moreover have "s = s div 3600 * 3600 + s mod 3600" by (rule div_mult_mod_eq [symmetric])
  ultimately show ?thesis by (metis add.assoc)
qed

lemma go_date_fixed:
  assumes "fixed_zone off zn"
  shows "go_date zn y m d hour minute sec nsec
    = (day_number y m d * 86400 + hour * 3600 + minute * 60 + sec - off) * nanos + nsec"
proof -
  let ?u = "day_number y m d * 86400 + hour * 3600 + minute * 60 + sec + nsec div nanos"
  have "go_date zn y m d hour minute sec nsec = (?u - off) * nanos + nsec mod nanos"
    using assms by (cases "zn ?u") (auto simp: go_date_def Let_def fixed_zone_def dest: spec [of _ ?u])
  also have "\<dots> = (day_number y m d * 86400 + hour * 3600 + minute * 60 + sec - off) * nanos
      + (nsec div nanos * nanos + nsec mod nanos)" by (simp add: algebra_simps)
  finally show ?thesis by simp
qed

lemma day_of_go_date:
  assumes "fixed_zone off zn" "0 \<le> hour" "hour < 24" "0 \<le> minute" "minute < 60"
  shows "day_in off (go_date zn y m d hour minute 0 0) = day_number y m d"
    and "clock_in off (go_date zn y m d hour minute 0 0) = (hour * 3600 + minute * 60) * nanos"
proof -
  have "go_date zn y m d hour minute 0 0
      = day_number y m d * (86400 * nanos) + (hour * 3600 + minute * 60) * nanos - off * nanos"
    by (simp add: go_date_fixed [OF assms(1)] nanos_def)
  moreover have "0 \<le> (hour * 3600 + minute * 60) * nanos" "(hour * 3600 + minute * 60) * nanos < 86400 * nanos"
    using assms(2-5) by (simp_all add: nanos_def)
  ultimately show "day_in off (go_date zn y m d hour minute 0 0) = day_number y m d"
    "clock_in off (go_date zn y m d hour minute 0 0) = (hour * 3600 + minute * 60) * nanos"
    by (rule day_in_unique)+
qed

lemma date_in_fixed: "fixed_zone off zn \<Longrightarrow> date_in zn t = civil (day_in off t)"
  by (simp add: date_in_def local_day)

lemma weekday_in_fixed: "fixed_zone off zn \<Longrightarrow> weekday_in zn t = (day_in off t + 4) mod 7"
  by (simp add: weekday_in_def local_day)

lemma second_of_day_fixed:
  assumes "fixed_zone off zn"
  shows "second_of_day zn t = clock_in off t div nanos"
proof -
  have "t + off * nanos = day_in off t * 86400 * nanos + clock_in off t"
    unfolding day_in_def clock_in_def mult.assoc by (rule div_mult_mod_eq [symmetric])
  then have "(t + off * nanos) div nanos = day_in off t * 86400 + clock_in off t div nanos"
    by (simp add: nanos_def)
  moreover have "0 \<le> clock_in off t div nanos" "clock_in off t div nanos < 86400"
    using clock_range [of off t] div_range [of nanos "clock_in off t" 86400] by (simp_all add: nanos_def)
  ultimately show ?thesis
    by (simp add: second_of_day_def local_seconds_fixed [OF assms] mod_pos_pos_trivial)
qed

text \<open>\<open>AddDate\<close> keeps the clock and moves the date.\<close>

lemma add_date_fixed:
  assumes "fixed_zone off zn" "civil (day_in off t) = (y, m, d)"
  shows "day_in off (add_date zn t years months days) = day_number (y + years) (m + months) (d + days)"
    and "clock_in off (add_date zn t years months days) = clock_in off t"
proof -
  let ?n = "day_number (y + years) (m + months) (d + days)" let ?s = "clock_in off t div nanos"
  have "clock_in off t mod nanos = (t + off * nanos) mod nanos"
    unfolding clock_in_def by (rule mod_mod_cancel) simp
  then have t: "t mod nanos = clock_in off t mod nanos" by simp
  have "add_date zn t years months days
      = go_date zn (y + years) (m + months) (d + days) (?s div 3600) (?s mod 3600 div 60) (?s mod 60) (t mod nanos)"
    by (simp add: add_date_def date_in_fixed [OF assms(1)] assms(2) second_of_day_fixed [OF assms(1)] Let_def)
  also have "\<dots> = (?n * 86400 + (?s div 3600 * 3600 + ?s mod 3600 div 60 * 60 + ?s mod 60) - off) * nanos
      + clock_in off t mod nanos"
    unfolding go_date_fixed [OF assms(1)] t by (simp only: add.assoc)
  also have "\<dots> = ?n * 86400 * nanos - off * nanos + (?s * nanos + clock_in off t mod nanos)"
    unfolding split_seconds by (simp only: left_diff_distrib distrib_right)
  also have "\<dots> = ?n * (86400 * nanos) + clock_in off t - off * nanos"
    unfolding div_mult_mod_eq by simp
  finally have "add_date zn t years months days = ?n * (86400 * nanos) + clock_in off t - off * nanos" .
  from day_in_unique [OF this] clock_range [of off t]
  show "day_in off (add_date zn t years months days) = ?n"
    "clock_in off (add_date zn t years months days) = clock_in off t" by simp_all
qed

lemma add_days_fixed:
  assumes "fixed_zone off zn"
  shows "day_in off (add_date zn t 0 0 k) = day_in off t + k" "clock_in off (add_date zn t 0 0 k) = clock_in off t"
proof -
  obtain y m d where c: "civil (day_in off t) = (y, m, d)" by (cases "civil (day_in off t)")
  have "day_number y m (d + k) = day_number y m d + k" by (simp add: day_number_def Let_def)
  moreover have "day_number y m d = day_in off t" using civil_bracket [OF c] by blast
  ultimately show "day_in off (add_date zn t 0 0 k) = day_in off t + k" "clock_in off (add_date zn t 0 0 k) = clock_in off t"
    using add_date_fixed [OF assms c, of 0 0 k] by (simp_all only: add_0_right)
qed

text \<open>Instants of one location compare by day, then by clock.\<close>

lemma instant_less: "day_in off s < day_in off t \<Longrightarrow> s < t"
  by (metis day_in_def div_le_mono2 leI linorder_not_le mult_nonneg_nonneg nanos_def add_right_mono
      zdiv_mono1 zero_less_mult_iff zero_less_numeral)

section \<open>Months in a row\<close>

text \<open>The first day of the month with the number \<open>k\<close>, counted from the start of the year 0.\<close>

definition month_number :: "int \<Rightarrow> int \<Rightarrow> int" where
  "month_number y m = 12 * y + m - 1"

definition first_day :: "int \<Rightarrow> int" where
  "first_day k = day_number (k div 12) (k mod 12 + 1) 1"

lemma month_number_parts: "1 \<le> m \<Longrightarrow> m \<le> 12 \<Longrightarrow> month_number y m div 12 = y \<and> month_number y m mod 12 + 1 = m"
proof
  assume m: "1 \<le> m" "m \<le> 12"
  have eq: "month_number y m = 12 * y + (m - 1)" by (simp add: month_number_def)
  from m show "month_number y m div 12 = y" by (intro int_div_pos_eq [OF eq]) simp_all
  from m show "month_number y m mod 12 + 1 = m" using int_mod_pos_eq [OF eq] by simp
qed

lemma day_number_first: "day_number y m d = first_day (month_number y m) + d - 1"
proof -
  have k: "month_number y m = (m - 1) + y * 12" by (simp add: month_number_def)
  have "month_number y m div 12 = (m - 1) div 12 + y" "month_number y m mod 12 = (m - 1) mod 12"
    unfolding k by simp_all
  then show ?thesis by (simp add: first_day_def day_number_def Let_def add.commute)
qed

lemma civil_first_day: "civil (first_day k) = (k div 12, k mod 12 + 1, 1)"
proof -
  have "k mod 12 < 12" by simp
  then have "28 \<le> month_length (k div 12) (k mod 12 + 1)"
    using month_start_Suc [of "k mod 12 + 1" "k div 12"] by simp
  then show ?thesis
    unfolding first_day_def by (intro civil_day_number) simp_all
qed

text \<open>A day lies in the month its date names, and months follow one another.\<close>

lemma civil_month:
  assumes "civil n = (y, m, d)"
  shows "first_day (month_number y m) \<le> n" "n < first_day (month_number y m + 1)"
    "first_day (month_number y m + 1) = first_day (month_number y m) + month_length y m"
    "n = first_day (month_number y m) + d - 1"
proof -
  note b = civil_bracket [OF assms]
  then have "day_number y m d = n" by blast
  then show n: "n = first_day (month_number y m) + d - 1" using day_number_first [of y m d] by simp
  with b show "first_day (month_number y m) \<le> n" by simp
  have "month_number y m + 1 = month_number y (m + 1)" by (simp add: month_number_def)
  then have "first_day (month_number y m + 1) = day_number y (m + 1) 1" by (simp add: day_number_first)
  also have "\<dots> = day_number y m 1 + month_length y m"
  proof (cases "m = 12")
    case True
    with month_start_Suc [of 12 y] show ?thesis
      by (simp add: day_number_def Let_def year_start_Suc month_start_simps split: if_splits)
  next
    case False
    with b month_start_Suc [of m y] show ?thesis
      by (simp add: day_number_def Let_def)
  qed
  finally show len: "first_day (month_number y m + 1) = first_day (month_number y m) + month_length y m"
    by (simp add: day_number_first)
  show "n < first_day (month_number y m + 1)" unfolding len using b n by simp
qed

lemma civil_parts: "civil n = (y, m, d) \<Longrightarrow> 1 \<le> m \<and> m \<le> 12 \<and> 1 \<le> d \<and> d \<le> month_length y m"
  using civil_bracket by blast

lemma month_number_of: "month_number (k div 12) (k mod 12 + 1) = k"
  by (simp add: month_number_def)

lemma first_day_mono: "j < k \<Longrightarrow> first_day j < first_day k"
proof (induction k rule: int_gr_induct)
  case base
  have "civil (first_day j) = (j div 12, j mod 12 + 1, 1)" by (rule civil_first_day)
  from civil_month(2) [OF this] show ?case by (simp add: month_number_def)
next
  case (step i)
  have "civil (first_day i) = (i div 12, i mod 12 + 1, 1)" by (rule civil_first_day)
  from civil_month(2) [OF this] step show ?case by (simp add: month_number_def)
qed

lemma same_month:
  assumes "civil n = (y, m, d)" "first_day k \<le> n" "n < first_day (k + 1)"
  shows "month_number y m = k"
proof -
  note b = civil_month [OF assms(1)]
  have "\<not> month_number y m + 1 \<le> k"
    using first_day_mono [of "month_number y m + 1" k] b assms(2) by (cases "month_number y m + 1 = k") auto
  moreover have "\<not> k + 1 \<le> month_number y m"
    using first_day_mono [of "k + 1" "month_number y m"] b assms(3) by (cases "k + 1 = month_number y m") auto
  ultimately show ?thesis by simp
qed

end
