(* ===== verification/Scheduler.thy ===== *)
theory Scheduler
  imports PlanBuild Calendar "HOL-Library.Signed_Division"
begin

text \<open>
  The scheduler of recurring scans (\<open>internal/web/scheduler.go\<close>, \<open>schedules.go\<close>): the timing of a
  schedule, the review of its plan, the tick that starts due scans, and the operations of the API.
  An instant is in nanoseconds since 1970 (\<open>Calendar\<close>); \<open>time.Now\<close> is in the server's location.
  An error is a value of \<open>schedule_error\<close>, a reason for review one of \<open>review_reason\<close>.
\<close>

section \<open>Schedules\<close>

record artifact =
  ar_kind :: string
  ar_ref :: string

datatype review_reason = NoReview | BlockingProblems problem | NotReviewed | PlanChanged

record scan_schedule =
  sc_assessment :: "assessment_config option"
  sc_profile :: string
  sc_fingerprint :: string
  sc_review_state :: string
  sc_review_reason :: review_reason
  sc_last_skipped :: int
  sc_id :: string
  sc_name :: string
  sc_interval :: string
  sc_run_at :: string
  sc_run_day :: int
  sc_run_date :: string
  sc_timezone :: string
  sc_next_run :: int
  sc_last_run :: int
  sc_enabled :: bool
  sc_targets :: "string list"
  sc_instruction :: string
  sc_scan_mode :: string
  sc_severity_filter :: "string list"
  sc_scanners :: "string list"
  sc_phases :: "int list"
  sc_recon_mode :: string
  sc_intensity :: string
  sc_company_name :: string
  sc_logo_path :: string
  sc_discord_webhook :: string
  sc_model :: string
  sc_artifact :: artifact
  sc_vuls_ssh_host :: string

text \<open>The zero \<open>time.Time\<close>: the first of January of the year 1.\<close>

definition zero_time :: int where "zero_time = - 62135596800 * nanos"

definition empty_schedule :: scan_schedule where
  "empty_schedule = \<lparr>sc_assessment = None, sc_profile = '''', sc_fingerprint = '''', sc_review_state = '''',
     sc_review_reason = NoReview, sc_last_skipped = zero_time, sc_id = '''', sc_name = '''', sc_interval = '''',
     sc_run_at = '''', sc_run_day = 0, sc_run_date = '''', sc_timezone = '''', sc_next_run = zero_time,
     sc_last_run = zero_time, sc_enabled = False, sc_targets = [], sc_instruction = '''', sc_scan_mode = '''',
     sc_severity_filter = [], sc_scanners = [], sc_phases = [], sc_recon_mode = '''', sc_intensity = '''',
     sc_company_name = '''', sc_logo_path = '''', sc_discord_webhook = '''', sc_model = '''',
     sc_artifact = \<lparr>ar_kind = '''', ar_ref = ''''\<rparr>, sc_vuls_ssh_host = ''''\<rparr>"

text \<open>The time zones: the server's own, and the database.\<close>

record zones =
  zs_local :: zone
  zs_named :: "string \<Rightarrow> zone option"

definition schedule_location :: "zones \<Rightarrow> string \<Rightarrow> zone" where
  "schedule_location zs name =
     (if name = '''' then zs_local zs else case zs_named zs name of None \<Rightarrow> zs_local zs | Some zn \<Rightarrow> zn)"

definition ScheduleReviewNeeded :: string where "ScheduleReviewNeeded = ''needs_review''"

definition schedule_review_reason :: "assessment_plan \<Rightarrow> string \<Rightarrow> review_reason" where
  "schedule_review_reason plan reviewed =
     (case pl_errors plan of
        p # _ \<Rightarrow> BlockingProblems p
      | [] \<Rightarrow> if reviewed = '''' then NotReviewed
              else if pl_fingerprint plan \<noteq> reviewed then PlanChanged else NoReview)"

text \<open>The mark, and whether anything changed.\<close>

definition set_review :: "review_reason \<Rightarrow> scan_schedule \<Rightarrow> scan_schedule \<times> bool" where
  "set_review reason sch =
     (let state = (if reason \<noteq> NoReview then ScheduleReviewNeeded else '''')
      in if sc_review_state sch = state \<and> sc_review_reason sch = reason then (sch, False)
         else (sch\<lparr>sc_review_state := state, sc_review_reason := reason\<rparr>, True))"

section \<open>Timing\<close>

text \<open>\<open>^([01][0-9]|2[0-3]):([0-5][0-9])$\<close>, read as an hour and a minute.\<close>

definition parse_run_at :: "string \<Rightarrow> (int \<times> int) option" where
  "parse_run_at s =
     (case s of
        [a, b, c, d, e] \<Rightarrow>
          if ((a = CHR ''0'' \<or> a = CHR ''1'') \<and> is_digit b \<or> a = CHR ''2'' \<and> b \<in> set ''0123'')
             \<and> c = CHR '':'' \<and> d \<in> set ''012345'' \<and> is_digit e
          then Some (int (digits_val [a, b]), int (digits_val [d, e])) else None
      | _ \<Rightarrow> None)"

text \<open>\<open>^\d{4}-\d{2}-\d{2}$\<close>\<close>

definition run_date_pattern :: "string \<Rightarrow> bool" where
  "run_date_pattern s \<longleftrightarrow>
     length s = 10 \<and> list_all is_digit (take 4 s) \<and> s ! 4 = CHR ''-'' \<and> list_all is_digit (take 2 (drop 5 s))
     \<and> s ! 7 = CHR ''-'' \<and> list_all is_digit (drop 8 s)"

text \<open>\<open>time.Parse\<close> with the layout \<open>2006-01-02\<close>.\<close>

definition parse_date :: "string \<Rightarrow> (int \<times> int \<times> int) option" where
  "parse_date s =
     (if \<not> run_date_pattern s then None
      else let y = int (digits_val (take 4 s)); m = int (digits_val (take 2 (drop 5 s))); d = int (digits_val (drop 8 s))
           in if 1 \<le> m \<and> m \<le> 12 \<and> 1 \<le> d \<and> d \<le> month_length y m then Some (y, m, d) else None)"

datatype schedule_error =
  ScanModeInvalid | ArtifactKindInvalid | TargetsMissing | ScannerUnknown string
| NextjsUntyped | ProfileConflict | ProfileUnknown | AssessmentInvalid problem | TargetsConflict
| RunAtInvalid string | TimezoneUnknown string | RunDateInvalid string | WeekdayInvalid int | MonthDayInvalid int

text \<open>The schedule is changed in place, also when an error is returned.\<close>

definition is_once :: "string \<Rightarrow> bool" where
  "is_once interval \<longleftrightarrow> to_lower interval = ''once''"

definition drop_stale_date :: "scan_schedule \<Rightarrow> scan_schedule" where
  "drop_stale_date sch = (if is_once (sc_interval sch) then sch else sch\<lparr>sc_run_date := ''''\<rparr>)"

definition normalize_schedule_timing :: "zones \<Rightarrow> scan_schedule \<Rightarrow> scan_schedule \<times> schedule_error option" where
  "normalize_schedule_timing zs sch0 =
     (let sch = sch0\<lparr>sc_run_at := trim_space (sc_run_at sch0), sc_run_date := trim_space (sc_run_date sch0),
                     sc_timezone := trim_space (sc_timezone sch0)\<rparr>;
          interval = to_lower (sc_interval sch)
      in if sc_run_at sch \<noteq> '''' \<and> parse_run_at (sc_run_at sch) = None then (sch, Some (RunAtInvalid (sc_run_at sch)))
         else if sc_timezone sch \<noteq> '''' \<and> zs_named zs (sc_timezone sch) = None
         then (sch, Some (TimezoneUnknown (sc_timezone sch)))
         else if interval = ''once'' then
           (if \<not> run_date_pattern (sc_run_date sch) \<or> parse_date (sc_run_date sch) = None
            then (sch, Some (RunDateInvalid (sc_run_date sch)))
            else (drop_stale_date (sch\<lparr>sc_run_day := 0\<rparr>), None))
         else if interval = ''weekly'' then
           (if sc_run_day sch < 0 \<or> sc_run_day sch > 6 then (sch, Some (WeekdayInvalid (sc_run_day sch)))
            else (drop_stale_date sch, None))
         else if interval = ''monthly'' then
           (let s1 = (if sc_run_day sch = 0 then sch\<lparr>sc_run_day := 1\<rparr> else sch)
            in if sc_run_day s1 < 1 \<or> sc_run_day s1 > 31 then (s1, Some (MonthDayInvalid (sc_run_day s1)))
               else (drop_stale_date s1, None))
         else (drop_stale_date (sch\<lparr>sc_run_day := 0\<rparr>), None))"

text \<open>When a schedule fires.\<close>

definition timing :: "scan_schedule \<Rightarrow> string \<times> string \<times> int \<times> string \<times> string" where
  "timing sch = (sc_interval sch, sc_run_at sch, sc_run_day sch, sc_run_date sch, sc_timezone sch)"

definition hour_nanos :: int where "hour_nanos = 3600 * nanos"

text \<open>The loop of an hourly schedule: the first of \<open>next\<close>, \<open>next + 1h\<close>, \<dots> after \<open>start\<close>.\<close>

function next_hour :: "int \<Rightarrow> int \<Rightarrow> int" where
  "next_hour start t = (if start < t then t else next_hour start (t + hour_nanos))"
  by pat_completeness auto

termination
  by (relation "measure (\<lambda>(start, t). nat (start - t + 1))") (auto simp: hour_nanos_def nanos_def)

declare next_hour.simps [simp del]

definition add_interval :: "zones \<Rightarrow> string \<Rightarrow> int \<Rightarrow> int" where
  "add_interval zs interval start =
     (if interval = ''hourly'' then start + hour_nanos
      else if interval = ''daily'' then add_date (zs_local zs) start 0 0 1
      else if interval = ''weekly'' then add_date (zs_local zs) start 0 0 7
      else if interval = ''monthly'' then add_date (zs_local zs) start 0 1 0
      else add_date (zs_local zs) start 0 0 1)"

definition monthly_run :: "zone \<Rightarrow> int \<Rightarrow> int \<Rightarrow> int \<Rightarrow> int \<Rightarrow> int" where
  "monthly_run zn month day hour minute =
     (let (y, m, _) = date_in zn month;
          day1 = (if day < 1 then 1 else day);
          (_, _, last) = date_in zn (go_date zn y (m + 1) 0 0 0 0 0)
      in go_date zn y m (if day1 > last then last else day1) hour minute 0 0)"

text \<open>This month and the two after it.\<close>

definition monthly_candidates :: "zone \<Rightarrow> int \<Rightarrow> int \<Rightarrow> int \<Rightarrow> int \<Rightarrow> int list" where
  "monthly_candidates zn start day hour minute =
     (let (y, m, _) = date_in zn start
      in map (\<lambda>i. monthly_run zn (go_date zn y (m + i) 1 0 0 0 0) day hour minute) [0, 1, 2])"

definition once_run :: "zones \<Rightarrow> scan_schedule \<Rightarrow> int \<Rightarrow> int" where
  "once_run zs sch start =
     (let zn = schedule_location zs (sc_timezone sch)
      in case parse_date (trim_space (sc_run_date sch)) of
           None \<Rightarrow> add_date (zs_local zs) start 100 0 0
         | Some (y0, m0, d0) \<Rightarrow>
             (let (y, m, d) = date_in zn (go_date zn y0 m0 d0 0 0 0 0);
                  (hour, minute) = (case parse_run_at (sc_run_at sch) of None \<Rightarrow> (0, 0) | Some hm \<Rightarrow> hm)
              in go_date zn y m d hour minute 0 0))"

definition anchored_run :: "zones \<Rightarrow> scan_schedule \<Rightarrow> int \<Rightarrow> int \<Rightarrow> int \<Rightarrow> int" where
  "anchored_run zs sch hour minute start =
     (let interval = to_lower (sc_interval sch); zn = schedule_location zs (sc_timezone sch);
          (y, m, d) = date_in zn start
      in if interval = ''hourly'' then next_hour start (go_date zn y m d (second_of_day zn start div 3600) minute 0 0)
         else if interval = ''weekly'' then
           (let weekday = (sc_run_day sch smod 7 + 7) smod 7;
                next0 = go_date zn y m d hour minute 0 0;
                next1 = add_date zn next0 0 0 ((weekday - weekday_in zn next0 + 7) smod 7)
            in if start < next1 then next1 else add_date zn next1 0 0 7)
         else if interval = ''monthly'' then
           (case find (\<lambda>t. start < t) (monthly_candidates zn start (sc_run_day sch) hour minute) of
              Some t \<Rightarrow> t | None \<Rightarrow> add_date (zs_local zs) start 0 1 0)
         else
           (let next0 = go_date zn y m d hour minute 0 0
            in if start < next0 then next0 else add_date zn next0 0 0 1))"

definition calculate_next_run :: "zones \<Rightarrow> scan_schedule \<Rightarrow> int \<Rightarrow> int" where
  "calculate_next_run zs sch start =
     (if is_once (sc_interval sch) then once_run zs sch start
      else case parse_run_at (sc_run_at sch) of
             None \<Rightarrow> add_interval zs (to_lower (sc_interval sch)) start
           | Some (hour, minute) \<Rightarrow> anchored_run zs sch hour minute start)"

end
