(* ===== verification/ScheduleApi.thy ===== *)
theory ScheduleApi
  imports Scheduler "HOL-Library.AList"
begin

text \<open>
  The operations of the scheduler: the tick of \<open>checkAndRunSchedules\<close>, the refresh of reviews and the
  load at startup (\<open>scheduler.go\<close>), and the handlers of the schedules API (\<open>schedules.go\<close>). Each holds
  the schedules' lock while it changes them and is one operation here. The state has the schedules in
  memory, their files, and, as a record of what the model did, the scans started so far. A request is
  the decoded schedule; the fields kept out of JSON arrive empty.
\<close>

section \<open>Normalisation of a schedule\<close>

definition normalize_activity_mode :: "string \<Rightarrow> string" where
  "normalize_activity_mode v = (if to_lower (trim_space v) = ''passive'' then ''passive'' else ''active'')"

definition normalize_schedule_activity :: "scan_schedule \<Rightarrow> scan_schedule" where
  "normalize_schedule_activity sch =
     (let s1 = sch\<lparr>sc_recon_mode := normalize_activity_mode (sc_recon_mode sch),
                   sc_intensity := normalize_activity_mode (sc_intensity sch)\<rparr>
      in if sc_intensity s1 = ''passive'' then s1\<lparr>sc_recon_mode := ''passive''\<rparr> else s1)"

definition default_scan_mode :: "scan_schedule \<Rightarrow> scan_schedule" where
  "default_scan_mode sch =
     (if sc_scan_mode sch \<in> set ['''', ''dast'', ''source''] then sch\<lparr>sc_scan_mode := ''single''\<rparr> else sch)"

definition canonical_artifact :: "scan_schedule \<Rightarrow> scan_schedule" where
  "canonical_artifact sch =
     (if ar_ref (sc_artifact sch) = '''' then sch
      else sch\<lparr>sc_artifact := (sc_artifact sch)\<lparr>ar_kind := to_lower (trim_space (ar_kind (sc_artifact sch)))\<rparr>\<rparr>)"

definition artifact_target :: "scan_schedule \<Rightarrow> scan_schedule" where
  "artifact_target sch =
     (if sc_targets sch = [] \<and> ar_ref (sc_artifact sch) \<noteq> ''''
      then sch\<lparr>sc_targets := [''artifact://'' @ ar_kind (sc_artifact sch)]\<rparr> else sch)"

definition normalize_deterministic_schedule :: "scan_schedule \<Rightarrow> scan_schedule \<times> schedule_error option" where
  "normalize_deterministic_schedule sch =
     (let s1 = default_scan_mode sch; s2 = canonical_artifact s1; s3 = artifact_target s2
      in if sc_scan_mode s1 \<noteq> ''single'' \<and> sc_scan_mode s1 \<noteq> ''wildcard'' then (s1, Some ScanModeInvalid)
         else if ar_ref (sc_artifact s2) \<noteq> ''''
                 \<and> ar_kind (sc_artifact s2) \<notin> set [''filesystem'', ''repository'', ''image'', ''sbom'']
         then (s2, Some ArtifactKindInvalid)
         else if sc_targets s3 = [] then (s3, Some TargetsMissing)
         else case normalize_scanners (sc_scanners s3) of
                Inl raw \<Rightarrow> (s3, Some (ScannerUnknown raw))
              | Inr selected \<Rightarrow> (s3\<lparr>sc_scanners := selected\<rparr>, None))"

definition ProfileGentle :: string where "ProfileGentle = ''web-gentle''"
definition ProfileThorough :: string where "ProfileThorough = ''web-thorough''"

definition web_profile_known :: "string \<Rightarrow> bool" where
  "web_profile_known name \<longleftrightarrow> name \<in> set ['''', ProfileGentle, ProfileThorough, ProfileNextjsDeep]"

definition normalize_for_execution :: "scan_schedule \<Rightarrow> schedule_error + scan_schedule" where
  "normalize_for_execution sch =
     (case sc_assessment sch of
        None \<Rightarrow>
          if sc_profile sch = ProfileNextjsDeep then Inl NextjsUntyped
          else (case normalize_deterministic_schedule sch of (s, None) \<Rightarrow> Inr s | (_, Some e) \<Rightarrow> Inl e)
      | Some cfg \<Rightarrow>
          let config = normalize_config cfg;
              profile = (if sc_profile sch \<noteq> '''' then sc_profile sch
                         else if cfg_profile config \<noteq> '''' then cfg_profile config else ProfileGentle);
              config1 = config\<lparr>cfg_profile := profile\<rparr>;
              canonical = map tgt_value (cfg_targets config1)
          in if sc_profile sch \<noteq> '''' \<and> cfg_profile config \<noteq> '''' \<and> sc_profile sch \<noteq> cfg_profile config
             then Inl ProfileConflict
             else if \<not> web_profile_known profile then Inl ProfileUnknown
             else case find pb_blocking (validate config1) of
                    Some p \<Rightarrow> Inl (AssessmentInvalid p)
                  | None \<Rightarrow>
                      if sc_targets sch \<noteq> [] \<and> sc_targets sch \<noteq> canonical then Inl TargetsConflict
                      else Inr (sch\<lparr>sc_profile := profile, sc_targets := canonical, sc_assessment := Some config1,
                                    sc_scan_mode := ''single'', sc_fingerprint := trim_space (sc_fingerprint sch)\<rparr>))"

definition new_workflow_config :: "bool \<Rightarrow> assessment_config \<Rightarrow> assessment_config" where
  "new_workflow_config unified cfg =
     (if cfg_workflow_version cfg = '''' \<and> unified
         \<and> list_ex (\<lambda>t. t \<in> set [TypeWebApplication, TypeAPI, TypeNetwork]) (cfg_types cfg)
      then cfg\<lparr>cfg_workflow_version := ''unified-v1''\<rparr> else cfg)"

section \<open>The state and the moment of an operation\<close>

record scan_start =
  ru_assessment :: "assessment_config option"
  ru_fingerprint :: string
  ru_profile :: string
  ru_targets :: "string list"
  ru_instruction :: string
  ru_scan_mode :: string
  ru_severity_filter :: "string list"
  ru_scanners :: "string list"
  ru_phases :: "int list"
  ru_recon_mode :: string
  ru_intensity :: string
  ru_company_name :: string
  ru_logo_path :: string
  ru_discord_webhook :: string
  ru_name :: string
  ru_artifact :: artifact
  ru_vuls_ssh_host :: string

definition scan_start_of :: "scan_schedule \<Rightarrow> scan_start" where
  "scan_start_of sch = \<lparr>ru_assessment = sc_assessment sch, ru_fingerprint = sc_fingerprint sch,
     ru_profile = sc_profile sch, ru_targets = sc_targets sch, ru_instruction = sc_instruction sch,
     ru_scan_mode = sc_scan_mode sch, ru_severity_filter = sc_severity_filter sch, ru_scanners = sc_scanners sch,
     ru_phases = sc_phases sch, ru_recon_mode = sc_recon_mode sch, ru_intensity = sc_intensity sch,
     ru_company_name = sc_company_name sch, ru_logo_path = sc_logo_path sch,
     ru_discord_webhook = sc_discord_webhook sch, ru_name = sc_name sch @ '' (Scheduled)'',
     ru_artifact = sc_artifact sch, ru_vuls_ssh_host = sc_vuls_ssh_host sch\<rparr>"

record scheduler =
  sr_schedules :: "(string \<times> scan_schedule) list"
  sr_disk :: "(string \<times> scan_schedule) list"
  sr_started :: "(int \<times> string \<times> scan_start) list"

text \<open>What an operation meets: the time, the machine, the name \<open>randomSlug\<close> draws, and whether the file
  of a schedule is written and removed.\<close>

record moment_of_schedules =
  tk_now :: int
  tk_zones :: zones
  tk_digests :: digests
  tk_server :: server_env
  tk_slug :: string
  tk_saved :: "string \<Rightarrow> bool"
  tk_removed :: bool

definition plan_now :: "moment_of_schedules \<Rightarrow> assessment_config \<Rightarrow> assessment_plan" where
  "plan_now mo cfg = build_plan (tk_digests mo) (tk_server mo) cfg"

text \<open>The part of a schedule that JSON carries.\<close>

definition wire :: "scan_schedule \<Rightarrow> scan_schedule" where
  "wire sch = sch\<lparr>sc_instruction := '''', sc_severity_filter := [], sc_phases := [], sc_recon_mode := '''',
     sc_intensity := '''', sc_model := ''''\<rparr>"

definition save_schedule :: "moment_of_schedules \<Rightarrow> scan_schedule \<Rightarrow> scheduler \<Rightarrow> scheduler" where
  "save_schedule mo sch st =
     (if tk_saved mo (sc_id sch) then st\<lparr>sr_disk := put (sc_id sch) (wire sch) (sr_disk st)\<rparr> else st)"

definition put_schedule :: "string \<Rightarrow> scan_schedule \<Rightarrow> scheduler \<Rightarrow> scheduler" where
  "put_schedule i sch st = st\<lparr>sr_schedules := put i sch (sr_schedules st)\<rparr>"

definition start_scan :: "moment_of_schedules \<Rightarrow> string \<Rightarrow> scan_schedule \<Rightarrow> scheduler \<Rightarrow> scheduler" where
  "start_scan mo i sch st = st\<lparr>sr_started := sr_started st @ [(tk_now mo, i, scan_start_of sch)]\<rparr>"

text \<open>Why the schedule cannot run now; nothing for one without a typed assessment.\<close>

definition review_now :: "moment_of_schedules \<Rightarrow> scan_schedule \<Rightarrow> review_reason" where
  "review_now mo sch =
     (case sc_assessment sch of
        None \<Rightarrow> NoReview
      | Some cfg \<Rightarrow> schedule_review_reason (plan_now mo cfg) (sc_fingerprint sch))"

section \<open>The tick\<close>

text \<open>A one-time schedule is consumed, a recurring one gets its next run.\<close>

definition reschedule :: "moment_of_schedules \<Rightarrow> scan_schedule \<Rightarrow> scan_schedule" where
  "reschedule mo sch =
     (if is_once (sc_interval sch) then sch\<lparr>sc_enabled := False\<rparr>
      else sch\<lparr>sc_next_run := calculate_next_run (tk_zones mo) sch (tk_now mo)\<rparr>)"

definition due :: "moment_of_schedules \<Rightarrow> scan_schedule \<Rightarrow> bool" where
  "due mo sch \<longleftrightarrow> sc_enabled sch \<and> sc_next_run sch \<le> tk_now mo"

definition skipped :: "moment_of_schedules \<Rightarrow> scan_schedule \<Rightarrow> scan_schedule" where
  "skipped mo sch =
     reschedule mo ((fst (set_review (review_now mo sch) sch))\<lparr>sc_last_skipped := tk_now mo\<rparr>)"

definition cleared :: "scan_schedule \<Rightarrow> scan_schedule" where
  "cleared sch = (if sc_assessment sch \<noteq> None then fst (set_review NoReview sch) else sch)"

definition launched :: "moment_of_schedules \<Rightarrow> scan_schedule \<Rightarrow> scan_schedule" where
  "launched mo sch = reschedule mo ((cleared sch)\<lparr>sc_last_run := tk_now mo\<rparr>)"

text \<open>The part of the tick before the file is written, with the schedule that is to be written.\<close>

definition tick_run :: "moment_of_schedules \<Rightarrow> string \<Rightarrow> scheduler \<Rightarrow> scheduler \<times> scan_schedule option" where
  "tick_run mo i st =
     (case map_of (sr_schedules st) i of
        None \<Rightarrow> (st, None)
      | Some sch \<Rightarrow>
          if \<not> due mo sch then (st, None)
          else if review_now mo sch \<noteq> NoReview then (put_schedule i (skipped mo sch) st, Some (skipped mo sch))
          else (put_schedule i (launched mo sch) (start_scan mo i (cleared sch) st), Some (launched mo sch)))"

definition tick_schedule :: "moment_of_schedules \<Rightarrow> string \<Rightarrow> scheduler \<Rightarrow> scheduler" where
  "tick_schedule mo i st =
     (case tick_run mo i st of (st', None) \<Rightarrow> st' | (st', Some sch) \<Rightarrow> save_schedule mo sch st')"

definition check_and_run_schedules :: "moment_of_schedules \<Rightarrow> scheduler \<Rightarrow> scheduler" where
  "check_and_run_schedules mo st = fold (tick_schedule mo) (map fst (sr_schedules st)) st"

text \<open>
  The process dies in a tick: it is done with the schedules \<open>done\<close>, has started the scan of \<open>i\<close>, if that is due,
  and has not written its file. What it had in memory is gone.
\<close>

definition cut_tick :: "moment_of_schedules \<Rightarrow> string list \<Rightarrow> string \<Rightarrow> scheduler \<Rightarrow> scheduler" where
  "cut_tick mo done i st = (fst (tick_run mo i (fold (tick_schedule mo) done st)))\<lparr>sr_schedules := []\<rparr>"

section \<open>The start of the server\<close>

text \<open>The reviews are computed from a snapshot; a schedule re-saved or deleted since is left alone.\<close>

definition typed_snapshot :: "scheduler \<Rightarrow> (string \<times> assessment_config \<times> string) list" where
  "typed_snapshot st =
     List.map_filter (\<lambda>(i, sch). map_option (\<lambda>cfg. (sc_id sch, cfg, sc_fingerprint sch)) (sc_assessment sch)) (sr_schedules st)"

definition apply_review ::
  "moment_of_schedules \<Rightarrow> string \<times> assessment_config \<times> string \<Rightarrow> scheduler \<Rightarrow> scheduler" where
  "apply_review mo item st =
     (case item of (i, cfg, fp) \<Rightarrow>
        (case map_of (sr_schedules st) i of
           None \<Rightarrow> st
         | Some sch \<Rightarrow>
             (let (sch', changed) = set_review (schedule_review_reason (plan_now mo cfg) fp) sch
              in if sc_fingerprint sch \<noteq> fp \<or> \<not> changed then st
                 else save_schedule mo sch' (put_schedule i sch' st))))"

definition refresh_schedule_reviews :: "moment_of_schedules \<Rightarrow> scheduler \<Rightarrow> scheduler" where
  "refresh_schedule_reviews mo st = fold (apply_review mo) (typed_snapshot st) st"

definition load_schedule :: "zones \<Rightarrow> scan_schedule \<Rightarrow> scan_schedule" where
  "load_schedule zs sch =
     (let s1 = normalize_schedule_activity sch;
          s2 = (if sc_assessment s1 = None then fst (set_review NoReview s1) else s1)
      in fst (normalize_schedule_timing zs (fst (normalize_deterministic_schedule s2))))"

definition load_schedules_from_disk :: "moment_of_schedules \<Rightarrow> scheduler \<Rightarrow> scheduler" where
  "load_schedules_from_disk mo st =
     st\<lparr>sr_schedules := fold (\<lambda>(f, sch). put (sc_id sch) (load_schedule (tk_zones mo) sch)) (sr_disk st) []\<rparr>"

text \<open>A new process: the schedules are loaded, their reviews refreshed, and what is overdue runs.\<close>

definition boot_schedules :: "moment_of_schedules \<Rightarrow> scheduler \<Rightarrow> scheduler" where
  "boot_schedules mo st = refresh_schedule_reviews mo (load_schedules_from_disk mo st)"

definition start_server :: "moment_of_schedules \<Rightarrow> scheduler \<Rightarrow> scheduler" where
  "start_server mo st = check_and_run_schedules mo (boot_schedules mo st)"

section \<open>The API\<close>

datatype reply =
  Saved scan_schedule | BadRequest schedule_error | Conflict assessment_plan | SaveFailed | DeleteFailed
| NotFound | BadId | MethodNotAllowed | Triggered string | Deleted | Shown scan_schedule | Listed "scan_schedule list"

definition schedule_id_ok :: "string \<Rightarrow> bool" where
  "schedule_id_ok i \<longleftrightarrow> i \<noteq> '''' \<and> list_all (\<lambda>c. is_alnum c \<or> c = CHR ''_'' \<or> c = CHR ''-'') i"

text \<open>A typed request is accepted with the fingerprint of the plan as it is now, and no other.\<close>

definition accept_request :: "moment_of_schedules \<Rightarrow> scan_schedule \<Rightarrow> reply + scan_schedule" where
  "accept_request mo req0 =
     (case normalize_for_execution (wire req0) of
        Inl e \<Rightarrow> Inl (BadRequest e)
      | Inr req \<Rightarrow>
          (case sc_assessment req of
             None \<Rightarrow> Inr req
           | Some cfg0 \<Rightarrow>
               (let cfg = new_workflow_config (sv_unified_workflow (tk_server mo)) cfg0; plan = plan_now mo cfg
                in if sc_fingerprint req = '''' \<or> sc_fingerprint req \<noteq> pl_fingerprint plan \<or> pl_errors plan \<noteq> []
                   then Inl (Conflict plan) else Inr (req\<lparr>sc_assessment := Some cfg\<rparr>))))"

definition timed_request :: "moment_of_schedules \<Rightarrow> scan_schedule \<Rightarrow> reply + scan_schedule" where
  "timed_request mo req =
     (case normalize_schedule_timing (tk_zones mo) (normalize_schedule_activity req) of
        (_, Some e) \<Rightarrow> Inl (BadRequest e) | (s, None) \<Rightarrow> Inr s)"

definition create_schedule :: "moment_of_schedules \<Rightarrow> scan_schedule \<Rightarrow> scheduler \<Rightarrow> scheduler \<times> reply" where
  "create_schedule mo req0 st =
     (case accept_request mo req0 of
        Inl r \<Rightarrow> (st, r)
      | Inr r1 \<Rightarrow>
          (let r2 = (if sc_name r1 = '''' then r1\<lparr>sc_name := ''Scheduled Scan '' @ join_on '', '' (sc_targets r1)\<rparr> else r1);
               r3 = (if sc_interval r2 = '''' then r2\<lparr>sc_interval := ''daily''\<rparr> else r2)
           in case timed_request mo r3 of
                Inl r \<Rightarrow> (st, r)
              | Inr r4 \<Rightarrow>
                  (let r5 = (fst (set_review NoReview r4))\<lparr>sc_last_skipped := zero_time, sc_id := tk_slug mo, sc_enabled := True\<rparr>;
                       sch = r5\<lparr>sc_next_run := calculate_next_run (tk_zones mo) r5 (tk_now mo)\<rparr>
                   in (save_schedule mo sch (put_schedule (sc_id sch) sch st),
                       if tk_saved mo (sc_id sch) then Saved sch else SaveFailed))))"

definition merge_request :: "scan_schedule \<Rightarrow> scan_schedule \<Rightarrow> scan_schedule" where
  "merge_request req sch =
     (let s1 = sch\<lparr>sc_name := sc_name req, sc_interval := sc_interval req, sc_run_at := sc_run_at req,
          sc_run_day := sc_run_day req, sc_timezone := sc_timezone req, sc_enabled := sc_enabled req,
          sc_targets := sc_targets req, sc_instruction := sc_instruction req, sc_scan_mode := sc_scan_mode req,
          sc_profile := sc_profile req, sc_severity_filter := sc_severity_filter req, sc_scanners := sc_scanners req,
          sc_phases := sc_phases req, sc_recon_mode := sc_recon_mode req, sc_intensity := sc_intensity req,
          sc_company_name := sc_company_name req, sc_logo_path := sc_logo_path req,
          sc_discord_webhook := sc_discord_webhook req, sc_model := sc_model req, sc_artifact := sc_artifact req,
          sc_vuls_ssh_host := sc_vuls_ssh_host req\<rparr>
      in if sc_assessment req = None then s1
         else fst (set_review NoReview (s1\<lparr>sc_assessment := sc_assessment req, sc_fingerprint := sc_fingerprint req\<rparr>)))"

definition updated :: "moment_of_schedules \<Rightarrow> scan_schedule \<Rightarrow> scan_schedule \<Rightarrow> scan_schedule" where
  "updated mo req sch =
     (let s1 = merge_request req sch
      in if timing s1 \<noteq> timing sch \<or> (sc_enabled s1 \<and> \<not> sc_enabled sch)
         then s1\<lparr>sc_next_run := calculate_next_run (tk_zones mo) s1 (tk_now mo)\<rparr> else s1)"

definition update_schedule :: "moment_of_schedules \<Rightarrow> string \<Rightarrow> scan_schedule \<Rightarrow> scheduler \<Rightarrow> scheduler \<times> reply" where
  "update_schedule mo i req0 st =
     (case map_of (sr_schedules st) i of
        None \<Rightarrow> (st, NotFound)
      | Some sch \<Rightarrow>
          (case accept_request mo req0 of
             Inl r \<Rightarrow> (st, r)
           | Inr r1 \<Rightarrow>
               (case timed_request mo r1 of
                  Inl r \<Rightarrow> (st, r)
                | Inr req \<Rightarrow>
                    (let sch' = updated mo req sch
                     in (save_schedule mo sch' (put_schedule i sch' st),
                         if tk_saved mo (sc_id sch') then Saved sch' else SaveFailed)))))"

definition delete_schedule :: "moment_of_schedules \<Rightarrow> string \<Rightarrow> scheduler \<Rightarrow> scheduler \<times> reply" where
  "delete_schedule mo i st =
     (if map_of (sr_schedules st) i = None then (st, NotFound)
      else let s1 = st\<lparr>sr_schedules := AList.delete i (sr_schedules st)\<rparr>
           in if tk_removed mo then (s1\<lparr>sr_disk := AList.delete i (sr_disk s1)\<rparr>, Deleted) else (s1, DeleteFailed))"

text \<open>
  A manual start: the check of the review, and the start. The code does not hold the lock between the two; here
  they happen at one moment. (\<open>runMultiScan\<close> compares the fingerprint with the plan once more.)
\<close>

definition trigger_check :: "moment_of_schedules \<Rightarrow> string \<Rightarrow> scan_schedule \<Rightarrow> scheduler \<Rightarrow> (scheduler \<times> reply) option" where
  "trigger_check mo i sch st =
     (if review_now mo sch \<noteq> NoReview then
        (let (sch', changed) = set_review (review_now mo sch) sch
         in Some (if changed then save_schedule mo sch' (put_schedule i sch' st) else st,
                  Conflict (plan_now mo (the (sc_assessment sch)))))
      else None)"

definition trigger_start :: "moment_of_schedules \<Rightarrow> string \<Rightarrow> scan_schedule \<Rightarrow> scheduler \<Rightarrow> scheduler \<times> reply" where
  "trigger_start mo i sch st =
     (let sch' = sch\<lparr>sc_last_run := tk_now mo\<rparr>
      in (save_schedule mo sch' (put_schedule i sch' (start_scan mo i sch st)), Triggered (tk_slug mo)))"

definition trigger_schedule :: "moment_of_schedules \<Rightarrow> string \<Rightarrow> scheduler \<Rightarrow> scheduler \<times> reply" where
  "trigger_schedule mo i st =
     (case map_of (sr_schedules st) i of
        None \<Rightarrow> (st, NotFound)
      | Some sch \<Rightarrow> (case trigger_check mo i sch st of Some r \<Rightarrow> r | None \<Rightarrow> trigger_start mo i sch st))"

text \<open>The routes \<open>/api/schedules\<close> and \<open>/api/schedules/{id}\<close>.\<close>

definition handle_schedules :: "moment_of_schedules \<Rightarrow> string \<Rightarrow> scan_schedule \<Rightarrow> scheduler \<Rightarrow> scheduler \<times> reply" where
  "handle_schedules mo verb req st =
     (if verb = ''GET'' then
        (st, Listed (map wire (sort_slice (\<lambda>a b. to_lower (sc_name a) < to_lower (sc_name b)) (map snd (sr_schedules st)))))
      else if verb = ''POST'' then create_schedule mo req st else (st, MethodNotAllowed))"

definition handle_schedule_detail ::
  "moment_of_schedules \<Rightarrow> string \<Rightarrow> string \<Rightarrow> scan_schedule \<Rightarrow> scheduler \<Rightarrow> scheduler \<times> reply" where
  "handle_schedule_detail mo verb path req st =
     (let parts = split_on (CHR ''/'') (trim_prefix path ''/api/schedules/''); i = hd parts
      in if i = '''' then (st, NotFound)
         else if \<not> schedule_id_ok i then (st, BadId)
         else case map_of (sr_schedules st) i of
                None \<Rightarrow> (st, NotFound)
              | Some sch \<Rightarrow>
                  if 1 < length parts \<and> parts ! 1 = ''trigger''
                  then (if verb = ''POST'' then trigger_schedule mo i st else (st, MethodNotAllowed))
                  else if verb = ''GET'' then (st, Shown (wire sch))
                  else if verb = ''PUT'' then update_schedule mo i req st
                  else if verb = ''DELETE'' then delete_schedule mo i st
                  else (st, MethodNotAllowed))"

end
