(* ===== verification/NextRun.thy ===== *)
theory NextRun
  imports Scheduler
begin

text \<open>
  What \<open>calculateNextRun\<close> computes, against a specification of the instants at which a schedule is
  meant to fire. The specification is for locations with one offset; the loop of an hourly schedule
  and one-time schedules are treated for every location.
\<close>

section \<open>Instants by day and clock\<close>

definition instant :: "int \<Rightarrow> int \<Rightarrow> int \<Rightarrow> int" where
  "instant off n c = n * (86400 * nanos) + c - off * nanos"

lemma instant_parts: "instant off (day_in off t) (clock_in off t) = t"
  by (simp add: instant_def day_clock [symmetric])

lemma day_of_instant:
  "0 \<le> c \<Longrightarrow> c < 86400 * nanos \<Longrightarrow> day_in off (instant off n c) = n \<and> clock_in off (instant off n c) = c"
  by (simp add: instant_def day_in_unique)

lemma day_in_mono: "s \<le> t \<Longrightarrow> day_in off s \<le> day_in off t"
  using instant_less [of off t s] by (cases "day_in off s \<le> day_in off t") simp_all

lemma same_clock_le: "clock_in off s = clock_in off t \<Longrightarrow> s \<le> t \<longleftrightarrow> day_in off s \<le> day_in off t"
  by (metis day_in_mono instant_parts instant_less order.order_iff_strict)

text \<open>An instant with the right clock is the first one after \<open>start\<close> on an allowed day when every
  allowed day before it gives an instant up to \<open>start\<close>.\<close>

lemma first_on_day:
  assumes "start < t" "clock_in off t = clock_in off r" "P (day_in off t)"
    and "\<And>n. P n \<Longrightarrow> day_in off start \<le> n \<Longrightarrow> n < day_in off r \<Longrightarrow> instant off n (clock_in off r) \<le> start"
  shows "r \<le> t"
proof (rule ccontr)
  assume "\<not> r \<le> t"
  with assms(2) have "day_in off t < day_in off r" using same_clock_le [of off r t] by simp
  with assms(4) [of "day_in off t"] assms(1,3) have "instant off (day_in off t) (clock_in off r) \<le> start"
    using day_in_mono [of start t off] by simp
  with assms(1,2) show False by (simp add: instant_parts flip: assms(2))
qed

lemma parse_run_at_range:
  "parse_run_at s = Some (hour, minute) \<Longrightarrow> 0 \<le> hour \<and> hour < 24 \<and> 0 \<le> minute \<and> minute < 60"
  by (auto simp: parse_run_at_def digits_val_def is_digit_def code_def split: if_splits list.splits)

text \<open>The clock of a schedule.\<close>

definition run_clock :: "int \<Rightarrow> int \<Rightarrow> int" where
  "run_clock hour minute = (hour * 3600 + minute * 60) * nanos"

lemma run_clock_range:
  "0 \<le> hour \<Longrightarrow> hour < 24 \<Longrightarrow> 0 \<le> minute \<Longrightarrow> minute < 60 \<Longrightarrow>
     0 \<le> run_clock hour minute \<and> run_clock hour minute < 86400 * nanos"
  by (simp add: run_clock_def nanos_def)

lemma go_date_instant:
  "fixed_zone off zn \<Longrightarrow> go_date zn y m d hour minute 0 0 = instant off (day_number y m d) (run_clock hour minute)"
  by (simp add: go_date_fixed instant_def run_clock_def nanos_def)

lemma add_days_instant:
  assumes "fixed_zone off zn"
  shows "add_date zn t 0 0 k = instant off (day_in off t + k) (clock_in off t)"
  using add_days_fixed [OF assms, of t k] instant_parts [of off "add_date zn t 0 0 k"] by simp

section \<open>The hourly loop\<close>

lemma next_hour_steps: "\<exists>k \<ge> 0. next_hour start t = t + k * hour_nanos \<and> start < next_hour start t
    \<and> (0 < k \<longrightarrow> next_hour start t \<le> start + hour_nanos)"
proof (induction start t rule: next_hour.induct)
  case (1 start t)
  show ?case
  proof (cases "start < t")
    case True
    then show ?thesis by (intro exI [of _ 0]) (simp add: next_hour.simps)
  next
    case False
    with "1.IH" obtain k where k: "0 \<le> k" "next_hour start (t + hour_nanos) = t + hour_nanos + k * hour_nanos"
      "start < next_hour start (t + hour_nanos)" "0 < k \<longrightarrow> next_hour start (t + hour_nanos) \<le> start + hour_nanos" by auto
    moreover have "next_hour start t = next_hour start (t + hour_nanos)" using False by (subst next_hour.simps) simp
    moreover have "next_hour start (t + hour_nanos) \<le> start + hour_nanos" using k(1,2,4) False by (cases "k = 0") auto
    ultimately show ?thesis by (intro exI [of _ "k + 1"]) (simp add: distrib_right)
  qed
qed

section \<open>The instants at which a schedule is meant to fire\<close>

definition slot :: "int \<Rightarrow> scan_schedule \<Rightarrow> int \<Rightarrow> int \<Rightarrow> int \<Rightarrow> bool" where
  "slot off sch hour minute t \<longleftrightarrow>
     (let interval = to_lower (sc_interval sch)
      in if interval = ''hourly'' then clock_in off t mod hour_nanos = minute * 60 * nanos
         else clock_in off t = run_clock hour minute
           \<and> (if interval = ''weekly'' then (day_in off t + 4) mod 7 = sc_run_day sch mod 7
              else if interval = ''monthly'' then
                (case civil (day_in off t) of (y, m, d) \<Rightarrow> d = min (max 1 (sc_run_day sch)) (month_length y m))
              else True))"

lemma clock_mod_hour: "clock_in off t mod hour_nanos = (t + off * nanos) mod hour_nanos"
  unfolding clock_in_def by (rule mod_mod_cancel) (simp add: hour_nanos_def nanos_def)

text \<open>Two instants with the same clock within the hour are whole hours apart.\<close>

lemma hours_apart:
  fixes s t h :: int
  assumes "s mod h = t mod h" "s < t" "0 < h"
  shows "s + h \<le> t"
proof -
  have "h dvd t - s" using assms(1) mod_eq_dvd_iff [of t h s] by simp
  then show ?thesis using zdvd_imp_le [of h "t - s"] assms(2) by simp
qed

lemma hourly_first:
  fixes start off minute :: int
  assumes "0 \<le> minute" "minute < 60"
  defines "first \<equiv> instant off (day_in off start) (run_clock (clock_in off start div nanos div 3600) minute)"
  shows "first \<le> start + hour_nanos" "clock_in off first mod hour_nanos = minute * 60 * nanos"
proof -
  let ?h = "clock_in off start div nanos div 3600"
  have "clock_in off start div hour_nanos = ?h"
    by (simp add: hour_nanos_def nanos_def div_mult2_eq [symmetric] zdiv_zmult2_eq [symmetric] mult.commute)
  then have h: "hour_nanos * ?h \<le> clock_in off start" using div_bounds [of hour_nanos "clock_in off start"]
    by (simp add: hour_nanos_def nanos_def)
  have first: "first = instant off (day_in off start) (hour_nanos * ?h + minute * 60 * nanos)"
    by (simp add: first_def run_clock_def hour_nanos_def algebra_simps)
  have "minute * 60 * nanos < hour_nanos" using assms(2) by (simp add: hour_nanos_def nanos_def)
  with h have "first < instant off (day_in off start) (clock_in off start) + hour_nanos"
    unfolding first by (simp add: instant_def)
  then show "first \<le> start + hour_nanos" by (simp add: instant_parts)
  have "first + off * nanos = minute * 60 * nanos + hour_nanos * (day_in off start * 24 + ?h)"
    unfolding first by (simp add: instant_def hour_nanos_def algebra_simps)
  then have "(first + off * nanos) mod hour_nanos = (minute * 60 * nanos) mod hour_nanos" by simp
  also have "\<dots> = minute * 60 * nanos"
    using assms(1) \<open>minute * 60 * nanos < hour_nanos\<close> by (intro mod_pos_pos_trivial) (simp_all add: nanos_def)
  finally show "clock_in off first mod hour_nanos = minute * 60 * nanos" by (simp only: clock_mod_hour)
qed

lemma hourly_least:
  assumes "next_hour start first = r" "first \<le> start + hour_nanos" "clock_in off first mod hour_nanos = c"
  shows "start < r \<and> clock_in off r mod hour_nanos = c"
    and "start < t \<Longrightarrow> clock_in off t mod hour_nanos = c \<Longrightarrow> r \<le> t"
proof -
  obtain k where k: "0 \<le> k" "r = first + k * hour_nanos" "start < r" "0 < k \<longrightarrow> r \<le> start + hour_nanos"
    using next_hour_steps [of start first] unfolding assms(1) by blast
  have "r + off * nanos = first + off * nanos + k * hour_nanos" using k(2) by simp
  then have "(r + off * nanos) mod hour_nanos = (first + off * nanos) mod hour_nanos" by (simp only: mod_mult_self1)
  with assms(3) have c: "clock_in off r mod hour_nanos = c" by (simp only: clock_mod_hour)
  with k(3) show "start < r \<and> clock_in off r mod hour_nanos = c" by simp
  assume t: "start < t" "clock_in off t mod hour_nanos = c"
  have "r \<le> start + hour_nanos" using k assms(2) by (cases "k = 0") simp_all
  moreover have "t + hour_nanos \<le> r" if "t < r"
  proof -
    have "(t + off * nanos) mod hour_nanos = (r + off * nanos) mod hour_nanos"
      using c t(2) by (simp only: clock_mod_hour)
    from hours_apart [OF this] that show ?thesis by (simp add: hour_nanos_def nanos_def)
  qed
  ultimately show "r \<le> t" using t(1) by linarith
qed

section \<open>Daily, weekly and monthly schedules\<close>

lemma daily_least:
  assumes zn: "fixed_zone off zn" and c: "0 \<le> c" "c < 86400 * nanos"
    and next0: "next0 = instant off (day_in off start) c"
    and r: "r = (if start < next0 then next0 else add_date zn next0 0 0 1)"
  shows "start < r \<and> clock_in off r = c" and "start < t \<Longrightarrow> clock_in off t = c \<Longrightarrow> r \<le> t"
proof -
  let ?d = "day_in off start"
  have tomorrow: "add_date zn next0 0 0 1 = instant off (?d + 1) c"
    using add_days_instant [OF zn, of next0 1] day_of_instant [OF c, of off ?d] next0 by simp
  have "day_in off start < day_in off (instant off (?d + 1) c)" using day_of_instant [OF c] by simp
  then have after: "start < instant off (?d + 1) c" by (rule instant_less)
  show "start < r \<and> clock_in off r = c"
    using after day_of_instant [OF c] by (simp add: r next0 tomorrow [unfolded next0])
  assume t: "start < t" "clock_in off t = c"
  show "r \<le> t"
  proof (rule first_on_day [of start t off r "\<lambda>_. True"])
    show "clock_in off t = clock_in off r" using t(2) \<open>start < r \<and> clock_in off r = c\<close> by simp
    fix n assume n: "?d \<le> n" "n < day_in off r"
    show "instant off n (clock_in off r) \<le> start"
    proof (cases "start < next0")
      case True
      with n show ?thesis using day_of_instant [OF c, of off ?d] by (simp add: r next0)
    next
      case False
      with n have "n = ?d" using day_of_instant [OF c, of off "?d + 1"] by (simp add: r tomorrow)
      with False \<open>start < r \<and> clock_in off r = c\<close> show ?thesis by (simp add: next0)
    qed
  qed (use t in simp_all)
qed

lemma weekly_least:
  assumes zn: "fixed_zone off zn" and c: "0 \<le> c" "c < 86400 * nanos"
    and k: "k = (w - (day_in off start + 4) + 7) mod 7"
    and r: "r = (if start < instant off (day_in off start + k) c then instant off (day_in off start + k) c
                 else add_date zn (instant off (day_in off start + k) c) 0 0 7)"
  shows "start < r \<and> clock_in off r = c \<and> (day_in off r + 4) mod 7 = w mod 7"
    and "start < t \<Longrightarrow> clock_in off t = c \<Longrightarrow> (day_in off t + 4) mod 7 = w mod 7 \<Longrightarrow> r \<le> t"
proof -
  let ?d = "day_in off start" let ?next = "instant off (?d + k) c"
  have kb: "0 \<le> k" "k < 7" by (simp_all add: k)
  have "(?d + 4 + k) mod 7 = (?d + 4 + (w - (?d + 4) + 7)) mod 7" unfolding k by (rule mod_add_right_eq)
  moreover have "?d + 4 + (w - (?d + 4) + 7) = w + 7" "?d + 4 + k = ?d + k + 4" by simp_all
  ultimately have wk: "(?d + k + 4) mod 7 = w mod 7" by (simp only: mod_add_self2)
  have week: "add_date zn ?next 0 0 7 = instant off (?d + k + 7) c"
    using add_days_instant [OF zn, of ?next 7] day_of_instant [OF c, of off "?d + k"] by simp
  have "day_in off start < day_in off (instant off (?d + k + 7) c)" using day_of_instant [OF c] kb by simp
  then have after: "start < instant off (?d + k + 7) c" by (rule instant_less)
  have "?d + k + 7 + 4 = ?d + k + 4 + 7" by simp
  then have wk7: "(?d + k + 7 + 4) mod 7 = w mod 7" by (simp only: mod_add_self2 wk)
  show start_r: "start < r \<and> clock_in off r = c \<and> (day_in off r + 4) mod 7 = w mod 7"
    using after day_of_instant [OF c] wk wk7 by (simp add: r week)
  assume t: "start < t" "clock_in off t = c" "(day_in off t + 4) mod 7 = w mod 7"
  show "r \<le> t"
  proof (rule first_on_day [of start t off r "\<lambda>n. (n + 4) mod 7 = w mod 7"])
    show "clock_in off t = clock_in off r" using t(2) start_r by simp
    fix n assume n: "(n + 4) mod 7 = w mod 7" "?d \<le> n" "n < day_in off r"
    have near: "n = ?d + k" if "n < ?d + k + 7"
    proof -
      have same: "(?d + k + 4) mod 7 = (n + 4) mod 7" using n(1) wk by simp
      from hours_apart [OF same] hours_apart [OF same [symmetric]] that n(2) kb show ?thesis by linarith
    qed
    show "instant off n (clock_in off r) \<le> start"
    proof (cases "start < ?next")
      case True
      with n near show ?thesis using day_of_instant [OF c, of off "?d + k"] by (simp add: r)
    next
      case False
      with n near have "n = ?d + k" using day_of_instant [OF c, of off "?d + k + 7"] by (simp add: r week)
      with False start_r show ?thesis by simp
    qed
  qed (use t in simp_all)
qed

text \<open>The run of a month: its day is clamped to the length of the month.\<close>

definition month_run_day :: "int \<Rightarrow> int \<Rightarrow> int" where
  "month_run_day day k = first_day k + min (max 1 day) (month_length (k div 12) (k mod 12 + 1)) - 1"

lemma month_run_day_in:
  "first_day k \<le> month_run_day day k \<and> month_run_day day k < first_day (k + 1)"
proof -
  have "civil (first_day k) = (k div 12, k mod 12 + 1, 1)" by (rule civil_first_day)
  from civil_month(3) [OF this] civil_parts [OF this] show ?thesis
    unfolding month_run_day_def month_number_of by (auto simp: min_def max_def)
qed

lemma month_run_day_civil:
  assumes "civil n = (y, m, d)"
  shows "d = min (max 1 day) (month_length y m) \<longleftrightarrow> n = month_run_day day (month_number y m)"
  using civil_month(4) [OF assms] civil_parts [OF assms] month_number_parts [of m y]
  by (auto simp: month_run_day_def)

lemma month_run_day_slot: "civil (month_run_day day k) = (y, m, d) \<Longrightarrow> d = min (max 1 day) (month_length y m)"
  using month_run_day_in [of k day] same_month [of "month_run_day day k" y m d k] month_run_day_civil [of "month_run_day day k" y m d day]
  by simp

lemma month_run_day_mono: "j < k \<Longrightarrow> month_run_day day j < month_run_day day k"
  using month_run_day_in [of j day] month_run_day_in [of k day] first_day_mono [of "j + 1" k]
  by (cases "j + 1 = k") auto

lemma monthly_run_fixed:
  assumes zn: "fixed_zone off zn" and "0 \<le> hour" "hour < 24" "0 \<le> minute" "minute < 60"
  shows "monthly_run zn (go_date zn y m 1 0 0 0 0) day hour minute
    = instant off (month_run_day day (month_number y m)) (run_clock hour minute)"
proof -
  let ?k = "month_number y m"
  have date: "date_in zn (go_date zn y' m' d' 0 0 0 0) = civil (day_number y' m' d')" for y' m' d'
    using day_of_go_date(1) [OF zn, of 0 0] by (simp add: date_in_fixed [OF zn])
  have month: "date_in zn (go_date zn y m 1 0 0 0 0) = (?k div 12, ?k mod 12 + 1, 1)"
    by (simp add: date day_number_first civil_first_day)
  have "day_number (?k div 12) (?k mod 12 + 1 + 1) 0 = first_day (?k + 1) - 1"
    by (simp add: day_number_first month_number_def)
  then have last: "date_in zn (go_date zn (?k div 12) (?k mod 12 + 1 + 1) 0 0 0 0 0) = civil (first_day (?k + 1) - 1)"
    by (simp add: date)
  obtain y' m' d' where c: "civil (first_day (?k + 1) - 1) = (y', m', d')" by (cases "civil (first_day (?k + 1) - 1)")
  have "first_day ?k < first_day (?k + 1)" by (rule first_day_mono) simp
  then have k: "month_number y' m' = ?k" by (intro same_month [OF c]) simp_all
  have "d' = month_length y' m'" using civil_month(3,4) [OF c] by (simp add: k)
  moreover have "y' = ?k div 12 \<and> m' = ?k mod 12 + 1"
    using month_number_parts [of m' y'] civil_parts [OF c] k by simp
  ultimately have d': "d' = month_length (?k div 12) (?k mod 12 + 1)" by simp
  have "day_number (?k div 12) (?k mod 12 + 1) x = first_day ?k + x - 1" for x
    by (simp add: day_number_first month_number_def)
  then show ?thesis
    unfolding monthly_run_def month prod.case last c d' Let_def
    unfolding go_date_instant [OF zn] month_run_day_def
    by (simp add: min_def max_def)
qed

lemma monthly_day:
  "(case civil n of (y, m, d) \<Rightarrow> d = min (max 1 day) (month_length y m)) \<longleftrightarrow> (\<exists>j. n = month_run_day day j)"
proof -
  obtain y m d where c: "civil n = (y, m, d)" by (cases "civil n")
  show ?thesis
    unfolding c prod.case using month_run_day_civil [OF c, of day] month_run_day_slot [of day _ y m d] c by blast
qed

lemma next_month_after:
  assumes "0 \<le> c" "c < 86400 * nanos" "day_in off start < first_day (k + 1)"
  shows "start < instant off (month_run_day day (k + 1)) c"
proof (rule instant_less)
  show "day_in off start < day_in off (instant off (month_run_day day (k + 1)) c)"
    using month_run_day_in [of "k + 1" day] day_of_instant [OF assms(1,2)] assms(3) by simp
qed

lemma monthly_least:
  assumes c: "0 \<le> c" "c < 86400 * nanos" and k: "first_day k \<le> day_in off start" "day_in off start < first_day (k + 1)"
    and r: "r = (if start < instant off (month_run_day day k) c then instant off (month_run_day day k) c
                 else instant off (month_run_day day (k + 1)) c)"
    and P: "P = (\<lambda>n. \<exists>j. n = month_run_day day j)"
  shows "start < r \<and> clock_in off r = c \<and> P (day_in off r)"
    and "start < t \<Longrightarrow> clock_in off t = c \<Longrightarrow> P (day_in off t) \<Longrightarrow> r \<le> t"
proof -
  note after = next_month_after [OF c k(2)]
  show start_r: "start < r \<and> clock_in off r = c \<and> P (day_in off r)"
    using after day_of_instant [OF c] by (auto simp: r P)
  assume t: "start < t" "clock_in off t = c" "P (day_in off t)"
  show "r \<le> t"
  proof (rule first_on_day [of start t off r P])
    show "clock_in off t = clock_in off r" using t(2) start_r by simp
    fix n assume n: "P n" "day_in off start \<le> n" "n < day_in off r"
    then obtain j where j: "n = month_run_day day j" by (auto simp: P)
    have "\<not> j < k"
      using month_run_day_in [of j day] first_day_mono [of "j + 1" k] k(1) n(2) j by (cases "j + 1 = k") auto
    moreover have "j < k \<or> j = k \<or> k + 1 \<le> j" by linarith
    ultimately have jk: "j = k \<or> month_run_day day (k + 1) \<le> n"
      using month_run_day_mono [of "k + 1" j day] j by (cases "j = k + 1") auto
    show "instant off n (clock_in off r) \<le> start"
    proof (cases "start < instant off (month_run_day day k) c")
      case True
      then have "n < month_run_day day k" using n(3) day_of_instant [OF c] by (simp add: r)
      with jk j month_run_day_mono [of k "k + 1" day] show ?thesis by auto
    next
      case False
      then have "n < month_run_day day (k + 1)" using n(3) day_of_instant [OF c] by (simp add: r)
      with jk j False start_r show ?thesis by auto
    qed
  qed (use t in simp_all)
qed

section \<open>The next run\<close>

lemma smod_pos: "0 \<le> a \<Longrightarrow> a smod 7 = a mod 7" for a :: int
  by (cases "a = 0") (simp_all add: smod_int_alt_def)

lemma smod_week: "(a smod 7 + 7) smod 7 = a mod 7" for a :: int
proof -
  have "a smod 7 = a - 7 * (a sdiv 7)" by (rule minus_mult_sdiv_eq_smod [symmetric])
  then have "(a smod 7 + 7) mod 7 = (a - 7 * (a sdiv 7) + 7) mod 7" by simp
  also have "a - 7 * (a sdiv 7) + 7 = a + (1 - a sdiv 7) * 7" by simp
  also have "\<dots> mod 7 = a mod 7" by (rule mod_mult_self1)
  finally have eq: "(a smod 7 + 7) mod 7 = a mod 7" .
  have "\<bar>a smod 7\<bar> < 7" using smod_int_compares [of a 7] by (cases "0 \<le> a") auto
  then have "(a smod 7 + 7) smod 7 = (a smod 7 + 7) mod 7" by (intro smod_pos) simp
  with eq show ?thesis by simp
qed

lemma weekday_diff: "(r mod 7 - x mod 7 + 7) smod 7 = (r - x + 7) mod 7" for r x :: int
proof -
  have "r mod 7 - x mod 7 + 7 = (r mod 7 + 7) - x mod 7" by simp
  have "0 \<le> r mod 7 - x mod 7 + 7" using pos_mod_bound [of 7 x] pos_mod_sign [of 7 r] by linarith
  then have "(r mod 7 - x mod 7 + 7) smod 7 = (r mod 7 - x mod 7 + 7) mod 7" by (rule smod_pos)
  also have "\<dots> = (r - x + 7) mod 7" by (simp add: mod_simps)
  finally show ?thesis .
qed

lemma anchored_date:
  assumes zn: "fixed_zone off zn" and date: "date_in zn start = (y, m, d)"
  shows "go_date zn y m d hour minute 0 0 = instant off (day_in off start) (run_clock hour minute)"
    and "civil (day_in off start) = (y, m, d)"
proof -
  show c: "civil (day_in off start) = (y, m, d)" using date by (simp add: date_in_fixed [OF zn])
  have "day_number y m d = day_in off start" using civil_bracket [OF c] by blast
  then show "go_date zn y m d hour minute 0 0 = instant off (day_in off start) (run_clock hour minute)"
    by (simp add: go_date_instant [OF zn])
qed

text \<open>C29: a recurring schedule with a time of day, in a location with one offset, fires next at the first
  instant after the given one that the schedule names: at that minute of any hour, at that time of any
  day, of the weekday, or of the day of the month (clamped to the length of the month). It is always
  later than the given instant and no named instant is passed over.\<close>

theorem next_run_is_next_slot:
  assumes "\<not> is_once (sc_interval sch)" "parse_run_at (sc_run_at sch) = Some (hour, minute)"
    and zn: "fixed_zone off (schedule_location zs (sc_timezone sch))"
  shows "start < calculate_next_run zs sch start \<and> slot off sch hour minute (calculate_next_run zs sch start)
    \<and> (\<forall>t. start < t \<and> slot off sch hour minute t \<longrightarrow> calculate_next_run zs sch start \<le> t)"
proof -
  let ?zn = "schedule_location zs (sc_timezone sch)" let ?c = "run_clock hour minute"
  note range = parse_run_at_range [OF assms(2)]
  then have c: "0 \<le> ?c" "?c < 86400 * nanos" using run_clock_range by auto
  obtain y m d where date: "date_in ?zn start = (y, m, d)" by (cases "date_in ?zn start")
  note today = anchored_date [OF zn date]
  let ?r = "calculate_next_run zs sch start"
  have r: "?r = anchored_run zs sch hour minute start" using assms(1,2) by (simp add: calculate_next_run_def)
  show ?thesis
  proof (cases "to_lower (sc_interval sch) = ''hourly''")
    case True
    then have run: "next_hour start (instant off (day_in off start)
        (run_clock (clock_in off start div nanos div 3600) minute)) = ?r"
      unfolding r anchored_run_def Let_def date prod.case today(1) second_of_day_fixed [OF zn] by simp
    from range hourly_least [OF run hourly_first] True show ?thesis by (auto simp: slot_def)
  next
    case not_hourly: False
    show ?thesis
    proof (cases "to_lower (sc_interval sch) = ''weekly''")
      case True
      have k: "((sc_run_day sch smod 7 + 7) smod 7 - weekday_in ?zn (instant off (day_in off start) ?c) + 7) smod 7
          = (sc_run_day sch - (day_in off start + 4) + 7) mod 7"
        unfolding smod_week weekday_in_fixed [OF zn] conjunct1 [OF day_of_instant [OF c]] by (rule weekday_diff)
      have "?r = (let t = add_date ?zn (instant off (day_in off start) ?c) 0 0
          ((sc_run_day sch - (day_in off start + 4) + 7) mod 7) in if start < t then t else add_date ?zn t 0 0 7)"
        unfolding r anchored_run_def Let_def date prod.case today(1) k using True by simp
      then have "?r = (let t = instant off (day_in off start + (sc_run_day sch - (day_in off start + 4) + 7) mod 7) ?c
          in if start < t then t else add_date ?zn t 0 0 7)"
        unfolding add_days_instant [OF zn, of "instant off (day_in off start) ?c"] day_of_instant [OF c, THEN conjunct1]
          day_of_instant [OF c, THEN conjunct2] .
      note weekly_least [OF zn c refl this [unfolded Let_def]]
      with True show ?thesis by (auto simp: slot_def)
    next
      case not_weekly: False
      show ?thesis
      proof (cases "to_lower (sc_interval sch) = ''monthly''")
        case True
        let ?k = "month_number y m" let ?day = "sc_run_day sch"
        note k = civil_month(1,2) [OF today(2)]
        have runs: "monthly_candidates ?zn start ?day hour minute
            = [instant off (month_run_day ?day ?k) ?c, instant off (month_run_day ?day (?k + 1)) ?c,
               instant off (month_run_day ?day (?k + 2)) ?c]"
          using range by (simp add: monthly_candidates_def date monthly_run_fixed [OF zn] month_number_def)
        have "?r = (if start < instant off (month_run_day ?day ?k) ?c then instant off (month_run_day ?day ?k) ?c
            else instant off (month_run_day ?day (?k + 1)) ?c)"
          unfolding r anchored_run_def Let_def date prod.case runs
          using True next_month_after [OF c k(2), of ?day] by simp
        from monthly_least [OF c k this refl] True show ?thesis by (auto simp: slot_def monthly_day)
      next
        case False
        have "?r = (if start < instant off (day_in off start) ?c then instant off (day_in off start) ?c
            else add_date ?zn (instant off (day_in off start) ?c) 0 0 1)"
          unfolding r anchored_run_def Let_def date prod.case today(1) using not_hourly not_weekly False by simp
        note daily_least [OF zn c refl this]
        with not_hourly not_weekly False show ?thesis by (auto simp: slot_def)
      qed
    qed
  qed
qed

definition utc_zone :: zone where "utc_zone t = (0, - 9223372036854775808, 9223372036854775807)"

definition utc_zones :: zones where "utc_zones = \<lparr>zs_local = utc_zone, zs_named = (\<lambda>_. Some utc_zone)\<rparr>"

definition friday_schedule :: scan_schedule where
  "friday_schedule = empty_schedule\<lparr>sc_interval := ''Weekly'', sc_run_at := ''09:30'', sc_run_day := 5\<rparr>"

text \<open>From Monday the 29th of January 2024, noon, to Friday the 2nd of February.\<close>

lemma friday_run: "calculate_next_run utc_zones friday_schedule (1706529600 * nanos) = 1706866200 * nanos"
proof -
  have "date_in utc_zone (1706529600 * nanos) = (2024, 1, 29)"
    "go_date utc_zone 2024 1 29 9 30 0 0 = 1706520600 * nanos"
    "weekday_in utc_zone (1706520600 * nanos) = 1"
    "add_date utc_zone (1706520600 * nanos) 0 0 4 = 1706866200 * nanos"
    "sc_run_day friday_schedule = 5" "to_lower (sc_interval friday_schedule) = ''weekly''"
    "parse_run_at (sc_run_at friday_schedule) = Some (9, 30)"
    "((5::int) smod 7 + 7) smod 7 = 5" "(5 - 1 + 7) smod 7 = (4::int)" "1706529600 * nanos < 1706866200 * nanos"
    by code_simp+
  moreover have "schedule_location utc_zones (sc_timezone friday_schedule) = utc_zone"
    by (simp add: schedule_location_def utc_zones_def)
  ultimately show ?thesis by (simp add: calculate_next_run_def is_once_def anchored_run_def Let_def)
qed

theorem next_run_is_next_slot_witness:
  "calculate_next_run utc_zones friday_schedule (1706529600 * nanos) = 1706866200 * nanos
   \<and> slot 0 friday_schedule 9 30 (1706866200 * nanos)"
proof -
  have "\<not> is_once (sc_interval friday_schedule)"
    "parse_run_at (sc_run_at friday_schedule) = Some (9, 30)" by code_simp+
  moreover have "fixed_zone 0 (schedule_location utc_zones (sc_timezone friday_schedule))"
    by (simp add: fixed_zone_def schedule_location_def utc_zones_def utc_zone_def)
  ultimately show ?thesis
    using next_run_is_next_slot [of friday_schedule 9 30 0 utc_zones "1706529600 * nanos"] friday_run by simp
qed

text \<open>C31: the search of an hourly schedule ends in every location, also across a change of the offset: it
  returns the candidate of this hour or one a whole number of hours later, after the given instant,
  and when it moved on at all, at most an hour after it.\<close>

theorem hourly_search_ends:
  assumes "to_lower (sc_interval sch) = ''hourly''" "parse_run_at (sc_run_at sch) = Some (hour, minute)"
    and "date_in (schedule_location zs (sc_timezone sch)) start = (y, m, d)"
    and "first = go_date (schedule_location zs (sc_timezone sch)) y m d
      (second_of_day (schedule_location zs (sc_timezone sch)) start div 3600) minute 0 0"
  shows "\<exists>k \<ge> 0. calculate_next_run zs sch start = first + k * hour_nanos \<and> start < calculate_next_run zs sch start
    \<and> (0 < k \<longrightarrow> calculate_next_run zs sch start \<le> start + hour_nanos)"
proof -
  have "calculate_next_run zs sch start = next_hour start first"
    using assms by (simp add: calculate_next_run_def is_once_def anchored_run_def Let_def)
  then show ?thesis using next_hour_steps [of start first] by simp
qed

text \<open>A location an hour ahead from the 31st of March 2024, 01:00 UTC, on: the hour from 02:00 is missing.\<close>

definition spring_zone :: zone where
  "spring_zone t = (if t < 1711846800 then (3600, - 9223372036854775808, 1711846800) else (7200, 1711846800, 9223372036854775807))"

definition hourly_schedule :: scan_schedule where
  "hourly_schedule = empty_schedule\<lparr>sc_interval := ''hourly'', sc_run_at := ''00:15'', sc_timezone := ''Spring''\<rparr>"

theorem hourly_search_ends_witness:
  "\<exists>k \<ge> 0. calculate_next_run \<lparr>zs_local = utc_zone, zs_named = (\<lambda>_. Some spring_zone)\<rparr> hourly_schedule
      (1711845900 * nanos) = 1711844100 * nanos + k * hour_nanos"
proof -
  let ?zs = "\<lparr>zs_local = utc_zone, zs_named = (\<lambda>_. Some spring_zone)\<rparr>"
  have "to_lower (sc_interval hourly_schedule) = ''hourly''"
    "parse_run_at (sc_run_at hourly_schedule) = Some (0, 15)"
    "date_in (schedule_location ?zs (sc_timezone hourly_schedule)) (1711845900 * nanos) = (2024, 3, 31)"
    "1711844100 * nanos = go_date (schedule_location ?zs (sc_timezone hourly_schedule)) 2024 3 31
      (second_of_day (schedule_location ?zs (sc_timezone hourly_schedule)) (1711845900 * nanos) div 3600) 15 0 0"
    by code_simp+
  from hourly_search_ends [OF this] show ?thesis by blast
qed

end
