(* ===== verification/ScheduleProperties.thy ===== *)
theory ScheduleProperties
  imports ScheduleApi NextRun PlannerProperties
begin

text \<open>
  What the scheduler promises over any sequence of its operations, restarts included: what it starts
  was reviewed, a one-time schedule is consumed, and where the code and its comments part.
\<close>

section \<open>Runs\<close>

datatype schedule_op =
  Create scan_schedule | Update string scan_schedule | Delete string | Trigger string | Tick | Restart
| CutTick "string list" string | CutRestart "string list" string

definition schedule_step :: "moment_of_schedules \<times> schedule_op \<Rightarrow> scheduler \<Rightarrow> scheduler" where
  "schedule_step mop st =
     (case mop of (mo, op) \<Rightarrow>
        (case op of
           Create req \<Rightarrow> fst (create_schedule mo req st)
         | Update i req \<Rightarrow> fst (update_schedule mo i req st)
         | Delete i \<Rightarrow> fst (delete_schedule mo i st)
         | Trigger i \<Rightarrow> fst (trigger_schedule mo i st)
         | Tick \<Rightarrow> check_and_run_schedules mo st
         | Restart \<Rightarrow> start_server mo st
         | CutTick ks i \<Rightarrow> cut_tick mo ks i st
         | CutRestart ks i \<Rightarrow> cut_tick mo ks i (boot_schedules mo st)))"

definition no_schedules :: scheduler where
  "no_schedules = \<lparr>sr_schedules = [], sr_disk = [], sr_started = []\<rparr>"

section \<open>What a schedule pledges to run\<close>

definition pledge :: "scan_schedule \<Rightarrow> assessment_config option \<times> string" where
  "pledge sch = (sc_assessment sch, sc_fingerprint sch)"

lemma set_review_pledge [simp]: "pledge (fst (set_review r sch)) = pledge sch"
  by (simp add: set_review_def Let_def pledge_def)

lemma reschedule_pledge [simp]: "pledge (reschedule mo sch) = pledge sch"
  by (simp add: reschedule_def pledge_def)

lemma update_pledge [simp]:
  "pledge (sch\<lparr>sc_last_skipped := t\<rparr>) = pledge sch" "pledge (sch\<lparr>sc_last_run := t\<rparr>) = pledge sch"
  "pledge (sch\<lparr>sc_id := i\<rparr>) = pledge sch" "pledge (sch\<lparr>sc_enabled := b\<rparr>) = pledge sch"
  "pledge (sch\<lparr>sc_next_run := t\<rparr>) = pledge sch" "pledge (sch\<lparr>sc_name := n\<rparr>) = pledge sch"
  "pledge (sch\<lparr>sc_interval := n\<rparr>) = pledge sch"
  "pledge (wire sch) = pledge sch" "pledge (normalize_schedule_activity sch) = pledge sch"
  by (simp_all add: pledge_def wire_def normalize_schedule_activity_def Let_def)

lemma cleared_pledge [simp]: "pledge (cleared sch) = pledge sch"
  by (simp add: cleared_def)

lemma skipped_launched_pledge [simp]: "pledge (skipped mo sch) = pledge sch" "pledge (launched mo sch) = pledge sch"
  by (simp_all add: skipped_def launched_def)

lemma timing_pledge [simp]: "pledge (fst (normalize_schedule_timing zs sch)) = pledge sch"
  by (simp add: normalize_schedule_timing_def Let_def drop_stale_date_def pledge_def)

lemma canonical_pledge [simp]:
  "pledge (default_scan_mode sch) = pledge sch" "pledge (canonical_artifact sch) = pledge sch"
  "pledge (artifact_target sch) = pledge sch" "pledge (sch\<lparr>sc_scanners := names\<rparr>) = pledge sch"
  by (simp_all add: default_scan_mode_def canonical_artifact_def artifact_target_def pledge_def)

lemma deterministic_pledge [simp]: "pledge (fst (normalize_deterministic_schedule sch)) = pledge sch"
  by (simp add: normalize_deterministic_schedule_def Let_def del: set_simps insert_iff split: sum.split)

lemma load_pledge [simp]: "pledge (load_schedule zs sch) = pledge sch"
  by (simp add: load_schedule_def Let_def)

definition vows :: "(string \<times> scan_schedule) list \<Rightarrow> (assessment_config option \<times> string) set" where
  "vows m = pledge ` snd ` set m"

definition pledges :: "scheduler \<Rightarrow> (assessment_config option \<times> string) set" where
  "pledges st = vows (sr_schedules st) \<union> vows (sr_disk st)"

lemma vows_simps [simp]: "vows [] = {}" "vows (d # ds) = insert (pledge (snd d)) (vows ds)"
  by (simp_all add: vows_def)

lemma vows_put: "vows (put k v m) \<subseteq> insert (pledge v) (vows m)"
  by (induction k v m rule: put.induct) auto

lemma pledges_put: "pledges (put_schedule i sch st) \<subseteq> insert (pledge sch) (pledges st)"
  using vows_put [of i sch "sr_schedules st"] by (auto simp: pledges_def put_schedule_def)

lemma pledges_save: "pledges (save_schedule mo sch st) \<subseteq> insert (pledge sch) (pledges st)"
  using vows_put [of "sc_id sch" "wire sch" "sr_disk st"] by (auto simp: pledges_def save_schedule_def)

lemma pledges_save_put: "pledges (save_schedule mo sch (put_schedule i sch st)) \<subseteq> insert (pledge sch) (pledges st)"
  using pledges_save [of mo sch "put_schedule i sch st"] pledges_put [of i sch st] by blast

lemma pledges_start [simp]: "pledges (start_scan mo i sch st) = pledges st"
  by (simp add: pledges_def start_scan_def)

lemma pledge_stored: "map_of (sr_schedules st) i = Some sch \<Longrightarrow> pledge sch \<in> pledges st"
  by (force simp: pledges_def vows_def dest: map_of_SomeD)

lemma started_simps [simp]:
  "sr_started (save_schedule mo sch st) = sr_started st" "sr_started (put_schedule i sch st) = sr_started st"
  "sr_started (start_scan mo i sch st) = sr_started st @ [(tk_now mo, i, scan_start_of sch)]"
  by (simp_all add: save_schedule_def put_schedule_def start_scan_def)

section \<open>What is started was reviewed\<close>

definition current_plan :: "moment_of_schedules \<Rightarrow> assessment_config \<Rightarrow> string \<Rightarrow> bool" where
  "current_plan mo cfg fp \<longleftrightarrow> fp \<noteq> '''' \<and> pl_errors (plan_now mo cfg) = [] \<and> pl_fingerprint (plan_now mo cfg) = fp"

lemma review_none: "schedule_review_reason p fp = NoReview \<longleftrightarrow> fp \<noteq> '''' \<and> pl_errors p = [] \<and> pl_fingerprint p = fp"
  by (simp add: schedule_review_reason_def split: list.split)

lemma review_now_none:
  "review_now mo sch = NoReview \<Longrightarrow> sc_assessment sch = Some cfg \<Longrightarrow> current_plan mo cfg (sc_fingerprint sch)"
  by (simp add: review_now_def current_plan_def review_none)

text \<open>A pledge is honoured when it has no typed assessment or its fingerprint is that of the plan.\<close>

definition honoured :: "moment_of_schedules \<Rightarrow> assessment_config option \<times> string \<Rightarrow> bool" where
  "honoured mo p \<longleftrightarrow> (case fst p of None \<Rightarrow> True | Some cfg \<Rightarrow> current_plan mo cfg (snd p))"

lemma honoured_review: "review_now mo sch = NoReview \<Longrightarrow> honoured mo (pledge sch)"
  by (simp add: honoured_def pledge_def review_now_none split: option.split)

lemma accept_request_current: "accept_request mo req = Inr r \<Longrightarrow> honoured mo (pledge r)"
  by (auto simp: accept_request_def honoured_def pledge_def current_plan_def Let_def split: sum.splits option.splits if_splits)

lemma timed_request_pledge: "timed_request mo req = Inr r \<Longrightarrow> pledge r = pledge req"
  using timing_pledge [of "tk_zones mo" "normalize_schedule_activity req"]
  by (auto simp: timed_request_def split: prod.splits option.splits simp del: timing_pledge)

text \<open>The two things an operation does: it stores pledges, and it starts scans.\<close>

definition started_pledge :: "scan_start \<Rightarrow> assessment_config option \<times> string" where
  "started_pledge s = (ru_assessment s, ru_fingerprint s)"

lemma started_pledge_of [simp]: "started_pledge (scan_start_of sch) = pledge sch"
  by (simp add: started_pledge_def scan_start_of_def pledge_def)

definition keeps_pledges :: "moment_of_schedules \<Rightarrow> scheduler \<Rightarrow> scheduler \<Rightarrow> bool" where
  "keeps_pledges mo st st' \<longleftrightarrow>
     pledges st' \<subseteq> pledges st
     \<and> (\<exists>new. sr_started st' = sr_started st @ new
          \<and> (\<forall>(t, i, s) \<in> set new. t = tk_now mo \<and> honoured mo (started_pledge s) \<and> started_pledge s \<in> pledges st))"

lemma keeps_pledges_refl: "keeps_pledges mo st st"
  by (simp add: keeps_pledges_def)

lemma keeps_pledges_trans: "keeps_pledges mo a b \<Longrightarrow> keeps_pledges mo b c \<Longrightarrow> keeps_pledges mo a c"
  unfolding keeps_pledges_def by fastforce

lemma keeps_pledges_fold:
  assumes "\<And>x st. keeps_pledges mo st (f x st)"
  shows "keeps_pledges mo st (fold f xs st)"
proof (induction xs arbitrary: st)
  case (Cons x xs)
  show ?case using keeps_pledges_trans [OF assms [of st x] Cons.IH [of "f x st"]] by simp
qed (simp add: keeps_pledges_refl)

lemma tick_run_keeps: "keeps_pledges mo st (fst (tick_run mo i st))"
proof (cases "map_of (sr_schedules st) i")
  case (Some sch)
  note stored = pledge_stored [OF Some]
  consider "\<not> due mo sch" | "due mo sch" "review_now mo sch \<noteq> NoReview" | "due mo sch" "review_now mo sch = NoReview" by blast
  then show ?thesis
  proof cases
    case 2
    with stored show ?thesis
      using pledges_put [of i "skipped mo sch" st] by (auto simp: keeps_pledges_def tick_run_def Some)
  next
    case 3
    with stored honoured_review [OF 3(2)] show ?thesis
      using pledges_put [of i "launched mo sch" "start_scan mo i (cleared sch) st"]
      by (auto simp: keeps_pledges_def tick_run_def Some)
  qed (simp add: tick_run_def Some keeps_pledges_refl)
qed (simp add: tick_run_def keeps_pledges_refl)

lemma tick_run_saves: "snd (tick_run mo i st) = Some sch \<Longrightarrow> pledge sch \<in> pledges st"
  by (auto simp: tick_run_def pledge_stored split: option.splits if_splits)

lemma save_keeps: "keeps_pledges mo st st' \<Longrightarrow> pledge sch \<in> pledges st \<Longrightarrow> keeps_pledges mo st (save_schedule mo sch st')"
  using pledges_save [of mo sch st'] by (auto simp: keeps_pledges_def)

lemma tick_schedule_keeps: "keeps_pledges mo st (tick_schedule mo i st)"
  using tick_run_keeps [of mo st i] tick_run_saves [of mo i st]
  by (auto simp: tick_schedule_def intro: save_keeps split: prod.splits option.splits)

lemma cut_tick_keeps: "keeps_pledges mo st (cut_tick mo ks i st)"
proof -
  have "keeps_pledges mo st (fst (tick_run mo i (fold (tick_schedule mo) ks st)))"
    by (rule keeps_pledges_trans [OF keeps_pledges_fold [OF tick_schedule_keeps] tick_run_keeps])
  then show ?thesis by (auto simp: cut_tick_def keeps_pledges_def pledges_def)
qed

lemma tick_keeps: "keeps_pledges mo st (check_and_run_schedules mo st)"
  unfolding check_and_run_schedules_def by (rule keeps_pledges_fold) (rule tick_schedule_keeps)

lemma apply_review_keeps: "keeps_pledges mo st (apply_review mo item st)"
proof -
  obtain i cfg fp where item: "item = (i, cfg, fp)" by (cases item)
  show ?thesis
  proof (cases "map_of (sr_schedules st) i")
    case (Some sch)
    let ?s = "fst (set_review (schedule_review_reason (plan_now mo cfg) fp) sch)"
    show ?thesis
      using pledges_save_put [of mo ?s i st] pledge_stored [OF Some]
      by (auto simp: keeps_pledges_def apply_review_def item Some Let_def case_prod_beta)
  qed (simp add: item apply_review_def keeps_pledges_refl)
qed

lemma load_keeps: "keeps_pledges mo st (load_schedules_from_disk mo st)"
proof -
  have "vows (fold (\<lambda>(f, sch). put (sc_id sch) (load_schedule zs sch)) ds m) \<subseteq> vows m \<union> vows ds" for ds m zs
  proof (induction ds arbitrary: m)
    case (Cons d ds)
    show ?case
      using Cons.IH [of "put (sc_id (snd d)) (load_schedule zs (snd d)) m"]
        vows_put [of "sc_id (snd d)" "load_schedule zs (snd d)" m]
      by (cases d) auto
  qed simp
  from this [of "tk_zones mo" "sr_disk st" "[]"] show ?thesis
    by (auto simp: keeps_pledges_def load_schedules_from_disk_def pledges_def)
qed

lemma boot_keeps: "keeps_pledges mo st (boot_schedules mo st)"
proof -
  have "keeps_pledges mo (load_schedules_from_disk mo st) (refresh_schedule_reviews mo (load_schedules_from_disk mo st))"
    unfolding refresh_schedule_reviews_def by (rule keeps_pledges_fold) (rule apply_review_keeps)
  from keeps_pledges_trans [OF load_keeps this] show ?thesis by (simp only: boot_schedules_def)
qed

lemma start_server_keeps: "keeps_pledges mo st (start_server mo st)"
  unfolding start_server_def by (rule keeps_pledges_trans [OF boot_keeps tick_keeps])

lemma cut_restart_keeps: "keeps_pledges mo st (cut_tick mo ks i (boot_schedules mo st))"
  by (rule keeps_pledges_trans [OF boot_keeps cut_tick_keeps])

text \<open>Every operation stores only pledges that were stored before or are honoured as it runs, and starts
  only honoured ones.\<close>

lemma delete_keeps: "keeps_pledges mo st (fst (delete_schedule mo i st))"
proof -
  have "vows (AList.delete i m) \<subseteq> vows m" for m
    by (auto simp: vows_def AList.delete_eq)
  from this [of "sr_schedules st"] this [of "sr_disk st"] show ?thesis
    by (auto simp: keeps_pledges_def delete_schedule_def pledges_def Let_def)
qed

lemma trigger_keeps: "keeps_pledges mo st (fst (trigger_schedule mo i st))"
proof (cases "map_of (sr_schedules st) i")
  case (Some sch)
  note stored = pledge_stored [OF Some]
  let ?s = "fst (set_review (review_now mo sch) sch)"
  show ?thesis
  proof (cases "review_now mo sch = NoReview")
    case True
    with stored honoured_review [OF True] show ?thesis
      using pledges_save_put [of mo "sch\<lparr>sc_last_run := tk_now mo\<rparr>" i "start_scan mo i sch st"]
      by (auto simp: keeps_pledges_def trigger_schedule_def trigger_check_def trigger_start_def Some Let_def)
  next
    case False
    with stored show ?thesis
      using pledges_save_put [of mo ?s i st]
      by (auto simp: keeps_pledges_def trigger_schedule_def trigger_check_def Some Let_def case_prod_beta)
  qed
qed (simp add: trigger_schedule_def keeps_pledges_refl)

definition adds_honoured :: "moment_of_schedules \<Rightarrow> scheduler \<Rightarrow> scheduler \<Rightarrow> bool" where
  "adds_honoured mo st st' \<longleftrightarrow>
     sr_started st' = sr_started st \<and> (\<exists>p. honoured mo p \<and> pledges st' \<subseteq> insert p (pledges st))"

lemma adds_honouredI:
  "sr_started st' = sr_started st \<Longrightarrow> honoured mo p \<Longrightarrow> pledges st' \<subseteq> insert p (pledges st) \<Longrightarrow> adds_honoured mo st st'"
  unfolding adds_honoured_def by blast

lemma create_adds: "adds_honoured mo st (fst (create_schedule mo req st))"
proof (cases "accept_request mo req")
  case (Inl r)
  have "honoured mo (None, '''')" by (simp add: honoured_def)
  then show ?thesis by (auto simp: create_schedule_def Inl adds_honoured_def)
next
  case (Inr r1)
  let ?r2 = "if sc_name r1 = '''' then r1\<lparr>sc_name := ''Scheduled Scan '' @ join_on '', '' (sc_targets r1)\<rparr> else r1"
  let ?r3 = "if sc_interval ?r2 = '''' then ?r2\<lparr>sc_interval := ''daily''\<rparr> else ?r2"
  have r3: "pledge ?r3 = pledge r1" by (simp add: pledge_def)
  show ?thesis
  proof (cases "timed_request mo ?r3")
    case r: (Inl r)
    have "honoured mo (None, '''')" by (simp add: honoured_def)
    then show ?thesis unfolding create_schedule_def Inr Let_def sum.case r by (auto simp: adds_honoured_def)
  next
    case r: (Inr r4)
    then have "pledge r4 = pledge r1" using timed_request_pledge r3 by metis
    with accept_request_current [OF Inr] show ?thesis
      unfolding create_schedule_def Inr Let_def sum.case r fst_conv adds_honoured_def
      by (intro conjI exI [of _ "pledge r4"] order_trans [OF pledges_save_put]) simp_all
  qed
qed

lemma merge_pledge: "pledge (merge_request req sch) = (if sc_assessment req = None then pledge sch else pledge req)"
  by (simp add: merge_request_def Let_def) (simp add: pledge_def)

lemma updated_pledge: "pledge (updated mo req sch) = pledge (merge_request req sch)"
  by (simp add: updated_def Let_def pledge_def)

lemma update_adds: "adds_honoured mo st (fst (update_schedule mo i req st))"
proof -
  have none: "adds_honoured mo st st"
    unfolding adds_honoured_def by (intro conjI exI [of _ "(None, '''')"]) (auto simp: honoured_def)
  show ?thesis
  proof (cases "map_of (sr_schedules st) i")
    case (Some sch)
    show ?thesis
    proof (cases "accept_request mo req")
      case (Inr r1)
      show ?thesis
      proof (cases "timed_request mo r1")
        case r: (Inr r4)
        let ?s = "updated mo r4 sch"
        have "pledge r4 = pledge r1" by (rule timed_request_pledge [OF r])
        then have "pledge ?s \<in> pledges st \<or> honoured mo (pledge ?s)"
          using accept_request_current [OF Inr] pledge_stored [OF Some] by (simp add: updated_pledge merge_pledge)
        then show ?thesis
        proof
          assume "pledge ?s \<in> pledges st"
          with pledges_save_put [of mo ?s i st] none show ?thesis
            by (auto simp: update_schedule_def Some Inr r Let_def adds_honoured_def)
        next
          assume "honoured mo (pledge ?s)"
          with pledges_save_put [of mo ?s i st] show ?thesis
            by (intro adds_honouredI [of _ _ _ "pledge ?s"]) (simp_all add: update_schedule_def Some Inr r Let_def)
        qed
      qed (simp add: update_schedule_def Some Inr none)
    qed (simp add: update_schedule_def Some none)
  qed (simp add: update_schedule_def none)
qed

definition saves :: "schedule_op \<Rightarrow> bool" where
  "saves op \<longleftrightarrow> (case op of Create _ \<Rightarrow> True | Update _ _ \<Rightarrow> True | _ \<Rightarrow> False)"

lemma schedule_step_cases:
  "if saves op then adds_honoured mo st (schedule_step (mo, op) st) else keeps_pledges mo st (schedule_step (mo, op) st)"
  by (cases op)
    (simp_all add: saves_def schedule_step_def create_adds update_adds delete_keeps trigger_keeps tick_keeps start_server_keeps
      cut_tick_keeps cut_restart_keeps)

definition reviewed_inv :: "(moment_of_schedules \<times> schedule_op) list \<Rightarrow> scheduler \<Rightarrow> bool" where
  "reviewed_inv ms st \<longleftrightarrow>
     (\<forall>p \<in> pledges st. fst p \<noteq> None \<longrightarrow> (\<exists>(mo, op) \<in> set ms. saves op \<and> honoured mo p))
     \<and> (\<forall>(t, i, s) \<in> set (sr_started st). fst (started_pledge s) \<noteq> None \<longrightarrow>
          (\<exists>(mo, op) \<in> set ms. tk_now mo = t \<and> \<not> saves op \<and> honoured mo (started_pledge s))
          \<and> (\<exists>(mo, op) \<in> set ms. saves op \<and> honoured mo (started_pledge s)))"

lemma reviewed_inv_step:
  assumes inv: "reviewed_inv ms st"
  shows "reviewed_inv (ms @ [(mo, op)]) (schedule_step (mo, op) st)"
proof (cases "saves op")
  case True
  with schedule_step_cases [of op mo st] have "adds_honoured mo st (schedule_step (mo, op) st)" by simp
  then obtain p where p: "sr_started (schedule_step (mo, op) st) = sr_started st" "honoured mo p"
    "pledges (schedule_step (mo, op) st) \<subseteq> insert p (pledges st)" unfolding adds_honoured_def by blast
  with inv True show ?thesis unfolding reviewed_inv_def by fastforce
next
  case False
  with schedule_step_cases [of op mo st] have "keeps_pledges mo st (schedule_step (mo, op) st)" by simp
  then obtain new where new: "pledges (schedule_step (mo, op) st) \<subseteq> pledges st"
    "sr_started (schedule_step (mo, op) st) = sr_started st @ new"
    "\<forall>(t, i, s) \<in> set new. t = tk_now mo \<and> honoured mo (started_pledge s) \<and> started_pledge s \<in> pledges st"
    unfolding keeps_pledges_def by blast
  have "\<forall>p \<in> pledges (schedule_step (mo, op) st). fst p \<noteq> None \<longrightarrow> (\<exists>(mo, op) \<in> set (ms @ [(mo, op)]). saves op \<and> honoured mo p)"
    using inv new(1) unfolding reviewed_inv_def by fastforce
  moreover have "\<forall>(t, i, s) \<in> set (sr_started (schedule_step (mo, op) st)). fst (started_pledge s) \<noteq> None \<longrightarrow>
      (\<exists>(mo, op) \<in> set (ms @ [(mo, op)]). tk_now mo = t \<and> \<not> saves op \<and> honoured mo (started_pledge s))
      \<and> (\<exists>(mo, op) \<in> set (ms @ [(mo, op)]). saves op \<and> honoured mo (started_pledge s))"
    using inv new False unfolding reviewed_inv_def by fastforce
  ultimately show ?thesis unfolding reviewed_inv_def by blast
qed

lemma reviewed_inv_run: "reviewed_inv ms (fold schedule_step ms no_schedules)"
proof (induction ms rule: rev_induct)
  case Nil
  then show ?case by (simp add: reviewed_inv_def no_schedules_def pledges_def)
next
  case (snoc mop ms)
  then show ?case by (cases mop) (simp add: reviewed_inv_step)
qed

text \<open>C28: over any sequence of saved, changed, deleted and triggered schedules, ticks, crashes in a tick and restarts,
  a typed scan is only started with a configuration and a plan fingerprint that an operator's save had been
  checked against, and only at a moment at which the plan built anew has no error and this very
  fingerprint: the configuration is valid then, and no target and no approved origin is the operator's
  own machine.\<close>

theorem starts_only_reviewed_plans:
  assumes "(t, i, s) \<in> set (sr_started (fold schedule_step ms no_schedules))" "ru_assessment s = Some cfg"
  shows "\<exists>mo op mo' op'. (mo, op) \<in> set ms \<and> (mo', op') \<in> set ms \<and> saves op'
    \<and> current_plan mo' cfg (ru_fingerprint s) \<and> tk_now mo = t \<and> current_plan mo cfg (ru_fingerprint s)
    \<and> filter pb_blocking (validate (normalize_config cfg)) = []
    \<and> assessment_scope_problems (tk_server mo) [] cfg = []"
proof -
  have "fst (started_pledge s) \<noteq> None" by (simp add: started_pledge_def assms(2))
  with assms(1) reviewed_inv_run [of ms] obtain mo op mo' op' where
    m: "(mo, op) \<in> set ms" "(mo', op') \<in> set ms" "saves op'" "tk_now mo = t"
      "honoured mo (started_pledge s)" "honoured mo' (started_pledge s)"
    unfolding reviewed_inv_def by fastforce
  then have "current_plan mo cfg (ru_fingerprint s)" "current_plan mo' cfg (ru_fingerprint s)"
    by (simp_all add: honoured_def started_pledge_def assms(2))
  moreover from this(1) have "pl_errors (build_plan_for_scan (tk_digests mo) (tk_server mo) [] cfg) = []"
    by (simp add: current_plan_def plan_now_def build_plan_def)
  note build_plan_errors [OF this]
  ultimately show ?thesis
    using m plan_errors_valid [of "tk_digests mo" "server_plan_input (tk_server mo) cfg"]
    by (auto simp: server_plan_input_def)
qed

text \<open>A server with one typed schedule: it is saved, and an hour later the tick starts it.\<close>

definition demo_server :: server_env where
  "demo_server = \<lparr>sv_vault = None, sv_found = (\<lambda>_. True), sv_masscan_reason = '''', sv_zap_url = '''', sv_zap_dedicated = False,
     sv_zap_quarantined = False, sv_gvm_host = '''', sv_gvm_socket = '''', sv_gvm_username = '''', sv_gvm_password = '''',
     sv_tool_versions = [], sv_unified_workflow = False, sv_bind_addr = '''', sv_port = 9137, sv_allow_local = False,
     sv_lookup = (\<lambda>_. Some [''10.0.0.5'']), sv_ifaces = Some [], sv_content_problems = (\<lambda>_. [])\<rparr>"

definition schedule_moment :: "int \<Rightarrow> moment_of_schedules" where
  "schedule_moment t = \<lparr>tk_now = t, tk_zones = utc_zones,
     tk_digests = \<lparr>dg_catalogs = [], dg_short = (\<lambda>s. s), dg_fuzz_json = (\<lambda>_. ''''), dg_plan = (\<lambda>_. ''plan-1'')\<rparr>,
     tk_server = demo_server, tk_slug = ''s1'', tk_saved = (\<lambda>_. True), tk_removed = True\<rparr>"

lemma schedule_moment_simps [simp]:
  "tk_now (schedule_moment t) = t" "tk_zones (schedule_moment t) = utc_zones" "tk_server (schedule_moment t) = demo_server"
  "tk_slug (schedule_moment t) = ''s1''" "tk_saved (schedule_moment t) i" "tk_removed (schedule_moment t)"
  "dg_plan (tk_digests (schedule_moment t)) x = ''plan-1''"
  "sv_unified_workflow demo_server = False" "sv_content_problems demo_server p = []"
  by (simp_all add: schedule_moment_def demo_server_def)

definition typed_request :: scan_schedule where
  "typed_request = empty_schedule\<lparr>sc_assessment := Some domain_config, sc_fingerprint := ''plan-1'', sc_interval := ''hourly'',
     sc_name := ''nightly''\<rparr>"

definition typed_config :: assessment_config where
  "typed_config = (normalize_config domain_config)\<lparr>cfg_profile := ''web-gentle''\<rparr>"

lemma typed_config_facts:
  "accepted (normalize_config typed_config)" "selection_errors (normalize_config typed_config) = []"
  "assessment_scope_problems demo_server [] typed_config = []" "cfg_workflow_version typed_config = ''''"
  "find pb_blocking (validate typed_config) = None" "map tgt_value (cfg_targets typed_config) = [''shop.test'']"
  by code_simp+

lemma typed_plan: "current_plan (schedule_moment t) typed_config ''plan-1''"
proof -
  let ?p = "plan_assessment (tk_digests (schedule_moment t)) (server_plan_input demo_server typed_config)"
  have "in_config (server_plan_input demo_server typed_config) = typed_config" by (simp add: server_plan_input_def)
  then have "pl_errors ?p = []" using plan_accepted typed_config_facts(1,2) by metis
  then have "server_errors (tk_digests (schedule_moment t)) demo_server [] typed_config = []"
    by (simp add: server_errors_def typed_config_facts)
  moreover have "pl_fingerprint ?p = ''plan-1''"
    by (simp add: plan_assessment_def Let_def seal_plan_def split: prod.split)
  ultimately show ?thesis
    by (simp add: current_plan_def plan_now_def build_plan_def build_plan_for_scan_def)
qed

definition typed_accepted :: scan_schedule where
  "typed_accepted = typed_request\<lparr>sc_assessment := Some typed_config, sc_profile := ''web-gentle'',
     sc_targets := [''shop.test''], sc_scan_mode := ''single''\<rparr>"

definition typed_schedule :: scan_schedule where
  "typed_schedule = typed_accepted\<lparr>sc_recon_mode := ''active'', sc_intensity := ''active'',
     sc_id := ''s1'', sc_enabled := True, sc_next_run := hour_nanos\<rparr>"

lemma typed_fields [simp]:
  "sc_assessment typed_accepted = Some typed_config" "sc_fingerprint typed_accepted = ''plan-1''"
  "sc_name typed_accepted = ''nightly''" "sc_interval typed_accepted = ''hourly''"
  "sc_id typed_schedule = ''s1''" "sc_assessment typed_schedule = Some typed_config"
  "sc_fingerprint typed_schedule = ''plan-1''" "sc_enabled typed_schedule" "sc_next_run typed_schedule = hour_nanos"
  by (simp_all add: typed_schedule_def typed_accepted_def typed_request_def)

lemma typed_created:
  "fst (create_schedule (schedule_moment 0) typed_request no_schedules)
    = \<lparr>sr_schedules = [(''s1'', typed_schedule)], sr_disk = [(''s1'', wire typed_schedule)], sr_started = []\<rparr>"
proof -
  have "normalize_for_execution (wire typed_request) = Inr typed_accepted" by code_simp
  moreover have "new_workflow_config False typed_config = typed_config" by (simp add: new_workflow_config_def)
  moreover have "pl_errors (plan_now (schedule_moment 0) typed_config) = []"
    "pl_fingerprint (plan_now (schedule_moment 0) typed_config) = ''plan-1''"
    using typed_plan [of 0] by (simp_all add: current_plan_def)
  moreover have "typed_accepted\<lparr>sc_assessment := Some typed_config\<rparr> = typed_accepted" by (simp add: typed_accepted_def)
  ultimately have "accept_request (schedule_moment 0) typed_request = Inr typed_accepted"
    by (simp add: accept_request_def)
  moreover have "timed_request (schedule_moment 0) typed_accepted
      = Inr (typed_accepted\<lparr>sc_recon_mode := ''active'', sc_intensity := ''active''\<rparr>)" by code_simp
  moreover have "set_review NoReview (typed_accepted\<lparr>sc_recon_mode := ''active'', sc_intensity := ''active''\<rparr>)
      = (typed_accepted\<lparr>sc_recon_mode := ''active'', sc_intensity := ''active''\<rparr>, False)" by code_simp
  moreover have "typed_accepted\<lparr>sc_recon_mode := ''active'', sc_intensity := ''active'', sc_last_skipped := zero_time,
      sc_id := ''s1'', sc_enabled := True, sc_next_run := calculate_next_run utc_zones
        (typed_accepted\<lparr>sc_recon_mode := ''active'', sc_intensity := ''active'', sc_last_skipped := zero_time,
           sc_id := ''s1'', sc_enabled := True\<rparr>) 0\<rparr> = typed_schedule" by code_simp
  ultimately show ?thesis
    by (simp add: create_schedule_def Let_def no_schedules_def put_schedule_def save_schedule_def)
qed

theorem starts_only_reviewed_plans_witness:
  "filter pb_blocking (validate (normalize_config typed_config)) = []
   \<and> (\<exists>s. sr_started (fold schedule_step [(schedule_moment 0, Create typed_request), (schedule_moment hour_nanos, Tick)]
        no_schedules) = [(hour_nanos, ''s1'', s)])"
proof -
  let ?ms = "[(schedule_moment 0, Create typed_request), (schedule_moment hour_nanos, Tick)]"
  have "review_now (schedule_moment hour_nanos) typed_schedule = NoReview"
    using typed_plan [of hour_nanos] by (simp add: review_now_def review_none current_plan_def)
  moreover have "due (schedule_moment hour_nanos) typed_schedule" by (simp add: due_def)
  ultimately have run: "sr_started (fold schedule_step ?ms no_schedules)
      = [(hour_nanos, ''s1'', scan_start_of (cleared typed_schedule))]"
    by (simp add: schedule_step_def typed_created check_and_run_schedules_def tick_schedule_def tick_run_def)
  moreover have "ru_assessment (scan_start_of (cleared typed_schedule)) = Some typed_config"
    using cleared_pledge [of typed_schedule] by (simp add: scan_start_of_def pledge_def)
  ultimately show ?thesis
    using starts_only_reviewed_plans [of hour_nanos "''s1''" "scan_start_of (cleared typed_schedule)" ?ms typed_config] by auto
qed

section \<open>Re-saving a one-time schedule\<close>

lemma once_run_next [simp]: "once_run zs (sch\<lparr>sc_next_run := t\<rparr>) start = once_run zs sch start"
  by (simp add: once_run_def Let_def split: option.split)

lemma merge_request_fields [simp]:
  "sc_run_date (merge_request req sch) = sc_run_date sch" "sc_enabled (merge_request req sch) = sc_enabled req"
  "sc_interval (merge_request req sch) = sc_interval req" "sc_id (merge_request req sch) = sc_id sch"
  by (simp_all add: merge_request_def set_review_def Let_def)

lemma not_saved [simp]: "accept_request mo req \<noteq> Inl (Saved s)" "timed_request mo req \<noteq> Inl (Saved s)"
  by (auto simp: accept_request_def timed_request_def Let_def split: sum.splits option.splits prod.splits if_splits)

text \<open>changing a schedule does not take over the date of the request: whatever \<open>run_date\<close> is sent, the
  schedule keeps its old one. A one-time schedule that has fired and is enabled again is set to its
  old date, in the past.\<close>

theorem resave_keeps_run_date:
  assumes "map_of (sr_schedules st) i = Some sch" "update_schedule mo i req st = (st', Saved sch')"
  shows "sc_run_date sch' = sc_run_date sch
    \<and> (is_once (sc_interval sch') \<and> sc_enabled sch' \<and> \<not> sc_enabled sch \<longrightarrow>
        sc_next_run sch' = once_run (tk_zones mo) sch' (tk_now mo))"
proof -
  obtain r where "sch' = updated mo r sch"
    using assms by (auto simp: update_schedule_def Let_def split: sum.splits if_splits)
  then show ?thesis by (auto simp: updated_def Let_def calculate_next_run_def)
qed

text \<open>A schedule for the 1st of January 2020 has fired. In 2025 it is saved again, for 2030, and the next
  tick starts its scan.\<close>

definition fired_schedule :: scan_schedule where
  "fired_schedule = empty_schedule\<lparr>sc_id := ''s1'', sc_interval := ''once'', sc_run_date := ''2020-01-01'',
     sc_targets := [''shop.test''], sc_scan_mode := ''single'', sc_next_run := 1577836800 * nanos\<rparr>"

definition later_request :: scan_schedule where
  "later_request = empty_schedule\<lparr>sc_interval := ''once'', sc_run_date := ''2030-01-01'', sc_enabled := True,
     sc_targets := [''shop.test'']\<rparr>"

definition fired_state :: scheduler where
  "fired_state = \<lparr>sr_schedules = [(''s1'', fired_schedule)], sr_disk = [], sr_started = []\<rparr>"

definition resaved_schedule :: scan_schedule where
  "resaved_schedule = fired_schedule\<lparr>sc_enabled := True, sc_recon_mode := ''active'', sc_intensity := ''active''\<rparr>"

lemma once_2020: "calculate_next_run utc_zones resaved_schedule t = 1577836800 * nanos"
proof -
  have "parse_date (trim_space (sc_run_date resaved_schedule)) = Some (2020, 1, 1)"
    "parse_run_at (sc_run_at resaved_schedule) = None" "is_once (sc_interval resaved_schedule)"
    "go_date utc_zone 2020 1 1 0 0 0 0 = 1577836800 * nanos" "date_in utc_zone (1577836800 * nanos) = (2020, 1, 1)"
    by code_simp+
  moreover have "schedule_location utc_zones z = utc_zone" for z by (simp add: schedule_location_def utc_zones_def)
  ultimately show ?thesis by (simp add: calculate_next_run_def once_run_def)
qed

theorem resave_keeps_run_date_witness:
  "\<exists>st' sch'. update_schedule (schedule_moment (1735689600 * nanos)) ''s1'' later_request fired_state = (st', Saved sch')
     \<and> sc_run_date sch' = ''2020-01-01'' \<and> sc_next_run sch' = 1577836800 * nanos
     \<and> map (\<lambda>(t, i, s). i) (sr_started (check_and_run_schedules (schedule_moment (1735689600 * nanos)) st')) = [''s1'']"
proof -
  let ?mo = "schedule_moment (1735689600 * nanos)" let ?r = "later_request\<lparr>sc_scan_mode := ''single''\<rparr>"
  let ?r' = "?r\<lparr>sc_recon_mode := ''active'', sc_intensity := ''active''\<rparr>"
  have "normalize_for_execution (wire later_request) = Inr ?r" "sc_assessment ?r = None" by code_simp+
  then have accepted: "accept_request ?mo later_request = Inr ?r" by (simp add: accept_request_def)
  have timed: "timed_request ?mo ?r = Inr ?r'" by code_simp
  have "merge_request ?r' fired_schedule = resaved_schedule" "\<not> sc_enabled fired_schedule" "sc_enabled resaved_schedule"
    "resaved_schedule\<lparr>sc_next_run := 1577836800 * nanos\<rparr> = resaved_schedule" by code_simp+
  then have updated: "updated ?mo ?r' fired_schedule = resaved_schedule"
    by (simp add: updated_def Let_def once_2020)
  have stored: "map_of (sr_schedules fired_state) ''s1'' = Some fired_schedule" by (simp add: fired_state_def)
  have up: "update_schedule ?mo ''s1'' later_request fired_state
      = (save_schedule ?mo resaved_schedule (put_schedule ''s1'' resaved_schedule fired_state), Saved resaved_schedule)"
    by (simp add: update_schedule_def stored accepted timed updated)
  have fields: "sc_run_date fired_schedule = ''2020-01-01''" "is_once (sc_interval resaved_schedule)"
    "sc_assessment resaved_schedule = None" "sc_next_run resaved_schedule = 1577836800 * nanos" by code_simp+
  have "due ?mo resaved_schedule" "review_now ?mo resaved_schedule = NoReview"
    using fields \<open>sc_enabled resaved_schedule\<close> by (simp_all add: due_def review_now_def nanos_def)
  then have "map (\<lambda>(t, i, s). i) (sr_started (check_and_run_schedules ?mo
      (save_schedule ?mo resaved_schedule (put_schedule ''s1'' resaved_schedule fired_state)))) = [''s1'']"
    by (simp add: check_and_run_schedules_def tick_schedule_def tick_run_def save_schedule_def put_schedule_def fired_state_def start_scan_def)
  with resave_keeps_run_date [OF stored up] up fields(1,4) show ?thesis by simp
qed

end
