(* ===== verification/ScheduleOnce.thy ===== *)
theory ScheduleOnce
  imports ScheduleProperties
begin

text \<open>
  How often a one-time schedule is started, over ticks, restarts of the server and crashes in a tick: the
  invariant of its copies in memory and on disk.
\<close>

section \<open>What an operation leaves of a schedule\<close>

definition core :: "scan_schedule \<Rightarrow> string \<times> string \<times> bool" where
  "core sch = (sc_id sch, sc_interval sch, sc_enabled sch)"

lemma core_update [simp]:
  "core (fst (set_review r sch)) = core sch" "core (wire sch) = core sch"
  "core (sch\<lparr>sc_last_skipped := t\<rparr>) = core sch" "core (sch\<lparr>sc_last_run := t\<rparr>) = core sch"
  "core (normalize_schedule_activity sch) = core sch" "core (fst (normalize_schedule_timing zs sch)) = core sch"
  by (simp_all add: core_def set_review_def wire_def normalize_schedule_activity_def normalize_schedule_timing_def
      drop_stale_date_def Let_def)

lemma core_canonical [simp]:
  "core (default_scan_mode sch) = core sch" "core (canonical_artifact sch) = core sch"
  "core (artifact_target sch) = core sch" "core (sch\<lparr>sc_scanners := names\<rparr>) = core sch"
  by (simp_all add: default_scan_mode_def canonical_artifact_def artifact_target_def core_def)

lemma core_deterministic [simp]: "core (fst (normalize_deterministic_schedule sch)) = core sch"
  by (simp add: normalize_deterministic_schedule_def Let_def del: set_simps insert_iff split: sum.split)

lemma core_load [simp]: "core (load_schedule zs sch) = core sch"
  by (simp add: load_schedule_def Let_def)

lemma core_cleared [simp]: "core (cleared sch) = core sch"
  by (simp add: cleared_def)

lemma core_reschedule:
  "core (reschedule mo sch) = (sc_id sch, sc_interval sch, sc_enabled sch \<and> \<not> is_once (sc_interval sch))"
  by (simp add: core_def reschedule_def)

lemma core_ran:
  "core (skipped mo sch) = (sc_id sch, sc_interval sch, sc_enabled sch \<and> \<not> is_once (sc_interval sch))"
  "core (launched mo sch) = (sc_id sch, sc_interval sch, sc_enabled sch \<and> \<not> is_once (sc_interval sch))"
proof -
  have "core sch' = core sch \<Longrightarrow> core (reschedule mo sch')
      = (sc_id sch, sc_interval sch, sc_enabled sch \<and> \<not> is_once (sc_interval sch))" for sch'
    by (simp add: core_reschedule) (simp add: core_def)
  then show "core (skipped mo sch) = (sc_id sch, sc_interval sch, sc_enabled sch \<and> \<not> is_once (sc_interval sch))"
    "core (launched mo sch) = (sc_id sch, sc_interval sch, sc_enabled sch \<and> \<not> is_once (sc_interval sch))"
    by (simp_all add: skipped_def launched_def)
qed

section \<open>The invariant\<close>

definition keyed :: "(string \<times> scan_schedule) list \<Rightarrow> bool" where
  "keyed m \<longleftrightarrow> distinct (map fst m) \<and> (\<forall>(k, sch) \<in> set m. sc_id sch = k)"

lemma put_members: "set (put k v m) \<subseteq> insert (k, v) (set m)"
  by (induction k v m rule: put.induct) auto

lemma keyed_put: "keyed m \<Longrightarrow> sc_id sch = k \<Longrightarrow> keyed (put k sch m)"
  using put_members [of k sch m] by (auto simp: keyed_def distinct_put)

lemma keyed_get: "keyed m \<Longrightarrow> map_of m k = Some sch \<Longrightarrow> sc_id sch = k"
  by (auto simp: keyed_def dest: map_of_SomeD)

definition starts_of :: "string \<Rightarrow> scheduler \<Rightarrow> nat" where
  "starts_of i st = length (filter (\<lambda>(t, k, s). k = i) (sr_started st))"

text \<open>\<open>n\<close> starts are allowed while a copy is enabled.\<close>

definition once_inv :: "string \<Rightarrow> nat \<Rightarrow> scheduler \<Rightarrow> bool" where
  "once_inv i n st \<longleftrightarrow>
     keyed (sr_schedules st) \<and> keyed (sr_disk st)
     \<and> (\<forall>m \<in> {sr_schedules st, sr_disk st}. \<forall>sch. map_of m i = Some sch \<longrightarrow>
          is_once (sc_interval sch) \<and> (n < starts_of i st \<longrightarrow> \<not> sc_enabled sch))
     \<and> starts_of i st \<le> n + 1"

lemma starts_of_simps [simp]:
  "starts_of i (save_schedule mo sch st) = starts_of i st" "starts_of i (put_schedule k sch st) = starts_of i st"
  "starts_of i (start_scan mo k sch st) = (if k = i then starts_of i st + 1 else starts_of i st)"
  by (simp_all add: starts_of_def)

text \<open>A schedule is stored under its id in memory and, when the write succeeds, on disk.\<close>

lemma once_inv_store:
  assumes "once_inv i n st" "sc_id sch = k"
    and "k = i \<Longrightarrow> is_once (sc_interval sch) \<and> (n < starts_of i st \<longrightarrow> \<not> sc_enabled sch)"
  shows "once_inv i n (save_schedule mo sch (put_schedule k sch st))"
proof -
  have "sc_id (wire sch) = k" "sc_interval (wire sch) = sc_interval sch" "sc_enabled (wire sch) = sc_enabled sch"
    using assms(2) by (simp_all add: wire_def)
  with assms show ?thesis
    unfolding once_inv_def by (auto simp: save_schedule_def put_schedule_def starts_of_def map_of_put keyed_put)
qed

lemma once_inv_started:
  assumes inv: "once_inv i n st" and run: "sc_id sch = k" "sc_id sch' = k" "map_of (sr_schedules st) k = Some sch"
    and "k = i \<Longrightarrow> sc_enabled sch \<and> is_once (sc_interval sch') \<and> \<not> sc_enabled sch'" "tk_saved mo i"
  shows "once_inv i n (save_schedule mo sch' (put_schedule k sch' (start_scan mo k s st)))"
proof (cases "k = i")
  case True
  have "sc_id (wire sch') = i" "sc_interval (wire sch') = sc_interval sch'" "sc_enabled (wire sch') = sc_enabled sch'"
    using run(2) True by (simp_all add: wire_def)
  moreover have "starts_of i st \<le> n" using inv run(3) assms(5) True by (auto simp: once_inv_def)
  ultimately show ?thesis
    using inv assms(5,6) True run(2)
    by (auto simp: once_inv_def save_schedule_def put_schedule_def starts_of_def start_scan_def map_of_put keyed_put)
next
  case False
  have "once_inv i n (start_scan mo k s st)" using inv False by (simp add: once_inv_def start_scan_def starts_of_def)
  then show ?thesis using False run(2) by (intro once_inv_store) simp_all
qed

text \<open>A start that is not saved costs one more.\<close>

lemma once_inv_later: "once_inv i n st \<Longrightarrow> n \<le> m \<Longrightarrow> once_inv i m st"
  by (auto simp: once_inv_def)

lemma once_inv_forget: "once_inv i n st \<Longrightarrow> once_inv i n (st\<lparr>sr_schedules := []\<rparr>)"
  by (auto simp: once_inv_def keyed_def starts_of_def)

lemma once_inv_run:
  assumes inv: "once_inv i n st"
  shows "once_inv i (if k = i then n + 1 else n) ((fst (tick_run mo k st))\<lparr>sr_schedules := []\<rparr>)"
proof -
  have ran: "starts_of i (fst (tick_run mo k st)) \<le> starts_of i st + (if k = i \<and> n \<ge> starts_of i st then 1 else 0)"
    "sr_disk (fst (tick_run mo k st)) = sr_disk st"
    using inv by (auto simp: tick_run_def once_inv_def due_def put_schedule_def start_scan_def starts_of_def not_less [symmetric]
        split: option.splits)
  show ?thesis
  proof (cases "k = i")
    case True
    then show ?thesis using inv ran by (auto simp: once_inv_def keyed_def starts_of_def split: if_splits)
  next
    case False
    then show ?thesis using inv ran by (fastforce simp: once_inv_def keyed_def starts_of_def)
  qed
qed

lemma once_inv_tick:
  assumes inv: "once_inv i n st" and saved: "tk_saved mo i"
  shows "once_inv i n (tick_schedule mo k st)"
proof (cases "map_of (sr_schedules st) k")
  case (Some sch)
  have k: "sc_id sch = k" using inv Some by (auto simp: once_inv_def intro: keyed_get)
  have once: "k = i \<Longrightarrow> is_once (sc_interval sch)" using inv Some by (auto simp: once_inv_def)
  note ran = core_ran [of mo sch, unfolded core_def prod.inject]
  show ?thesis
  proof (cases "due mo sch")
    case True
    then have "sc_enabled sch" by (simp add: due_def)
    show ?thesis
    proof (cases "review_now mo sch = NoReview")
      case review: True
      have "once_inv i n (save_schedule mo (launched mo sch)
          (put_schedule k (launched mo sch) (start_scan mo k (cleared sch) st)))"
        using ran k once \<open>sc_enabled sch\<close> by (intro once_inv_started [OF inv k _ Some _ saved]) auto
      with True review Some show ?thesis by (simp add: tick_schedule_def tick_run_def)
    next
      case False
      have "once_inv i n (save_schedule mo (skipped mo sch) (put_schedule k (skipped mo sch) st))"
        using ran k once by (intro once_inv_store [OF inv]) auto
      with True False Some show ?thesis by (simp add: tick_schedule_def tick_run_def)
    qed
  qed (simp add: tick_schedule_def tick_run_def Some inv)
qed (simp add: tick_schedule_def tick_run_def inv)

lemma once_inv_ticks: "once_inv i n st \<Longrightarrow> tk_saved mo i \<Longrightarrow> once_inv i n (check_and_run_schedules mo st)"
  unfolding check_and_run_schedules_def
  by (rule fold_invariant [where Q = "\<lambda>_. True"]) (simp_all add: once_inv_tick)

lemma once_inv_review:
  assumes inv: "once_inv i n st"
  shows "once_inv i n (apply_review mo item st)"
proof -
  obtain k cfg fp where item: "item = (k, cfg, fp)" by (cases item)
  show ?thesis
  proof (cases "map_of (sr_schedules st) k")
    case (Some sch)
    let ?s = "fst (set_review (schedule_review_reason (plan_now mo cfg) fp) sch)"
    have s: "sc_id ?s = sc_id sch" "sc_interval ?s = sc_interval sch" "sc_enabled ?s = sc_enabled sch"
      using core_update(1) [of "schedule_review_reason (plan_now mo cfg) fp" sch] unfolding core_def by simp_all
    have "sc_id sch = k" using inv Some by (auto simp: once_inv_def intro: keyed_get)
    moreover have "k = i \<Longrightarrow> is_once (sc_interval sch) \<and> (n < starts_of i st \<longrightarrow> \<not> sc_enabled sch)"
      using inv Some by (auto simp: once_inv_def)
    ultimately have "once_inv i n (save_schedule mo ?s (put_schedule k ?s st))"
      by (intro once_inv_store [OF inv]) (simp_all add: s)
    with inv show ?thesis by (simp add: apply_review_def item Some Let_def case_prod_beta)
  qed (simp add: apply_review_def item inv)
qed

lemma load_entries:
  assumes "\<forall>(f, sch) \<in> set ds. sc_id sch = f" "keyed m"
  shows "keyed (fold (\<lambda>(f, sch). put (sc_id sch) (load_schedule zs sch)) ds m)
    \<and> (\<forall>k s. map_of (fold (\<lambda>(f, sch). put (sc_id sch) (load_schedule zs sch)) ds m) k = Some s \<longrightarrow>
         map_of m k = Some s \<or> (\<exists>s0. (k, s0) \<in> set ds \<and> s = load_schedule zs s0))"
  using assms
proof (induction ds arbitrary: m)
  case (Cons d ds)
  let ?put = "\<lambda>(f :: string, sch). put (sc_id sch) (load_schedule zs sch)"
  obtain f sch where d: "d = (f, sch)" "sc_id sch = f" using Cons.prems(1) by (cases d) auto
  have "sc_id (load_schedule zs sch) = f" using core_load [of zs sch] d(2) unfolding core_def by simp
  then have "keyed (put f (load_schedule zs sch) m)" using Cons.prems(2) by (intro keyed_put)
  moreover have "\<forall>(f, sch) \<in> set ds. sc_id sch = f" using Cons.prems(1) by simp
  ultimately have IH: "keyed (fold ?put ds (put f (load_schedule zs sch) m))"
    "\<forall>k s. map_of (fold ?put ds (put f (load_schedule zs sch) m)) k = Some s \<longrightarrow>
       map_of (put f (load_schedule zs sch) m) k = Some s \<or> (\<exists>s0. (k, s0) \<in> set ds \<and> s = load_schedule zs s0)"
    using Cons.IH [of "put f (load_schedule zs sch) m"] by blast+
  have fold: "fold ?put (d # ds) m = fold ?put ds (put f (load_schedule zs sch) m)" by (simp add: d)
  show ?case
  proof (intro conjI allI impI)
    show "keyed (fold ?put (d # ds) m)" using IH(1) fold by simp
    fix k s assume "map_of (fold ?put (d # ds) m) k = Some s"
    then have "map_of (fold ?put ds (put f (load_schedule zs sch) m)) k = Some s" by (simp only: fold)
    with IH(2) have "map_of (put f (load_schedule zs sch) m) k = Some s \<or> (\<exists>s0. (k, s0) \<in> set ds \<and> s = load_schedule zs s0)"
      by blast
    then show "map_of m k = Some s \<or> (\<exists>s0. (k, s0) \<in> set (d # ds) \<and> s = load_schedule zs s0)"
      by (auto simp: map_of_put d(1) split: if_splits)
  qed
qed simp

lemma once_inv_load:
  assumes inv: "once_inv i n st"
  shows "once_inv i n (load_schedules_from_disk mo st)"
proof -
  let ?new = "sr_schedules (load_schedules_from_disk mo st)"
  have disk: "keyed (sr_disk st)" using inv by (simp add: once_inv_def)
  have entries: "keyed ?new" "map_of ?new i = Some s \<Longrightarrow> \<exists>s0. (i, s0) \<in> set (sr_disk st) \<and> s = load_schedule (tk_zones mo) s0" for s
    using load_entries [of "sr_disk st" "[]" "tk_zones mo"] disk by (auto simp: load_schedules_from_disk_def keyed_def)
  have "is_once (sc_interval s) \<and> (n < starts_of i st \<longrightarrow> \<not> sc_enabled s)" if s: "map_of ?new i = Some s" for s
  proof -
    obtain s0 where s0: "(i, s0) \<in> set (sr_disk st)" "s = load_schedule (tk_zones mo) s0" using entries(2) [OF s] by blast
    then have "map_of (sr_disk st) i = Some s0" using disk by (simp add: keyed_def map_of_is_SomeI)
    with inv have "is_once (sc_interval s0) \<and> (n < starts_of i st \<longrightarrow> \<not> sc_enabled s0)" by (auto simp: once_inv_def)
    with s0(2) core_load [of "tk_zones mo" s0] show ?thesis unfolding core_def by simp
  qed
  with inv entries(1) show ?thesis
    by (auto simp: once_inv_def load_schedules_from_disk_def starts_of_def)
qed

lemma once_inv_cut:
  assumes "once_inv i n st" and "tk_saved mo i"
  shows "once_inv i (if k = i then n + 1 else n) (cut_tick mo ks k st)"
proof -
  have "once_inv i n (fold (tick_schedule mo) ks st)"
    by (rule fold_invariant [where Q = "\<lambda>_. True"]) (simp_all add: once_inv_tick assms)
  then show ?thesis unfolding cut_tick_def by (rule once_inv_run)
qed

text \<open>A crash between the start of the schedule and the write of its file.\<close>

definition cuts_start :: "string \<Rightarrow> moment_of_schedules \<times> schedule_op \<Rightarrow> bool" where
  "cuts_start i mop \<longleftrightarrow> (case snd mop of CutTick ks k \<Rightarrow> k = i | CutRestart ks k \<Rightarrow> k = i | _ \<Rightarrow> False)"

text \<open>An operation on another schedule.\<close>

definition leaves_alone :: "string \<Rightarrow> moment_of_schedules \<times> schedule_op \<Rightarrow> bool" where
  "leaves_alone i mop \<longleftrightarrow>
     tk_saved (fst mop) i
     \<and> (case snd mop of
          Create _ \<Rightarrow> tk_slug (fst mop) \<noteq> i | Update k _ \<Rightarrow> k \<noteq> i | Trigger k \<Rightarrow> k \<noteq> i | _ \<Rightarrow> True)"

lemma once_inv_create: "once_inv i n st \<Longrightarrow> tk_slug mo \<noteq> i \<Longrightarrow> once_inv i n (fst (create_schedule mo req st))"
  by (auto simp: create_schedule_def Let_def split: sum.split intro!: once_inv_store)

lemma once_inv_update:
  assumes inv: "once_inv i n st" and "k \<noteq> i"
  shows "once_inv i n (fst (update_schedule mo k req st))"
proof (cases "map_of (sr_schedules st) k")
  case (Some sch)
  have "sc_id sch = k" using inv Some by (auto simp: once_inv_def intro: keyed_get)
  then have "sc_id (updated mo r sch) = k" for r by (simp add: updated_def Let_def)
  then have "once_inv i n (save_schedule mo (updated mo r sch) (put_schedule k (updated mo r sch) st))" for r
    using assms(2) by (intro once_inv_store [OF inv]) simp_all
  with inv show ?thesis by (simp add: update_schedule_def Some Let_def split: sum.split)
qed (simp add: update_schedule_def inv)

lemma once_inv_trigger:
  assumes inv: "once_inv i n st" and "k \<noteq> i"
  shows "once_inv i n (fst (trigger_schedule mo k st))"
proof (cases "map_of (sr_schedules st) k")
  case (Some sch)
  note trigger = trigger_schedule_def trigger_check_def trigger_start_def
  have k: "sc_id sch = k" using inv Some by (auto simp: once_inv_def intro: keyed_get)
  have "sc_id (fst (set_review r sch)) = k" for r using core_update(1) [of r sch] k unfolding core_def by simp
  then have reviewed: "once_inv i n (save_schedule mo (fst (set_review r sch)) (put_schedule k (fst (set_review r sch)) st))" for r
    using assms(2) by (intro once_inv_store [OF inv]) simp_all
  have "once_inv i n (start_scan mo k sch st)"
    using inv assms(2) by (simp add: once_inv_def start_scan_def starts_of_def)
  then have "once_inv i n (save_schedule mo (sch\<lparr>sc_last_run := tk_now mo\<rparr>)
      (put_schedule k (sch\<lparr>sc_last_run := tk_now mo\<rparr>) (start_scan mo k sch st)))"
    using assms(2) k by (intro once_inv_store) simp_all
  with reviewed inv show ?thesis by (simp add: trigger Some Let_def case_prod_beta)
qed (simp add: trigger_schedule_def inv)

lemma keyed_delete: "keyed m \<Longrightarrow> keyed (AList.delete k m)"
  by (auto simp: keyed_def AList.delete_eq distinct_map_filter)

lemma once_inv_delete: "once_inv i n st \<Longrightarrow> once_inv i n (fst (delete_schedule mo k st))"
  by (auto simp: delete_schedule_def Let_def once_inv_def starts_of_def keyed_delete AList.delete_conv')

lemma once_inv_step:
  assumes inv: "once_inv i n st" and alone: "leaves_alone i mop"
  shows "once_inv i (if cuts_start i mop then n + 1 else n) (schedule_step mop st)"
proof -
  obtain mo op where mop: "mop = (mo, op)" by (cases mop)
  have refresh: "once_inv i n (refresh_schedule_reviews mo st')" if "once_inv i n st'" for st'
    unfolding refresh_schedule_reviews_def
    by (rule fold_invariant [where Q = "\<lambda>_. True"]) (simp_all add: once_inv_review that)
  have saved: "tk_saved mo i" using alone by (simp add: mop leaves_alone_def)
  have boot: "once_inv i n (boot_schedules mo st)" unfolding boot_schedules_def by (intro refresh once_inv_load inv)
  have "once_inv i n (start_server mo st)" unfolding start_server_def by (intro once_inv_ticks boot saved)
  moreover have "once_inv i n (check_and_run_schedules mo st)" by (intro once_inv_ticks inv saved)
  ultimately show ?thesis
    using inv alone once_inv_create once_inv_update once_inv_trigger once_inv_delete
      once_inv_cut [OF inv saved] once_inv_cut [OF boot saved]
    by (cases op) (simp_all add: mop schedule_step_def leaves_alone_def cuts_start_def)
qed

definition cuts_of :: "string \<Rightarrow> (moment_of_schedules \<times> schedule_op) list \<Rightarrow> nat" where
  "cuts_of i ms = length (filter (cuts_start i) ms)"

lemma once_inv_steps:
  "once_inv i n st \<Longrightarrow> list_all (leaves_alone i) ms \<Longrightarrow> once_inv i (n + cuts_of i ms) (fold schedule_step ms st)"
proof (induction ms arbitrary: n st)
  case (Cons m ms)
  then have "once_inv i (if cuts_start i m then n + 1 else n) (schedule_step m st)" by (simp add: once_inv_step)
  with Cons.prems(2) have "once_inv i ((if cuts_start i m then n + 1 else n) + cuts_of i ms) (fold schedule_step ms (schedule_step m st))"
    by (intro Cons.IH) simp_all
  then show ?case by (cases "cuts_start i m") (simp_all add: cuts_of_def)
qed (simp add: cuts_of_def)

text \<open>C30: a one-time schedule is consumed by its start. From any state in which the schedule is one-time in
  memory and on disk, ticks, restarts of the server at any moments, and everything operators do with
  other schedules start it at most once, when its file can be written, and once more for each time that the
  process dies in the tick that starts it, after the start and before the file is written. When it has been
  started as often as that, it is disabled in memory and on disk.\<close>

theorem once_schedule_starts_once:
  assumes "keyed (sr_schedules st)" "keyed (sr_disk st)"
    and "\<forall>m \<in> {sr_schedules st, sr_disk st}. \<forall>sch. map_of m i = Some sch \<longrightarrow> is_once (sc_interval sch)"
    and "list_all (leaves_alone i) ms"
  defines "st' \<equiv> fold schedule_step ms st"
  shows "starts_of i st' \<le> starts_of i st + cuts_of i ms + 1
    \<and> (starts_of i st + cuts_of i ms < starts_of i st' \<longrightarrow>
      (\<forall>m \<in> {sr_schedules st', sr_disk st'}. \<forall>sch. map_of m i = Some sch \<longrightarrow> \<not> sc_enabled sch))"
proof -
  have "once_inv i (starts_of i st) st" using assms(1-3) by (simp add: once_inv_def)
  then have "once_inv i (starts_of i st + cuts_of i ms) st'"
    unfolding st'_def using assms(4) by (rule once_inv_steps)
  then show ?thesis by (simp add: once_inv_def)
qed

text \<open>The schedule of 2020, still enabled in 2025: the tick starts it, and a restart does not again. When the
  process dies between the start and the write, the restart starts it a second time.\<close>

definition once_state :: scheduler where
  "once_state = \<lparr>sr_schedules = [(''s1'', resaved_schedule)], sr_disk = [(''s1'', wire resaved_schedule)], sr_started = []\<rparr>"

lemma once_state_facts:
  "keyed (sr_schedules once_state)" "keyed (sr_disk once_state)"
  "\<forall>m \<in> {sr_schedules once_state, sr_disk once_state}. \<forall>sch. map_of m ''s1'' = Some sch \<longrightarrow> is_once (sc_interval sch)"
proof -
  have "sc_id resaved_schedule = ''s1''" "is_once (sc_interval resaved_schedule)" by code_simp+
  then show "keyed (sr_schedules once_state)" "keyed (sr_disk once_state)"
    "\<forall>m \<in> {sr_schedules once_state, sr_disk once_state}. \<forall>sch. map_of m ''s1'' = Some sch \<longrightarrow> is_once (sc_interval sch)"
    by (auto simp: keyed_def once_state_def wire_def)
qed

text \<open>The two runs: the second starts it twice.\<close>

lemma once_run_facts:
  "starts_of ''s1'' (fold schedule_step [(schedule_moment (1735689600 * nanos), Tick)] once_state) = 1"
  "starts_of ''s1'' (fold schedule_step [(schedule_moment (1735689600 * nanos), CutTick [] ''s1''),
     (schedule_moment (1735689660 * nanos), Restart)] once_state) = 2"
proof -
  let ?mo = "schedule_moment (1735689600 * nanos)" let ?mo2 = "schedule_moment (1735689660 * nanos)"
  let ?loaded = "load_schedule utc_zones (wire resaved_schedule)"
  have fields: "sc_id resaved_schedule = ''s1''" "sc_enabled resaved_schedule" "sc_assessment resaved_schedule = None"
    "sc_next_run resaved_schedule = 1577836800 * nanos" "sc_id (wire resaved_schedule) = ''s1''"
    "sc_enabled ?loaded" "sc_assessment ?loaded = None" "sc_next_run ?loaded = 1577836800 * nanos" by code_simp+
  have run: "due ?mo resaved_schedule" "review_now mo resaved_schedule = NoReview" "due ?mo2 ?loaded" "review_now mo ?loaded = NoReview" for mo
    using fields by (simp_all add: due_def review_now_def nanos_def)
  note tick = schedule_step_def check_and_run_schedules_def tick_schedule_def tick_run_def
  show "starts_of ''s1'' (fold schedule_step [(?mo, Tick)] once_state) = 1"
    using run by (simp add: tick once_state_def starts_of_def)
  have cut: "schedule_step (?mo, CutTick [] ''s1'') once_state
      = (start_scan ?mo ''s1'' (cleared resaved_schedule) once_state)\<lparr>sr_schedules := []\<rparr>"
    using run by (simp add: schedule_step_def cut_tick_def tick_run_def once_state_def put_schedule_def start_scan_def)
  have boot: "sr_schedules (boot_schedules ?mo2 ((start_scan mo ''s1'' sch once_state)\<lparr>sr_schedules := []\<rparr>)) = [(''s1'', ?loaded)]"
    "sr_started (boot_schedules ?mo2 ((start_scan mo ''s1'' sch once_state)\<lparr>sr_schedules := []\<rparr>))
      = [(tk_now mo, ''s1'', scan_start_of sch)]" for mo sch
    using fields by (simp_all add: boot_schedules_def refresh_schedule_reviews_def load_schedules_from_disk_def typed_snapshot_def
        map_filter_simps start_scan_def once_state_def)
  have "starts_of ''s1'' (start_server ?mo2 ((start_scan ?mo ''s1'' (cleared resaved_schedule) once_state)\<lparr>sr_schedules := []\<rparr>)) = 2"
    using run boot by (simp add: start_server_def tick starts_of_def)
  then show "starts_of ''s1'' (fold schedule_step [(?mo, CutTick [] ''s1''), (?mo2, Restart)] once_state) = 2"
    by (simp add: cut [simplified]) (simp add: schedule_step_def)
qed

theorem once_schedule_starts_once_witness:
  "starts_of ''s1'' (fold schedule_step [(schedule_moment (1735689600 * nanos), Tick)] once_state) = 1
   \<and> starts_of ''s1'' (fold schedule_step [(schedule_moment (1735689600 * nanos), Tick),
        (schedule_moment (1735689660 * nanos), Restart)] once_state) \<le> 1
   \<and> starts_of ''s1'' (fold schedule_step [(schedule_moment (1735689600 * nanos), CutTick [] ''s1''),
        (schedule_moment (1735689660 * nanos), Restart)] once_state) = 2"
proof -
  let ?ms = "[(schedule_moment (1735689600 * nanos), Tick), (schedule_moment (1735689660 * nanos), Restart)]"
  have "starts_of ''s1'' once_state = 0" "cuts_of ''s1'' ?ms = 0" "list_all (leaves_alone ''s1'') ?ms"
    by (simp_all add: starts_of_def once_state_def cuts_of_def cuts_start_def leaves_alone_def)
  then show ?thesis
    using once_schedule_starts_once [OF once_state_facts, of ?ms] once_run_facts by simp
qed

end
