(* ===== verification/SurfaceUrl.thy ===== *)
theory SurfaceUrl
  imports Telemetry
begin

text \<open>
  The URLs of the attack surface inventory (\<open>canonicalizeAttackSurfaceURL\<close> and
  \<open>classifyAttackSurfaceEndpoint\<close> of \<open>internal/scanner/attack_surface.go\<close>): the URL as it is observed,
  and the one it is grouped under, which keeps the names of the query parameters and drops their values.
\<close>

section \<open>Canonical URLs\<close>

record surface_url =
  su_observed :: string
  su_canonical :: string
  su_route :: string
  su_path :: string

text \<open>\<open>net.JoinHostPort\<close>.\<close>

definition surface_join :: "string \<Rightarrow> string \<Rightarrow> string" where
  "surface_join h p = (if CHR '':'' \<in> set h then ''['' @ h @ '']:'' @ p else h @ '':'' @ p)"

definition surface_host :: "string \<Rightarrow> string \<Rightarrow> string \<Rightarrow> string" where
  "surface_host scheme host port =
     (if port \<noteq> '''' \<and> \<not> (scheme = ''http'' \<and> port = ''80'' \<or> scheme = ''https'' \<and> port = ''443'')
      then surface_join host port
      else if CHR '':'' \<in> set host then ''['' @ host @ '']'' else host)"

text \<open>\<open>URL.String\<close> of an absolute URL without user information and fragment.\<close>

definition surface_url_string :: "string \<Rightarrow> string \<Rightarrow> string \<Rightarrow> bool \<Rightarrow> string \<Rightarrow> string" where
  "surface_url_string scheme host path force query =
     scheme @ ''://'' @ escape_with host_must_escape host @ path
     @ (if force \<or> query \<noteq> '''' then CHR ''?'' # query else '''')"

definition canonicalize_surface_url :: "string \<Rightarrow> surface_url option" where
  "canonicalize_surface_url raw0 =
     (let raw = trim_space raw0
      in case url_parse raw of
           None \<Rightarrow> None
         | Some u \<Rightarrow>
             if (u_scheme u \<noteq> ''http'' \<and> u_scheme u \<noteq> ''https'') \<or> u_host u = '''' \<or> u_user u then None
             else
               let host = surface_host (u_scheme u) (to_lower (hostname u)) (url_port u);
                   path = (if u_path u = '''' then ''/'' else u_path u);
                   shown = (if u_path u = '''' then ''/''
                            else escaped_path (u_path u) (written_path (u_scheme u) (written_rest raw)));
                   (vs, ok) = parse_query (u_raw_query u);
                   canonical = join_on ''&'' (map (\<lambda>k. query_escape k @ ''={value}'') (sort_slice (<) (values_keys vs)));
                   show_query = surface_url_string (u_scheme u) host shown (force_query raw)
               in if \<not> ok then None
                  else Some \<lparr>su_observed = show_query (u_raw_query u), su_canonical = show_query canonical,
                             su_route = u_fragment u, su_path = path\<rparr>)"

section \<open>Kinds of endpoints\<close>

definition is_next_runtime_endpoint :: "string \<Rightarrow> string \<Rightarrow> bool" where
  "is_next_runtime_endpoint path content_type \<longleftrightarrow>
     has_prefix path ''/_next/data/'' \<or> contains content_type ''text/x-component''
     \<or> contains content_type ''text/x-component;'' \<or> contains content_type ''application/vnd.turbo-stream.html''"

text \<open>\<open>path.Ext\<close>: from the last dot of the last segment.\<close>

definition path_ext :: "string \<Rightarrow> string" where
  "path_ext p =
     (let base = rev (takeWhile (\<lambda>c. c \<noteq> CHR ''/'') (rev p))
      in if CHR ''.'' \<in> set base then CHR ''.'' # rev (takeWhile (\<lambda>c. c \<noteq> CHR ''.'') (rev base)) else '''')"

definition static_exts :: "string list" where
  "static_exts = [''.js'', ''.mjs'', ''.css'', ''.png'', ''.jpg'', ''.jpeg'', ''.gif'', ''.svg'', ''.ico'', ''.woff'',
     ''.woff2'', ''.ttf'', ''.map'', ''.webp'']"

definition sensitive_paths :: "string list" where
  "sensitive_paths = [''/admin'', ''/metrics'', ''/debug'', ''/actuator'', ''/swagger'', ''/api-docs'', ''/backup'', ''/ftp'',
     ''/.env'']"

definition classify_surface_endpoint :: "string \<Rightarrow> string \<Rightarrow> string \<times> bool" where
  "classify_surface_endpoint path content_type =
     (let p = to_lower path; ct = to_lower content_type;
          kind = (if to_lower (path_ext p) \<in> set static_exts then ''static''
                  else if is_next_runtime_endpoint p ct \<or> contains p ''/api/'' \<or> has_prefix p ''/api''
                     \<or> contains p ''/rest/'' \<or> has_prefix p ''/rest'' \<or> contains p ''graphql''
                     \<or> contains p ''swagger'' \<or> contains p ''openapi'' \<or> contains ct ''application/json''
                  then ''api'' else ''web'')
      in (kind, list_ex (\<lambda>m. p = m \<or> has_prefix p (m @ ''/'') \<or> has_prefix p (m @ ''.'') \<or> has_suffix p m)
                  sensitive_paths))"

end
