(* ===== verification/Correlate.thy ===== *)
theory Correlate
  imports Merge SurfaceUrl
begin

text \<open>
  The correlation of findings (\<open>internal/scanner/findings.go\<close>, \<open>internal/web/findings_correlation.go\<close>):
  what the scanners report becomes raw observations, observations with one fingerprint become one
  security finding, and the operator's status overrides are applied to the findings. Reading scanner
  artifacts, SHA-256 and the clock are a \<open>correlation_env\<close>. Times are the strings of the code, which
  compares them as strings.
\<close>

section \<open>Data\<close>

datatype dedupe_scope = DedupeHost | DedupeEndpoint | DedupeParameter | DedupeService | DedupePackage
  | DedupeSourceLocation | DedupeContainer | DedupeResource

definition StatusObservation :: string where "StatusObservation = ''OBSERVATION''"
definition StatusPotential :: string where "StatusPotential = ''POTENTIAL''"
definition StatusConfirmed :: string where "StatusConfirmed = ''CONFIRMED''"
definition StatusLikelyFalsePositive :: string where "StatusLikelyFalsePositive = ''LIKELY_FALSE_POSITIVE''"
definition StatusAcceptedRisk :: string where "StatusAcceptedRisk = ''ACCEPTED_RISK''"

text \<open>The part of a \<open>Run\<close> the correlation reads.\<close>

record scan_run =
  rn_scanner :: string
  rn_target :: string
  rn_scope :: string
  rn_status :: string
  rn_reason :: string
  rn_artifact_path :: string
  rn_attempt_id :: string
  rn_started_at :: string
  rn_finished_at :: string
  rn_checksum :: string

record raw_observation =
  ob_native_message_id :: string
  ob_attack :: string
  ob_id :: string
  ob_evidence_completeness :: string
  ob_run_status :: string
  ob_run_reason :: string
  ob_scanner :: string
  ob_rule_id :: string
  ob_source_id :: string
  ob_evidence_ref :: string
  ob_title :: string
  ob_severity :: string
  ob_target :: string
  ob_endpoint :: string
  ob_canonical :: string
  ob_method :: string
  ob_parameter :: string
  ob_parameter_location :: string
  ob_protocol :: string
  ob_port :: string
  ob_package :: string
  ob_package_version :: string
  ob_source_location :: string
  ob_container :: string
  ob_resource :: string
  ob_description :: string
  ob_evidence :: string
  ob_remediation :: string
  ob_cve :: string
  ob_cwe :: string
  ob_cvss :: int
  ob_severity_unrated :: bool
  ob_scope :: string
  ob_observed_at :: string
  ob_kind :: string

record finding_endpoint =
  fe_endpoint :: string
  fe_canonical :: string
  fe_method :: string
  fe_parameter :: string
  fe_parameter_location :: string
  fe_scanner :: string
  fe_observation_ids :: "string list"

record security_finding =
  sf_id :: string
  sf_fingerprint :: string
  sf_type :: string
  sf_title :: string
  sf_dedupe_scope :: dedupe_scope
  sf_target :: string
  sf_scope :: string
  sf_severity :: string
  sf_cvss :: int
  sf_cve :: "string list"
  sf_cwe :: "string list"
  sf_scanners :: "string list"
  sf_status :: string
  sf_status_reason :: string
  sf_observation_ids :: "string list"
  sf_endpoints :: "finding_endpoint list"
  sf_affected_endpoints :: nat
  sf_affected_instances :: nat
  sf_observations :: nat
  sf_first_seen :: string
  sf_last_seen :: string
  sf_validation_reason :: string

record finding_summary =
  fm_raw :: nat
  fm_unique :: nat
  fm_active :: nat
  fm_status :: "(string \<times> nat) list"
  fm_severity :: "(string \<times> nat) list"

record findings_snapshot =
  ss_engine :: string
  ss_runs :: "scan_run list"
  ss_raw :: "raw_observation list"
  ss_findings :: "security_finding list"
  ss_summary :: finding_summary

record status_override =
  so_status :: string
  so_reason :: string
  so_updated_at :: string

type_synonym overrides = "(string \<times> status_override) list"

text \<open>
  \<open>ce_parse\<close> is \<open>ParseRun\<close>, the findings it returns and whether it also returns an error;
  \<open>ce_artifact\<close> whether an artifact exists, \<open>ce_seal\<close> \<open>CalculateChecksum\<close>, \<open>ce_sha256\<close> the
  hexadecimal digest, \<open>ce_now\<close> the time.
\<close>

record correlation_env =
  ce_parse :: "scan_run \<Rightarrow> finding list \<times> bool"
  ce_artifact :: "string \<Rightarrow> bool"
  ce_seal :: "scan_run \<Rightarrow> string"
  ce_sha256 :: "string \<Rightarrow> string"
  ce_now :: string

datatype correlation_error = ChecksumMissing string | ChecksumMismatch string | ParseFailed string

definition findings_engine :: string where "findings_engine = ''deterministic-correlation-v2''"

section \<open>Rules\<close>

record finding_rule =
  fr_type :: string
  fr_title :: string
  fr_scope :: dedupe_scope
  fr_observation :: bool
  fr_confirmed :: bool

definition rule :: "string \<Rightarrow> string \<Rightarrow> dedupe_scope \<Rightarrow> bool \<Rightarrow> finding_rule" where
  "rule t title sc obs = \<lparr>fr_type = t, fr_title = title, fr_scope = sc, fr_observation = obs, fr_confirmed = False\<rparr>"

definition csp_rule :: finding_rule where
  "csp_rule = rule ''missing_content_security_policy'' ''Missing Content Security Policy'' DedupeHost False"
definition hsts_rule :: finding_rule where
  "hsts_rule = rule ''missing_hsts'' ''Missing HTTP Strict Transport Security'' DedupeHost False"
definition header_rule :: finding_rule where
  "header_rule = rule ''missing_security_header'' '''' DedupeHost False"
definition technology_rule :: finding_rule where
  "technology_rule = rule ''technology_detection'' '''' DedupeHost True"
definition port_rule :: finding_rule where
  "port_rule = rule ''open_port'' '''' DedupeService True"
definition prometheus_rule :: finding_rule where
  "prometheus_rule = rule ''prometheus_metrics_exposure'' ''Prometheus Metrics Exposed'' DedupeEndpoint False"
definition sqli_rule :: finding_rule where
  "sqli_rule = rule ''sql_injection'' ''SQL Injection'' DedupeParameter False"
definition xss_rule :: finding_rule where
  "xss_rule = rule ''cross_site_scripting'' ''Cross-Site Scripting'' DedupeParameter False"

definition finding_rules :: "finding_rule list" where
  "finding_rules = [csp_rule, hsts_rule, header_rule, technology_rule, port_rule, prometheus_rule, sqli_rule, xss_rule]"

fun title_chars :: "bool \<Rightarrow> string \<Rightarrow> string" where
  "title_chars last_dash [] = []"
| "title_chars last_dash (c # r) =
     (if is_lower c \<or> is_digit c then c # title_chars False r
      else if last_dash then title_chars True r else CHR ''_'' # title_chars True r)"

definition normalize_finding_title :: "string \<Rightarrow> string" where
  "normalize_finding_title v =
     (let t = dropWhile (\<lambda>c. c = CHR ''_'') (title_chars False (to_lower (trim_space v)))
      in rev (dropWhile (\<lambda>c. c = CHR ''_'') (rev t)))"

definition first_nonempty :: "string list \<Rightarrow> string" where
  "first_nonempty vs = (case find (\<lambda>s. trim_space s \<noteq> '''') vs of Some s \<Rightarrow> trim_space s | None \<Rightarrow> '''')"

definition legacy_finding_rule :: "finding \<Rightarrow> finding_rule" where
  "legacy_finding_rule f =
     (let text = to_lower (join_on '' '' [fd_rule_id f, fd_title f, fd_description f]);
          cve = normalize_finding_title (fd_cve f);
          title = normalize_finding_title (fd_title f)
      in if contains text ''content-security-policy'' \<or> contains text ''content security policy'' then csp_rule
         else if contains text ''strict-transport-security'' \<or> contains text ''missing hsts'' then hsts_rule
         else if contains text ''prometheus'' \<or> contains text ''/metrics'' then prometheus_rule
         else if contains text ''sql injection'' \<or> contains text ''sqli'' then sqli_rule
         else if contains text ''cross-site scripting'' \<or> contains text ''xss'' then xss_rule
         else if fd_scanner f = ''nmap'' \<or> contains text ''open port'' then port_rule
         else if contains text ''technology'' \<or> contains text ''wappalyzer'' \<or> contains text ''juice shop''
            \<or> contains text ''fingerprint'' then technology_rule
         else if cve \<noteq> '''' then
           rule (''vulnerability_'' @ cve) '''' (if fd_parameter f \<noteq> '''' then DedupeParameter else DedupeEndpoint) False
         else rule (if title \<noteq> '''' then title
                    else to_lower (trim_space (fd_scanner f)) @ '':'' @ to_lower (trim_space (fd_rule_id f)))
                '''' DedupeEndpoint False)"

definition normalized_finding_rule :: "finding \<Rightarrow> finding_rule" where
  "normalized_finding_rule f =
     (let r = legacy_finding_rule f;
          r1 = (if fr_type r \<notin> fr_type ` set finding_rules \<and> fd_cve f = ''''
                then r\<lparr>fr_type := to_lower (fd_scanner f) @ '':'' @
                         trim_space (first_nonempty [fd_rule_id f, fd_source_id f, fr_type r])\<rparr> else r);
          cve = normalize_finding_title (fd_cve f);
          r2 = (if cve \<noteq> '''' then r1\<lparr>fr_type := ''vulnerability_'' @ cve\<rparr> else r1)
      in if fd_source_location f \<noteq> '''' then r2\<lparr>fr_scope := DedupeSourceLocation\<rparr>
         else if fd_package f \<noteq> '''' then r2\<lparr>fr_scope := DedupePackage\<rparr>
         else if fd_parameter f \<noteq> '''' \<and> fr_scope r2 = DedupeEndpoint then r2\<lparr>fr_scope := DedupeParameter\<rparr>
         else r2)"

definition normalize_finding_severity :: "string \<Rightarrow> string" where
  "normalize_finding_severity v =
     (let s = to_lower (trim_space v)
      in if s \<in> set [''critical'', ''high'', ''medium'', ''low''] then s else ''info'')"

definition finding_severity_rank :: "string \<Rightarrow> nat" where
  "finding_severity_rank v =
     (let s = normalize_finding_severity v
      in if s = ''critical'' then 4 else if s = ''high'' then 3 else if s = ''medium'' then 2
         else if s = ''low'' then 1 else 0)"

section \<open>Observations\<close>

text \<open>The observed and the canonical form of an endpoint.\<close>

definition normalized_endpoint :: "string \<Rightarrow> string \<times> string" where
  "normalized_endpoint raw =
     (case canonicalize_surface_url raw of
        Some su \<Rightarrow> (su_observed su, su_canonical su) | None \<Rightarrow> (trim_space raw, trim_space raw))"

text \<open>Host, protocol and port.\<close>

definition finding_asset :: "string \<Rightarrow> string \<Rightarrow> string \<times> string \<times> string" where
  "finding_asset target endpoint =
     (let (h, proto, port) =
            (case url_parse endpoint of
               None \<Rightarrow> ('''', '''', '''')
             | Some u \<Rightarrow>
                 if u_host u = '''' then ('''', '''', '''')
                 else (to_lower (hostname u), to_lower (u_scheme u),
                       (if url_port u \<noteq> '''' then url_port u
                        else if to_lower (u_scheme u) = ''https'' then ''443''
                        else if to_lower (u_scheme u) = ''http'' then ''80'' else '''')))
      in (if h = '''' then to_lower (trim_space target) else h, proto, port))"

definition is_http :: "string \<Rightarrow> bool" where
  "is_http s \<longleftrightarrow> has_prefix s ''https://'' \<or> has_prefix s ''http://''"

definition observation_method :: "string \<Rightarrow> string \<Rightarrow> string" where
  "observation_method meth canonical = to_upper (if meth = '''' \<and> is_http canonical then ''GET'' else meth)"

definition observed_at :: "correlation_env \<Rightarrow> scan_run \<Rightarrow> string" where
  "observed_at ce run =
     (if rn_finished_at run \<noteq> '''' then rn_finished_at run
      else if rn_started_at run \<noteq> '''' then rn_started_at run else ce_now ce)"

definition observation_from_finding :: "correlation_env \<Rightarrow> scan_run \<Rightarrow> nat \<Rightarrow> finding \<Rightarrow> raw_observation" where
  "observation_from_finding ce run index f0 =
     (let (obs0, can0) = normalized_endpoint (fd_endpoint f0);
          observed = (if obs0 = '''' then fd_endpoint f0 else obs0);
          canonical = (if can0 = '''' then observed else can0);
          meth = observation_method (fd_method f0) canonical;
          f = (if fd_method f0 = '''' \<and> is_http canonical then f0\<lparr>fd_method := ''GET''\<rparr> else f0);
          seed = join_on [CHR 0x00] [fd_scanner f, fd_scope f, fd_rule_id f, fd_source_id f, rn_artifact_path run,
                   rn_attempt_id run, canonical, meth, fd_parameter f, itoa (int index)]
      in \<lparr>ob_native_message_id = fd_native_message_id f, ob_attack = fd_attack f, ob_id = take 32 (ce_sha256 ce seed),
          ob_evidence_completeness = fd_evidence_completeness f, ob_run_status = rn_status run,
          ob_run_reason = rn_reason run, ob_scanner = fd_scanner f, ob_rule_id = fd_rule_id f,
          ob_source_id = fd_source_id f, ob_evidence_ref = fd_evidence_ref f, ob_title = fd_title f,
          ob_severity = fd_severity f, ob_target = fd_target f, ob_endpoint = observed, ob_canonical = canonical,
          ob_method = meth, ob_parameter = fd_parameter f, ob_parameter_location = fd_parameter_location f,
          ob_protocol = fd_protocol f, ob_port = fd_port f, ob_package = fd_package f,
          ob_package_version = fd_package_version f, ob_source_location = fd_source_location f,
          ob_container = fd_container f, ob_resource = fd_resource f, ob_description = fd_description f,
          ob_evidence = fd_evidence f, ob_remediation = fd_remediation f, ob_cve = fd_cve f, ob_cwe = fd_cwe f,
          ob_cvss = fd_cvss f, ob_severity_unrated = fd_severity_unrated f, ob_scope = fd_scope f,
          ob_observed_at = observed_at ce run, ob_kind = fr_type (normalized_finding_rule f)\<rparr>)"

text \<open>Which runs are read, and the findings of a run as they are observed.\<close>

definition relative_to_root :: "string \<Rightarrow> string \<Rightarrow> string" where
  "relative_to_root p root =
     (let r = trim_suffix (path_clean root) ''/''
      in if r = '''' \<or> r = ''.'' then p
         else if has_prefix p (r @ ''/'') then trim_prefix p (r @ ''/'') else p)"

definition finding_scope :: "scan_run \<Rightarrow> string" where
  "finding_scope run =
     (let recon = ''recon:'' @ rn_target run @ '':''
      in if rn_scope run = '''' then ''host:'' @ rn_target run
         else if has_prefix (rn_scope run) recon then ''host:'' @ trim_prefix (rn_scope run) recon
         else rn_scope run)"

definition verify_checksum :: "correlation_env \<Rightarrow> scan_run \<Rightarrow> correlation_error option" where
  "verify_checksum ce run =
     (if trim_space (rn_checksum run) = '''' then Some (ChecksumMissing (rn_scanner run))
      else if ce_seal ce run \<noteq> rn_checksum run then Some (ChecksumMismatch (rn_scanner run)) else None)"

definition run_finding :: "scan_run \<Rightarrow> finding \<Rightarrow> finding" where
  "run_finding run f0 =
     (let f1 = (if rn_scanner run = ''testssl'' \<and> rn_status run = ''failed''
                then f0\<lparr>fd_evidence_completeness := ''partial''\<rparr> else f0);
          f2 = f1\<lparr>fd_scope := finding_scope run\<rparr>;
          f3 = (if has_prefix (fd_scope f2) ''source:''
                then f2\<lparr>fd_target := relative_to_root (fd_target f2) (rn_target run),
                        fd_endpoint := relative_to_root (fd_endpoint f2) (rn_target run),
                        fd_source_location := relative_to_root (fd_source_location f2) (rn_target run)\<rparr>
                else f2)
      in f3\<lparr>fd_evidence_ref := rn_artifact_path run @ ''#'' @ fd_source_id f3\<rparr>)"

definition observe_all :: "correlation_env \<Rightarrow> scan_run \<Rightarrow> finding list \<Rightarrow> raw_observation list" where
  "observe_all ce run fs = map (\<lambda>(i, f). observation_from_finding ce run i f) (enumerate 0 fs)"

definition observe_run :: "correlation_env \<Rightarrow> scan_run \<Rightarrow> raw_observation list \<times> correlation_error list" where
  "observe_run ce run =
     (if rn_status run \<noteq> ''completed'' \<and> rn_status run \<noteq> ''failed'' \<or> rn_artifact_path run = '''' then ([], [])
      else
        let partial = (rn_scanner run = ''testssl'' \<and> rn_status run = ''failed'');
            (fs, failed) = ce_parse ce run;
            parsed = (observe_all ce run (map (run_finding run) fs),
                      if failed then [ParseFailed (rn_scanner run)] else [])
        in if partial \<and> \<not> ce_artifact ce (rn_artifact_path run) then ([], [])
           else if partial then (case verify_checksum ce run of Some e \<Rightarrow> ([], [e]) | None \<Rightarrow> parsed)
           else parsed)"

definition legacy_run :: "finding \<Rightarrow> scan_run" where
  "legacy_run f = \<lparr>rn_scanner = fd_scanner f, rn_target = '''', rn_scope = fd_scope f, rn_status = '''',
     rn_reason = '''', rn_artifact_path = '''', rn_attempt_id = '''', rn_started_at = '''',
     rn_finished_at = '''', rn_checksum = ''''\<rparr>"

definition raw_observations :: "correlation_env \<Rightarrow> scan_run list \<Rightarrow> finding list \<Rightarrow> raw_observation list" where
  "raw_observations ce runs legacy =
     (let os = concat (map (\<lambda>run. fst (observe_run ce run)) runs)
      in if os \<noteq> [] then os
         else map (\<lambda>(i, f). observation_from_finding ce (legacy_run f) i f) (enumerate 0 legacy))"

section \<open>Fingerprints\<close>

definition observed_finding :: "raw_observation \<Rightarrow> finding" where
  "observed_finding ob = \<lparr>fd_source_id = ob_source_id ob, fd_scanner = ob_scanner ob, fd_rule_id = ob_rule_id ob,
     fd_title = ob_title ob, fd_severity = '''', fd_target = ob_target ob, fd_endpoint = ob_endpoint ob,
     fd_method = ob_method ob, fd_parameter = ob_parameter ob, fd_parameter_location = ob_parameter_location ob,
     fd_protocol = '''', fd_port = '''', fd_package = ob_package ob, fd_package_version = ob_package_version ob,
     fd_source_location = ob_source_location ob, fd_container = ob_container ob, fd_resource = ob_resource ob,
     fd_description = ob_description ob, fd_evidence = '''', fd_native_message_id = '''', fd_attack = '''',
     fd_remediation = '''', fd_evidence_ref = '''', fd_cve = ob_cve ob, fd_cwe = '''', fd_cvss = 0,
     fd_severity_unrated = False, fd_scope = ob_scope ob, fd_sources = [], fd_fingerprint = '''',
     fd_confidence = '''', fd_native_confidence = '''', fd_evidence_completeness = ''''\<rparr>"

definition locator_path :: "string \<Rightarrow> string" where
  "locator_path canonical =
     (case url_parse canonical of Some u \<Rightarrow> (if u_path u \<noteq> '''' then u_path u else canonical) | None \<Rightarrow> canonical)"

definition finding_locator :: "raw_observation \<Rightarrow> finding_rule \<Rightarrow> string" where
  "finding_locator ob r =
     (let (host, protocol, port) = finding_asset (ob_target ob) (ob_endpoint ob);
          asset = join_on ''|'' [protocol, host, port];
          canonical = snd (normalized_endpoint (ob_endpoint ob))
      in case fr_scope r of
           DedupeHost \<Rightarrow> asset
         | DedupeParameter \<Rightarrow> join_on ''|'' [asset, locator_path canonical, to_upper (ob_method ob),
             to_lower (ob_parameter_location ob), ob_parameter ob]
         | DedupeService \<Rightarrow> join_on ''|'' [host, protocol, port, to_lower (ob_resource ob), to_lower (ob_title ob)]
         | DedupePackage \<Rightarrow> join_on ''|'' [ob_scope ob, ob_package ob, ob_package_version ob, ob_target ob]
         | DedupeSourceLocation \<Rightarrow> join_on ''|'' [ob_scope ob, ob_source_location ob, ob_target ob, ob_parameter ob]
         | DedupeContainer \<Rightarrow> join_on ''|'' [ob_container ob, ob_package ob, ob_package_version ob]
         | DedupeResource \<Rightarrow> join_on ''|'' [ob_resource ob, ob_target ob]
         | DedupeEndpoint \<Rightarrow> join_on ''|'' [asset, canonical, to_upper (ob_method ob)])"

definition finding_fingerprint :: "correlation_env \<Rightarrow> raw_observation \<Rightarrow> finding_rule \<Rightarrow> string" where
  "finding_fingerprint ce ob r = ''sha256:'' @ ce_sha256 ce (fr_type r @ ''|'' @ finding_locator ob r)"

definition observation_rule :: "raw_observation \<Rightarrow> finding_rule" where
  "observation_rule ob =
     (let r = normalized_finding_rule (observed_finding ob)
      in if fr_title r = '''' then r\<lparr>fr_title := ob_title ob\<rparr> else r)"

definition fingerprint_of :: "correlation_env \<Rightarrow> raw_observation \<Rightarrow> string" where
  "fingerprint_of ce ob = finding_fingerprint ce ob (observation_rule ob)"

section \<open>The snapshot\<close>

definition add_unique :: "string \<Rightarrow> string list \<Rightarrow> string list" where
  "add_unique v vs = (if v = '''' \<or> v \<in> set vs then vs else vs @ [v])"

definition new_finding :: "correlation_env \<Rightarrow> raw_observation \<Rightarrow> security_finding" where
  "new_finding ce ob =
     (let r = observation_rule ob; fp = fingerprint_of ce ob
      in \<lparr>sf_id = ''finding-'' @ take 16 (ce_sha256 ce fp), sf_fingerprint = fp, sf_type = fr_type r,
          sf_title = first_nonempty [fr_title r, ob_title ob], sf_dedupe_scope = fr_scope r, sf_target = ob_target ob,
          sf_scope = ob_scope ob, sf_severity = ob_severity ob, sf_cvss = ob_cvss ob, sf_cve = [], sf_cwe = [],
          sf_scanners = [],
          sf_status = (if fr_confirmed r then StatusConfirmed
                       else if fr_observation r then StatusObservation else StatusPotential),
          sf_status_reason = '''', sf_observation_ids = [], sf_endpoints = [], sf_affected_endpoints = 0,
          sf_affected_instances = 0, sf_observations = 0, sf_first_seen = ob_observed_at ob,
          sf_last_seen = ob_observed_at ob, sf_validation_reason = ''''\<rparr>)"

definition same_endpoint :: "raw_observation \<Rightarrow> finding_endpoint \<Rightarrow> bool" where
  "same_endpoint ob e \<longleftrightarrow>
     fe_canonical e = ob_canonical ob \<and> fe_method e = ob_method ob \<and> fe_parameter e = ob_parameter ob"

fun add_endpoint :: "raw_observation \<Rightarrow> finding_endpoint list \<Rightarrow> finding_endpoint list" where
  "add_endpoint ob [] =
     [\<lparr>fe_endpoint = ob_endpoint ob, fe_canonical = ob_canonical ob, fe_method = ob_method ob,
       fe_parameter = ob_parameter ob, fe_parameter_location = ob_parameter_location ob,
       fe_scanner = ob_scanner ob, fe_observation_ids = [ob_id ob]\<rparr>]"
| "add_endpoint ob (e # es) =
     (if same_endpoint ob e then e\<lparr>fe_observation_ids := fe_observation_ids e @ [ob_id ob]\<rparr> # es
      else e # add_endpoint ob es)"

definition add_observation :: "raw_observation \<Rightarrow> security_finding \<Rightarrow> security_finding" where
  "add_observation ob g =
     g\<lparr>sf_severity := (if finding_severity_rank (ob_severity ob) > finding_severity_rank (sf_severity g)
                        then ob_severity ob else sf_severity g),
       sf_cvss := (if ob_cvss ob > sf_cvss g then ob_cvss ob else sf_cvss g),
       sf_scanners := add_unique (ob_scanner ob) (sf_scanners g),
       sf_cve := add_unique (ob_cve ob) (sf_cve g),
       sf_cwe := add_unique (ob_cwe ob) (sf_cwe g),
       sf_observation_ids := sf_observation_ids g @ [ob_id ob],
       sf_observations := sf_observations g + 1,
       sf_first_seen := (if ob_observed_at ob < sf_first_seen g \<or> sf_first_seen g = ''''
                         then ob_observed_at ob else sf_first_seen g),
       sf_last_seen := (if ob_observed_at ob > sf_last_seen g then ob_observed_at ob else sf_last_seen g),
       sf_endpoints := add_endpoint ob (sf_endpoints g)\<rparr>"

definition group_step ::
  "correlation_env \<Rightarrow> raw_observation \<Rightarrow> (string \<times> security_finding) list \<Rightarrow> (string \<times> security_finding) list" where
  "group_step ce ob groups =
     (let fp = fingerprint_of ce ob;
          g = (case map_of groups fp of Some g \<Rightarrow> g | None \<Rightarrow> new_finding ce ob)
      in put fp (add_observation ob g) groups)"

definition finish_finding :: "security_finding \<Rightarrow> security_finding" where
  "finish_finding g = g\<lparr>sf_affected_endpoints := length (sf_endpoints g), sf_affected_instances := sf_observations g\<rparr>"

definition unique_findings :: "correlation_env \<Rightarrow> raw_observation list \<Rightarrow> security_finding list" where
  "unique_findings ce os =
     (let groups = fold (group_step ce) os []
      in map (\<lambda>k. finish_finding (the (map_of groups k))) (sort_slice (<) (map fst groups)))"

definition finding_active :: "string \<Rightarrow> bool" where
  "finding_active st \<longleftrightarrow> st = StatusPotential \<or> st = StatusConfirmed \<or> st = StatusAcceptedRisk"

definition bump :: "string \<Rightarrow> (string \<times> nat) list \<Rightarrow> (string \<times> nat) list" where
  "bump k m = put k ((case map_of m k of Some n \<Rightarrow> n | None \<Rightarrow> 0) + 1) m"

definition count_finding :: "security_finding \<Rightarrow> finding_summary \<Rightarrow> finding_summary" where
  "count_finding f fm =
     (let fm1 = fm\<lparr>fm_status := bump (sf_status f) (fm_status fm)\<rparr>
      in if finding_active (sf_status f)
         then fm1\<lparr>fm_active := fm_active fm1 + 1,
                  fm_severity := bump (normalize_finding_severity (sf_severity f)) (fm_severity fm1)\<rparr>
         else fm1)"

definition summarize :: "raw_observation list \<Rightarrow> security_finding list \<Rightarrow> finding_summary" where
  "summarize os fs = fold count_finding fs
     \<lparr>fm_raw = length os, fm_unique = length fs, fm_active = 0, fm_status = [], fm_severity = []\<rparr>"

definition recompute_summary :: "findings_snapshot \<Rightarrow> findings_snapshot" where
  "recompute_summary s = s\<lparr>ss_summary := summarize (ss_raw s) (ss_findings s)\<rparr>"

definition build_findings_snapshot ::
  "correlation_env \<Rightarrow> scan_run list \<Rightarrow> finding list \<Rightarrow> findings_snapshot \<times> correlation_error list" where
  "build_findings_snapshot ce runs legacy =
     (let os = raw_observations ce runs legacy; fs = unique_findings ce os
      in (\<lparr>ss_engine = findings_engine, ss_runs = runs, ss_raw = os, ss_findings = fs, ss_summary = summarize os fs\<rparr>,
          concat (map (\<lambda>run. snd (observe_run ce run)) runs)))"

section \<open>Status overrides\<close>

definition set_override :: "status_override \<Rightarrow> security_finding \<Rightarrow> security_finding" where
  "set_override ov g = g\<lparr>sf_status := so_status ov, sf_status_reason := so_reason ov\<rparr>"

text \<open>An observation as the first correlation engine read it.\<close>

definition legacy_observed :: "raw_observation \<Rightarrow> finding" where
  "legacy_observed ob = (observed_finding ob)\<lparr>fd_source_id := '''', fd_parameter_location := '''', fd_package := '''',
     fd_package_version := '''', fd_source_location := '''', fd_container := '''', fd_resource := '''', fd_cve := ''''\<rparr>"

definition legacy_fingerprint :: "correlation_env \<Rightarrow> raw_observation \<Rightarrow> string" where
  "legacy_fingerprint ce ob = finding_fingerprint ce ob (legacy_finding_rule (legacy_observed ob))"

definition legacy_override :: "correlation_env \<Rightarrow> overrides \<Rightarrow> raw_observation \<Rightarrow> status_override option" where
  "legacy_override ce ovs ob =
     (case map_of ovs (legacy_fingerprint ce ob) of
        Some ov \<Rightarrow> Some ov
      | None \<Rightarrow> if ob_method ob = ''GET'' then map_of ovs (legacy_fingerprint ce (ob\<lparr>ob_method := ''''\<rparr>)) else None)"

text \<open>The finding an observation belongs to: the last one that lists its id.\<close>

fun owner_of :: "string \<Rightarrow> security_finding list \<Rightarrow> nat option" where
  "owner_of i [] = None"
| "owner_of i (g # gs) =
     (case owner_of i gs of
        Some n \<Rightarrow> Some (Suc n)
      | None \<Rightarrow> if i \<in> set (sf_observation_ids g) then Some 0 else None)"

definition apply_legacy ::
  "correlation_env \<Rightarrow> overrides \<Rightarrow> raw_observation \<Rightarrow> security_finding list \<Rightarrow> security_finding list" where
  "apply_legacy ce ovs ob fs =
     (case legacy_override ce ovs ob of
        None \<Rightarrow> fs
      | Some ov \<Rightarrow>
          (case owner_of (ob_id ob) fs of
             None \<Rightarrow> fs
           | Some i \<Rightarrow> if map_of ovs (sf_fingerprint (fs ! i)) \<noteq> None then fs
                       else fs[i := set_override ov (fs ! i)]))"

definition apply_explicit :: "overrides \<Rightarrow> security_finding \<Rightarrow> security_finding" where
  "apply_explicit ovs g = (case map_of ovs (sf_fingerprint g) of Some ov \<Rightarrow> set_override ov g | None \<Rightarrow> g)"

definition apply_finding_overrides :: "correlation_env \<Rightarrow> overrides \<Rightarrow> findings_snapshot \<Rightarrow> findings_snapshot" where
  "apply_finding_overrides ce ovs s =
     recompute_summary (s\<lparr>ss_findings := map (apply_explicit ovs) (fold (apply_legacy ce ovs) (ss_raw s) (ss_findings s))\<rparr>)"

section \<open>Overrides of an earlier engine\<close>

definition strip_root :: "string \<Rightarrow> scan_run \<Rightarrow> string \<Rightarrow> string" where
  "strip_root scope run endpoint =
     (if finding_scope run \<noteq> scope \<or> \<not> has_prefix scope ''source:'' then endpoint
      else trim_prefix endpoint (path_clean (rn_target run) @ ''/''))"

definition native_key :: "raw_observation \<Rightarrow> scan_run list \<Rightarrow> string" where
  "native_key ob runs =
     (let endpoint = fold (strip_root (ob_scope ob)) runs (ob_endpoint ob);
          meth = to_upper (ob_method ob)
      in join_on [CHR 0x00] [ob_scope ob, ob_scanner ob, ob_source_id ob, endpoint,
           (if meth = '''' \<and> is_http endpoint then ''GET'' else meth), ob_parameter ob, ob_parameter_location ob])"

definition by_id :: "raw_observation list \<Rightarrow> string \<Rightarrow> raw_observation option" where
  "by_id os i = map_of (map (\<lambda>ob. (ob_id ob, ob)) (rev os)) i"

definition inherit_step ::
  "findings_snapshot \<Rightarrow> overrides \<Rightarrow> security_finding \<Rightarrow> overrides \<Rightarrow> overrides" where
  "inherit_step previous ovs g inherited =
     (case map_of ovs (sf_fingerprint g) of
        None \<Rightarrow> inherited
      | Some ov \<Rightarrow>
          fold (\<lambda>i inh. case by_id (ss_raw previous) i of
                          None \<Rightarrow> inh | Some ob \<Rightarrow> put (native_key ob (ss_runs previous)) ov inh)
            (sf_observation_ids g) inherited)"

definition inherited_override ::
  "findings_snapshot \<Rightarrow> overrides \<Rightarrow> security_finding \<Rightarrow> status_override option" where
  "inherited_override current inherited g =
     (case List.map_filter (\<lambda>i. case by_id (ss_raw current) i of
                               Some ob \<Rightarrow> map_of inherited (native_key ob (ss_runs current)) | None \<Rightarrow> None)
             (sf_observation_ids g) of
        [] \<Rightarrow> None | ov # _ \<Rightarrow> Some ov)"

fun migrate_findings ::
  "findings_snapshot \<Rightarrow> overrides \<Rightarrow> security_finding list \<Rightarrow> overrides \<Rightarrow> security_finding list \<times> overrides" where
  "migrate_findings current inherited [] ovs = ([], ovs)"
| "migrate_findings current inherited (g # gs) ovs =
     (case (if map_of ovs (sf_fingerprint g) \<noteq> None then None else inherited_override current inherited g) of
        None \<Rightarrow> (let (gs', ovs') = migrate_findings current inherited gs ovs in (g # gs', ovs'))
      | Some ov \<Rightarrow>
          (let (gs', ovs') = migrate_findings current inherited gs (put (sf_fingerprint g) ov ovs)
           in (set_override ov g # gs', ovs')))"

definition migrate_finding_overrides ::
  "findings_snapshot \<Rightarrow> findings_snapshot \<Rightarrow> overrides \<Rightarrow> findings_snapshot \<times> overrides" where
  "migrate_finding_overrides current previous ovs =
     (let (gs, ovs') = migrate_findings current (fold (inherit_step previous ovs) (ss_findings previous) [])
                         (ss_findings current) ovs
      in (current\<lparr>ss_findings := gs\<rparr>, ovs'))"

section \<open>Rebuilding\<close>

text \<open>The snapshot of a record, with the snapshot on disk, if it can be read, and the saved overrides.\<close>

definition build_with_overrides ::
  "correlation_env \<Rightarrow> scan_run list \<Rightarrow> finding list \<Rightarrow> findings_snapshot option \<Rightarrow> overrides
     \<Rightarrow> findings_snapshot \<times> overrides" where
  "build_with_overrides ce runs vulns previous ovs =
     (let s = fst (build_findings_snapshot ce runs (if runs = [] then vulns else []));
          (s', ovs') = (case previous of
                          Some p \<Rightarrow> if ss_engine p \<noteq> findings_engine then migrate_finding_overrides s p ovs else (s, ovs)
                        | None \<Rightarrow> (s, ovs))
      in (apply_finding_overrides ce ovs' s', ovs'))"

record fallback_validation =
  fv_fingerprint :: string
  fv_endpoint :: string
  fv_status :: int
  fv_content_type :: string
  fv_body_hash :: string
  fv_body_size :: int
  fv_canary_status :: int
  fv_canary_content_type :: string
  fv_canary_body_hash :: string
  fv_similarity :: int \<comment> \<open>0 or 1\<close>
  fv_reason :: string

definition FallbackReasonMatched :: string where "FallbackReasonMatched = ''SPA_OR_WILDCARD_FALLBACK''"

definition apply_validation :: "fallback_validation \<Rightarrow> security_finding list \<Rightarrow> security_finding list" where
  "apply_validation v fs =
     (if fv_reason v \<noteq> FallbackReasonMatched then fs
      else map (\<lambda>g. if sf_fingerprint g = fv_fingerprint v \<and> sf_status g = StatusPotential
                    then g\<lparr>sf_status := StatusLikelyFalsePositive, sf_validation_reason := fv_reason v\<rparr> else g) fs)"

definition rebuild_findings_snapshot ::
  "correlation_env \<Rightarrow> scan_run list \<Rightarrow> finding list \<Rightarrow> findings_snapshot option \<Rightarrow> overrides
     \<Rightarrow> fallback_validation list option \<Rightarrow> findings_snapshot \<times> overrides" where
  "rebuild_findings_snapshot ce runs vulns previous ovs validations =
     (let (s, ovs') = build_with_overrides ce runs vulns previous ovs;
          s' = (case validations of
                  None \<Rightarrow> s | Some vs \<Rightarrow> s\<lparr>ss_findings := fold apply_validation vs (ss_findings s)\<rparr>)
      in (recompute_summary s', ovs'))"

text \<open>What is on disk beside the runs; \<open>saved\<close> tells whether the two writes succeed.\<close>

record finding_disk =
  fk_overrides :: overrides
  fk_snapshot :: "findings_snapshot option"

datatype status_error = ReasonRequired | FindingNotFound string | SaveFailed

fun set_status :: "string \<Rightarrow> string \<Rightarrow> string \<Rightarrow> security_finding list \<Rightarrow> status_error + security_finding list" where
  "set_status fp st reason [] = Inl (FindingNotFound fp)"
| "set_status fp st reason (g # gs) =
     (if sf_fingerprint g = fp then
        (if trim_space reason = '''' then Inl ReasonRequired
         else Inr (g\<lparr>sf_status := st, sf_status_reason := trim_space reason\<rparr> # gs))
      else (case set_status fp st reason gs of Inl e \<Rightarrow> Inl e | Inr gs' \<Rightarrow> Inr (g # gs')))"

definition update_finding_status ::
  "string \<Rightarrow> bool \<times> bool \<Rightarrow> findings_snapshot \<Rightarrow> string \<Rightarrow> string \<Rightarrow> string \<Rightarrow> finding_disk
     \<Rightarrow> finding_disk \<times> status_error option" where
  "update_finding_status now saved s fp st reason disk =
     (case set_status fp st reason (ss_findings s) of
        Inl e \<Rightarrow> (disk, Some e)
      | Inr gs \<Rightarrow>
          (let ov = \<lparr>so_status = st, so_reason = trim_space reason, so_updated_at = now\<rparr>;
               disk1 = disk\<lparr>fk_overrides := put fp ov (fk_overrides disk)\<rparr>
           in if \<not> fst saved then (disk, Some SaveFailed)
              else if \<not> snd saved then (disk1, Some SaveFailed)
              else (disk1\<lparr>fk_snapshot := Some (recompute_summary (s\<lparr>ss_findings := gs\<rparr>))\<rparr>, None)))"

end
