(* ===== verification/Surface.thy ===== *)
theory Surface
  imports SurfaceUrl GatewayState Correlate Budget
begin

text \<open>
  The attack surface inventory (\<open>internal/scanner/attack_surface.go\<close>): endpoints as a crawler or a definition
  reports them, their merge into the inventory, and the gate that hands endpoints to the scanners and records its
  decision. Digests and the wording of a scope decision come from \<open>gateway_env\<close>; the decoded JSON of a request body
  is the argument \<open>keys\<close>. A time stamp is an argument of the operation that writes it.
\<close>

section \<open>Data\<close>

record endpoint_provenance =
  pv_tool :: string
  pv_source :: string
  pv_artifact :: string
  pv_observed_at :: string
  pv_authenticated :: bool

record endpoint_parameter =
  ep_name :: string
  ep_location :: string

record endpoint_coverage =
  co_attempt_id :: string
  co_fingerprint :: string
  co_evidence :: string
  co_scanner :: string
  co_status :: string
  co_reason :: string
  co_started :: string
  co_finished :: string

record surface_endpoint =
  se_id :: string
  se_url :: string
  se_canonical :: string
  se_method :: string
  se_path :: string
  se_group_id :: string
  se_replay_ref :: string
  se_read_only :: bool
  se_auth_context :: string
  se_content_type_sent :: string
  se_body_digest :: string
  se_observation :: string
  se_history :: "endpoint_coverage list"
  se_spa_routes :: "string list"
  se_kind :: string
  se_sources :: "string list"
  se_parameters :: "endpoint_parameter list"
  se_status_code :: int
  se_content_type :: string
  se_sensitive :: bool
  se_has_parameters :: bool
  se_has_form :: bool
  se_with_auth :: bool
  se_requires_auth :: "bool option"
  se_discovered_at :: string
  se_state :: string
  se_state_reason :: string
  se_provenance :: "endpoint_provenance list"
  se_coverage :: "endpoint_coverage list"

record inventory_host =
  ih_id :: string
  ih_host :: string
  ih_addresses :: "string list"
  ih_state :: string
  ih_source :: string
  ih_evidence :: string

record inventory_service =
  iv_id :: string
  iv_host_id :: string
  iv_host :: string
  iv_port :: int
  iv_protocol :: string
  iv_origin :: string
  iv_tls :: bool
  iv_state :: string
  iv_evidence :: string

record inventory_definition =
  id_candidate_origins :: "string list"
  id_id :: string
  id_kind :: string
  id_url :: string
  id_state :: string
  id_evidence :: string
  id_reason :: string

definition AttackSurfaceClassifierVersion :: int where "AttackSurfaceClassifierVersion = 7"

text \<open>The schema version is a constant of the file format and is left out.\<close>

record attack_surface =
  as_workflow :: string
  as_hosts :: "inventory_host list"
  as_services :: "inventory_service list"
  as_definitions :: "inventory_definition list"
  as_gaps :: "string list"
  as_classifier :: int
  as_scope :: string
  as_target :: string
  as_generated_at :: string
  as_raw_count :: nat
  as_checksum :: string
  as_endpoints :: "surface_endpoint list"

definition EndpointStateInScope :: string where "EndpointStateInScope = ''in_scope''"
definition EndpointStateOutOfScope :: string where "EndpointStateOutOfScope = ''out_of_scope''"
definition EndpointStateExcluded :: string where "EndpointStateExcluded = ''excluded''"
definition EndpointStateStatic :: string where "EndpointStateStatic = ''static''"
definition EndpointStateUnmaterialized :: string where "EndpointStateUnmaterialized = ''unmaterialized''"
definition EndpointCoverageBatchCompleted :: string where "EndpointCoverageBatchCompleted = ''batch_completed''"
definition assessment_cap_reason :: string where "assessment_cap_reason = ''assessment endpoint budget exhausted''"
definition batch_evidence_scanners :: "string list" where
  "batch_evidence_scanners = [''nuclei'', ''wapiti'', ''dalfox'', ''katana'', ''zap'']"

section \<open>Parameters\<close>

text \<open>The names of a query are the keys of a Go map, whose order is not fixed; every list of parameters is sorted
  before it is stored.\<close>

definition parameter_before :: "endpoint_parameter \<Rightarrow> endpoint_parameter \<Rightarrow> bool" where
  "parameter_before a b =
     (if ep_location a = ep_location b then ep_name a < ep_name b else ep_location a < ep_location b)"

definition trim_parameter :: "endpoint_parameter \<Rightarrow> endpoint_parameter" where
  "trim_parameter p = \<lparr>ep_name = trim_space (ep_name p), ep_location = to_lower (trim_space (ep_location p))\<rparr>"

definition merge_parameters :: "endpoint_parameter list \<Rightarrow> endpoint_parameter list" where
  "merge_parameters ps =
     sort_slice parameter_before (uniq_from {} (filter (\<lambda>p. ep_name p \<noteq> '''') (map trim_parameter ps)))"

definition query_parameters :: "url \<Rightarrow> endpoint_parameter list" where
  "query_parameters u = map (\<lambda>n. \<lparr>ep_name = n, ep_location = ''query''\<rparr>) (values_keys (fst (parse_query (u_raw_query u))))"

definition path_parameters :: "string \<Rightarrow> endpoint_parameter list" where
  "path_parameters path =
     map (\<lambda>s. \<lparr>ep_name = trim_suffix (trim_prefix s ''{'') ''}'', ep_location = ''path''\<rparr>)
       (filter (\<lambda>s. length s > 2 \<and> has_prefix s ''{'' \<and> has_suffix s ''}'') (split_on (CHR ''/'') path))"

definition endpoint_parameters :: "string \<Rightarrow> endpoint_parameter list" where
  "endpoint_parameters raw =
     (case url_parse raw of None \<Rightarrow> [] | Some u \<Rightarrow> query_parameters u @ path_parameters (u_path u))"

text \<open>\<open>keys\<close>: the keys of a body that is a JSON object.\<close>

definition body_parameters :: "(string \<Rightarrow> string list option) \<Rightarrow> string \<Rightarrow> string \<Rightarrow> endpoint_parameter list" where
  "body_parameters keys body0 content_type =
     (let body = trim_space body0;
          named = map (\<lambda>n. \<lparr>ep_name = n, ep_location = ''body''\<rparr>);
          form = (case parse_query body of (vs, ok) \<Rightarrow> if ok then named (values_keys vs) else [])
      in if body = '''' then []
         else if contains (to_lower content_type) ''json'' \<or> has_prefix body ''{'' then
           (case keys body of Some ns \<Rightarrow> named ns | None \<Rightarrow> form)
         else form)"

section \<open>Endpoints\<close>

text \<open>\<open>fmt.Sprint\<close> of a list of parameters and of a truth value.\<close>

definition sprint_parameters :: "endpoint_parameter list \<Rightarrow> string" where
  "sprint_parameters ps = ''['' @ join_on '' '' (map (\<lambda>p. ''{'' @ ep_name p @ '' '' @ ep_location p @ ''}'') ps) @ '']''"

definition sprint_bool :: "bool \<Rightarrow> string" where
  "sprint_bool b = (if b then ''true'' else ''false'')"

definition normalize_surface_endpoint ::
  "gateway_env \<Rightarrow> string \<Rightarrow> string \<Rightarrow> string \<Rightarrow> string \<Rightarrow> int \<Rightarrow> string \<Rightarrow> endpoint_parameter list \<Rightarrow> bool \<Rightarrow> bool
     \<Rightarrow> surface_endpoint option" where
  "normalize_surface_endpoint env raw method0 source timestamp status content_type params0 has_form with_auth =
     (case canonicalize_surface_url raw of
        None \<Rightarrow> None
      | Some u \<Rightarrow>
          (let m = to_upper (trim_space method0); method = (if m = '''' then ''GET'' else m);
               params = merge_parameters params0;
               (kind, sensitive) = classify_surface_endpoint (su_path u) content_type
           in Some \<lparr>se_id = take 24 (ge_sha env (method @ [CHR 0x00] @ su_observed u @ sprint_parameters params
                                                @ sprint_bool with_auth)),
                    se_url = su_observed u, se_canonical = su_canonical u, se_method = method, se_path = su_path u,
                    se_group_id = take 24 (ge_sha env (method @ [CHR 0x00] @ su_canonical u)), se_replay_ref = '''',
                    se_read_only = False, se_auth_context = '''', se_content_type_sent = '''', se_body_digest = '''',
                    se_observation = ''observed'', se_history = [],
                    se_spa_routes = (if su_route u \<noteq> '''' then [su_route u] else []), se_kind = kind,
                    se_sources = [trim_space source], se_parameters = params, se_status_code = status,
                    se_content_type = content_type, se_sensitive = sensitive, se_has_parameters = (params \<noteq> []),
                    se_has_form = has_form, se_with_auth = with_auth,
                    se_requires_auth = (if status = 401 \<or> status = 403 then Some True else None),
                    se_discovered_at = timestamp, se_state = '''', se_state_reason = '''', se_provenance = [],
                    se_coverage = []\<rparr>))"

definition host_from_target :: "string \<Rightarrow> string" where
  "host_from_target target =
     (let t0 = trim_space target;
          t = (if contains t0 ''://'' then
                 (case url_parse t0 of Some u \<Rightarrow> if u_host u \<noteq> [] then u_host u else t0 | None \<Rightarrow> t0)
               else t0)
      in case split_host_port t of Some (h, p) \<Rightarrow> h | None \<Rightarrow> t)"

definition in_surface_scope :: "gateway_env \<Rightarrow> string \<Rightarrow> string \<Rightarrow> app_scope option \<Rightarrow> bool \<times> string" where
  "in_surface_scope env raw target_host scope =
     (case scope of
        Some s \<Rightarrow> (case allows s raw of (ok, why) \<Rightarrow> (ok, ge_scope_text env why))
      | None \<Rightarrow> if target_host = '''' \<or> to_lower (host_from_target raw) = to_lower target_host then (True, '''')
                else (False, ''endpoint is not on the assessed host''))"

definition stamp_endpoint_state :: "gateway_env \<Rightarrow> app_scope \<Rightarrow> bool \<Rightarrow> string \<Rightarrow> surface_endpoint \<Rightarrow> surface_endpoint" where
  "stamp_endpoint_state env s allowed reason e =
     (if \<not> allowed then e\<lparr>se_state := EndpointStateOutOfScope, se_state_reason := reason\<rparr>
      else case excluded s (se_method e) (se_url e) of
             Some why \<Rightarrow> e\<lparr>se_state := EndpointStateExcluded, se_state_reason := ge_exclude_text env why\<rparr>
           | None \<Rightarrow>
               if se_kind e = ''static''
               then e\<lparr>se_state := EndpointStateStatic, se_state_reason := ''static resource is discovery-only''\<rparr>
               else e\<lparr>se_state := EndpointStateInScope, se_state_reason := ''''\<rparr>)"

definition endpoint_dispatchable :: "string \<Rightarrow> bool" where
  "endpoint_dispatchable st \<longleftrightarrow> st = '''' \<or> st = EndpointStateInScope"

section \<open>Merging\<close>

definition merge_strings :: "string list \<Rightarrow> string list \<Rightarrow> string list" where
  "merge_strings xs ys = uniq_from {''''} (map trim_space (xs @ ys))"

definition same_provenance :: "endpoint_provenance \<Rightarrow> endpoint_provenance \<Rightarrow> bool" where
  "same_provenance a b \<longleftrightarrow> pv_tool a = pv_tool b \<and> pv_source a = pv_source b \<and> pv_artifact a = pv_artifact b
     \<and> pv_authenticated a = pv_authenticated b"

definition merge_provenance :: "endpoint_provenance list \<Rightarrow> endpoint_provenance list \<Rightarrow> endpoint_provenance list" where
  "merge_provenance xs ys = foldl (\<lambda>out p. if list_ex (\<lambda>q. same_provenance q p) out then out else out @ [p]) xs ys"

definition merge_endpoint :: "surface_endpoint \<Rightarrow> surface_endpoint \<Rightarrow> surface_endpoint" where
  "merge_endpoint e i =
     (let params = merge_parameters (se_parameters e @ se_parameters i);
          take_state = (se_state e = '''' \<or> (endpoint_dispatchable (se_state e) \<and> \<not> endpoint_dispatchable (se_state i)))
                       \<and> se_state i \<noteq> ''''
      in e\<lparr>se_observation := (if se_observation i = ''observed'' then ''observed'' else se_observation e),
           se_replay_ref := (if se_replay_ref i \<noteq> '''' then se_replay_ref i else se_replay_ref e),
           se_read_only := (if se_replay_ref i \<noteq> '''' then se_read_only i else se_read_only e),
           se_sources := merge_strings (se_sources e) (se_sources i), se_parameters := params,
           se_has_parameters := (params \<noteq> []), se_has_form := (se_has_form e \<or> se_has_form i),
           se_sensitive := (se_sensitive e \<or> se_sensitive i),
           se_spa_routes := merge_strings (se_spa_routes e) (se_spa_routes i),
           se_status_code := (if se_status_code e = 0 then se_status_code i else se_status_code e),
           se_content_type := (if se_content_type e = '''' then se_content_type i else se_content_type e),
           se_requires_auth := (if se_requires_auth e = None then se_requires_auth i else se_requires_auth e),
           se_state := (if take_state then se_state i else se_state e),
           se_state_reason := (if take_state then se_state_reason i else se_state_reason e),
           se_provenance := merge_provenance (se_provenance e) (se_provenance i)\<rparr>)"

text \<open>The index of the identifiers is the endpoints themselves.\<close>

fun merge_surface_endpoint :: "surface_endpoint \<Rightarrow> surface_endpoint list \<Rightarrow> surface_endpoint list" where
  "merge_surface_endpoint i [] = [i]"
| "merge_surface_endpoint i (e # es) =
     (if se_id e = se_id i then merge_endpoint e i # es else e # merge_surface_endpoint i es)"

definition seed_endpoint :: "gateway_env \<Rightarrow> string \<Rightarrow> string \<Rightarrow> surface_endpoint option" where
  "seed_endpoint env now target =
     map_option (\<lambda>e. e\<lparr>se_observation := ''seed''\<rparr>)
       (normalize_surface_endpoint env target ''GET'' ''seed'' now 0 '''' (endpoint_parameters target) False False)"

definition new_seed_surface :: "gateway_env \<Rightarrow> string \<Rightarrow> string \<Rightarrow> string \<Rightarrow> attack_surface" where
  "new_seed_surface env now scope target =
     (let es = (case seed_endpoint env now target of Some e \<Rightarrow> [e] | None \<Rightarrow> [])
      in \<lparr>as_workflow = '''', as_hosts = [], as_services = [], as_definitions = [], as_gaps = [],
          as_classifier = AttackSurfaceClassifierVersion, as_scope = scope, as_target = target, as_generated_at = now,
          as_raw_count = length es, as_checksum = '''', as_endpoints = es\<rparr>)"

definition ensure_seed_endpoint :: "gateway_env \<Rightarrow> string \<Rightarrow> attack_surface \<Rightarrow> attack_surface" where
  "ensure_seed_endpoint env target s =
     (case seed_endpoint env (as_generated_at s) target of
        None \<Rightarrow> s | Some e \<Rightarrow> s\<lparr>as_endpoints := merge_surface_endpoint e (as_endpoints s)\<rparr>)"

section \<open>The gate\<close>

definition has_placeholder_path :: "string \<Rightarrow> bool" where
  "has_placeholder_path raw =
     (case url_parse raw of
        None \<Rightarrow> True
      | Some u \<Rightarrow>
          list_ex (\<lambda>p0. let p = to_lower p0 in contains_any p ''{}'' \<or> contains p ''%7b'' \<or> contains p ''%7d'')
            [u_path u, escaped_path (u_path u) (written_path (u_scheme u) (written_rest raw))])"

definition safe_method :: "bool \<Rightarrow> string \<Rightarrow> surface_endpoint \<Rightarrow> bool" where
  "safe_method expanded scanner e \<longleftrightarrow>
     se_method e \<in> set [''GET'', ''HEAD'', ''OPTIONS'']
     \<or> (expanded \<and> scanner = ''zap'' \<and> se_method e = ''POST'' \<and> se_read_only e \<and> se_replay_ref e \<noteq> '''')"

text \<open>What a scanner needs of an endpoint; \<open>None\<close> is the Go result \<open>(true, "")\<close>.\<close>

definition scanner_needs :: "bool \<Rightarrow> string \<Rightarrow> surface_endpoint \<Rightarrow> string option" where
  "scanner_needs expanded scanner e =
     (let need = (\<lambda>ok why. if ok then None else Some why)
      in if scanner = ''nuclei'' then None
         else if scanner = ''apichecks'' then need (se_kind e = ''api'') ''endpoint is not classified as an API operation''
         else if scanner = ''zap'' then
           need (expanded \<or> se_kind e = ''api'' \<or> se_has_parameters e \<or> se_has_form e \<or> se_sensitive e)
             ''endpoint has no API, parameter, form, or sensitive trait''
         else if scanner = ''wapiti'' then need (se_has_parameters e \<or> se_has_form e) ''endpoint has no input surface''
         else if scanner = ''dalfox'' then
           need (list_ex (\<lambda>p. ep_location p = ''query'') (se_parameters e)) ''endpoint has no query parameter''
         else if scanner \<in> set [''nikto'', ''testssl''] then
           need (case url_parse (se_url e) of Some u \<Rightarrow> u_path u = ''/'' \<and> u_raw_query u = '''' | None \<Rightarrow> False)
             ''host-level scanner only tests the origin root''
         else Some ''scanner is not endpoint-dispatched'')"

definition endpoint_refusal ::
  "gateway_env \<Rightarrow> bool \<Rightarrow> string \<Rightarrow> app_scope option \<Rightarrow> surface_endpoint \<Rightarrow> string option" where
  "endpoint_refusal env expanded scanner scope e =
     (if \<not> endpoint_dispatchable (se_state e) then
        Some (''endpoint state is '' @ se_state e @ (if se_state_reason e \<noteq> '''' then '': '' @ se_state_reason e else ''''))
      else
        case (case scope of
                None \<Rightarrow> None
              | Some s \<Rightarrow>
                  (case allows s (se_url e) of
                     (False, why) \<Rightarrow> Some (''endpoint is out of scope: '' @ ge_scope_text env why)
                   | (True, why) \<Rightarrow>
                       (case excluded s (se_method e) (se_url e) of
                          Some why \<Rightarrow> Some (''endpoint is excluded: '' @ ge_exclude_text env why)
                        | None \<Rightarrow> None))) of
          Some why \<Rightarrow> Some why
        | None \<Rightarrow>
            if has_placeholder_path (se_url e) then Some ''endpoint path contains an unresolved {placeholder}''
            else if \<not> safe_method expanded scanner e then Some ''unsafe or state-changing method is inventory-only''
            else if se_kind e = ''static'' then Some ''static resource is discovery-only''
            else if se_method e \<noteq> ''GET'' \<and> scanner \<in> set [''nuclei'', ''wapiti'', ''dalfox'']
            then Some ''URL-only adapter does not preserve this HTTP method; route the request to ZAP''
            else scanner_needs expanded scanner e)"

definition dispatch_refusal ::
  "gateway_env \<Rightarrow> bool \<Rightarrow> string \<Rightarrow> string \<Rightarrow> app_scope option \<Rightarrow> string \<Rightarrow> surface_endpoint \<Rightarrow> string option" where
  "dispatch_refusal env expanded surface_scope scanner scope context e =
     (if expanded \<and> scanner \<noteq> ''apichecks'' \<and> se_auth_context e \<noteq> ''''
         \<and> se_auth_context e \<noteq> inventory_id env [surface_scope, ''target-bound''] \<and> se_auth_context e \<noteq> context
      then Some ''request requires a separate named authentication context''
      else endpoint_refusal env expanded scanner scope e)"

fun set_coverage :: "endpoint_coverage \<Rightarrow> endpoint_coverage list \<Rightarrow> endpoint_coverage list" where
  "set_coverage c [] = [c]"
| "set_coverage c (d # ds) = (if co_scanner d = co_scanner c then c # ds else d # set_coverage c ds)"

definition coverage_entry :: "string \<Rightarrow> string \<Rightarrow> string \<Rightarrow> string \<Rightarrow> string \<Rightarrow> endpoint_coverage" where
  "coverage_entry scanner st reason started finished =
     \<lparr>co_attempt_id = '''', co_fingerprint = '''', co_evidence = '''', co_scanner = scanner, co_status = st,
      co_reason = reason, co_started = started, co_finished = finished\<rparr>"

definition record_coverage :: "endpoint_coverage \<Rightarrow> surface_endpoint \<Rightarrow> surface_endpoint" where
  "record_coverage c e = e\<lparr>se_coverage := set_coverage c (se_coverage e)\<rparr>"

text \<open>The state of one pass: the URLs given so far, the endpoints selected, the budget.\<close>

record dispatch_state =
  ds_targets :: "string list"
  ds_selected :: nat
  ds_budget :: "budget option"

record dispatch_pass =
  dp_env :: gateway_env
  dp_surface_scope :: string
  dp_scanner :: string
  dp_max :: int
  dp_scope :: "app_scope option"
  dp_expanded :: bool
  dp_context :: string
  dp_now :: string

definition budget_spent :: "dispatch_pass \<Rightarrow> dispatch_state \<Rightarrow> bool" where
  "budget_spent p d \<longleftrightarrow> dp_max p > 0
     \<and> (if dp_expanded p then int (ds_selected d) \<ge> dp_max p else int (length (ds_targets d)) \<ge> dp_max p)"

definition dispatch_one :: "dispatch_pass \<Rightarrow> surface_endpoint \<Rightarrow> dispatch_state \<Rightarrow> dispatch_state \<times> surface_endpoint" where
  "dispatch_one p e d =
     (let skip = (\<lambda>d why. (d, record_coverage (coverage_entry (dp_scanner p) ''skipped'' why (dp_now p) '''') e))
      in if dp_context p \<noteq> '''' \<and> se_auth_context e \<noteq> dp_context p then (d, e)
         else case dispatch_refusal (dp_env p) (dp_expanded p) (dp_surface_scope p) (dp_scanner p) (dp_scope p) (dp_context p) e of
                Some why \<Rightarrow> skip d why
              | None \<Rightarrow>
                  if budget_spent p d then skip d ''endpoint budget exhausted''
                  else
                    (case (case ds_budget d of None \<Rightarrow> (None, True)
                           | Some b \<Rightarrow> (case reserve_endpoints (Some b) [se_id e] of (b', granted) \<Rightarrow> (b', granted \<noteq> []))) of
                       (b', granted) \<Rightarrow>
                         if \<not> granted then skip (d\<lparr>ds_budget := b'\<rparr>) assessment_cap_reason
                         else (d\<lparr>ds_budget := b', ds_selected := ds_selected d + 1,
                                 ds_targets := (if se_url e \<in> set (ds_targets d) then ds_targets d
                                                else ds_targets d @ [se_url e])\<rparr>,
                               record_coverage (coverage_entry (dp_scanner p) ''dispatched'' '''' (dp_now p) '''') e)))"

fun dispatch_loop ::
  "dispatch_pass \<Rightarrow> surface_endpoint list \<Rightarrow> dispatch_state \<Rightarrow> dispatch_state \<times> surface_endpoint list" where
  "dispatch_loop p [] d = (d, [])"
| "dispatch_loop p (e # es) d =
     (let (d1, e1) = dispatch_one p e d; (d2, es2) = dispatch_loop p es d1 in (d2, e1 # es2))"

text \<open>The URLs for the scanner, the budget and the surface afterwards.\<close>

definition dispatch_targets ::
  "gateway_env \<Rightarrow> string \<Rightarrow> string \<Rightarrow> int \<Rightarrow> app_scope option \<Rightarrow> bool \<Rightarrow> string \<Rightarrow> budget option \<Rightarrow> attack_surface
     \<Rightarrow> string list \<times> budget option \<times> attack_surface" where
  "dispatch_targets env now scanner limit scope expanded context bo s =
     (let p = \<lparr>dp_env = env, dp_surface_scope = as_scope s, dp_scanner = scanner, dp_max = limit, dp_scope = scope,
               dp_expanded = expanded, dp_context = context, dp_now = now\<rparr>;
          (d, es) = dispatch_loop p (as_endpoints s) \<lparr>ds_targets = [], ds_selected = 0, ds_budget = bo\<rparr>
      in (ds_targets d, ds_budget d, s\<lparr>as_endpoints := es\<rparr>))"

definition wapiti_max_start_urls :: int where "wapiti_max_start_urls = 50"

definition endpoint_dispatch_limit :: "string \<Rightarrow> int \<Rightarrow> bool \<Rightarrow> int" where
  "endpoint_dispatch_limit scanner configured expanded =
     (if scanner = ''wapiti'' then
        (if \<not> expanded \<and> (configured \<le> 0 \<or> configured > wapiti_max_start_urls) then wapiti_max_start_urls else configured)
      else if scanner \<in> set [''nikto'', ''testssl''] then 1
      else configured)"

definition skip_endpoint_coverage :: "string \<Rightarrow> string \<Rightarrow> string \<Rightarrow> attack_surface \<Rightarrow> attack_surface" where
  "skip_endpoint_coverage now scanner reason s =
     s\<lparr>as_endpoints := map (record_coverage (coverage_entry scanner ''skipped'' reason '''' now)) (as_endpoints s)\<rparr>"

section \<open>The outcome of a run\<close>

record endpoint_run =
  er_status :: string
  er_reason :: string
  er_completeness :: string
  er_attempt_id :: string
  er_fingerprint :: string
  er_artifact_path :: string
  er_finished_at :: string

definition coverage_status :: "string \<Rightarrow> endpoint_run \<Rightarrow> string" where
  "coverage_status scanner r =
     (let s0 = (if er_status r \<in> set [''not_applicable'', ''cancelled''] then ''failed'' else er_status r);
          s1 = (if er_completeness r = ''partial'' \<and> s0 = ''completed'' then ''partial'' else s0)
      in if s1 = ''completed'' \<and> scanner \<in> set batch_evidence_scanners then EndpointCoverageBatchCompleted else s1)"

definition close_entry :: "string \<Rightarrow> endpoint_run \<Rightarrow> endpoint_coverage \<Rightarrow> endpoint_coverage" where
  "close_entry scanner r c =
     c\<lparr>co_attempt_id := er_attempt_id r, co_fingerprint := er_fingerprint r, co_evidence := er_artifact_path r,
       co_status := coverage_status scanner r, co_finished := er_finished_at r,
       co_reason := (if er_reason r \<noteq> '''' then er_reason r else co_reason c)\<rparr>"

definition open_entry :: "string \<Rightarrow> endpoint_coverage \<Rightarrow> bool" where
  "open_entry scanner c \<longleftrightarrow> co_scanner c = scanner \<and> co_status c = ''dispatched''"

definition complete_endpoint :: "string \<Rightarrow> endpoint_run \<Rightarrow> surface_endpoint \<Rightarrow> surface_endpoint" where
  "complete_endpoint scanner r e =
     e\<lparr>se_coverage := map (\<lambda>c. if open_entry scanner c then close_entry scanner r c else c) (se_coverage e),
       se_history := se_history e @ map (close_entry scanner r) (filter (open_entry scanner) (se_coverage e))\<rparr>"

definition complete_endpoint_coverage :: "string \<Rightarrow> endpoint_run \<Rightarrow> attack_surface \<Rightarrow> attack_surface" where
  "complete_endpoint_coverage scanner r s =
     s\<lparr>as_endpoints := map (complete_endpoint scanner r) (as_endpoints s)\<rparr>"

end
