(* ===== verification/Outcome.thy ===== *)
theory Outcome
  imports Surface Registry
begin

text \<open>
  The record of one scanner run and how its outcome is judged: sealing (\<open>finalizeRun\<close> of
  \<open>internal/scanner/pipeline.go\<close>), the reading of a web scanner's report and the binding of credentials to an
  origin (\<open>result_outcome.go\<close>), the low-impact policy of optional adapters (\<open>adapter_policy.go\<close>) and the note
  that a tool leaves the gateway (\<open>egress_limitations.go\<close>). The digest of a run's files, the decoded report and the
  revision of the build are arguments.
\<close>

section \<open>Runs\<close>

record historical_candidate =
  hc_url :: string
  hc_query_keys :: "string list"
  hc_provider :: string
  hc_state :: string
  hc_status :: int
  hc_reason :: string
  hc_source :: string

text \<open>The fields of \<open>Run\<close> that the executor reads or writes. \<open>jr_dns\<close> is the host with its addresses; \<open>jr_http\<close>
  the URLs of the HTTP observations.\<close>

record job_run =
  jr_scanner :: string
  jr_target :: string
  jr_scope :: string
  jr_variant :: string
  jr_types :: "string list"
  jr_fingerprint :: string
  jr_attempt_id :: string
  jr_stage :: string
  jr_workflow :: string
  jr_auth_context :: string
  jr_auth_identity :: string
  jr_auth_role :: string
  jr_status :: string
  jr_reason :: string
  jr_gap :: string
  jr_started :: string
  jr_finished :: string
  jr_authenticated :: bool
  jr_auth_state :: "evidence_state option"
  jr_auth_checked :: string
  jr_execution :: string
  jr_parser :: string
  jr_outcome :: string
  jr_completeness :: string
  jr_truncated :: bool
  jr_limitations :: "(string \<times> string) list"
  jr_artifact :: string
  jr_inputs_path :: string
  jr_events_path :: string
  jr_checksum :: string
  jr_revision :: string
  jr_candidate_hosts :: "string list"
  jr_dns :: "(string \<times> string list) option"
  jr_http :: "string list"
  jr_historical :: "historical_candidate list"

definition empty_run :: job_run where
  "empty_run = \<lparr>jr_scanner = '''', jr_target = '''', jr_scope = '''', jr_variant = '''', jr_types = [],
     jr_fingerprint = '''', jr_attempt_id = '''', jr_stage = '''', jr_workflow = '''', jr_auth_context = '''',
     jr_auth_identity = '''', jr_auth_role = '''', jr_status = '''', jr_reason = '''', jr_gap = '''', jr_started = '''',
     jr_finished = '''', jr_authenticated = False, jr_auth_state = None, jr_auth_checked = '''', jr_execution = '''',
     jr_parser = '''', jr_outcome = '''', jr_completeness = '''', jr_truncated = False, jr_limitations = [],
     jr_artifact = '''', jr_inputs_path = '''', jr_events_path = '''', jr_checksum = '''', jr_revision = '''',
     jr_candidate_hosts = [], jr_dns = None, jr_http = [], jr_historical = []\<rparr>"

definition GapPrerequisiteFailed :: string where "GapPrerequisiteFailed = ''prerequisite_failed''"
definition GapToolUnavailable :: string where "GapToolUnavailable = ''tool_unavailable''"
definition GapExcluded :: string where "GapExcluded = ''excluded''"
definition GapEmptyInput :: string where "GapEmptyInput = ''empty_input''"
definition GapAuthFailed :: string where "GapAuthFailed = ''auth_failed''"
definition GapAuthExpired :: string where "GapAuthExpired = ''auth_expired''"
definition GapInterruptedWrite :: string where "GapInterruptedWrite = ''interrupted_write''"

definition run_terminal :: "job_run \<Rightarrow> bool" where
  "run_terminal r \<longleftrightarrow> jr_status r \<in> set [''completed'', ''failed'', ''cancelled'', ''not_applicable'', ''skipped'']"

section \<open>Sealing\<close>

definition execution_outcome :: "string \<Rightarrow> string" where
  "execution_outcome st =
     (if st = ''completed'' then ''SUCCESS'' else if st = ''failed'' then ''FAILED''
      else if st = ''cancelled'' then ''CANCELLED''
      else if st \<in> set [''not_applicable'', ''skipped''] then ''NOT_RUN'' else '''')"

definition final_outcome :: "job_run \<Rightarrow> string" where
  "final_outcome r =
     (if jr_scanner r = ''testssl'' \<and> has_prefix (jr_reason r) ''no reachable TLS service'' then ''TARGET_UNREACHABLE''
      else if jr_auth_state r \<in> set [Some StateFailed, Some StateExpired] then ''AUTH_FAILED''
      else if contains (jr_reason r) ''timeout'' \<or> contains (jr_reason r) ''time budget'' then ''TIMEOUT''
      else if jr_status r = ''failed'' then ''FAILED''
      else if jr_status r = ''cancelled'' then ''PARTIAL''
      else '''')"

definition finalize_run :: "(job_run \<Rightarrow> string) \<Rightarrow> string \<Rightarrow> string \<Rightarrow> job_run \<Rightarrow> job_run" where
  "finalize_run checksum revision now r =
     (let r1 = r\<lparr>jr_revision := (if jr_revision r = '''' then revision else jr_revision r),
                 jr_execution := (if jr_execution r = '''' then execution_outcome (jr_status r) else jr_execution r),
                 jr_parser := (if jr_parser r = '''' \<and> run_terminal r then ''NOT_TRACKED'' else jr_parser r),
                 jr_completeness := (if jr_completeness r = '''' \<and> run_terminal r then ''unknown'' else jr_completeness r),
                 jr_outcome := (if jr_outcome r = '''' then final_outcome r else jr_outcome r),
                 jr_finished := (if jr_finished r = '''' then now else jr_finished r)\<rparr>
      in r1\<lparr>jr_checksum := checksum r1\<rparr>)"

definition checksum_verified :: "(job_run \<Rightarrow> string) \<Rightarrow> job_run \<Rightarrow> bool" where
  "checksum_verified checksum r \<longleftrightarrow> trim_space (jr_checksum r) \<noteq> '''' \<and> checksum r = jr_checksum r"

section \<open>The report of a web scanner\<close>

definition scanner_uses_web_auth :: "string \<Rightarrow> bool" where
  "scanner_uses_web_auth n \<longleftrightarrow> n \<in> set [''zap'', ''nuclei'', ''wapiti'', ''dalfox'', ''apiwrites'', ''katana'']"

text \<open>\<open>wr_root\<close>: the members of the top-level object with their values as written; \<open>wr_lines\<close>: for each line that is
  not blank, its template id if the line is an object; \<open>wr_findings\<close>: what \<open>ParseRun\<close> makes of the artifact.\<close>

record web_report =
  wr_root :: "(string \<times> string) list option"
  wr_lines :: "string option list"
  wr_findings :: "string + nat"

datatype artifact_read = NoArtifactFile | UnreadableArtifact string | ArtifactReport web_report

definition report_missing_field :: "string \<Rightarrow> web_report \<Rightarrow> string option" where
  "report_missing_field scanner w =
     (let key = (if scanner = ''wapiti'' then ''vulnerabilities'' else ''alerts'')
      in case wr_root w of
           None \<Rightarrow> Some ''invalid JSON''
         | Some m \<Rightarrow>
             if map_of m key = None \<and> (map_of m ''site'' = None \<or> scanner \<noteq> ''zap'')
             then Some (''required '' @ key @ '' field missing'') else None)"

definition report_bad_line :: "web_report \<Rightarrow> string option" where
  "report_bad_line w =
     (if list_ex (\<lambda>l. case l of None \<Rightarrow> True | Some template \<Rightarrow> trim_space template = '''') (wr_lines w)
      then Some ''invalid Nuclei finding record'' else None)"

definition report_bad_shape :: "string \<Rightarrow> web_report \<Rightarrow> string option" where
  "report_bad_shape scanner w =
     (let m = (case wr_root w of None \<Rightarrow> [] | Some m \<Rightarrow> m);
          key = (if scanner = ''wapiti'' then ''vulnerabilities''
                 else if map_of m ''alerts'' = None then ''site'' else ''alerts'');
          value = trim_space (case map_of m key of None \<Rightarrow> '''' | Some v \<Rightarrow> v);
          expected = (if scanner = ''wapiti'' then CHR ''{'' else CHR ''['')
      in if value = '''' \<or> hd value \<noteq> expected then Some (''invalid '' @ key @ '' records'') else None)"

definition report_problem :: "string \<Rightarrow> web_report \<Rightarrow> string option" where
  "report_problem scanner w =
     (case (if scanner \<in> set [''zap'', ''wapiti''] then report_missing_field scanner w else None) of
        Some e \<Rightarrow> Some e
      | None \<Rightarrow>
          (case (if scanner = ''nuclei'' then report_bad_line w else None) of
             Some e \<Rightarrow> Some e
           | None \<Rightarrow> (if scanner \<in> set [''zap'', ''wapiti''] then report_bad_shape scanner w else None)))"

definition report_findings :: "string \<Rightarrow> artifact_read \<Rightarrow> string + nat" where
  "report_findings scanner a =
     (case a of
        NoArtifactFile \<Rightarrow> Inl ''file does not exist''
      | UnreadableArtifact e \<Rightarrow> Inl e
      | ArtifactReport w \<Rightarrow> (case report_problem scanner w of Some e \<Rightarrow> Inl e | None \<Rightarrow> wr_findings w))"

definition cut_short :: "job_run \<Rightarrow> bool" where
  "cut_short r \<longleftrightarrow> jr_truncated r \<or> jr_limitations r \<noteq> []"

definition validate_web_result :: "artifact_read \<Rightarrow> job_run \<Rightarrow> job_run" where
  "validate_web_result a r0 =
     (let r = r0\<lparr>jr_execution := ''SUCCESS''\<rparr>;
          partial_run = (\<lambda>x. x\<lparr>jr_outcome := ''PARTIAL'', jr_completeness := ''partial''\<rparr>);
          usable = (\<lambda>outcome. r\<lparr>jr_parser := ''SUCCESS'', jr_completeness := ''complete'', jr_outcome := outcome\<rparr>)
      in if jr_scanner r0 \<notin> set [''zap'', ''wapiti'', ''dalfox'', ''nuclei'', ''nikto'', ''testssl'', ''sslyze'']
            \<or> jr_status r0 \<noteq> ''completed'' then r0
         else if jr_artifact r = '''' then r\<lparr>jr_outcome := ''PARTIAL'', jr_completeness := ''unknown''\<rparr>
         else if a = NoArtifactFile \<and> jr_scanner r = ''dalfox'' then
           (if cut_short r then partial_run (usable ''SUCCESS_NO_FINDINGS'') else usable ''SUCCESS_NO_FINDINGS'')
         else case report_findings (jr_scanner r) a of
                Inl e \<Rightarrow> r\<lparr>jr_parser := ''FAILED'', jr_outcome := ''PARSER_FAILED'', jr_completeness := ''unknown'',
                           jr_status := ''failed'', jr_reason := ''scanner results unavailable or invalid: '' @ e\<rparr>
              | Inr n \<Rightarrow>
                  (let x = usable (if n > 0 then ''SUCCESS_WITH_FINDINGS'' else ''SUCCESS_NO_FINDINGS'')
                   in if jr_completeness r = ''partial'' \<or> cut_short r then partial_run x else x))"

definition mark_auth_expired :: "job_run \<Rightarrow> job_run" where
  "mark_auth_expired r = r\<lparr>jr_status := ''failed'', jr_authenticated := False, jr_auth_state := Some StateExpired,
     jr_gap := GapAuthExpired, jr_outcome := ''AUTH_FAILED'', jr_completeness := ''partial''\<rparr>"

section \<open>Credentials stay on their origin\<close>

definition same_origin_as :: "approved_origin \<Rightarrow> string \<Rightarrow> bool" where
  "same_origin_as bound raw \<longleftrightarrow>
     (case parse_approved_origin '''' raw of
        Inl e \<Rightarrow> False
      | Inr o1 \<Rightarrow> ao_scheme o1 = ao_scheme bound \<and> ao_host o1 = ao_host bound \<and> ao_port o1 = ao_port bound)"

definition skip_unbound :: "string \<Rightarrow> string \<Rightarrow> attack_surface \<Rightarrow> attack_surface" where
  "skip_unbound scanner raw s =
     s\<lparr>as_endpoints := map (\<lambda>e. if se_url e = raw
        then record_coverage (coverage_entry scanner ''skipped'' ''credential binding does not authorize this origin'' '''' '''') e
        else e) (as_endpoints s)\<rparr>"

definition constrain_credential_targets ::
  "string \<Rightarrow> app_scope option \<Rightarrow> string \<Rightarrow> string \<Rightarrow> string list \<Rightarrow> attack_surface option
     \<Rightarrow> string list \<times> attack_surface option" where
  "constrain_credential_targets auth scope target scanner urls so =
     (if auth = '''' \<or> scope = None then (urls, so)
      else case parse_approved_origin '''' target of
             Inl e \<Rightarrow> ([], so)
           | Inr bound \<Rightarrow>
               (filter (same_origin_as bound) urls,
                map_option (fold (skip_unbound scanner) (filter (\<lambda>u. \<not> same_origin_as bound u) urls)) so))"

section \<open>Policy of optional adapters\<close>

definition adapter_policy_restriction :: "string \<Rightarrow> bool \<Rightarrow> bool \<Rightarrow> string \<Rightarrow> string option" where
  "adapter_policy_restriction i test_env has_exclusions wapiti_mode =
     (if i = ''wapiti'' \<and> \<not> test_env \<and> wapiti_mode \<noteq> ''safe'' \<and> wapiti_mode \<noteq> ''full'' then Some ''wapiti policy''
      else if i = ''nikto'' \<and> has_exclusions then Some ''nikto policy'' else None)"

definition config_policy_restriction :: "string \<Rightarrow> assessment_config \<Rightarrow> string option" where
  "config_policy_restriction i cfg =
     adapter_policy_restriction i (cfg_test_environment cfg) (cfg_exclusions cfg \<noteq> []) (cfg_wapiti_mode cfg)"

definition origin_root_outside_boundary :: "app_scope \<Rightarrow> bool" where
  "origin_root_outside_boundary s \<longleftrightarrow>
     list_ex (\<lambda>ori. (ao_path_prefix ori \<noteq> '''' \<and> ao_path_prefix ori \<noteq> ''/'')
                \<or> excluded s ''GET'' (origin_string ori @ ''/'') \<noteq> None) (sc_origins s)"

definition request_policy_restriction :: "string \<Rightarrow> bool \<Rightarrow> string \<Rightarrow> app_scope option \<Rightarrow> string option" where
  "request_policy_restriction i test_env wapiti_mode scope =
     (let has_exclusions = (case scope of None \<Rightarrow> False | Some s \<Rightarrow> sc_exclusions s \<noteq> [])
      in case adapter_policy_restriction i test_env has_exclusions wapiti_mode of
           Some why \<Rightarrow> Some why
         | None \<Rightarrow>
             (case scope of
                Some s \<Rightarrow> if i = ''testssl'' \<and> origin_root_outside_boundary s then Some ''testssl policy'' else None
              | None \<Rightarrow> None))"

section \<open>Tools outside the gateway\<close>

definition LimitationScopeNotGatewayEnforced :: string where
  "LimitationScopeNotGatewayEnforced = ''scope_not_gateway_enforced''"

definition direct_egress_scanners :: "string list" where
  "direct_egress_scanners = [''katana'', ''testssl'', ''nikto'', ''nmap'', ''openvas'']"

definition with_direct_egress :: "(string \<times> string) list \<Rightarrow> string \<Rightarrow> (string \<times> string) list" where
  "with_direct_egress ls scanner =
     (if scanner \<notin> set direct_egress_scanners \<or> LimitationScopeNotGatewayEnforced \<in> fst ` set ls then ls
      else ls @ [(LimitationScopeNotGatewayEnforced, scanner @ '' is not routed through the recording gateway'')])"

end
