(* ===== verification/Inventory.thy ===== *)
theory Inventory
  imports Outcome
begin

text \<open>
  What else becomes part of the inventory: API operations (\<open>MergeOpenAPIEndpointsScoped\<close> of
  \<open>internal/scanner/attack_surface.go\<close> with the URLs of \<open>openapi.go\<close> and the application context of \<open>zap.go\<close>),
  archived URLs (\<open>historical_surface.go\<close>), hosts and services of finished runs (\<open>inventory_assets.go\<close>), and what
  a scanner is told about it (\<open>BuildScannerInputs\<close> of \<open>input_manifest.go\<close>). A decoded nmap report is an argument.
\<close>

section \<open>The URL of an API operation\<close>

record api_endpoint =
  ae_request_url :: string
  ae_method :: string
  ae_path :: string
  ae_origin :: string
  ae_target_id :: string
  ae_definition_id :: string
  ae_operation_id :: string
  ae_source :: string
  ae_resolved :: bool
  ae_eligible :: bool
  ae_reason :: string
  ae_required_inputs :: bool \<comment> \<open>some parameter is required\<close>
  ae_spec_servers :: "string list"

definition path_unescape :: "string \<Rightarrow> string option" where
  "path_unescape s = unescape EncPath s"

text \<open>\<open>URL.String\<close> of a URL with a host, a path set by the program, and no query or fragment.\<close>

definition operation_url :: "string \<Rightarrow> string \<Rightarrow> string \<Rightarrow> string \<Rightarrow> string" where
  "operation_url raw scheme host path =
     (if scheme = '''' then '''' else scheme @ '':'') @ ''//'' @ escape_with host_must_escape host
     @ escape_with path_must_escape path @ (if force_query raw then ''?'' else '''')"

definition operation_path :: "string \<Rightarrow> string \<Rightarrow> string \<Rightarrow> string" where
  "operation_path source base path =
     (let rest = dropWhile (\<lambda>c. c = CHR ''/'') path
      in if source = ''graphql'' then CHR ''/'' # rest else trim_suffix base ''/'' @ CHR ''/'' # rest)"

text \<open>The pattern of \<open>applicationContextRegex\<close>: the origin, its default port optional, then the path prefix and
  anything below it or a query. A dot does not match a line feed.\<close>

definition context_heads :: "approved_origin \<Rightarrow> string list" where
  "context_heads ori =
     (let host = (if CHR '':'' \<in> set (ao_host ori) then ''['' @ ao_host ori @ '']'' else ao_host ori);
          head = ao_scheme ori @ ''://'' @ host;
          default = (if ao_scheme ori = ''http'' then 80 else 443);
          port = (if ao_port ori = 0 then default else ao_port ori);
          prefix = escape_with path_must_escape (trim_suffix (ao_path_prefix ori) ''/'')
      in map (\<lambda>h. h @ prefix)
           (if port = default then [head @ '':'' @ itoa port, head] else [head @ '':'' @ itoa port]))"

definition matches_context :: "approved_origin \<Rightarrow> string \<Rightarrow> bool" where
  "matches_context ori s \<longleftrightarrow>
     list_ex (\<lambda>h. has_prefix s h
               \<and> (let r = drop (length h) s in r = '''' \<or> (hd r \<in> {CHR ''/'', CHR ''?''} \<and> CHR 0x0A \<notin> set r)))
       (context_heads ori)"

definition application_context :: "string \<Rightarrow> approved_origin option" where
  "application_context raw =
     (case url_parse raw of
        None \<Rightarrow> None
      | Some u \<Rightarrow>
          if u_host u = '''' \<or> u_scheme u \<notin> set [''http'', ''https''] \<or> u_user u \<or> u_fragment u \<noteq> '''' then None
          else (case parse_approved_origin '''' raw of Inl e \<Rightarrow> None | Inr ori \<Rightarrow> Some ori))"

definition operation_host :: "url \<Rightarrow> string" where
  "operation_host u =
     (let host = to_lower (u_host u); (name, port) = url_host_port host
      in if (u_scheme u = ''https'' \<and> port = ''443'') \<or> (u_scheme u = ''http'' \<and> port = ''80'')
         then (if CHR '':'' \<in> set name then ''['' @ name @ '']'' else name) else host)"

definition foreign_origin :: "string \<Rightarrow> string \<Rightarrow> string \<Rightarrow> bool" where
  "foreign_origin raw scheme host \<longleftrightarrow>
     (case url_parse raw of
        None \<Rightarrow> True
      | Some v \<Rightarrow> u_user v \<or> u_raw_query v \<noteq> '''' \<or> u_fragment v \<noteq> '''' \<or> to_lower (u_scheme v) \<noteq> to_lower scheme
                  \<or> to_lower (u_host v) \<noteq> to_lower host)"

definition dot_segment :: "string \<Rightarrow> bool" where
  "dot_segment path \<longleftrightarrow> list_ex (\<lambda>s. s = ''.'' \<or> s = ''..'') (split_on (CHR ''/'') path)"

definition inputs_missing :: "api_endpoint \<Rightarrow> string option" where
  "inputs_missing a =
     (if ae_source a = ''graphql'' \<and> ae_request_url a = ''''
      then Some ''materialized GraphQL query is unavailable; reload its definition and explicit inputs''
      else if ae_request_url a = '''' \<and> ae_required_inputs a
      then Some ''materialized required operation inputs are unavailable''
      else if \<not> ae_eligible a \<or> \<not> ae_resolved a \<or> ae_method a \<notin> set [''GET'', ''HEAD'']
      then Some ''operation is not eligible for the safe profile'' else None)"

definition in_application :: "string \<Rightarrow> string \<Rightarrow> string + string" where
  "in_application app resolved =
     (case application_context app of
        None \<Rightarrow> Inl ''invalid application URL for ZAP context''
      | Some ori \<Rightarrow> if matches_context ori resolved then Inr resolved
                    else Inl ''operation path is outside application context'')"

definition api_endpoint_url :: "string \<Rightarrow> api_endpoint \<Rightarrow> string + string" where
  "api_endpoint_url app a =
     (case inputs_missing a of
        Some why \<Rightarrow> Inl why
      | None \<Rightarrow>
          (case path_unescape (ae_path a) of
             None \<Rightarrow> Inl ''operation path is unresolved or contains URL delimiters''
           | Some path \<Rightarrow>
               if contains_any path ''?#{}'' \<or> CHR 0x5C \<in> set path
               then Inl ''operation path is unresolved or contains URL delimiters''
               else if dot_segment path then Inl ''operation path escapes application boundary''
               else (case url_parse app of
                       None \<Rightarrow> Inl ''invalid application URL''
                     | Some u \<Rightarrow>
                         if u_host u = '''' \<or> u_user u then Inl ''invalid application URL''
                         else let scheme = to_lower (u_scheme u); host = operation_host (u\<lparr>u_scheme := scheme\<rparr>)
                              in if ae_origin a \<noteq> '''' \<and> foreign_origin (ae_origin a) scheme host
                                 then Inl ''definition origin does not match mapped target''
                                 else in_application app
                                   (operation_url app scheme host (operation_path (ae_source a) (u_path u) path)))))"

section \<open>API operations in the inventory\<close>

definition inventory_base :: "string \<Rightarrow> api_endpoint \<Rightarrow> (string \<times> string \<times> string) option" where
  "inventory_base app a =
     (case url_parse app of
        None \<Rightarrow> None
      | Some u \<Rightarrow>
          if ae_origin a = '''' then Some (u_scheme u, u_host u, u_path u)
          else (case url_parse (ae_origin a) of
                  None \<Rightarrow> None
                | Some v \<Rightarrow> if u_host v = '''' \<or> u_user v \<or> u_raw_query v \<noteq> '''' \<or> u_fragment v \<noteq> '''' then None
                            else Some (u_scheme v, u_host v, u_path v)))"

definition inventory_path_url :: "string \<Rightarrow> api_endpoint \<Rightarrow> string option" where
  "inventory_path_url app a =
     (case url_parse app of
        None \<Rightarrow> None
      | Some u \<Rightarrow>
          if u_host u = '''' \<or> u_user u then None
          else if \<not> has_prefix (ae_path a) ''/'' \<or> contains_any (ae_path a) ''?#'' \<or> CHR 0x5C \<in> set (ae_path a) then None
          else (case path_unescape (ae_path a) of
                  None \<Rightarrow> None
                | Some path \<Rightarrow>
                    if dot_segment path then None
                    else map_option (\<lambda>(scheme, host, base).
                           operation_url app scheme host (operation_path (ae_source a) base path))
                         (inventory_base app a)))"

definition open_api_inventory_url :: "string \<Rightarrow> api_endpoint \<Rightarrow> string option" where
  "open_api_inventory_url app a =
     (if ae_request_url a \<noteq> '''' then Some (ae_request_url a)
      else if ae_resolved a \<and> ae_eligible a then
        (case api_endpoint_url app a of
           Inr u \<Rightarrow> Some u
         | Inl e \<Rightarrow> if ae_origin a = '''' then None else inventory_path_url app a)
      else inventory_path_url app a)"

definition candidate_server :: "app_scope \<Rightarrow> string \<Rightarrow> bool" where
  "candidate_server s raw \<longleftrightarrow>
     (case url_parse raw of
        None \<Rightarrow> False
      | Some u \<Rightarrow> \<not> u_user u \<and> u_raw_query u = '''' \<and> u_fragment u = '''' \<and> u_host u \<noteq> ''''
                  \<and> \<not> contains_any (u_host u) ''{}'' \<and> u_scheme u \<in> set [''http'', ''https''] \<and> \<not> fst (allows s raw))"

text \<open>The index of the definitions keeps the last position of an identifier.\<close>

fun update_first :: "('a \<Rightarrow> bool) \<Rightarrow> ('a \<Rightarrow> 'a) \<Rightarrow> 'a list \<Rightarrow> 'a list" where
  "update_first P f [] = []"
| "update_first P f (x # xs) = (if P x then f x # xs else x # update_first P f xs)"

definition note_definition :: "app_scope option \<Rightarrow> api_endpoint \<Rightarrow> inventory_definition list \<Rightarrow> inventory_definition list" where
  "note_definition scope a ds0 =
     (let ours = (\<lambda>d. id_id d = ae_definition_id a);
          ds = (if list_ex ours ds0 then ds0
                else ds0 @ [\<lparr>id_candidate_origins = [], id_id = ae_definition_id a, id_kind = ae_source a, id_url = [],
                             id_state = ''supplied'', id_evidence = ae_definition_id a, id_reason = []\<rparr>]);
          found = (case scope of None \<Rightarrow> [] | Some s \<Rightarrow> filter (candidate_server s) (ae_spec_servers a));
          add = (\<lambda>cs s. if s \<in> set cs then cs else cs @ [s])
      in if ae_definition_id a = [] then ds0
         else rev (update_first ours (\<lambda>d. d\<lparr>id_candidate_origins := foldl add (id_candidate_origins d) found\<rparr>) (rev ds)))"

definition checked_operation :: "string \<Rightarrow> api_endpoint \<Rightarrow> api_endpoint" where
  "checked_operation app a =
     (if ae_resolved a \<and> ae_eligible a \<and> ae_request_url a = '''' then
        (case api_endpoint_url app a of
           Inl e \<Rightarrow> a\<lparr>ae_resolved := False, ae_eligible := False, ae_reason := e\<rparr> | Inr u \<Rightarrow> a)
      else a)"

definition stamp_operation :: "gateway_env \<Rightarrow> app_scope option \<Rightarrow> api_endpoint \<Rightarrow> surface_endpoint \<Rightarrow> surface_endpoint" where
  "stamp_operation env scope a e =
     (let (allowed, stamped) = (case scope of
            None \<Rightarrow> (True, e)
          | Some s \<Rightarrow> (case allows s (se_url e) of (ok, why) \<Rightarrow> (ok, stamp_endpoint_state env s ok (ge_scope_text env why) e)))
      in if allowed \<and> (scope = None \<or> se_state stamped = EndpointStateInScope) \<and> (\<not> ae_resolved a \<or> \<not> ae_eligible a)
         then stamped\<lparr>se_state := EndpointStateUnmaterialized,
                      se_state_reason := (if ae_reason a \<noteq> '''' then ae_reason a
                        else ''operation requires explicit inputs or approval before dispatch'')\<rparr>
         else stamped)"

definition operation_endpoint ::
  "gateway_env \<Rightarrow> string \<Rightarrow> string \<Rightarrow> app_scope option \<Rightarrow> api_endpoint \<Rightarrow> surface_endpoint option" where
  "operation_endpoint env now app scope a0 =
     (let a = checked_operation app a0
      in case open_api_inventory_url app a of
           None \<Rightarrow> None
         | Some url \<Rightarrow>
             map_option (\<lambda>e. stamp_operation env scope a
                 (e\<lparr>se_observation := ''schema'',
                    se_provenance := [\<lparr>pv_tool = ae_source a, pv_source = ae_source a, pv_artifact = '''',
                                       pv_observed_at = now, pv_authenticated = False\<rparr>]\<rparr>))
               (normalize_surface_endpoint env url (ae_method a) (ae_source a) now 0 ''application/json''
                  (endpoint_parameters url) False False))"

definition merge_open_api_scoped ::
  "gateway_env \<Rightarrow> string \<Rightarrow> string \<Rightarrow> api_endpoint list \<Rightarrow> app_scope option \<Rightarrow> attack_surface \<Rightarrow> attack_surface" where
  "merge_open_api_scoped env now app as scope s =
     s\<lparr>as_definitions := fold (note_definition scope) as (as_definitions s),
       as_endpoints := fold merge_surface_endpoint (List.map_filter (operation_endpoint env now app scope) as) (as_endpoints s)\<rparr>"

section \<open>Archived URLs\<close>

definition historical_endpoint :: "gateway_env \<Rightarrow> string \<Rightarrow> historical_candidate \<Rightarrow> surface_endpoint option" where
  "historical_endpoint env now c =
     (if hc_url c = '''' then None
      else map_option (\<lambda>e. e\<lparr>se_observation := (if hc_status c > 0 then ''observed'' else ''candidate''),
             se_state := hc_state c, se_state_reason := hc_reason c,
             se_provenance := [\<lparr>pv_tool = hc_provider c, pv_source = (if hc_source c = '''' then ''archive'' else hc_source c),
                                pv_artifact = '''', pv_observed_at = now, pv_authenticated = False\<rparr>]\<rparr>)
        (normalize_surface_endpoint env (hc_url c) ''GET'' (hc_provider c) now (hc_status c) ''''
           (map (\<lambda>k. \<lparr>ep_name = k, ep_location = ''query''\<rparr>) (hc_query_keys c)) False False))"

definition merge_candidate :: "gateway_env \<Rightarrow> string \<Rightarrow> historical_candidate \<Rightarrow> surface_endpoint list \<Rightarrow> surface_endpoint list" where
  "merge_candidate env now c es =
     (case historical_endpoint env now c of
        None \<Rightarrow> es
      | Some e \<Rightarrow>
          merge_surface_endpoint
            (case find (\<lambda>x. se_id x = se_id e) es of
               Some x \<Rightarrow> if endpoint_dispatchable (se_state x)
                         then e\<lparr>se_state := se_state x, se_state_reason := se_state_reason x\<rparr> else e
             | None \<Rightarrow> e) es)"

definition merge_historical_candidates ::
  "gateway_env \<Rightarrow> string \<Rightarrow> historical_candidate list \<Rightarrow> attack_surface \<Rightarrow> attack_surface" where
  "merge_historical_candidates env now cs s = s\<lparr>as_endpoints := fold (merge_candidate env now) cs (as_endpoints s)\<rparr>"

section \<open>Hosts and services\<close>

record nmap_port =
  np_protocol :: string
  np_port_id :: string
  np_state :: string
  np_tunnel :: string
  np_name :: string

record nmap_host =
  nh_addresses :: "string list"
  nh_ports :: "nmap_port list"

definition host_id :: "gateway_env \<Rightarrow> string \<Rightarrow> string" where
  "host_id env host = inventory_id env [''host'', to_lower host]"

fun update_host :: "string \<Rightarrow> string \<Rightarrow> string list \<Rightarrow> inventory_host \<Rightarrow> inventory_host list \<Rightarrow> inventory_host list" where
  "update_host i st addresses new [] = [new]"
| "update_host i st addresses new (h # hs) =
     (if ih_id h = i then h\<lparr>ih_addresses := merge_strings (ih_addresses h) addresses,
                             ih_state := (if st \<noteq> ''candidate'' then st else ih_state h)\<rparr> # hs
      else h # update_host i st addresses new hs)"

definition add_host :: "gateway_env \<Rightarrow> job_run \<Rightarrow> string \<Rightarrow> string \<Rightarrow> string list \<Rightarrow> attack_surface \<Rightarrow> attack_surface" where
  "add_host env r host st addresses s =
     s\<lparr>as_hosts := update_host (host_id env host) st addresses
        \<lparr>ih_id = host_id env host, ih_host = host, ih_addresses = addresses, ih_state = st, ih_source = jr_scanner r,
         ih_evidence = jr_artifact r\<rparr> (as_hosts s)\<rparr>"

definition add_service :: "inventory_service \<Rightarrow> attack_surface \<Rightarrow> attack_surface" where
  "add_service v s =
     (if list_ex (\<lambda>w. iv_id w = iv_id v) (as_services s) then s else s\<lparr>as_services := as_services s @ [v]\<rparr>)"

definition add_port :: "gateway_env \<Rightarrow> job_run \<Rightarrow> nmap_port \<Rightarrow> attack_surface \<Rightarrow> attack_surface" where
  "add_port env r p s =
     (let name = host_from_target (jr_target r); tls = (np_tunnel p = ''ssl'' \<or> contains (np_name p) ''https'')
      in case (if np_state p = ''open'' then atoi (np_port_id p) else None) of
           None \<Rightarrow> s
         | Some port \<Rightarrow>
             add_service \<lparr>iv_id = inventory_id env [''service'', host_id env name, np_protocol p, np_port_id p],
               iv_host_id = host_id env name, iv_host = name, iv_port = port, iv_protocol = np_protocol p,
               iv_origin = (if contains (np_name p) ''http''
                 then origin_string \<lparr>ao_target_id = '''', ao_scheme = (if tls then ''https'' else ''http''), ao_host = name,
                                     ao_port = port, ao_path_prefix = ''/''\<rparr> else ''''),
               iv_tls = tls, iv_state = ''open'', iv_evidence = jr_artifact r\<rparr> s)"

definition add_nmap_host :: "gateway_env \<Rightarrow> job_run \<Rightarrow> nmap_host \<Rightarrow> attack_surface \<Rightarrow> attack_surface" where
  "add_nmap_host env r h s =
     fold (add_port env r) (nh_ports h) (add_host env r (host_from_target (jr_target r)) ''observed'' (nh_addresses h) s)"

definition add_http :: "gateway_env \<Rightarrow> job_run \<Rightarrow> string \<Rightarrow> attack_surface \<Rightarrow> attack_surface" where
  "add_http env r raw s =
     (case url_parse raw of
        None \<Rightarrow> s
      | Some u \<Rightarrow>
          if u_host u = '''' then s
          else let s1 = add_host env r (hostname u) ''observed'' [] s
               in (case parse_approved_origin '''' raw of
                     Inl e \<Rightarrow> s1
                   | Inr ori \<Rightarrow>
                       add_service \<lparr>iv_id = inventory_id env [''service'', ao_host ori, origin_string ori],
                         iv_host_id = host_id env (hostname u), iv_host = ao_host ori, iv_port = ao_port ori,
                         iv_protocol = ''tcp'', iv_origin = origin_string ori, iv_tls = (ao_scheme ori = ''https''),
                         iv_state = ''live'', iv_evidence = jr_artifact r\<rparr> s1))"

text \<open>\<open>nmap\<close>: the decoded report of the run's artifact.\<close>

definition merge_run_assets ::
  "gateway_env \<Rightarrow> (job_run \<Rightarrow> nmap_host list option) \<Rightarrow> job_run \<Rightarrow> attack_surface \<Rightarrow> attack_surface" where
  "merge_run_assets env nmap r s =
     (let s1 = fold (\<lambda>h. add_host env r h ''candidate'' []) (jr_candidate_hosts r) s;
          s2 = (case jr_dns r of None \<Rightarrow> s1 | Some (host, ips) \<Rightarrow> add_host env r host ''resolved'' ips s1);
          hosts = (if jr_scanner r = ''nmap'' \<and> jr_status r = ''completed''
                   then (case nmap r of None \<Rightarrow> [] | Some hs \<Rightarrow> hs) else [])
      in fold (add_http env r) (jr_http r) (fold (add_nmap_host env r) hosts s2))"

section \<open>What a scanner is told\<close>

text \<open>\<open>c\<close>: the entry of the scanner; \<open>setEndpointCoverage\<close> keeps one for each.\<close>

definition note_coverage :: "string \<Rightarrow> endpoint_coverage \<Rightarrow> scanner_input \<Rightarrow> scanner_input" where
  "note_coverage scanner c i =
     (if co_scanner c \<noteq> scanner then i
      else i\<lparr>si_reason := co_reason c, si_selected := (si_selected i \<and> co_status c \<noteq> ''skipped'')\<rparr>)"

definition endpoint_input ::
  "gateway_env \<Rightarrow> string \<Rightarrow> (surface_endpoint \<Rightarrow> (string \<times> string) list \<times> string) \<Rightarrow> string list \<Rightarrow> string \<Rightarrow> string
     \<Rightarrow> surface_endpoint \<Rightarrow> scanner_input" where
  "endpoint_input env inventory replay urls context scanner e =
     (let (headers, body) = replay e;
          i0 = \<lparr>si_auth_context_id = se_auth_context e, si_replay_ref = se_replay_ref e, si_read_only = se_read_only e,
                si_headers = headers, si_inventory_scope = inventory, si_endpoint_id = se_id e, si_url = se_url e,
                si_method = se_method e, si_content_type = se_content_type_sent e, si_body_digest = se_body_digest e,
                si_selected = (se_url e \<in> set urls), si_reason = '''', si_body = body\<rparr>;
          i1 = fold (note_coverage scanner) (se_coverage e) i0;
          i2 = (if scanner \<noteq> ''apichecks'' \<and> se_auth_context e \<noteq> ''''
                   \<and> se_auth_context e \<noteq> inventory_id env [inventory, ''target-bound''] \<and> se_auth_context e \<noteq> context
                then i1\<lparr>si_selected := False, si_reason := ''request requires a separate named authentication context''\<rparr>
                else i1)
      in if context \<noteq> '''' \<and> se_auth_context e \<noteq> context
         then i2\<lparr>si_selected := False, si_reason := ''request belongs to a different authentication context''\<rparr> else i2)"

text \<open>\<open>replay\<close>: the headers and the body that the encrypted replay store gave an endpoint.\<close>

definition build_scanner_inputs ::
  "gateway_env \<Rightarrow> (surface_endpoint \<Rightarrow> (string \<times> string) list \<times> string) \<Rightarrow> string list \<Rightarrow> string \<Rightarrow> string
     \<Rightarrow> attack_surface option \<Rightarrow> scanner_input list" where
  "build_scanner_inputs env replay urls context scanner so =
     (case so of None \<Rightarrow> []
      | Some s \<Rightarrow> map (endpoint_input env (as_scope s) replay urls context scanner) (as_endpoints s))"

end
