(* ===== verification/Jobs.thy ===== *)
theory Jobs
  imports Inventory Planner WriteJournal
begin

text \<open>
  The executor of an accepted plan (\<open>RunAssessmentJobs\<close> of \<open>internal/scanner/assessment_jobs.go\<close>). A job passes a
  sequence of gates, each of which answers it with a record of why it did not run or lets it go on with a fuller
  request; a job that passes them all is one attempt of its runner. What the world gives while one job is handled
  (clocks, renewals of a session, the crawl and the other discovery tools, the runner) is a \<open>job_moment\<close>; the settings
  of the executor are an \<open>exec_env\<close>.
\<close>

section \<open>Requests\<close>

record auth_identity =
  ac_id :: string
  ac_target_id :: string
  ac_identity :: string
  ac_role :: string
  ac_primary :: bool
  ac_state :: "evidence_state option"
  ac_renewable :: bool
  ac_headers :: "string list"

text \<open>The fields of \<open>Request\<close> the executor sets; directories, secrets and callbacks appear as whether they are set.\<close>

record job_request =
  qr_target :: string
  qr_target_id :: string
  qr_scope :: string
  qr_workflow :: string
  qr_app_scope :: "app_scope option"
  qr_test_environment :: bool
  qr_wapiti_mode :: string
  qr_journal :: bool
  qr_fixtures :: bool
  qr_post_approval :: "fuzz_approval option"
  qr_writes :: "write_approval list"
  qr_actions :: "nextjs_action_approval list"
  qr_boundaries :: "nextjs_boundary_approval list"
  qr_operations :: "api_endpoint list"
  qr_api_endpoints :: "api_endpoint list"
  qr_auth_contexts :: "auth_identity list"
  qr_expectations :: "authorization_expectation list"
  qr_auth_context :: string
  qr_auth_identity :: string
  qr_auth_role :: string
  qr_target_auth :: string
  qr_auth_kind :: string
  qr_renewable :: bool
  qr_structured :: bool
  qr_inventory :: bool
  qr_artifact :: "string \<times> string"
  qr_cloud :: bool
  qr_ssh_host :: string
  qr_ports :: "int list"
  qr_gvm :: "(string \<times> int) option"
  qr_application_url :: string
  qr_endpoint_targets :: "string list"
  qr_methods :: "(string \<times> string) list"
  qr_inputs :: "scanner_input list"
  qr_attempt :: string
  qr_fingerprint :: string
  qr_gateway :: bool

section \<open>Settings and moments\<close>

record exec_env =
  xv_plan :: assessment_plan
  xv_api_endpoints :: "api_endpoint list" \<comment> \<open>\<open>plan.APIEndpoints\<close>\<close>
  xv_gateway :: gateway_env
  xv_digests :: digests
  xv_expanded :: bool
  xv_max_endpoints :: int
  xv_web_budget :: int
  xv_browser :: bool
  xv_stored_login :: "string \<Rightarrow> bool"
  xv_renewable :: "string \<Rightarrow> bool"
  xv_cloud :: "string \<Rightarrow> bool"
  xv_ssh_alias :: "string \<Rightarrow> string"
  xv_gvm :: "string \<Rightarrow> (string \<times> int) option"
  xv_ssh_requested :: "string \<Rightarrow> bool"
  xv_katana :: bool
  xv_checksum :: "job_run \<Rightarrow> string"
  xv_revision :: string
  xv_nmap :: "job_run \<Rightarrow> nmap_host list option"
  xv_replay :: "surface_endpoint \<Rightarrow> (string \<times> string) list \<times> string"
  xv_existing :: "job_run list"

text \<open>What the preparation of one target meets. \<open>pm_load kept\<close>: the snapshot of the inventory, if it is valid;
  \<open>pm_leftover kept\<close>: the inventory read from the raw output of an earlier crawl; \<open>kept\<close> is whether that output was
  left in place. \<open>pm_crawl\<close>: the run of the crawl with the identifier of its attempt, whether the user stopped it, and
  the inventory it produced.\<close>

record prep_moment =
  pm_now :: string
  pm_verify :: "string list \<Rightarrow> string list option"
  pm_reverify :: "string list \<Rightarrow> string list option"
  pm_load :: "bool \<Rightarrow> attack_surface option"
  pm_leftover :: "bool \<Rightarrow> attack_surface option"
  pm_applicable :: bool
  pm_crawl :: "job_run \<times> bool \<times> attack_surface option"
  pm_redirects :: "attack_surface \<Rightarrow> attack_surface"
  pm_browser :: "job_run \<times> attack_surface option"
  pm_identities :: "attack_surface \<Rightarrow> job_run list \<times> attack_surface"
  pm_discovered :: "attack_surface \<Rightarrow> api_endpoint list"
  pm_schema_seeds :: "attack_surface \<Rightarrow> attack_surface"
  pm_seal :: "attack_surface \<Rightarrow> attack_surface"
  pm_zap :: "attack_surface \<Rightarrow> job_run list \<times> attack_surface"

datatype run_end = RunFinished | StoppedByUser | DeadlineReached

record job_moment =
  jm_now :: string
  jm_clock :: int
  jm_later :: int
  jm_prep :: prep_moment
  jm_verify :: "string list \<Rightarrow> string list option"
  jm_reverify :: "string list \<Rightarrow> string list option"
  jm_log_written :: bool
  jm_checkout :: "string + string"
  jm_is_dir :: bool
  jm_is_file :: bool
  jm_native :: "job_request \<Rightarrow> string + scanner_input list \<times> string list \<times> attack_surface option"
  jm_variants :: "attack_surface \<Rightarrow> attack_surface"
  jm_cancelled :: "string option"
  jm_attempt :: "string + string"
  jm_made_dir :: "string option"
  jm_inputs_saved :: bool
  jm_gateway_made :: bool
  jm_gateway :: gateway
  jm_gateway_closed :: bool
  jm_run :: "job_request \<Rightarrow> job_run"
  jm_end :: run_end
  jm_checkpoint :: "string option"

section \<open>State\<close>

record exec_state =
  ex_surfaces :: "string \<Rightarrow> attack_surface option"
  ex_results :: "job_run list"
  ex_outcomes :: "string \<Rightarrow> job_run option"
  ex_checkpoint_failed :: bool
  ex_auth_verified :: "string \<Rightarrow> bool"
  ex_headers :: "string \<Rightarrow> string list"
  ex_contexts :: "auth_identity list"
  ex_deadlines :: "string \<Rightarrow> int option"
  ex_checkouts :: "string \<Rightarrow> (string + string) option"
  ex_prepared :: "string \<Rightarrow> bool"
  ex_crawls :: "string \<Rightarrow> job_run option"
  ex_apis :: "string \<Rightarrow> api_endpoint list"
  ex_history :: "string \<Rightarrow> historical_candidate list"
  ex_budget :: "budget option"
  ex_attempts :: "(plan_job \<times> job_request) list" \<comment> \<open>the calls of a runner\<close>

abbreviation plan_config :: "exec_env \<Rightarrow> assessment_config" where
  "plan_config env \<equiv> pl_config (xv_plan env)"

definition set_surface :: "string \<Rightarrow> attack_surface option \<Rightarrow> exec_state \<Rightarrow> exec_state" where
  "set_surface tid so st = st\<lparr>ex_surfaces := (ex_surfaces st)(tid := so)\<rparr>"

definition target_of :: "exec_env \<Rightarrow> string \<Rightarrow> target option" where
  "target_of env tid = find (\<lambda>t. tgt_id t = tid) (rev (cfg_targets (plan_config env)))"

definition job_target_kind :: "exec_env \<Rightarrow> string \<Rightarrow> string" where
  "job_target_kind env tid = (case target_of env tid of None \<Rightarrow> '''' | Some t \<Rightarrow> tgt_kind t)"

definition web_kind :: "string \<Rightarrow> bool" where
  "web_kind k \<longleftrightarrow> k \<in> set [KindURL, KindDomain, KindHost]"

text \<open>\<open>appScopes\<close>: the scope of a target with a web kind.\<close>

definition app_scope_of :: "exec_env \<Rightarrow> string \<Rightarrow> app_scope option" where
  "app_scope_of env tid =
     (if list_ex (\<lambda>t. tgt_id t = tid \<and> web_kind (tgt_kind t)) (cfg_targets (plan_config env))
      then Some (app_scope_for_target (plan_config env) tid) else None)"

definition http_target :: "string \<Rightarrow> bool" where
  "http_target raw \<longleftrightarrow>
     (case url_parse raw of None \<Rightarrow> False | Some u \<Rightarrow> u_scheme u \<in> set [''http'', ''https''] \<and> u_host u \<noteq> '''')"

definition job_scope :: "plan_job \<Rightarrow> string" where
  "job_scope j = (if http_target (pj_target j) then ''app:'' else ''host:'') @ pj_target_id j"

definition target_scope :: "target \<Rightarrow> string" where
  "target_scope t = (if tgt_kind t = KindURL then ''app:'' else ''host:'') @ tgt_id t"

definition job_types :: "plan_job \<Rightarrow> string list" where
  "job_types j = (if pj_types j \<noteq> [] then pj_types j else if pj_type j \<noteq> '''' then [pj_type j] else [])"

definition run_key :: "string \<Rightarrow> string \<Rightarrow> string \<Rightarrow> string \<Rightarrow> string \<times> string \<times> string \<times> string" where
  "run_key scope scanner variant fingerprint =
     (scope, scanner, (if variant = '''' then ''legacy'' else variant), fingerprint)"

text \<open>\<open>completed\<close>: the last terminal run of an earlier execution under the key of the job.\<close>

definition completed_run :: "exec_env \<Rightarrow> plan_job \<Rightarrow> job_run option" where
  "completed_run env j =
     find (\<lambda>r. run_terminal r
             \<and> run_key (jr_scope r) (jr_scanner r) (jr_variant r) (jr_fingerprint r)
               = run_key (job_scope j) (pj_scanner j) (pj_variant j) (pl_fingerprint (xv_plan env)))
       (rev (xv_existing env))"

section \<open>Answers\<close>

definition base_run :: "exec_env \<Rightarrow> job_moment \<Rightarrow> plan_job \<Rightarrow> job_request \<Rightarrow> string \<Rightarrow> string \<Rightarrow> job_run" where
  "base_run env m j q st why = empty_run\<lparr>jr_scanner := pj_scanner j, jr_variant := pj_variant j, jr_types := job_types j,
     jr_fingerprint := pl_fingerprint (xv_plan env), jr_scope := qr_scope q, jr_target := qr_target q, jr_status := st,
     jr_reason := why, jr_started := jm_now m, jr_finished := jm_now m\<rparr>"

definition planned_job_not_run :: "exec_env \<Rightarrow> job_moment \<Rightarrow> plan_job \<Rightarrow> job_request \<Rightarrow> string \<Rightarrow> job_run" where
  "planned_job_not_run env m j q why =
     (let r = base_run env m j q ''skipped'' why
      in if pj_scanner j = ''zap'' \<and> contains why ''auth'' \<and> jm_log_written m
         then finalize_run (xv_checksum env) (xv_revision env) (jm_now m) r else r)"

definition failed_planned_job :: "exec_env \<Rightarrow> job_moment \<Rightarrow> plan_job \<Rightarrow> job_request \<Rightarrow> string \<Rightarrow> job_run" where
  "failed_planned_job env m j q why = base_run env m j q ''failed'' why"

definition empty_surface :: "plan_job \<Rightarrow> attack_surface" where
  "empty_surface j = \<lparr>as_workflow = '''', as_hosts = [], as_services = [], as_definitions = [], as_gaps = [],
     as_classifier = AttackSurfaceClassifierVersion, as_scope = ''app:'' @ pj_target_id j, as_target = pj_target j,
     as_generated_at = '''', as_raw_count = 0, as_checksum = '''', as_endpoints = []\<rparr>"

definition recorded_run :: "exec_env \<Rightarrow> plan_job \<Rightarrow> job_run \<Rightarrow> job_run" where
  "recorded_run env j r0 =
     (let r = r0\<lparr>jr_stage := pj_stage j, jr_auth_context := pj_ctx_id j, jr_auth_identity := pj_ctx_identity j,
                 jr_auth_role := pj_ctx_role j, jr_workflow := cfg_workflow_version (plan_config env)\<rparr>
      in if xv_expanded env \<and> jr_status r \<notin> set [''skipped'', ''not_applicable''] \<and> jr_gap r \<noteq> GapToolUnavailable
         then r\<lparr>jr_limitations := with_direct_egress (jr_limitations r) (pj_scanner j)\<rparr> else r)"

definition recorded_surface :: "exec_env \<Rightarrow> plan_job \<Rightarrow> job_run \<Rightarrow> exec_state \<Rightarrow> attack_surface option" where
  "recorded_surface env j r st =
     (let so = (if ex_surfaces st (pj_target_id j) = None \<and> xv_expanded env then Some (empty_surface j)
                else ex_surfaces st (pj_target_id j))
      in map_option (\<lambda>s. merge_run_assets (xv_gateway env) (xv_nmap env) r
                           (s\<lparr>as_workflow := cfg_workflow_version (plan_config env)\<rparr>)) so)"

text \<open>\<open>jm_checkpoint\<close>: the error of the checkpoint after this outcome.\<close>

definition append_outcome :: "exec_env \<Rightarrow> job_moment \<Rightarrow> plan_job \<Rightarrow> job_run \<Rightarrow> exec_state \<Rightarrow> exec_state" where
  "append_outcome env m j r0 st =
     (let r = recorded_run env j r0;
          stored = (case jm_checkpoint m of
              None \<Rightarrow> r
            | Some e \<Rightarrow> r\<lparr>jr_status := ''failed'', jr_gap := GapInterruptedWrite,
                          jr_reason := ''workflow checkpoint could not be stored: '' @ e\<rparr>);
          st1 = set_surface (pj_target_id j) (recorded_surface env j r st) st
      in st1\<lparr>ex_results := ex_results st @ [stored], ex_outcomes := (ex_outcomes st)(pj_id j := Some stored),
             ex_checkpoint_failed := (ex_checkpoint_failed st \<or> jm_checkpoint m \<noteq> None)\<rparr>)"

section \<open>Sessions\<close>

definition refresh_web_auth ::
  "exec_env \<Rightarrow> (string list \<Rightarrow> string list option) \<Rightarrow> string \<Rightarrow> exec_state \<Rightarrow> exec_state \<times> bool" where
  "refresh_web_auth env verify tid st =
     (if ex_headers st tid = [] \<or> \<not> xv_renewable env tid then (st, False)
      else case verify (ex_headers st tid) of
             None \<Rightarrow> (st, False)
           | Some hs \<Rightarrow> if hs = [] then (st, False) else (st\<lparr>ex_headers := (ex_headers st)(tid := hs)\<rparr>, True))"

text \<open>The named identity of a job, the identities afterwards, and whether it was verified.\<close>

fun refresh_identity ::
  "(string list \<Rightarrow> string list option) \<Rightarrow> string \<Rightarrow> string \<Rightarrow> auth_identity list
     \<Rightarrow> auth_identity list \<times> auth_identity option \<times> bool" where
  "refresh_identity verify tid cid [] = ([], None, False)"
| "refresh_identity verify tid cid (a # as) =
     (if ac_target_id a \<noteq> tid \<or> ac_id a \<noteq> cid then
        (case refresh_identity verify tid cid as of (bs, found, ok) \<Rightarrow> (a # bs, found, ok))
      else if ac_state a \<noteq> Some StateVerified \<or> \<not> ac_renewable a \<or> ac_headers a = [] then (a # as, Some a, False)
      else case verify (ac_headers a) of
             None \<Rightarrow> (let b = a\<lparr>ac_state := Some StateExpired\<rparr> in (b # as, Some b, False))
           | Some hs \<Rightarrow>
               if hs = [] then (let b = a\<lparr>ac_state := Some StateExpired\<rparr> in (b # as, Some b, False))
               else (let b = a\<lparr>ac_headers := hs\<rparr> in (b # as, Some b, True)))"

definition apply_identity :: "auth_identity \<Rightarrow> job_request \<Rightarrow> job_request" where
  "apply_identity a q = q\<lparr>qr_auth_context := ac_id a, qr_auth_identity := ac_identity a, qr_auth_role := ac_role a,
     qr_target_auth := join_on [CHR 0x0A] (ac_headers a), qr_renewable := ac_renewable a, qr_auth_kind := ''HTTP headers''\<rparr>"

end
