(* ===== verification/JobGates.thy ===== *)
theory JobGates
  imports Jobs
begin

text \<open>
  The gates of the executor, in the order of the code, and the preparation of a target's inventory. A gate reads the
  moment, the job, the state and the request so far; \<open>Answer\<close> is an early exit of the loop's body with the run that is
  recorded for the job, \<open>Proceed\<close> goes on.
\<close>

section \<open>The first crawl of a target\<close>

definition manual_seed_owner :: "exec_env \<Rightarrow> string \<Rightarrow> string" where
  "manual_seed_owner env seed =
     (case find (\<lambda>t. case app_scope_of env (tgt_id t) of
                       None \<Rightarrow> False
                     | Some s \<Rightarrow> fst (allows s seed) \<and> excluded s ''GET'' seed = None) (cfg_targets (plan_config env)) of
        None \<Rightarrow> '''' | Some t \<Rightarrow> tgt_id t)"

definition crawl_scope :: "string \<Rightarrow> string" where
  "crawl_scope tid = ''discovery:'' @ tid"

definition crawl_evidence_reusable :: "exec_env \<Rightarrow> string \<Rightarrow> bool" where
  "crawl_evidence_reusable env scope \<longleftrightarrow>
     list_all (\<lambda>r. jr_scanner r = ''katana'' \<and> jr_scope r = scope \<longrightarrow>
                   jr_status r = ''completed'' \<and> checksum_verified (xv_checksum env) r) (xv_existing env)"

definition observed_with_auth :: "attack_surface \<Rightarrow> bool" where
  "observed_with_auth s \<longleftrightarrow> as_checksum s \<noteq> '''' \<and> list_ex se_with_auth (as_endpoints s)"

definition inventory_target :: "target \<Rightarrow> string" where
  "inventory_target t =
     (let v = to_lower (tgt_value t)
      in if has_prefix v ''http://'' \<or> has_prefix v ''https://'' then tgt_value t else ''http://'' @ tgt_value t)"

definition explicit_crawl :: "exec_env \<Rightarrow> string \<Rightarrow> bool" where
  "explicit_crawl env tid \<longleftrightarrow>
     list_ex (\<lambda>j. pj_scanner j = ''katana'' \<and> pj_target_id j = tid) (pl_jobs (xv_plan env))"

text \<open>A crawl the plan names is kept for its job; any other goes straight to the results.\<close>

definition keep_crawl :: "exec_env \<Rightarrow> string \<Rightarrow> job_run \<Rightarrow> exec_state \<Rightarrow> exec_state" where
  "keep_crawl env tid r st =
     (if explicit_crawl env tid then st\<lparr>ex_crawls := (ex_crawls st)(tid := Some r)\<rparr>
      else st\<lparr>ex_results := ex_results st @ [r]\<rparr>)"

definition stopped_run :: "string \<Rightarrow> job_run \<Rightarrow> job_run" where
  "stopped_run now r = r\<lparr>jr_status := ''cancelled'', jr_execution := ''CANCELLED'', jr_outcome := ''PARTIAL'',
     jr_completeness := ''partial'',
     jr_reason := ''scanner stopped by user; partial output and artifacts were retained'', jr_finished := now\<rparr>"

definition finish_crawl ::
  "exec_env \<Rightarrow> prep_moment \<Rightarrow> string \<Rightarrow> bool \<Rightarrow> exec_state \<Rightarrow> exec_state \<times> job_run" where
  "finish_crawl env p tid bound st =
     (let (r0, stopped, parsed) = pm_crawl p;
          r1 = (if stopped then stopped_run (pm_now p) r0 else r0);
          authenticated = (bound \<and> join_on [CHR 0x0A] (ex_headers st tid) \<noteq> '''' \<and> jr_status r1 = ''completed'');
          r2 = r1\<lparr>jr_scope := crawl_scope tid, jr_authenticated := authenticated, jr_stage := StageCrawl\<rparr>
      in if \<not> authenticated then (st, r2)
         else let (st1, ok) = refresh_web_auth env (pm_reverify p) tid st;
                  r3 = r2\<lparr>jr_auth_state := Some StateVerified, jr_auth_checked := pm_now p\<rparr>
              in if ok then (st1, r3)
                 else (st1\<lparr>ex_auth_verified := (ex_auth_verified st1)(tid := False)\<rparr>,
                       r3\<lparr>jr_status := ''failed'', jr_authenticated := False, jr_auth_state := Some StateExpired,
                          jr_gap := GapAuthExpired,
                          jr_reason := ''authenticated crawl session expired before completion''\<rparr>))"

definition crawl_target_surface ::
  "exec_env \<Rightarrow> prep_moment \<Rightarrow> string \<Rightarrow> bool \<Rightarrow> exec_state \<Rightarrow> exec_state \<times> attack_surface option" where
  "crawl_target_surface env p tid bound st =
     (let kept = crawl_evidence_reusable env (crawl_scope tid);
          loaded = (case pm_load p kept of None \<Rightarrow> None | Some s \<Rightarrow> if bound \<and> \<not> observed_with_auth s then None else Some s);
          found = (if loaded = None \<and> \<not> bound then pm_leftover p kept else loaded)
      in if found = None \<and> xv_katana env \<and> pm_applicable p \<and> (\<not> bound \<or> ex_auth_verified st tid) then
           (let (st1, r) = finish_crawl env p tid bound st
            in (keep_crawl env tid r st1, if jr_status r = ''completed'' then snd (snd (pm_crawl p)) else None))
         else case found of
                None \<Rightarrow> (st, None)
              | Some s \<Rightarrow>
                  ((case find (\<lambda>r. jr_scanner r = ''katana'' \<and> jr_scope r = crawl_scope tid \<and> run_terminal r) (xv_existing env) of
                      None \<Rightarrow> st | Some r \<Rightarrow> keep_crawl env tid r st), Some s))"

section \<open>Other discovery\<close>

definition merge_browser :: "job_run \<Rightarrow> attack_surface option \<Rightarrow> attack_surface \<Rightarrow> attack_surface" where
  "merge_browser r parsed s =
     (let prov = \<lparr>pv_tool = ''browser'', pv_source = '''', pv_artifact = jr_artifact r, pv_observed_at = '''',
                  pv_authenticated = jr_authenticated r\<rparr>;
          s1 = (case parsed of
              None \<Rightarrow> s\<lparr>as_gaps := as_gaps s @ [''browser discovery produced no usable inventory'']\<rparr>
            | Some b \<Rightarrow> s\<lparr>as_endpoints := fold merge_surface_endpoint
                              (map (\<lambda>e. e\<lparr>se_provenance := se_provenance e @ [prov]\<rparr>) (as_endpoints b)) (as_endpoints s),
                          as_raw_count := as_raw_count s + as_raw_count b\<rparr>)
      in if jr_completeness r = ''partial'' \<or> jr_status r \<noteq> ''completed''
         then s1\<lparr>as_gaps := as_gaps s1 @ [jr_reason r]\<rparr> else s1)"

definition with_surface ::
  "(attack_surface \<Rightarrow> job_run list \<times> attack_surface) \<Rightarrow> exec_state \<times> attack_surface \<Rightarrow> exec_state \<times> attack_surface" where
  "with_surface f x =
     (case x of (st, s) \<Rightarrow> (case f s of (rs, s') \<Rightarrow> (st\<lparr>ex_results := ex_results st @ rs\<rparr>, s')))"

definition run_browser :: "prep_moment \<Rightarrow> attack_surface \<Rightarrow> job_run list \<times> attack_surface" where
  "run_browser p s = (let (r0, parsed) = pm_browser p; r = r0\<lparr>jr_stage := StageCrawl\<rparr> in ([r], merge_browser r parsed s))"

definition zap_planned :: "exec_env \<Rightarrow> string \<Rightarrow> bool" where
  "zap_planned env tid \<longleftrightarrow>
     list_ex (\<lambda>j. pj_target_id j = tid \<and> pj_scanner j = ''zap'' \<and> pj_state j = PlanSelected) (pl_jobs (xv_plan env))"

definition plan_operations :: "exec_env \<Rightarrow> string \<Rightarrow> api_endpoint list" where
  "plan_operations env tid = filter (\<lambda>a. ae_target_id a = tid) (xv_api_endpoints env)"

definition seed_inventory :: "exec_env \<Rightarrow> prep_moment \<Rightarrow> target \<Rightarrow> attack_surface \<Rightarrow> attack_surface" where
  "seed_inventory env p t s0 =
     (let ge = xv_gateway env;
          s1 = ensure_seed_endpoint ge (inventory_target t) (s0\<lparr>as_workflow := cfg_workflow_version (plan_config env)\<rparr>);
          s2 = fold (ensure_seed_endpoint ge)
                 (filter (\<lambda>seed. manual_seed_owner env seed = tgt_id t) (cfg_manual_seeds (plan_config env))) s1
      in merge_open_api_scoped ge (pm_now p) (inventory_target t) (plan_operations env (tgt_id t))
           (app_scope_of env (tgt_id t)) s2)"

definition discover_apis ::
  "exec_env \<Rightarrow> prep_moment \<Rightarrow> target \<Rightarrow> exec_state \<times> attack_surface \<Rightarrow> exec_state \<times> attack_surface" where
  "discover_apis env p t x =
     (case x of (st, s) \<Rightarrow>
        (let found = map (\<lambda>a. a\<lparr>ae_target_id := tgt_id t\<rparr>) (pm_discovered p s)
         in (st\<lparr>ex_apis := (ex_apis st)(tgt_id t := found)\<rparr>,
             merge_open_api_scoped (xv_gateway env) (pm_now p) (inventory_target t) found
               (app_scope_of env (tgt_id t)) s)))"

definition settle_inventory :: "exec_env \<Rightarrow> prep_moment \<Rightarrow> target \<Rightarrow> exec_state \<Rightarrow> attack_surface \<Rightarrow> attack_surface" where
  "settle_inventory env p t st s0 =
     (let s1 = merge_historical_candidates (xv_gateway env) (pm_now p) (ex_history st (tgt_id t)) s0;
          s2 = fold (merge_run_assets (xv_gateway env) (xv_nmap env))
                 (filter (\<lambda>r. jr_scope r = target_scope t \<or> jr_target r = tgt_value t) (ex_results st)) s1
      in if xv_expanded env then pm_seal p s2 else s2)"

text \<open>The stages after the crawl; \<open>tools\<close> is whether the target may be contacted further: without a session that was
  verified, a target with a bound login is left alone.\<close>

definition do_when :: "bool \<Rightarrow> ('a \<Rightarrow> 'a) \<Rightarrow> 'a \<Rightarrow> 'a" where
  "do_when c f x = (if c then f x else x)"

definition on_surface :: "(attack_surface \<Rightarrow> attack_surface) \<Rightarrow> exec_state \<times> attack_surface \<Rightarrow> exec_state \<times> attack_surface" where
  "on_surface f x = (fst x, f (snd x))"

definition discovery_stages ::
  "exec_env \<Rightarrow> prep_moment \<Rightarrow> target \<Rightarrow> bool \<Rightarrow> bool \<Rightarrow> (exec_state \<times> attack_surface \<Rightarrow> exec_state \<times> attack_surface) list" where
  "discovery_stages env p t bound tools =
     [do_when (tools \<and> (xv_browser env \<or> bound \<or> xv_stored_login env (tgt_id t))) (with_surface (run_browser p)),
      (\<lambda>x. do_when (xv_expanded env \<and> ex_contexts (fst x) \<noteq> []) (with_surface (pm_identities p)) x),
      on_surface (seed_inventory env p t),
      do_when tools (discover_apis env p t),
      do_when (xv_expanded env) (on_surface (pm_schema_seeds p)),
      do_when (tools \<and> zap_planned env (tgt_id t)) (\<lambda>x. with_surface (pm_zap p) (on_surface (pm_seal p) x))]"

definition verify_target :: "exec_env \<Rightarrow> prep_moment \<Rightarrow> string \<Rightarrow> bool \<Rightarrow> exec_state \<Rightarrow> exec_state" where
  "verify_target env p tid bound st =
     (if bound then (let (st1, ok) = refresh_web_auth env (pm_verify p) tid st
                     in st1\<lparr>ex_auth_verified := (ex_auth_verified st1)(tid := ok)\<rparr>) else st)"

definition prepare_surface :: "exec_env \<Rightarrow> prep_moment \<Rightarrow> target \<Rightarrow> exec_state \<Rightarrow> exec_state" where
  "prepare_surface env p t st0 =
     (let tid = tgt_id t; st1 = st0\<lparr>ex_prepared := (ex_prepared st0)(tid := True)\<rparr>;
          bound = web_auth_bound (cfg_access (plan_config env)) tid
      in if \<not> web_kind (tgt_kind t) then st1
         else
           let (st3, found) = crawl_target_surface env p tid bound (verify_target env p tid bound st1);
               s3 = pm_redirects p (case found of Some s \<Rightarrow> s
                      | None \<Rightarrow> new_seed_surface (xv_gateway env) (pm_now p) (target_scope t) (inventory_target t));
               tools = (xv_expanded env \<and> (\<not> bound \<or> ex_auth_verified st3 tid));
               x = fold (\<lambda>f. f) (discovery_stages env p t bound tools) (st3, s3)
           in set_surface tid (Some (settle_inventory env p t (fst x) (snd x))) (fst x))"

end
