(* ===== verification/Executor.thy ===== *)
theory Executor
  imports JobGates PlanBuild
begin

text \<open>
  The body of the executor's loop as a list of gates, the attempt of a job that passed them, the loop, and the
  refusals in front of it (\<open>RunAssessmentJobs\<close> of \<open>internal/scanner/assessment_jobs.go\<close>). A gate that does not apply
  to a job lets it pass unchanged.
\<close>

section \<open>Gates\<close>

datatype gate_answer = Answer exec_state job_run | Proceed exec_state job_request

type_synonym gate = "job_moment \<Rightarrow> plan_job \<Rightarrow> exec_state \<Rightarrow> job_request \<Rightarrow> gate_answer"

fun run_gates :: "gate list \<Rightarrow> gate" where
  "run_gates [] m j st q = Proceed st q"
| "run_gates (g # gs) m j st q =
     (case g m j st q of Answer st' r \<Rightarrow> Answer st' r | Proceed st' q' \<Rightarrow> run_gates gs m j st' q')"

abbreviation web_bound :: "exec_env \<Rightarrow> plan_job \<Rightarrow> bool" where
  "web_bound env j \<equiv> web_auth_bound (cfg_access (plan_config env)) (pj_target_id j)"

text \<open>The request a job starts with: what the accepted configuration grants its target.\<close>

definition first_request :: "exec_env \<Rightarrow> plan_job \<Rightarrow> job_request" where
  "first_request env j =
     (let cfg = plan_config env; tid = pj_target_id j; native = pj_scanner j \<in> set [''nextjs-boundaries'', ''nextjs-actions''];
          fuzz = (pj_fuzz_id j \<noteq> ''''); writes = (pj_scanner j = ''apiwrites'')
      in \<lparr>qr_target = pj_target j, qr_target_id = tid, qr_scope = job_scope j, qr_workflow = cfg_workflow_version cfg,
          qr_app_scope = app_scope_of env tid, qr_test_environment = cfg_test_environment cfg,
          qr_wapiti_mode = cfg_wapiti_mode cfg, qr_journal = (fuzz \<or> native \<or> (writes \<and> xv_expanded env)),
          qr_fixtures = (fuzz \<or> native \<or> writes),
          qr_post_approval = (if fuzz then find (\<lambda>f. wa_target_id (fz_write f) = tid
              \<and> fuzz_approval_id (xv_digests env) f = pj_fuzz_id j) (rev (cfg_fuzz_approvals cfg)) else None),
          qr_writes = (if writes then filter (\<lambda>w. wa_target_id w = tid) (cfg_write_approvals cfg) else []),
          qr_actions = (if pj_scanner j = ''nextjs-actions''
                        then filter (\<lambda>a. na_target_id a = tid) (cfg_nextjs_action_approvals cfg) else []),
          qr_boundaries = (if pj_scanner j = ''nextjs-boundaries''
                           then filter (\<lambda>b. nb_target_id b = tid) (cfg_nextjs_boundary_approvals cfg) else []),
          qr_operations = (if fuzz then plan_operations env tid else []) @ (if writes then plan_operations env tid else []),
          qr_api_endpoints = [], qr_auth_contexts = [], qr_expectations = [], qr_auth_context = '''',
          qr_auth_identity = '''', qr_auth_role = '''', qr_target_auth = '''', qr_auth_kind = '''', qr_renewable = False,
          qr_structured = False, qr_inventory = False, qr_artifact = ('''', ''''), qr_cloud = False, qr_ssh_host = '''',
          qr_ports = [], qr_gvm = None, qr_application_url = '''', qr_endpoint_targets = [], qr_methods = [],
          qr_inputs = [], qr_attempt = '''', qr_fingerprint = '''', qr_gateway = False\<rparr>)"

definition gate_checkpoint :: "exec_env \<Rightarrow> gate" where
  "gate_checkpoint env m j st q =
     (if ex_checkpoint_failed st
      then Answer st ((planned_job_not_run env m j q ''workflow checkpoint failed; dependent execution was refused'')
             \<lparr>jr_gap := GapInterruptedWrite\<rparr>)
      else Proceed st (if pj_scanner j \<in> set [''nextjs-boundaries'', ''nextjs-actions'']
                       then q\<lparr>qr_auth_contexts := filter (\<lambda>a. ac_target_id a = pj_target_id j) (ex_contexts st)\<rparr> else q))"

definition failed_dependency :: "exec_state \<Rightarrow> plan_job \<Rightarrow> string option" where
  "failed_dependency st j =
     find (\<lambda>d. case ex_outcomes st d of None \<Rightarrow> True | Some r \<Rightarrow> jr_status r \<noteq> ''completed'') (pj_deps j)"

definition gate_dependencies :: "exec_env \<Rightarrow> gate" where
  "gate_dependencies env m j st q =
     (case failed_dependency st j of
        Some d \<Rightarrow> Answer st ((planned_job_not_run env m j q (''prerequisite job '' @ d @ '' did not complete''))
                    \<lparr>jr_gap := GapPrerequisiteFailed, jr_stage := pj_stage j\<rparr>)
      | None \<Rightarrow> Proceed st q)"

definition verified_login :: "exec_env \<Rightarrow> job_moment \<Rightarrow> plan_job \<Rightarrow> job_request \<Rightarrow> job_run" where
  "verified_login env m j q = empty_run\<lparr>jr_scanner := ''auth'', jr_target := pj_target j, jr_scope := qr_scope q,
     jr_variant := pj_variant j, jr_fingerprint := pl_fingerprint (xv_plan env), jr_status := ''completed'',
     jr_started := jm_now m, jr_finished := jm_now m, jr_auth_state := Some StateVerified, jr_auth_checked := jm_now m\<rparr>"

definition gate_identity :: "exec_env \<Rightarrow> gate" where
  "gate_identity env m j st q =
     (if pj_ctx_id j = '''' then Proceed st q
      else case refresh_identity (jm_verify m) (pj_target_id j) (pj_ctx_id j) (ex_contexts st) of
             (contexts, found, ok) \<Rightarrow>
               (let st1 = st\<lparr>ex_contexts := contexts\<rparr>
                in case (found, ok) of
                     (Some a, True) \<Rightarrow>
                       if pj_scanner j = ''auth''
                       then Answer st1 (finalize_run (xv_checksum env) (xv_revision env) (jm_now m) (verified_login env m j q))
                       else Proceed st1 (apply_identity a q)
                   | _ \<Rightarrow> Answer st1 ((planned_job_not_run env m j q
                             ''named identity authentication failed; credentials were not substituted'')
                             \<lparr>jr_auth_state := (case found of None \<Rightarrow> Some StateFailed
                                | Some a \<Rightarrow> if ac_state a = None then Some StateFailed else ac_state a),
                              jr_gap := GapAuthFailed\<rparr>)))"

definition gate_login :: "exec_env \<Rightarrow> gate" where
  "gate_login env m j st q =
     (if pj_scanner j \<noteq> ''auth'' then Proceed st q
      else let (st1, ok) = refresh_web_auth env (jm_verify m) (pj_target_id j) st;
               st2 = (if ok then st1\<lparr>ex_auth_verified := (ex_auth_verified st1)(pj_target_id j := True)\<rparr> else st1);
               r = verified_login env m j q
           in Answer st2 (if ex_auth_verified st2 (pj_target_id j) then r
                else r\<lparr>jr_status := ''failed'', jr_reason := ''target-bound authentication could not be verified'',
                       jr_auth_state := Some StateFailed, jr_gap := GapAuthFailed\<rparr>))"

definition gate_crawl :: "exec_env \<Rightarrow> gate" where
  "gate_crawl env m j st q =
     (if pj_scanner j \<noteq> ''katana'' then Proceed st q
      else if pj_state j \<noteq> PlanSelected
      then Answer st ((planned_job_not_run env m j q ''Katana is unavailable in the accepted plan'')\<lparr>jr_gap := GapToolUnavailable\<rparr>)
      else let st1 = (case target_of env (pj_target_id j) of None \<Rightarrow> st | Some t \<Rightarrow> prepare_surface env (jm_prep m) t st);
               missing = (planned_job_not_run env m j q ''Katana did not produce crawl evidence'')\<lparr>jr_gap := GapEmptyInput\<rparr>;
               r = (case ex_crawls st1 (pj_target_id j) of Some r \<Rightarrow> r
                    | None \<Rightarrow> if xv_katana env then missing
                              else missing\<lparr>jr_reason := ''Katana binary is unavailable'', jr_gap := GapToolUnavailable\<rparr>)
           in Answer st1 (r\<lparr>jr_scanner := pj_scanner j, jr_target := pj_target j, jr_scope := qr_scope q,
                            jr_fingerprint := pl_fingerprint (xv_plan env), jr_variant := pj_variant j\<rparr>))"

text \<open>\<open>pj_reason\<close>: the reason the planner gave a job that is not selected; \<open>jm_now\<close> stamps the record.\<close>

definition gate_selected :: "exec_env \<Rightarrow> (plan_job \<Rightarrow> string) \<Rightarrow> gate" where
  "gate_selected env pj_reason m j st q =
     (if pj_state j \<in> {PlanSelected, PlanConditional} then Proceed st q
      else Answer st (planned_job_not_run env m j q
             (if pj_reason j = '''' then ''job is not selected by the accepted plan'' else pj_reason j)))"

definition gate_session :: "exec_env \<Rightarrow> gate" where
  "gate_session env m j st q =
     (if pj_ctx_id j \<noteq> '''' \<or> \<not> web_bound env j \<or> \<not> scanner_uses_web_auth (pj_scanner j) then Proceed st q
      else case refresh_web_auth env (jm_verify m) (pj_target_id j) st of
             (st1, True) \<Rightarrow> Proceed (st1\<lparr>ex_auth_verified := (ex_auth_verified st1)(pj_target_id j := True)\<rparr>) q
           | (st1, False) \<Rightarrow>
               (let before = ex_auth_verified st (pj_target_id j)
                in Answer st1 ((planned_job_not_run env m j q ''authenticated scan skipped: session verification failed'')
                     \<lparr>jr_auth_state := Some (if before then StateExpired else StateFailed),
                      jr_gap := (if before then GapAuthExpired else GapAuthFailed), jr_stage := pj_stage j\<rparr>)))"

definition gate_inventory :: "exec_env \<Rightarrow> gate" where
  "gate_inventory env m j st q =
     (let tid = pj_target_id j;
          st1 = (if pj_ctx_id j \<noteq> '''' \<and> \<not> ex_prepared st tid
                 then (case target_of env tid of None \<Rightarrow> st | Some t \<Rightarrow> prepare_surface env (jm_prep m) t st) else st);
          q1 = q\<lparr>qr_structured := (ex_surfaces st1 tid \<noteq> None),
                 qr_api_endpoints := ex_apis st1 tid @ plan_operations env tid\<rparr>
      in if xv_expanded env \<and> pj_scanner j = ''apichecks''
         then Proceed (set_surface tid (map_option (jm_variants m) (ex_surfaces st1 tid)) st1)
                (q1\<lparr>qr_fixtures := True, qr_expectations := cfg_authorization_expectations (plan_config env),
                    qr_auth_contexts := filter (\<lambda>a. ac_target_id a = tid) (ex_contexts st1), qr_inventory := True\<rparr>)
         else Proceed st1 (if pj_scanner j = ''nextjs-assets'' then q1\<lparr>qr_inventory := True\<rparr> else q1))"

section \<open>Dispatch of the inventory\<close>

definition run_coverage :: "job_run \<Rightarrow> endpoint_run" where
  "run_coverage r = \<lparr>er_status = jr_status r, er_reason = jr_reason r, er_completeness = jr_completeness r,
     er_attempt_id = jr_attempt_id r, er_fingerprint = jr_fingerprint r, er_artifact_path = jr_artifact r,
     er_finished_at = jr_finished r\<rparr>"

definition dispatch_job :: "exec_env \<Rightarrow> job_moment \<Rightarrow> plan_job \<Rightarrow> job_request \<Rightarrow> exec_state \<Rightarrow> string list \<times> exec_state" where
  "dispatch_job env m j q st =
     (case ex_surfaces st (pj_target_id j) of
        None \<Rightarrow> ([], st)
      | Some s \<Rightarrow>
          (case dispatch_targets (xv_gateway env) (jm_now m) (pj_scanner j)
                  (endpoint_dispatch_limit (pj_scanner j) (xv_max_endpoints env) (xv_expanded env)) (qr_app_scope q)
                  (xv_expanded env) (qr_auth_context q) (ex_budget st) s of
             (urls, b, s') \<Rightarrow> (urls, (set_surface (pj_target_id j) (Some s') st)\<lparr>ex_budget := b\<rparr>)))"

definition complete_coverage :: "plan_job \<Rightarrow> job_run \<Rightarrow> exec_state \<Rightarrow> exec_state" where
  "complete_coverage j r st =
     set_surface (pj_target_id j)
       (map_option (complete_endpoint_coverage (pj_scanner j) (run_coverage r)) (ex_surfaces st (pj_target_id j))) st"

definition reusable_run :: "exec_env \<Rightarrow> plan_job \<Rightarrow> job_run option" where
  "reusable_run env j =
     (case completed_run env j of
        None \<Rightarrow> None
      | Some r \<Rightarrow>
          if jr_status r = ''completed''
             \<and> (\<not> web_bound env j \<or> jr_authenticated r \<or> \<not> scanner_uses_web_auth (pj_scanner j))
             \<and> checksum_verified (xv_checksum env) r
          then Some r else None)"

definition gate_reuse :: "exec_env \<Rightarrow> gate" where
  "gate_reuse env m j st q =
     (case reusable_run env j of
        None \<Rightarrow> Proceed st q
      | Some r \<Rightarrow> Answer (complete_coverage j r (snd (dispatch_job env m j q st))) r)"

definition gate_credentials :: "exec_env \<Rightarrow> gate" where
  "gate_credentials env m j st q =
     (let tid = pj_target_id j; hs = ex_headers st tid
      in Proceed st (if pj_ctx_id j = '''' \<and> hs \<noteq> [] \<and> scanner_uses_web_auth (pj_scanner j)
           then q\<lparr>qr_target_auth := join_on [CHR 0x0A] hs, qr_renewable := xv_renewable env tid,
                  qr_auth_kind := (if list_ex (\<lambda>b. ab_kind b = AccessFormLogin \<and> tid \<in> set (ab_target_ids b))
                                        (cfg_access (plan_config env)) then ''form login'' else ''HTTP headers'')\<rparr>
           else q))"

definition open_ports :: "plan_job \<Rightarrow> exec_state \<Rightarrow> int list" where
  "open_ports j st =
     (case ex_surfaces st (pj_target_id j) of
        None \<Rightarrow> []
      | Some s \<Rightarrow> map iv_port (filter (\<lambda>v. iv_host v = host_from_target (pj_target j) \<and> iv_protocol v = ''tcp''
                                         \<and> iv_state v = ''open'') (as_services s)))"

definition gate_resources :: "exec_env \<Rightarrow> gate" where
  "gate_resources env m j st q =
     (let tid = pj_target_id j; kind = job_target_kind env tid; not_run = (\<lambda>why. Answer st (planned_job_not_run env m j q why))
      in if pj_scanner j = ''trivy'' then
           Proceed st (if kind = KindDockerImage then q\<lparr>qr_artifact := (''image'', pj_target j)\<rparr>
                       else if kind = KindSBOM then q\<lparr>qr_artifact := (''sbom'', pj_target j)\<rparr> else q)
         else if pj_scanner j \<in> set [''prowler'', ''scoutsuite''] then
           (if xv_cloud env tid then Proceed st (q\<lparr>qr_cloud := True\<rparr>)
            else not_run ''target-bound cloud credential is unavailable; read-only cloud audit was not run'')
         else if pj_scanner j \<in> set [''vuls'', ''lynis''] then
           (if xv_ssh_alias env tid = '''' then
              not_run ''target-bound SSH alias is unavailable; credentialed host audit was not run''
            else Proceed st (q\<lparr>qr_ssh_host := xv_ssh_alias env tid\<rparr>))
         else if pj_scanner j = ''openvas'' then
           (let q1 = (if xv_expanded env then q\<lparr>qr_ports := open_ports j st\<rparr> else q)
            in case xv_gvm env tid of
                 Some c \<Rightarrow> Proceed st (q1\<lparr>qr_gvm := Some c\<rparr>)
               | None \<Rightarrow>
                   if xv_ssh_requested env tid then
                     not_run ''target-bound Greenbone SSH credential is unavailable; credentialed OpenVAS was not run''
                   else Proceed st q1)
         else Proceed st q)"

definition gate_checkout :: "exec_env \<Rightarrow> gate" where
  "gate_checkout env m j st q =
     (let tid = pj_target_id j; q1 = (if http_target (pj_target j) then q\<lparr>qr_application_url := pj_target j\<rparr> else q)
      in if job_target_kind env tid \<noteq> KindRepository then Proceed st q1
         else let got = (case ex_checkouts st tid of Some c \<Rightarrow> c | None \<Rightarrow> jm_checkout m);
                  st1 = st\<lparr>ex_checkouts := (ex_checkouts st)(tid := Some got)\<rparr>
              in case got of
                   Inl why \<Rightarrow> Answer st1 (planned_job_not_run env m j q1 why)
                 | Inr dir \<Rightarrow> Proceed st1 (q1\<lparr>qr_target := dir, qr_application_url := ''''\<rparr>))"

text \<open>\<open>^[^\<backslash>s@]+@sha256:[a-fA-F0-9]{64}$\<close>\<close>

definition pinned_image :: "string \<Rightarrow> bool" where
  "pinned_image v \<longleftrightarrow>
     (let (name, digest, at_sign) = cut_at (CHR ''@'') v; hex = drop 7 digest
      in at_sign \<and> name \<noteq> '''' \<and> list_all (\<lambda>c. c \<notin> set '' '' \<and> c \<notin> {CHR 0x09, CHR 0x0A, CHR 0x0C, CHR 0x0D}) name
         \<and> has_prefix digest ''sha256:'' \<and> length hex = 64 \<and> list_all is_hex hex)"

definition local_resource_problem :: "exec_env \<Rightarrow> job_moment \<Rightarrow> plan_job \<Rightarrow> string" where
  "local_resource_problem env m j =
     (let mode = cfg_mode (plan_config env); kind = job_target_kind env (pj_target_id j); value = pj_target j;
          absolute = has_prefix value ''/''
      in if kind = KindLocalSourcePath then
           (if mode \<noteq> ModeWhiteBox \<or> \<not> absolute then ''White Box local source must be an absolute server path''
            else if \<not> jm_is_dir m then ''local source directory is unavailable'' else '''')
         else if kind = KindSBOM then
           (if pj_scanner j \<noteq> ''trivy'' \<or> \<not> absolute then
              ''SBOM requires an absolute server file path and a supported adapter''
            else if \<not> jm_is_file m then ''SBOM file is unavailable'' else '''')
         else if kind = KindDockerImage then
           (if mode \<noteq> ModeWhiteBox \<or> pj_scanner j \<noteq> ''trivy'' \<or> \<not> pinned_image value then
              ''Trivy image assessment requires a digest-pinned image reference in White Box mode'' else '''')
         else ''conditional job awaits target-scoped preparation'')"

definition gate_conditional :: "exec_env \<Rightarrow> gate" where
  "gate_conditional env m j st q =
     (let kind = job_target_kind env (pj_target_id j);
          why = (if pj_scanner j \<in> set [''subfinder'', ''amass''] \<and> kind = KindDomain
                    \<and> cfg_subdomain_discovery (plan_config env) then ''''
                 else if kind = KindRepository then ''''
                 else if pj_scanner j \<notin> set [''vuls'', ''lynis''] then local_resource_problem env m j else '''')
      in if pj_state j = PlanConditional \<and> why \<noteq> '''' then Answer st (planned_job_not_run env m j q why) else Proceed st q)"

definition gate_deadline :: "exec_env \<Rightarrow> gate" where
  "gate_deadline env m j st q =
     (let tid = pj_target_id j
      in if qr_application_url q = '''' \<or> xv_web_budget env \<le> 0 then Proceed st q
         else let deadline = (case ex_deadlines st tid of Some d \<Rightarrow> d | None \<Rightarrow> jm_clock m + xv_web_budget env);
                  st1 = st\<lparr>ex_deadlines := (ex_deadlines st)(tid := Some deadline)\<rparr>
              in if jm_clock m < deadline then Proceed st1 q
                 else Answer st1 (planned_job_not_run env m j q
                        ''web profile time budget exhausted; remaining coverage was not tested''))"

text \<open>The runners of the pipeline and those the executor adds.\<close>

definition job_runners :: "string list" where
  "job_runners = pipeline_runners @ [''nmap'', ''masscan'', ''nikto'', ''dalfox'', ''wapiti'', ''kube-bench'', ''prowler'',
     ''scoutsuite'', ''lynis'', ''dnsx'', ''subfinder'', ''amass'', ''httpx'', ''sslyze'', ''apichecks'', ''kube-exposure'',
     ''nextjs-assets'', ''nextjs-sast'', ''nextjs-deps'', ''actuator'', ''vcs-exposure'', ''exposed-files'', ''apiwrites'',
     ''nextjs-actions'', ''nextjs-boundaries'']"

definition gate_runner :: "exec_env \<Rightarrow> gate" where
  "gate_runner env m j st q =
     (if pj_scanner j \<in> set job_runners then Proceed st q
      else Answer st (failed_planned_job env m j q ''planned scanner has no execution adapter''))"

text \<open>A job with a native campaign brings requests of its own; any other gets the URLs of the inventory.\<close>

definition native_job :: "plan_job \<Rightarrow> bool" where
  "native_job j \<longleftrightarrow> pj_scanner j \<in> set [''nextjs-boundaries'', ''nextjs-actions''] \<or> pj_fuzz_id j \<noteq> ''''"

definition bind_targets :: "plan_job \<Rightarrow> job_request \<Rightarrow> string list \<Rightarrow> exec_state \<Rightarrow> gate_answer" where
  "bind_targets j q urls st =
     (let tid = pj_target_id j;
          methods = (case ex_surfaces st tid of None \<Rightarrow> [] | Some s \<Rightarrow> map (\<lambda>e. (se_url e, se_method e)) (rev (as_endpoints s)));
          (kept, so) = constrain_credential_targets (qr_target_auth q) (qr_app_scope q) (qr_target q) (pj_scanner j) urls
                         (ex_surfaces st tid)
      in Proceed (set_surface tid so st) (q\<lparr>qr_endpoint_targets := kept, qr_methods := methods\<rparr>))"

definition gate_targets :: "exec_env \<Rightarrow> gate" where
  "gate_targets env m j st q =
     (if native_job j then
        (case jm_native m q of
           Inl why \<Rightarrow> Answer st (failed_planned_job env m j q why)
         | Inr (inputs, urls, so) \<Rightarrow>
             bind_targets j (q\<lparr>qr_inputs := inputs\<rparr>) urls (set_surface (pj_target_id j) so st))
      else (case dispatch_job env m j q st of (urls, st1) \<Rightarrow> bind_targets j q urls st1))"

definition gate_cancelled :: "exec_env \<Rightarrow> gate" where
  "gate_cancelled env m j st q =
     (case jm_cancelled m of None \<Rightarrow> Proceed st q | Some why \<Rightarrow> Answer st (base_run env m j q ''cancelled'' why))"

definition gate_attempt :: "exec_env \<Rightarrow> gate" where
  "gate_attempt env m j st q =
     (case jm_attempt m of
        Inl e \<Rightarrow> Answer st (failed_planned_job env m j q (''create attempt ID: '' @ e))
      | Inr i \<Rightarrow>
          (let q1 = q\<lparr>qr_attempt := i, qr_fingerprint := pl_fingerprint (xv_plan env)\<rparr>
           in case jm_made_dir m of
                Some e \<Rightarrow> Answer st (failed_planned_job env m j q1 (''create job artifact directory: '' @ e))
              | None \<Rightarrow>
                  (let q2 = (if qr_post_approval q1 \<noteq> None \<or> pj_scanner j \<in> set [''nextjs-actions'', ''nextjs-boundaries'']
                             then q1
                             else q1\<lparr>qr_inputs := build_scanner_inputs (xv_gateway env) (xv_replay env)
                                        (qr_endpoint_targets q1) (qr_auth_context q1) (pj_scanner j)
                                        (ex_surfaces st (pj_target_id j))\<rparr>)
                   in if jm_inputs_saved m then Proceed st q2
                      else Answer st (failed_planned_job env m j q2 ''could not persist scanner inputs''))))"

definition gate_gateway :: "exec_env \<Rightarrow> gate" where
  "gate_gateway env m j st q =
     (if \<not> (xv_expanded env \<and> qr_app_scope q \<noteq> None \<and> pj_scanner j \<in> set [''nuclei'', ''wapiti'', ''dalfox'']) then Proceed st q
      else if jm_gateway_made m then Proceed st (q\<lparr>qr_gateway := True\<rparr>)
      else Answer st (failed_planned_job env m j q ''recording gateway unavailable''))"

definition job_gates :: "exec_env \<Rightarrow> (plan_job \<Rightarrow> string) \<Rightarrow> gate list" where
  "job_gates env pj_reason =
     [gate_checkpoint env, gate_dependencies env, gate_identity env, gate_login env, gate_crawl env,
      gate_selected env pj_reason, gate_session env, gate_inventory env, gate_reuse env, gate_credentials env,
      gate_resources env, gate_checkout env, gate_conditional env, gate_deadline env, gate_runner env, gate_targets env,
      gate_cancelled env, gate_attempt env, gate_gateway env]"

end
