(* ===== verification/RunJobs.thy ===== *)
theory RunJobs
  imports Executor
begin

text \<open>
  One attempt of a job that passed the gates, the loop over the jobs of the plan, and the refusals before it
  (\<open>RunAssessmentJobs\<close> and \<open>runAttempt\<close> of \<open>internal/scanner/assessment_jobs.go\<close> and \<open>pipeline.go\<close>). Progress events
  are left out.
\<close>

section \<open>One attempt\<close>

text \<open>\<open>runAttempt\<close>: a runner that panics gives a failed run; one that returns without an end is failed.\<close>

definition attempt_run :: "exec_env \<Rightarrow> job_moment \<Rightarrow> plan_job \<Rightarrow> job_request \<Rightarrow> job_run" where
  "attempt_run env m j q =
     (let r = jm_run m q
      in if run_terminal r then r
         else finalize_run (xv_checksum env) (xv_revision env) (jm_now m)
                (r\<lparr>jr_scanner := pj_scanner j, jr_target := qr_target q, jr_status := ''failed'',
                   jr_reason := ''scanner returned without a terminal status'', jr_finished := jm_now m\<rparr>))"

definition gateway_result :: "job_moment \<Rightarrow> job_request \<Rightarrow> job_run \<Rightarrow> job_run" where
  "gateway_result m q r0 =
     (if \<not> qr_gateway q then r0
      else let r1 = r0\<lparr>jr_events_path := ''coverage-events.jsonl''\<rparr>;
               r2 = (if jm_gateway_closed m then r1
                     else r1\<lparr>jr_status := ''failed'', jr_reason := ''coverage recording failed''\<rparr>);
               x = apply_outcome (jm_gateway m) \<lparr>ro_status = jr_status r2, ro_outcome = jr_outcome r2,
                     ro_completeness = jr_completeness r2, ro_limitations = jr_limitations r2\<rparr>
           in r2\<lparr>jr_outcome := ro_outcome x, jr_completeness := ro_completeness x, jr_limitations := ro_limitations x\<rparr>)"

definition timed :: "exec_env \<Rightarrow> job_request \<Rightarrow> bool" where
  "timed env q \<longleftrightarrow> qr_application_url q \<noteq> '''' \<and> xv_web_budget env > 0"

definition still_pending :: "exec_env \<Rightarrow> plan_job \<Rightarrow> plan_job \<Rightarrow> bool" where
  "still_pending env j l \<longleftrightarrow> pj_target_id l = pj_target_id j \<and> pj_state l \<in> {PlanSelected, PlanConditional}
     \<and> \<not> (case completed_run env l of None \<Rightarrow> False
           | Some r \<Rightarrow> jr_status r = ''completed'' \<and> checksum_verified (xv_checksum env) r)"

definition ended_run :: "exec_env \<Rightarrow> job_moment \<Rightarrow> plan_job list \<Rightarrow> plan_job \<Rightarrow> exec_state \<Rightarrow> job_request \<Rightarrow> job_run \<Rightarrow> job_run" where
  "ended_run env m later j st q r =
     (let staged = list_ex (still_pending env j) later;
          early = (case ex_deadlines st (pj_target_id j) of None \<Rightarrow> False | Some d \<Rightarrow> jm_later m < d)
      in if jm_end m = StoppedByUser then stopped_run (jm_now m) r
         else if jm_end m = DeadlineReached \<and> timed env q then
           r\<lparr>jr_execution := ''TIMEOUT'', jr_outcome := ''TIMEOUT'', jr_completeness := ''partial'', jr_status := ''failed'',
             jr_reason := (if staged \<and> early
               then ''scanner stage time budget reached; assessment coverage is partial''
               else ''web profile time budget exhausted; assessment coverage is partial'')\<rparr>
         else r)"

definition refresh_run_identity :: "exec_env \<Rightarrow> job_moment \<Rightarrow> plan_job \<Rightarrow> exec_state \<Rightarrow> exec_state \<times> bool" where
  "refresh_run_identity env m j st =
     (if pj_ctx_id j \<noteq> '''' then
        (case refresh_identity (jm_reverify m) (pj_target_id j) (pj_ctx_id j) (ex_contexts st) of
           (contexts, found, ok) \<Rightarrow> (st\<lparr>ex_contexts := contexts\<rparr>, ok))
      else refresh_web_auth env (jm_reverify m) (pj_target_id j) st)"

definition authenticated_run ::
  "exec_env \<Rightarrow> job_moment \<Rightarrow> plan_job \<Rightarrow> job_request \<Rightarrow> exec_state \<Rightarrow> job_run \<Rightarrow> exec_state \<times> job_run" where
  "authenticated_run env m j q st r0 =
     (let auth = (qr_target_auth q \<noteq> '''' \<and> jr_status r0 = ''completed'' \<and> scanner_uses_web_auth (pj_scanner j));
          r1 = r0\<lparr>jr_authenticated := auth\<rparr>;
          r2 = (if auth \<and> jr_auth_state r1 = None
                then r1\<lparr>jr_auth_state := Some StateVerified, jr_auth_checked := jm_now m\<rparr> else r1)
      in if \<not> auth \<or> pj_scanner j \<noteq> ''nuclei'' then (st, r2)
         else case refresh_run_identity env m j st of
                (st1, True) \<Rightarrow> (st1, r2)
              | (st1, False) \<Rightarrow>
                  (st1\<lparr>ex_auth_verified := (ex_auth_verified st1)(pj_target_id j := False)\<rparr>,
                   r2\<lparr>jr_status := ''failed'', jr_authenticated := False, jr_auth_state := Some StateExpired,
                      jr_gap := GapAuthExpired,
                      jr_reason := ''authenticated session expired during Nuclei scan; coverage is partial''\<rparr>))"

definition labelled_run :: "exec_env \<Rightarrow> plan_job \<Rightarrow> job_request \<Rightarrow> job_run \<Rightarrow> job_run" where
  "labelled_run env j q r = r\<lparr>jr_stage := pj_stage j, jr_target := pj_target j, jr_scope := qr_scope q,
     jr_workflow := cfg_workflow_version (plan_config env), jr_variant := pj_variant j, jr_types := job_types j,
     jr_fingerprint := pl_fingerprint (xv_plan env), jr_attempt_id := qr_attempt q\<rparr>"

definition note_history :: "exec_env \<Rightarrow> job_moment \<Rightarrow> plan_job \<Rightarrow> job_run \<Rightarrow> exec_state \<Rightarrow> exec_state" where
  "note_history env m j r st =
     (let tid = pj_target_id j
      in if (pj_scanner j \<in> set [''gau'', ''waybackurls''] \<and> jr_status r = ''completed'')
            \<or> (pj_scanner j = ''nextjs-assets'' \<and> jr_historical r \<noteq> []) then
           (case ex_surfaces st tid of
              None \<Rightarrow> st\<lparr>ex_history := (ex_history st)(tid := ex_history st tid @ jr_historical r)\<rparr>
            | Some s \<Rightarrow> set_surface tid (Some (merge_historical_candidates (xv_gateway env) (jm_now m) (jr_historical r) s)) st)
         else st)"

definition execute_attempt ::
  "exec_env \<Rightarrow> job_moment \<Rightarrow> plan_job list \<Rightarrow> plan_job \<Rightarrow> exec_state \<Rightarrow> job_request \<Rightarrow> exec_state \<times> job_run" where
  "execute_attempt env m later j st q =
     (let st1 = st\<lparr>ex_attempts := ex_attempts st @ [(j, q)]\<rparr>;
          r0 = (gateway_result m q (attempt_run env m j q))\<lparr>jr_inputs_path := ''input-manifest.json''\<rparr>;
          (st2, r1) = authenticated_run env m j q st1 (ended_run env m later j st1 q r0);
          r2 = labelled_run env j q r1;
          st3 = note_history env m j r2 st2;
          r3 = finalize_run (xv_checksum env) (xv_revision env) (jm_now m) r2
      in (complete_coverage j r3 st3, r3))"

definition run_job ::
  "exec_env \<Rightarrow> (plan_job \<Rightarrow> string) \<Rightarrow> job_moment \<Rightarrow> plan_job list \<Rightarrow> plan_job \<Rightarrow> exec_state \<Rightarrow> exec_state" where
  "run_job env pj_reason m later j st =
     (case run_gates (job_gates env pj_reason) m j st (first_request env j) of
        Answer st1 r \<Rightarrow> append_outcome env m j r st1
      | Proceed st1 q \<Rightarrow>
          (case execute_attempt env m later j st1 q of (st2, r) \<Rightarrow> append_outcome env m j r st2))"

text \<open>The jobs of the plan with the moment of each.\<close>

fun run_jobs :: "exec_env \<Rightarrow> (plan_job \<Rightarrow> string) \<Rightarrow> (plan_job \<times> job_moment) list \<Rightarrow> exec_state \<Rightarrow> exec_state" where
  "run_jobs env pj_reason [] st = st"
| "run_jobs env pj_reason ((j, m) # jms) st = run_jobs env pj_reason jms (run_job env pj_reason m (map fst jms) j st)"

section \<open>An execution\<close>

record web_profile =
  wp_name :: string
  wp_rate :: int
  wp_max_endpoints :: int
  wp_budget :: int
  wp_browser :: bool

definition minute_nanos :: int where "minute_nanos = 60000000000"

definition default_web_profile :: "string \<Rightarrow> web_profile" where
  "default_web_profile n =
     (if n = ProfileNextjsDeep then
        \<lparr>wp_name = ProfileNextjsDeep, wp_rate = 10, wp_max_endpoints = 3000, wp_budget = 90 * minute_nanos, wp_browser = True\<rparr>
      else if n = ''web-thorough'' then
        \<lparr>wp_name = ''web-thorough'', wp_rate = 150, wp_max_endpoints = 2000, wp_budget = 0, wp_browser = True\<rparr>
      else \<lparr>wp_name = ''web-gentle'', wp_rate = 2, wp_max_endpoints = 500, wp_budget = 30 * minute_nanos, wp_browser = True\<rparr>)"

definition resolve_web_profile :: "string \<Rightarrow> web_profile option" where
  "resolve_web_profile n0 =
     (let n = (if n0 = '''' then ''web-gentle'' else n0)
      in if n \<in> set [''web-gentle'', ''web-thorough'', ProfileNextjsDeep] then Some (default_web_profile n) else None)"

text \<open>What an execution meets before its first job: the setting of the expanded workflow, the file of the write
  journal with the journals of earlier attempts, the replay store, and the clock.\<close>

record exec_start =
  xs_unified :: bool
  xs_io :: journal_io
  xs_priors :: "prior_journal list"
  xs_journal :: journal_file
  xs_replay_key :: bool
  xs_replay_opens :: bool
  xs_now :: string
  xs_clock :: int
  xs_rate :: int
  xs_headers :: "string \<Rightarrow> string list"
  xs_contexts :: "auth_identity list"
  xs_comparisons :: "job_run list \<Rightarrow> job_run list"
  xs_final_save :: "string option"

definition refused_jobs :: "exec_env \<Rightarrow> exec_start \<Rightarrow> string \<Rightarrow> string \<Rightarrow> job_run list" where
  "refused_jobs env x fingerprint why =
     map (\<lambda>j. empty_run\<lparr>jr_scanner := pj_scanner j, jr_variant := pj_variant j, jr_types := job_types j,
                jr_fingerprint := fingerprint, jr_scope := job_scope j, jr_target := pj_target j,
                jr_status := ''failed'', jr_reason := why, jr_started := xs_now x, jr_finished := xs_now x\<rparr>)
       (pl_jobs (xv_plan env))"

definition interrupted_jobs :: "exec_env \<Rightarrow> exec_start \<Rightarrow> string \<Rightarrow> job_run list" where
  "interrupted_jobs env x why =
     map (\<lambda>r. r\<lparr>jr_gap := GapInterruptedWrite\<rparr>) (refused_jobs env x (pl_fingerprint (xv_plan env)) why)"

text \<open>The journal after its recovery, and whether the recovery failed.\<close>

definition recovered_journal :: "exec_env \<Rightarrow> exec_start \<Rightarrow> journal_file \<times> bool" where
  "recovered_journal env x =
     (if xs_unified x \<and> cfg_workflow_version (plan_config env) = ''unified-v1'' then
        (case open_shared_journal (xs_io x) (xs_priors x) (xs_journal x) of (f, res) \<Rightarrow> (f, \<not> isl res))
      else (xs_journal x, True))"

text \<open>\<open>Some runs\<close>: the execution is refused with these.\<close>

definition start_refusal :: "exec_env \<Rightarrow> exec_start \<Rightarrow> job_run list option" where
  "start_refusal env x =
     (let fp = pl_fingerprint (xv_plan env); refuse = (\<lambda>why. Some (refused_jobs env x fp why));
          wants = (cfg_workflow_version (plan_config env) = ''unified-v1''); (journal, opened) = recovered_journal env x;
          (unresolved, err) = unresolved_writes journal; profile = trim_space (cfg_profile (plan_config env))
      in if pl_jobs (xv_plan env) \<noteq> [] \<and> trim_space fp = '''' then
           Some (refused_jobs env x '''' ''accepted plan fingerprint is required'')
         else if \<not> opened then
           Some (interrupted_jobs env x ''write journal recovery failed; automatic resume was refused'')
         else if err \<noteq> None \<or> unresolved \<noteq> [] then
           Some (interrupted_jobs env x ''unresolved write journal prevents automatic resume'')
         else if wants \<and> \<not> xs_unified x then refuse ''accepted expanded workflow is disabled; executor was not changed''
         else if profile \<noteq> '''' \<and> resolve_web_profile profile = None then
           refuse ''assessment plan contains an unsupported web profile''
         else if wants \<and> xs_replay_key x \<and> \<not> xs_replay_opens x then refuse ''encrypted replay storage unavailable''
         else None)"

definition profiled :: "exec_env \<Rightarrow> exec_start \<Rightarrow> exec_env \<times> int" where
  "profiled env0 x =
     (let env = env0\<lparr>xv_expanded := (xs_unified x \<and> cfg_workflow_version (plan_config env0) = ''unified-v1'')\<rparr>;
          profile = trim_space (cfg_profile (plan_config env))
      in case (if profile = '''' then None else resolve_web_profile profile) of
           None \<Rightarrow> (env, xs_rate x)
         | Some w \<Rightarrow> (env\<lparr>xv_max_endpoints := wp_max_endpoints w, xv_web_budget := wp_budget w, xv_browser := wp_browser w\<rparr>,
                       wp_rate w))"

definition initial_state :: "exec_env \<Rightarrow> int \<Rightarrow> exec_start \<Rightarrow> exec_state" where
  "initial_state env rate x =
     \<lparr>ex_surfaces = (\<lambda>t. None), ex_results = [], ex_outcomes = (\<lambda>i. None), ex_checkpoint_failed = False,
      ex_auth_verified = (\<lambda>t. False), ex_headers = xs_headers x, ex_contexts = xs_contexts x, ex_deadlines = (\<lambda>t. None),
      ex_checkouts = (\<lambda>t. None), ex_prepared = (\<lambda>t. False), ex_crawls = (\<lambda>t. None), ex_apis = (\<lambda>t. []),
      ex_history = (\<lambda>t. []), ex_budget = Some (new_budget (xs_clock x) rate (xv_max_endpoints env) (xv_web_budget env)),
      ex_attempts = []\<rparr>"

fun fail_last :: "string \<Rightarrow> job_run list \<Rightarrow> job_run list" where
  "fail_last e [] = []"
| "fail_last e [r] = [r\<lparr>jr_status := ''failed'', jr_gap := GapInterruptedWrite,
     jr_reason := ''workflow manifest could not be stored: '' @ e\<rparr>]"
| "fail_last e (r # s # rs) = r # fail_last e (s # rs)"

text \<open>The jobs of the plan in order; \<open>moments\<close> gives the moment of each position.\<close>

definition executed :: "exec_env \<Rightarrow> exec_start \<Rightarrow> (plan_job \<Rightarrow> string) \<Rightarrow> (nat \<Rightarrow> job_moment) \<Rightarrow> exec_state" where
  "executed env0 x pj_reason moments =
     (let (env, rate) = profiled env0 x; jobs = pl_jobs (xv_plan env)
      in run_jobs env pj_reason (zip jobs (map moments [0..<length jobs])) (initial_state env rate x))"

text \<open>The results, and the calls of runners that led to them.\<close>

definition run_assessment_jobs ::
  "exec_env \<Rightarrow> exec_start \<Rightarrow> (plan_job \<Rightarrow> string) \<Rightarrow> (nat \<Rightarrow> job_moment) \<Rightarrow> job_run list \<times> (plan_job \<times> job_request) list" where
  "run_assessment_jobs env0 x pj_reason moments =
     (case start_refusal env0 x of
        Some runs \<Rightarrow> (runs, [])
      | None \<Rightarrow>
          (let st = executed env0 x pj_reason moments;
               results = ex_results st @ xs_comparisons x (ex_results st)
           in (case xs_final_save x of None \<Rightarrow> results | Some e \<Rightarrow> fail_last e results, ex_attempts st)))"

end
