(* ===== verification/SurfaceProperties.thy ===== *)
theory SurfaceProperties
  imports Surface
begin

text \<open>
  What the inventory promises: an observation that was refused keeps an endpoint from the scanners in whatever order
  observations arrive; the gate gives a scanner only what it may be given, within its limits; and every endpoint says
  what became of it.
\<close>

section \<open>Merging\<close>

lemma merge_id [simp]: "se_id (merge_endpoint e i) = se_id e"
  by (simp add: merge_endpoint_def Let_def)

lemma merge_dispatchable:
  "endpoint_dispatchable (se_state (merge_endpoint e i))
     \<longleftrightarrow> endpoint_dispatchable (se_state e) \<and> endpoint_dispatchable (se_state i)"
  by (auto simp: merge_endpoint_def endpoint_dispatchable_def Let_def)

lemma merge_surface_ids:
  "map se_id (merge_surface_endpoint i es) = (if se_id i \<in> se_id ` set es then map se_id es else map se_id es @ [se_id i])"
  by (induction es) auto

lemma merge_surface_distinct: "distinct (map se_id es) \<Longrightarrow> distinct (map se_id (merge_surface_endpoint i es))"
  unfolding merge_surface_ids by auto

definition none_refused :: "string \<Rightarrow> surface_endpoint list \<Rightarrow> bool" where
  "none_refused k es \<longleftrightarrow> (\<forall>e \<in> set es. se_id e = k \<longrightarrow> endpoint_dispatchable (se_state e))"

lemma none_refused_simps [simp]:
  "none_refused k []"
  "none_refused k (e # es) \<longleftrightarrow> (se_id e = k \<longrightarrow> endpoint_dispatchable (se_state e)) \<and> none_refused k es"
  by (auto simp: none_refused_def)

lemma merge_surface_refused:
  "none_refused k (merge_surface_endpoint i es)
     \<longleftrightarrow> none_refused k es \<and> (se_id i = k \<longrightarrow> endpoint_dispatchable (se_state i))"
  by (induction es) (auto simp: merge_dispatchable)

definition observe_endpoints :: "surface_endpoint list \<Rightarrow> surface_endpoint list" where
  "observe_endpoints obs = fold merge_surface_endpoint obs []"

lemma observe_facts:
  assumes "distinct (map se_id es)"
  shows "distinct (map se_id (fold merge_surface_endpoint obs es))"
    and "se_id ` set (fold merge_surface_endpoint obs es) = se_id ` set es \<union> se_id ` set obs"
    and "none_refused k (fold merge_surface_endpoint obs es) \<longleftrightarrow> none_refused k es \<and> none_refused k obs"
proof -
  show "distinct (map se_id (fold merge_surface_endpoint obs es))"
    using assms by (induction obs arbitrary: es) (simp_all add: merge_surface_distinct)
  have ids: "se_id ` set (merge_surface_endpoint i es) = insert (se_id i) (se_id ` set es)" for i es
  proof -
    have "set (map se_id (merge_surface_endpoint i es)) = insert (se_id i) (se_id ` set es)"
      unfolding merge_surface_ids by auto
    then show ?thesis by simp
  qed
  show "se_id ` set (fold merge_surface_endpoint obs es) = se_id ` set es \<union> se_id ` set obs"
    by (induction obs arbitrary: es) (simp_all add: ids)
  show "none_refused k (fold merge_surface_endpoint obs es) \<longleftrightarrow> none_refused k es \<and> none_refused k obs"
    by (induction obs arbitrary: es) (auto simp: merge_surface_refused)
qed

text \<open>The inventory has one endpoint for each identity observed, and the order of the observations does not matter
  to what may be dispatched: an endpoint may be dispatched exactly if none of the observations merged into it was out
  of scope, excluded, static or otherwise refused, so merging never widens what a scanner may be given.\<close>
theorem refused_observation_refuses:
  "distinct (map se_id (observe_endpoints obs)) \<and> se_id ` set (observe_endpoints obs) = se_id ` set obs
    \<and> (\<forall>e \<in> set (observe_endpoints obs). endpoint_dispatchable (se_state e)
         \<longleftrightarrow> (\<forall>i \<in> set obs. se_id i = se_id e \<longrightarrow> endpoint_dispatchable (se_state i)))"
proof -
  have facts: "distinct (map se_id (observe_endpoints obs))" "se_id ` set (observe_endpoints obs) = se_id ` set obs"
    "none_refused k (observe_endpoints obs) \<longleftrightarrow> none_refused k obs" for k
    using observe_facts [of "[]"] by (simp_all add: observe_endpoints_def)
  have "endpoint_dispatchable (se_state e) \<longleftrightarrow> none_refused (se_id e) obs" if e: "e \<in> set (observe_endpoints obs)" for e
  proof -
    have "x = e" if "x \<in> set (observe_endpoints obs)" "se_id x = se_id e" for x
      using that e facts(1) by (simp add: distinct_map inj_on_def)
    then have "none_refused (se_id e) (observe_endpoints obs) \<longleftrightarrow> endpoint_dispatchable (se_state e)"
      using e by (auto simp: none_refused_def)
    then show ?thesis using facts(3) by simp
  qed
  then show ?thesis using facts(1,2) by (simp add: none_refused_def)
qed

section \<open>The gate\<close>

lemma refusal_nonempty: "endpoint_refusal env x sc scope e = Some why \<Longrightarrow> why \<noteq> ''''"
  by (auto simp: endpoint_refusal_def scanner_needs_def Let_def split: option.splits prod.splits bool.splits if_splits)

lemma dispatch_refusal_nonempty: "dispatch_refusal env x ss sc scope ctx e = Some why \<Longrightarrow> why \<noteq> ''''"
  by (auto simp: dispatch_refusal_def dest: refusal_nonempty split: if_splits)

definition decision :: "dispatch_pass \<Rightarrow> string \<Rightarrow> string \<Rightarrow> endpoint_coverage" where
  "decision p st why = coverage_entry (dp_scanner p) st why (dp_now p) ''''"

definition grants :: "dispatch_pass \<Rightarrow> surface_endpoint \<Rightarrow> bool" where
  "grants p e \<longleftrightarrow> dispatch_refusal (dp_env p) (dp_expanded p) (dp_surface_scope p) (dp_scanner p) (dp_scope p) (dp_context p) e = None
     \<and> (dp_context p = '''' \<or> se_auth_context e = dp_context p)"

lemma dispatch_one_cases:
  assumes "dispatch_one p e d = (d', e')"
  obtains (other) "dp_context p \<noteq> ''''" "d' = d" "e' = e"
  | (skipped) why where "why \<noteq> ''''" "e' = record_coverage (decision p ''skipped'' why) e"
      "ds_targets d' = ds_targets d" "ds_selected d' = ds_selected d"
  | (given) "grants p e" "\<not> budget_spent p d" "e' = record_coverage (decision p ''dispatched'' '''') e"
      "ds_targets d' = (if se_url e \<in> set (ds_targets d) then ds_targets d else ds_targets d @ [se_url e])"
      "ds_selected d' = ds_selected d + 1"
proof (cases "dp_context p \<noteq> '''' \<and> se_auth_context e \<noteq> dp_context p")
  case True
  then show ?thesis using assms other by (simp add: dispatch_one_def)
next
  case here: False
  show ?thesis
  proof (cases "dispatch_refusal (dp_env p) (dp_expanded p) (dp_surface_scope p) (dp_scanner p) (dp_scope p) (dp_context p) e")
    case (Some why)
    then show ?thesis
      using assms here skipped [of why] dispatch_refusal_nonempty [OF Some]
      by (auto simp: dispatch_one_def decision_def)
  next
    case None
    then have g: "grants p e" using here by (auto simp: grants_def)
    show ?thesis
    proof (cases "budget_spent p d")
      case True
      then show ?thesis
        using assms here None skipped [of "''endpoint budget exhausted''"] by (auto simp: dispatch_one_def decision_def)
    next
      case False
      obtain b granted where b: "(case ds_budget d of None \<Rightarrow> (None, True)
          | Some b \<Rightarrow> (case reserve_endpoints (Some b) [se_id e] of (b', granted) \<Rightarrow> (b', granted \<noteq> []))) = (b, granted)"
        by fastforce
      have "assessment_cap_reason \<noteq> ''''" by (simp add: assessment_cap_reason_def)
      then show ?thesis
        using assms here None False b g skipped [of assessment_cap_reason] given
        by (cases granted) (auto simp: dispatch_one_def decision_def)
    qed
  qed
qed

definition decided_as :: "dispatch_pass \<Rightarrow> surface_endpoint \<Rightarrow> surface_endpoint \<Rightarrow> bool" where
  "decided_as p e e' \<longleftrightarrow>
     (\<exists>c. e' = record_coverage c e \<and> co_scanner c = dp_scanner p
        \<and> (co_status c = ''dispatched'' \<and> co_reason c = '''' \<or> co_status c = ''skipped'' \<and> co_reason c \<noteq> ''''))
     \<or> dp_context p \<noteq> '''' \<and> e' = e"

definition selected :: "string \<Rightarrow> surface_endpoint \<Rightarrow> bool" where
  "selected scanner e \<longleftrightarrow> (\<exists>c \<in> set (se_coverage e). open_entry scanner c)"

definition one_entry_each :: "surface_endpoint \<Rightarrow> bool" where
  "one_entry_each e \<longleftrightarrow> distinct (map co_scanner (se_coverage e))"

lemma coverage_after:
  "distinct (map co_scanner cs) \<Longrightarrow> (\<exists>d \<in> set (set_coverage c cs). open_entry (co_scanner c) d) \<longleftrightarrow> co_status c = ''dispatched''"
proof (induction cs)
  case (Cons a cs)
  then show ?case by (cases "co_scanner a = co_scanner c") (auto simp: open_entry_def image_iff)
qed (simp add: open_entry_def)

lemma selected_recorded:
  "one_entry_each e \<Longrightarrow> selected (dp_scanner p) (record_coverage (decision p st why) e) \<longleftrightarrow> st = ''dispatched''"
  using coverage_after [of "se_coverage e" "decision p st why"]
  by (simp add: selected_def one_entry_each_def record_coverage_def decision_def coverage_entry_def)

lemma recorded_url [simp]: "se_url (record_coverage c e) = se_url e"
  by (simp add: record_coverage_def)

lemma none_after_map: "(\<And>c. \<not> P (f c)) \<Longrightarrow> \<not> (\<exists>x \<in> set (map f cs). P x)"
  by (induction cs) simp_all

lemma one_recorded:
  assumes "dispatch_one p e d = (d1, e1)" and "one_entry_each e" and "dp_context p = ''''"
  shows "set (ds_targets d1) = set (ds_targets d) \<union> (if selected (dp_scanner p) e1 then {se_url e1} else {})"
  using assms(1)
proof (cases rule: dispatch_one_cases)
  case other
  then show ?thesis using assms(3) by simp
next
  case (skipped why)
  have "\<not> selected (dp_scanner p) e1"
    unfolding skipped(2) selected_recorded [OF assms(2)] by simp
  then show ?thesis using skipped(3) by simp
next
  case given
  have "selected (dp_scanner p) e1" and "se_url e1 = se_url e"
    unfolding given(3) selected_recorded [OF assms(2)] by simp_all
  then show ?thesis using given(4) by (cases "se_url e \<in> set (ds_targets d)") auto
qed

lemma dispatch_loop_facts:
  assumes "dispatch_loop p es d = (d', es')"
  shows "list_all2 (decided_as p) es es'"
    and "distinct (ds_targets d) \<Longrightarrow> distinct (ds_targets d')"
    and "set (ds_targets d') \<subseteq> set (ds_targets d) \<union> se_url ` {e \<in> set es. grants p e}"
    and "0 < dp_max p \<Longrightarrow> length (ds_targets d) \<le> ds_selected d \<Longrightarrow> int (length (ds_targets d)) \<le> dp_max p \<Longrightarrow>
         (dp_expanded p \<Longrightarrow> int (ds_selected d) \<le> dp_max p) \<Longrightarrow> int (length (ds_targets d')) \<le> dp_max p"
    and "dp_context p = '''' \<Longrightarrow> list_all one_entry_each es \<Longrightarrow>
         set (ds_targets d') = set (ds_targets d) \<union> se_url ` {e \<in> set es'. selected (dp_scanner p) e}"
proof -
  have step: "\<exists>d1 e1 es1. dispatch_one p e d = (d1, e1) \<and> dispatch_loop p es d1 = (d', es1) \<and> es' = e1 # es1"
    if "dispatch_loop p (e # es) d = (d', es')" for e es d d' es'
    using that by (auto simp: Let_def split: prod.splits)
  have entry: "decided_as p e e1" if "dispatch_one p e d = (d1, e1)" for e d d1 e1
    using that by (cases rule: dispatch_one_cases) (auto simp: decided_as_def decision_def coverage_entry_def)
  show "list_all2 (decided_as p) es es'"
    using assms
  proof (induction es arbitrary: d es')
    case (Cons e es)
    obtain d1 e1 es1 where s: "dispatch_one p e d = (d1, e1)" "dispatch_loop p es d1 = (d', es1)" "es' = e1 # es1"
      using step [OF Cons.prems(1)] by blast
    show ?case using entry [OF s(1)] Cons.IH [OF s(2)] s(3) by simp
  qed simp
  have once: "distinct (ds_targets d1)" if "dispatch_one p e d = (d1, e1)" "distinct (ds_targets d)" for e d d1 e1
    using that by (cases rule: dispatch_one_cases) auto
  show "distinct (ds_targets d')" if "distinct (ds_targets d)"
    using assms that
  proof (induction es arbitrary: d es')
    case (Cons e es)
    obtain d1 e1 es1 where s: "dispatch_one p e d = (d1, e1)" "dispatch_loop p es d1 = (d', es1)"
      using step [OF Cons.prems(1)] by blast
    show ?case using once [OF s(1)] Cons.IH [OF s(2)] Cons.prems(2) by blast
  qed simp
  have grown: "set (ds_targets d1) \<subseteq> set (ds_targets d) \<union> se_url ` {x. x = e \<and> grants p x}"
    if "dispatch_one p e d = (d1, e1)" for e d d1 e1
    using that by (cases rule: dispatch_one_cases) auto
  show "set (ds_targets d') \<subseteq> set (ds_targets d) \<union> se_url ` {e \<in> set es. grants p e}"
    using assms
  proof (induction es arbitrary: d es')
    case (Cons e es)
    obtain d1 e1 es1 where s: "dispatch_one p e d = (d1, e1)" "dispatch_loop p es d1 = (d', es1)"
      using step [OF Cons.prems(1)] by blast
    show ?case using grown [OF s(1)] Cons.IH [OF s(2)] by auto
  qed simp
  show "int (length (ds_targets d')) \<le> dp_max p"
    if "0 < dp_max p" "length (ds_targets d) \<le> ds_selected d" "int (length (ds_targets d)) \<le> dp_max p"
      "dp_expanded p \<Longrightarrow> int (ds_selected d) \<le> dp_max p"
    using assms that
  proof (induction es arbitrary: d es')
    case (Cons e es)
    obtain d1 e1 es1 where s: "dispatch_one p e d = (d1, e1)" "dispatch_loop p es d1 = (d', es1)"
      using step [OF Cons.prems(1)] by blast
    have "length (ds_targets d1) \<le> ds_selected d1 \<and> int (length (ds_targets d1)) \<le> dp_max p
        \<and> (dp_expanded p \<longrightarrow> int (ds_selected d1) \<le> dp_max p)"
      using s(1) Cons.prems by (cases rule: dispatch_one_cases) (auto simp: budget_spent_def split: if_splits)
    then show ?case using Cons.IH [OF s(2)] Cons.prems(2) by blast
  qed simp
  show "set (ds_targets d') = set (ds_targets d) \<union> se_url ` {e \<in> set es'. selected (dp_scanner p) e}"
    if "dp_context p = ''''" "list_all one_entry_each es"
    using assms that(2)
  proof (induction es arbitrary: d es')
    case (Cons e es)
    obtain d1 e1 es1 where s: "dispatch_one p e d = (d1, e1)" "dispatch_loop p es d1 = (d', es1)" "es' = e1 # es1"
      using step [OF Cons.prems(1)] by blast
    have "set (ds_targets d1) = set (ds_targets d) \<union> (if selected (dp_scanner p) e1 then {se_url e1} else {})"
      using one_recorded [OF s(1) _ that(1)] Cons.prems(2) by simp
    moreover have "set (ds_targets d') = set (ds_targets d1) \<union> se_url ` {e \<in> set es1. selected (dp_scanner p) e}"
      using Cons.IH [OF s(2)] Cons.prems(2) by simp
    moreover have "se_url ` {x \<in> set (e1 # es1). selected (dp_scanner p) x}
        = (if selected (dp_scanner p) e1 then {se_url e1} else {}) \<union> se_url ` {x \<in> set es1. selected (dp_scanner p) x}"
      by (cases "selected (dp_scanner p) e1") auto
    ultimately show ?case unfolding s(3) by (simp only: Un_assoc)
  qed simp
qed

lemma if_refuses:
  "(if b then Some w else r) = None \<longleftrightarrow> \<not> b \<and> r = None"
  by simp

lemma endpoint_refusal_None:
  "endpoint_refusal env x scanner (Some sc) e = None \<longleftrightarrow>
     endpoint_dispatchable (se_state e) \<and> fst (allows sc (se_url e)) \<and> excluded sc (se_method e) (se_url e) = None
     \<and> \<not> has_placeholder_path (se_url e) \<and> safe_method x scanner e \<and> se_kind e \<noteq> ''static''
     \<and> \<not> (se_method e \<noteq> ''GET'' \<and> scanner \<in> set [''nuclei'', ''wapiti'', ''dalfox''])
     \<and> scanner_needs x scanner e = None"
proof (cases "allows sc (se_url e)")
  case (Pair ok why)
  then show ?thesis
    unfolding endpoint_refusal_def
    by (cases ok; cases "excluded sc (se_method e) (se_url e)";
        simp only: if_refuses split_conv prod.case bool.case option.case fst_conv option.distinct simp_thms not_not)
qed

lemma grants_confined:
  assumes "grants p e" and "dp_scope p = Some sc"
  shows "endpoint_dispatchable (se_state e) \<and> fst (allows sc (se_url e)) \<and> excluded sc (se_method e) (se_url e) = None
    \<and> \<not> has_placeholder_path (se_url e) \<and> safe_method (dp_expanded p) (dp_scanner p) e \<and> se_kind e \<noteq> ''static''
    \<and> scanner_needs (dp_expanded p) (dp_scanner p) e = None"
proof -
  have "endpoint_refusal (dp_env p) (dp_expanded p) (dp_scanner p) (Some sc) e = None"
    using assms by (simp add: grants_def dispatch_refusal_def split: if_splits)
  then show ?thesis unfolding endpoint_refusal_None by blast
qed

lemma dispatch_targets_confined:
  assumes "dispatch_targets env now scanner limit (Some sc) expanded context bo s = (urls, bo', s')"
  shows "distinct urls \<and> (0 < limit \<longrightarrow> int (length urls) \<le> limit)
    \<and> (\<forall>u \<in> set urls. \<exists>e \<in> set (as_endpoints s). se_url e = u \<and> endpoint_dispatchable (se_state e)
         \<and> fst (allows sc u) \<and> excluded sc (se_method e) u = None \<and> \<not> has_placeholder_path u
         \<and> safe_method expanded scanner e \<and> se_kind e \<noteq> ''static'' \<and> scanner_needs expanded scanner e = None)"
proof -
  let ?p = "\<lparr>dp_env = env, dp_surface_scope = as_scope s, dp_scanner = scanner, dp_max = limit, dp_scope = Some sc,
    dp_expanded = expanded, dp_context = context, dp_now = now\<rparr>"
  let ?d = "\<lparr>ds_targets = [], ds_selected = 0, ds_budget = bo\<rparr>"
  obtain d' es' where loop: "dispatch_loop ?p (as_endpoints s) ?d = (d', es')" and urls: "urls = ds_targets d'"
    using assms by (auto simp: dispatch_targets_def Let_def split: prod.splits)
  note facts = dispatch_loop_facts [OF loop]
  have "distinct urls" using facts(2) by (simp add: urls)
  moreover have "0 < limit \<longrightarrow> int (length urls) \<le> limit" using facts(4) by (simp add: urls)
  moreover have "set urls \<subseteq> se_url ` {e \<in> set (as_endpoints s). grants ?p e}" using facts(3) by (simp add: urls)
  ultimately show ?thesis using grants_confined [of ?p] by fastforce
qed

text \<open>What a scanner is given is confined. Every URL of a pass is the URL of an endpoint of the inventory that was
  never refused, that lies inside an approved origin and matches no exclusion for its method, has no unresolved
  placeholder in its path, is read with a safe method (or is a replayable read-only POST for ZAP), is not static, and
  has what this scanner needs; no URL is given twice, and there are at most as many as the limit, if there is one.\<close>
theorem dispatched_urls_confined:
  assumes "dispatch_targets env now scanner limit (Some sc) expanded context bo s = (urls, bo', s')"
  shows "distinct urls \<and> (0 < limit \<longrightarrow> int (length urls) \<le> limit)
    \<and> (\<forall>u \<in> set urls. \<exists>e \<in> set (as_endpoints s). se_url e = u \<and> endpoint_dispatchable (se_state e)
         \<and> fst (allows sc u) \<and> excluded sc (se_method e) u = None \<and> \<not> has_placeholder_path u
         \<and> safe_method expanded scanner e \<and> se_kind e \<noteq> ''static'' \<and> scanner_needs expanded scanner e = None)"
  using assms by (rule dispatch_targets_confined)

text \<open>C32: No endpoint is lost without a word. After a pass over the whole inventory every endpoint is as it was, except
  that it records for this scanner either that it was given to it or that it was skipped, with a reason; the URLs given
  are exactly those of the endpoints that say so; and once the run is recorded, no endpoint is left as merely given.
  Each endpoint starts with at most one entry of each scanner, and the run does not end as dispatched.\<close>
theorem every_endpoint_decided:
  assumes "dispatch_targets env now scanner limit scope expanded '''' bo s = (urls, bo', s')"
    and "list_all one_entry_each (as_endpoints s)" and "coverage_status scanner r \<noteq> ''dispatched''"
  shows "list_all2 (\<lambda>e e'. \<exists>c. e' = record_coverage c e \<and> co_scanner c = scanner
        \<and> (co_status c = ''dispatched'' \<and> co_reason c = '''' \<or> co_status c = ''skipped'' \<and> co_reason c \<noteq> ''''))
      (as_endpoints s) (as_endpoints s')
    \<and> set urls = se_url ` {e \<in> set (as_endpoints s'). selected scanner e}
    \<and> (\<forall>e \<in> set (as_endpoints (complete_endpoint_coverage scanner r s')). \<not> selected scanner e)"
proof -
  let ?p = "\<lparr>dp_env = env, dp_surface_scope = as_scope s, dp_scanner = scanner, dp_max = limit, dp_scope = scope,
    dp_expanded = expanded, dp_context = '''', dp_now = now\<rparr>"
  let ?d = "\<lparr>ds_targets = [], ds_selected = 0, ds_budget = bo\<rparr>"
  obtain d' es' where loop: "dispatch_loop ?p (as_endpoints s) ?d = (d', es')" and urls: "urls = ds_targets d'"
      and s': "as_endpoints s' = es'"
    using assms(1) by (auto simp: dispatch_targets_def Let_def split: prod.splits)
  note facts = dispatch_loop_facts [OF loop]
  have "list_all2 (\<lambda>e e'. \<exists>c. e' = record_coverage c e \<and> co_scanner c = scanner
        \<and> (co_status c = ''dispatched'' \<and> co_reason c = '''' \<or> co_status c = ''skipped'' \<and> co_reason c \<noteq> ''''))
      (as_endpoints s) (as_endpoints s')"
    unfolding s' using facts(1) by (rule list_all2_mono) (auto simp: decided_as_def)
  moreover have "set urls = se_url ` {e \<in> set (as_endpoints s'). selected scanner e}"
    using facts(5) assms(2) by (simp add: urls s')
  moreover have "\<not> selected scanner (complete_endpoint scanner r e)" for e
  proof -
    have "\<not> open_entry scanner (if open_entry scanner c then close_entry scanner r c else c)" for c
      using assms(3) by (simp add: open_entry_def close_entry_def)
    moreover have "se_coverage (complete_endpoint scanner r e)
        = map (\<lambda>c. if open_entry scanner c then close_entry scanner r c else c) (se_coverage e)"
      unfolding complete_endpoint_def by (simp del: if_split)
    ultimately show ?thesis unfolding selected_def by (simp only: none_after_map simp_thms)
  qed
  ultimately show ?thesis by (auto simp: complete_endpoint_coverage_def)
qed

section \<open>A surface\<close>

definition surface_env :: gateway_env where
  "surface_env = \<lparr>ge_gql = (\<lambda>q. None), ge_payload = (\<lambda>b. None), ge_sha = rev, ge_fuzz_json = (\<lambda>a. ''''),
     ge_scope_text = (\<lambda>r. ''scope''), ge_exclude_text = (\<lambda>r. ''excluded'')\<rparr>"

definition shop_scope :: app_scope where
  "shop_scope = new_app_scope [\<lparr>ao_target_id = ''web'', ao_scheme = ''https'', ao_host = ''shop.example'', ao_port = 0,
     ao_path_prefix = ''/''\<rparr>]
     [\<lparr>ex_target_id = '''', ex_origin = '''', ex_method = '''', ex_path_pattern = ''/admin'', ex_reason = ''live''\<rparr>]"

definition shop_endpoint :: "string \<Rightarrow> string \<Rightarrow> surface_endpoint option" where
  "shop_endpoint method url =
     normalize_surface_endpoint surface_env url method ''katana'' ''t'' 200 ''text/html'' (endpoint_parameters url) False False"

definition shop_surface :: attack_surface where
  "shop_surface = \<lparr>as_workflow = '''', as_hosts = [], as_services = [], as_definitions = [], as_gaps = [],
     as_classifier = AttackSurfaceClassifierVersion, as_scope = ''app:web'', as_target = ''https://shop.example'',
     as_generated_at = ''t'', as_raw_count = 4, as_checksum = '''',
     as_endpoints = List.map_filter id [shop_endpoint ''GET'' ''https://shop.example/list?q=1'',
       shop_endpoint ''GET'' ''https://shop.example/admin/users'', shop_endpoint ''POST'' ''https://shop.example/cart'',
       shop_endpoint ''GET'' ''https://other.example/''] \<rparr>"

text \<open>The crawl sees every endpoint; the parse against the scope then stamps each.\<close>

definition shop_observations :: "surface_endpoint list" where
  "shop_observations = as_endpoints shop_surface
     @ map (\<lambda>e. stamp_endpoint_state surface_env shop_scope (fst (allows shop_scope (se_url e))) ''no origin'' e)
         (as_endpoints shop_surface)"

theorem refused_observation_refuses_witness:
  "length (observe_endpoints shop_observations) = 4
   \<and> map (\<lambda>e. se_state e) (observe_endpoints shop_observations) = [''in_scope'', ''excluded'', ''in_scope'', ''out_of_scope'']
   \<and> distinct (map se_id (observe_endpoints shop_observations))
   \<and> (\<exists>i \<in> set shop_observations. se_id i = se_id (observe_endpoints shop_observations ! 1)
        \<and> \<not> endpoint_dispatchable (se_state i))"
proof (intro conjI)
  note applied = refused_observation_refuses [of shop_observations]
  show "distinct (map se_id (observe_endpoints shop_observations))" using applied by blast
  have "length (observe_endpoints shop_observations) = 4" by code_simp
  then have "observe_endpoints shop_observations ! 1 \<in> set (observe_endpoints shop_observations)" by (intro nth_mem) simp
  moreover have "\<not> endpoint_dispatchable (se_state (observe_endpoints shop_observations ! 1))" by code_simp
  ultimately show "\<exists>i \<in> set shop_observations. se_id i = se_id (observe_endpoints shop_observations ! 1)
        \<and> \<not> endpoint_dispatchable (se_state i)"
    using applied by blast
qed code_simp+

definition shop_pass :: "string list \<times> budget option \<times> attack_surface" where
  "shop_pass = dispatch_targets surface_env ''now'' ''nuclei'' 1 (Some shop_scope) False '''' None shop_surface"

definition shop_run :: endpoint_run where
  "shop_run = \<lparr>er_status = ''completed'', er_reason = '''', er_completeness = ''complete'', er_attempt_id = ''a1'',
     er_fingerprint = ''f'', er_artifact_path = ''out.json'', er_finished_at = ''later''\<rparr>"

lemma shop_pass_parts:
  "dispatch_targets surface_env ''now'' ''nuclei'' 1 (Some shop_scope) False '''' None shop_surface
     = (fst shop_pass, fst (snd shop_pass), snd (snd shop_pass))"
  by (simp add: shop_pass_def)

lemma shop_pass_urls: "fst shop_pass = [''https://shop.example/list?q=1'']"
  by code_simp

theorem dispatched_urls_confined_witness:
  "fst shop_pass = [''https://shop.example/list?q=1'']
   \<and> (\<exists>e \<in> set (as_endpoints shop_surface). se_url e = ''https://shop.example/list?q=1''
        \<and> excluded shop_scope (se_method e) ''https://shop.example/list?q=1'' = None)"
  using dispatched_urls_confined [OF shop_pass_parts] unfolding shop_pass_urls by auto

theorem every_endpoint_decided_witness:
  "map (\<lambda>e. map (\<lambda>c. (co_scanner c, co_status c)) (se_coverage e)) (as_endpoints (snd (snd shop_pass)))
     = [[(''nuclei'', ''dispatched'')], [(''nuclei'', ''skipped'')], [(''nuclei'', ''skipped'')], [(''nuclei'', ''skipped'')]]
   \<and> set (fst shop_pass) = se_url ` {e \<in> set (as_endpoints (snd (snd shop_pass))). selected ''nuclei'' e}
   \<and> list_all (\<lambda>e. \<not> selected ''nuclei'' e)
        (as_endpoints (complete_endpoint_coverage ''nuclei'' shop_run (snd (snd shop_pass))))"
proof (intro conjI)
  have "list_all one_entry_each (as_endpoints shop_surface)" by code_simp
  moreover have "coverage_status ''nuclei'' shop_run \<noteq> ''dispatched''" by code_simp
  ultimately show "set (fst shop_pass) = se_url ` {e \<in> set (as_endpoints (snd (snd shop_pass))). selected ''nuclei'' e}"
    and "list_all (\<lambda>e. \<not> selected ''nuclei'' e)
        (as_endpoints (complete_endpoint_coverage ''nuclei'' shop_run (snd (snd shop_pass))))"
    using every_endpoint_decided [OF shop_pass_parts] unfolding list_all_iff by blast+
qed code_simp

end
