(* ===== verification/JobProperties.thy ===== *)
theory JobProperties
  imports RunJobs SurfaceProperties
begin

text \<open>
  What the executor promises: a runner is called only for a job of the accepted plan whose prerequisites completed,
  with URLs inside the approved scope and with a verified session where one is bound; every job gets an answer; and
  nothing is sent while writes of an earlier execution are unresolved. The gates are chained through the locale
  \<open>gate_fact\<close>: what one gate establishes and the later ones keep holds for every job that passes.
\<close>

section \<open>Chains of gates\<close>

primrec answer_state :: "gate_answer \<Rightarrow> exec_state" where
  "answer_state (Answer st r) = st"
| "answer_state (Proceed st q) = st"

lemma run_gates_append:
  "run_gates (xs @ ys) m j st q =
     (case run_gates xs m j st q of Answer st' r \<Rightarrow> Answer st' r | Proceed st' q' \<Rightarrow> run_gates ys m j st' q')"
  by (induction xs arbitrary: st q) (simp_all split: gate_answer.split)

lemma run_gates_keeps:
  assumes "\<And>g st q st' q'. g \<in> set gs \<Longrightarrow> g m j st q = Proceed st' q' \<Longrightarrow> P st q \<Longrightarrow> P st' q'"
    and "run_gates gs m j st q = Proceed st' q'" and "P st q"
  shows "P st' q'"
  using assms
proof (induction gs arbitrary: st q)
  case (Cons g gs)
  obtain st1 q1 where g: "g m j st q = Proceed st1 q1" and rest: "run_gates gs m j st1 q1 = Proceed st' q'"
    using Cons.prems(2) by (auto split: gate_answer.splits)
  have step: "P s2 q2" if "h \<in> set (g # gs)" "h m j s1 q1 = Proceed s2 q2" "P s1 q1" for h s1 q1 s2 q2
    using Cons.prems(1) that by blast
  have "P st1 q1" using step [of g] g Cons.prems(3) by simp
  moreover have "P s2 q2" if "h \<in> set gs" "h m j s1 q1 = Proceed s2 q2" "P s1 q1" for h s1 q1 s2 q2
    using step [of h] that by simp
  ultimately show ?case using Cons.IH rest by blast
qed simp

lemma run_gates_state:
  assumes "\<And>g st q. g \<in> set gs \<Longrightarrow> f (answer_state (g m j st q)) = f st"
  shows "f (answer_state (run_gates gs m j st q)) = f st"
  using assms
proof (induction gs arbitrary: st q)
  case (Cons g gs)
  have g: "f (answer_state (g m j st q)) = f st" by (rule Cons.prems) simp
  have rest: "f (answer_state (run_gates gs m j st1 q1)) = f st1" for st1 q1
    by (rule Cons.IH, rule Cons.prems) simp
  show ?case using g rest by (cases "g m j st q") simp_all
qed simp

locale gate_fact =
  fixes gates :: "gate list" and n :: nat
    and fact :: "job_moment \<Rightarrow> plan_job \<Rightarrow> exec_state \<Rightarrow> job_request \<Rightarrow> bool"
  assumes index: "n < length gates"
    and establishes: "(gates ! n) m j st q = Proceed st' q' \<Longrightarrow> fact m j st' q'"
    and keeps: "g \<in> set (drop (Suc n) gates) \<Longrightarrow> g m j st q = Proceed st' q' \<Longrightarrow> fact m j st q \<Longrightarrow> fact m j st' q'"
begin

lemma fact_holds:
  assumes "run_gates gates m j st q = Proceed st' q'"
  shows "fact m j st' q'"
proof -
  have "run_gates (take n gates @ gates ! n # drop (Suc n) gates) m j st q = Proceed st' q'"
    using assms id_take_nth_drop [OF index] by simp
  then obtain st1 q1 where "run_gates (gates ! n # drop (Suc n) gates) m j st1 q1 = Proceed st' q'"
    by (auto simp: run_gates_append split: gate_answer.splits)
  then obtain st2 q2 where g: "(gates ! n) m j st1 q1 = Proceed st2 q2"
      and tail: "run_gates (drop (Suc n) gates) m j st2 q2 = Proceed st' q'"
    by (auto split: gate_answer.splits)
  show ?thesis
    using keeps tail establishes [OF g] by (rule run_gates_keeps [where P = "fact m j"])
qed

end

section \<open>What gates leave alone\<close>

lemma refresh_web_auth_keeps [simp]:
  "ex_outcomes (fst (refresh_web_auth env v tid st)) = ex_outcomes st"
  "ex_attempts (fst (refresh_web_auth env v tid st)) = ex_attempts st"
  "ex_checkpoint_failed (fst (refresh_web_auth env v tid st)) = ex_checkpoint_failed st"
  "ex_results (fst (refresh_web_auth env v tid st)) = ex_results st"
  by (simp_all add: refresh_web_auth_def split: option.split)

lemma set_surface_keeps [simp]:
  "ex_outcomes (set_surface tid so st) = ex_outcomes st"
  "ex_attempts (set_surface tid so st) = ex_attempts st"
  "ex_checkpoint_failed (set_surface tid so st) = ex_checkpoint_failed st"
  "ex_results (set_surface tid so st) = ex_results st"
  "ex_headers (set_surface tid so st) = ex_headers st"
  by (simp_all add: set_surface_def)

definition same_log :: "exec_state \<Rightarrow> exec_state \<Rightarrow> bool" where
  "same_log st st' \<longleftrightarrow> ex_outcomes st' = ex_outcomes st \<and> ex_attempts st' = ex_attempts st
     \<and> ex_checkpoint_failed st' = ex_checkpoint_failed st \<and> (\<exists>rs. ex_results st' = ex_results st @ rs)"

lemma same_log_refl [simp]: "same_log st st"
  by (simp add: same_log_def)

lemma same_log_trans [trans]: "same_log a b \<Longrightarrow> same_log b c \<Longrightarrow> same_log a c"
  by (auto simp: same_log_def)

lemma same_log_refresh [simp]: "same_log st (fst (refresh_web_auth env v tid st))"
  by (simp add: same_log_def)

lemma keep_crawl_log: "same_log st (keep_crawl env tid r st)"
  by (simp add: same_log_def keep_crawl_def)

lemma finish_crawl_log: "same_log st (fst (finish_crawl env p tid b st))"
  by (auto simp: finish_crawl_def Let_def split_beta same_log_def)

lemma crawl_target_log: "same_log st (fst (crawl_target_surface env p tid b st))"
proof -
  have "same_log st (keep_crawl env tid r (fst (finish_crawl env p tid b st)))" for r
    using finish_crawl_log keep_crawl_log same_log_trans by blast
  then show ?thesis
    using keep_crawl_log
    by (auto simp: crawl_target_surface_def Let_def split_beta split: option.split)
qed

lemma with_surface_log: "same_log (fst x) (fst (with_surface f x))"
  by (auto simp: with_surface_def same_log_def split_beta)

lemma discover_apis_log: "same_log (fst x) (fst (discover_apis env p t x))"
  by (auto simp: discover_apis_def same_log_def Let_def split_beta)

lemma do_when_log: "(\<And>x. same_log (fst x) (fst (f x))) \<Longrightarrow> same_log (fst x) (fst (do_when c f x))"
  by (simp add: do_when_def)

lemma on_surface_log [simp]: "fst (on_surface f x) = fst x"
  by (simp add: on_surface_def)

lemma discovery_stages_log: "f \<in> set (discovery_stages env p t b tools) \<Longrightarrow> same_log (fst x) (fst (f x))"
proof -
  have zap: "same_log (fst y) (fst (with_surface (pm_zap p) (on_surface (pm_seal p) y)))" for y
    using with_surface_log [of "on_surface (pm_seal p) y"] by simp
  assume "f \<in> set (discovery_stages env p t b tools)"
  then show ?thesis
    by (auto simp: discovery_stages_def do_when_def intro: zap with_surface_log discover_apis_log)
qed

lemma stages_log:
  "(\<And>f x. f \<in> set fs \<Longrightarrow> same_log (fst x) (fst (f x))) \<Longrightarrow> same_log (fst x) (fst (fold (\<lambda>f. f) fs x))"
proof (induction fs arbitrary: x)
  case (Cons f fs)
  have "same_log (fst x) (fst (f x))" using Cons.prems by simp
  also have "same_log (fst (f x)) (fst (fold (\<lambda>f. f) fs (f x)))" by (rule Cons.IH) (simp add: Cons.prems)
  finally show ?case by simp
qed simp

lemma verify_target_log: "same_log st (verify_target env p tid b st)"
  by (auto simp: verify_target_def same_log_def split_beta Let_def)

lemma set_surface_log: "same_log st st' \<Longrightarrow> same_log st (set_surface tid so st')"
  by (simp add: same_log_def)

lemma prepare_surface_log: "same_log st (prepare_surface env p t st)"
proof (cases "web_kind (tgt_kind t)")
  case False
  then show ?thesis by (simp add: prepare_surface_def same_log_def)
next
  case True
  define st1 where "st1 = st\<lparr>ex_prepared := (ex_prepared st)(tgt_id t := True)\<rparr>"
  define bound where "bound = web_auth_bound (cfg_access (plan_config env)) (tgt_id t)"
  obtain st3 found where crawl: "crawl_target_surface env p (tgt_id t) bound (verify_target env p (tgt_id t) bound st1) = (st3, found)"
    by fastforce
  have "same_log st st1" by (simp add: st1_def same_log_def)
  also have "same_log st1 (verify_target env p (tgt_id t) bound st1)" by (rule verify_target_log)
  also have "same_log (verify_target env p (tgt_id t) bound st1) st3"
    using crawl_target_log [of _ env p "tgt_id t" bound] crawl by (metis fst_conv)
  finally have three: "same_log st st3" .
  have "same_log st (fst (fold (\<lambda>f. f) (discovery_stages env p t bound tools) (st3, s)))" for tools s
  proof -
    have "same_log (fst (st3, s)) (fst (fold (\<lambda>f. f) (discovery_stages env p t bound tools) (st3, s)))"
      by (rule stages_log) (rule discovery_stages_log)
    then show ?thesis using three same_log_trans by fastforce
  qed
  then show ?thesis
    using True crawl set_surface_log by (simp add: prepare_surface_def st1_def [symmetric] bound_def [symmetric] Let_def)
qed

lemma dispatch_job_log [simp]: "same_log st (snd (dispatch_job env m j q st))"
  by (auto simp: dispatch_job_def same_log_def split: option.split prod.split)

lemma bind_targets_log: "same_log a st \<Longrightarrow> same_log a (answer_state (bind_targets j q urls st))"
  by (simp add: bind_targets_def Let_def split_beta set_surface_log)

lemma complete_coverage_log: "same_log a st \<Longrightarrow> same_log a (complete_coverage j r st)"
  by (simp add: complete_coverage_def set_surface_log)

lemma gate_identity_log: "same_log st (answer_state (gate_identity env m j st q))"
  by (auto simp: gate_identity_def same_log_def Let_def split: prod.splits option.splits bool.splits)

lemma gate_login_log: "same_log st (answer_state (gate_login env m j st q))"
  by (simp add: gate_login_def same_log_def Let_def split_beta)

lemma gate_crawl_log: "same_log st (answer_state (gate_crawl env m j st q))"
  using prepare_surface_log by (auto simp: gate_crawl_def Let_def split: option.splits)

lemma gate_session_log: "same_log st (answer_state (gate_session env m j st q))"
proof -
  obtain st1 ok where r: "refresh_web_auth env (jm_verify m) (pj_target_id j) st = (st1, ok)" by fastforce
  then have "same_log st st1" using same_log_refresh [of st env "jm_verify m" "pj_target_id j"] by simp
  then show ?thesis using r by (cases ok) (simp_all add: gate_session_def Let_def same_log_def)
qed

lemma gate_inventory_log: "same_log st (answer_state (gate_inventory env m j st q))"
proof -
  have "same_log st (if c then (case so of None \<Rightarrow> st | Some t \<Rightarrow> prepare_surface env p t st) else st)" for c so p
    using prepare_surface_log by (auto split: option.split)
  then show ?thesis by (simp add: gate_inventory_def Let_def set_surface_log)
qed

lemma gate_resources_log: "answer_state (gate_resources env m j st q) = st"
  by (simp add: gate_resources_def Let_def split: option.split)

lemma gate_targets_log: "same_log st (answer_state (gate_targets env m j st q))"
proof (cases "native_job j")
  case True
  then show ?thesis by (auto simp: gate_targets_def set_surface_log intro!: bind_targets_log split: sum.split)
next
  case False
  then show ?thesis
    using dispatch_job_log [of st env m j q] by (simp add: gate_targets_def split_beta bind_targets_log)
qed

lemma gate_attempt_log: "answer_state (gate_attempt env m j st q) = st"
  by (simp add: gate_attempt_def Let_def split: sum.split option.split)

lemma gate_log: "g \<in> set (job_gates env why) \<Longrightarrow> same_log st (answer_state (g m j st q))"
  unfolding job_gates_def
  by (auto simp: gate_identity_log gate_login_log gate_crawl_log gate_session_log gate_inventory_log gate_resources_log
      gate_targets_log gate_attempt_log complete_coverage_log gate_checkpoint_def gate_dependencies_def gate_selected_def
      gate_reuse_def gate_credentials_def gate_checkout_def gate_conditional_def gate_deadline_def gate_runner_def
      gate_cancelled_def gate_gateway_def Let_def same_log_def [of st "st\<lparr>ex_checkouts := x\<rparr>" for x]
      same_log_def [of st "st\<lparr>ex_deadlines := x\<rparr>" for x] split: option.splits sum.splits)

lemma gates_log: "same_log st (answer_state (run_gates gs m j st q))"
  if "set gs \<subseteq> set (job_gates env why)"
  using that
proof (induction gs arbitrary: st q)
  case (Cons g gs)
  have g: "same_log st (answer_state (g m j st q))" by (rule gate_log [of g env why]) (use Cons.prems in simp)
  show ?case
  proof (cases "g m j st q")
    case (Proceed st1 q1)
    then show ?thesis using g Cons.IH [of st1 q1] Cons.prems same_log_trans by auto
  qed (use g in simp)
qed simp


section \<open>What a job that passes has shown\<close>

lemma later_gate: "g \<in> set (drop n (job_gates env why)) \<Longrightarrow> g \<in> set (job_gates env why)"
  by (rule in_set_dropD)

lemma passed_log:
  assumes "g \<in> set (job_gates env why)" and "g m j st q = Proceed st' q'"
  shows "ex_outcomes st' = ex_outcomes st \<and> ex_checkpoint_failed st' = ex_checkpoint_failed st"
  using gate_log [OF assms(1), of st m j q] assms(2) by (simp add: same_log_def)

lemmas pass_splits = if_splits option.splits sum.splits prod.splits

interpretation checkpoint: gate_fact "job_gates env why" 0 "\<lambda>m j st q. \<not> ex_checkpoint_failed st" for env why
proof unfold_locales
  show "0 < length (job_gates env why)" by (simp add: job_gates_def)
  show "\<not> ex_checkpoint_failed st'" if "(job_gates env why ! 0) m j st q = Proceed st' q'" for m j st q st' q'
    using that by (auto simp: job_gates_def gate_checkpoint_def split: if_splits)
  show "\<not> ex_checkpoint_failed st'"
    if "g \<in> set (drop (Suc 0) (job_gates env why))" "g m j st q = Proceed st' q'" "\<not> ex_checkpoint_failed st"
    for g m j st q st' q'
    using passed_log [OF later_gate [OF that(1)] that(2)] that(3) by simp
qed

interpretation prerequisite: gate_fact "job_gates env why" 1 "\<lambda>m j st q. failed_dependency st j = None" for env why
proof unfold_locales
  show "1 < length (job_gates env why)" by (simp add: job_gates_def)
  show "failed_dependency st' j = None" if "(job_gates env why ! 1) m j st q = Proceed st' q'" for m j st q st' q'
    using that by (auto simp: job_gates_def gate_dependencies_def split: option.splits)
  show "failed_dependency st' j = None"
    if "g \<in> set (drop (Suc 1) (job_gates env why))" "g m j st q = Proceed st' q'" "failed_dependency st j = None"
    for g m j st q st' q'
    using passed_log [OF later_gate [OF that(1)] that(2)] that(3) by (simp add: failed_dependency_def)
qed

interpretation chosen: gate_fact "job_gates env why" 5 "\<lambda>m j st q. pj_state j \<in> {PlanSelected, PlanConditional}" for env why
  by unfold_locales (auto simp: job_gates_def gate_selected_def split: if_splits)

text \<open>The fields of the request that no later gate touches.\<close>

definition same_bounds :: "job_request \<Rightarrow> job_request \<Rightarrow> bool" where
  "same_bounds q q' \<longleftrightarrow> qr_app_scope q' = qr_app_scope q \<and> qr_scope q' = qr_scope q \<and> qr_target_id q' = qr_target_id q"

lemma bind_targets_pass:
  assumes "bind_targets j q urls st = Proceed st' q'"
  shows "same_bounds q q' \<and> qr_target_auth q' = qr_target_auth q \<and> qr_auth_context q' = qr_auth_context q
    \<and> qr_target q' = qr_target q \<and> ex_headers st' = ex_headers st"
  using assms by (auto simp: bind_targets_def Let_def same_bounds_def split: prod.splits)

lemma dispatch_job_headers [simp]: "ex_headers (snd (dispatch_job env m j q st)) = ex_headers st"
  by (auto simp: dispatch_job_def split: option.split prod.split)

lemma gate_identity_pass:
  "gate_identity env m j st q = Proceed st' q' \<Longrightarrow>
     same_bounds q q' \<and> ex_headers st' = ex_headers st \<and> (pj_ctx_id j = '''' \<longrightarrow> q' = q)"
  by (auto simp: gate_identity_def Let_def same_bounds_def apply_identity_def split: pass_splits bool.splits)

lemma gate_session_pass:
  "gate_session env m j st q = Proceed st' q' \<Longrightarrow> q' = q \<and> (pj_ctx_id j \<noteq> '''' \<longrightarrow> ex_headers st' = ex_headers st)"
  by (auto simp: gate_session_def Let_def split: pass_splits bool.splits)

lemma gate_inventory_pass:
  "gate_inventory env m j st q = Proceed st' q' \<Longrightarrow>
     same_bounds q q' \<and> qr_target_auth q' = qr_target_auth q \<and> qr_auth_context q' = qr_auth_context q
     \<and> (pj_ctx_id j = '''' \<longrightarrow> ex_headers st' = ex_headers st)"
  by (auto simp: gate_inventory_def Let_def same_bounds_def split: if_splits)

lemma gate_targets_pass:
  "gate_targets env m j st q = Proceed st' q' \<Longrightarrow>
     same_bounds q q' \<and> qr_target_auth q' = qr_target_auth q \<and> qr_auth_context q' = qr_auth_context q
     \<and> ex_headers st' = ex_headers st"
proof (cases "native_job j")
  case True
  assume "gate_targets env m j st q = Proceed st' q'"
  then obtain inputs urls so where "bind_targets j (q\<lparr>qr_inputs := inputs\<rparr>) urls (set_surface (pj_target_id j) so st) = Proceed st' q'"
    using True by (auto simp: gate_targets_def split: sum.splits)
  then show ?thesis by (auto dest!: bind_targets_pass simp: same_bounds_def)
next
  case False
  assume "gate_targets env m j st q = Proceed st' q'"
  then have "bind_targets j q (fst (dispatch_job env m j q st)) (snd (dispatch_job env m j q st)) = Proceed st' q'"
    using False by (simp add: gate_targets_def split_beta)
  then show ?thesis by (auto dest!: bind_targets_pass)
qed

lemma quiet_gates_pass:
  assumes "g \<in> {gate_checkpoint env, gate_dependencies env, gate_login env, gate_crawl env, gate_selected env why,
      gate_reuse env, gate_resources env, gate_checkout env, gate_conditional env, gate_deadline env, gate_runner env,
      gate_cancelled env, gate_attempt env, gate_gateway env}"
    and "g m j st q = Proceed st' q'"
  shows "same_bounds q q' \<and> qr_target_auth q' = qr_target_auth q \<and> qr_auth_context q' = qr_auth_context q
    \<and> ex_headers st' = ex_headers st"
  using assms
  by (auto simp: gate_checkpoint_def gate_dependencies_def gate_login_def gate_crawl_def gate_selected_def gate_reuse_def
      gate_resources_def gate_checkout_def gate_conditional_def gate_deadline_def gate_runner_def gate_cancelled_def
      gate_attempt_def gate_gateway_def Let_def same_bounds_def split: pass_splits)

lemma gate_credentials_pass:
  "gate_credentials env m j st q = Proceed st' q' \<Longrightarrow>
     same_bounds q q' \<and> st' = st \<and> qr_auth_context q' = qr_auth_context q \<and> (pj_ctx_id j \<noteq> '''' \<longrightarrow> q' = q)
     \<and> (pj_ctx_id j = '''' \<and> ex_headers st (pj_target_id j) \<noteq> [] \<and> scanner_uses_web_auth (pj_scanner j)
        \<longrightarrow> qr_target_auth q' = join_on [CHR 0x0A] (ex_headers st (pj_target_id j)))"
  by (auto simp: gate_credentials_def Let_def same_bounds_def)

lemma job_gate_cases:
  assumes "g \<in> set (job_gates env why)"
  obtains (identity) "g = gate_identity env" | (session) "g = gate_session env" | (inventory) "g = gate_inventory env"
    | (credentials) "g = gate_credentials env" | (targets) "g = gate_targets env"
    | (quiet) "g \<in> {gate_checkpoint env, gate_dependencies env, gate_login env, gate_crawl env, gate_selected env why,
      gate_reuse env, gate_resources env, gate_checkout env, gate_conditional env, gate_deadline env, gate_runner env,
      gate_cancelled env, gate_attempt env, gate_gateway env}"
  using assms unfolding job_gates_def by auto

lemma gates_keep_bounds:
  assumes "g \<in> set (job_gates env why)" and "g m j st q = Proceed st' q'"
  shows "same_bounds q q'"
  using assms(1)
proof (cases rule: job_gate_cases)
  case identity
  then show ?thesis using assms(2) gate_identity_pass by blast
next
  case session
  then show ?thesis using gate_session_pass [of env m j st q st' q'] assms(2) by (simp add: same_bounds_def)
next
  case inventory
  then show ?thesis using assms(2) gate_inventory_pass by blast
next
  case credentials
  then show ?thesis using assms(2) gate_credentials_pass by blast
next
  case targets
  then show ?thesis using assms(2) gate_targets_pass by blast
next
  case quiet
  then show ?thesis using quiet_gates_pass [OF quiet assms(2)] by blast
qed

lemma passed_bounds:
  assumes "run_gates (job_gates env why) m j st (first_request env j) = Proceed st' q'"
  shows "qr_app_scope q' = app_scope_of env (pj_target_id j) \<and> qr_scope q' = job_scope j \<and> qr_target_id q' = pj_target_id j"
proof -
  have "same_bounds (first_request env j) q'"
    using assms
  proof (rule run_gates_keeps [where P = "\<lambda>st q. same_bounds (first_request env j) q", rotated])
    show "same_bounds (first_request env j) (first_request env j)" by (simp add: same_bounds_def)
    show "same_bounds (first_request env j) q'"
      if "g \<in> set (job_gates env why)" "g m j st q = Proceed st' q'" "same_bounds (first_request env j) q" for g st q st' q'
      using gates_keep_bounds [OF that(1,2)] that(3) by (simp add: same_bounds_def)
  qed
  then show ?thesis by (simp add: same_bounds_def first_request_def Let_def)
qed

section \<open>Sessions and targets of a job that passes\<close>

lemma refresh_identity_verified:
  "refresh_identity v tid cid as = (bs, Some a, True) \<Longrightarrow>
     ac_target_id a = tid \<and> ac_id a = cid \<and> ac_state a = Some StateVerified \<and> ac_headers a \<noteq> [] \<and> (\<exists>hs. v hs = Some (ac_headers a))"
  by (induction as arbitrary: bs) (auto simp: Let_def split: if_splits option.splits prod.splits)

text \<open>The request carries the headers that the renewal of its own named identity just gave.\<close>

definition own_identity :: "job_moment \<Rightarrow> plan_job \<Rightarrow> exec_state \<Rightarrow> job_request \<Rightarrow> bool" where
  "own_identity m j st q \<longleftrightarrow> pj_ctx_id j = '''' \<or>
     (\<exists>old hs. jm_verify m old = Some hs \<and> hs \<noteq> [] \<and> qr_target_auth q = join_on [CHR 0x0A] hs
        \<and> qr_auth_context q = pj_ctx_id j)"

lemma gate_identity_own:
  assumes "gate_identity env m j st q = Proceed st' q'"
  shows "own_identity m j st' q'"
proof (cases "pj_ctx_id j = ''''")
  case False
  then obtain bs a where r: "refresh_identity (jm_verify m) (pj_target_id j) (pj_ctx_id j) (ex_contexts st) = (bs, Some a, True)"
      and q: "q' = apply_identity a q"
    using assms by (auto simp: gate_identity_def Let_def split: pass_splits bool.splits)
  obtain old where "jm_verify m old = Some (ac_headers a)" "ac_headers a \<noteq> []" "ac_id a = pj_ctx_id j"
    using refresh_identity_verified [OF r] by blast
  then show ?thesis unfolding own_identity_def using q by (auto simp: apply_identity_def)
qed (simp add: own_identity_def)

lemma auth_kept:
  assumes "g \<in> set (drop 3 (job_gates env why))" and "g m j st q = Proceed st' q'" and "pj_ctx_id j \<noteq> ''''"
  shows "qr_target_auth q' = qr_target_auth q \<and> qr_auth_context q' = qr_auth_context q"
proof -
  consider "g = gate_session env" | "g = gate_inventory env" | "g = gate_credentials env" | "g = gate_targets env"
    | "g \<in> {gate_checkpoint env, gate_dependencies env, gate_login env, gate_crawl env, gate_selected env why,
      gate_reuse env, gate_resources env, gate_checkout env, gate_conditional env, gate_deadline env, gate_runner env,
      gate_cancelled env, gate_attempt env, gate_gateway env}"
    using assms(1) unfolding job_gates_def by auto
  then show ?thesis
  proof cases
    case 1
    then show ?thesis using gate_session_pass [of env m j st q st' q'] assms(2) by simp
  next
    case 2
    then show ?thesis using gate_inventory_pass [of env m j st q st' q'] assms(2) by simp
  next
    case 3
    then show ?thesis using gate_credentials_pass [of env m j st q st' q'] assms(2,3) by simp
  next
    case 4
    then show ?thesis using gate_targets_pass [of env m j st q st' q'] assms(2) by simp
  next
    case 5
    then show ?thesis using quiet_gates_pass [OF 5 assms(2)] by simp
  qed
qed

interpretation identity: gate_fact "job_gates env why" 2 own_identity for env why
proof unfold_locales
  show "2 < length (job_gates env why)" by (simp add: job_gates_def)
  show "own_identity m j st' q'" if "(job_gates env why ! 2) m j st q = Proceed st' q'" for m j st q st' q'
    using that gate_identity_own by (simp add: job_gates_def)
  show "own_identity m j st' q'"
    if "g \<in> set (drop (Suc 2) (job_gates env why))" "g m j st q = Proceed st' q'" "own_identity m j st q"
    for g m j st q st' q'
  proof (cases "pj_ctx_id j = ''''")
    case False
    have "g \<in> set (drop 3 (job_gates env why))" using that(1) by (simp only: eval_nat_numeral)
    then have "qr_target_auth q' = qr_target_auth q \<and> qr_auth_context q' = qr_auth_context q"
      using auth_kept that(2) False by blast
    then show ?thesis using that(3) by (simp add: own_identity_def)
  qed (simp add: own_identity_def)
qed

text \<open>A bound session was verified for this job, and its headers are those that are sent.\<close>

definition session_job :: "exec_env \<Rightarrow> plan_job \<Rightarrow> bool" where
  "session_job env j \<longleftrightarrow> pj_ctx_id j = '''' \<and> web_bound env j \<and> scanner_uses_web_auth (pj_scanner j)"

definition session_alive :: "exec_env \<Rightarrow> job_moment \<Rightarrow> plan_job \<Rightarrow> exec_state \<Rightarrow> job_request \<Rightarrow> bool" where
  "session_alive env m j st q \<longleftrightarrow> \<not> session_job env j \<or>
     ex_headers st (pj_target_id j) \<noteq> [] \<and> (\<exists>old. jm_verify m old = Some (ex_headers st (pj_target_id j)))"

definition session_sent :: "plan_job \<Rightarrow> exec_state \<Rightarrow> job_request \<Rightarrow> bool" where
  "session_sent j st q \<longleftrightarrow>
     (pj_ctx_id j = '''' \<and> scanner_uses_web_auth (pj_scanner j) \<and> ex_headers st (pj_target_id j) \<noteq> []
      \<longrightarrow> qr_target_auth q = join_on [CHR 0x0A] (ex_headers st (pj_target_id j)))"

lemma refresh_web_auth_verified:
  "refresh_web_auth env v tid st = (st', True) \<Longrightarrow> ex_headers st' tid \<noteq> [] \<and> (\<exists>old. v old = Some (ex_headers st' tid))"
  by (auto simp: refresh_web_auth_def split: if_splits option.splits)

lemma gate_session_alive: "gate_session env m j st q = Proceed st' q' \<Longrightarrow> session_alive env m j st' q'"
  by (auto simp: gate_session_def session_alive_def session_job_def Let_def dest!: refresh_web_auth_verified
      split: if_splits prod.splits bool.splits)

lemma headers_kept:
  assumes "g \<in> set (drop 7 (job_gates env why))" and "g m j st q = Proceed st' q'" and "pj_ctx_id j = ''''"
  shows "ex_headers st' = ex_headers st \<and> (g \<noteq> gate_credentials env \<longrightarrow> qr_target_auth q' = qr_target_auth q)"
proof -
  consider "g = gate_inventory env" | "g = gate_credentials env" | "g = gate_targets env"
    | "g \<in> {gate_checkpoint env, gate_dependencies env, gate_login env, gate_crawl env, gate_selected env why,
      gate_reuse env, gate_resources env, gate_checkout env, gate_conditional env, gate_deadline env, gate_runner env,
      gate_cancelled env, gate_attempt env, gate_gateway env}"
    using assms(1) unfolding job_gates_def by auto
  then show ?thesis
  proof cases
    case 1
    then show ?thesis using gate_inventory_pass [of env m j st q st' q'] assms(2,3) by simp
  next
    case 2
    then show ?thesis using gate_credentials_pass [of env m j st q st' q'] assms(2) by simp
  next
    case 3
    then show ?thesis using gate_targets_pass [of env m j st q st' q'] assms(2) by simp
  next
    case 4
    then show ?thesis using quiet_gates_pass [OF 4 assms(2)] by simp
  qed
qed

interpretation session: gate_fact "job_gates env why" 6 "session_alive env" for env why
proof unfold_locales
  show "6 < length (job_gates env why)" by (simp add: job_gates_def)
  show "session_alive env m j st' q'" if "(job_gates env why ! 6) m j st q = Proceed st' q'" for m j st q st' q'
    using that gate_session_alive by (simp add: job_gates_def)
  show "session_alive env m j st' q'"
    if "g \<in> set (drop (Suc 6) (job_gates env why))" "g m j st q = Proceed st' q'" "session_alive env m j st q"
    for g m j st q st' q'
    using that headers_kept [of g env why m j st q st' q'] by (auto simp: session_alive_def session_job_def)
qed

interpretation credentials: gate_fact "job_gates env why" 9 "\<lambda>m. session_sent" for env why
proof unfold_locales
  show "9 < length (job_gates env why)" by (simp add: job_gates_def)
  show "session_sent j st' q'" if "(job_gates env why ! 9) m j st q = Proceed st' q'" for m j st q st' q'
    using that gate_credentials_pass [of env m j st q st' q'] by (auto simp: job_gates_def session_sent_def)
  show "session_sent j st' q'"
    if "g \<in> set (drop (Suc 9) (job_gates env why))" "g m j st q = Proceed st' q'" "session_sent j st q"
    for g m j st q st' q'
  proof (cases "pj_ctx_id j = ''''")
    case True
    have "g \<in> set (drop 3 (drop 7 (job_gates env why)))" using that(1) by simp
    then have "g \<in> set (drop 7 (job_gates env why))" by (rule in_set_dropD)
    then have kept: "ex_headers st' = ex_headers st \<and> (g \<noteq> gate_credentials env \<longrightarrow> qr_target_auth q' = qr_target_auth q)"
      using headers_kept that(2) True by blast
    show ?thesis
    proof (cases "g = gate_credentials env")
      case True
      then show ?thesis using that(2) gate_credentials_pass [of env m j st q st' q'] by (auto simp: session_sent_def)
    qed (use kept that(3) in \<open>simp add: session_sent_def\<close>)
  qed (simp add: session_sent_def)
qed


text \<open>The URLs of a request: inside the scope of the target and not excluded for some method the dispatch allows, and,
  when a session goes along, on the origin of the target.\<close>

definition within_scope :: "app_scope \<Rightarrow> string \<Rightarrow> bool" where
  "within_scope sc u \<longleftrightarrow> fst (allows sc u) \<and> \<not> has_placeholder_path u
     \<and> list_ex (\<lambda>method. excluded sc method u = None) [''GET'', ''HEAD'', ''OPTIONS'', ''POST'']"

definition urls_in_scope :: "job_request \<Rightarrow> bool" where
  "urls_in_scope q \<longleftrightarrow>
     (case qr_app_scope q of None \<Rightarrow> True | Some sc \<Rightarrow> list_all (within_scope sc) (qr_endpoint_targets q))"

definition credentials_at_home :: "job_request \<Rightarrow> bool" where
  "credentials_at_home q \<longleftrightarrow> qr_app_scope q = None \<or> qr_target_auth q = '''' \<or>
     (case parse_approved_origin '''' (qr_target q) of
        Inl e \<Rightarrow> qr_endpoint_targets q = []
      | Inr bound \<Rightarrow> list_all (same_origin_as bound) (qr_endpoint_targets q))"

lemma safe_method_named: "safe_method x scanner e \<Longrightarrow> se_method e \<in> set [''GET'', ''HEAD'', ''OPTIONS'', ''POST'']"
  by (auto simp: safe_method_def)

lemma dispatch_job_confined:
  assumes "dispatch_job env m j q st = (urls, st')" and "qr_app_scope q = Some sc" and "u \<in> set urls"
  shows "within_scope sc u"
proof -
  obtain s where s: "ex_surfaces st (pj_target_id j) = Some s"
    using assms(1,3) by (auto simp: dispatch_job_def split: option.splits)
  obtain u1 b1 s1 where d: "dispatch_targets (xv_gateway env) (jm_now m) (pj_scanner j)
      (endpoint_dispatch_limit (pj_scanner j) (xv_max_endpoints env) (xv_expanded env)) (Some sc) (xv_expanded env)
      (qr_auth_context q) (ex_budget st) s = (u1, b1, s1)"
    using prod_cases3 by blast
  then have "urls = u1" using assms(1,2) s by (simp add: dispatch_job_def)
  then obtain e where e: "fst (allows sc u)" "excluded sc (se_method e) u = None" "\<not> has_placeholder_path u"
      "safe_method (xv_expanded env) (pj_scanner j) e"
    using dispatch_targets_confined [OF d] assms(3) by blast
  then show ?thesis using safe_method_named [OF e(4)] by (auto simp: within_scope_def list_ex_iff)
qed

lemma constrained_urls:
  "set (fst (constrain_credential_targets auth scope target scanner urls so)) \<subseteq> set urls"
  by (auto simp: constrain_credential_targets_def split: sum.split)

lemma bind_targets_confined:
  assumes "bind_targets j q urls st = Proceed st' q'"
  shows "set (qr_endpoint_targets q') \<subseteq> set urls" and "credentials_at_home q'"
proof -
  obtain kept so where c: "constrain_credential_targets (qr_target_auth q) (qr_app_scope q) (qr_target q) (pj_scanner j) urls
      (ex_surfaces st (pj_target_id j)) = (kept, so)" by fastforce
  have q': "qr_endpoint_targets q' = kept" "qr_app_scope q' = qr_app_scope q" "qr_target_auth q' = qr_target_auth q"
      "qr_target q' = qr_target q"
    using assms c by (auto simp: bind_targets_def Let_def)
  show "set (qr_endpoint_targets q') \<subseteq> set urls"
    using constrained_urls [of "qr_target_auth q" "qr_app_scope q" "qr_target q" "pj_scanner j" urls
        "ex_surfaces st (pj_target_id j)"] by (simp add: c q'(1))
  show "credentials_at_home q'"
    using c by (auto simp: credentials_at_home_def q' constrain_credential_targets_def list_all_iff split: if_splits sum.splits)
qed

definition targets_bound :: "plan_job \<Rightarrow> job_request \<Rightarrow> bool" where
  "targets_bound j q \<longleftrightarrow> (native_job j \<or> urls_in_scope q) \<and> credentials_at_home q"

lemma gate_targets_bound:
  assumes "gate_targets env m j st q = Proceed st' q'"
  shows "targets_bound j q'"
proof (cases "native_job j")
  case True
  then show ?thesis using assms bind_targets_confined(2) by (auto simp: gate_targets_def targets_bound_def split: sum.splits)
next
  case False
  obtain urls st1 where d: "dispatch_job env m j q st = (urls, st1)" by fastforce
  then have b: "bind_targets j q urls st1 = Proceed st' q'" using assms False by (simp add: gate_targets_def)
  have scope: "qr_app_scope q' = qr_app_scope q" using bind_targets_pass [OF b] by (simp add: same_bounds_def)
  have "urls_in_scope q'"
  proof (cases "qr_app_scope q")
    case (Some sc)
    then have "within_scope sc u" if "u \<in> set (qr_endpoint_targets q')" for u
      using dispatch_job_confined [OF d] bind_targets_confined(1) [OF b] that by blast
    then show ?thesis using Some scope by (auto simp: urls_in_scope_def list_all_iff)
  qed (simp add: urls_in_scope_def scope)
  then show ?thesis using bind_targets_confined(2) [OF b] by (simp add: targets_bound_def)
qed

lemma last_gates_pass:
  assumes "g \<in> {gate_cancelled env, gate_attempt env, gate_gateway env}" and "g m j st q = Proceed st' q'"
  shows "st' = st \<and> qr_endpoint_targets q' = qr_endpoint_targets q \<and> qr_app_scope q' = qr_app_scope q
    \<and> qr_target_auth q' = qr_target_auth q \<and> qr_target q' = qr_target q"
  using assms by (auto simp: gate_cancelled_def gate_attempt_def gate_gateway_def Let_def split: pass_splits)

interpretation targets: gate_fact "job_gates env why" 15 "\<lambda>m j st. targets_bound j" for env why
proof unfold_locales
  show "15 < length (job_gates env why)" by (simp add: job_gates_def)
  show "targets_bound j q'" if "(job_gates env why ! 15) m j st q = Proceed st' q'" for m j st q st' q'
    using that gate_targets_bound by (simp add: job_gates_def)
  show "targets_bound j q'"
    if "g \<in> set (drop (Suc 15) (job_gates env why))" "g m j st q = Proceed st' q'" "targets_bound j q"
    for g m j st q st' q'
  proof -
    have "g \<in> {gate_cancelled env, gate_attempt env, gate_gateway env}" using that(1) by (simp add: job_gates_def)
    then have e: "qr_endpoint_targets q' = qr_endpoint_targets q" "qr_app_scope q' = qr_app_scope q"
        "qr_target_auth q' = qr_target_auth q" "qr_target q' = qr_target q"
      using last_gates_pass [of g env m j st q st' q'] that(2) by simp_all
    show ?thesis using that(3) unfolding targets_bound_def urls_in_scope_def credentials_at_home_def e .
  qed
qed

end
