(* ===== verification/JobRuns.thy ===== *)
theory JobRuns
  imports JobProperties "HOL-Library.Sublist"
begin

text \<open>
  Executions of a plan: invariants of the loop over the jobs (by induction on the jobs handled so far), and what they
  say of the results and of the runners' calls of a whole execution.
\<close>

section \<open>What one job does to the log\<close>

lemma note_history_log: "same_log st (note_history env m j r st)"
  by (simp add: note_history_def same_log_def Let_def split: option.split)

lemma authenticated_run_log: "same_log st (fst (authenticated_run env m j q st r))"
  by (auto simp: authenticated_run_def refresh_run_identity_def same_log_def refresh_web_auth_def Let_def
      split: option.splits prod.splits bool.splits if_splits)

lemma execute_attempt_log:
  "same_log (st\<lparr>ex_attempts := ex_attempts st @ [(j, q)]\<rparr>) (fst (execute_attempt env m later j st q))"
proof -
  let ?st1 = "st\<lparr>ex_attempts := ex_attempts st @ [(j, q)]\<rparr>"
  obtain st2 r1 where a: "authenticated_run env m j q ?st1
      (ended_run env m later j ?st1 q ((gateway_result m q (attempt_run env m j q))\<lparr>jr_inputs_path := ''input-manifest.json''\<rparr>))
      = (st2, r1)" by fastforce
  have "same_log ?st1 st2" using authenticated_run_log [of ?st1 env m j q] a by (metis fst_conv)
  also have "same_log st2 (note_history env m j (labelled_run env j q r1) st2)" by (rule note_history_log)
  finally show ?thesis using a by (simp add: execute_attempt_def Let_def complete_coverage_log)
qed

definition stored_run :: "exec_env \<Rightarrow> job_moment \<Rightarrow> plan_job \<Rightarrow> job_run \<Rightarrow> job_run" where
  "stored_run env m j r =
     (case jm_checkpoint m of
        None \<Rightarrow> recorded_run env j r
      | Some e \<Rightarrow> (recorded_run env j r)\<lparr>jr_status := ''failed'', jr_gap := GapInterruptedWrite,
                    jr_reason := ''workflow checkpoint could not be stored: '' @ e\<rparr>)"

lemma append_outcome_log [simp]:
  "ex_results (append_outcome env m j r st) = ex_results st @ [stored_run env m j r]"
  "ex_outcomes (append_outcome env m j r st) = (ex_outcomes st)(pj_id j := Some (stored_run env m j r))"
  "ex_checkpoint_failed (append_outcome env m j r st) \<longleftrightarrow> ex_checkpoint_failed st \<or> jm_checkpoint m \<noteq> None"
  "ex_attempts (append_outcome env m j r st) = ex_attempts st"
  by (simp_all add: append_outcome_def stored_run_def Let_def split: option.split)

text \<open>A job leaves one outcome; it is answered by a gate, or passes them all and is one attempt.\<close>

lemma run_job_cases:
  obtains (answered) st1 r where "run_gates (job_gates env why) m j st (first_request env j) = Answer st1 r"
      and "same_log st st1" and "run_job env why m later j st = append_outcome env m j r st1"
  | (attempted) st1 q st2 r where "run_gates (job_gates env why) m j st (first_request env j) = Proceed st1 q"
      and "same_log st st1" and "execute_attempt env m later j st1 q = (st2, r)"
      and "same_log (st1\<lparr>ex_attempts := ex_attempts st1 @ [(j, q)]\<rparr>) st2"
      and "run_job env why m later j st = append_outcome env m j r st2"
proof (cases "run_gates (job_gates env why) m j st (first_request env j)")
  case (Answer st1 r)
  have "same_log st st1" using gates_log [of "job_gates env why" env why st m j "first_request env j"] Answer by simp
  then show thesis using answered Answer by (simp add: run_job_def)
next
  case (Proceed st1 q)
  have log: "same_log st st1" using gates_log [of "job_gates env why" env why st m j "first_request env j"] Proceed by simp
  obtain st2 r where e: "execute_attempt env m later j st1 q = (st2, r)" by fastforce
  have "same_log (st1\<lparr>ex_attempts := ex_attempts st1 @ [(j, q)]\<rparr>) st2"
    using execute_attempt_log [of st1 j q env m later] e by simp
  then show thesis using attempted Proceed log e by (simp add: run_job_def)
qed

lemma run_job_outcomes:
  "\<exists>r rs. ex_outcomes (run_job env why m later j st) = (ex_outcomes st)(pj_id j := Some r)
     \<and> ex_results (run_job env why m later j st) = ex_results st @ rs @ [r]"
proof (cases rule: run_job_cases [of env why m j st later])
  case (answered st1 r)
  then show ?thesis by (auto simp: same_log_def)
next
  case (attempted st1 q st2 r)
  then show ?thesis by (auto simp: same_log_def)
qed

section \<open>Induction over the jobs\<close>

lemma run_jobs_rule:
  assumes step: "\<And>before j m after st. jms = before @ (j, m) # after \<Longrightarrow> P before st \<Longrightarrow>
      P (before @ [(j, m)]) (run_job env why m (map fst after) j st)"
    and start: "P [] st"
  shows "P jms (run_jobs env why jms st)"
proof -
  have "P jms (run_jobs env why rest st)" if "jms = before @ rest" "P before st" for before rest st
    using that
  proof (induction rest arbitrary: before st)
    case (Cons jm rest)
    obtain j m where jm: "jm = (j, m)" by fastforce
    have "P (before @ [(j, m)]) (run_job env why m (map fst rest) j st)" using step Cons.prems jm by simp
    then show ?case using Cons.IH [of "before @ [(j, m)]"] Cons.prems(1) by (simp add: jm)
  qed simp
  from this [of "[]" jms] start show ?thesis by simp
qed

section \<open>Attempts\<close>

text \<open>What is known of an attempt when its runner is called.\<close>

definition sound_attempt :: "exec_env \<Rightarrow> plan_job \<Rightarrow> job_request \<Rightarrow> bool" where
  "sound_attempt env j q \<longleftrightarrow> pj_state j \<in> {PlanSelected, PlanConditional} \<and> targets_bound j q
     \<and> qr_app_scope q = app_scope_of env (pj_target_id j) \<and> qr_scope q = job_scope j \<and> qr_target_id q = pj_target_id j"

definition session_attempt :: "exec_env \<Rightarrow> job_moment \<Rightarrow> plan_job \<Rightarrow> job_request \<Rightarrow> bool" where
  "session_attempt env m j q \<longleftrightarrow>
     (if pj_ctx_id j \<noteq> ''''
      then \<exists>old hs. jm_verify m old = Some hs \<and> hs \<noteq> [] \<and> qr_target_auth q = join_on [CHR 0x0A] hs
             \<and> qr_auth_context q = pj_ctx_id j
      else session_job env j \<longrightarrow>
             (\<exists>old hs. jm_verify m old = Some hs \<and> hs \<noteq> [] \<and> qr_target_auth q = join_on [CHR 0x0A] hs))"

lemma passed_facts:
  assumes p: "run_gates (job_gates env why) m j st (first_request env j) = Proceed st' q'"
  shows "sound_attempt env j q'" and "session_attempt env m j q'" and "\<not> ex_checkpoint_failed st'"
    and "failed_dependency st' j = None"
proof -
  show "sound_attempt env j q'"
    using chosen.fact_holds [OF p] targets.fact_holds [OF p] passed_bounds [OF p] by (simp add: sound_attempt_def)
  show "session_attempt env m j q'"
    using identity.fact_holds [OF p] session.fact_holds [OF p] credentials.fact_holds [OF p]
    by (auto simp: session_attempt_def own_identity_def session_alive_def session_sent_def session_job_def)
  show "\<not> ex_checkpoint_failed st'" by (rule checkpoint.fact_holds [OF p])
  show "failed_dependency st' j = None" by (rule prerequisite.fact_holds [OF p])
qed

lemma run_job_attempts:
  obtains (none) "ex_attempts (run_job env why m later j st) = ex_attempts st"
  | (one) q where "ex_attempts (run_job env why m later j st) = ex_attempts st @ [(j, q)]"
      and "sound_attempt env j q" and "session_attempt env m j q" and "\<not> ex_checkpoint_failed st"
      and "failed_dependency st j = None"
proof (cases rule: run_job_cases [of env why m j st later])
  case (answered st1 r)
  then show thesis using none by (simp add: same_log_def)
next
  case (attempted st1 q st2 r)
  have kept: "ex_attempts st1 = ex_attempts st" "ex_checkpoint_failed st1 = ex_checkpoint_failed st"
      "failed_dependency st1 j = failed_dependency st j"
    using attempted(2) by (simp_all add: same_log_def failed_dependency_def)
  have "ex_attempts (run_job env why m later j st) = ex_attempts st @ [(j, q)]"
    using attempted(4,5) kept(1) by (simp add: same_log_def)
  then show thesis using one passed_facts [OF attempted(1)] kept by simp
qed

definition answered_ok :: "exec_state \<Rightarrow> string \<Rightarrow> bool" where
  "answered_ok st d \<longleftrightarrow> (case ex_outcomes st d of None \<Rightarrow> False | Some r \<Rightarrow> jr_status r = ''completed'')"

lemma failed_dependency_None: "failed_dependency st j = None \<longleftrightarrow> list_all (answered_ok st) (pj_deps j)"
  by (auto simp: failed_dependency_def find_None_iff list_all_iff answered_ok_def split: option.splits)

text \<open>The attempts follow the order of the jobs, and the prerequisites of each completed.\<close>

definition in_order :: "(plan_job \<times> job_moment) list \<Rightarrow> exec_state \<Rightarrow> bool" where
  "in_order before st \<longleftrightarrow> subseq (map fst (ex_attempts st)) (map fst before)
     \<and> dom (ex_outcomes st) = pj_id ` fst ` set before
     \<and> (\<forall>(j, q) \<in> set (ex_attempts st). list_all (answered_ok st) (pj_deps j))"

lemma run_job_in_order:
  assumes P: "in_order before st" and fresh: "pj_id j \<notin> pj_id ` fst ` set before"
  shows "in_order (before @ [(j, m)]) (run_job env why m later j st)" (is "in_order ?new ?st'")
proof -
  obtain r where o: "ex_outcomes ?st' = (ex_outcomes st)(pj_id j := Some r)" using run_job_outcomes by blast
  have dom: "dom (ex_outcomes ?st') = pj_id ` fst ` set ?new" using P by (simp add: in_order_def o)
  have keep: "answered_ok ?st' d" if "answered_ok st d" for d
  proof -
    have "d \<in> dom (ex_outcomes st)" using that by (auto simp: answered_ok_def split: option.splits)
    moreover have "dom (ex_outcomes st) = pj_id ` fst ` set before" using P by (simp add: in_order_def)
    ultimately have "d \<noteq> pj_id j" using fresh by blast
    then show ?thesis using that by (simp add: answered_ok_def o)
  qed
  then have all: "list_all (answered_ok ?st') ds" if "list_all (answered_ok st) ds" for ds
    using that by (simp add: list_all_iff)
  have old: "list_all (answered_ok ?st') (pj_deps i)" if "(i, q) \<in> set (ex_attempts st)" for i q
    using P that all by (fastforce simp: in_order_def)
  have sub: "subseq (map fst (ex_attempts st)) (map fst before)" using P by (simp add: in_order_def)
  show ?thesis
  proof (cases rule: run_job_attempts [of env why m later j st])
    case none
    have "subseq (map fst (ex_attempts ?st')) (map fst ?new)"
      using list_emb_append_mono [OF sub, of "[]" "[j]"] none by simp
    then show ?thesis using dom old none by (auto simp: in_order_def)
  next
    case (one q)
    have "subseq (map fst (ex_attempts ?st')) (map fst ?new)"
      using list_emb_append_mono [OF sub, of "[j]" "[j]"] one(1) by simp
    moreover have "list_all (answered_ok ?st') (pj_deps j)" using one(5) all by (simp add: failed_dependency_None)
    ultimately show ?thesis using dom old one by (auto simp: in_order_def)
  qed
qed

lemma run_jobs_in_order:
  assumes ids: "distinct (map (pj_id \<circ> fst) jms)" and fresh: "ex_outcomes st = (\<lambda>i. None)" "ex_attempts st = []"
  shows "in_order jms (run_jobs env why jms st)"
proof (rule run_jobs_rule)
  show "in_order [] st" using fresh by (simp add: in_order_def)
  show "in_order (before @ [(j, m)]) (run_job env why m (map fst after) j st)"
    if "jms = before @ (j, m) # after" "in_order before st" for before j m after st
    using that(2) by (rule run_job_in_order) (use ids that(1) in \<open>auto simp: image_image\<close>)
qed

text \<open>Every attempt was sound, with the moment at which it was made.\<close>

definition attempts_sound :: "exec_env \<Rightarrow> (plan_job \<times> job_moment) list \<Rightarrow> exec_state \<Rightarrow> bool" where
  "attempts_sound env before st \<longleftrightarrow>
     (\<forall>(j, q) \<in> set (ex_attempts st). sound_attempt env j q \<and> (\<exists>m. (j, m) \<in> set before \<and> session_attempt env m j q))"

lemma run_jobs_sound:
  assumes "ex_attempts st = []"
  shows "attempts_sound env jms (run_jobs env why jms st)"
proof (rule run_jobs_rule)
  show "attempts_sound env [] st" using assms by (simp add: attempts_sound_def)
  show "attempts_sound env (before @ [(j, m)]) (run_job env why m (map fst after) j st)"
    if P: "attempts_sound env before st" for before j m after st
  proof (cases rule: run_job_attempts [of env why m "map fst after" j st])
    case none
    then show ?thesis using P by (fastforce simp: attempts_sound_def)
  next
    case (one q)
    then show ?thesis using P by (fastforce simp: attempts_sound_def)
  qed
qed

text \<open>After a checkpoint that could not be stored nothing is attempted.\<close>

definition stops_after :: "(plan_job \<times> job_moment) list \<Rightarrow> exec_state \<Rightarrow> bool" where
  "stops_after before st \<longleftrightarrow> ex_checkpoint_failed st = list_ex (\<lambda>(j, m). jm_checkpoint m \<noteq> None) before
     \<and> subseq (map fst (ex_attempts st)) (map fst before)
     \<and> (\<forall>k < length before. jm_checkpoint (snd (before ! k)) \<noteq> None
          \<longrightarrow> subseq (map fst (ex_attempts st)) (map fst (take (Suc k) before)))"

lemma run_job_checkpoint [simp]:
  "ex_checkpoint_failed (run_job env why m later j st) \<longleftrightarrow> ex_checkpoint_failed st \<or> jm_checkpoint m \<noteq> None"
proof (cases rule: run_job_cases [of env why m j st later])
  case (answered st1 r)
  then show ?thesis by (simp add: same_log_def)
next
  case (attempted st1 q st2 r)
  then show ?thesis by (simp add: same_log_def)
qed

lemma run_job_stops:
  assumes P: "stops_after before st"
  shows "stops_after (before @ [(j, m)]) (run_job env why m later j st)" (is "stops_after ?new ?st'")
proof -
  have failed: "ex_checkpoint_failed st = list_ex (\<lambda>(j, m). jm_checkpoint m \<noteq> None) before"
    and sub: "subseq (map fst (ex_attempts st)) (map fst before)"
    and stop: "\<And>k. k < length before \<Longrightarrow> jm_checkpoint (snd (before ! k)) \<noteq> None \<Longrightarrow>
      subseq (map fst (ex_attempts st)) (map fst (take (Suc k) before))"
    using P unfolding stops_after_def by blast+
  have grown: "subseq (map fst (ex_attempts ?st')) (map fst ?new)"
  proof (cases rule: run_job_attempts [of env why m later j st])
    case none
    then show ?thesis using list_emb_append_mono [OF sub, of "[]" "[j]"] by simp
  next
    case (one q)
    then show ?thesis using list_emb_append_mono [OF sub, of "[j]" "[j]"] by simp
  qed
  have "subseq (map fst (ex_attempts ?st')) (map fst (take (Suc k) ?new))"
    if k: "k < length ?new" and c: "jm_checkpoint (snd (?new ! k)) \<noteq> None" for k
  proof (cases "k = length before")
    case True
    then show ?thesis using grown by simp
  next
    case False
    then have k': "k < length before" and c': "jm_checkpoint (snd (before ! k)) \<noteq> None"
      using k c by (simp_all add: nth_append)
    have "before ! k \<in> set before" using k' by simp
    then have "ex_checkpoint_failed st" using c' failed by (auto simp: list_ex_iff case_prod_unfold)
    then have "ex_attempts ?st' = ex_attempts st" by (cases rule: run_job_attempts [of env why m later j st]) simp_all
    then show ?thesis using stop [OF k' c'] k' by simp
  qed
  then show ?thesis using failed grown by (simp add: stops_after_def)
qed

lemma run_jobs_stops:
  assumes "ex_attempts st = []" and "\<not> ex_checkpoint_failed st"
  shows "stops_after jms (run_jobs env why jms st)"
proof (rule run_jobs_rule)
  show "stops_after [] st" using assms by (simp add: stops_after_def)
qed (rule run_job_stops)

section \<open>Whole executions\<close>

lemma profiled_plan [simp]: "xv_plan (fst (profiled env x)) = xv_plan env" "xv_existing (fst (profiled env x)) = xv_existing env"
  by (simp_all add: profiled_def Let_def split: option.split)

lemma profiled_scopes [simp]:
  "app_scope_of (fst (profiled env x)) = app_scope_of env" "session_job (fst (profiled env x)) = session_job env"
  by (simp_all add: fun_eq_iff app_scope_of_def session_job_def)

lemma profiled_facts [simp]:
  "sound_attempt (fst (profiled env x)) = sound_attempt env" "session_attempt (fst (profiled env x)) = session_attempt env"
  by (simp_all add: fun_eq_iff sound_attempt_def session_attempt_def)

abbreviation timeline :: "exec_env \<Rightarrow> (nat \<Rightarrow> job_moment) \<Rightarrow> (plan_job \<times> job_moment) list" where
  "timeline env moments \<equiv>
     zip (pl_jobs (xv_plan env)) (map moments [0..<length (pl_jobs (xv_plan env))])"

lemma timeline_jobs [simp]: "map fst (timeline env moments) = pl_jobs (xv_plan env)"
  by simp


lemma executed_runs:
  obtains rate where "executed env x why moments =
    run_jobs (fst (profiled env x)) why (timeline env moments) (initial_state (fst (profiled env x)) rate x)"
  by (simp add: executed_def split_beta Let_def)

lemma executed_facts:
  shows "attempts_sound env (timeline env moments) (executed env x why moments)"
    and "stops_after (timeline env moments) (executed env x why moments)"
    and "distinct (map pj_id (pl_jobs (xv_plan env))) \<Longrightarrow> in_order (timeline env moments) (executed env x why moments)"
proof -
  obtain rate where e: "executed env x why moments =
      run_jobs (fst (profiled env x)) why (timeline env moments) (initial_state (fst (profiled env x)) rate x)"
    by (rule executed_runs)
  let ?init = "initial_state (fst (profiled env x)) rate x"
  have init: "ex_attempts ?init = []" "\<not> ex_checkpoint_failed ?init" "ex_outcomes ?init = (\<lambda>i. None)"
    by (simp_all add: initial_state_def)
  show "attempts_sound env (timeline env moments) (executed env x why moments)"
    using run_jobs_sound [OF init(1), of "fst (profiled env x)"] by (simp add: e attempts_sound_def)
  show "stops_after (timeline env moments) (executed env x why moments)"
    unfolding e using init(1,2) by (rule run_jobs_stops)
  show "in_order (timeline env moments) (executed env x why moments)" if "distinct (map pj_id (pl_jobs (xv_plan env)))"
  proof -
    have "map (pj_id \<circ> fst) (timeline env moments) = map pj_id (pl_jobs (xv_plan env))"
      using timeline_jobs [of env moments] by (metis map_map)
    then show ?thesis unfolding e using that init(1,3) by (intro run_jobs_in_order) simp_all
  qed
qed

lemma attempts_of_execution:
  assumes "run_assessment_jobs env x why moments = (runs, attempts)" and "(j, q) \<in> set attempts"
  shows "(j, q) \<in> set (ex_attempts (executed env x why moments))"
  using assms by (auto simp: run_assessment_jobs_def Let_def split: option.splits)

section \<open>Answers\<close>

text \<open>A record names the scope of its job and the accepted plan; what is stored names its stage and identity too.\<close>

definition labels :: "exec_env \<Rightarrow> plan_job \<Rightarrow> job_run \<Rightarrow> bool" where
  "labels env j r \<longleftrightarrow> jr_scope r = job_scope j \<and> jr_fingerprint r = pl_fingerprint (xv_plan env)"

definition answers :: "exec_env \<Rightarrow> plan_job \<Rightarrow> job_run \<Rightarrow> bool" where
  "answers env j r \<longleftrightarrow> labels env j r \<and> jr_stage r = pj_stage j \<and> jr_auth_context r = pj_ctx_id j
     \<and> jr_auth_identity r = pj_ctx_identity j \<and> jr_auth_role r = pj_ctx_role j
     \<and> jr_workflow r = cfg_workflow_version (plan_config env)"

lemma finalize_run_labels [simp]:
  "jr_scope (finalize_run c v now r) = jr_scope r" "jr_fingerprint (finalize_run c v now r) = jr_fingerprint r"
  by (simp_all add: finalize_run_def Let_def)

lemma not_run_labels [simp]:
  "jr_scope (planned_job_not_run env m j q why) = qr_scope q"
  "jr_fingerprint (planned_job_not_run env m j q why) = pl_fingerprint (xv_plan env)"
  "jr_scope (failed_planned_job env m j q why) = qr_scope q"
  "jr_fingerprint (failed_planned_job env m j q why) = pl_fingerprint (xv_plan env)"
  "jr_scope (base_run env m j q s why) = qr_scope q"
  "jr_fingerprint (base_run env m j q s why) = pl_fingerprint (xv_plan env)"
  by (simp_all add: planned_job_not_run_def failed_planned_job_def base_run_def empty_run_def Let_def)

lemma verified_login_labels [simp]:
  "jr_scope (verified_login env m j q) = qr_scope q"
  "jr_fingerprint (verified_login env m j q) = pl_fingerprint (xv_plan env)"
  by (simp_all add: verified_login_def)

lemma reusable_run_labels: "reusable_run env j = Some r \<Longrightarrow> labels env j r"
  by (auto simp: reusable_run_def completed_run_def labels_def run_key_def find_Some_iff
      split: option.splits if_splits)

lemma gate_answer_labels:
  assumes "g \<in> set (job_gates env why)" and "g m j st q = Answer st' r" and q: "qr_scope q = job_scope j"
  shows "labels env j r"
  using assms(1)
proof (cases rule: job_gate_cases)
  case identity
  then show ?thesis using assms(2) q by (auto simp: gate_identity_def labels_def Let_def split: pass_splits bool.splits)
next
  case session
  then show ?thesis using assms(2) q by (auto simp: gate_session_def labels_def Let_def split: pass_splits bool.splits)
next
  case inventory
  then show ?thesis using assms(2) by (simp add: gate_inventory_def Let_def split: if_splits)
next
  case credentials
  then show ?thesis using assms(2) by (simp add: gate_credentials_def Let_def)
next
  case targets
  then show ?thesis using assms(2) q
    by (auto simp: gate_targets_def bind_targets_def labels_def Let_def split: pass_splits)
next
  case quiet
  then show ?thesis using assms(2) q
    by (auto simp: gate_checkpoint_def gate_dependencies_def gate_login_def gate_crawl_def gate_selected_def gate_reuse_def
        gate_resources_def gate_checkout_def gate_conditional_def gate_deadline_def gate_runner_def gate_cancelled_def
        gate_attempt_def gate_gateway_def labels_def Let_def reusable_run_labels [unfolded labels_def] split: pass_splits)
qed

lemma gates_answer_labels:
  assumes "run_gates gs m j st q = Answer st' r" and "set gs \<subseteq> set (job_gates env why)" and "qr_scope q = job_scope j"
  shows "labels env j r"
  using assms
proof (induction gs arbitrary: st q)
  case (Cons g gs)
  have g: "g \<in> set (job_gates env why)" using Cons.prems(2) by simp
  show ?case
  proof (cases "g m j st q")
    case (Answer st1 r1)
    then show ?thesis using gate_answer_labels [OF g Answer Cons.prems(3)] Cons.prems(1) by simp
  next
    case (Proceed st1 q1)
    have "qr_scope q1 = job_scope j" using gates_keep_bounds [OF g Proceed] Cons.prems(3) by (simp add: same_bounds_def)
    then show ?thesis using Cons.IH [of st1 q1] Cons.prems Proceed by simp
  qed
qed simp

lemma attempt_labels:
  assumes "execute_attempt env m later j st q = (st', r)" and "qr_scope q = job_scope j"
  shows "labels env j r"
  using assms by (auto simp: execute_attempt_def labelled_run_def labels_def Let_def split: prod.splits)

lemma stored_run_answers: "labels env j r \<Longrightarrow> answers env j (stored_run env m j r)"
  by (simp add: stored_run_def recorded_run_def answers_def labels_def Let_def split: option.split)

lemma run_job_answers:
  "\<exists>r rs. answers env j r \<and> ex_results (run_job env why m later j st) = ex_results st @ rs @ [r]"
proof (cases rule: run_job_cases [of env why m j st later])
  case (answered st1 r)
  have "qr_scope (first_request env j) = job_scope j" by (simp add: first_request_def Let_def)
  then have "labels env j r" using gates_answer_labels [OF answered(1)] by blast
  then show ?thesis using answered(2,3) stored_run_answers by (auto simp: same_log_def)
next
  case (attempted st1 q st2 r)
  have "labels env j r" using attempt_labels [OF attempted(3)] passed_bounds [OF attempted(1)] by blast
  then show ?thesis using attempted(2,4,5) stored_run_answers by (auto simp: same_log_def)
qed

definition all_answered :: "exec_env \<Rightarrow> (plan_job \<times> job_moment) list \<Rightarrow> exec_state \<Rightarrow> bool" where
  "all_answered env before st \<longleftrightarrow> (\<exists>rs. subseq rs (ex_results st) \<and> list_all2 (answers env) (map fst before) rs)"

lemma run_jobs_answered: "all_answered env jms (run_jobs env why jms st)"
proof (rule run_jobs_rule)
  show "all_answered env [] st" by (simp add: all_answered_def)
  show "all_answered env (before @ [(j, m)]) (run_job env why m (map fst after) j st)"
    if P: "all_answered env before st" for before j m after st
  proof -
    obtain rs where rs: "subseq rs (ex_results st)" "list_all2 (answers env) (map fst before) rs"
      using P by (auto simp: all_answered_def)
    obtain r ss where r: "answers env j r" "ex_results (run_job env why m (map fst after) j st) = ex_results st @ ss @ [r]"
      using run_job_answers by blast
    have "subseq (rs @ [r]) (ex_results st @ ss @ [r])"
      using rs(1) by (rule list_emb_append_mono) (simp add: list_emb_append2 subseq_singleton_left)
    then show ?thesis unfolding all_answered_def using rs(2) r
      by (intro exI [of _ "rs @ [r]"]) (simp add: list_all2_appendI)
  qed
qed

section \<open>Refusals\<close>

lemma refused_runs:
  "length (refused_jobs env x fp why) = length (pl_jobs (xv_plan env))"
  "length (interrupted_jobs env x why) = length (pl_jobs (xv_plan env))"
  "list_all2 (\<lambda>j r. jr_scanner r = pj_scanner j \<and> jr_scope r = job_scope j \<and> jr_status r = ''failed'' \<and> jr_gap r = GapInterruptedWrite)
     (pl_jobs (xv_plan env)) (interrupted_jobs env x why)"
  by (simp_all add: refused_jobs_def interrupted_jobs_def empty_run_def list_all2_conv_all_nth)

definition interrupted :: "exec_env \<Rightarrow> exec_start \<Rightarrow> bool" where
  "interrupted env x \<longleftrightarrow>
     (case recovered_journal env x of
        (journal, opened) \<Rightarrow> \<not> opened \<or> unresolved_writes journal \<noteq> ([], None))"

lemma interrupted_refusal:
  assumes "interrupted env x" and "trim_space (pl_fingerprint (xv_plan env)) \<noteq> ''''"
  shows "\<exists>why. start_refusal env x = Some (interrupted_jobs env x why)"
  using assms by (auto simp: interrupted_def start_refusal_def Let_def split: prod.splits)

text \<open>What is kept when the last save fails.\<close>

lemma fail_last_answers:
  assumes "subseq rs xs" and "list_all2 (answers env) js rs"
  shows "\<exists>rs'. subseq rs' (fail_last e xs) \<and> list_all2 (answers env) js rs'"
  using assms
proof (induction e xs arbitrary: rs js rule: fail_last.induct)
  case (2 e r)
  show ?case
  proof (cases rs)
    case (Cons r' rs1)
    then have rs: "r' = r" "rs1 = []" using "2.prems"(1) by (auto simp: subseq_Cons2_iff split: if_splits)
    then show ?thesis using "2.prems"(2) Cons
      by (intro exI [of _ "fail_last e [r]"]) (auto simp: list_all2_Cons2 answers_def labels_def)
  qed (use "2.prems" in auto)
next
  case (3 e r s xs)
  show ?case
  proof (cases "rs \<noteq> [] \<and> hd rs = r \<and> subseq (tl rs) (s # xs)")
    case True
    then obtain rs1 where rs: "rs = r # rs1" "subseq rs1 (s # xs)" by (cases rs) auto
    then obtain j js1 where js: "js = j # js1" "answers env j r" "list_all2 (answers env) js1 rs1"
      using "3.prems"(2) by (auto simp: list_all2_Cons2)
    obtain rs' where "subseq rs' (fail_last e (s # xs))" "list_all2 (answers env) js1 rs'"
      using "3.IH" [OF rs(2) js(3)] by blast
    then show ?thesis using js by (intro exI [of _ "r # rs'"]) simp
  next
    case False
    then have "subseq rs (s # xs)" using "3.prems"(1) by (cases rs) (auto simp: subseq_Cons2_iff split: if_splits)
    then obtain rs' where "subseq rs' (fail_last e (s # xs))" "list_all2 (answers env) js rs'"
      using "3.IH" "3.prems"(2) by blast
    then show ?thesis by (intro exI [of _ rs']) (auto simp: list_emb_Cons)
  qed
qed auto

section \<open>What an execution promises\<close>

text \<open>C10: The executor follows the accepted plan. Its calls of runners are, in order, a part of the jobs of the plan,
  so that nothing outside the plan runs and no job runs twice; a job that ran was selected or conditional, and each of
  its prerequisites had been answered with a completed run. The jobs of the plan have different ids.\<close>
theorem attempts_follow_the_plan:
  assumes "run_assessment_jobs env x why moments = (runs, attempts)" and "distinct (map pj_id (pl_jobs (xv_plan env)))"
  shows "subseq (map fst attempts) (pl_jobs (xv_plan env))
    \<and> (\<forall>(j, q) \<in> set attempts. pj_state j \<in> {PlanSelected, PlanConditional} \<and>
         (\<forall>d \<in> set (pj_deps j). \<exists>r. ex_outcomes (executed env x why moments) d = Some r \<and> jr_status r = ''completed''))"
proof -
  let ?st = "executed env x why moments"
  have a: "attempts = [] \<or> attempts = ex_attempts ?st"
    using assms(1) by (auto simp: run_assessment_jobs_def Let_def split: option.splits)
  have "pj_state j \<in> {PlanSelected, PlanConditional} \<and>
      (\<forall>d \<in> set (pj_deps j). \<exists>r. ex_outcomes ?st d = Some r \<and> jr_status r = ''completed'')"
    if "(j, q) \<in> set (ex_attempts ?st)" for j q
  proof -
    have "sound_attempt env j q" using executed_facts(1) [of env moments x why] that by (fastforce simp: attempts_sound_def)
    moreover have "list_all (answered_ok ?st) (pj_deps j)"
      using executed_facts(3) [OF assms(2), of moments x why] that by (fastforce simp: in_order_def)
    ultimately show ?thesis by (auto simp: sound_attempt_def list_all_iff answered_ok_def split: option.splits)
  qed
  moreover have "subseq (map fst (ex_attempts ?st)) (pl_jobs (xv_plan env))"
    using executed_facts(3) [OF assms(2), of moments x why] by (simp add: in_order_def)
  ultimately show ?thesis using a by auto
qed

text \<open>C11: A runner is given only what was approved. The request of every attempt names the target of its job and
  carries the scope the accepted configuration gives that target; every URL taken from the inventory lies inside that
  scope, without a placeholder, and is not excluded for every method; and when credentials go along, every URL, of a
  native campaign too, has the origin of the target they are bound to.\<close>
theorem attempts_confined:
  assumes "run_assessment_jobs env x why moments = (runs, attempts)" and "(j, q) \<in> set attempts"
  shows "qr_target_id q = pj_target_id j \<and> qr_app_scope q = app_scope_of env (pj_target_id j)
    \<and> (\<forall>sc u. qr_app_scope q = Some sc \<longrightarrow> u \<in> set (qr_endpoint_targets q) \<longrightarrow>
         (native_job j \<or> fst (allows sc u) \<and> \<not> has_placeholder_path u
            \<and> (\<exists>method \<in> {''GET'', ''HEAD'', ''OPTIONS'', ''POST''}. excluded sc method u = None))
         \<and> (qr_target_auth q = '''' \<or>
            (\<exists>bound. parse_approved_origin '''' (qr_target q) = Inr bound \<and> same_origin_as bound u)))"
proof -
  have s: "sound_attempt env j q"
    using executed_facts(1) [of env moments x why] attempts_of_execution [OF assms] by (fastforce simp: attempts_sound_def)
  then have "native_job j \<or> within_scope sc u" and
      "qr_target_auth q = '''' \<or> (\<exists>bound. parse_approved_origin '''' (qr_target q) = Inr bound \<and> same_origin_as bound u)"
    if "qr_app_scope q = Some sc" "u \<in> set (qr_endpoint_targets q)" for sc u
    using that by (auto simp: sound_attempt_def targets_bound_def urls_in_scope_def credentials_at_home_def list_all_iff
        split: sum.splits)
  then show ?thesis using s by (auto simp: sound_attempt_def within_scope_def list_ex_iff)
qed


text \<open>C13: No planned job disappears. When an execution is not refused, its results contain, in the order of the plan,
  an answer to every job: a record with the scope, the stage and the identity of the job, the fingerprint of the
  accepted plan and its workflow version; also when the final save fails.\<close>
theorem every_job_answered:
  assumes "run_assessment_jobs env x why moments = (runs, attempts)" and "start_refusal env x = None"
  shows "\<exists>rs. subseq rs runs \<and> list_all2 (\<lambda>j r. jr_scope r = job_scope j \<and> jr_fingerprint r = pl_fingerprint (xv_plan env)
    \<and> jr_stage r = pj_stage j \<and> jr_auth_context r = pj_ctx_id j \<and> jr_auth_identity r = pj_ctx_identity j
    \<and> jr_auth_role r = pj_ctx_role j \<and> jr_workflow r = cfg_workflow_version (plan_config env)) (pl_jobs (xv_plan env)) rs"
proof -
  let ?st = "executed env x why moments"
  let ?env = "fst (profiled env x)"
  have same: "answers ?env = answers env" by (simp add: fun_eq_iff answers_def labels_def)
  have "all_answered ?env (timeline env moments) ?st"
    using executed_runs [of env x why moments] run_jobs_answered by metis
  then obtain rs where rs: "subseq rs (ex_results ?st)" "list_all2 (answers env) (pl_jobs (xv_plan env)) rs"
    by (auto simp: all_answered_def same)
  then have all: "subseq rs (ex_results ?st @ xs_comparisons x (ex_results ?st))"
    using list_emb_append_mono [OF rs(1), of "[]" "xs_comparisons x (ex_results ?st)"] by simp
  have "\<exists>rs. subseq rs runs \<and> list_all2 (answers env) (pl_jobs (xv_plan env)) rs"
    using assms all rs(2) fail_last_answers [OF all rs(2)]
    by (auto simp: run_assessment_jobs_def Let_def split: option.splits)
  then show ?thesis unfolding answers_def labels_def by (simp add: conj_assoc)
qed

text \<open>C14: An interrupted write stops the assessment. While the journal of an earlier execution cannot be recovered or
  read, or has an unresolved write, no runner is called, and every job of the plan is answered with a failed run that
  says so; and after a checkpoint that could not be stored no later job is attempted.\<close>
theorem interrupted_execution_sends_nothing:
  assumes "run_assessment_jobs env x why moments = (runs, attempts)"
  shows "(interrupted env x \<and> trim_space (pl_fingerprint (xv_plan env)) \<noteq> '''' \<longrightarrow> attempts = [] \<and>
      list_all2 (\<lambda>j r. jr_scanner r = pj_scanner j \<and> jr_scope r = job_scope j \<and> jr_status r = ''failed''
        \<and> jr_gap r = GapInterruptedWrite) (pl_jobs (xv_plan env)) runs)
    \<and> (\<forall>k < length (pl_jobs (xv_plan env)). jm_checkpoint (moments k) \<noteq> None \<longrightarrow>
        subseq (map fst attempts) (take (Suc k) (pl_jobs (xv_plan env))))"
proof (intro conjI impI allI)
  let ?jobs = "pl_jobs (xv_plan env)"
  assume i: "interrupted env x \<and> trim_space (pl_fingerprint (xv_plan env)) \<noteq> ''''"
  then obtain why' where "start_refusal env x = Some (interrupted_jobs env x why')" using interrupted_refusal by blast
  then have runs: "runs = interrupted_jobs env x why'" and none: "attempts = []"
    using assms by (simp_all add: run_assessment_jobs_def)
  show "attempts = []" by (rule none)
  show "list_all2 (\<lambda>j r. jr_scanner r = pj_scanner j \<and> jr_scope r = job_scope j \<and> jr_status r = ''failed''
      \<and> jr_gap r = GapInterruptedWrite) ?jobs runs"
    unfolding runs by (rule refused_runs(3))
next
  let ?jobs = "pl_jobs (xv_plan env)"
  fix k assume k: "k < length ?jobs" "jm_checkpoint (moments k) \<noteq> None"
  have "jm_checkpoint (snd (timeline env moments ! k)) \<noteq> None" using k by simp
  then have "subseq (map fst (ex_attempts (executed env x why moments))) (map fst (take (Suc k) (timeline env moments)))"
    using executed_facts(2) [of env moments x why] k(1) by (simp add: stops_after_def)
  then have "subseq (map fst (ex_attempts (executed env x why moments))) (take (Suc k) ?jobs)"
    using timeline_jobs [of env moments] by (metis take_map)
  then show "subseq (map fst attempts) (take (Suc k) ?jobs)"
    using assms by (auto simp: run_assessment_jobs_def Let_def split: option.splits)
qed

section \<open>Two plans\<close>

text \<open>A repository with two scans, the second of which needs the first, and one that is not selected; and a web target
  whose scan runs for a named identity, renewed at each use.\<close>

definition plan_of :: "target \<Rightarrow> plan_job list \<Rightarrow> assessment_plan" where
  "plan_of t jobs = \<lparr>pl_config = empty_config\<lparr>cfg_targets := [t]\<rparr>, pl_capabilities = [], pl_decisions = [], pl_jobs = jobs,
     pl_coverage = [], pl_warnings = [], pl_errors = [], pl_tool_versions = [], pl_fingerprint = ''fp''\<rparr>"

definition repo_plan :: assessment_plan where
  "repo_plan =
     (let job = empty_job\<lparr>pj_target_id := ''r'', pj_target := ''repo'', pj_stage := ''sast''\<rparr>
      in plan_of \<lparr>tgt_id = ''r'', tgt_kind = KindRepository, tgt_value = ''repo'', tgt_branch = '''', tgt_related_to = ''''\<rparr>
           [job\<lparr>pj_id := ''a'', pj_scanner := ''semgrep''\<rparr>,
            job\<lparr>pj_id := ''b'', pj_scanner := ''gitleaks'', pj_deps := [''a'']\<rparr>,
            job\<lparr>pj_id := ''c'', pj_scanner := ''trivy'', pj_state := PlanSkipped\<rparr>])"

definition web_plan :: assessment_plan where
  "web_plan =
     plan_of \<lparr>tgt_id = ''w'', tgt_kind = KindURL, tgt_value = ''https://a.b/'', tgt_branch = '''', tgt_related_to = ''''\<rparr>
       [empty_job\<lparr>pj_id := ''n'', pj_scanner := ''nuclei'', pj_target_id := ''w'', pj_target := ''https://a.b/'',
          pj_ctx_id := ''u''\<rparr>]"

definition plan_env :: "assessment_plan \<Rightarrow> exec_env" where
  "plan_env plan = \<lparr>xv_plan = plan, xv_api_endpoints = [], xv_gateway = surface_env,
     xv_digests = \<lparr>dg_catalogs = [], dg_short = (\<lambda>s. s), dg_fuzz_json = (\<lambda>a. ''''), dg_plan = (\<lambda>p. '''')\<rparr>,
     xv_expanded = False, xv_max_endpoints = 10, xv_web_budget = 0, xv_browser = False, xv_stored_login = (\<lambda>t. False),
     xv_renewable = (\<lambda>t. True), xv_cloud = (\<lambda>t. False), xv_ssh_alias = (\<lambda>t. ''''), xv_gvm = (\<lambda>t. None),
     xv_ssh_requested = (\<lambda>t. False), xv_katana = False, xv_checksum = (\<lambda>r. ''sum''), xv_revision = ''v1'',
     xv_nmap = (\<lambda>r. None), xv_replay = (\<lambda>e. ([], '''')), xv_existing = []\<rparr>"

text \<open>The inventory of an earlier crawl: a page seen as that identity.\<close>

definition web_surface :: attack_surface where
  "web_surface = \<lparr>as_workflow = '''', as_hosts = [], as_services = [], as_definitions = [], as_gaps = [],
     as_classifier = AttackSurfaceClassifierVersion, as_scope = ''app:w'', as_target = ''https://a.b/'',
     as_generated_at = ''t'', as_raw_count = 0, as_checksum = '''',
     as_endpoints = [\<lparr>se_id = ''e1'', se_url = ''https://a.b/p'', se_canonical = ''https://a.b/p'', se_method = ''GET'',
       se_path = ''/p'', se_group_id = '''', se_replay_ref = '''', se_read_only = False, se_auth_context = ''u'',
       se_content_type_sent = '''', se_body_digest = '''', se_observation = ''observed'', se_history = [],
       se_spa_routes = [], se_kind = ''page'', se_sources = [''katana''], se_parameters = [], se_status_code = 200,
       se_content_type = ''text/html'', se_sensitive = False, se_has_parameters = False, se_has_form = False,
       se_with_auth = True, se_requires_auth = None, se_discovered_at = ''t'', se_state = EndpointStateInScope,
       se_state_reason = '''', se_provenance = [], se_coverage = []\<rparr>]\<rparr>"

definition quiet_prep :: prep_moment where
  "quiet_prep = \<lparr>pm_now = ''t'', pm_verify = (\<lambda>hs. None), pm_reverify = (\<lambda>hs. None), pm_load = (\<lambda>k. Some web_surface),
     pm_leftover = (\<lambda>k. None), pm_applicable = False, pm_crawl = (empty_run, False, None), pm_redirects = (\<lambda>s. s),
     pm_browser = (empty_run, None), pm_identities = (\<lambda>s. ([], s)), pm_discovered = (\<lambda>s. []), pm_schema_seeds = (\<lambda>s. s),
     pm_seal = (\<lambda>s. s), pm_zap = (\<lambda>s. ([], s))\<rparr>"

text \<open>The session is renewed and the runner completes; \<open>e\<close> is the fate of the checkpoint.\<close>

definition fair_moment :: "string option \<Rightarrow> job_moment" where
  "fair_moment e = \<lparr>jm_now = ''t'', jm_clock = 0, jm_later = 0, jm_prep = quiet_prep,
     jm_verify = (\<lambda>hs. Some [''Cookie: s=2'']), jm_reverify = (\<lambda>hs. Some [''Cookie: s=3'']), jm_log_written = True,
     jm_checkout = Inr ''/src'', jm_is_dir = False, jm_is_file = False, jm_native = (\<lambda>q. Inl ''''), jm_variants = (\<lambda>s. s),
     jm_cancelled = None, jm_attempt = Inr ''a1'', jm_made_dir = None, jm_inputs_saved = True, jm_gateway_made = True,
     jm_gateway = \<lparr>gw_scanner = '''', gw_authorization = '''', gw_target_auth = '''', gw_closing = False, gw_file_open = False,
       gw_events = [], gw_failed = False, gw_limitations = [], gw_in_flight = 0, gw_fuzz_observed = 0,
       gw_fuzz_uncertain = False, gw_fuzz_armed = False, gw_fuzz_requests = 0, gw_requests = 0, gw_phase = '''',
       gw_budget = None\<rparr>,
     jm_gateway_closed = True, jm_run = (\<lambda>q. empty_run\<lparr>jr_status := ''completed''\<rparr>), jm_end = RunFinished,
     jm_checkpoint = e\<rparr>"

definition fair_start :: "journal_file \<Rightarrow> exec_start" where
  "fair_start f = \<lparr>xs_unified = False, xs_io = \<lparr>io_dir_ok = True, io_lock_ok = True, io_commit = CommitOk\<rparr>, xs_priors = [],
     xs_journal = f, xs_replay_key = False, xs_replay_opens = True, xs_now = ''t'', xs_clock = 0, xs_rate = 2,
     xs_headers = (\<lambda>t. []),
     xs_contexts = [\<lparr>ac_id = ''u'', ac_target_id = ''w'', ac_identity = ''alice'', ac_role = ''user'', ac_primary = True,
       ac_state = Some StateVerified, ac_renewable = True, ac_headers = [''Cookie: s=1'']\<rparr>],
     xs_comparisons = (\<lambda>rs. []), xs_final_save = None\<rparr>"

definition fair_run :: "assessment_plan \<Rightarrow> journal_file \<Rightarrow> string option \<Rightarrow> job_run list \<times> (plan_job \<times> job_request) list" where
  "fair_run plan f e = run_assessment_jobs (plan_env plan) (fair_start f) (\<lambda>j. '''') (\<lambda>k. fair_moment e)"

lemma web_attempts:
  "map (\<lambda>(j, q). (pj_target_id j, qr_auth_context q, qr_target_auth q, qr_endpoint_targets q)) (snd (fair_run web_plan NoFile None))
     = [(''w'', ''u'', ''Cookie: s=2'', [''https://a.b/p''])]"
  by code_simp

lemma repo_attempts: "map (\<lambda>(j, q). (pj_id j, qr_target q)) (snd (fair_run repo_plan NoFile None)) = [(''a'', ''/src''), (''b'', ''/src'')]"
  by code_simp

lemma fair_run_parts:
  "run_assessment_jobs (plan_env plan) (fair_start f) (\<lambda>j. '''') (\<lambda>k. fair_moment e) = (fst (fair_run plan f e), snd (fair_run plan f e))"
  by (simp add: fair_run_def)

lemma one_attempt:
  assumes "map (\<lambda>(j, q). (pj_target_id j, f q, g q, h q)) as = [(a, b, c, d)]"
  obtains j q where "as = [(j, q)]" "pj_target_id j = a" "f q = b" "g q = c" "h q = d"
  using assms by (auto simp: map_eq_Cons_conv)

theorem attempts_follow_the_plan_witness:
  "subseq (map fst (snd (fair_run repo_plan NoFile None))) (pl_jobs repo_plan)
   \<and> map (\<lambda>(j, q). (pj_id j, qr_target q)) (snd (fair_run repo_plan NoFile None)) = [(''a'', ''/src''), (''b'', ''/src'')]"
proof
  have "distinct (map pj_id (pl_jobs (xv_plan (plan_env repo_plan))))"
    by (simp add: plan_env_def repo_plan_def plan_of_def empty_job_def Let_def)
  from attempts_follow_the_plan [OF fair_run_parts this]
  show "subseq (map fst (snd (fair_run repo_plan NoFile None))) (pl_jobs repo_plan)" by (simp add: plan_env_def)
qed (rule repo_attempts)

lemma web_attempt:
  obtains j q where "snd (fair_run web_plan NoFile None) = [(j, q)]" "pj_target_id j = ''w''" "qr_auth_context q = ''u''"
    "qr_target_auth q = ''Cookie: s=2''" "qr_endpoint_targets q = [''https://a.b/p'']"
  using web_attempts by (rule one_attempt)

lemma web_scope: "\<exists>sc. app_scope_of (plan_env web_plan) ''w'' = Some sc"
  by (simp add: app_scope_of_def plan_env_def web_plan_def plan_of_def web_kind_def)

theorem attempts_confined_witness:
  "\<exists>j q sc bound. snd (fair_run web_plan NoFile None) = [(j, q)] \<and> qr_endpoint_targets q = [''https://a.b/p'']
     \<and> qr_app_scope q = Some sc \<and> app_scope_of (plan_env web_plan) ''w'' = Some sc
     \<and> parse_approved_origin '''' (qr_target q) = Inr bound \<and> same_origin_as bound ''https://a.b/p''"
proof -
  obtain j q where a: "snd (fair_run web_plan NoFile None) = [(j, q)]" and j: "pj_target_id j = ''w''"
      and q: "qr_target_auth q = ''Cookie: s=2''" "qr_endpoint_targets q = [''https://a.b/p'']"
    by (rule web_attempt)
  obtain sc where sc: "app_scope_of (plan_env web_plan) ''w'' = Some sc" using web_scope by blast
  have "(j, q) \<in> set (snd (fair_run web_plan NoFile None))" by (simp add: a)
  note facts = attempts_confined [OF fair_run_parts this]
  have scope: "qr_app_scope q = Some sc" using facts j sc by simp
  then have "\<exists>bound. parse_approved_origin '''' (qr_target q) = Inr bound \<and> same_origin_as bound ''https://a.b/p''"
    using facts q by auto
  then show ?thesis using a q(2) scope sc by blast
qed


theorem every_job_answered_witness:
  "\<exists>rs. subseq rs (fst (fair_run repo_plan NoFile None)) \<and> map (\<lambda>r. jr_stage r) rs = [''sast'', ''sast'', ''sast'']"
proof -
  have "start_refusal (plan_env repo_plan) (fair_start NoFile) = None" by code_simp
  from every_job_answered [OF fair_run_parts this, of None]
  obtain rs where rs: "subseq rs (fst (fair_run repo_plan NoFile None))"
      and "list_all2 (\<lambda>j r. jr_scope r = job_scope j \<and> jr_fingerprint r = ''fp''
        \<and> jr_stage r = pj_stage j \<and> jr_auth_context r = pj_ctx_id j \<and> jr_auth_identity r = pj_ctx_identity j
        \<and> jr_auth_role r = pj_ctx_role j \<and> jr_workflow r = '''') (pl_jobs repo_plan) rs"
    by (auto simp: plan_env_def repo_plan_def plan_of_def empty_config_def Let_def)
  then have "list_all2 (\<lambda>j r. jr_stage r = pj_stage j) (pl_jobs repo_plan) rs" by (auto elim: list_all2_mono)
  then have "map (\<lambda>r. jr_stage r) rs = map pj_stage (pl_jobs repo_plan)"
    by (auto simp: list_all2_conv_all_nth intro!: nth_equalityI)
  then show ?thesis using rs by (auto simp: repo_plan_def plan_of_def Let_def)
qed

theorem interrupted_execution_sends_nothing_witness:
  "snd (fair_run repo_plan BadFile None) = []
   \<and> map (\<lambda>r. (jr_scanner r, jr_status r)) (fst (fair_run repo_plan BadFile None))
       = [(''semgrep'', ''failed''), (''gitleaks'', ''failed''), (''trivy'', ''failed'')]
   \<and> subseq (map fst (snd (fair_run repo_plan NoFile (Some ''disk full'')))) (take 1 (pl_jobs repo_plan))"
proof -
  have i: "interrupted (plan_env repo_plan) (fair_start BadFile) \<and> trim_space (pl_fingerprint (xv_plan (plan_env repo_plan))) \<noteq> ''''"
    by code_simp
  have runs: "list_all2 (\<lambda>j r. jr_scanner r = pj_scanner j \<and> jr_status r = ''failed'') (pl_jobs repo_plan)
      (fst (fair_run repo_plan BadFile None))"
    and none: "snd (fair_run repo_plan BadFile None) = []"
    using interrupted_execution_sends_nothing [OF fair_run_parts, of repo_plan BadFile None] i
    by (auto simp: plan_env_def elim: list_all2_mono)
  have jobs: "length (pl_jobs repo_plan) = 3" by (simp add: repo_plan_def plan_of_def Let_def)
  have "jm_checkpoint (fair_moment (Some ''disk full'')) \<noteq> None" by (simp add: fair_moment_def)
  then have "subseq (map fst (snd (fair_run repo_plan NoFile (Some ''disk full'')))) (take (Suc 0) (pl_jobs repo_plan))"
    using interrupted_execution_sends_nothing [OF fair_run_parts, of repo_plan NoFile "Some ''disk full''"] jobs
    by (simp add: plan_env_def)
  moreover have "map (\<lambda>r. (jr_scanner r, jr_status r)) (fst (fair_run repo_plan BadFile None))
      = map (\<lambda>j. (pj_scanner j, ''failed'')) (pl_jobs repo_plan)"
    using runs by (auto simp: list_all2_conv_all_nth intro!: nth_equalityI)
  ultimately show ?thesis using none by (simp add: repo_plan_def plan_of_def Let_def)
qed

end
