(* ===== verification/CorrelateProperties.thy ===== *)
theory CorrelateProperties
  imports Correlate
begin

text \<open>
  What the correlation promises: findings are the classes of observations with one fingerprint, a
  finding is rated by its worst observation, and the status an operator gives a finding stays.
\<close>

section \<open>Groups\<close>

definition raw_group :: "correlation_env \<Rightarrow> raw_observation list \<Rightarrow> string \<Rightarrow> raw_observation list" where
  "raw_group ce os k = filter (\<lambda>ob. fingerprint_of ce ob = k) os"

definition group_value :: "correlation_env \<Rightarrow> raw_observation list \<Rightarrow> security_finding" where
  "group_value ce os = fold add_observation os (new_finding ce (hd os))"

lemma group_value_snoc:
  "group_value ce (os @ [ob]) = add_observation ob (if os = [] then new_finding ce ob else group_value ce os)"
  by (cases os) (simp_all add: group_value_def)

lemma map_of_groups:
  "map_of (fold (group_step ce) os []) k =
     (if raw_group ce os k = [] then None else Some (group_value ce (raw_group ce os k)))"
proof (induction os rule: rev_induct)
  case Nil
  then show ?case by (simp add: raw_group_def)
next
  case (snoc ob os)
  then show ?case
    by (auto simp: group_step_def Let_def map_of_put raw_group_def group_value_snoc split: option.splits)
qed

lemma keys_groups: "fst ` set (fold (group_step ce) os []) = fingerprint_of ce ` set os"
  by (induction os rule: rev_induct) (simp_all add: group_step_def Let_def keys_put)

lemma distinct_groups: "distinct (map fst (fold (group_step ce) os []))"
  by (induction os rule: rev_induct) (simp_all add: group_step_def Let_def distinct_put)

interpretation fingerprints: keyed_order "(<) :: string \<Rightarrow> string \<Rightarrow> bool" id
  by unfold_locales simp

lemma sorted_keys_groups:
  "sort_slice (<) (map fst (fold (group_step ce) os [])) = sorted_list_of_set (fingerprint_of ce ` set os)"
proof -
  let ?ks = "sort_slice (<) (map fst (fold (group_step ce) os []))"
  have "sorted ?ks" using fingerprints.sorted_keys by simp
  moreover have "distinct ?ks" by (simp add: distinct_groups)
  moreover have "set ?ks = fingerprint_of ce ` set os" by (simp add: keys_groups [symmetric])
  ultimately show ?thesis
    by (metis List.finite_set sorted_distinct_set_unique sorted_list_of_set.distinct_sorted_key_list_of_set
        sorted_list_of_set.set_sorted_key_list_of_set sorted_list_of_set.sorted_sorted_key_list_of_set)
qed

lemma unique_findings_groups:
  "unique_findings ce os =
     map (\<lambda>k. finish_finding (group_value ce (raw_group ce os k))) (sorted_list_of_set (fingerprint_of ce ` set os))"
proof -
  have "raw_group ce os k \<noteq> []" if "k \<in> fingerprint_of ce ` set os" for k
    using that by (auto simp: raw_group_def filter_empty_conv)
  then show ?thesis
    by (simp add: unique_findings_def Let_def sorted_keys_groups map_of_groups)
qed

section \<open>What a group keeps\<close>

lemma add_observation_keeps [simp]:
  "sf_fingerprint (add_observation ob g) = sf_fingerprint g"
  "sf_observation_ids (add_observation ob g) = sf_observation_ids g @ [ob_id ob]"
  "sf_observations (add_observation ob g) = sf_observations g + 1"
  "sf_endpoints (add_observation ob g) = add_endpoint ob (sf_endpoints g)"
  "sf_cvss (add_observation ob g) = max (sf_cvss g) (ob_cvss ob)"
  "sf_scanners (add_observation ob g) = add_unique (ob_scanner ob) (sf_scanners g)"
  by (auto simp: add_observation_def max_def)

lemma finish_finding_keeps [simp]:
  "sf_fingerprint (finish_finding g) = sf_fingerprint g"
  "sf_observation_ids (finish_finding g) = sf_observation_ids g"
  "sf_observations (finish_finding g) = sf_observations g"
  "sf_endpoints (finish_finding g) = sf_endpoints g"
  "sf_cvss (finish_finding g) = sf_cvss g"
  "sf_scanners (finish_finding g) = sf_scanners g"
  "sf_severity (finish_finding g) = sf_severity g"
  "sf_affected_endpoints (finish_finding g) = length (sf_endpoints g)"
  "sf_affected_instances (finish_finding g) = sf_observations g"
  by (simp_all add: finish_finding_def)

lemma new_finding_fields [simp]:
  "sf_fingerprint (new_finding ce ob) = fingerprint_of ce ob"
  "sf_observation_ids (new_finding ce ob) = []" "sf_observations (new_finding ce ob) = 0"
  "sf_endpoints (new_finding ce ob) = []" "sf_cvss (new_finding ce ob) = ob_cvss ob"
  "sf_scanners (new_finding ce ob) = []" "sf_severity (new_finding ce ob) = ob_severity ob"
  by (simp_all add: new_finding_def Let_def)

lemma group_value_ids [simp]:
  "sf_observation_ids (group_value ce os) = map ob_id os" "sf_observations (group_value ce os) = length os"
proof -
  have "sf_observation_ids (fold add_observation os g) = sf_observation_ids g @ map ob_id os"
    "sf_observations (fold add_observation os g) = sf_observations g + length os" for g
    by (induction os arbitrary: g) simp_all
  then show "sf_observation_ids (group_value ce os) = map ob_id os" "sf_observations (group_value ce os) = length os"
    by (simp_all add: group_value_def)
qed

lemma group_value_fingerprint:
  "raw_group ce os k \<noteq> [] \<Longrightarrow> sf_fingerprint (group_value ce (raw_group ce os k)) = k"
proof -
  assume ne: "raw_group ce os k \<noteq> []"
  have "sf_fingerprint (fold add_observation xs g) = sf_fingerprint g" for xs g
    by (induction xs arbitrary: g) simp_all
  moreover have "hd (raw_group ce os k) \<in> set (raw_group ce os k)" using ne by simp
  ultimately show ?thesis by (simp add: group_value_def raw_group_def)
qed

section \<open>Ratings and places\<close>

lemma severity_after_add:
  "finding_severity_rank (sf_severity (add_observation ob g))
     = max (finding_severity_rank (sf_severity g)) (finding_severity_rank (ob_severity ob))"
  "sf_severity (add_observation ob g) \<in> {sf_severity g, ob_severity ob}"
  by (auto simp: add_observation_def max_def)

lemma severity_after_fold:
  "finding_severity_rank (sf_severity (fold add_observation os g))
     = Max (insert (finding_severity_rank (sf_severity g)) ((\<lambda>ob. finding_severity_rank (ob_severity ob)) ` set os))"
  "sf_severity (fold add_observation os g) \<in> insert (sf_severity g) (ob_severity ` set os)"
  "sf_cvss (fold add_observation os g) = Max (insert (sf_cvss g) (ob_cvss ` set os))"
proof (induction os arbitrary: g)
  case (Cons ob os)
  { case 1 then show ?case
      using Cons.IH(1) [of "add_observation ob g"]
      by (cases "os = []") (simp_all add: severity_after_add max.assoc) }
  { case 2 then show ?case
      using Cons.IH(2) [of "add_observation ob g"] severity_after_add(2) [of ob g] by auto }
  { case 3 then show ?case
      using Cons.IH(3) [of "add_observation ob g"] by (cases "os = []") (simp_all add: max.assoc) }
qed simp_all

lemma group_value_rated:
  assumes "os \<noteq> []"
  shows "finding_severity_rank (sf_severity (group_value ce os)) = Max ((\<lambda>ob. finding_severity_rank (ob_severity ob)) ` set os)"
    and "sf_severity (group_value ce os) \<in> ob_severity ` set os"
    and "sf_cvss (group_value ce os) = Max (ob_cvss ` set os)"
proof -
  have hd: "hd os \<in> set os" using assms by simp
  then have "insert (finding_severity_rank (ob_severity (hd os))) ((\<lambda>ob. finding_severity_rank (ob_severity ob)) ` set os)
      = (\<lambda>ob. finding_severity_rank (ob_severity ob)) ` set os" "insert (ob_cvss (hd os)) (ob_cvss ` set os) = ob_cvss ` set os"
    by auto
  then show "finding_severity_rank (sf_severity (group_value ce os)) = Max ((\<lambda>ob. finding_severity_rank (ob_severity ob)) ` set os)"
    and "sf_cvss (group_value ce os) = Max (ob_cvss ` set os)"
    by (simp_all add: group_value_def severity_after_fold)
  show "sf_severity (group_value ce os) \<in> ob_severity ` set os"
    using severity_after_fold(2) [of os "new_finding ce (hd os)"] hd by (auto simp: group_value_def)
qed

lemma scanners_after_fold:
  "set (sf_scanners (fold add_observation os g)) = set (sf_scanners g) \<union> (ob_scanner ` set os - {''''})"
  by (induction os arbitrary: g) (auto simp: add_unique_def)

text \<open>The place an observation is counted under.\<close>

definition place :: "raw_observation \<Rightarrow> string \<times> string \<times> string" where
  "place ob = (ob_canonical ob, ob_method ob, ob_parameter ob)"

definition endpoint_place :: "finding_endpoint \<Rightarrow> string \<times> string \<times> string" where
  "endpoint_place e = (fe_canonical e, fe_method e, fe_parameter e)"

lemma same_endpoint_place: "same_endpoint ob e \<longleftrightarrow> endpoint_place e = place ob"
  by (auto simp: same_endpoint_def place_def endpoint_place_def)

lemma places_add_endpoint:
  "map endpoint_place (add_endpoint ob es) =
     (if place ob \<in> endpoint_place ` set es then map endpoint_place es else map endpoint_place es @ [place ob])"
  by (induction es) (auto simp: same_endpoint_place, auto simp: endpoint_place_def place_def)

lemma places_after_fold:
  assumes "distinct (map endpoint_place (sf_endpoints g))"
  shows "distinct (map endpoint_place (sf_endpoints (fold add_observation os g)))"
    and "endpoint_place ` set (sf_endpoints (fold add_observation os g)) = endpoint_place ` set (sf_endpoints g) \<union> place ` set os"
proof -
  have step: "endpoint_place ` set (add_endpoint ob es) = insert (place ob) (endpoint_place ` set es)" for ob es
    using arg_cong [OF places_add_endpoint [of ob es], of set] by (auto split: if_splits)
  show "distinct (map endpoint_place (sf_endpoints (fold add_observation os g)))"
    using assms by (induction os arbitrary: g) (auto simp: places_add_endpoint)
  show "endpoint_place ` set (sf_endpoints (fold add_observation os g)) = endpoint_place ` set (sf_endpoints g) \<union> place ` set os"
    by (induction os arbitrary: g) (simp_all add: step)
qed

lemma group_value_places:
  "length (sf_endpoints (group_value ce os)) = card (place ` set os)"
proof -
  let ?es = "sf_endpoints (group_value ce os)"
  have "distinct (map endpoint_place ?es)" "endpoint_place ` set ?es = place ` set os"
    using places_after_fold [of "new_finding ce (hd os)" os] by (simp_all add: group_value_def)
  then show ?thesis
    by (metis distinct_card length_map list.set_map)
qed

section \<open>Findings are classes of observations\<close>

lemma finding_of_snapshot:
  assumes "f \<in> set (unique_findings ce os)"
  obtains k where "raw_group ce os k \<noteq> []" "f = finish_finding (group_value ce (raw_group ce os k))"
    "sf_fingerprint f = k" "k \<in> fingerprint_of ce ` set os"
proof -
  obtain k where k: "k \<in> fingerprint_of ce ` set os" "f = finish_finding (group_value ce (raw_group ce os k))"
    using assms by (auto simp: unique_findings_groups)
  moreover have "raw_group ce os k \<noteq> []" using k(1) by (auto simp: raw_group_def filter_empty_conv)
  moreover from this have "sf_fingerprint f = k" by (simp add: k(2) group_value_fingerprint)
  ultimately show ?thesis using that by blast
qed

lemma mset_by_key:
  "finite ks \<Longrightarrow> key ` set xs \<subseteq> ks \<Longrightarrow>
     mset (concat (map (\<lambda>k. map f (filter (\<lambda>x. key x = k) xs)) (sorted_list_of_set ks))) = mset (map f xs)"
proof (induction xs)
  case Nil
  have "concat (map (\<lambda>k. []) ys) = []" for ys :: "'b list" by (induction ys) simp_all
  then show ?case by simp
next
  case (Cons x xs)
  have one: "mset (concat (map (\<lambda>k. map f (if key x = k then x # g k else g k)) ys))
      = (if key x \<in> set ys then {#f x#} else {#}) + mset (concat (map (\<lambda>k. map f (g k)) ys))"
    if "distinct ys" for ys g
    using that by (induction ys) auto
  show ?case
    using Cons one [of "sorted_list_of_set ks" "\<lambda>k. filter (\<lambda>x. key x = k) xs"] by simp
qed

lemma sum_of_lengths: "sum_list (map (\<lambda>k. length (g k)) ks) = length (concat (map g ks))"
  by (simp add: length_concat comp_def)

lemma unique_findings_ids:
  "map (\<lambda>f. (sf_fingerprint f, sf_observation_ids f)) (unique_findings ce os)
     = map (\<lambda>k. (k, map ob_id (raw_group ce os k))) (sorted_list_of_set (fingerprint_of ce ` set os))"
proof -
  have "raw_group ce os k \<noteq> []" if "k \<in> fingerprint_of ce ` set os" for k
    using that by (auto simp: raw_group_def filter_empty_conv)
  then show ?thesis by (simp add: unique_findings_groups group_value_fingerprint)
qed

abbreviation snapshot_of :: "correlation_env \<Rightarrow> scan_run list \<Rightarrow> finding list \<Rightarrow> findings_snapshot" where
  "snapshot_of ce runs legacy \<equiv> fst (build_findings_snapshot ce runs legacy)"

lemma snapshot_fields:
  "ss_findings (snapshot_of ce runs legacy) = unique_findings ce (raw_observations ce runs legacy)"
  "ss_raw (snapshot_of ce runs legacy) = raw_observations ce runs legacy"
  by (simp_all add: build_findings_snapshot_def Let_def)

text \<open>C34: the findings of a snapshot are the classes of its observations under the fingerprint: there is
  one finding for each fingerprint that occurs, in ascending order, and it lists exactly the observations
  with that fingerprint, in the order they were read. No observation is lost or counted twice.\<close>

theorem findings_are_fingerprint_classes:
  "let s = snapshot_of ce runs legacy in
    map (\<lambda>f. (sf_fingerprint f, sf_observation_ids f)) (ss_findings s)
      = map (\<lambda>k. (k, map ob_id (filter (\<lambda>ob. fingerprint_of ce ob = k) (ss_raw s))))
          (sorted_list_of_set (fingerprint_of ce ` set (ss_raw s)))
    \<and> mset (concat (map sf_observation_ids (ss_findings s))) = mset (map ob_id (ss_raw s))
    \<and> sum_list (map sf_observations (ss_findings s)) = length (ss_raw s)"
proof -
  let ?os = "raw_observations ce runs legacy" let ?ks = "sorted_list_of_set (fingerprint_of ce ` set ?os)"
  have "map sf_observation_ids (unique_findings ce ?os) = map (\<lambda>k. map ob_id (raw_group ce ?os k)) ?ks"
    using arg_cong [OF unique_findings_ids [of ce ?os], of "map snd"] by (simp add: comp_def)
  then have all: "mset (concat (map sf_observation_ids (unique_findings ce ?os))) = mset (map ob_id ?os)"
    by (simp add: raw_group_def mset_by_key)
  have "sf_observations f = length (sf_observation_ids f)" if "f \<in> set (unique_findings ce ?os)" for f
    using that by (auto simp: unique_findings_groups)
  then have "sum_list (map sf_observations (unique_findings ce ?os))
      = length (concat (map sf_observation_ids (unique_findings ce ?os)))"
    by (simp add: length_concat comp_def cong: map_cong)
  also have "\<dots> = length ?os" using arg_cong [OF all, of size] by simp
  finally show ?thesis
    using all unique_findings_ids [of ce ?os] by (simp add: Let_def snapshot_fields raw_group_def)
qed

text \<open>a finding is rated by the worst of its observations: its severity is that of one of them and none
  is ranked above it, its CVSS score is the largest, its scanners are those that reported it, and it counts
  each place (canonical URL, method, parameter) once.\<close>

theorem finding_rated_by_worst:
  assumes "f \<in> set (ss_findings (snapshot_of ce runs legacy))"
  shows "let G = {ob \<in> set (ss_raw (snapshot_of ce runs legacy)). fingerprint_of ce ob = sf_fingerprint f}
    in sf_severity f \<in> ob_severity ` G
       \<and> finding_severity_rank (sf_severity f) = Max ((\<lambda>ob. finding_severity_rank (ob_severity ob)) ` G)
       \<and> sf_cvss f = Max (ob_cvss ` G)
       \<and> set (sf_scanners f) = ob_scanner ` G - {''''}
       \<and> sf_affected_endpoints f = card (place ` G)"
proof -
  let ?s = "snapshot_of ce runs legacy"
  obtain k where k: "raw_group ce (ss_raw ?s) k \<noteq> []" "f = finish_finding (group_value ce (raw_group ce (ss_raw ?s) k))"
      "sf_fingerprint f = k"
    using assms unfolding snapshot_fields by (elim finding_of_snapshot) blast
  have G: "{ob \<in> set (ss_raw ?s). fingerprint_of ce ob = sf_fingerprint f} = set (raw_group ce (ss_raw ?s) k)"
    by (auto simp: raw_group_def k(3))
  show ?thesis
    unfolding G Let_def using k(1,2) group_value_rated [OF k(1)] scanners_after_fold [of "raw_group ce (ss_raw ?s) k"]
    by (simp add: group_value_places) (simp add: group_value_def)
qed

section \<open>Findings to evaluate\<close>

definition demo_finding :: "string \<Rightarrow> string \<Rightarrow> string \<Rightarrow> finding" where
  "demo_finding scanner sev path = \<lparr>fd_source_id = ''s'', fd_scanner = scanner, fd_rule_id = '''', fd_title = ''Missing HSTS'',
     fd_severity = sev, fd_target = ''a.test'', fd_endpoint = ''https://a.test/'' @ path, fd_method = '''', fd_parameter = '''',
     fd_parameter_location = '''', fd_protocol = '''', fd_port = '''', fd_package = '''', fd_package_version = '''',
     fd_source_location = '''', fd_container = '''', fd_resource = '''', fd_description = '''', fd_evidence = '''',
     fd_native_message_id = '''', fd_attack = '''', fd_remediation = '''', fd_evidence_ref = '''', fd_cve = '''',
     fd_cwe = '''', fd_cvss = 0, fd_severity_unrated = False, fd_scope = ''host:a.test'', fd_sources = [],
     fd_fingerprint = '''', fd_confidence = '''', fd_native_confidence = '''', fd_evidence_completeness = ''''\<rparr>"

definition demo_correlation :: correlation_env where
  "demo_correlation = \<lparr>ce_parse = (\<lambda>run. ([], False)), ce_artifact = (\<lambda>p. True), ce_seal = (\<lambda>run. ''''),
     ce_sha256 = (\<lambda>s. s), ce_now = ''2024-01-01T00:00:00Z''\<rparr>"

definition demo_findings :: "finding list" where
  "demo_findings = [demo_finding ''nuclei'' ''low'' ''a'', demo_finding ''zap'' ''High'' ''b?x=1'']"

definition demo_snapshot :: findings_snapshot where
  "demo_snapshot = snapshot_of demo_correlation [] demo_findings"

definition hsts_fingerprint :: string where
  "hsts_fingerprint = ''sha256:missing_hsts|https|a.test|443''"

lemma demo_rows:
  "map (\<lambda>f. (sf_fingerprint f, sf_severity f, sf_scanners f, sf_affected_endpoints f)) (ss_findings demo_snapshot)
     = [(hsts_fingerprint, ''High'', [''nuclei'', ''zap''], 2)]"
  by code_simp

lemma demo_found:
  obtains f where "ss_findings demo_snapshot = [f]" "sf_fingerprint f = hsts_fingerprint" "sf_severity f = ''High''"
    "sf_affected_endpoints f = 2"
  using demo_rows by (auto simp: map_eq_Cons_conv)

theorem finding_rated_by_worst_witness:
  "let f = hd (ss_findings demo_snapshot)
   in sf_severity f = ''High''
      \<and> finding_severity_rank ''High'' = Max ((\<lambda>ob. finding_severity_rank (ob_severity ob)) `
           {ob \<in> set (ss_raw demo_snapshot). fingerprint_of demo_correlation ob = hsts_fingerprint})
      \<and> card (place ` {ob \<in> set (ss_raw demo_snapshot). fingerprint_of demo_correlation ob = hsts_fingerprint}) = 2"
proof -
  obtain f where f: "ss_findings demo_snapshot = [f]" "sf_fingerprint f = hsts_fingerprint" "sf_severity f = ''High''"
      "sf_affected_endpoints f = 2"
    by (rule demo_found)
  have "f \<in> set (ss_findings (snapshot_of demo_correlation [] demo_findings))"
    using f(1) by (simp add: demo_snapshot_def)
  from finding_rated_by_worst [OF this] show ?thesis
    using f by (simp add: Let_def demo_snapshot_def [symmetric])
qed

section \<open>The operator's status\<close>

lemma set_override_keeps [simp]:
  "sf_fingerprint (set_override ov g) = sf_fingerprint g" "sf_status (set_override ov g) = so_status ov"
  "sf_status_reason (set_override ov g) = so_reason ov"
  by (simp_all add: set_override_def)

lemma migrate_keeps_overrides:
  "map_of ovs fp = Some ov \<Longrightarrow> map_of (snd (migrate_findings current inherited gs ovs)) fp = Some ov"
proof (induction current inherited gs ovs rule: migrate_findings.induct)
  case (2 current inherited g gs ovs)
  then show ?case
    by (cases "fp = sf_fingerprint g") (auto simp: map_of_put Let_def split: option.splits prod.splits if_splits)
qed simp

lemma overrides_after_build:
  "map_of ovs fp = Some ov \<Longrightarrow> map_of (snd (build_with_overrides ce runs vulns previous ovs)) fp = Some ov"
  by (simp add: build_with_overrides_def migrate_finding_overrides_def Let_def split_beta migrate_keeps_overrides
      split: option.splits)

lemma explicit_override_applied:
  assumes "map_of ovs fp = Some ov" "f \<in> set (ss_findings (apply_finding_overrides ce ovs s))" "sf_fingerprint f = fp"
  shows "sf_status f = so_status ov \<and> sf_status_reason f = so_reason ov"
  using assms by (auto simp: apply_finding_overrides_def recompute_summary_def apply_explicit_def split: option.splits)

text \<open>A validation of fallbacks only reclassifies findings that are still potential.\<close>

definition settled :: "string \<Rightarrow> string \<Rightarrow> string \<Rightarrow> security_finding list \<Rightarrow> bool" where
  "settled fp st reason fs \<longleftrightarrow>
     list_all (\<lambda>f. sf_fingerprint f = fp \<longrightarrow> sf_status f = st \<and> sf_status_reason f = reason) fs"

lemma settled_after_validation:
  "settled fp st reason fs \<Longrightarrow> st \<noteq> StatusPotential \<Longrightarrow> settled fp st reason (apply_validation v fs)"
  by (auto simp: settled_def apply_validation_def list_all_iff)

lemma settled_after_validations:
  "settled fp st reason fs \<Longrightarrow> st \<noteq> StatusPotential \<Longrightarrow> settled fp st reason (fold apply_validation vs fs)"
  by (induction vs arbitrary: fs) (simp_all add: settled_after_validation)

lemma settled_after_rebuild:
  assumes "map_of ovs fp = Some ov" "so_status ov \<noteq> StatusPotential"
  shows "settled fp (so_status ov) (so_reason ov)
           (ss_findings (fst (rebuild_findings_snapshot ce runs vulns previous ovs validations)))"
proof -
  obtain s ovs' where b: "build_with_overrides ce runs vulns previous ovs = (s, ovs')" by fastforce
  have "map_of ovs' fp = Some ov" using overrides_after_build [OF assms(1)] b by (metis snd_conv)
  moreover have "\<exists>s0. s = apply_finding_overrides ce ovs' s0"
    using b by (auto simp: build_with_overrides_def Let_def split: option.splits prod.splits if_splits)
  ultimately have "settled fp (so_status ov) (so_reason ov) (ss_findings s)"
    using explicit_override_applied by (auto simp: settled_def list_all_iff)
  with assms(2) b show ?thesis
    by (auto simp: rebuild_findings_snapshot_def recompute_summary_def settled_after_validations split: option.splits)
qed

lemma rebuild_keeps_overrides:
  "map_of ovs fp = Some ov \<Longrightarrow>
     map_of (snd (rebuild_findings_snapshot ce runs vulns previous ovs validations)) fp = Some ov"
  using overrides_after_build [of ovs fp ov ce runs vulns previous]
  by (auto simp: rebuild_findings_snapshot_def Let_def split: prod.splits)

lemma update_saves_override:
  assumes "update_finding_status now saved s fp st reason disk = (disk', None)"
  shows "map_of (fk_overrides disk') fp = Some \<lparr>so_status = st, so_reason = trim_space reason, so_updated_at = now\<rparr>"
  using assms by (auto simp: update_finding_status_def Let_def map_of_put split: sum.splits if_splits)

text \<open>C35: the status an operator gives a finding stays. Once an update has succeeded, every later rebuild
  of the snapshot, from whatever runs, earlier snapshots and fallback validations, gives the finding with
  that fingerprint this status and this reason, and keeps the override for the rebuilds after it. The
  status is any but potential, which the handler does not accept.\<close>

theorem operator_status_stays:
  assumes "update_finding_status now saved s fp st reason disk = (disk', None)" and "st \<noteq> StatusPotential"
  shows "let r = rebuild_findings_snapshot ce runs vulns previous (fk_overrides disk') validations
    in list_all (\<lambda>f. sf_fingerprint f = fp \<longrightarrow> sf_status f = st \<and> sf_status_reason f = trim_space reason)
         (ss_findings (fst r))
       \<and> map_of (snd r) fp = Some \<lparr>so_status = st, so_reason = trim_space reason, so_updated_at = now\<rparr>"
  using settled_after_rebuild [OF update_saves_override [OF assms(1)]] rebuild_keeps_overrides [OF update_saves_override [OF assms(1)]]
    assms(2) by (simp add: Let_def settled_def)

definition demo_update :: "finding_disk \<times> status_error option" where
  "demo_update = update_finding_status ''2024-01-02T00:00:00Z'' (True, True) demo_snapshot hsts_fingerprint StatusAcceptedRisk
     '' known '' \<lparr>fk_overrides = [], fk_snapshot = None\<rparr>"

definition demo_validation :: fallback_validation where
  "demo_validation = \<lparr>fv_fingerprint = hsts_fingerprint, fv_endpoint = ''https://a.test/a'', fv_status = 200,
     fv_content_type = '''', fv_body_hash = '''', fv_body_size = 0, fv_canary_status = 200,
     fv_canary_content_type = '''', fv_canary_body_hash = '''', fv_similarity = 1, fv_reason = FallbackReasonMatched\<rparr>"

definition demo_rebuilt :: "findings_snapshot \<times> overrides" where
  "demo_rebuilt = rebuild_findings_snapshot demo_correlation [] demo_findings None (fk_overrides (fst demo_update))
     (Some [demo_validation])"

lemma demo_update_ok: "snd demo_update = None"
  by code_simp

lemma demo_rebuilt_fingerprints: "map sf_fingerprint (ss_findings (fst demo_rebuilt)) = [hsts_fingerprint]"
  by code_simp

theorem operator_status_stays_witness:
  "map (\<lambda>f. (sf_status f, sf_status_reason f)) (ss_findings (fst demo_rebuilt)) = [(''ACCEPTED_RISK'', ''known'')]"
proof -
  obtain f where f: "ss_findings (fst demo_rebuilt) = [f]" "sf_fingerprint f = hsts_fingerprint"
    using demo_rebuilt_fingerprints by (auto simp: map_eq_Cons_conv)
  have "update_finding_status ''2024-01-02T00:00:00Z'' (True, True) demo_snapshot hsts_fingerprint StatusAcceptedRisk
      '' known '' \<lparr>fk_overrides = [], fk_snapshot = None\<rparr> = (fst demo_update, None)"
    using demo_update_ok by (simp add: demo_update_def [symmetric] prod_eq_iff)
  moreover have "StatusAcceptedRisk \<noteq> StatusPotential" by (simp add: StatusAcceptedRisk_def StatusPotential_def)
  moreover have "trim_space '' known '' = ''known''" by code_simp
  ultimately show ?thesis
    using operator_status_stays [of _ _ _ _ _ _ _ "fst demo_update" demo_correlation "[]" demo_findings None
        "Some [demo_validation]"] f
    by (simp add: demo_rebuilt_def [symmetric] Let_def StatusAcceptedRisk_def)
qed

text \<open>Times are compared as text: of two observations within one second the one without a fraction counts
  as the later, so a finding may be first seen after it was last seen.\<close>

lemma seen_as_text:
  assumes "ob_observed_at a = ''2024-01-01T00:00:00Z''" "ob_observed_at b = ''2024-01-01T00:00:00.5Z''"
  shows "sf_first_seen (group_value ce [a, b]) = ''2024-01-01T00:00:00.5Z''"
    and "sf_last_seen (group_value ce [a, b]) = ''2024-01-01T00:00:00Z''"
proof -
  have "''2024-01-01T00:00:00.5Z'' < (''2024-01-01T00:00:00Z'' :: string)" by code_simp
  then show "sf_first_seen (group_value ce [a, b]) = ''2024-01-01T00:00:00.5Z''"
    and "sf_last_seen (group_value ce [a, b]) = ''2024-01-01T00:00:00Z''"
    using assms by (simp_all add: group_value_def add_observation_def new_finding_def Let_def)
qed

end
