(* ===== verification/Fallback.thy ===== *)
theory Fallback
  imports CorrelateProperties AppScope Budget
begin

text \<open>
  The validation of suspicious findings against a canary (\<open>internal/scanner/fallback.go\<close>, its scope in
  \<open>internal/web/findings_correlation.go\<close>): the candidates, the gate before every GET, the comparison of
  the two answers. What happens at the n-th request that passes the scope and the guard is the n-th
  \<open>fallback_moment\<close>.
\<close>

section \<open>The gate\<close>

definition FallbackMaxCandidates :: nat where "FallbackMaxCandidates = 20"
definition FallbackMaxBodyBytes :: nat where "FallbackMaxBodyBytes = 262144"

definition FallbackReasonDiffered :: string where "FallbackReasonDiffered = ''RESPONSE_DIFFERED_FROM_CANARY''"
definition FallbackReasonUnavailable :: string where "FallbackReasonUnavailable = ''VALIDATION_UNAVAILABLE''"
definition FallbackReasonOutOfScope :: string where "FallbackReasonOutOfScope = ''OUT_OF_SCOPE''"
definition FallbackReasonExcluded :: string where "FallbackReasonExcluded = ''EXCLUDED''"
definition FallbackReasonScopeGuard :: string where "FallbackReasonScopeGuard = ''SCOPE_GUARD_BLOCKED''"
definition FallbackReasonBudgetExhausted :: string where "FallbackReasonBudgetExhausted = ''BUDGET_EXHAUSTED''"
definition FallbackReasonCancelled :: string where "FallbackReasonCancelled = ''CANCELLED''"

record fallback_options =
  fo_scope :: app_scope
  fo_guard :: "(string \<Rightarrow> bool) option"

record http_answer =
  ha_status :: int
  ha_content_type :: string
  ha_body :: string

text \<open>\<open>fq_now\<close> to \<open>fq_after\<close> are the arguments of the budget's \<open>Wait\<close>; \<open>fq_answer\<close> is what \<open>client.Do\<close> and
  the bounded read return, a body of at most one byte more than the limit.\<close>

record fallback_moment =
  fq_now :: int
  fq_ctx_err :: "string option"
  fq_bucket :: "int option \<Rightarrow> string \<Rightarrow> string option"
  fq_after :: "string option"
  fq_answer :: "http_answer option"

record fallback_state =
  fx_budget :: "budget option"
  fx_requests :: nat
  fx_sent :: "string list"

definition fallback_scope_refusal :: "fallback_options \<Rightarrow> string \<Rightarrow> string" where
  "fallback_scope_refusal opts raw =
     (if \<not> fst (allows (fo_scope opts) raw) then FallbackReasonOutOfScope
      else if excluded (fo_scope opts) ''GET'' raw \<noteq> None then FallbackReasonExcluded
      else case fo_guard opts of
             None \<Rightarrow> '''' | Some blocked \<Rightarrow> if blocked raw then FallbackReasonScopeGuard else '''')"

definition fallback_request_gate ::
  "fallback_options \<Rightarrow> (nat \<Rightarrow> fallback_moment) \<Rightarrow> string \<Rightarrow> fallback_state \<Rightarrow> fallback_state \<times> string" where
  "fallback_request_gate opts moments raw st =
     (if fallback_scope_refusal opts raw \<noteq> '''' then (st, fallback_scope_refusal opts raw)
      else
        let m = moments (fx_requests st);
            (b, err) = budget_wait (fx_budget st) (fq_now m) (fq_ctx_err m) (fq_bucket m) (fq_after m);
            st' = st\<lparr>fx_budget := b, fx_requests := fx_requests st + 1\<rparr>
        in (st', case err of
                   None \<Rightarrow> '''' | Some (BudgetExhausted e) \<Rightarrow> FallbackReasonBudgetExhausted
                 | Some _ \<Rightarrow> FallbackReasonCancelled))"

section \<open>One candidate\<close>

definition response_signature :: "correlation_env \<Rightarrow> string \<Rightarrow> string \<times> int" where
  "response_signature ce body =
     (ce_sha256 ce (join_on '' '' (string_fields (filter (\<lambda>c. c \<noteq> CHR 0x0D) body))), int (length body))"

text \<open>One \<open>fetch\<close>: status, media type, body hash and size, or the reason there is none.\<close>

definition fetch ::
  "correlation_env \<Rightarrow> fallback_options \<Rightarrow> (nat \<Rightarrow> fallback_moment) \<Rightarrow> string \<Rightarrow> fallback_state
     \<Rightarrow> fallback_state \<times> (string + int \<times> string \<times> string \<times> int)" where
  "fetch ce opts moments raw st =
     (let (st1, reason) = fallback_request_gate opts moments raw st
      in if reason \<noteq> '''' then (st1, Inl reason)
         else if url_parse raw = None then (st1, Inl FallbackReasonUnavailable)
         else
           (st1\<lparr>fx_sent := fx_sent st1 @ [raw]\<rparr>,
            case fq_answer (moments (fx_requests st)) of
              None \<Rightarrow> Inl FallbackReasonUnavailable
            | Some a \<Rightarrow>
                if length (ha_body a) > FallbackMaxBodyBytes then Inl FallbackReasonUnavailable
                else Inr (ha_status a, to_lower (trim_space (hd (split_on (CHR '';'') (ha_content_type a)))),
                          response_signature ce (ha_body a))))"

definition no_validation :: "string \<Rightarrow> string \<Rightarrow> fallback_validation" where
  "no_validation endpoint reason = \<lparr>fv_fingerprint = '''', fv_endpoint = endpoint, fv_status = 0, fv_content_type = '''',
     fv_body_hash = '''', fv_body_size = 0, fv_canary_status = 0, fv_canary_content_type = '''',
     fv_canary_body_hash = '''', fv_similarity = 0, fv_reason = reason\<rparr>"

definition validate_fallback_url ::
  "correlation_env \<Rightarrow> fallback_options \<Rightarrow> (nat \<Rightarrow> fallback_moment) \<Rightarrow> string \<Rightarrow> string \<Rightarrow> fallback_state
     \<Rightarrow> fallback_state \<times> fallback_validation" where
  "validate_fallback_url ce opts moments endpoint canary st =
     (case fetch ce opts moments endpoint st of
        (st1, Inl reason) \<Rightarrow> (st1, no_validation endpoint reason)
      | (st1, Inr (status, ctype, hash, len)) \<Rightarrow>
          (case fetch ce opts moments canary st1 of
             (st2, Inl reason) \<Rightarrow> (st2, no_validation endpoint reason)
           | (st2, Inr (cstatus, cctype, chash, clen)) \<Rightarrow>
               (let same = (status = cstatus \<and> ctype = cctype \<and> hash = chash)
                in (st2, (no_validation endpoint (if same then FallbackReasonMatched else FallbackReasonDiffered))
                           \<lparr>fv_status := status, fv_content_type := ctype, fv_body_hash := hash, fv_body_size := len,
                            fv_canary_status := cstatus, fv_canary_content_type := cctype,
                            fv_canary_body_hash := chash, fv_similarity := (if same then 1 else 0)\<rparr>))))"

text \<open>\<open>path.Dir\<close>.\<close>

definition path_dir :: "string \<Rightarrow> string" where
  "path_dir p = path_clean (rev (dropWhile (\<lambda>c. c \<noteq> CHR ''/'') (rev p)))"

definition fallback_canary :: "correlation_env \<Rightarrow> fallback_options \<Rightarrow> string \<Rightarrow> url \<Rightarrow> string" where
  "fallback_canary ce opts raw u =
     (let origin = u_scheme u @ ''://'' @ u_host u;
          name = ''xalgorix-canary-'' @ take 12 (ce_sha256 ce origin);
          root = origin @ ''/'' @ name;
          dir = path_dir (escaped_path (u_path u) (written_path (u_scheme u) (written_rest raw)))
      in if fallback_scope_refusal opts root = '''' then root
         else origin @ (if has_suffix dir ''/'' then dir else dir @ ''/'') @ name)"

section \<open>All candidates\<close>

definition suspicious_fallback_path :: "string \<Rightarrow> bool" where
  "suspicious_fallback_path raw =
     list_ex (contains (to_lower raw))
       [''/.env'', ''/.ht'', ''/.bash_history'', ''/.sh_history'', ''backup'', ''.bak'', ''/debug'', ''/actuator'', ''/metrics'']"

definition candidate_url :: "findings_snapshot \<Rightarrow> string \<Rightarrow> string option" where
  "candidate_url s i =
     (case by_id (ss_raw s) i of
        None \<Rightarrow> None
      | Some ob \<Rightarrow>
          if \<not> suspicious_fallback_path (ob_endpoint ob) then None
          else case url_parse (ob_endpoint ob) of
                 None \<Rightarrow> None
               | Some u \<Rightarrow> if u_scheme u = '''' \<or> u_host u = '''' \<or> u_user u then None else Some (ob_endpoint ob))"

definition fallback_candidates :: "findings_snapshot \<Rightarrow> (string \<times> string) list" where
  "fallback_candidates s =
     take FallbackMaxCandidates
       (concat (map (\<lambda>f. if sf_status f = StatusObservation \<or> sf_dedupe_scope f = DedupeHost then []
                          else map (Pair (sf_fingerprint f)) (List.map_filter (candidate_url s) (sf_observation_ids f)))
          (ss_findings s)))"

fun validate_candidates ::
  "correlation_env \<Rightarrow> fallback_options \<Rightarrow> (nat \<Rightarrow> fallback_moment) \<Rightarrow> string \<Rightarrow> (string \<times> string) list \<Rightarrow> fallback_state
     \<Rightarrow> fallback_state \<times> fallback_validation list" where
  "validate_candidates ce opts moments stopped [] st = (st, [])"
| "validate_candidates ce opts moments stopped ((fp, endpoint) # cs) st =
     (let (st1, v) =
            (if stopped \<noteq> '''' then (st, no_validation endpoint stopped)
             else case url_parse endpoint of
                    None \<Rightarrow> (st, no_validation endpoint '''')
                  | Some u \<Rightarrow> validate_fallback_url ce opts moments endpoint (fallback_canary ce opts endpoint u) st);
          stopped' = (if stopped = '''' \<and> (fv_reason v = FallbackReasonBudgetExhausted \<or> fv_reason v = FallbackReasonCancelled)
                      then fv_reason v else stopped);
          (st2, vs) = validate_candidates ce opts moments stopped' cs st1
      in (st2, v\<lparr>fv_fingerprint := fp\<rparr> # vs))"

definition validate_spa_fallback ::
  "correlation_env \<Rightarrow> fallback_options \<Rightarrow> (nat \<Rightarrow> fallback_moment) \<Rightarrow> findings_snapshot \<Rightarrow> fallback_state
     \<Rightarrow> fallback_state \<times> fallback_validation list" where
  "validate_spa_fallback ce opts moments s st = validate_candidates ce opts moments '''' (fallback_candidates s) st"

section \<open>The scope of the requests\<close>

text \<open>The configuration whose targets bound the requests: that of the plan or of the request, or one made of
  the target of a scan without an assessment.\<close>

definition fallback_config :: "assessment_config option \<Rightarrow> string \<Rightarrow> assessment_config" where
  "fallback_config cfg target0 =
     (case cfg of
        Some c \<Rightarrow> c
      | None \<Rightarrow>
          (let target = trim_space target0
           in empty_config\<lparr>cfg_targets := [\<lparr>tgt_id = ''scan'', tgt_kind = (if contains target ''://'' then KindURL else KindHost),
                tgt_value = target, tgt_branch = '''', tgt_related_to = ''''\<rparr>]\<rparr>))"

definition fallback_scope :: "assessment_config \<Rightarrow> app_scope" where
  "fallback_scope cfg =
     (let scopes = map (\<lambda>t. app_scope_for_target cfg (tgt_id t)) (cfg_targets cfg)
      in new_app_scope (concat (map sc_origins scopes)) (concat (map sc_exclusions scopes)))"

end
