(* ===== verification/FallbackProperties.thy ===== *)
theory FallbackProperties
  imports Fallback
begin

text \<open>
  The requests of the fallback validation stay inside what the assessment approved, are few, and end
  with the budget.
\<close>

section \<open>The scope of the requests\<close>

lemma fallback_scope_origins:
  assumes "\<And>t. t \<in> set (cfg_targets cfg) \<Longrightarrow>
      list_all (\<lambda>ori. normalize_origin ori = (ori, True)) (sc_origins (app_scope_for_target cfg (tgt_id t)))"
  shows "set (sc_origins (fallback_scope cfg))
    = (\<Union>t \<in> set (cfg_targets cfg). set (sc_origins (app_scope_for_target cfg (tgt_id t))))"
proof -
  let ?os = "concat (map (\<lambda>t. sc_origins (app_scope_for_target cfg (tgt_id t))) (cfg_targets cfg))"
  have valid: "valid_origin ori = None" if "ori \<in> set (sc_origins (app_scope_for_target cfg tid))" for ori tid
    using that by (auto simp: app_scope_for_target_def Let_def empty_scope_def set_sc_origins set_usable_origins
        split: option.splits)
  have "usable_origins ?os = ?os"
    using assms valid by (intro usable_origins_fixed) (auto simp: list_all_iff)
  then show ?thesis
    by (simp add: fallback_scope_def Let_def comp_def set_sc_origins)
qed

lemma fallback_scope_exclusions:
  assumes "\<And>t. t \<in> set (cfg_targets cfg) \<Longrightarrow>
      list_all (\<lambda>e. normalize_exclusion e = e) (sc_exclusions (app_scope_for_target cfg (tgt_id t)))"
  shows "exclusion_id ` set (sc_exclusions (fallback_scope cfg))
    = exclusion_id ` (\<Union>t \<in> set (cfg_targets cfg). set (sc_exclusions (app_scope_for_target cfg (tgt_id t))))"
proof -
  let ?es = "concat (map (\<lambda>t. sc_exclusions (app_scope_for_target cfg (tgt_id t))) (cfg_targets cfg))"
  have "normalize_exclusions ?es = ?es"
    using assms by (auto simp: normalize_exclusions_def list_all_iff intro!: map_idI)
  then show ?thesis
    by (simp add: fallback_scope_def Let_def comp_def new_app_scope_def exclusion_ids_sort_dedupe)
qed

lemma wf_fallback_scope: "wf_scope (fallback_scope cfg)"
  by (simp add: fallback_scope_def Let_def wf_new_app_scope)

lemma exclusion_hits_mono:
  assumes "exclusion_hits s m d e (pat_tokens (exclusion_pattern e))" "exclusion_id e = exclusion_id e'"
    and "set (sc_origins s) \<subseteq> set (sc_origins s')"
  shows "exclusion_hits s' m d e' (pat_tokens (exclusion_pattern e'))"
proof -
  have "exclusion_pattern e = exclusion_pattern e'" using assms(2) by (simp add: exclusion_pattern_def exclusion_id_def)
  with assms show ?thesis
    by (auto simp: exclusion_hits_def target_owns_def list_ex_iff exclusion_id_def)
qed

text \<open>What the union of the scopes lets through, the scope of a target lets through.\<close>

lemma fallback_scope_allows:
  assumes origins: "\<And>t. t \<in> set (cfg_targets cfg) \<Longrightarrow>
      list_all (\<lambda>ori. normalize_origin ori = (ori, True)) (sc_origins (app_scope_for_target cfg (tgt_id t)))"
    and exclusions: "\<And>t. t \<in> set (cfg_targets cfg) \<Longrightarrow>
      list_all (\<lambda>e. normalize_exclusion e = e) (sc_exclusions (app_scope_for_target cfg (tgt_id t)))"
    and ok: "fst (allows (fallback_scope cfg) raw)" "excluded (fallback_scope cfg) m raw = None"
  shows "\<exists>t \<in> set (cfg_targets cfg). fst (allows (app_scope_for_target cfg (tgt_id t)) raw)
    \<and> excluded (app_scope_for_target cfg (tgt_id t)) m raw = None"
proof -
  note os = fallback_scope_origins [OF origins] and es = fallback_scope_exclusions [OF exclusions]
  obtain d ori where d: "parse_destination raw = Inr d" "ori \<in> set (sc_origins (fallback_scope cfg))" "in_boundary ori d"
    using ok(1) by (auto simp: allows_iff [OF wf_fallback_scope])
  then obtain t where t: "t \<in> set (cfg_targets cfg)" "ori \<in> set (sc_origins (app_scope_for_target cfg (tgt_id t)))"
    by (auto simp: os)
  let ?s = "app_scope_for_target cfg (tgt_id t)"
  have "fst (allows ?s raw)" using d(1,3) t(2) by (auto simp: allows_iff [OF wf_app_scope_for_target])
  moreover have "excluded ?s m raw = None"
  proof (rule ccontr)
    assume hit: "excluded ?s m raw \<noteq> None"
    obtain e where e: "e \<in> set (sc_exclusions ?s)"
        "exclusion_hits ?s (to_upper (trim_space m)) d e (pat_tokens (exclusion_pattern e))"
      using hit [unfolded excluded_iff [OF wf_app_scope_for_target]] d(1) by auto
    then have "exclusion_id e \<in> exclusion_id ` set (sc_exclusions (fallback_scope cfg))" using t(1) by (auto simp: es)
    then obtain e' where e': "e' \<in> set (sc_exclusions (fallback_scope cfg))" "exclusion_id e = exclusion_id e'" by blast
    have "set (sc_origins ?s) \<subseteq> set (sc_origins (fallback_scope cfg))" using t(1) by (auto simp: os)
    from exclusion_hits_mono [OF e(2) e'(2) this] e'(1) d(1)
    have "excluded (fallback_scope cfg) m raw \<noteq> None"
      by (subst excluded_iff [OF wf_fallback_scope]) auto
    with ok(2) show False by simp
  qed
  ultimately show ?thesis using t(1) by blast
qed

section \<open>What is sent\<close>

definition passes_gate :: "fallback_options \<Rightarrow> string \<Rightarrow> bool" where
  "passes_gate opts raw \<longleftrightarrow> fallback_scope_refusal opts raw = ''''"

lemma gate_sends_nothing [simp]: "fx_sent (fst (fallback_request_gate opts moments raw st)) = fx_sent st"
  by (simp add: fallback_request_gate_def Let_def split_beta)

lemma gate_cleared: "snd (fallback_request_gate opts moments raw st) = '''' \<Longrightarrow> passes_gate opts raw"
  by (auto simp: fallback_request_gate_def passes_gate_def split: if_splits)

text \<open>An operation sends at most \<open>n\<close> requests, all of them passes_gate.\<close>

definition sends :: "nat \<Rightarrow> fallback_options \<Rightarrow> fallback_state \<Rightarrow> fallback_state \<Rightarrow> bool" where
  "sends n opts st st' \<longleftrightarrow>
     (\<exists>new. fx_sent st' = fx_sent st @ new \<and> length new \<le> n \<and> list_all (passes_gate opts) new)"

lemma sends_nothing [simp]: "sends n opts st st"
  by (simp add: sends_def)

lemma sends_trans: "sends n opts st st1 \<Longrightarrow> sends n' opts st1 st2 \<Longrightarrow> sends (n + n') opts st st2"
  unfolding sends_def by (elim exE) (rename_tac a b, rule_tac x = "a @ b" in exI, simp)

lemma fetch_sends: "sends 1 opts st (fst (fetch ce opts moments raw st))"
proof -
  obtain st1 reason where g: "fallback_request_gate opts moments raw st = (st1, reason)" by fastforce
  then have "fx_sent st1 = fx_sent st" using gate_sends_nothing by (metis fst_conv)
  moreover have "reason = '''' \<Longrightarrow> passes_gate opts raw" using gate_cleared g by (metis snd_conv)
  ultimately show ?thesis by (simp add: fetch_def g sends_def)
qed

lemma validate_url_sends: "sends 2 opts st (fst (validate_fallback_url ce opts moments endpoint canary st))"
proof -
  obtain st1 r where f: "fetch ce opts moments endpoint st = (st1, r)" by fastforce
  have "sends 1 opts st st1" using fetch_sends f by (metis fst_conv)
  moreover have "sends 1 opts st1 (fst (fetch ce opts moments canary st1))" by (rule fetch_sends)
  ultimately have two: "sends 2 opts st (fst (fetch ce opts moments canary st1))" and one: "sends 2 opts st st1"
    using sends_trans [of 1] sends_trans [of 1 opts st st1 1 st1] by (simp_all add: numeral_2_eq_2)
  show ?thesis
    using one two by (auto simp: validate_fallback_url_def f Let_def split: sum.splits prod.splits)
qed

lemma validate_candidates_sends:
  "sends (2 * length cs) opts st (fst (validate_candidates ce opts moments stopped cs st))"
proof (induction ce opts moments stopped cs st rule: validate_candidates.induct)
  case (2 ce opts moments stopped fp endpoint cs st)
  obtain st1 v where v: "(if stopped \<noteq> '''' then (st, no_validation endpoint stopped)
      else case url_parse endpoint of
             None \<Rightarrow> (st, no_validation endpoint '''')
           | Some u \<Rightarrow> validate_fallback_url ce opts moments endpoint (fallback_canary ce opts endpoint u) st) = (st1, v)"
    by fastforce
  have "sends 2 opts st st1"
    using v validate_url_sends by (auto split: if_splits option.splits) (metis fst_conv)
  moreover have "sends (2 * length cs) opts st1
      (fst (validate_candidates ce opts moments
        (if stopped = '''' \<and> (fv_reason v = FallbackReasonBudgetExhausted \<or> fv_reason v = FallbackReasonCancelled)
         then fv_reason v else stopped) cs st1))"
    using 2 v by simp
  ultimately show ?case
    using sends_trans [of 2] v by (simp add: Let_def split_beta)
qed simp

section \<open>The requests of a validation\<close>

lemma cleared_iff:
  "passes_gate opts raw \<longleftrightarrow> fst (allows (fo_scope opts) raw) \<and> excluded (fo_scope opts) ''GET'' raw = None
     \<and> (case fo_guard opts of None \<Rightarrow> True | Some blocked \<Rightarrow> \<not> blocked raw)"
  by (auto simp: passes_gate_def fallback_scope_refusal_def FallbackReasonOutOfScope_def FallbackReasonExcluded_def
      FallbackReasonScopeGuard_def split: option.splits)

lemma validation_sends:
  "sends 40 opts st (fst (validate_spa_fallback ce opts moments s st))"
proof -
  have "length (fallback_candidates s) \<le> 20"
    by (simp add: fallback_candidates_def FallbackMaxCandidates_def)
  then show ?thesis
    using validate_candidates_sends [of "fallback_candidates s" opts st ce moments "''''"]
    by (fastforce simp: validate_spa_fallback_def sends_def)
qed

text \<open>the fallback validation stays inside the assessment. Whatever the snapshot holds and however the
  servers, the budget and the clock behave, it sends at most forty requests, and each is allowed and not
  excluded by the scope of one of the targets and not blocked by the guard, provided the origins and
  exclusions of the targets' scopes are fixed points of their normalisation.\<close>

theorem fallback_requests_confined:
  assumes "\<forall>t \<in> set (cfg_targets cfg).
      list_all (\<lambda>ori. normalize_origin ori = (ori, True)) (sc_origins (app_scope_for_target cfg (tgt_id t)))
      \<and> list_all (\<lambda>e. normalize_exclusion e = e) (sc_exclusions (app_scope_for_target cfg (tgt_id t)))"
    and "fo_scope opts = fallback_scope cfg"
    and "fst (validate_spa_fallback ce opts moments s \<lparr>fx_budget = b, fx_requests = 0, fx_sent = []\<rparr>) = st"
  shows "length (fx_sent st) \<le> 40
    \<and> list_all (\<lambda>raw. (\<exists>t \<in> set (cfg_targets cfg). fst (allows (app_scope_for_target cfg (tgt_id t)) raw)
                         \<and> excluded (app_scope_for_target cfg (tgt_id t)) ''GET'' raw = None)
                     \<and> (case fo_guard opts of None \<Rightarrow> True | Some blocked \<Rightarrow> \<not> blocked raw)) (fx_sent st)"
proof -
  have "sends 40 opts \<lparr>fx_budget = b, fx_requests = 0, fx_sent = []\<rparr> st"
    using validation_sends assms(3) by metis
  then have sent: "length (fx_sent st) \<le> 40" "list_all (passes_gate opts) (fx_sent st)" by (auto simp: sends_def)
  moreover have "\<exists>t \<in> set (cfg_targets cfg). fst (allows (app_scope_for_target cfg (tgt_id t)) raw)
      \<and> excluded (app_scope_for_target cfg (tgt_id t)) ''GET'' raw = None" if "passes_gate opts raw" for raw
    using that assms(1,2) by (intro fallback_scope_allows) (auto simp: cleared_iff)
  ultimately show ?thesis by (auto simp: list_all_iff cleared_iff)
qed

definition env_finding :: finding where
  "env_finding = (demo_finding ''nuclei'' ''high'' ''.env'')\<lparr>fd_title := ''Exposed file''\<rparr>"

definition env_config :: assessment_config where
  "env_config = empty_config\<lparr>cfg_targets := [\<lparr>tgt_id = ''t1'', tgt_kind = ''URL'', tgt_value = ''https://a.test/'', tgt_branch = '''',
       tgt_related_to = ''''\<rparr>],
     cfg_exclusions := [\<lparr>ex_target_id = '''', ex_origin = '''', ex_method = '''', ex_path_pattern = ''/admin'', ex_reason = ''''\<rparr>]\<rparr>"

definition env_options :: fallback_options where
  "env_options = \<lparr>fo_scope = fallback_scope env_config, fo_guard = None\<rparr>"

definition env_moment :: "nat \<Rightarrow> fallback_moment" where
  "env_moment n = \<lparr>fq_now = 0, fq_ctx_err = None, fq_bucket = (\<lambda>d h. None), fq_after = None,
     fq_answer = Some \<lparr>ha_status = 200, ha_content_type = ''text/html; charset=utf-8'', ha_body = ''app''\<rparr>\<rparr>"

definition env_validated :: "fallback_state \<times> fallback_validation list" where
  "env_validated = validate_spa_fallback demo_correlation env_options env_moment (snapshot_of demo_correlation [] [env_finding])
     \<lparr>fx_budget = None, fx_requests = 0, fx_sent = []\<rparr>"

lemma env_validated_eval:
  "fx_sent (fst env_validated) = [''https://a.test/.env'', ''https://a.test/xalgorix-canary-https://a.te'']
     \<and> map fv_reason (snd env_validated) = [FallbackReasonMatched]"
  by code_simp

lemma env_normal:
  "\<forall>t \<in> set (cfg_targets env_config).
      list_all (\<lambda>ori. normalize_origin ori = (ori, True)) (sc_origins (app_scope_for_target env_config (tgt_id t)))
      \<and> list_all (\<lambda>e. normalize_exclusion e = e) (sc_exclusions (app_scope_for_target env_config (tgt_id t)))"
  by code_simp

theorem fallback_requests_confined_witness:
  "length (fx_sent (fst env_validated)) \<le> 40
    \<and> list_all (\<lambda>raw. (\<exists>t \<in> set (cfg_targets env_config). fst (allows (app_scope_for_target env_config (tgt_id t)) raw)
                         \<and> excluded (app_scope_for_target env_config (tgt_id t)) ''GET'' raw = None)
                     \<and> (case fo_guard env_options of None \<Rightarrow> True | Some blocked \<Rightarrow> \<not> blocked raw)) (fx_sent (fst env_validated))
    \<and> fx_sent (fst env_validated) = [''https://a.test/.env'', ''https://a.test/xalgorix-canary-https://a.te'']"
proof -
  have "fo_scope env_options = fallback_scope env_config" by (simp add: env_options_def)
  from fallback_requests_confined [OF env_normal this env_validated_def [THEN arg_cong [where f = fst], symmetric]]
  show ?thesis using env_validated_eval by simp
qed

end
