(* ===== verification/Governor.thy ===== *)
theory Governor
  imports GoHttp Complex_Main "HOL-Library.Signed_Division"
begin

text \<open>
  The resource governor (\<open>internal/resources/resources.go\<close>): how the limits are scaled to the machine,
  how many scans it carries, and the leases of tool processes. A float is a rational number without
  rounding. What the operator sets in the environment is a record of the values that parse; \<open>/\<close> on
  integers truncates towards zero.
\<close>

section \<open>Levels\<close>

datatype level = LevelOK | LevelCaution | LevelCritical

instantiation level :: linorder
begin

fun level_num :: "level \<Rightarrow> nat" where
  "level_num LevelOK = 0" | "level_num LevelCaution = 1" | "level_num LevelCritical = 2"

definition less_eq_level :: "level \<Rightarrow> level \<Rightarrow> bool" where
  "less_eq_level a b \<longleftrightarrow> level_num a \<le> level_num b"

definition less_level :: "level \<Rightarrow> level \<Rightarrow> bool" where
  "less_level a b \<longleftrightarrow> level_num a < level_num b"

instance
proof
  fix a b c :: level
  show "a < b \<longleftrightarrow> a \<le> b \<and> \<not> b \<le> a" by (auto simp: less_eq_level_def less_level_def)
  show "a \<le> a" by (simp add: less_eq_level_def)
  show "a \<le> b \<Longrightarrow> b \<le> c \<Longrightarrow> a \<le> c" by (simp add: less_eq_level_def)
  show "a \<le> b \<Longrightarrow> b \<le> a \<Longrightarrow> a = b" by (cases a; cases b) (simp_all add: less_eq_level_def)
  show "a \<le> b \<or> b \<le> a" by (auto simp: less_eq_level_def)
qed

end

section \<open>The machine and its limits\<close>

record system_stats =
  sy_cores :: int
  sy_load :: rat
  sy_mem_total :: int
  sy_mem_available :: int
  sy_disk_free :: int

record operator_limits =
  op_cpu_caution :: "rat option"
  op_cpu_critical :: "rat option"
  op_heavy_cpu_load :: "rat option"
  op_ram_caution :: "int option"
  op_ram_critical :: "int option"
  op_disk_caution :: "int option"
  op_disk_critical :: "int option"
  op_max_instances :: "int option"
  op_scan_overhead :: "int option"
  op_scan_budget :: "int option"
  op_tool_mem_limit :: "int option"

record limits =
  li_cpu_caution :: rat
  li_cpu_critical :: rat
  li_heavy_cpu_load :: rat
  li_ram_caution :: int
  li_ram_critical :: int
  li_disk_caution :: int
  li_disk_critical :: int
  li_max_instances :: int
  li_scan_overhead :: int
  li_scan_budget :: int
  li_tool_mem_bytes :: int

definition or_default :: "'a option \<Rightarrow> 'a \<Rightarrow> 'a" where
  "or_default v d = (case v of Some x \<Rightarrow> x | None \<Rightarrow> d)"

definition host_reserve :: "int \<Rightarrow> int" where
  "host_reserve mb =
     (let r0 = mb * 20 sdiv 100; r1 = (if r0 < 512 then 512 else r0) in if r1 > 2048 then 2048 else r1)"

definition auto_heavy_cpu_load :: "int \<Rightarrow> rat" where
  "auto_heavy_cpu_load cores = (if cores \<le> 1 then 85 / 100 else if cores = 2 then 90 / 100 else 1)"

definition auto_scan_overhead :: "int \<Rightarrow> int" where
  "auto_scan_overhead mb =
     (let v0 = mb sdiv 16; v1 = (if v0 < 256 then 256 else v0) in if v1 > 512 then 512 else v1)"

definition auto_scan_budget :: "int \<Rightarrow> int \<Rightarrow> int" where
  "auto_scan_budget mb cores =
     (if mb \<le> 0 then 1024
      else
        let s0 = (if cores < 1 then 1 else cores); slots = (if s0 > 6 then 6 else s0);
            u0 = mb - host_reserve mb; usable = (if u0 < 1024 then 1024 else u0);
            b0 = usable sdiv slots; b1 = (if b0 < 768 then 768 else b0)
        in if b1 > 2048 then 2048 else b1)"

definition auto_go_memory_limit :: "int \<Rightarrow> int" where
  "auto_go_memory_limit mb =
     (if mb \<le> 0 then 0
      else
        let l0 = mb * 45 sdiv 100; l1 = (if l0 < 512 then 512 else l0);
            top = mb - host_reserve mb; l2 = (if top > 0 \<and> l1 > top then top else l1)
        in if l2 > 4096 then 4096 else l2)"

text \<open>\<open>init\<close>; a number of instances below one and a negative memory limit are ignored.\<close>

definition init_limits :: "operator_limits \<Rightarrow> int \<Rightarrow> int \<Rightarrow> limits" where
  "init_limits op cores mb =
     (let caution = (if mb sdiv 4 < 512 then 512 else mb sdiv 4);
          critical = (if mb * 12 sdiv 100 < 256 then 256 else mb * 12 sdiv 100);
          overhead = or_default (op_scan_overhead op) (auto_scan_overhead mb);
          budget = or_default (op_scan_budget op) (auto_scan_budget mb cores)
      in \<lparr>li_cpu_caution = or_default (op_cpu_caution op) 70, li_cpu_critical = or_default (op_cpu_critical op) 90,
          li_heavy_cpu_load = or_default (op_heavy_cpu_load op) (auto_heavy_cpu_load cores),
          li_ram_caution = or_default (op_ram_caution op) caution,
          li_ram_critical = or_default (op_ram_critical op) critical,
          li_disk_caution = or_default (op_disk_caution op) 2048,
          li_disk_critical = or_default (op_disk_critical op) 1024,
          li_max_instances = (case op_max_instances op of Some n \<Rightarrow> if n < 1 then 0 else n | None \<Rightarrow> 0),
          li_scan_overhead = (if overhead < 128 then 128 else overhead),
          li_scan_budget = (if budget < 1024 then 1024 else budget),
          li_tool_mem_bytes = (case op_tool_mem_limit op of Some n \<Rightarrow> if n < 0 then 0 else wrap64 (n * 1024 * 1024) | None \<Rightarrow> 0)\<rparr>)"

definition current_level :: "limits \<Rightarrow> system_stats \<Rightarrow> level" where
  "current_level lm st =
     (let cpu = (if sy_load st \<ge> of_int (sy_cores st) * li_cpu_critical lm / 100 then LevelCritical
                 else if sy_load st \<ge> of_int (sy_cores st) * li_cpu_caution lm / 100 then LevelCaution else LevelOK);
          ram = (if sy_mem_available st < li_ram_critical lm then LevelCritical
                 else if sy_mem_available st < li_ram_caution lm then LevelCaution else LevelOK);
          disk = (if sy_disk_free st < li_disk_critical lm then LevelCritical
                  else if sy_disk_free st < li_disk_caution lm then LevelCaution else LevelOK)
      in max (max cpu ram) disk)"

section \<open>How many scans\<close>

definition per_instance_budget :: "limits \<Rightarrow> int" where
  "per_instance_budget lm =
     (let least = wrap64 (li_tool_mem_bytes lm sdiv (1024 * 1024) + li_scan_overhead lm);
          budget = (if least > li_scan_budget lm then least else li_scan_budget lm)
      in if budget < 1024 then 1024 else budget)"

text \<open>The memory above the critical floor, in 64 bits.\<close>

definition spare_memory :: "limits \<Rightarrow> system_stats \<Rightarrow> int" where
  "spare_memory lm st = wrap64 (sy_mem_available st - li_ram_critical lm)"

definition memory_instance_capacity :: "limits \<Rightarrow> system_stats \<Rightarrow> int" where
  "memory_instance_capacity lm st =
     (let spare = spare_memory lm st
      in if spare \<le> 0 then 0
         else if spare sdiv per_instance_budget lm < 1 then 1 else spare sdiv per_instance_budget lm)"

definition disk_has_headroom :: "limits \<Rightarrow> system_stats \<Rightarrow> bool" where
  "disk_has_headroom lm st \<longleftrightarrow> sy_disk_free st \<le> 0 \<or> sy_disk_free st \<ge> li_disk_critical lm"

definition effective_max_instances :: "limits \<Rightarrow> system_stats \<Rightarrow> int" where
  "effective_max_instances lm st =
     (let n = (if disk_has_headroom lm st then memory_instance_capacity lm st else 0)
      in if li_max_instances lm > 0 \<and> n > li_max_instances lm then li_max_instances lm else n)"

definition can_admit_scan :: "limits \<Rightarrow> system_stats \<Rightarrow> int \<Rightarrow> bool" where
  "can_admit_scan lm st running =
     (if effective_max_instances lm st \<le> 0 then False else \<not> running \<ge> effective_max_instances lm st)"

section \<open>How many tools\<close>

definition minimum_heavy_tool_mem :: int where "minimum_heavy_tool_mem = 256"

definition auto_heavy_tool_mem_limit :: "limits \<Rightarrow> int \<Rightarrow> int" where
  "auto_heavy_tool_mem_limit lm mb =
     (let l0 = mb sdiv 4; l1 = (if l0 > 4096 then 4096 else l0); l2 = (if l1 < 256 then 256 else l1);
          budgeted = li_scan_budget lm - li_scan_overhead lm
      in if budgeted \<ge> 256 \<and> l2 > budgeted then budgeted else l2)"

definition tool_memory_estimate :: "limits \<Rightarrow> system_stats \<Rightarrow> bool \<Rightarrow> int" where
  "tool_memory_estimate lm st heavy =
     (let h = (if auto_heavy_tool_mem_limit lm (sy_mem_total st) < 1 then 1 else auto_heavy_tool_mem_limit lm (sy_mem_total st));
          light = h sdiv max 1 (sy_cores st)
      in if heavy then h else if light < 1 then 1 else light)"

definition load_per_core :: "system_stats \<Rightarrow> rat" where
  "load_per_core st =
     (let l = sy_load st / of_int (max 1 (sy_cores st)) in if l < 1 then 1 else l)"

definition heavy_tool_cpu_capacity :: "limits \<Rightarrow> system_stats \<Rightarrow> int" where
  "heavy_tool_cpu_capacity lm st =
     (let budget = (if li_heavy_cpu_load lm \<le> 0 then auto_heavy_cpu_load (sy_cores st) else li_heavy_cpu_load lm);
          n = \<lfloor>of_int (max 1 (sy_cores st)) / (budget * load_per_core st)\<rfloor>
      in if n < 1 then 1 else n)"

definition light_tool_cpu_capacity :: "system_stats \<Rightarrow> int" where
  "light_tool_cpu_capacity st =
     (let cores = max 1 (sy_cores st); n = \<lceil>of_int (cores * cores) / load_per_core st\<rceil>
      in if n < 1 then 1 else n)"

definition heavy_tool_parallel_cap :: "int \<Rightarrow> int" where
  "heavy_tool_parallel_cap cores = (if cores \<le> 1 then 1 else if cores = 2 then 2 else max 2 (cores - 1))"

text \<open>The slots for heavy and for all tools.\<close>

definition tool_capacity :: "limits \<Rightarrow> system_stats \<Rightarrow> int \<times> int" where
  "tool_capacity lm st =
     (let spare = spare_memory lm st
      in if spare \<le> 0 then (0, 0)
         else
           let slots = (\<lambda>unit. if spare sdiv unit < 1 then 1 else spare sdiv unit);
               heavy = min (slots (tool_memory_estimate lm st True))
                         (min (heavy_tool_cpu_capacity lm st) (heavy_tool_parallel_cap (sy_cores st)));
               light = min (slots (tool_memory_estimate lm st False)) (light_tool_cpu_capacity st)
           in (heavy, if light < heavy then heavy else light))"

definition tool_memory_limit :: "limits \<Rightarrow> system_stats \<Rightarrow> bool \<Rightarrow> int \<Rightarrow> int \<Rightarrow> level \<Rightarrow> int" where
  "tool_memory_limit lm st heavy tools heavies lv =
     (let top = li_tool_mem_bytes lm sdiv (1024 * 1024);
          spare = spare_memory lm st;
          d0 = (if heavy then heavies else tools); d = (if d0 < 1 then 1 else d0);
          v0 = spare sdiv d; v1 = (if lv = LevelCaution then v0 * 3 sdiv 4 else v0);
          v2 = (if v1 > top then top else v1);
          least = (if heavy then minimum_heavy_tool_mem else 128)
      in if li_tool_mem_bytes lm \<le> 0 then 0
         else if top \<le> 0 then 0
         else if spare \<le> 0 then minimum_heavy_tool_mem
         else if v2 < least then least else v2)"

section \<open>Leases\<close>

record governor =
  gv_next :: nat
  gv_total :: int
  gv_heavy :: int

definition idle_governor :: governor where
  "idle_governor = \<lparr>gv_next = 0, gv_total = 0, gv_heavy = 0\<rparr>"

record lease =
  ls_id :: nat
  ls_tool :: string
  ls_heavy :: bool
  ls_memory_bytes :: int
  ls_released :: bool

datatype lease_refusal = HeavySlotsFull int int | ToolSlotsFull int int | NotEnoughRAM int

definition tool_slot_admission :: "bool \<Rightarrow> int \<times> int \<Rightarrow> governor \<Rightarrow> lease_refusal option" where
  "tool_slot_admission heavy cap g =
     (if heavy \<and> gv_heavy g \<ge> fst cap then Some (HeavySlotsFull (gv_heavy g) (fst cap))
      else if gv_total g \<ge> snd cap then Some (ToolSlotsFull (gv_total g) (snd cap)) else None)"

definition try_acquire_tool_lease ::
  "limits \<Rightarrow> system_stats \<Rightarrow> bool \<Rightarrow> string \<Rightarrow> governor \<Rightarrow> lease_refusal + lease \<times> governor" where
  "try_acquire_tool_lease lm st heavy label g =
     (case tool_slot_admission heavy (tool_capacity lm st) g of
        Some r \<Rightarrow> Inl r
      | None \<Rightarrow>
          (let tools = gv_total g + 1; heavies = (if heavy then gv_heavy g + 1 else gv_heavy g);
               limit = tool_memory_limit lm st heavy tools heavies (current_level lm st)
           in if heavy \<and> li_tool_mem_bytes lm > 0 \<and> limit < minimum_heavy_tool_mem then Inl (NotEnoughRAM limit)
              else Inr (\<lparr>ls_id = gv_next g + 1, ls_tool = label, ls_heavy = heavy, ls_memory_bytes = limit * 1024 * 1024,
                          ls_released = False\<rparr>,
                        \<lparr>gv_next = gv_next g + 1, gv_total = tools, gv_heavy = heavies\<rparr>)))"

definition release_lease :: "lease \<Rightarrow> governor \<Rightarrow> lease \<times> governor" where
  "release_lease l g =
     (if ls_released l then (l, g)
      else (l\<lparr>ls_released := True\<rparr>,
            g\<lparr>gv_total := (if gv_total g > 0 then gv_total g - 1 else gv_total g),
              gv_heavy := (if ls_heavy l \<and> gv_heavy g > 0 then gv_heavy g - 1 else gv_heavy g)\<rparr>))"

text \<open>The wait for a lease: at each poll the machine is read, and a context that is done ends the wait. \<open>None\<close>:
  the wait is not over.\<close>

fun acquire_tool_lease ::
  "limits \<Rightarrow> (system_stats \<times> bool) list \<Rightarrow> bool \<Rightarrow> string \<Rightarrow> governor \<Rightarrow> (lease_refusal + lease \<times> governor) option" where
  "acquire_tool_lease lm [] heavy label g = None"
| "acquire_tool_lease lm ((st, done) # polls) heavy label g =
     (case try_acquire_tool_lease lm st heavy label g of
        Inr got \<Rightarrow> Some (Inr got)
      | Inl r \<Rightarrow> if done then Some (Inl r) else acquire_tool_lease lm polls heavy label g)"

section \<open>Labels\<close>

definition label_char :: "char \<Rightarrow> bool" where
  "label_char c \<longleftrightarrow> is_lower c \<or> is_upper c \<or> is_digit c \<or> c \<in> set ''_-.+''"

definition after_last_slash :: "string \<Rightarrow> string" where
  "after_last_slash p = rev (takeWhile (\<lambda>c. c \<noteq> CHR ''/'') (rev p))"

fun label_of :: "string list \<Rightarrow> string" where
  "label_of [] = ''tool''"
| "label_of (f # fs) =
     (let part = trim_cutset [CHR 0x22, CHR 0x27] f
      in if part = '''' then label_of fs
         else if CHR ''='' \<in> set part \<and> CHR ''/'' \<notin> set part \<and> \<not> has_prefix part ''-'' then label_of fs
         else if part \<in> set [''sudo'', ''env'', ''command'', ''time'', ''timeout'', ''nice'', ''nohup''] then label_of fs
         else if part \<in> set [''bash'', ''sh'', ''zsh''] then ''shell''
         else if after_last_slash part = '''' then label_of fs
         else if list_all label_char (after_last_slash part) then after_last_slash part else ''tool'')"

definition tool_log_label :: "string \<Rightarrow> string" where
  "tool_log_label tool = label_of (string_fields (trim_space tool))"

end
