(* ===== verification/GovernorProperties.thy ===== *)
theory GovernorProperties
  imports Governor
begin

text \<open>
  What the resource governor promises: scans are admitted while their memory fits, tools hold no more
  leases than the machine has slots, and a wait ends as soon as a slot is free.
\<close>

section \<open>Division\<close>

lemma sdiv_pos: "0 \<le> a \<Longrightarrow> 0 < b \<Longrightarrow> (a :: int) sdiv b = a div b"
  by (cases "a = 0") (simp_all add: signed_divide_int_def sgn_if)

lemma less_div_iff: "0 < b \<Longrightarrow> n < a div b \<longleftrightarrow> (n + 1) * b \<le> (a :: int)"
proof
  assume b: "0 < b" and "n < a div b"
  then have "(n + 1) * b \<le> (a div b) * b" by (intro mult_right_mono) simp_all
  also have "\<dots> \<le> a" using pos_mod_sign [OF b, of a] div_mult_mod_eq [of a b] by linarith
  finally show "(n + 1) * b \<le> a" .
next
  assume b: "0 < b" and "(n + 1) * b \<le> a"
  then have "(n + 1) * b div b \<le> a div b" by (intro zdiv_mono1)
  with b show "n < a div b" by simp
qed

section \<open>Scans\<close>

lemma per_instance_budget_pos: "1024 \<le> per_instance_budget lm"
  by (simp add: per_instance_budget_def Let_def)

lemma memory_instance_capacity_iff:
  assumes "0 \<le> running"
  shows "running < memory_instance_capacity lm st \<longleftrightarrow>
    0 < spare_memory lm st \<and> (running = 0 \<or> (running + 1) * per_instance_budget lm \<le> spare_memory lm st)"
proof (cases "0 < spare_memory lm st")
  case True
  let ?b = "per_instance_budget lm" let ?spare = "spare_memory lm st"
  have b: "0 < ?b" using per_instance_budget_pos [of lm] by simp
  have "?spare sdiv ?b = ?spare div ?b" using True b by (simp add: sdiv_pos)
  then have "memory_instance_capacity lm st = max 1 (?spare div ?b)"
    using True by (simp add: memory_instance_capacity_def Let_def max_def)
  with True assms show ?thesis by (auto simp: less_max_iff_disj less_div_iff [OF b])
next
  case False
  with assms show ?thesis by (simp add: memory_instance_capacity_def Let_def)
qed

text \<open>A number of 64 bits.\<close>

definition int64 :: "int \<Rightarrow> bool" where
  "int64 i \<longleftrightarrow> - (2 ^ 63) \<le> i \<and> i < 2 ^ 63"

lemma wrap64_int64: "int64 i \<Longrightarrow> wrap64 i = i"
  unfolding int64_def by (rule wrap64_id) simp_all

text \<open>C36: a scan is admitted exactly when memory above the critical floor is free, the disk is not below its
  own, the operator's cap, if there is one, leaves room, and either nothing is running or the memory
  budget of every running scan and of the new one fits into what is free above the floor. The budget of a scan
  is the configured one or what a tool and the overhead take, if that is more, and at least 1024 MB. The
  caution levels and the load of the processors play no part. The memory is counted in numbers of 64 bits
  that do not overflow.\<close>

theorem admission_fits_memory:
  assumes "0 \<le> running" and "int64 (sy_mem_available st - li_ram_critical lm)"
    and "int64 (li_tool_mem_bytes lm sdiv (1024 * 1024) + li_scan_overhead lm)"
  defines "budget \<equiv> max 1024 (max (li_scan_budget lm) (li_tool_mem_bytes lm sdiv (1024 * 1024) + li_scan_overhead lm))"
  shows "can_admit_scan lm st running \<longleftrightarrow>
    li_ram_critical lm < sy_mem_available st
    \<and> (sy_disk_free st \<le> 0 \<or> li_disk_critical lm \<le> sy_disk_free st)
    \<and> (li_max_instances lm \<le> 0 \<or> running < li_max_instances lm)
    \<and> (running = 0 \<or> (running + 1) * budget \<le> sy_mem_available st - li_ram_critical lm)"
proof -
  have "can_admit_scan lm st running \<longleftrightarrow> running < effective_max_instances lm st"
    using assms(1) by (auto simp: can_admit_scan_def)
  also have "\<dots> \<longleftrightarrow> disk_has_headroom lm st \<and> running < memory_instance_capacity lm st
      \<and> (li_max_instances lm \<le> 0 \<or> running < li_max_instances lm)"
    using assms(1) by (auto simp: effective_max_instances_def Let_def)
  moreover have "per_instance_budget lm = budget"
    unfolding budget_def per_instance_budget_def Let_def wrap64_int64 [OF assms(3)] by (simp add: max_def)
  moreover have "spare_memory lm st = sy_mem_available st - li_ram_critical lm"
    by (simp add: spare_memory_def wrap64_int64 [OF assms(2)])
  ultimately show ?thesis
    using memory_instance_capacity_iff [OF assms(1)] by (auto simp: disk_has_headroom_def)
qed

definition small_machine :: system_stats where
  "small_machine = \<lparr>sy_cores = 2, sy_load = 1 / 2, sy_mem_total = 8192, sy_mem_available = 6000, sy_disk_free = 50000\<rparr>"

definition no_overrides :: operator_limits where
  "no_overrides = \<lparr>op_cpu_caution = None, op_cpu_critical = None, op_heavy_cpu_load = None, op_ram_caution = None,
     op_ram_critical = None, op_disk_caution = None, op_disk_critical = None, op_max_instances = None,
     op_scan_overhead = None, op_scan_budget = None, op_tool_mem_limit = None\<rparr>"

definition small_limits :: limits where
  "small_limits = init_limits no_overrides 2 8192"

text \<open>The machine carries one scan, though it has less memory free than its caution level asks for.\<close>

theorem admission_fits_memory_witness:
  "can_admit_scan small_limits (small_machine\<lparr>sy_mem_available := 2000\<rparr>) 0
   \<and> current_level small_limits (small_machine\<lparr>sy_mem_available := 2000\<rparr>) = LevelCaution
   \<and> can_admit_scan small_limits small_machine 1 \<and> \<not> can_admit_scan small_limits small_machine 2"
proof -
  have lim: "li_scan_budget small_limits = 2048" "li_ram_critical small_limits = 983" "li_scan_overhead small_limits = 512"
    "li_disk_critical small_limits = 1024" "li_max_instances small_limits = 0" "li_tool_mem_bytes small_limits sdiv 1048576 = 0"
    by code_simp+
  have "current_level small_limits (small_machine\<lparr>sy_mem_available := 2000\<rparr>) = LevelCaution" by code_simp
  then show ?thesis
    using admission_fits_memory [of 0 "small_machine\<lparr>sy_mem_available := 2000\<rparr>" small_limits]
      admission_fits_memory [of 1 small_machine small_limits] admission_fits_memory [of 2 small_machine small_limits]
    by (simp add: lim small_machine_def int64_def)
qed

section \<open>Leases\<close>

text \<open>Any number of callers acquire and release leases of one governor, each release possibly repeated; the
  machine is read anew for every acquisition and only its number of cores stays.\<close>

inductive lease_step :: "limits \<Rightarrow> int \<Rightarrow> governor \<times> lease list \<Rightarrow> governor \<times> lease list \<Rightarrow> bool"
  for lm :: limits and cores :: int
where
  lease_acquire: "sy_cores st = cores \<Longrightarrow> try_acquire_tool_lease lm st heavy label g = Inr (l, g')
      \<Longrightarrow> lease_step lm cores (g, ls) (g', ls @ [l])"
| lease_release: "i < length ls \<Longrightarrow> release_lease (ls ! i) g = (l, g')
      \<Longrightarrow> lease_step lm cores (g, ls) (g', ls[i := l])"

inductive_cases lease_stepE: "lease_step lm cores (g, ls) w"

definition held :: "lease list \<Rightarrow> int" where
  "held ls = int (length (filter (\<lambda>l. \<not> ls_released l) ls))"

definition held_heavy :: "lease list \<Rightarrow> int" where
  "held_heavy ls = int (length (filter (\<lambda>l. \<not> ls_released l \<and> ls_heavy l) ls))"

definition lease_inv :: "int \<Rightarrow> governor \<times> lease list \<Rightarrow> bool" where
  "lease_inv cores w \<longleftrightarrow>
     (case w of (g, ls) \<Rightarrow> gv_total g = held ls \<and> gv_heavy g = held_heavy ls
        \<and> gv_heavy g \<le> heavy_tool_parallel_cap cores \<and> gv_total g \<le> max 1 cores * max 1 cores)"

lemma length_filter_update:
  "i < length xs \<Longrightarrow> int (length (filter P (xs[i := y])))
     = int (length (filter P xs)) - (if P (xs ! i) then 1 else 0) + (if P y then 1 else 0)"
proof (induction xs arbitrary: i)
  case (Cons x xs)
  show ?case
  proof (cases i)
    case (Suc j)
    with Cons.prems Cons.IH [of j] show ?thesis by (cases "P (xs ! j)"; cases "P y") simp_all
  qed simp
qed simp

lemma held_append: "held (ls @ [l]) = held ls + (if ls_released l then 0 else 1)"
  and held_heavy_append: "held_heavy (ls @ [l]) = held_heavy ls + (if \<not> ls_released l \<and> ls_heavy l then 1 else 0)"
  by (simp_all add: held_def held_heavy_def)

lemma parallel_cap_square: "heavy_tool_parallel_cap cores \<le> max 1 cores * max 1 cores"
proof (cases "cores \<le> 2")
  case True
  then consider "cores \<le> 1" | "cores = 2" by linarith
  then show ?thesis by cases (simp_all add: heavy_tool_parallel_cap_def)
next
  case False
  then have "cores - 1 \<le> cores * cores" using mult_left_mono [of 1 cores cores] by linarith
  with False show ?thesis by (simp add: heavy_tool_parallel_cap_def max_def)
qed

lemma light_capacity_square: "light_tool_cpu_capacity st \<le> max 1 (sy_cores st) * max 1 (sy_cores st)"
proof -
  let ?c = "max 1 (sy_cores st)"
  have one: "1 \<le> ?c * ?c" using mult_mono [of 1 ?c 1 ?c] by simp
  have l: "1 \<le> load_per_core st" by (simp add: load_per_core_def Let_def)
  then have "of_int (?c * ?c) / load_per_core st \<le> of_int (?c * ?c)"
    using one by (simp add: divide_le_eq mult_le_cancel_left1)
  then have "\<lceil>of_int (?c * ?c) / load_per_core st\<rceil> \<le> ?c * ?c" by (simp add: ceiling_le)
  with one show ?thesis by (simp add: light_tool_cpu_capacity_def Let_def)
qed

lemma tool_capacity_bounds:
  "fst (tool_capacity lm st) \<le> heavy_tool_parallel_cap (sy_cores st)"
  "snd (tool_capacity lm st) \<le> max 1 (sy_cores st) * max 1 (sy_cores st)"
proof -
  have pos: "0 \<le> heavy_tool_parallel_cap (sy_cores st)" by (simp add: heavy_tool_parallel_cap_def)
  have sq: "0 \<le> max 1 (sy_cores st) * max 1 (sy_cores st)" by simp
  show "fst (tool_capacity lm st) \<le> heavy_tool_parallel_cap (sy_cores st)"
    using pos by (simp add: tool_capacity_def Let_def min_le_iff_disj)
  show "snd (tool_capacity lm st) \<le> max 1 (sy_cores st) * max 1 (sy_cores st)"
    using sq light_capacity_square [of st] parallel_cap_square [of "sy_cores st"]
    by (simp add: tool_capacity_def Let_def min_le_iff_disj)
qed

lemma acquired:
  assumes "try_acquire_tool_lease lm st heavy label g = Inr (l, g')"
  shows "gv_total g' = gv_total g + 1" "gv_heavy g' = gv_heavy g + (if heavy then 1 else 0)"
    "\<not> ls_released l" "ls_heavy l = heavy" "gv_total g < snd (tool_capacity lm st)"
    "heavy \<longrightarrow> gv_heavy g < fst (tool_capacity lm st)"
  using assms
  by (auto simp: try_acquire_tool_lease_def tool_slot_admission_def Let_def split: option.splits if_splits)

lemma lease_inv_step: "lease_step lm cores w w' \<Longrightarrow> lease_inv cores w \<Longrightarrow> lease_inv cores w'"
proof (induction rule: lease_step.induct)
  case (lease_acquire st heavy label g l g' ls)
  note a = acquired [OF lease_acquire(2)]
  have "gv_heavy g' \<le> heavy_tool_parallel_cap cores"
    using a(2,6) tool_capacity_bounds(1) [of lm st] lease_acquire(1,3) by (auto simp: lease_inv_def)
  moreover have "gv_total g' \<le> max 1 cores * max 1 cores"
    using a(1,5) tool_capacity_bounds(2) [of lm st] lease_acquire(1) by simp
  ultimately show ?case
    using a lease_acquire(3) by (auto simp: lease_inv_def held_append held_heavy_append)
next
  case (lease_release i ls g l g')
  let ?x = "ls ! i"
  show ?case
  proof (cases "ls_released ?x")
    case True
    then have "(g', ls[i := l]) = (g, ls)" using lease_release(2) by (auto simp: release_lease_def)
    with lease_release(3) show ?thesis by simp
  next
    case False
    then have mem: "?x \<in> set (filter (\<lambda>l. \<not> ls_released l) ls)" using lease_release(1) by simp
    then have "0 < held ls" using length_pos_if_in_set [OF mem] by (simp add: held_def)
    moreover have "0 < held_heavy ls" if "ls_heavy ?x"
    proof -
      have "?x \<in> set (filter (\<lambda>l. \<not> ls_released l \<and> ls_heavy l) ls)" using that False lease_release(1) by simp
      from length_pos_if_in_set [OF this] show ?thesis by (simp add: held_heavy_def)
    qed
    moreover have "held (ls[i := ?x\<lparr>ls_released := True\<rparr>]) = held ls - 1"
      "held_heavy (ls[i := ?x\<lparr>ls_released := True\<rparr>]) = held_heavy ls - (if ls_heavy ?x then 1 else 0)"
      using False lease_release(1) by (simp_all add: held_def held_heavy_def length_filter_update)
    ultimately show ?thesis
      using False lease_release(2,3) by (auto simp: lease_inv_def release_lease_def)
  qed
qed

lemma lease_inv_idle: "lease_inv cores (idle_governor, [])"
  by (simp add: lease_inv_def idle_governor_def held_def held_heavy_def heavy_tool_parallel_cap_def)

text \<open>however many callers acquire and release leases, in whatever order and however often they
  release one, the counters of the governor are the leases not released yet, never negative; on a machine
  with \<open>n\<close> cores at most \<open>n - 1\<close> heavy tools run at once (as many as cores for one or two) and at most
  \<open>n\<^sup>2\<close> tools in all.\<close>
theorem tool_leases_bounded:
  assumes "(lease_step lm cores)\<^sup>*\<^sup>* (idle_governor, []) (g, ls)"
  shows "gv_total g = int (length (filter (\<lambda>l. \<not> ls_released l) ls))
    \<and> gv_heavy g = int (length (filter (\<lambda>l. \<not> ls_released l \<and> ls_heavy l) ls))
    \<and> gv_heavy g \<le> (if cores \<le> 2 then max 1 cores else cores - 1)
    \<and> gv_total g \<le> max 1 cores * max 1 cores"
proof -
  have "lease_inv cores (g, ls)"
    using assms by (induction rule: rtranclp_induct) (simp_all add: lease_inv_idle lease_inv_step)
  then show ?thesis
    by (auto simp: lease_inv_def held_def held_heavy_def heavy_tool_parallel_cap_def max_def split: if_splits)
qed

definition two_leases :: "governor \<times> lease list" where
  "two_leases =
     (\<lparr>gv_next = 2, gv_total = 1, gv_heavy = 0\<rparr>,
      [\<lparr>ls_id = 1, ls_tool = ''nmap'', ls_heavy = True, ls_memory_bytes = 0, ls_released = True\<rparr>,
       \<lparr>ls_id = 2, ls_tool = ''curl'', ls_heavy = False, ls_memory_bytes = 0, ls_released = False\<rparr>])"

lemma two_leases_reached: "(lease_step small_limits 2)\<^sup>*\<^sup>* (idle_governor, []) two_leases"
proof -
  let ?a = "\<lparr>ls_id = 1, ls_tool = ''nmap'', ls_heavy = True, ls_memory_bytes = 0, ls_released = False\<rparr> :: lease"
  let ?b = "\<lparr>ls_id = 2, ls_tool = ''curl'', ls_heavy = False, ls_memory_bytes = 0, ls_released = False\<rparr> :: lease"
  let ?g1 = "\<lparr>gv_next = 1, gv_total = 1, gv_heavy = 1\<rparr> :: governor"
  let ?g2 = "\<lparr>gv_next = 2, gv_total = 2, gv_heavy = 1\<rparr> :: governor"
  have cores: "sy_cores small_machine = 2" by (simp add: small_machine_def)
  have a: "try_acquire_tool_lease small_limits small_machine True ''nmap'' idle_governor = Inr (?a, ?g1)" by code_simp
  have b: "try_acquire_tool_lease small_limits small_machine False ''curl'' ?g1 = Inr (?b, ?g2)" by code_simp
  have "lease_step small_limits 2 (idle_governor, []) (?g1, [?a])"
    using lease_acquire [OF cores a, of "[]"] by simp
  moreover have "lease_step small_limits 2 (?g1, [?a]) (?g2, [?a, ?b])"
    using lease_acquire [OF cores b, of "[?a]"] by simp
  moreover have "lease_step small_limits 2 (?g2, [?a, ?b]) two_leases"
    using lease_release [of 0 "[?a, ?b]" ?g2 "?a\<lparr>ls_released := True\<rparr>" "fst two_leases" small_limits 2]
    by (simp add: release_lease_def two_leases_def)
  ultimately show ?thesis by (meson converse_rtranclp_into_rtranclp rtranclp.rtrancl_refl)
qed

theorem tool_leases_bounded_witness:
  "gv_total (fst two_leases) = 1 \<and> gv_heavy (fst two_leases) \<le> 2 \<and> gv_total (fst two_leases) \<le> 4"
  using tool_leases_bounded [OF two_leases_reached [unfolded two_leases_def]] by (simp add: two_leases_def)

section \<open>Waiting\<close>

text \<open>A free machine gives a lease at the first poll; a wait is only refused when its context is done.\<close>

lemma tool_capacity_pos:
  assumes "0 < spare_memory lm st"
  shows "1 \<le> fst (tool_capacity lm st)" "1 \<le> snd (tool_capacity lm st)"
proof -
  have "1 \<le> heavy_tool_cpu_capacity lm st" "1 \<le> light_tool_cpu_capacity st"
    "1 \<le> heavy_tool_parallel_cap (sy_cores st)"
    by (simp_all add: heavy_tool_cpu_capacity_def light_tool_cpu_capacity_def heavy_tool_parallel_cap_def Let_def)
  moreover have "1 \<le> (if n < 1 then 1 else n)" for n :: int by simp
  ultimately have "1 \<le> min (if n < 1 then 1 else n) (min (heavy_tool_cpu_capacity lm st) (heavy_tool_parallel_cap (sy_cores st)))"
    "1 \<le> min (if n < 1 then 1 else n) (light_tool_cpu_capacity st)" for n :: int
    by (simp_all only: min.bounded_iff simp_thms)
  then show "1 \<le> fst (tool_capacity lm st)" "1 \<le> snd (tool_capacity lm st)"
    using assms unfolding tool_capacity_def Let_def by (simp_all only: fst_conv snd_conv not_le diff_le_0_iff_le if_False if_True split: if_split) simp_all
qed

lemma configured_top:
  assumes "1024 * 1024 \<le> li_tool_mem_bytes lm"
  shows "1 \<le> li_tool_mem_bytes lm sdiv (1024 * 1024)"
proof -
  have "li_tool_mem_bytes lm sdiv (1024 * 1024) = li_tool_mem_bytes lm div (1024 * 1024)"
    using assms by (intro sdiv_pos) simp_all
  moreover have "1024 * 1024 div (1024 * 1024) \<le> li_tool_mem_bytes lm div (1024 * 1024)"
    using assms by (intro zdiv_mono1) simp_all
  ultimately show ?thesis by simp
qed

lemma heavy_memory_limit:
  assumes "1024 * 1024 \<le> li_tool_mem_bytes lm"
  shows "minimum_heavy_tool_mem \<le> tool_memory_limit lm st True tools heavies lv"
    and "tool_memory_limit lm st True tools heavies lv
      \<le> max minimum_heavy_tool_mem (li_tool_mem_bytes lm sdiv (1024 * 1024))"
  using configured_top [OF assms] assms by (simp_all add: tool_memory_limit_def Let_def)

text \<open>A hard memory limit below 256 MB is not honoured. When the operator sets one, a heavy tool is
  nevertheless given 256 MB, more than the limit, however little memory is free; the refusal for lack of
  memory, which compares the limit with the same minimum, is never given.\<close>

theorem small_hard_limit_ignored:
  assumes "1 \<le> mb" "mb < 256" "li_tool_mem_bytes lm = mb * 1024 * 1024"
  shows "(case try_acquire_tool_lease lm st True label g of
            Inl r \<Rightarrow> (\<forall>limit. r \<noteq> NotEnoughRAM limit)
          | Inr (l, g') \<Rightarrow> ls_memory_bytes l = 256 * 1024 * 1024 \<and> li_tool_mem_bytes lm < ls_memory_bytes l)"
proof -
  have big: "1024 * 1024 \<le> li_tool_mem_bytes lm" using assms by simp
  have "li_tool_mem_bytes lm sdiv (1024 * 1024) = mb * (1024 * 1024) div (1024 * 1024)"
    using assms(1,3) by (subst sdiv_pos) (simp_all add: mult.assoc)
  then have "max minimum_heavy_tool_mem (li_tool_mem_bytes lm sdiv (1024 * 1024)) = 256"
    using assms(2) by (simp add: minimum_heavy_tool_mem_def)
  then have "tool_memory_limit lm st True tools heavies lv = 256" for tools heavies lv
    using heavy_memory_limit [OF big, of st tools heavies lv] by (simp add: minimum_heavy_tool_mem_def)
  then show ?thesis
    using assms by (auto simp: try_acquire_tool_lease_def tool_slot_admission_def Let_def minimum_heavy_tool_mem_def)
qed

definition tight_limits :: limits where
  "tight_limits = init_limits (no_overrides\<lparr>op_tool_mem_limit := Some 64\<rparr>) 2 8192"

theorem small_hard_limit_ignored_witness:
  "li_tool_mem_bytes tight_limits = 64 * 1024 * 1024
   \<and> (case try_acquire_tool_lease tight_limits small_machine True ''nmap'' idle_governor of
        Inl r \<Rightarrow> False | Inr (l, g') \<Rightarrow> ls_memory_bytes l = 256 * 1024 * 1024)"
proof -
  have lim: "li_tool_mem_bytes tight_limits = 64 * 1024 * 1024" by code_simp
  have "(case try_acquire_tool_lease tight_limits small_machine True ''nmap'' idle_governor of Inl r \<Rightarrow> False | Inr x \<Rightarrow> True)"
    by code_simp
  then show ?thesis
    using small_hard_limit_ignored [of 64 tight_limits small_machine "''nmap''" idle_governor] lim
    by (auto split: sum.splits prod.splits)
qed

lemma free_machine_grants:
  assumes "0 < spare_memory lm st" "gv_total g = 0" "gv_heavy g = 0"
    and "li_tool_mem_bytes lm \<le> 0 \<or> 1024 * 1024 \<le> li_tool_mem_bytes lm"
  shows "\<exists>l g'. try_acquire_tool_lease lm st heavy label g = Inr (l, g')"
proof -
  have "tool_slot_admission heavy (tool_capacity lm st) g = None"
    using tool_capacity_pos [OF assms(1)] assms(2,3) by (simp add: tool_slot_admission_def)
  moreover have "li_tool_mem_bytes lm > 0 \<Longrightarrow> \<not> tool_memory_limit lm st True tools heavies lv < minimum_heavy_tool_mem"
    for tools heavies lv
    using heavy_memory_limit(1) [of lm st tools heavies lv] assms(4) by auto
  ultimately show ?thesis by (auto simp: try_acquire_tool_lease_def Let_def)
qed

lemma acquire_ends:
  assumes "list_all (\<lambda>(st, done). \<not> done) polls" "acquire_tool_lease lm polls heavy label g = Some r"
  shows "\<not> isl r"
  using assms
proof (induction lm polls heavy label g rule: acquire_tool_lease.induct)
  case (2 lm st over polls heavy label g)
  then show ?case by (cases "try_acquire_tool_lease lm st heavy label g") auto
qed simp

section \<open>Labels\<close>

text \<open>A label is one word of harmless characters, but not always the name of the tool: of an assignment in
  front of the command whose value holds a slash it is the end of the value.\<close>

lemma label_chars: "list_all label_char (tool_log_label tool)"
proof -
  have "list_all label_char (label_of fs)" for fs
  proof (induction fs rule: label_of.induct)
    case 1
    show ?case by code_simp
  next
    case (2 f fs)
    moreover have "list_all label_char ''tool''" "list_all label_char ''shell''" by code_simp+
    ultimately show ?case by (simp only: label_of.simps Let_def split: if_split) simp
  qed
  then show ?thesis by (simp add: tool_log_label_def)
qed

lemma label_of_assignment: "tool_log_label ''AUTH=basic/s3cret curl -s https://a.test'' = ''s3cret''"
  by code_simp

end
