(* ===== verification/Queue.thy ===== *)
theory Queue
  imports AssessTypes GoPath ScheduleApi
begin

text \<open>
  The resumption of scans (\<open>internal/web/queue_state.go\<close>): what of a request is saved while it runs, which
  saved queues are valid, and the request a saved queue or a paused instance gives. A request holds the
  fields the queue and the scan read; the content of a queue file is the decoded state, \<open>None\<close> when it
  cannot be decoded. Modification times are numbers.
\<close>

section \<open>Requests and queue states\<close>

definition no_artifact :: artifact where "no_artifact = \<lparr>ar_kind = '''', ar_ref = ''''\<rparr>"

record web_request =
  wq_assessment :: "assessment_config option"
  wq_fingerprint :: string
  wq_profile :: string
  wq_targets :: "string list"
  wq_instruction :: string
  wq_scan_mode :: string
  wq_name :: string
  wq_severity_filter :: "string list"
  wq_scanners :: "string list"
  wq_phases :: "int list"
  wq_recon_mode :: string
  wq_scan_intensity :: string
  wq_company :: string
  wq_logo :: string
  wq_webhook :: string
  wq_artifact :: artifact
  wq_vuls_host :: string
  wq_target_auth :: string
  wq_target_auth_secondary :: string
  wq_source_repo :: string
  wq_scan_context :: string
  wq_instance_id :: string
  wq_is_resume :: bool
  wq_resume_path :: string
  wq_resume_target :: string
  wq_resume_dir :: string
  wq_resume_id :: string
  wq_sub_target :: string
  wq_sub_dir :: string
  wq_sub_id :: string
  wq_subdomains :: "string list"
  wq_sub_index :: int
  wq_discovery_done :: bool
  wq_original_target :: int

definition empty_request :: web_request where
  "empty_request = \<lparr>wq_assessment = None, wq_fingerprint = '''', wq_profile = '''', wq_targets = [], wq_instruction = '''',
     wq_scan_mode = '''', wq_name = '''', wq_severity_filter = [], wq_scanners = [], wq_phases = [], wq_recon_mode = '''',
     wq_scan_intensity = '''', wq_company = '''', wq_logo = '''', wq_webhook = '''', wq_artifact = no_artifact,
     wq_vuls_host = '''', wq_target_auth = '''', wq_target_auth_secondary = '''', wq_source_repo = '''',
     wq_scan_context = '''', wq_instance_id = '''', wq_is_resume = False, wq_resume_path = '''', wq_resume_target = '''',
     wq_resume_dir = '''', wq_resume_id = '''', wq_sub_target = '''', wq_sub_dir = '''', wq_sub_id = '''',
     wq_subdomains = [], wq_sub_index = 0, wq_discovery_done = False, wq_original_target = 0\<rparr>"

record queue_progress =
  qp_active_target :: string
  qp_active_dir :: string
  qp_active_id :: string
  qp_sub_target :: string
  qp_sub_dir :: string
  qp_sub_id :: string
  qp_discovery_done :: bool
  qp_subdomains :: "string list"
  qp_sub_index :: int

record queue_state =
  qs_assessment :: "assessment_config option"
  qs_fingerprint :: string
  qs_profile :: string
  qs_instance_id :: string
  qs_targets :: "string list"
  qs_current_idx :: int
  qs_instruction :: string
  qs_scan_mode :: string
  qs_started_at :: string
  qs_active :: bool
  qs_name :: string
  qs_severity_filter :: "string list"
  qs_scanners :: "string list"
  qs_phases :: "int list"
  qs_recon_mode :: string
  qs_scan_intensity :: string
  qs_company :: string
  qs_logo :: string
  qs_webhook :: string
  qs_paused :: bool
  qs_progress :: queue_progress
  qs_artifact :: artifact
  qs_vuls_host :: string

section \<open>Saving\<close>

definition normalize_request_activity :: "web_request \<Rightarrow> web_request" where
  "normalize_request_activity r =
     (let r1 = r\<lparr>wq_recon_mode := normalize_activity_mode (wq_recon_mode r),
                 wq_scan_intensity := normalize_activity_mode (wq_scan_intensity r)\<rparr>
      in if wq_scan_intensity r1 = ''passive'' then r1\<lparr>wq_recon_mode := ''passive''\<rparr> else r1)"

definition no_progress :: queue_progress where
  "no_progress = \<lparr>qp_active_target = '''', qp_active_dir = '''', qp_active_id = '''', qp_sub_target = '''',
     qp_sub_dir = '''', qp_sub_id = '''', qp_discovery_done = False, qp_subdomains = [], qp_sub_index = 0\<rparr>"

definition resumed_progress :: "web_request \<Rightarrow> queue_progress" where
  "resumed_progress r = \<lparr>qp_active_target = wq_resume_target r, qp_active_dir = wq_resume_dir r,
     qp_active_id = wq_resume_id r, qp_sub_target = wq_sub_target r, qp_sub_dir = wq_sub_dir r, qp_sub_id = wq_sub_id r,
     qp_discovery_done = wq_discovery_done r, qp_subdomains = wq_subdomains r, qp_sub_index = wq_sub_index r\<rparr>"

definition queue_state_of :: "string \<Rightarrow> int \<Rightarrow> web_request \<Rightarrow> queue_progress option \<Rightarrow> queue_state" where
  "queue_state_of now idx req0 progress =
     (let r = normalize_request_activity req0
      in \<lparr>qs_assessment = wq_assessment r, qs_fingerprint = wq_fingerprint r, qs_profile = wq_profile r,
          qs_instance_id = wq_instance_id r, qs_targets = wq_targets r, qs_current_idx = idx,
          qs_instruction = wq_instruction r, qs_scan_mode = wq_scan_mode r, qs_started_at = now, qs_active = True,
          qs_name = wq_name r, qs_severity_filter = wq_severity_filter r, qs_scanners = wq_scanners r,
          qs_phases = wq_phases r, qs_recon_mode = wq_recon_mode r, qs_scan_intensity = wq_scan_intensity r,
          qs_company = wq_company r, qs_logo = wq_logo r, qs_webhook = wq_webhook r, qs_paused = False,
          qs_progress = (case progress of
                           Some p \<Rightarrow> p
                         | None \<Rightarrow> if wq_resume_dir r \<noteq> '''' \<or> wq_subdomains r \<noteq> [] then resumed_progress r else no_progress),
          qs_artifact = wq_artifact r, qs_vuls_host = wq_vuls_host r\<rparr>)"

text \<open>File names: the data directory is left out.\<close>

definition sanitize_target :: "string \<Rightarrow> string" where
  "sanitize_target t =
     (let clean = map (\<lambda>c. if is_alnum c \<or> c \<in> set ''._-'' then c else CHR ''_'') t;
          c1 = trim_prefix (trim_prefix clean ''https___'') ''http___''
      in take 60 (trim_cutset ''_'' c1))"

definition queue_path :: "string \<Rightarrow> string" where
  "queue_path instance_id0 =
     (let i = trim_space instance_id0; clean = sanitize_target i
      in if i = '''' then ''queue_state.json''
         else ''queue_state_'' @ (if clean = '''' then ''unknown'' else clean) @ ''.json'')"

definition instance_of_path :: "string \<Rightarrow> string" where
  "instance_of_path base =
     (if base = ''queue_state.json'' then ''''
      else if \<not> has_prefix base ''queue_state_'' \<or> \<not> has_suffix base ''.json'' then ''''
      else trim_suffix (trim_prefix base ''queue_state_'') ''.json'')"

record queue_file =
  qf_state :: "queue_state option"
  qf_mtime :: int

type_synonym queue_disk = "(string \<times> queue_file) list"

text \<open>A write that fails leaves the file as it was.\<close>

definition save_queue_state ::
  "string \<Rightarrow> int \<Rightarrow> bool \<Rightarrow> int \<Rightarrow> web_request \<Rightarrow> queue_progress option \<Rightarrow> queue_disk \<Rightarrow> queue_disk" where
  "save_queue_state now mtime written idx req progress disk =
     (if written then put (queue_path (wq_instance_id req))
        \<lparr>qf_state = Some (queue_state_of now idx req progress), qf_mtime = mtime\<rparr> disk
      else disk)"

section \<open>Loading\<close>

record queue_entry =
  qe_state :: queue_state
  qe_path :: string
  qe_mtime :: int

definition load_queue_entry :: "queue_disk \<Rightarrow> string \<Rightarrow> queue_entry option" where
  "load_queue_entry disk path =
     (case map_of disk path of
        None \<Rightarrow> None
      | Some f \<Rightarrow>
          (case qf_state f of
             None \<Rightarrow> None
           | Some st \<Rightarrow>
               Some \<lparr>qe_state = (if qs_instance_id st = '''' then st\<lparr>qs_instance_id := instance_of_path path\<rparr> else st),
                     qe_path = path, qe_mtime = qf_mtime f\<rparr>))"

datatype queue_reason = QueueInactive | QueueEmpty | QueueCorruptIndex | QueueCompleted

definition invalid_queue_state :: "queue_state \<Rightarrow> queue_reason option" where
  "invalid_queue_state st =
     (if \<not> qs_active st then Some QueueInactive
      else if qs_targets st = [] then Some QueueEmpty
      else if qs_current_idx st < 0 then Some QueueCorruptIndex
      else if qs_current_idx st \<ge> int (length (qs_targets st)) then Some QueueCompleted else None)"

text \<open>\<open>compactStrings\<close> drops the empty string and repetitions.\<close>

definition compact_strings :: "string list \<Rightarrow> string list" where
  "compact_strings vs = uniq_from {''''} vs"

definition queue_state_paths :: "queue_disk \<Rightarrow> string list" where
  "queue_state_paths disk =
     (let names = map fst disk
      in compact_strings (sort_slice (<)
           (filter (\<lambda>n. n = ''queue_state.json'') names
            @ filter (\<lambda>n. has_prefix n ''queue_state_'' \<and> has_suffix n ''.json'') names)))"

definition entry_before :: "queue_entry \<Rightarrow> queue_entry \<Rightarrow> bool" where
  "entry_before a b =
     (if qe_mtime a \<noteq> qe_mtime b then qe_mtime a > qe_mtime b
      else qs_started_at (qe_state a) > qs_started_at (qe_state b))"

definition drop_invalid :: "queue_disk \<Rightarrow> queue_disk" where
  "drop_invalid disk =
     filter (\<lambda>(path, f). path \<notin> set (queue_state_paths disk)
       \<or> (case load_queue_entry disk path of
            None \<Rightarrow> False
          | Some e \<Rightarrow> (case invalid_queue_state (qe_state e) of None \<Rightarrow> True | Some r \<Rightarrow> r = QueueInactive))) disk"

definition valid_queue_entries :: "bool \<Rightarrow> queue_disk \<Rightarrow> queue_disk \<times> queue_entry list" where
  "valid_queue_entries clear_invalid disk =
     (if clear_invalid then drop_invalid disk else disk,
      sort_slice entry_before
        (filter (\<lambda>e. invalid_queue_state (qe_state e) = None)
           (List.map_filter (load_queue_entry disk) (queue_state_paths disk))))"

definition auto_resume_entries :: "queue_entry list \<Rightarrow> queue_entry list" where
  "auto_resume_entries es = filter (\<lambda>e. \<not> qs_paused (qe_state e)) es"

definition mark_queue_paused :: "bool \<Rightarrow> int \<Rightarrow> string \<Rightarrow> queue_disk \<Rightarrow> queue_disk" where
  "mark_queue_paused written mtime instance_id disk =
     (case load_queue_entry disk (queue_path instance_id) of
        None \<Rightarrow> disk
      | Some e \<Rightarrow>
          if written then put (qe_path e) \<lparr>qf_state = Some ((qe_state e)\<lparr>qs_paused := True\<rparr>), qf_mtime = mtime\<rparr> disk
          else disk)"

definition clear_queue_path :: "string \<Rightarrow> queue_disk \<Rightarrow> queue_disk" where
  "clear_queue_path path disk = filter (\<lambda>(p, f). p \<noteq> path) disk"

definition clear_queue_state :: "string list \<Rightarrow> queue_disk \<Rightarrow> queue_disk" where
  "clear_queue_state ids disk =
     (if ids \<noteq> [] then fold (\<lambda>i. clear_queue_path (queue_path i)) ids disk
      else fold clear_queue_path (queue_state_paths disk) disk)"

section \<open>Resuming\<close>

definition clamp_int :: "int \<Rightarrow> int \<Rightarrow> int \<Rightarrow> int" where
  "clamp_int v lo hi = (if v < lo then lo else if v > hi then hi else v)"

definition request_from_queue :: "queue_state \<Rightarrow> string \<Rightarrow> web_request" where
  "request_from_queue st path =
     (let p = qs_progress st
      in empty_request\<lparr>wq_assessment := qs_assessment st, wq_fingerprint := qs_fingerprint st, wq_profile := qs_profile st,
           wq_targets := drop (nat (clamp_int (qs_current_idx st) 0 (int (length (qs_targets st))))) (qs_targets st),
           wq_instruction := qs_instruction st, wq_scan_mode := qs_scan_mode st, wq_is_resume := True,
           wq_resume_path := path, wq_name := qs_name st, wq_severity_filter := qs_severity_filter st,
           wq_scanners := qs_scanners st, wq_phases := qs_phases st, wq_recon_mode := qs_recon_mode st,
           wq_scan_intensity := qs_scan_intensity st, wq_company := qs_company st, wq_logo := qs_logo st,
           wq_webhook := qs_webhook st, wq_resume_target := qp_active_target p, wq_resume_dir := qp_active_dir p,
           wq_resume_id := qp_active_id p, wq_sub_target := qp_sub_target p, wq_sub_dir := qp_sub_dir p,
           wq_sub_id := qp_sub_id p, wq_subdomains := qp_subdomains p, wq_sub_index := qp_sub_index p,
           wq_discovery_done := qp_discovery_done p, wq_original_target := qs_current_idx st,
           wq_artifact := qs_artifact st, wq_vuls_host := qs_vuls_host st\<rparr>)"

definition keep_or :: "string \<Rightarrow> string \<Rightarrow> string" where
  "keep_or a b = (if a = '''' then b else a)"

definition keep_or_list :: "'a list \<Rightarrow> 'a list \<Rightarrow> 'a list" where
  "keep_or_list a b = (if a = [] then b else a)"

definition fill_resume_defaults :: "web_request \<Rightarrow> web_request \<Rightarrow> web_request" where
  "fill_resume_defaults r d =
     r\<lparr>wq_targets := keep_or_list (wq_targets r) (wq_targets d), wq_instruction := keep_or (wq_instruction r) (wq_instruction d),
       wq_scan_mode := keep_or (wq_scan_mode r) (wq_scan_mode d), wq_name := keep_or (wq_name r) (wq_name d),
       wq_severity_filter := keep_or_list (wq_severity_filter r) (wq_severity_filter d),
       wq_scanners := keep_or_list (wq_scanners r) (wq_scanners d), wq_phases := keep_or_list (wq_phases r) (wq_phases d),
       wq_recon_mode := keep_or (wq_recon_mode r) (wq_recon_mode d),
       wq_scan_intensity := keep_or (wq_scan_intensity r) (wq_scan_intensity d),
       wq_company := keep_or (wq_company r) (wq_company d), wq_logo := keep_or (wq_logo r) (wq_logo d),
       wq_webhook := keep_or (wq_webhook r) (wq_webhook d),
       wq_artifact := (if ar_ref (wq_artifact r) = '''' then wq_artifact d else wq_artifact r),
       wq_vuls_host := keep_or (wq_vuls_host r) (wq_vuls_host d)\<rparr>"

text \<open>The fields of an instance that a request is made of; \<open>in_request\<close> is the request it was started with.\<close>

record scan_instance =
  in_targets :: string
  in_scan_dir :: string
  in_request :: web_request

definition split_instance_targets :: "string \<Rightarrow> string list" where
  "split_instance_targets ts = filter (\<lambda>p. p \<noteq> '''') (map trim_space (split_on (CHR '','') ts))"

definition paused_defaults :: "scan_instance \<Rightarrow> web_request" where
  "paused_defaults i =
     (let r = in_request i
      in empty_request\<lparr>wq_targets := split_instance_targets (in_targets i), wq_instruction := wq_instruction r,
           wq_scan_mode := wq_scan_mode r, wq_severity_filter := wq_severity_filter r, wq_scanners := wq_scanners r,
           wq_webhook := wq_webhook r, wq_name := wq_name r, wq_phases := wq_phases r, wq_recon_mode := wq_recon_mode r,
           wq_scan_intensity := wq_scan_intensity r, wq_company := wq_company r, wq_logo := wq_logo r,
           wq_is_resume := True\<rparr>)"

datatype resume_refusal = NoPersistedState | WildcardNeedsQueue

text \<open>\<open>recorded dir\<close> is the target of the scan record in a directory, if it can be read.\<close>

definition request_for_paused ::
  "(string \<Rightarrow> string option) \<Rightarrow> queue_disk \<Rightarrow> string \<Rightarrow> scan_instance \<Rightarrow> resume_refusal + web_request" where
  "request_for_paused recorded disk instance_id i =
     (let d = paused_defaults i;
          queued = (case load_queue_entry disk (queue_path instance_id) of
                      None \<Rightarrow> None
                    | Some e \<Rightarrow> if invalid_queue_state (qe_state e) = None then Some e else None)
      in case queued of
           Some e \<Rightarrow> Inr ((fill_resume_defaults (request_from_queue (qe_state e) (qe_path e)) d)\<lparr>wq_is_resume := True\<rparr>)
         | None \<Rightarrow>
             if in_scan_dir i = '''' then Inl NoPersistedState
             else if to_lower (wq_scan_mode d) = ''wildcard'' then Inl WildcardNeedsQueue
             else Inr (d\<lparr>wq_resume_dir := in_scan_dir i,
                         wq_resume_id := rev (takeWhile (\<lambda>c. c \<noteq> CHR ''/'') (rev (path_clean (in_scan_dir i)))),
                         wq_resume_target := (case recorded (in_scan_dir i) of
                                                Some t \<Rightarrow> if t \<noteq> '''' then t
                                                          else if wq_targets d \<noteq> [] then hd (wq_targets d) else ''''
                                              | None \<Rightarrow> if wq_targets d \<noteq> [] then hd (wq_targets d) else '''')\<rparr>))"

section \<open>Starting again\<close>

text \<open>The request that the restart and start handlers make of an instance (\<open>handleInstanceAction\<close>).\<close>

fun split_comma_space :: "string \<Rightarrow> string list" where
  "split_comma_space [] = ['''']"
| "split_comma_space [c] = [[c]]"
| "split_comma_space (c # d # s) =
     (if c = CHR '','' \<and> d = CHR '' '' then '''' # split_comma_space s
      else (case split_comma_space (d # s) of [] \<Rightarrow> [[c]] | t # ts \<Rightarrow> (c # t) # ts))"

definition stored_request :: "scan_instance \<Rightarrow> web_request" where
  "stored_request i =
     (let r = in_request i
      in empty_request\<lparr>wq_assessment := wq_assessment r, wq_fingerprint := wq_fingerprint r, wq_profile := wq_profile r,
           wq_targets := split_comma_space (in_targets i), wq_instruction := wq_instruction r,
           wq_scan_mode := wq_scan_mode r, wq_severity_filter := wq_severity_filter r, wq_scanners := wq_scanners r,
           wq_webhook := wq_webhook r, wq_name := wq_name r, wq_phases := wq_phases r, wq_recon_mode := wq_recon_mode r,
           wq_scan_intensity := wq_scan_intensity r, wq_company := wq_company r, wq_logo := wq_logo r,
           wq_target_auth := wq_target_auth r, wq_target_auth_secondary := wq_target_auth_secondary r,
           wq_source_repo := wq_source_repo r, wq_scan_context := wq_scan_context r\<rparr>)"

datatype restart_refusal = StillActive string | CannotStart string | PlanReview assessment_plan

definition reviewed_request :: "digests \<Rightarrow> server_env \<Rightarrow> scan_instance \<Rightarrow> restart_refusal + web_request" where
  "reviewed_request dg sv i =
     (case wq_assessment (in_request i) of
        None \<Rightarrow> Inr (stored_request i)
      | Some cfg \<Rightarrow>
          (let plan = build_plan dg sv cfg
           in if wq_fingerprint (in_request i) = '''' \<or> wq_fingerprint (in_request i) \<noteq> pl_fingerprint plan
              then Inl (PlanReview plan) else Inr (stored_request i)))"

definition restart_request :: "digests \<Rightarrow> server_env \<Rightarrow> string \<Rightarrow> scan_instance \<Rightarrow> restart_refusal + web_request" where
  "restart_request dg sv st i =
     (if st = ''running'' \<or> st = ''pending'' then Inl (StillActive st) else reviewed_request dg sv i)"

definition can_start_status :: "string \<Rightarrow> bool" where
  "can_start_status st \<longleftrightarrow> to_lower (trim_space st) \<in> set [''saved'', ''stopped'', ''failed'', ''finished'']"

definition start_request :: "digests \<Rightarrow> server_env \<Rightarrow> string \<Rightarrow> scan_instance \<Rightarrow> restart_refusal + web_request" where
  "start_request dg sv st i =
     (let s = to_lower (trim_space st)
      in if \<not> can_start_status s then Inl (CannotStart s) else reviewed_request dg sv i)"

section \<open>Leaving a run\<close>

definition preserve_queue_on_exit :: "string \<Rightarrow> string \<Rightarrow> bool \<Rightarrow> bool" where
  "preserve_queue_on_exit st reason panicked \<longleftrightarrow>
     panicked \<or> st = ''paused'' \<or> reason = ''user_paused'' \<or> has_prefix reason ''signal_''"

definition advance_queue_after_target :: "bool \<Rightarrow> string \<Rightarrow> bool" where
  "advance_queue_after_target stop_requested st \<longleftrightarrow>
     \<not> stop_requested \<and> st \<noteq> ''paused'' \<and> st \<noteq> ''stopped''"

end
