(* ===== verification/Lifecycle.thy ===== *)
theory Lifecycle
  imports Queue Governor
begin

text \<open>
  The life of a scan on the server (\<open>internal/web/orchestrator.go\<close> \<open>runMultiScan\<close>, the handlers of
  \<open>internal/web/server.go\<close> that stop, pause, resume and delete an instance, the shutdown handler, and the
  failure of a session in \<open>deterministic_scan.go\<close>). A scan is a goroutine with a program point, its
  instance and its request; the steps of the goroutines and of the handlers interleave. A step ends where
  another goroutine can act on what it has read: the admission reads the status and writes \<open>running\<close> in two
  steps, since it holds \<open>instancesMu\<close> but not the lock of the instance that the stop and pause handlers take;
  the loop over the targets reads the status and writes the queue file in two; the shutdown and the stop of
  all scans cancel the current context before they write the statuses. The lock \<open>instancesMu\<close> is held while
  some scan is at \<open>Admitting\<close>. Goroutines have names of their own: a scan relaunched from its queue file has
  the identifier of the one it continues, which may still be unwinding.
\<close>

section \<open>State\<close>

datatype run_point = Registered | Waiting | Contending | Parked | Admitting | Starting
  | AtTarget nat | Entering nat | InTarget nat | Counting nat | Leaving nat | Closing nat | Exited nat

text \<open>The targets that the loop has counted.\<close>

fun finished_targets :: "run_point \<Rightarrow> nat" where
  "finished_targets (AtTarget n) = n"
| "finished_targets (Entering n) = n"
| "finished_targets (InTarget n) = n"
| "finished_targets (Counting n) = n"
| "finished_targets (Leaving n) = n"
| "finished_targets (Closing n) = n"
| "finished_targets (Exited n) = n"
| "finished_targets _ = 0"

record live =
  lv_status :: string
  lv_reason :: string
  lv_at :: run_point
  lv_request :: web_request
  lv_dir :: string
  lv_listed :: bool \<comment> \<open>still in the map of instances\<close>
  lv_ran :: bool
  lv_panicked :: bool
  lv_swept :: bool \<comment> \<open>the context of the target was cancelled by \<open>s.cancelScan\<close>, whose status is written later\<close>

definition lv_id :: "live \<Rightarrow> string" where "lv_id l = wq_instance_id (lv_request l)"

text \<open>
  \<open>se_asked\<close>: goroutines started (\<open>go s.runMultiScan\<close>) that have not registered their instance, with the
  identifier they were given. \<open>se_cancel\<close>: the goroutine whose last context \<open>s.cancelScan\<close> cancels. It is not
  cleared: the cleanup compares \<open>s.currentScanID\<close>, the name of a directory, with the identifier of the instance.
  \<open>se_resuming\<close>: the resume handlers under way, by the goroutine whose instance they hold, with the request
  once it is built.
\<close>

record server =
  se_lives :: "(string \<times> live) list"
  se_asked :: "(string \<times> web_request) list"
  se_resuming :: "(string \<times> web_request option) list"
  se_cancel :: "string option"
  se_queue :: queue_disk

definition idle_server :: "queue_disk \<Rightarrow> server" where
  "idle_server disk = \<lparr>se_lives = [], se_asked = [], se_resuming = [], se_cancel = None, se_queue = disk\<rparr>"

definition live_of :: "server \<Rightarrow> string \<Rightarrow> live option" where
  "live_of s i = map_of (se_lives s) i"

definition set_live :: "string \<Rightarrow> live \<Rightarrow> server \<Rightarrow> server" where
  "set_live i l s = s\<lparr>se_lives := put i l (se_lives s)\<rparr>"

definition each_live :: "(live \<Rightarrow> live) \<Rightarrow> server \<Rightarrow> server" where
  "each_live f s = s\<lparr>se_lives := map (\<lambda>(g, l). (g, f l)) (se_lives s)\<rparr>"

definition without :: "nat \<Rightarrow> 'a list \<Rightarrow> 'a list" where
  "without k xs = take k xs @ drop (Suc k) xs"

definition on_queue :: "(queue_disk \<Rightarrow> queue_disk) \<Rightarrow> server \<Rightarrow> server" where
  "on_queue f s = s\<lparr>se_queue := f (se_queue s)\<rparr>"

definition instances_locked :: "server \<Rightarrow> bool" where
  "instances_locked s \<longleftrightarrow> (\<exists>x \<in> set (se_lives s). lv_at (snd x) = Admitting)"

definition running_count :: "server \<Rightarrow> nat" where
  "running_count s = length (filter (\<lambda>x. lv_listed (snd x) \<and> lv_status (snd x) = ''running'') (se_lives s))"

text \<open>A write of the queue: when, its modification time, and whether it succeeds.\<close>

record queue_write =
  qw_now :: string
  qw_mtime :: int
  qw_written :: bool

definition save_queue :: "queue_write \<Rightarrow> nat \<Rightarrow> live \<Rightarrow> queue_progress option \<Rightarrow> server \<Rightarrow> server" where
  "save_queue w n l p = on_queue (save_queue_state (qw_now w) (qw_mtime w) (qw_written w) (int n) (lv_request l) p)"

definition interrupted_status :: "string \<Rightarrow> bool" where
  "interrupted_status st \<longleftrightarrow> st = ''stopped'' \<or> st = ''paused''"

definition typed :: "live \<Rightarrow> bool" where
  "typed l \<longleftrightarrow> wq_assessment (lv_request l) \<noteq> None"

section \<open>The goroutine\<close>

text \<open>
  What a goroutine meets as it starts: the blocklist of \<open>isBlockedTargetForScan\<close>, the fingerprint of the plan
  of an assessment, the identifier \<open>randomSlug\<close> draws. The targets of a request without an assessment are
  taken apart and filtered; an identifier that is in use is taken over.
\<close>

record surroundings =
  su_blocked :: "string \<Rightarrow> bool"
  su_plan :: "assessment_config \<Rightarrow> string"
  su_slug :: string

definition target_separator :: "char \<Rightarrow> bool" where
  "target_separator c \<longleftrightarrow> c \<in> set [CHR '','', CHR '' '', CHR '';'', CHR 0x0A, CHR 0x0D, CHR 0x09]"

fun fields_func :: "(char \<Rightarrow> bool) \<Rightarrow> string \<Rightarrow> string \<Rightarrow> string list" where
  "fields_func sep cur [] = (if cur = '''' then [] else [cur])"
| "fields_func sep cur (c # r) =
     (if sep c then (if cur = '''' then fields_func sep '''' r else cur # fields_func sep '''' r)
      else fields_func sep (cur @ [c]) r)"

definition safe_targets :: "(string \<Rightarrow> bool) \<Rightarrow> web_request \<Rightarrow> string list" where
  "safe_targets blocked r =
     (if wq_assessment r \<noteq> None then wq_targets r
      else filter (\<lambda>t. \<not> blocked t) (concat (map (fields_func target_separator '''') (wq_targets r))))"

definition launch_request :: "surroundings \<Rightarrow> string \<Rightarrow> web_request \<Rightarrow> web_request" where
  "launch_request su i req =
     (let r = normalize_request_activity req
      in r\<lparr>wq_fingerprint := (case wq_assessment r of
                                Some cfg \<Rightarrow> if wq_fingerprint r = '''' then su_plan su cfg else wq_fingerprint r
                              | None \<Rightarrow> wq_fingerprint r),
           wq_targets := safe_targets (su_blocked su) r,
           wq_instance_id := (if i = '''' then su_slug su else i)\<rparr>)"

definition unlist :: "string \<Rightarrow> server \<Rightarrow> server" where
  "unlist i s = each_live (\<lambda>l. if lv_id l = i then l\<lparr>lv_listed := False\<rparr> else l) s"

definition launch :: "surroundings \<Rightarrow> string \<Rightarrow> nat \<Rightarrow> server \<Rightarrow> server option" where
  "launch su g k s =
     (if instances_locked s \<or> length (se_asked s) \<le> k \<or> live_of s g \<noteq> None then None
      else let (i, req0) = se_asked s ! k; req = launch_request su i req0
           in Some (set_live g \<lparr>lv_status = ''pending'', lv_reason = '''', lv_at = Registered, lv_request = req, lv_dir = '''',
                                lv_listed = True, lv_ran = False, lv_panicked = False, lv_swept = False\<rparr>
                      (unlist (wq_instance_id req) (s\<lparr>se_asked := without k (se_asked s)\<rparr>))))"

definition persist :: "queue_write \<Rightarrow> string \<Rightarrow> live \<Rightarrow> server \<Rightarrow> server option" where
  "persist w i l s =
     (if lv_at l = Registered then Some (set_live i (l\<lparr>lv_at := Waiting\<rparr>) (save_queue w 0 l None s)) else None)"

definition look :: "string \<Rightarrow> live \<Rightarrow> server \<Rightarrow> server option" where
  "look i l s =
     (if lv_at l = Waiting then
        Some (set_live i (l\<lparr>lv_at := (if lv_status l = ''stopped'' then Leaving 0 else Contending)\<rparr>) s)
      else None)"

definition check_slot :: "limits \<Rightarrow> system_stats \<Rightarrow> string \<Rightarrow> live \<Rightarrow> server \<Rightarrow> server option" where
  "check_slot L stats i l s =
     (if lv_at l = Contending \<and> \<not> instances_locked s then
        Some (set_live i (l\<lparr>lv_at := (if can_admit_scan L stats (int (running_count s)) \<and> lv_status l = ''pending''
                                      then Admitting else Parked)\<rparr>) s)
      else None)"

definition admit :: "string \<Rightarrow> live \<Rightarrow> server \<Rightarrow> server option" where
  "admit i l s =
     (if lv_at l = Admitting then Some (set_live i (l\<lparr>lv_status := ''running'', lv_at := Starting, lv_ran := True\<rparr>) s)
      else None)"

definition wake :: "bool \<Rightarrow> string \<Rightarrow> live \<Rightarrow> server \<Rightarrow> server option" where
  "wake shutdown i l s =
     (if lv_at l \<noteq> Parked then None
      else if \<not> shutdown then Some (set_live i (l\<lparr>lv_at := Waiting\<rparr>) s)
      else if lv_status l = ''pending'' then
        Some (set_live i (l\<lparr>lv_status := ''stopped'', lv_reason := ''server_shutdown'', lv_at := Leaving 0\<rparr>) s)
      else Some (set_live i (l\<lparr>lv_at := Leaving 0\<rparr>) s))"

definition start_run :: "queue_write \<Rightarrow> string \<Rightarrow> live \<Rightarrow> server \<Rightarrow> server option" where
  "start_run w i l s =
     (if lv_at l \<noteq> Starting then None
      else let path = wq_resume_path (lv_request l); s1 = save_queue w 0 l None s;
               s2 = (if path \<noteq> '''' \<and> path \<noteq> queue_path (lv_id l) then on_queue (clear_queue_path path) s1 else s1)
           in Some (set_live i (l\<lparr>lv_at := AtTarget 0\<rparr>) s2))"

definition next_target :: "string \<Rightarrow> live \<Rightarrow> server \<Rightarrow> server option" where
  "next_target g l s =
     (case lv_at l of
        AtTarget n \<Rightarrow>
          Some (set_live g (l\<lparr>lv_at := (if (\<not> typed l \<and> n \<ge> length (wq_targets (lv_request l))) \<or> interrupted_status (lv_status l)
                                        then Leaving n else Entering n)\<rparr>) s)
      | _ \<Rightarrow> None)"

definition enter_target :: "queue_write \<Rightarrow> queue_progress \<Rightarrow> string \<Rightarrow> live \<Rightarrow> server \<Rightarrow> server option" where
  "enter_target w p g l s =
     (case lv_at l of
        Entering n \<Rightarrow>
          Some ((set_live g (l\<lparr>lv_at := InTarget n, lv_swept := False\<rparr>)
                   (save_queue w n l (if typed l then Some p else None) s))\<lparr>se_cancel := Some g\<rparr>)
      | _ \<Rightarrow> None)"

text \<open>A session finds the instance it reports to by its identifier.\<close>

definition in_target :: "queue_write \<Rightarrow> queue_progress \<Rightarrow> string \<Rightarrow> live \<Rightarrow> server \<Rightarrow> server option" where
  "in_target w p g l s =
     (case lv_at l of
        InTarget n \<Rightarrow>
          Some (each_live (\<lambda>m. if lv_listed m \<and> lv_id m = lv_id l then m\<lparr>lv_dir := qp_active_dir p\<rparr> else m)
                  (save_queue w n l (Some p) s))
      | _ \<Rightarrow> None)"

text \<open>
  Only the session of a typed assessment can fail before its scanners run. Another scan that is listed under
  the same identifier was relaunched from the same queue file and is of the same kind.
\<close>

definition fail_session :: "string \<Rightarrow> string \<Rightarrow> live \<Rightarrow> server \<Rightarrow> server option" where
  "fail_session reason g l s =
     (case lv_at l of
        InTarget n \<Rightarrow>
          Some (if typed l
                then each_live (\<lambda>m. if lv_listed m \<and> lv_id m = lv_id l \<and> typed m
                                    then m\<lparr>lv_status := ''failed'', lv_reason := reason\<rparr> else m) s
                else s)
      | _ \<Rightarrow> None)"

text \<open>
  The session of a target has returned (also after a panic of its own, which it recovers); the loop reads the status, and in a second step counts the target and
  saves the queue. A target that ends while its scan is interrupted is not counted; the loop then leaves at its
  next look at the status, which no step takes back from \<open>stopped\<close> or \<open>paused\<close>.
\<close>

definition end_target :: "string \<Rightarrow> live \<Rightarrow> server \<Rightarrow> server option" where
  "end_target g l s =
     (case lv_at l of
        InTarget n \<Rightarrow>
          Some (set_live g (l\<lparr>lv_at := (if typed l \<or> \<not> advance_queue_after_target False (lv_status l)
                                        then Leaving n else Counting n)\<rparr>) s)
      | _ \<Rightarrow> None)"

definition count_target :: "queue_write \<Rightarrow> string \<Rightarrow> live \<Rightarrow> server \<Rightarrow> server option" where
  "count_target w g l s =
     (case lv_at l of
        Counting n \<Rightarrow> Some (set_live g (l\<lparr>lv_at := AtTarget (Suc n)\<rparr>) (save_queue w (Suc n) l None s))
      | _ \<Rightarrow> None)"

text \<open>A panic anywhere after the deferred cleanup is registered, and the two halves of that cleanup.\<close>

definition guarded :: "run_point \<Rightarrow> bool" where
  "guarded pt \<longleftrightarrow> (case pt of Registered \<Rightarrow> False | Admitting \<Rightarrow> False | Closing n \<Rightarrow> False | Exited n \<Rightarrow> False | _ \<Rightarrow> True)"

definition panic_run :: "string \<Rightarrow> live \<Rightarrow> server \<Rightarrow> server option" where
  "panic_run i l s =
     (if guarded (lv_at l) then Some (set_live i (l\<lparr>lv_at := Leaving (finished_targets (lv_at l)), lv_panicked := True\<rparr>) s)
      else None)"

definition settle :: "string \<Rightarrow> live \<Rightarrow> server \<Rightarrow> server option" where
  "settle i l s =
     (case lv_at l of
        Leaving n \<Rightarrow>
          (let l1 = (if lv_status l \<noteq> ''running'' then l
                     else if lv_panicked l then l\<lparr>lv_status := ''stopped'', lv_reason := ''panic_recovered''\<rparr>
                     else l\<lparr>lv_status := ''finished''\<rparr>)
           in Some (set_live i (l1\<lparr>lv_at := Closing n\<rparr>) s))
      | _ \<Rightarrow> None)"

definition keeps_queue :: "live \<Rightarrow> bool" where
  "keeps_queue l \<longleftrightarrow>
     (if lv_ran l then preserve_queue_on_exit (lv_status l) (lv_reason l) (lv_panicked l)
      else lv_reason l = ''server_shutdown'')"

definition dispose :: "queue_write \<Rightarrow> string \<Rightarrow> live \<Rightarrow> server \<Rightarrow> server option" where
  "dispose w i l s =
     (case lv_at l of
        Closing n \<Rightarrow>
          (let s1 = (if keeps_queue l then s else on_queue (clear_queue_state [lv_id l]) s);
               s2 = (if lv_status l = ''paused'' then on_queue (mark_queue_paused (qw_written w) (qw_mtime w) (lv_id l)) s1 else s1)
           in Some (set_live i (l\<lparr>lv_at := Exited n\<rparr>) s2))
      | _ \<Rightarrow> None)"

section \<open>The handlers\<close>

definition active_status :: "string \<Rightarrow> bool" where
  "active_status st \<longleftrightarrow> st = ''running'' \<or> st = ''pending'' \<or> st = ''paused''"

definition stopped_by :: "string \<Rightarrow> live \<Rightarrow> live" where
  "stopped_by reason l = (if active_status (lv_status l) then l\<lparr>lv_status := ''stopped'', lv_reason := reason\<rparr> else l)"

definition stop_instance :: "string \<Rightarrow> live \<Rightarrow> server \<Rightarrow> server option" where
  "stop_instance i l s =
     (if lv_listed l then Some (on_queue (clear_queue_state [lv_id l]) (set_live i (stopped_by ''user_stopped'' l) s)) else None)"

definition pause_instance :: "string \<Rightarrow> live \<Rightarrow> server \<Rightarrow> server option" where
  "pause_instance i l s =
     (if lv_listed l \<and> lv_status l = ''running'' then
        Some (set_live i (l\<lparr>lv_status := ''paused'', lv_reason := ''user_paused''\<rparr>) s)
      else None)"

definition scan_instance_of :: "live \<Rightarrow> scan_instance" where
  "scan_instance_of l = \<lparr>in_targets = join_on '', '' (wq_targets (lv_request l)), in_scan_dir = lv_dir l,
     in_request = lv_request l\<rparr>"

text \<open>
  The resume handler reads the status, builds the request and removes the instance in three critical sections;
  two of them that run at the same time both go through.
\<close>

definition resume_check :: "string \<Rightarrow> live \<Rightarrow> server \<Rightarrow> server option" where
  "resume_check g l s =
     (if lv_listed l \<and> lv_status l = ''paused'' then Some (s\<lparr>se_resuming := se_resuming s @ [(g, None)]\<rparr>) else None)"

definition resume_build :: "(string \<Rightarrow> string option) \<Rightarrow> nat \<Rightarrow> server \<Rightarrow> server option" where
  "resume_build recorded k s =
     (if length (se_resuming s) \<le> k then None
      else case se_resuming s ! k of
             (g, Some req) \<Rightarrow> None
           | (g, None) \<Rightarrow>
               (case live_of s g of
                  None \<Rightarrow> None
                | Some l \<Rightarrow>
                    (case request_for_paused recorded (se_queue s) (lv_id l) (scan_instance_of l) of
                       Inl e \<Rightarrow> Some (s\<lparr>se_resuming := without k (se_resuming s)\<rparr>)
                     | Inr req \<Rightarrow> Some (s\<lparr>se_resuming := (se_resuming s)[k := (g, Some req)]\<rparr>))))"

definition resume_spawn :: "string \<Rightarrow> nat \<Rightarrow> server \<Rightarrow> server option" where
  "resume_spawn j k s =
     (if length (se_resuming s) \<le> k \<or> instances_locked s then None
      else case se_resuming s ! k of
             (g, None) \<Rightarrow> None
           | (g, Some req) \<Rightarrow>
               (case live_of s g of
                  None \<Rightarrow> None
                | Some l \<Rightarrow> Some (unlist (lv_id l) (s\<lparr>se_resuming := without k (se_resuming s),
                                                       se_asked := se_asked s @ [(j, req)]\<rparr>))))"

text \<open>
  The interrupted queues are started again under their identifiers, at the start of the server (\<open>auto\<close>: not the
  paused ones) and by \<open>handleQueueResume\<close>, when no instance is pending or running. (The code also looks at
  \<open>s.running\<close> and at the resumptions under way, which only makes it refuse more often.)
\<close>

definition requeue :: "bool \<Rightarrow> server \<Rightarrow> server option" where
  "requeue auto s =
     (if instances_locked s
         \<or> (\<exists>x \<in> set (se_lives s). lv_listed (snd x) \<and> (lv_status (snd x) = ''pending'' \<or> lv_status (snd x) = ''running''))
      then None
      else let (disk, es) = valid_queue_entries True (se_queue s);
               asks = map (\<lambda>e. (qs_instance_id (qe_state e), request_from_queue (qe_state e) (qe_path e)))
                        (if auto then auto_resume_entries es else es)
           in Some (s\<lparr>se_queue := disk, se_asked := se_asked s @ filter (\<lambda>a. wq_targets (snd a) \<noteq> []) asks\<rparr>))"

definition delete_instance :: "string \<Rightarrow> live \<Rightarrow> server \<Rightarrow> server option" where
  "delete_instance i l s =
     (if lv_listed l \<and> \<not> instances_locked s then
        Some (on_queue (clear_queue_state [lv_id l]) (set_live i ((stopped_by ''user_deleted'' l)\<lparr>lv_listed := False\<rparr>) s))
      else None)"

definition each_listed :: "(live \<Rightarrow> live) \<Rightarrow> server \<Rightarrow> server" where
  "each_listed f = each_live (\<lambda>l. if lv_listed l then f l else l)"

text \<open>
  The first act of the shutdown and of the stop of all scans: the context of the target that was entered last is
  cancelled, before any status is written. (The handlers of one instance cancel its context in the same critical
  section in which they write its status.)
\<close>

definition cancel_current :: "server \<Rightarrow> server option" where
  "cancel_current s =
     (case se_cancel s of
        None \<Rightarrow> Some s
      | Some g \<Rightarrow>
          (case live_of s g of
             Some l \<Rightarrow> (case lv_at l of InTarget n \<Rightarrow> Some (set_live g (l\<lparr>lv_swept := True\<rparr>) s) | _ \<Rightarrow> Some s)
           | None \<Rightarrow> Some s))"

definition stop_all :: "server \<Rightarrow> server option" where
  "stop_all s =
     (if instances_locked s then None
      else Some (on_queue (clear_queue_state []) (each_listed (stopped_by ''user_stopped'') s)))"

definition signalled :: "string \<Rightarrow> live \<Rightarrow> live" where
  "signalled sig l = (if lv_status l = ''running'' then l\<lparr>lv_status := ''stopped'', lv_reason := ''signal_'' @ sig\<rparr> else l)"

definition signal_all :: "string \<Rightarrow> server \<Rightarrow> server option" where
  "signal_all sig s = (if instances_locked s then None else Some (each_listed (signalled sig) s))"

section \<open>Runs\<close>

datatype event =
    Ask string web_request | Requeue bool | Launch surroundings string nat | Persist queue_write string | Look string
  | CheckSlot system_stats string | Admit string | Wake bool string | Start queue_write string | Next string
  | Enter queue_write queue_progress string | Progress queue_write queue_progress string | Fail string string | Done string
  | Count queue_write string | Panic string | Settle string | Dispose queue_write string | Stop string | Pause string
  | ResumeCheck string | ResumeBuild "string \<Rightarrow> string option" nat | ResumeSpawn string nat | Delete string
  | CancelCurrent | StopAll | Signal string

text \<open>The scan, restart and start handlers, the schedules and the dashboard start a goroutine with a request of their own.\<close>

definition ask :: "string \<Rightarrow> web_request \<Rightarrow> server \<Rightarrow> server option" where
  "ask i req s = Some (s\<lparr>se_asked := se_asked s @ [(i, req)]\<rparr>)"

definition with_live :: "string \<Rightarrow> (string \<Rightarrow> live \<Rightarrow> server \<Rightarrow> server option) \<Rightarrow> server \<Rightarrow> server option" where
  "with_live i f s = (case live_of s i of None \<Rightarrow> None | Some l \<Rightarrow> f i l s)"

fun live_step :: "limits \<Rightarrow> event \<Rightarrow> server \<Rightarrow> server option" where
  "live_step L (Ask i req) s = ask i req s"
| "live_step L (Requeue auto) s = requeue auto s"
| "live_step L (Launch su g k) s = launch su g k s"
| "live_step L (Persist w i) s = with_live i (persist w) s"
| "live_step L (Look i) s = with_live i look s"
| "live_step L (CheckSlot stats i) s = with_live i (check_slot L stats) s"
| "live_step L (Admit i) s = with_live i admit s"
| "live_step L (Wake b i) s = with_live i (wake b) s"
| "live_step L (Start w i) s = with_live i (start_run w) s"
| "live_step L (Next i) s = with_live i next_target s"
| "live_step L (Enter w p i) s = with_live i (enter_target w p) s"
| "live_step L (Progress w p i) s = with_live i (in_target w p) s"
| "live_step L (Fail r i) s = with_live i (fail_session r) s"
| "live_step L (Done i) s = with_live i end_target s"
| "live_step L (Count w i) s = with_live i (count_target w) s"
| "live_step L (Panic i) s = with_live i panic_run s"
| "live_step L (Settle i) s = with_live i settle s"
| "live_step L (Dispose w i) s = with_live i (dispose w) s"
| "live_step L (Stop i) s = with_live i stop_instance s"
| "live_step L (Pause i) s = with_live i pause_instance s"
| "live_step L (ResumeCheck i) s = with_live i resume_check s"
| "live_step L (ResumeBuild rec k) s = resume_build rec k s"
| "live_step L (ResumeSpawn j k) s = resume_spawn j k s"
| "live_step L (Delete i) s = with_live i delete_instance s"
| "live_step L CancelCurrent s = cancel_current s"
| "live_step L StopAll s = stop_all s"
| "live_step L (Signal sig) s = signal_all sig s"

text \<open>A run is a sequence of events each of which is possible when it happens.\<close>

fun run_events :: "('e \<Rightarrow> 's \<Rightarrow> 's option) \<Rightarrow> 'e list \<Rightarrow> 's \<Rightarrow> 's option" where
  "run_events step [] s = Some s"
| "run_events step (e # es) s = (case step e s of None \<Rightarrow> None | Some s' \<Rightarrow> run_events step es s')"

text \<open>What is seen in a run: the events that an observer records of each step.\<close>

fun observed :: "('e \<Rightarrow> 's \<Rightarrow> 's option) \<Rightarrow> ('e \<Rightarrow> 's \<Rightarrow> 'o list) \<Rightarrow> 'e list \<Rightarrow> 's \<Rightarrow> 'o list" where
  "observed step obs [] s = []"
| "observed step obs (e # es) s =
     (case step e s of None \<Rightarrow> [] | Some s' \<Rightarrow> obs e s @ observed step obs es s')"

definition live_run :: "limits \<Rightarrow> event list \<Rightarrow> server \<Rightarrow> server option" where
  "live_run L = run_events (live_step L)"

text \<open>
  The ends of targets: \<open>Ended g n c\<close> is the return of the session of target \<open>n\<close> of the goroutine \<open>g\<close> while its
  scan is neither stopped nor paused; \<open>c\<close> says that its context had been cancelled by \<open>s.cancelScan\<close>.
\<close>

datatype sighting = Ended string nat bool | Cancelled

fun target_ends :: "event \<Rightarrow> server \<Rightarrow> sighting list" where
  "target_ends (Done g) s =
     (case live_of s g of
        None \<Rightarrow> []
      | Some l \<Rightarrow> (case lv_at l of
                     InTarget n \<Rightarrow> if interrupted_status (lv_status l) then [] else [Ended g n (lv_swept l)]
                   | _ \<Rightarrow> []))"
| "target_ends CancelCurrent s = [Cancelled]"
| "target_ends _ s = []"

definition live_ends :: "limits \<Rightarrow> event list \<Rightarrow> server \<Rightarrow> sighting list" where
  "live_ends L = observed (live_step L) target_ends"

end
