(* ===== verification/QueueProperties.thy ===== *)
theory QueueProperties
  imports Queue
begin

text \<open>
  What a resumed scan keeps of the scan that was interrupted, and what a paused one loses.
\<close>

section \<open>One interruption\<close>

lemma activity_idem [simp]: "normalize_activity_mode (normalize_activity_mode m) = normalize_activity_mode m"
proof -
  have "to_lower (trim_space ''passive'') = ''passive''" by code_simp
  moreover have "to_lower (trim_space ''active'') \<noteq> ''passive''" by code_simp
  ultimately show ?thesis by (simp add: normalize_activity_mode_def)
qed

lemma passive_mode [simp]: "normalize_activity_mode ''passive'' = ''passive''"
  by code_simp

lemma normalize_activity_idem [simp]:
  "normalize_request_activity (normalize_request_activity r) = normalize_request_activity r"
  by (simp add: normalize_request_activity_def Let_def)

lemma normalize_activity_sels [simp]:
  "wq_targets (normalize_request_activity r) = wq_targets r"
  "wq_instance_id (normalize_request_activity r) = wq_instance_id r"
  "wq_resume_dir (normalize_request_activity r) = wq_resume_dir r"
  "wq_subdomains (normalize_request_activity r) = wq_subdomains r"
  by (simp_all add: normalize_request_activity_def Let_def)

definition saved_state :: "string \<Rightarrow> int \<Rightarrow> web_request \<Rightarrow> queue_progress option \<Rightarrow> queue_state" where
  "saved_state now i r p =
     (let st = queue_state_of now i r p
      in if qs_instance_id st = '''' then st\<lparr>qs_instance_id := instance_of_path (queue_path (wq_instance_id r))\<rparr> else st)"

lemma load_saved:
  "load_queue_entry (save_queue_state now t True i r p disk) (queue_path (wq_instance_id r))
     = Some \<lparr>qe_state = saved_state now i r p, qe_path = queue_path (wq_instance_id r), qe_mtime = t\<rparr>"
  by (simp add: load_queue_entry_def save_queue_state_def saved_state_def Let_def map_of_put)

lemma saved_valid_iff:
  "invalid_queue_state (saved_state now i r p) = None \<longleftrightarrow> 0 \<le> i \<and> i < int (length (wq_targets r))"
  by (auto simp: saved_state_def invalid_queue_state_def queue_state_of_def Let_def)

text \<open>What a queue file does not hold: the credentials, the source repository, the scan context, the identifier.\<close>

definition without_secrets :: "web_request \<Rightarrow> web_request" where
  "without_secrets r = r\<lparr>wq_target_auth := '''', wq_target_auth_secondary := '''', wq_source_repo := '''',
     wq_scan_context := '''', wq_instance_id := ''''\<rparr>"

definition at_progress :: "queue_progress \<Rightarrow> web_request \<Rightarrow> web_request" where
  "at_progress p r = r\<lparr>wq_resume_target := qp_active_target p, wq_resume_dir := qp_active_dir p,
     wq_resume_id := qp_active_id p, wq_sub_target := qp_sub_target p, wq_sub_dir := qp_sub_dir p, wq_sub_id := qp_sub_id p,
     wq_subdomains := qp_subdomains p, wq_sub_index := qp_sub_index p, wq_discovery_done := qp_discovery_done p\<rparr>"

lemma normalize_activity_eq:
  "normalize_request_activity r
     = r\<lparr>wq_recon_mode := (if normalize_activity_mode (wq_scan_intensity r) = ''passive'' then ''passive''
                           else normalize_activity_mode (wq_recon_mode r)),
         wq_scan_intensity := normalize_activity_mode (wq_scan_intensity r)\<rparr>"
  by (simp add: normalize_request_activity_def Let_def)

lemma resumed_request:
  assumes "i \<le> length (wq_targets r)"
  shows "request_from_queue (saved_state now (int i) r p) path
    = at_progress (qs_progress (queue_state_of now (int i) r p))
        ((without_secrets (normalize_request_activity r))\<lparr>wq_targets := drop i (wq_targets r), wq_is_resume := True,
           wq_resume_path := path, wq_original_target := int i\<rparr>)"
proof -
  have c: "nat (clamp_int (int i) 0 (int (length (wq_targets r)))) = i" using assms by (simp add: clamp_int_def)
  show ?thesis
    by (rule web_request.equality;
        simp add: c saved_state_def request_from_queue_def queue_state_of_def Let_def empty_request_def without_secrets_def
          at_progress_def normalize_activity_eq)
qed

section \<open>Any number of interruptions\<close>

text \<open>
  A scan that runs under an identifier, saves its queue at a position of its targets and is cut off there; the
  server then picks the queue up from the valid ones.
\<close>

record interruption =
  ir_now :: string
  ir_mtime :: int
  ir_id :: string
  ir_at :: nat
  ir_progress :: "queue_progress option"

definition restart_after :: "interruption \<Rightarrow> queue_disk \<times> web_request \<Rightarrow> (queue_disk \<times> web_request) option" where
  "restart_after c s =
     (let r = (snd s)\<lparr>wq_instance_id := ir_id c\<rparr>;
          disk = save_queue_state (ir_now c) (ir_mtime c) True (int (ir_at c)) r (ir_progress c) (fst s)
      in case find (\<lambda>e. qe_path e = queue_path (ir_id c)) (snd (valid_queue_entries False disk)) of
           None \<Rightarrow> None
         | Some e \<Rightarrow> Some (disk, request_from_queue (qe_state e) (qe_path e)))"

fun restart_all :: "interruption list \<Rightarrow> queue_disk \<times> web_request \<Rightarrow> (queue_disk \<times> web_request) option" where
  "restart_all [] s = Some s"
| "restart_all (c # cs) s = (case restart_after c s of None \<Rightarrow> None | Some s' \<Rightarrow> restart_all cs s')"

definition carried :: "web_request \<Rightarrow> web_request" where
  "carried r = without_secrets (at_progress no_progress
     (r\<lparr>wq_targets := [], wq_is_resume := False, wq_resume_path := '''', wq_original_target := 0\<rparr>))"

lemma queue_path_listed:
  assumes "queue_path i \<in> fst ` set disk"
  shows "queue_path i \<in> set (queue_state_paths disk)"
proof -
  have "queue_path i = ''queue_state.json'' \<or> (\<exists>x. queue_path i = ''queue_state_'' @ x @ ''.json'')"
    by (auto simp only: queue_path_def Let_def split: if_split)
  moreover have "has_prefix (''queue_state_'' @ x) ''queue_state_''" and "has_suffix (x @ ''.json'') ''.json''" for x
    by (simp_all add: has_prefix_def has_suffix_def suffix_def)
  ultimately have "queue_path i = ''queue_state.json''
      \<or> has_prefix (queue_path i) ''queue_state_'' \<and> has_suffix (queue_path i) ''.json''"
    by (metis append_assoc)
  moreover have "queue_path i \<noteq> ''''" by (simp add: queue_path_def Let_def)
  ultimately show ?thesis using assms by (auto simp: queue_state_paths_def compact_strings_def set_uniq_from Let_def)
qed

lemma valid_entry_iff:
  "e \<in> set (snd (valid_queue_entries b disk)) \<longleftrightarrow>
     qe_path e \<in> set (queue_state_paths disk) \<and> load_queue_entry disk (qe_path e) = Some e \<and> invalid_queue_state (qe_state e) = None"
proof -
  have path: "qe_path e = p" if "load_queue_entry disk p = Some e" for p
    using that by (auto simp: load_queue_entry_def split: option.splits)
  have "e \<in> set (List.map_filter (load_queue_entry disk) ps) \<longleftrightarrow>
      qe_path e \<in> set ps \<and> load_queue_entry disk (qe_path e) = Some e" for ps
  proof (induction ps)
    case (Cons p ps)
    then show ?case
      using path [of p] by (cases "load_queue_entry disk p") auto
  qed simp
  then show ?thesis by (auto simp: valid_queue_entries_def Let_def)
qed

lemma put_keys: "fst ` set (put k v m) = insert k (fst ` set m)"
  by (induction m rule: put.induct) auto
  
lemma restart_after_saved:
  assumes "ir_at c < length (wq_targets r)"
  shows "restart_after c (disk, r) = Some
     (save_queue_state (ir_now c) (ir_mtime c) True (int (ir_at c)) (r\<lparr>wq_instance_id := ir_id c\<rparr>) (ir_progress c) disk,
      request_from_queue (saved_state (ir_now c) (int (ir_at c)) (r\<lparr>wq_instance_id := ir_id c\<rparr>) (ir_progress c))
        (queue_path (ir_id c)))"
proof -
  let ?r = "r\<lparr>wq_instance_id := ir_id c\<rparr>"
  let ?d = "save_queue_state (ir_now c) (ir_mtime c) True (int (ir_at c)) ?r (ir_progress c) disk"
  let ?e = "\<lparr>qe_state = saved_state (ir_now c) (int (ir_at c)) ?r (ir_progress c), qe_path = queue_path (ir_id c),
             qe_mtime = ir_mtime c\<rparr>"
  have load: "load_queue_entry ?d (queue_path (ir_id c)) = Some ?e"
    using load_saved [of _ _ _ ?r] by simp
  have "queue_path (ir_id c) \<in> fst ` set ?d" by (simp add: save_queue_state_def put_keys)
  then have member: "?e \<in> set (snd (valid_queue_entries False ?d))"
    using load assms by (simp add: valid_entry_iff queue_path_listed saved_valid_iff)
  have "find (\<lambda>e. qe_path e = queue_path (ir_id c)) (snd (valid_queue_entries False ?d)) \<noteq> None"
    unfolding find_None_iff using member by (metis queue_entry.select_convs(2))
  then obtain e where f: "find (\<lambda>e. qe_path e = queue_path (ir_id c)) (snd (valid_queue_entries False ?d)) = Some e"
    by blast
  then have "e \<in> set (snd (valid_queue_entries False ?d))" and p: "qe_path e = queue_path (ir_id c)"
    unfolding find_Some_iff by (metis nth_mem)+
  then have "load_queue_entry ?d (queue_path (ir_id c)) = Some e" using valid_entry_iff p by metis
  then have "e = ?e" using load by simp
  then show ?thesis using f by (simp add: restart_after_def Let_def del: simp_thms)
qed

lemma carried_resumed:
  "carried (request_from_queue (saved_state now (int i) r p) path) = carried (normalize_request_activity r)"
  if "i \<le> length (wq_targets r)"
  unfolding resumed_request [OF that]
  by (simp add: carried_def at_progress_def without_secrets_def normalize_activity_eq)

lemma resumed_facts:
  assumes "i \<le> length (wq_targets r)"
  shows "wq_targets (request_from_queue (saved_state now (int i) r p) path) = drop i (wq_targets r)"
    and "wq_is_resume (request_from_queue (saved_state now (int i) r p) path)"
  unfolding resumed_request [OF assms] by (simp_all add: at_progress_def)

lemma carried_normal:
  "carried (normalize_request_activity (r\<lparr>wq_instance_id := n\<rparr>)) = carried (normalize_request_activity r)"
  "carried r = carried r' \<Longrightarrow> carried (normalize_request_activity r) = carried (normalize_request_activity r')"
proof -
  have c: "carried (normalize_request_activity r) = normalize_request_activity (carried r)" for r
    by (simp add: carried_def at_progress_def without_secrets_def normalize_activity_eq)
  show "carried (normalize_request_activity (r\<lparr>wq_instance_id := n\<rparr>)) = carried (normalize_request_activity r)"
    unfolding c by (simp add: carried_def at_progress_def without_secrets_def)
  show "carried r = carried r' \<Longrightarrow> carried (normalize_request_activity r) = carried (normalize_request_activity r')"
    unfolding c by simp
qed

text \<open>C37: However often a scan is cut off and picked up from its queue file, no target is skipped and none that was
  finished is scanned again: after interruptions at positions \<open>n1, n2, ...\<close> of the targets left at the time, the
  resumed request has the targets from position \<open>n1 + n2 + ...\<close> on. It is marked as a resumption, and apart from
  the progress and what a queue file does not hold (credentials, source repository, scan context) it is the request
  the operator made, with its activity modes normalised.\<close>
theorem interruptions_lose_no_target:
  assumes "sum_list (map ir_at cs) < length (wq_targets r)"
  shows "\<exists>disk' r'. restart_all cs (disk, r) = Some (disk', r')
      \<and> wq_targets r' = drop (sum_list (map ir_at cs)) (wq_targets r)
      \<and> (cs \<noteq> [] \<longrightarrow> wq_is_resume r' \<and> carried r' = carried (normalize_request_activity r))"
  using assms
proof (induction cs arbitrary: disk r)
  case (Cons c cs)
  let ?r = "r\<lparr>wq_instance_id := ir_id c\<rparr>"
  let ?r1 = "request_from_queue (saved_state (ir_now c) (int (ir_at c)) ?r (ir_progress c)) (queue_path (ir_id c))"
  have at: "ir_at c < length (wq_targets r)" "ir_at c \<le> length (wq_targets ?r)" using Cons.prems by simp_all
  have targets: "wq_targets ?r1 = drop (ir_at c) (wq_targets r)" and resume: "wq_is_resume ?r1"
    using resumed_facts [OF at(2)] by simp_all
  have carried: "carried ?r1 = carried (normalize_request_activity r)"
    unfolding carried_resumed [OF at(2)] by (rule carried_normal(1))
  have "sum_list (map ir_at cs) < length (wq_targets ?r1)" using Cons.prems targets by simp
  from Cons.IH [OF this] obtain disk' r' where r': "restart_all cs
      (save_queue_state (ir_now c) (ir_mtime c) True (int (ir_at c)) ?r (ir_progress c) disk, ?r1) = Some (disk', r')"
      "wq_targets r' = drop (sum_list (map ir_at cs)) (wq_targets ?r1)"
      "cs \<noteq> [] \<longrightarrow> wq_is_resume r' \<and> carried r' = carried (normalize_request_activity ?r1)"
    by blast
  have "carried (normalize_request_activity ?r1) = carried (normalize_request_activity r)"
    using carried_normal(2) [OF carried] by simp
  moreover have "cs = [] \<Longrightarrow> r' = ?r1" using r'(1) by simp
  moreover have "restart_all (c # cs) (disk, r) = Some (disk', r')"
    using r'(1) restart_after_saved [OF at(1)] by simp
  moreover have "drop (sum_list (map ir_at cs)) (drop (ir_at c) (wq_targets r))
      = drop (sum_list (map ir_at (c # cs))) (wq_targets r)"
    by (simp add: add.commute)
  ultimately show ?case using r'(2,3) targets resume carried by metis
qed simp

definition weekly_request :: web_request where
  "weekly_request = empty_request\<lparr>wq_targets := [''a.example'', ''b.example'', ''c.example'', ''d.example''],
     wq_scan_mode := ''single'', wq_target_auth := ''Cookie: s=1'', wq_name := ''weekly''\<rparr>"

definition demo_interruptions :: "interruption list" where
  "demo_interruptions =
     [\<lparr>ir_now = ''t1'', ir_mtime = 1, ir_id = ''aa11'', ir_at = 1, ir_progress = None\<rparr>,
      \<lparr>ir_now = ''t2'', ir_mtime = 2, ir_id = ''bb22'', ir_at = 2, ir_progress = None\<rparr>]"

theorem interruptions_lose_no_target_witness:
  "\<exists>disk' r'. restart_all demo_interruptions ([], weekly_request) = Some (disk', r') \<and> wq_targets r' = [''d.example'']"
proof -
  have d: "drop (sum_list (map ir_at demo_interruptions)) (wq_targets weekly_request) = [''d.example'']"
    by (simp add: demo_interruptions_def weekly_request_def)
  have "sum_list (map ir_at demo_interruptions) < length (wq_targets weekly_request)"
    by (simp add: demo_interruptions_def weekly_request_def empty_request_def)
  from interruptions_lose_no_target [OF this, of "[]"] show ?thesis unfolding d by blast
qed

section \<open>What resuming a paused scan loses\<close>

text \<open>Resuming a paused scan loses what starting it again keeps. The request made of a paused instance never has
  the credentials, the source repository and the scan context of the scan, which the instance still holds and the
  restart and start handlers pass on; and when the queue file is gone, it has no assessment either, so that a reviewed
  assessment goes on as a scan of its targets without its scope and approvals. (A restart rebuilds the plan and
  refuses one that changed.)\<close>
theorem paused_scan_loses_credentials:
  assumes "request_for_paused recorded disk i inst = Inr r" and "reviewed_request dg sv inst = Inr r'"
  shows "wq_target_auth r = '''' \<and> wq_target_auth_secondary r = '''' \<and> wq_source_repo r = '''' \<and> wq_scan_context r = ''''
      \<and> wq_target_auth r' = wq_target_auth (in_request inst)
      \<and> wq_target_auth_secondary r' = wq_target_auth_secondary (in_request inst)
      \<and> wq_source_repo r' = wq_source_repo (in_request inst) \<and> wq_scan_context r' = wq_scan_context (in_request inst)
      \<and> (load_queue_entry disk (queue_path i) = None \<longrightarrow> wq_assessment r = None)
      \<and> wq_assessment r' = wq_assessment (in_request inst)"
proof -
  have r': "r' = stored_request inst"
    using assms(2) by (auto simp: reviewed_request_def Let_def split: option.splits if_splits)
  show ?thesis
    using assms(1) unfolding r'
    by (auto simp: request_for_paused_def fill_resume_defaults_def request_from_queue_def paused_defaults_def
        stored_request_def empty_request_def Let_def split: option.splits if_splits)
qed

text \<open>A restart in turn loses what a resumption keeps.\<close>

lemma restart_drops_artifact:
  assumes "reviewed_request dg sv inst = Inr r"
  shows "wq_artifact r = no_artifact" and "wq_vuls_host r = ''''"
  using assms by (auto simp: reviewed_request_def stored_request_def empty_request_def Let_def split: option.splits if_splits)

definition demo_instance :: scan_instance where
  "demo_instance = \<lparr>in_targets = ''a.example, b.example'', in_scan_dir = ''/data/a'', in_request = weekly_request\<rparr>"

theorem paused_scan_loses_credentials_witness:
  "\<forall>dg sv. \<exists>r r'. request_for_paused (\<lambda>d. None) [] ''aa11'' demo_instance = Inr r
     \<and> reviewed_request dg sv demo_instance = Inr r' \<and> wq_target_auth r = '''' \<and> wq_target_auth r' = ''Cookie: s=1''"
proof (intro allI)
  fix dg sv
  have "\<not> isl (request_for_paused (\<lambda>d. None) [] ''aa11'' demo_instance)"
    by code_simp
  then obtain r where r: "request_for_paused (\<lambda>d. None) [] ''aa11'' demo_instance = Inr r"
    by (cases "request_for_paused (\<lambda>d. None) [] ''aa11'' demo_instance") auto
  have r': "reviewed_request dg sv demo_instance = Inr (stored_request demo_instance)"
    by (simp add: reviewed_request_def demo_instance_def weekly_request_def empty_request_def)
  have "wq_target_auth (in_request demo_instance) = ''Cookie: s=1''"
    by (simp add: demo_instance_def weekly_request_def)
  then show "\<exists>r r'. request_for_paused (\<lambda>d. None) [] ''aa11'' demo_instance = Inr r
     \<and> reviewed_request dg sv demo_instance = Inr r' \<and> wq_target_auth r = '''' \<and> wq_target_auth r' = ''Cookie: s=1''"
    using paused_scan_loses_credentials [OF r r'] r r' by metis
qed

end
