(* ===== verification/LifecycleProperties.thy ===== *)
theory LifecycleProperties
  imports Lifecycle QueueProperties
begin

text \<open>
  The invariants of the scans of a server under every interleaving: the cap on running scans, what a queue
  file says of the targets that are left, and what a stop by the operator leaves behind.
\<close>

section \<open>Invariants of runs\<close>



section \<open>Sums over the scans\<close>

definition total_of :: "(live \<Rightarrow> nat) \<Rightarrow> server \<Rightarrow> nat" where
  "total_of f s = sum_list (map (f \<circ> snd) (se_lives s))"





lemma total_on_queue [simp]: "total_of f (on_queue g s) = total_of f s"
  by (simp add: total_of_def on_queue_def)

lemma total_save_queue [simp]: "total_of f (save_queue w n l p s) = total_of f s"
  by (simp add: save_queue_def)


lemma lives_sels [simp]:
  "se_lives (on_queue g s) = se_lives s" "se_lives (save_queue w n l p s) = se_lives s"
  "live_of (on_queue g s) i = live_of s i" "live_of (save_queue w n l p s) i = live_of s i"
  "se_lives (set_live i l s) = put i l (se_lives s)"
  "map fst (se_lives (each_live h s)) = map fst (se_lives s)"
  "live_of (s\<lparr>se_asked := as\<rparr>) i = live_of s i" "live_of (s\<lparr>se_resuming := rs\<rparr>) i = live_of s i"
  "live_of (s\<lparr>se_cancel := c\<rparr>) i = live_of s i" "live_of (s\<lparr>se_queue := q\<rparr>) i = live_of s i"
  by (simp_all add: on_queue_def save_queue_def live_of_def set_live_def each_live_def case_prod_unfold comp_def)

lemma live_of_set: "live_of (set_live i l s) j = (if j = i then Some l else live_of s j)"
  by (simp add: live_of_def set_live_def map_of_put)

lemma live_of_each: "live_of (each_live h s) i = map_option h (live_of s i)"
  by (simp add: live_of_def each_live_def map_of_map)

lemma total_updates [simp]:
  "total_of f (s\<lparr>se_asked := as\<rparr>) = total_of f s" "total_of f (s\<lparr>se_resuming := rs\<rparr>) = total_of f s"
  "total_of f (s\<lparr>se_cancel := c\<rparr>) = total_of f s" "total_of f (s\<lparr>se_queue := q\<rparr>) = total_of f s"
  by (simp_all add: total_of_def)

definition known :: "server \<Rightarrow> bool" where
  "known s \<longleftrightarrow> distinct (map fst (se_lives s))"

lemma known_steps [simp]:
  "known s \<Longrightarrow> known (set_live i l s)" "known (on_queue g s) = known s" "known (save_queue w n l p s) = known s"
  "known (each_live h s) = known s"
  "known (s\<lparr>se_asked := as\<rparr>) = known s" "known (s\<lparr>se_resuming := rs\<rparr>) = known s"
  "known (s\<lparr>se_cancel := c\<rparr>) = known s" "known (s\<lparr>se_queue := q\<rparr>) = known s"
  by (simp_all add: known_def distinct_put)



section \<open>The cap\<close>

definition admitting :: "live \<Rightarrow> nat" where
  "admitting l = of_bool (lv_at l = Admitting)"

definition slot_use :: "live \<Rightarrow> nat" where
  "slot_use l = of_bool (lv_listed l \<and> lv_status l = ''running'') + admitting l"

definition within_cap :: "nat \<Rightarrow> server \<Rightarrow> bool" where
  "within_cap M s \<longleftrightarrow> known s \<and> total_of admitting s \<le> 1 \<and> total_of slot_use s \<le> M"



lemma within_cap_queue [simp]:
  "within_cap M (on_queue g s) = within_cap M s" "within_cap M (save_queue w n l p s) = within_cap M s"
  "within_cap M (s\<lparr>se_asked := as\<rparr>) = within_cap M s" "within_cap M (s\<lparr>se_resuming := rs\<rparr>) = within_cap M s"
  "within_cap M (s\<lparr>se_cancel := c\<rparr>) = within_cap M s" "within_cap M (s\<lparr>se_queue := q\<rparr>) = within_cap M s"
  by (simp_all add: within_cap_def)

















section \<open>Queue files\<close>

lemma map_of_clear [simp]: "map_of (clear_queue_path p d) q = (if q = p then None else map_of d q)"
  by (induction d) (auto simp: clear_queue_path_def)

lemma map_of_clear_id [simp]: "map_of (clear_queue_state [i] d) q = (if q = queue_path i then None else map_of d q)"
  by (simp add: clear_queue_state_def)


lemma map_of_save:
  "map_of (save_queue_state now t b n r p d) q
     = (if b \<and> q = queue_path (wq_instance_id r) then Some \<lparr>qf_state = Some (queue_state_of now n r p), qf_mtime = t\<rparr>
        else map_of d q)"
  by (simp add: save_queue_state_def map_of_put)

lemma load_entry_facts:
  assumes "load_queue_entry d p = Some e"
  shows "qe_path e = p" and "\<exists>f st. map_of d p = Some f \<and> qf_state f = Some st
    \<and> qs_targets (qe_state e) = qs_targets st \<and> qs_current_idx (qe_state e) = qs_current_idx st"
proof -
  obtain f st where f: "map_of d p = Some f" "qf_state f = Some st"
    and e: "e = \<lparr>qe_state = (if qs_instance_id st = '''' then st\<lparr>qs_instance_id := instance_of_path p\<rparr> else st),
                 qe_path = p, qe_mtime = qf_mtime f\<rparr>"
    using assms by (simp add: load_queue_entry_def split: option.splits)
  show "qe_path e = p" by (simp add: e)
  show "\<exists>f st. map_of d p = Some f \<and> qf_state f = Some st
    \<and> qs_targets (qe_state e) = qs_targets st \<and> qs_current_idx (qe_state e) = qs_current_idx st"
    using f by (simp add: e)
qed



text \<open>What a resumption reads of a file: the targets and the position.\<close>

definition queue_rest :: "queue_file \<Rightarrow> (string list \<times> int) option" where
  "queue_rest f = map_option (\<lambda>st. (qs_targets st, qs_current_idx st)) (qf_state f)"


text \<open>Every step keeps the goroutines with their requests, and no count of targets goes back.\<close>

definition advances :: "server \<Rightarrow> server \<Rightarrow> bool" where
  "advances s s' \<longleftrightarrow> (\<forall>g l. live_of s g = Some l \<longrightarrow>
     (\<exists>l'. live_of s' g = Some l' \<and> lv_request l' = lv_request l \<and> finished_targets (lv_at l) \<le> finished_targets (lv_at l')))"


lemma advances_updates [simp]:
  "advances s (t\<lparr>se_asked := as\<rparr>) = advances s t" "advances s (t\<lparr>se_resuming := rs\<rparr>) = advances s t"
  "advances s (t\<lparr>se_cancel := c\<rparr>) = advances s t" "advances s (t\<lparr>se_queue := q\<rparr>) = advances s t"
  by (simp_all add: advances_def)








lemma queue_updates [simp]:
  "se_queue (set_live g l s) = se_queue s" "se_queue (each_live h s) = se_queue s" "se_queue (on_queue f s) = f (se_queue s)"
  "on_queue f (set_live g l s) = set_live g l (on_queue f s)"
  by (simp_all add: set_live_def each_live_def on_queue_def)






lemma save_queue_same [simp]: "se_queue (save_queue w n l p (set_live g m s)) = se_queue (save_queue w n l p s)"
  by (simp add: save_queue_def)





text \<open>What a goroutine has counted, the run has shown.\<close>

definition saw :: "sighting list \<Rightarrow> string \<Rightarrow> nat \<Rightarrow> bool" where
  "saw h g n \<longleftrightarrow> Ended g n False \<in> set h \<or> Ended g n True \<in> set h \<and> Cancelled \<in> set h"

definition ends_ok :: "sighting list \<Rightarrow> string \<Rightarrow> live \<Rightarrow> bool" where
  "ends_ok h g l \<longleftrightarrow> (\<forall>n < finished_targets (lv_at l). saw h g n) \<and> (\<forall>n. lv_at l = Counting n \<longrightarrow> saw h g n)
     \<and> (lv_swept l \<longrightarrow> Cancelled \<in> set h)"

definition ends_inv :: "sighting list \<Rightarrow> server \<Rightarrow> bool" where
  "ends_inv h s \<longleftrightarrow> (\<forall>g l. live_of s g = Some l \<longrightarrow> ends_ok h g l)"





lemma ends_inv_same: "ends_inv h s \<Longrightarrow> (\<And>i. live_of t i = live_of s i) \<Longrightarrow> ends_inv h t"
  by (simp add: ends_inv_def)

lemma ends_inv_updates [simp]:
  "ends_inv h (t\<lparr>se_asked := as\<rparr>) = ends_inv h t" "ends_inv h (t\<lparr>se_resuming := rs\<rparr>) = ends_inv h t"
  "ends_inv h (t\<lparr>se_cancel := c\<rparr>) = ends_inv h t" "ends_inv h (t\<lparr>se_queue := q\<rparr>) = ends_inv h t"
  by (simp_all add: ends_inv_def)










text \<open>What is left of a queue for a resumption.\<close>

definition remaining :: "queue_entry \<Rightarrow> string list" where
  "remaining e = wq_targets (request_from_queue (qe_state e) (qe_path e))"

lemma remaining_rest:
  assumes "load_queue_entry d p = Some e"
  obtains f st where "map_of d p = Some f" and "qf_state f = Some st"
    and "remaining e = drop (nat (clamp_int (qs_current_idx st) 0 (int (length (qs_targets st))))) (qs_targets st)"
  using load_entry_facts(2) [OF assms] by (auto simp: remaining_def request_from_queue_def Let_def)

lemma rest_remaining:
  "load_queue_entry d p = Some e \<Longrightarrow> map_of d p = Some f \<Longrightarrow> queue_rest f = Some (ts, i) \<Longrightarrow>
     remaining e = drop (nat (clamp_int i 0 (int (length ts)))) ts"
  by (erule remaining_rest) (auto simp: queue_rest_def)


section \<open>Races\<close>

lemma locked_updates [simp]:
  "instances_locked (s\<lparr>se_cancel := c\<rparr>) = instances_locked s" "instances_locked (on_queue f s) = instances_locked s"
  "instances_locked (save_queue w n l p s) = instances_locked s"
  by (simp_all add: instances_locked_def on_queue_def save_queue_def)

lemma unlocked_set: "\<not> instances_locked s \<Longrightarrow> lv_at m \<noteq> Admitting \<Longrightarrow> \<not> instances_locked (set_live g m s)"
proof -
  have "set (put g m xs) \<subseteq> insert (g, m) (set xs)" for xs by (induction xs) (auto split: if_splits)
  then show "\<not> instances_locked s \<Longrightarrow> lv_at m \<noteq> Admitting \<Longrightarrow> \<not> instances_locked (set_live g m s)"
    by (fastforce simp: instances_locked_def set_live_def)
qed

lemma cancel_commutes [simp]:
  "set_live g l (s\<lparr>se_cancel := c\<rparr>) = (set_live g l s)\<lparr>se_cancel := c\<rparr>"
  "each_live h (s\<lparr>se_cancel := c\<rparr>) = (each_live h s)\<lparr>se_cancel := c\<rparr>"
  "on_queue f (s\<lparr>se_cancel := c\<rparr>) = (on_queue f s)\<lparr>se_cancel := c\<rparr>"
  by (simp_all add: set_live_def each_live_def on_queue_def)

lemma saved_entry:
  assumes "qw_written w" and "n \<le> length (wq_targets (lv_request l))"
    and "map_of d (queue_path (lv_id l)) = map_of (save_queue_state (qw_now w) (qw_mtime w) (qw_written w) (int n) (lv_request l) q d0) (queue_path (lv_id l))"
  shows "\<exists>e. load_queue_entry d (queue_path (lv_id l)) = Some e \<and> remaining e = drop n (wq_targets (lv_request l))"
proof -
  let ?f = "\<lparr>qf_state = Some (queue_state_of (qw_now w) (int n) (lv_request l) q), qf_mtime = qw_mtime w\<rparr>"
  have f: "map_of d (queue_path (lv_id l)) = Some ?f" using assms(1,3) by (simp add: map_of_save lv_id_def)
  then obtain e where e: "load_queue_entry d (queue_path (lv_id l)) = Some e" by (simp add: load_queue_entry_def)
  have "queue_rest ?f = Some (wq_targets (lv_request l), int n)"
    by (simp add: queue_rest_def queue_state_of_def Let_def normalize_request_activity_def)
  from rest_remaining [OF e f this] assms(2) e show ?thesis by (simp add: clamp_int_def)
qed

lemmas target_steps = with_live_def enter_target_def cancel_current_def end_target_def count_target_def next_target_def
  settle_def dispose_def Let_def

lemmas shutdown_steps = signal_all_def each_listed_def signalled_def live_of_each keeps_queue_def preserve_queue_on_exit_def
  has_prefix_def interrupted_status_def advance_queue_after_target_def typed_def

text \<open>C3: A shutdown can skip a target it cut off. The handler of the signal cancels the context of the current target
  before it writes that its scan is stopped. When the session, cut short, returns in between, the loop still reads
  \<open>running\<close>, counts the target and saves the queue after it: the scan stops, its queue file is kept for the next
  start of the server, and the resumption begins behind the target, which is never scanned to its end. With the
  status written first the same target is resumed.\<close>
theorem shutdown_skips_cut_target:
  assumes "live_of s g = Some l" and "lv_at l = Entering n" and "\<not> typed l" and "lv_status l = ''running''"
    and "lv_listed l" and "lv_ran l" and "\<not> instances_locked s" and "qw_written w" and "n < length (wq_targets (lv_request l))"
  shows "(\<exists>s' l' e. live_run L [Enter w p g, CancelCurrent, Done g, Count w g, Signal sig, Next g, Settle g, Dispose w g] s = Some s'
        \<and> Ended g n True \<in> set (live_ends L [Enter w p g, CancelCurrent, Done g] s)
        \<and> live_of s' g = Some l' \<and> lv_status l' = ''stopped'' \<and> lv_at l' = Exited (Suc n)
        \<and> load_queue_entry (se_queue s') (queue_path (lv_id l)) = Some e
        \<and> remaining e = drop (Suc n) (wq_targets (lv_request l)))
    \<and> (\<exists>s' l' e. live_run L [Enter w p g, Signal sig, CancelCurrent, Done g, Settle g, Dispose w g] s = Some s'
        \<and> live_of s' g = Some l' \<and> lv_status l' = ''stopped'' \<and> lv_at l' = Exited n
        \<and> load_queue_entry (se_queue s') (queue_path (lv_id l)) = Some e
        \<and> remaining e = drop n (wq_targets (lv_request l)))"
proof -
  let ?T = "wq_targets (lv_request l)" let ?q = "queue_path (lv_id l)"
  let ?save = "\<lambda>i d. save_queue_state (qw_now w) (qw_mtime w) (qw_written w) (int i) (lv_request l) None d"
  let ?late = "[Enter w p g, CancelCurrent, Done g, Count w g, Signal sig, Next g, Settle g, Dispose w g]"
  let ?early = "[Enter w p g, Signal sig, CancelCurrent, Done g, Settle g, Dispose w g]"
  have "\<exists>s' l'. live_run L ?late s = Some s' \<and> live_of s' g = Some l' \<and> lv_status l' = ''stopped'' \<and> lv_at l' = Exited (Suc n)
      \<and> se_queue s' = ?save (Suc n) (?save n (se_queue s))"
    using assms by (simp add: live_run_def target_steps shutdown_steps live_of_set unlocked_set save_queue_def)
  moreover have "Ended g n True \<in> set (live_ends L [Enter w p g, CancelCurrent, Done g] s)"
    using assms by (simp add: live_ends_def target_steps shutdown_steps live_of_set unlocked_set save_queue_def)
  moreover have "\<exists>s' l'. live_run L ?early s = Some s' \<and> live_of s' g = Some l' \<and> lv_status l' = ''stopped'' \<and> lv_at l' = Exited n
      \<and> se_queue s' = ?save n (se_queue s)"
    using assms by (simp add: live_run_def target_steps shutdown_steps live_of_set unlocked_set save_queue_def)
  moreover have "\<exists>e. load_queue_entry (?save i d) ?q = Some e \<and> remaining e = drop i ?T" if "i \<le> Suc n" for i d
    using saved_entry [OF assms(8) _ refl, of i l None d] that assms(9) by simp
  ultimately show ?thesis by (metis le_refl le_SucI)
qed

text \<open>Two resume requests for one paused scan that arrive together both start it again: nothing is held between the
  look at the status and the removal of the instance.\<close>
lemma paused_scan_resumed_twice:
  assumes "live_of s g = Some l" and "lv_listed l" and "lv_status l = ''paused''" and "\<not> instances_locked s"
    and "se_resuming s = []" and "request_for_paused rec (se_queue s) (lv_id l) (scan_instance_of l) = Inr req"
  shows "\<exists>s'. live_run L [ResumeCheck g, ResumeCheck g, ResumeBuild rec 0, ResumeBuild rec 1, ResumeSpawn j 0, ResumeSpawn k 0] s
      = Some s' \<and> se_asked s' = se_asked s @ [(j, req), (k, req)]"
proof -
  have unlocked: "\<not> instances_locked (unlist i t)" if "se_lives t = se_lives s" for i t
    using assms(4) that by (auto simp: instances_locked_def unlist_def each_live_def split: if_splits)
  have lives: "live_of (unlist i t) g = map_option (\<lambda>l. if lv_id l = i then l\<lparr>lv_listed := False\<rparr> else l) (live_of t g)" for i t
    by (simp add: unlist_def live_of_each)
  have fields: "se_resuming (unlist i t) = se_resuming t" "se_asked (unlist i t) = se_asked t" for i t
    by (simp_all add: unlist_def each_live_def)
  show ?thesis
    using assms by (simp add: live_run_def with_live_def resume_check_def resume_build_def resume_spawn_def without_def
        unlocked lives fields) (simp add: instances_locked_def)
qed

text \<open>C40: A stop that arrives between the admission check and the write of the status is lost. The admission holds
  \<open>instancesMu\<close> but not the lock of the instance, under which the stop handler writes: the scan that was just stopped
  is marked as running, with the reason of the stop, and goes on to its targets, although its queue file is gone and
  the operator was told that it stopped. The same stop before the check or after the write is respected.\<close>
theorem stop_lost_in_admission:
  assumes "live_of s i = Some l" and "lv_at l = Contending" and "lv_status l = ''pending''" and "lv_listed l"
    and "\<not> instances_locked s" and "can_admit_scan L stats (int (running_count s))"
  shows "(\<exists>s' l'. live_run L [CheckSlot stats i, Stop i, Admit i] s = Some s' \<and> live_of s' i = Some l'
        \<and> lv_status l' = ''running'' \<and> lv_reason l' = ''user_stopped'' \<and> lv_at l' = Starting
        \<and> load_queue_entry (se_queue s') (queue_path (lv_id l)) = None)
    \<and> (\<exists>s' l'. live_run L [CheckSlot stats i, Admit i, Stop i] s = Some s' \<and> live_of s' i = Some l'
        \<and> lv_status l' = ''stopped'')
    \<and> (\<exists>s' l'. live_run L [Stop i, CheckSlot stats i, Wake b i] s = Some s' \<and> live_of s' i = Some l'
        \<and> lv_status l' = ''stopped'')"
proof -
  note run = live_run_def with_live_def check_slot_def admit_def stop_instance_def stopped_by_def active_status_def wake_def
    load_queue_entry_def live_of_set unlocked_set
  have "\<exists>s' l'. live_run L [CheckSlot stats i, Stop i, Admit i] s = Some s' \<and> live_of s' i = Some l'
      \<and> lv_status l' = ''running'' \<and> lv_reason l' = ''user_stopped'' \<and> lv_at l' = Starting
      \<and> load_queue_entry (se_queue s') (queue_path (lv_id l)) = None"
    using assms by (simp add: run) (simp add: lv_id_def)
  moreover have "\<exists>s' l'. live_run L [CheckSlot stats i, Admit i, Stop i] s = Some s' \<and> live_of s' i = Some l'
      \<and> lv_status l' = ''stopped''"
    using assms by (simp add: run)
  moreover have "\<exists>s' l'. live_run L [Stop i, CheckSlot stats i, Wake b i] s = Some s' \<and> live_of s' i = Some l'
      \<and> lv_status l' = ''stopped''"
    using assms by (cases b) (simp_all add: run)
  ultimately show ?thesis by blast
qed

section \<open>A run\<close>

text \<open>A machine with room, an operator cap of two, and a scan of two targets.\<close>

definition demo_limits :: limits where
  "demo_limits = init_limits \<lparr>op_cpu_caution = None, op_cpu_critical = None, op_heavy_cpu_load = None, op_ram_caution = None,
     op_ram_critical = None, op_disk_caution = None, op_disk_critical = None, op_max_instances = Some 2,
     op_scan_overhead = None, op_scan_budget = None, op_tool_mem_limit = None\<rparr> 8 16384"

definition demo_stats :: system_stats where
  "demo_stats = \<lparr>sy_cores = 8, sy_load = 1, sy_mem_total = 16384, sy_mem_available = 12000, sy_disk_free = 50000\<rparr>"

definition demo_queue_write :: queue_write where
  "demo_queue_write = \<lparr>qw_now = ''t'', qw_mtime = 1, qw_written = True\<rparr>"

definition demo_live_request :: web_request where
  "demo_live_request = empty_request\<lparr>wq_targets := [''a,c'', ''b'']\<rparr>"

definition demo_around :: surroundings where
  "demo_around = \<lparr>su_blocked = (\<lambda>t. t = ''c''), su_plan = (\<lambda>_. ''''), su_slug = ''x''\<rparr>"

definition demo_start :: "event list" where
  "demo_start = [Ask '''' demo_live_request, Launch demo_around ''g'' 0, Persist demo_queue_write ''g'', Look ''g'']"

definition demo_entering :: "event list" where
  "demo_entering = demo_start @ [CheckSlot demo_stats ''g'', Admit ''g'', Start demo_queue_write ''g'', Next ''g'']"




theorem shutdown_skips_cut_target_witness:
  "\<exists>s s' e. live_run demo_limits demo_entering (idle_server []) = Some s
     \<and> live_run demo_limits [Enter demo_queue_write no_progress ''g'', CancelCurrent, Done ''g'', Count demo_queue_write ''g'',
          Signal ''terminated'', Next ''g'', Settle ''g'', Dispose demo_queue_write ''g''] s = Some s'
     \<and> load_queue_entry (se_queue s') (queue_path ''x'') = Some e \<and> remaining e = [''b'']"
proof -
  let ?r = "live_run demo_limits demo_entering (idle_server [])"
  have "map_option (\<lambda>l. (lv_at l, lv_status l, lv_listed l, lv_ran l, lv_id l)) (Option.bind ?r (\<lambda>s. live_of s ''g''))
      = Some (Entering 0, ''running'', True, True, ''x'')" by code_simp
  moreover have "map_option (\<lambda>l. (typed l, wq_targets (lv_request l))) (Option.bind ?r (\<lambda>s. live_of s ''g'')) = Some (False, [''a'', ''b''])"
    by code_simp
  moreover have "map_option (\<lambda>s. \<not> instances_locked s) ?r = Some True" by code_simp
  moreover have "qw_written demo_queue_write" by code_simp
  ultimately obtain s l where s: "?r = Some s" "live_of s ''g'' = Some l" "lv_at l = Entering 0" "\<not> typed l"
      "lv_status l = ''running''" "lv_listed l" "lv_ran l" "\<not> instances_locked s" "qw_written demo_queue_write"
      "lv_id l = ''x''" "wq_targets (lv_request l) = [''a'', ''b'']"
    by (auto simp: bind_eq_Some_conv)
  then have "0 < length (wq_targets (lv_request l))" by simp
  from shutdown_skips_cut_target [OF s(2-9) this] s(1,10,11) show ?thesis by fastforce
qed

theorem stop_lost_in_admission_witness:
  "\<exists>s s' l'. live_run demo_limits demo_start (idle_server []) = Some s
     \<and> live_run demo_limits [CheckSlot demo_stats ''g'', Stop ''g'', Admit ''g''] s = Some s' \<and> live_of s' ''g'' = Some l'
     \<and> lv_status l' = ''running'' \<and> lv_reason l' = ''user_stopped''"
proof -
  let ?r = "live_run demo_limits demo_start (idle_server [])"
  have "map_option (\<lambda>l. (lv_at l, lv_status l, lv_listed l)) (Option.bind ?r (\<lambda>s. live_of s ''g''))
      = Some (Contending, ''pending'', True)" by code_simp
  moreover have "map_option (\<lambda>s. \<not> instances_locked s \<and> can_admit_scan demo_limits demo_stats (int (running_count s))) ?r
      = Some True" by code_simp
  ultimately obtain s l where s: "?r = Some s" and l: "live_of s ''g'' = Some l" "lv_at l = Contending"
      "lv_status l = ''pending''" "lv_listed l" "\<not> instances_locked s"
      "can_admit_scan demo_limits demo_stats (int (running_count s))"
    by (auto simp: bind_eq_Some_conv)
  from stop_lost_in_admission [OF l] s show ?thesis by blast
qed

end
