(* ===== verification/ApiWrites.thy ===== *)
theory ApiWrites
  imports Jobs
begin

text \<open>
  The runner of approved API writes (\<open>internal/scanner/apichecks_writes.go\<close>): the checks of an approval, the request
  it sends, the journal around it, the declared cleanup and the verdict. The fixture store, the resolver, the guard,
  the budget, the answers of the target and the file operations of the journal are arguments.
\<close>

section \<open>Requests\<close>

record api_request =
  aq_method :: string
  aq_url :: string
  aq_body :: string
  aq_headers :: header

definition header_add :: "string \<Rightarrow> string \<Rightarrow> header \<Rightarrow> header" where
  "header_add k v h =
     (let c = canonical_key k in put c ((case map_of h c of None \<Rightarrow> [] | Some vs \<Rightarrow> vs) @ [v]) h)"

definition valid_credential_header :: "string \<Rightarrow> bool" where
  "valid_credential_header name \<longleftrightarrow> to_lower name \<notin> set [''host'', ''content-length'', ''transfer-encoding'', ''connection'',
     ''proxy-authorization'', ''proxy-connection'']"

definition credential_line :: "string \<Rightarrow> (string \<times> string) option" where
  "credential_line line =
     (let (name0, value0, ok) = cut_at (CHR '':'') line; name = trim_space name0; v = trim_space value0
      in if \<not> ok \<or> name = '''' \<or> list_ex (\<lambda>c. c \<in> {CHR 0x0D, CHR 0x0A, CHR 0x00}) (name @ v)
            \<or> \<not> valid_credential_header name
         then None else Some (name, v))"

definition scoped_api_request :: "string \<Rightarrow> string \<Rightarrow> string \<Rightarrow> string \<Rightarrow> string \<Rightarrow> api_request" where
  "scoped_api_request raw method body content_type auth =
     (let h1 = (if content_type \<noteq> '''' \<and> body \<noteq> '''' then header_set ''Content-Type'' content_type [] else []);
          h2 = header_set ''Accept'' ''application/json, text/plain;q=0.8, */*;q=0.1'' h1
      in \<lparr>aq_method = method, aq_url = raw, aq_body = body,
          aq_headers = fold (\<lambda>(name, v). header_add name v) (List.map_filter credential_line (split_on (CHR 0x0A) auth)) h2\<rparr>)"

text \<open>\<open>sendScopedAPIRequest\<close>: what reaches the network, and the status of an answer. \<open>resolve\<close> gives no address when
  the lookup fails; \<open>guard\<close> is the configured guard with its reason to refuse.\<close>

definition send_scoped_api_request ::
  "(string \<Rightarrow> string list \<Rightarrow> string option) option \<Rightarrow> (string \<Rightarrow> string list) \<Rightarrow> (api_request \<Rightarrow> int option) \<Rightarrow> api_request
     \<Rightarrow> api_request list \<times> int option" where
  "send_scoped_api_request guard resolve answer r =
     (case url_parse (aq_url r) of
        None \<Rightarrow> ([], None)
      | Some u \<Rightarrow>
          (let addresses = resolve (hostname u);
               refused = (case guard of None \<Rightarrow> False | Some g \<Rightarrow> g (aq_url r) addresses \<noteq> None)
           in if addresses = [] \<or> refused then ([], None) else ([r], answer r)))"

section \<open>The checks of an approval\<close>

definition approved_write_matches :: "api_endpoint list \<Rightarrow> write_approval \<Rightarrow> bool" where
  "approved_write_matches es a \<longleftrightarrow>
     list_ex (\<lambda>e. ae_source e \<in> set [''openapi'', ''''] \<and> ae_operation_id e = wa_operation_id a
                \<and> to_lower (ae_method e) = to_lower (wa_method a) \<and> ae_path e = wa_path a) es"

definition scoped_api_path :: "string \<Rightarrow> string \<Rightarrow> string + string" where
  "scoped_api_path app path =
     (if \<not> has_prefix path ''/'' \<or> contains_any path ''?#{}'' \<or> CHR 0x5C \<in> set path then Inl ''invalid absolute API path''
      else case path_unescape path of
             None \<Rightarrow> Inl ''invalid escape''
           | Some p \<Rightarrow>
               if dot_segment p then Inl ''path traversal''
               else (case url_parse app of
                       None \<Rightarrow> Inl ''invalid application URL''
                     | Some u \<Rightarrow>
                         if u_host u = '''' \<or> u_user u \<or> u_scheme u \<notin> set [''http'', ''https'']
                         then Inl ''invalid application URL''
                         else Inr (operation_url app (u_scheme u) (u_host u)
                                (trim_suffix (u_path u) ''/'' @ CHR ''/'' # dropWhile (\<lambda>c. c = CHR ''/'') p))))"

text \<open>\<open>files\<close> reads the fixture of a reference; \<open>sha\<close> is the hexadecimal SHA-256.\<close>

definition read_api_fixture :: "(string \<Rightarrow> string) \<Rightarrow> (string \<Rightarrow> string option) \<Rightarrow> string \<Rightarrow> string option" where
  "read_api_fixture sha files ref =
     (if ref = '''' then None
      else case hex_decode ref of
             None \<Rightarrow> None
           | Some bytes \<Rightarrow>
               if length bytes \<noteq> 32 then None
               else (case files ref of
                       None \<Rightarrow> None
                     | Some d \<Rightarrow> if d = '''' \<or> length d > 1048576 \<or> sha d \<noteq> ref then None else Some d))"

record writer_env =
  we_sha :: "string \<Rightarrow> string"
  we_texts :: gateway_env
  we_guard :: "(string \<Rightarrow> string list \<Rightarrow> string option) option"

definition outside_boundary :: "writer_env \<Rightarrow> app_scope \<Rightarrow> string \<Rightarrow> string \<Rightarrow> string \<Rightarrow> string option" where
  "outside_boundary env s what method raw =
     (case allows s raw of
        (False, why) \<Rightarrow> Some (what @ '' path is outside application scope: '' @ ge_scope_text (we_texts env) why)
      | (True, why) \<Rightarrow>
          (case excluded s method raw of
             Some reason \<Rightarrow> Some (what @ '' path is excluded: '' @ ge_exclude_text (we_texts env) reason)
           | None \<Rightarrow> None))"

definition fixture_of :: "writer_env \<Rightarrow> (string \<Rightarrow> string option) \<Rightarrow> string \<Rightarrow> string \<Rightarrow> string option" where
  "fixture_of env files method ref =
     (if ref = '''' \<and> method = ''DELETE'' then Some '''' else read_api_fixture (we_sha env) files ref)"

record prepared_write =
  pw_url :: string
  pw_body :: string
  pw_cleanup_url :: string
  pw_cleanup_body :: string

definition prepare_write ::
  "writer_env \<Rightarrow> job_request \<Rightarrow> app_scope \<Rightarrow> (string \<Rightarrow> string option) \<Rightarrow> write_approval \<Rightarrow> string + prepared_write" where
  "prepare_write env q s files a =
     (if \<not> approved_write_matches (qr_operations q) a \<and> \<not> approved_write_matches (qr_api_endpoints q) a
      then Inl ''approved write does not match a bound OpenAPI operation''
      else if wa_method a \<notin> set [''POST'', ''PUT'', ''PATCH'', ''DELETE'']
              \<or> wa_cleanup_method a \<notin> set [''DELETE'', ''PUT'', ''PATCH'']
      then Inl ''write or cleanup method is not permitted by the API write adapter''
      else case scoped_api_path (qr_target q) (wa_path a) of
        Inl e \<Rightarrow> Inl ''approved write path is invalid''
      | Inr url \<Rightarrow>
        (case outside_boundary env s ''write'' (wa_method a) url of
           Some why \<Rightarrow> Inl why
         | None \<Rightarrow>
        (case fixture_of env files (wa_method a) (wa_fixture_ref a) of
           None \<Rightarrow> Inl ''approved request fixture is missing or corrupt''
         | Some body \<Rightarrow>
        (case scoped_api_path (qr_target q) (wa_cleanup_path a) of
           Inl e \<Rightarrow> Inl ''declared cleanup request is invalid''
         | Inr cleanup \<Rightarrow>
        (case outside_boundary env s ''cleanup'' (wa_cleanup_method a) cleanup of
           Some why \<Rightarrow> Inl why
         | None \<Rightarrow>
        (case fixture_of env files (wa_cleanup_method a) (wa_cleanup_ref a) of
           None \<Rightarrow> Inl ''declared cleanup fixture is missing or corrupt''
         | Some cleanup_body \<Rightarrow>
             Inr \<lparr>pw_url = url, pw_body = body, pw_cleanup_url = cleanup, pw_cleanup_body = cleanup_body\<rparr>))))))"

section \<open>One write\<close>

record write_moment =
  wm_now :: string
  wm_files :: "string \<Rightarrow> string option"
  wm_intent :: journal_io
  wm_sent :: journal_io
  wm_cleaned :: journal_io
  wm_wait :: "string option"
  wm_wait_cleanup :: "string option"
  wm_resolve :: "string \<Rightarrow> string list"
  wm_answer :: "api_request \<Rightarrow> int option"

record api_result =
  rr_method :: string
  rr_path :: string
  rr_status :: string
  rr_reason :: string

text \<open>\<open>sl_journal\<close>: the journal when the request went out; \<open>sl_answer\<close>: the status of its answer.\<close>

record sent_request =
  sl_request :: api_request
  sl_operation :: string
  sl_cleanup :: bool
  sl_journal :: journal_file
  sl_answer :: "int option"

record write_state_of_run =
  ws_journal :: journal_state
  ws_results :: "api_result list"
  ws_failures :: nat
  ws_interrupted :: bool
  ws_log :: "sent_request list"

definition operation_key :: "job_request \<Rightarrow> write_approval \<Rightarrow> string" where
  "operation_key q a = qr_scope q @ '':'' @ wa_method a @ '':'' @ wa_path a"

definition write_entry :: "job_request \<Rightarrow> write_approval \<Rightarrow> prepared_write \<Rightarrow> journal_entry" where
  "write_entry q a p = \<lparr>je_operation = operation_key q a, je_job = ''apiwrites'', je_method = wa_method a, je_url = pw_url p,
     je_fixture_ref = wa_fixture_ref a, je_cleanup_method = wa_cleanup_method a, je_cleanup_url = pw_cleanup_url p,
     je_cleanup_ref = wa_cleanup_ref a, je_state = WriteIntent, je_intent_at = '''', je_sent_at = '''', je_cleanup_at = ''''\<rparr>"

definition note_result ::
  "write_approval \<Rightarrow> string \<Rightarrow> string \<Rightarrow> nat \<Rightarrow> bool \<Rightarrow> write_state_of_run \<Rightarrow> write_state_of_run" where
  "note_result a st why failed gap s =
     s\<lparr>ws_results := ws_results s @ [\<lparr>rr_method = wa_method a, rr_path = wa_path a, rr_status = st, rr_reason = why\<rparr>],
       ws_failures := ws_failures s + failed, ws_interrupted := (ws_interrupted s \<or> gap)\<rparr>"

definition send_logged ::
  "writer_env \<Rightarrow> write_moment \<Rightarrow> string \<Rightarrow> bool \<Rightarrow> api_request \<Rightarrow> write_state_of_run \<Rightarrow> write_state_of_run \<times> int option" where
  "send_logged env m op cleanup r s =
     (let (out, answer) = send_scoped_api_request (we_guard env) (wm_resolve m) (wm_answer m) r
      in (s\<lparr>ws_log := ws_log s @ map (\<lambda>x. \<lparr>sl_request = x, sl_operation = op, sl_cleanup = cleanup,
                                        sl_journal = fst (ws_journal s), sl_answer = answer\<rparr>) out\<rparr>, answer))"

definition success_code :: "int \<Rightarrow> bool" where
  "success_code c \<longleftrightarrow> 200 \<le> c \<and> c < 300"

definition clean_up ::
  "writer_env \<Rightarrow> job_request \<Rightarrow> write_moment \<Rightarrow> write_approval \<Rightarrow> prepared_write \<Rightarrow> int \<Rightarrow> write_state_of_run \<Rightarrow> write_state_of_run" where
  "clean_up env q m a p got s =
     (let op = operation_key q a; failed = (if success_code got then 0 else 1);
          why = (if success_code got then '''' else ''write returned HTTP '' @ itoa got @ ''; cleanup was still attempted'')
      in case wm_wait_cleanup m of
           Some e \<Rightarrow>
             note_result a ''cleanup_failed'' ''write answered but budget ended before declared cleanup'' (failed + 1) True
               (s\<lparr>ws_journal := fst (mark_cleanup (wm_cleaned m) (wm_now m) op False (ws_journal s))\<rparr>)
         | None \<Rightarrow>
             (let (s1, answer) = send_logged env m op True
                    (scoped_api_request (pw_cleanup_url p) (wa_cleanup_method a) (pw_cleanup_body p)
                       (wa_cleanup_content_type a) (qr_target_auth q)) s;
                  ok = (case answer of None \<Rightarrow> False | Some c \<Rightarrow> success_code c);
                  (js, err) = mark_cleanup (wm_cleaned m) (wm_now m) op ok (ws_journal s1); s2 = s1\<lparr>ws_journal := js\<rparr>
              in if err \<noteq> None then
                   note_result a ''cleanup_failed'' ''cleanup finished but its journal outcome could not be persisted'' (failed + 1) False s2
                 else if \<not> ok then
                   note_result a ''cleanup_failed'' ''write was sent but declared cleanup did not complete successfully'' (failed + 1) False s2
                 else note_result a (if success_code got then ''completed'' else ''written'') why failed False s2))"

definition write_one :: "writer_env \<Rightarrow> job_request \<Rightarrow> app_scope \<Rightarrow> write_moment \<Rightarrow> write_approval \<Rightarrow> write_state_of_run \<Rightarrow> write_state_of_run" where
  "write_one env q sc m a s =
     (case prepare_write env q sc (wm_files m) a of
        Inl why \<Rightarrow> note_result a ''skipped'' why 1 False s
      | Inr p \<Rightarrow>
          (case record_intent (wm_intent m) (wm_now m) (write_entry q a p) (ws_journal s) of
             (js, Some e) \<Rightarrow>
               note_result a ''skipped'' ''write is already journaled or the journal could not be updated; request was not sent'' 1 False
                 (s\<lparr>ws_journal := js\<rparr>)
           | (js, None) \<Rightarrow>
               (let s1 = s\<lparr>ws_journal := js\<rparr>
                in case wm_wait m of
                     Some e \<Rightarrow> note_result a ''skipped'' (''assessment budget stopped the write before network I/O: '' @ e) 1 True s1
                   | None \<Rightarrow>
                       (case send_logged env m (operation_key q a) False
                               (scoped_api_request (pw_url p) (wa_method a) (pw_body p) (wa_content_type a) (qr_target_auth q)) s1 of
                          (s2, None) \<Rightarrow> note_result a ''skipped'' ''write outcome is unknown; journal prevents replay'' 1 True s2
                        | (s2, Some got) \<Rightarrow>
                            (case mark_sent (wm_sent m) (wm_now m) (operation_key q a) (ws_journal s2) of
                               (js2, Some e) \<Rightarrow>
                                 note_result a ''skipped''
                                   ''write answered but journal state could not be updated; cleanup was not attempted'' 1 True
                                   (s2\<lparr>ws_journal := js2\<rparr>)
                             | (js2, None) \<Rightarrow> clean_up env q m a p got (s2\<lparr>ws_journal := js2\<rparr>))))))"

fun write_all ::
  "writer_env \<Rightarrow> job_request \<Rightarrow> app_scope \<Rightarrow> (write_approval \<times> write_moment) list \<Rightarrow> write_state_of_run \<Rightarrow> write_state_of_run" where
  "write_all env q sc [] s = s"
| "write_all env q sc ((a, m) # ams) s = write_all env q sc ams (write_one env q sc m a s)"

section \<open>The runner\<close>

text \<open>What the runner meets: the type of the request, the store, the journal of the assessment or of the attempt with
  the entries it opens with, and its files (\<open>wt_path\<close> is that of the evidence). The clock and the exit code of the
  run are left out.\<close>

record writer_start =
  wt_typed :: bool
  wt_store :: bool
  wt_journal :: "journal_file \<times> (journal_error + journal_entry list)"
  wt_directory :: bool
  wt_artifact :: bool
  wt_path :: string
  wt_encoded :: bool
  wt_synced :: bool

definition write_refusal :: "writer_start \<Rightarrow> job_request \<Rightarrow> (string \<times> string \<times> bool) option" where
  "write_refusal x q =
     (if qr_writes q = [] then Some (''skipped'', ''no explicitly approved API writes'', False)
      else if \<not> wt_typed x \<or> \<not> qr_test_environment q \<or> qr_app_scope q = None then
        Some (''failed'', ''approved writes require a typed assessment, declared test environment, and application scope'', False)
      else if \<not> wt_store x then Some (''failed'', ''API fixture store is unavailable'', False)
      else if isl (snd (wt_journal x)) then
        Some (''failed'', ''write journal is unreadable; refusing to send approved API requests'', True)
      else if \<not> wt_directory x then Some (''failed'', ''could not create API write evidence directory'', False)
      else if \<not> wt_artifact x then Some (''failed'', ''could not create API write evidence artifact'', False)
      else None)"

definition write_verdict :: "writer_start \<Rightarrow> write_state_of_run \<Rightarrow> string \<times> string" where
  "write_verdict x s =
     (if \<not> wt_encoded x then (''failed'', ''could not persist API write evidence'')
      else if \<not> wt_synced x then (''failed'', ''could not sync API write evidence'')
      else if ws_failures s > 0 then
        (''failed'', itoa (int (ws_failures s)) @ '' approved API write or cleanup checks failed or were skipped'')
      else (''completed'', ''approved API writes were sent once and declared cleanup completed''))"

definition writer_run :: "job_request \<Rightarrow> string \<times> string \<Rightarrow> bool \<Rightarrow> job_run" where
  "writer_run q verdict gap = empty_run\<lparr>jr_scanner := ''apiwrites'', jr_target := qr_target q, jr_scope := qr_scope q,
     jr_variant := ''apiwrites'', jr_authenticated := (qr_target_auth q \<noteq> ''''), jr_status := fst verdict,
     jr_reason := snd verdict, jr_gap := (if gap then GapInterruptedWrite else '''')\<rparr>"

definition writes_start :: "writer_start \<Rightarrow> write_state_of_run" where
  "writes_start x = \<lparr>ws_journal = (fst (wt_journal x), case snd (wt_journal x) of Inl e \<Rightarrow> [] | Inr es \<Rightarrow> es),
     ws_results = [], ws_failures = 0, ws_interrupted = False, ws_log = []\<rparr>"

text \<open>\<open>moments\<close> gives the moment of each approval. The second component is the state at the end, with the requests
  that were sent.\<close>

definition run_api_writes ::
  "writer_env \<Rightarrow> writer_start \<Rightarrow> job_request \<Rightarrow> (nat \<Rightarrow> write_moment) \<Rightarrow> job_run \<times> write_state_of_run" where
  "run_api_writes env x q moments =
     (case write_refusal x q of
        Some (st, why, gap) \<Rightarrow> (writer_run q (st, why) gap, writes_start x)
      | None \<Rightarrow>
          (let s = write_all env q (the (qr_app_scope q))
                     (zip (qr_writes q) (map moments [0..<length (qr_writes q)])) (writes_start x)
           in ((writer_run q (write_verdict x s) (ws_interrupted s))\<lparr>jr_artifact := wt_path x\<rparr>, s)))"

end
