(* ===== verification/ApiWritesProperties.thy ===== *)
theory ApiWritesProperties
  imports ApiWrites JournalRuns
begin

text \<open>
  What the runner of approved writes guarantees: what it sends was approved and is inside the boundary, the journal
  says so before it is sent, nothing is sent twice, and a completed run has cleaned up after itself. The effect of each
  journal operation is taken from its refinement to a map (\<open>moves\<close>).
\<close>

section \<open>Steps\<close>

definition journal_state_of :: "journal_file \<Rightarrow> string \<Rightarrow> write_state option" where
  "journal_state_of f op = (case journal_map f of None \<Rightarrow> None | Some m \<Rightarrow> m op)"

lemma intent_moves:
  "record_intent io now e js = (js', r) \<Longrightarrow> moves (fst js) (je_operation e) None WriteIntent (fst js') r"
  using record_intent_moves [of io now e "fst js" "snd js" "fst js'" "snd js'" r] by simp

lemma sent_moves: "mark_sent io now op js = (js', r) \<Longrightarrow> moves (fst js) op (Some WriteIntent) WriteSent (fst js') r"
  unfolding mark_sent_def using transition_moves [of io op WriteIntent _ "fst js" "snd js" "fst js'" "snd js'" r WriteSent] by simp

lemma cleanup_moves:
  "mark_cleanup io now op ok js = (js', r) \<Longrightarrow>
     moves (fst js) op (Some WriteSent) (if ok then WriteCleanupDone else WriteCleanupFailed) (fst js') r"
  unfolding mark_cleanup_def
  using transition_moves [of io op WriteSent _ "fst js" "snd js" "fst js'" "snd js'" r
      "if ok then WriteCleanupDone else WriteCleanupFailed"] by simp

lemma moves_success:
  "moves f op before after f' None \<Longrightarrow> \<exists>m. journal_map f = Some m \<and> m op = before \<and> journal_map f' = Some (m(op \<mapsto> after))"
  by (simp add: moves_def)

lemma keeps_trans: "keeps f g \<Longrightarrow> keeps g h \<Longrightarrow> keeps f h"
  unfolding keeps_def by (meson order_trans)

lemma send_logged_log:
  assumes "send_logged env m op cl r s = (s', answer)"
  shows "ws_journal s' = ws_journal s \<and> ws_failures s' = ws_failures s
    \<and> (ws_log s' = ws_log s \<and> answer = None \<or> ws_log s' = ws_log s @ [\<lparr>sl_request = r, sl_operation = op, sl_cleanup = cl,
          sl_journal = fst (ws_journal s), sl_answer = answer\<rparr>])"
  using assms by (auto simp: send_logged_def send_scoped_api_request_def Let_def split: option.splits if_splits)

lemma note_result_parts [simp]:
  "ws_journal (note_result a st why n gap s) = ws_journal s" "ws_log (note_result a st why n gap s) = ws_log s"
  "ws_failures (note_result a st why n gap s) = ws_failures s + n"
  by (simp_all add: note_result_def)

text \<open>The requests of an approval, as they are logged.\<close>

definition write_request :: "job_request \<Rightarrow> write_approval \<Rightarrow> prepared_write \<Rightarrow> api_request" where
  "write_request q a p = scoped_api_request (pw_url p) (wa_method a) (pw_body p) (wa_content_type a) (qr_target_auth q)"

definition cleanup_request :: "job_request \<Rightarrow> write_approval \<Rightarrow> prepared_write \<Rightarrow> api_request" where
  "cleanup_request q a p =
     scoped_api_request (pw_cleanup_url p) (wa_cleanup_method a) (pw_cleanup_body p) (wa_cleanup_content_type a) (qr_target_auth q)"

definition logged_write :: "job_request \<Rightarrow> write_approval \<Rightarrow> prepared_write \<Rightarrow> sent_request \<Rightarrow> bool" where
  "logged_write q a p e \<longleftrightarrow> sl_operation e = operation_key q a \<and>
     (if sl_cleanup e then sl_request e = cleanup_request q a p \<and> journal_state_of (sl_journal e) (operation_key q a) = Some WriteSent
      else sl_request e = write_request q a p \<and> journal_state_of (sl_journal e) (operation_key q a) = Some WriteIntent)"

definition answered_well :: "sent_request \<Rightarrow> bool" where
  "answered_well e \<longleftrightarrow> (case sl_answer e of None \<Rightarrow> False | Some c \<Rightarrow> success_code c)"

lemma answered_well_code: "answered_well e \<Longrightarrow> \<exists>c. sl_answer e = Some c \<and> 200 \<le> c \<and> c < 300"
  by (auto simp: answered_well_def success_code_def split: option.splits)

lemma clean_up_facts:
  assumes j: "journal_map (fst (ws_journal s)) = Some mp" and op: "mp (operation_key q a) = Some WriteSent"
  obtains new where "ws_log (clean_up env q m a p got s) = ws_log s @ new"
    and "new = [] \<or> (\<exists>c. new = [c] \<and> sl_cleanup c \<and> logged_write q a p c)"
    and "keeps (fst (ws_journal s)) (fst (ws_journal (clean_up env q m a p got s)))"
    and "ws_failures (clean_up env q m a p got s) \<ge> ws_failures s"
    and "ws_failures (clean_up env q m a p got s) = ws_failures s \<Longrightarrow> success_code got \<and> (\<exists>c. new = [c] \<and> answered_well c)
      \<and> journal_map (fst (ws_journal (clean_up env q m a p got s))) = Some (mp(operation_key q a \<mapsto> WriteCleanupDone))"
proof (cases "wm_wait_cleanup m")
  case (Some e)
  obtain js r where c: "mark_cleanup (wm_cleaned m) (wm_now m) (operation_key q a) False (ws_journal s) = (js, r)" by fastforce
  have "keeps (fst (ws_journal s)) (fst js)" using moves_keeps [OF cleanup_moves [OF c]] .
  moreover have "\<exists>n why. n > 0 \<and> clean_up env q m a p got s
      = note_result a ''cleanup_failed'' why n True (s\<lparr>ws_journal := js\<rparr>)"
    unfolding clean_up_def Let_def Some c option.case fst_conv by (rule exI, rule exI, rule conjI [rotated], rule refl) simp
  ultimately show thesis using that [of "[]"] by fastforce
next
  case None
  let ?r = "cleanup_request q a p"
  obtain s1 answer where l: "send_logged env m (operation_key q a) True ?r s = (s1, answer)" by fastforce
  note log = send_logged_log [OF l]
  let ?ok = "case answer of None \<Rightarrow> False | Some c \<Rightarrow> success_code c"
  obtain js err where c: "mark_cleanup (wm_cleaned m) (wm_now m) (operation_key q a) ?ok (ws_journal s1) = (js, err)" by fastforce
  note mv = cleanup_moves [OF c]
  let ?n = "if success_code got then 0 else 1" and ?s2 = "s1\<lparr>ws_journal := js\<rparr>"
  let ?why = "if success_code got then '''' else ''write returned HTTP '' @ itoa got @ ''; cleanup was still attempted''"
  have l': "send_logged env m (operation_key q a) True
      (scoped_api_request (pw_cleanup_url p) (wa_cleanup_method a) (pw_cleanup_body p) (wa_cleanup_content_type a)
         (qr_target_auth q)) s = (s1, answer)"
    using l by (simp only: cleanup_request_def)
  have eq: "clean_up env q m a p got s =
      (if err \<noteq> None then
         note_result a ''cleanup_failed'' ''cleanup finished but its journal outcome could not be persisted'' (?n + 1) False ?s2
       else if \<not> ?ok then
         note_result a ''cleanup_failed'' ''write was sent but declared cleanup did not complete successfully'' (?n + 1) False ?s2
       else note_result a (if success_code got then ''completed'' else ''written'') ?why ?n False ?s2)"
    by (simp only: clean_up_def Let_def None l' c option.case prod.case)
  have out: "ws_log (clean_up env q m a p got s) = ws_log s1" "ws_journal (clean_up env q m a p got s) = js"
      "ws_failures (clean_up env q m a p got s)
         = ws_failures s + (if success_code got then 0 else 1) + (if err \<noteq> None \<or> \<not> ?ok then 1 else 0)"
    unfolding eq using log by simp_all
  have keep: "keeps (fst (ws_journal s)) (fst js)" using moves_keeps [OF mv] log by simp
  let ?c = "\<lparr>sl_request = ?r, sl_operation = operation_key q a, sl_cleanup = True, sl_journal = fst (ws_journal s), sl_answer = answer\<rparr>"
  have lw: "logged_write q a p ?c" using j op by (simp add: logged_write_def journal_state_of_def)
  have done_map: "journal_map (fst js) = Some (mp(operation_key q a \<mapsto> WriteCleanupDone))" if "err = None" "?ok"
  proof -
    have "moves (fst (ws_journal s1)) (operation_key q a) (Some WriteSent) WriteCleanupDone (fst js) None" using mv that by simp
    then show ?thesis using moves_success j log by fastforce
  qed
  show thesis
  proof (cases "ws_log s1 = ws_log s")
    case True
    then have "answer = None" using log by auto
    then show thesis using that [of "[]"] True out keep by simp
  next
    case False
    then have "ws_log s1 = ws_log s @ [?c]" using log by blast
    then have new: "ws_log (clean_up env q m a p got s) = ws_log s @ [?c]" using out by simp
    have good: "success_code got \<and> answered_well ?c
        \<and> journal_map (fst js) = Some (mp(operation_key q a \<mapsto> WriteCleanupDone))"
      if "ws_failures (clean_up env q m a p got s) = ws_failures s"
    proof -
      have "success_code got \<and> err = None \<and> ?ok" using that unfolding out(3) by (simp split: if_splits)
      then show ?thesis using done_map by (simp add: answered_well_def)
    qed
    show thesis
    proof (rule that [OF new])
      show "[?c] = [] \<or> (\<exists>c. [?c] = [c] \<and> sl_cleanup c \<and> logged_write q a p c)" using lw by simp
      show "keeps (fst (ws_journal s)) (fst (ws_journal (clean_up env q m a p got s)))" using keep out(2) by simp
      show "ws_failures (clean_up env q m a p got s) \<ge> ws_failures s" unfolding out(3) by simp
    qed (use good out(2) in simp)
  qed
qed

text \<open>One approval adds nothing to the log and counts as a failure, or adds its write, at most with its cleanup; where it
  does not count as a failure both were answered well and the journal says that the cleanup is done.\<close>

lemma write_one_facts:
  assumes s': "s' = write_one env q sc m a s"
  obtains (kept) "ws_log s' = ws_log s" and "ws_failures s' > ws_failures s"
      and "keeps (fst (ws_journal s)) (fst (ws_journal s'))"
  | (sent) p mp w new where "prepare_write env q sc (wm_files m) a = Inr p"
      and "journal_map (fst (ws_journal s)) = Some mp" and "mp (operation_key q a) = None"
      and "ws_log s' = ws_log s @ w # new" and "\<not> sl_cleanup w" and "logged_write q a p w"
      and "new = [] \<or> (\<exists>c. new = [c] \<and> sl_cleanup c \<and> logged_write q a p c)"
      and "keeps (fst (ws_journal s)) (fst (ws_journal s'))" and "ws_failures s' \<ge> ws_failures s"
      and "\<And>mp'. journal_map (fst (ws_journal s')) = Some mp' \<Longrightarrow> operation_key q a \<in> dom mp'"
      and "ws_failures s' = ws_failures s \<Longrightarrow> answered_well w \<and> (\<exists>c. new = [c] \<and> answered_well c)
        \<and> journal_map (fst (ws_journal s')) = Some (mp(operation_key q a \<mapsto> WriteCleanupDone))"
proof (cases "prepare_write env q sc (wm_files m) a")
  case (Inl why)
  then show thesis using kept s' by (simp add: write_one_def)
next
  case (Inr p)
  let ?op = "operation_key q a"
  obtain js r where i: "record_intent (wm_intent m) (wm_now m) (write_entry q a p) (ws_journal s) = (js, r)" by fastforce
  have op: "je_operation (write_entry q a p) = ?op" by (simp add: write_entry_def)
  note mv = intent_moves [OF i, unfolded op]
  note keep = moves_keeps [OF mv]
  show thesis
  proof (cases "r \<noteq> None \<or> wm_wait m \<noteq> None")
    case True
    then show thesis using kept s' Inr i keep by (auto simp: write_one_def split: option.splits)
  next
    case False
    then obtain mp where mp: "journal_map (fst (ws_journal s)) = Some mp" "mp ?op = None"
        and after: "journal_map (fst js) = Some (mp(?op \<mapsto> WriteIntent))"
      using moves_success [of "fst (ws_journal s)" ?op None WriteIntent "fst js"] mv by auto
    let ?s1 = "s\<lparr>ws_journal := js\<rparr>"
    obtain s2 answer where l: "send_logged env m ?op False (write_request q a p) ?s1 = (s2, answer)" by fastforce
    note log = send_logged_log [OF l]
    let ?w = "\<lparr>sl_request = write_request q a p, sl_operation = ?op, sl_cleanup = False, sl_journal = fst js, sl_answer = answer\<rparr>"
    have w: "logged_write q a p ?w" using after by (simp add: logged_write_def journal_state_of_def)
    show thesis
    proof (cases answer)
      case None
      have eq: "s' = note_result a ''skipped'' ''write outcome is unknown; journal prevents replay'' 1 True s2"
        using s' Inr i False l None by (simp add: write_one_def write_request_def [symmetric] Let_def)
      show thesis
      proof (cases "ws_log s2 = ws_log s")
        case True
        then show thesis using kept eq log keep by simp
      next
        case False
        then have "ws_log s2 = ws_log s @ [?w]" using log by simp
        then show thesis using sent [of p mp ?w "[]"] Inr mp w eq log keep after by auto
      qed
    next
      case (Some got)
      have logged: "ws_log s2 = ws_log s @ [?w]" using log Some by auto
      obtain js2 r2 where ms: "mark_sent (wm_sent m) (wm_now m) ?op (ws_journal s2) = (js2, r2)" by fastforce
      note mv2 = sent_moves [OF ms]
      have keep2: "keeps (fst (ws_journal s)) (fst js2)" using keeps_trans [OF keep] moves_keeps [OF mv2] log by simp
      show thesis
      proof (cases r2)
        case None
        have s2: "journal_map (fst (ws_journal s2)) = Some (mp(?op \<mapsto> WriteIntent))" using log after by simp
        then have js2: "journal_map (fst js2) = Some (mp(?op \<mapsto> WriteSent))"
          using moves_success [of "fst (ws_journal s2)" ?op "Some WriteIntent" WriteSent "fst js2"] mv2 None by auto
        let ?s3 = "s2\<lparr>ws_journal := js2\<rparr>"
        have eq: "s' = clean_up env q m a p got ?s3"
          using s' Inr i False l Some ms None by (simp add: write_one_def write_request_def [symmetric] Let_def)
        obtain new where c: "ws_log s' = ws_log ?s3 @ new"
            "new = [] \<or> (\<exists>c. new = [c] \<and> sl_cleanup c \<and> logged_write q a p c)"
            "keeps (fst js2) (fst (ws_journal s'))" "ws_failures s' \<ge> ws_failures ?s3"
            "ws_failures s' = ws_failures ?s3 \<Longrightarrow> success_code got \<and> (\<exists>c. new = [c] \<and> answered_well c)
              \<and> journal_map (fst (ws_journal s')) = Some (mp(?op \<mapsto> WriteSent, ?op \<mapsto> WriteCleanupDone))"
          using clean_up_facts [of ?s3 "mp(?op \<mapsto> WriteSent)" q a env m p got] js2 unfolding eq by auto
        have dom: "?op \<in> dom mp'" if "journal_map (fst (ws_journal s')) = Some mp'" for mp'
          using c(3) js2 that by (auto simp: keeps_def)
        show thesis
          using sent [of p mp ?w new] Inr mp w logged c dom keeps_trans [OF keep2 c(3)] log Some
          by (simp add: answered_well_def)
      next
        case (Some e)
        have eq: "s' = note_result a ''skipped''
            ''write answered but journal state could not be updated; cleanup was not attempted'' 1 True (s2\<lparr>ws_journal := js2\<rparr>)"
          using s' Inr i False l \<open>answer = Some got\<close> ms Some by (simp add: write_one_def write_request_def [symmetric] Let_def)
        have dom: "?op \<in> dom mp'" if "journal_map (fst js2) = Some mp'" for mp'
          using moves_keeps [OF mv2] log after that by (auto simp: keeps_def)
        show thesis using sent [of p mp ?w "[]"] Inr mp w logged eq keep2 dom log by simp
      qed
    qed
  qed
qed

section \<open>Runs\<close>

text \<open>After the approvals \<open>done\<close>: \<open>f0\<close> is the journal at the start.\<close>

definition write_inv ::
  "writer_env \<Rightarrow> job_request \<Rightarrow> app_scope \<Rightarrow> journal_file \<Rightarrow> (write_approval \<times> write_moment) list \<Rightarrow> write_state_of_run \<Rightarrow> bool" where
  "write_inv env q sc f0 ams s \<longleftrightarrow>
     keeps f0 (fst (ws_journal s))
     \<and> distinct (map (\<lambda>e. (sl_operation e, sl_cleanup e)) (ws_log s))
     \<and> (\<forall>e \<in> set (ws_log s). journal_state_of f0 (sl_operation e) = None \<and> journal_map f0 \<noteq> None
          \<and> (\<forall>mp. journal_map (fst (ws_journal s)) = Some mp \<longrightarrow> sl_operation e \<in> dom mp)
          \<and> (\<exists>(a, m) \<in> set ams. \<exists>p. prepare_write env q sc (wm_files m) a = Inr p \<and> logged_write q a p e))
     \<and> (ws_failures s = 0 \<longrightarrow> (\<forall>(a, m) \<in> set ams. journal_state_of (fst (ws_journal s)) (operation_key q a) = Some WriteCleanupDone
          \<and> (\<forall>cl. \<exists>e \<in> set (ws_log s). sl_operation e = operation_key q a \<and> sl_cleanup e = cl \<and> answered_well e)))"

lemma keeps_fresh:
  assumes "keeps f f'" and "journal_map f' = Some mp" and "mp op = None"
  shows "journal_map f \<noteq> None \<and> journal_state_of f op = None"
  using assms by (fastforce simp: keeps_def journal_state_of_def domIff)

lemma write_one_inv:
  assumes inv: "write_inv env q sc f0 ams s"
  shows "write_inv env q sc f0 (ams @ [(a, m)]) (write_one env q sc m a s)" (is "write_inv env q sc f0 ?ams ?s'")
proof -
  have keep0: "keeps f0 (fst (ws_journal s))"
    and dist: "distinct (map (\<lambda>e. (sl_operation e, sl_cleanup e)) (ws_log s))"
    and old: "\<And>e. e \<in> set (ws_log s) \<Longrightarrow> journal_state_of f0 (sl_operation e) = None \<and> journal_map f0 \<noteq> None
          \<and> (\<forall>mp. journal_map (fst (ws_journal s)) = Some mp \<longrightarrow> sl_operation e \<in> dom mp)
          \<and> (\<exists>(a, m) \<in> set ams. \<exists>p. prepare_write env q sc (wm_files m) a = Inr p \<and> logged_write q a p e)"
    and fine: "\<And>b n. ws_failures s = 0 \<Longrightarrow> (b, n) \<in> set ams \<Longrightarrow>
          journal_state_of (fst (ws_journal s)) (operation_key q b) = Some WriteCleanupDone
          \<and> (\<forall>cl. \<exists>e \<in> set (ws_log s). sl_operation e = operation_key q b \<and> sl_cleanup e = cl \<and> answered_well e)"
    using inv unfolding write_inv_def by blast+
  have still: "journal_state_of f0 (sl_operation e) = None \<and> journal_map f0 \<noteq> None
          \<and> (\<forall>mp. journal_map (fst (ws_journal ?s')) = Some mp \<longrightarrow> sl_operation e \<in> dom mp)
          \<and> (\<exists>(a, m) \<in> set ?ams. \<exists>p. prepare_write env q sc (wm_files m) a = Inr p \<and> logged_write q a p e)"
    if "e \<in> set (ws_log s)" and k: "keeps (fst (ws_journal s)) (fst (ws_journal ?s'))" for e
  proof -
    have "sl_operation e \<in> dom mp" if "journal_map (fst (ws_journal ?s')) = Some mp" for mp
      using old [OF \<open>e \<in> set (ws_log s)\<close>] k that unfolding keeps_def by blast
    then show ?thesis using old [OF that(1)] by auto
  qed
  from refl [of ?s'] show ?thesis
  proof (cases rule: write_one_facts)
    case kept
    then show ?thesis unfolding write_inv_def using keep0 dist still [OF _ kept(3)] keeps_trans by auto
  next
    case (sent p mp w new)
    let ?op = "operation_key q a"
    have fresh: "?op \<notin> sl_operation ` set (ws_log s)" using old sent(2,3) by fastforce
    have ops: "sl_operation w = ?op" "\<And>c. c \<in> set new \<Longrightarrow> sl_operation c = ?op \<and> sl_cleanup c \<and> logged_write q a p c"
      using sent(6,7) by (auto simp: logged_write_def)
    have notin: "(?op, b) \<notin> (\<lambda>e. (sl_operation e, sl_cleanup e)) ` set (ws_log s)" for b using fresh by auto
    have dist': "distinct (map (\<lambda>e. (sl_operation e, sl_cleanup e)) (ws_log ?s'))"
      using sent(7) dist notin [of True] notin [of False] ops(1) sent(5)
      by (elim disjE exE) (simp_all add: sent(4) logged_write_def)
    have f0: "journal_map f0 \<noteq> None \<and> journal_state_of f0 ?op = None" using keeps_fresh [OF keep0 sent(2,3)] .
    have each: "journal_state_of f0 (sl_operation e) = None \<and> journal_map f0 \<noteq> None
          \<and> (\<forall>mp. journal_map (fst (ws_journal ?s')) = Some mp \<longrightarrow> sl_operation e \<in> dom mp)
          \<and> (\<exists>(a, m) \<in> set ?ams. \<exists>p. prepare_write env q sc (wm_files m) a = Inr p \<and> logged_write q a p e)"
      if "e \<in> set (ws_log ?s')" for e
    proof (cases "e \<in> set (ws_log s)")
      case False
      then have "sl_operation e = ?op" "logged_write q a p e" using that sent(4,6) ops by auto
      then show ?thesis using f0 sent(1,10) by auto
    qed (use still [OF _ sent(8)] in blast)
    have good: "journal_state_of (fst (ws_journal ?s')) (operation_key q b) = Some WriteCleanupDone
          \<and> (\<forall>cl. \<exists>e \<in> set (ws_log ?s'). sl_operation e = operation_key q b \<and> sl_cleanup e = cl \<and> answered_well e)"
      if zero: "ws_failures ?s' = 0" and b: "(b, n) \<in> set ?ams" for b n
    proof -
      have s0: "ws_failures s = 0" and same: "ws_failures ?s' = ws_failures s" using zero sent(9) by simp_all
      obtain c where c: "answered_well w" "new = [c]" "answered_well c"
          and j: "journal_map (fst (ws_journal ?s')) = Some (mp(?op \<mapsto> WriteCleanupDone))"
        using sent(11) [OF same] by blast
      show ?thesis
      proof (cases "operation_key q b = ?op")
        case True
        have "\<exists>e \<in> set (ws_log ?s'). sl_operation e = ?op \<and> sl_cleanup e = cl \<and> answered_well e" for cl
          using sent(4,5) c ops by (cases cl) auto
        then show ?thesis using j True by (auto simp: journal_state_of_def)
      next
        case False
        then have "(b, n) \<in> set ams" using b by auto
        have "journal_state_of (fst (ws_journal ?s')) (operation_key q b) = journal_state_of (fst (ws_journal s)) (operation_key q b)"
          using j sent(2) False by (simp add: journal_state_of_def)
        moreover have "set (ws_log s) \<subseteq> set (ws_log ?s')" using sent(4) by auto
        ultimately show ?thesis using fine [OF s0 \<open>(b, n) \<in> set ams\<close>] by (metis subset_iff)
      qed
    qed
    show ?thesis unfolding write_inv_def using keeps_trans [OF keep0 sent(8)] dist' each good by blast
  qed
qed

lemma write_all_inv:
  "write_inv env q sc f0 ams s \<Longrightarrow> write_inv env q sc f0 (ams @ bms) (write_all env q sc bms s)"
proof (induction bms arbitrary: ams s)
  case (Cons bm bms)
  obtain b m where bm: "bm = (b, m)" by fastforce
  show ?case using Cons.IH [OF write_one_inv [OF Cons.prems, of b m]] by (simp add: bm)
qed simp

lemma run_api_writes_inv:
  assumes "run_api_writes env x q moments = (r, s)"
  obtains (refused) "ws_log s = []" and "jr_status r \<noteq> ''completed''"
  | (ran) sc where "qr_app_scope q = Some sc"
      and "write_inv env q sc (fst (wt_journal x)) (zip (qr_writes q) (map moments [0..<length (qr_writes q)])) s"
      and "jr_status r = ''completed'' \<Longrightarrow> ws_failures s = 0"
proof (cases "write_refusal x q")
  case (Some y)
  then obtain st why gap where "write_refusal x q = Some (st, why, gap)" by (metis prod_cases3)
  then show thesis using refused assms
    by (auto simp: run_api_writes_def writer_run_def writes_start_def write_refusal_def split: if_splits)
next
  case None
  obtain sc where sc: "qr_app_scope q = Some sc" using None by (auto simp: write_refusal_def split: if_splits)
  have "write_inv env q sc (fst (wt_journal x)) [] (writes_start x)" by (simp add: write_inv_def writes_start_def)
  from write_all_inv [OF this, of "zip (qr_writes q) (map moments [0..<length (qr_writes q)])"] show thesis
    using ran [OF sc] assms None sc
    by (auto simp: run_api_writes_def writer_run_def write_verdict_def empty_run_def Let_def split: if_splits)
qed

text \<open>
  A URL below an application: its scheme and host, and as its path the path of the application with the unescaped
  path of the operation behind it, none of whose segments is \<open>.\<close> or \<open>..\<close>. (A question mark at the end of the
  application's URL is kept.)
\<close>

definition below_application :: "string \<Rightarrow> string \<Rightarrow> string \<Rightarrow> bool" where
  "below_application app path url \<longleftrightarrow>
     (\<exists>u p written mark. url_parse app = Some u \<and> u_scheme u \<in> {''http'', ''https''} \<and> u_host u \<noteq> '''' \<and> \<not> u_user u
        \<and> path_unescape path = Some p \<and> \<not> dot_segment p
        \<and> url = u_scheme u @ ''://'' @ escape_with host_must_escape (u_host u) @ written @ mark
        \<and> mark \<in> {'''', ''?''} \<and> CHR ''?'' \<notin> set written \<and> CHR ''#'' \<notin> set written
        \<and> path_unescape written = Some (trim_suffix (u_path u) ''/'' @ CHR ''/'' # dropWhile (\<lambda>c. c = CHR ''/'') p))"

lemma hex_digits:
  assumes "n < 16"
  shows "is_hex (upper_hex n)" and "hex_val (upper_hex n) = n" and "upper_hex n \<notin> {CHR ''%'', CHR ''?'', CHR ''#''}"
proof -
  have "\<forall>n \<in> set [0..<16]. is_hex (upper_hex n) \<and> hex_val (upper_hex n) = n \<and> upper_hex n \<notin> {CHR ''%'', CHR ''?'', CHR ''#''}"
    by code_simp
  then show "is_hex (upper_hex n)" and "hex_val (upper_hex n) = n" and "upper_hex n \<notin> {CHR ''%'', CHR ''?'', CHR ''#''}"
    using assms by simp_all
qed

lemma code_digits: "code c div 16 < 16" "code c mod 16 < 16"
proof -
  have "code c < 16 * 16" by simp
  then show "code c div 16 < 16" by (rule less_mult_imp_div_less)
qed simp

lemma path_must: "path_must_escape (CHR ''%'')" "path_must_escape (CHR ''?'')" "path_must_escape (CHR ''#'')"
  by code_simp+

lemma unescape_escape: "unescape EncPath (escape_with path_must_escape s) = Some s"
proof (induction s)
  case (Cons c s)
  note d = hex_digits [OF code_digits(1) [of c]] hex_digits [OF code_digits(2) [of c]]
  have "char_of (16 * (code c div 16) + code c mod 16) = c" by (simp add: mult.commute code_def)
  then show ?case using Cons d path_must(1) by (cases "path_must_escape c") (auto simp: escape_with_def Let_def)
qed (simp add: escape_with_def)

lemma escape_chars: "x \<in> {CHR ''?'', CHR ''#''} \<Longrightarrow> x \<notin> set (escape_with path_must_escape s)"
proof (induction s)
  case (Cons c s)
  from Cons hex_digits(3) [OF code_digits(1) [of c]] hex_digits(3) [OF code_digits(2) [of c]] path_must(2,3) show ?case
    by (auto simp: escape_with_def)
qed (simp add: escape_with_def)

lemma scoped_below: "scoped_api_path app path = Inr url \<Longrightarrow> below_application app path url"
proof -
  assume s: "scoped_api_path app path = Inr url"
  then obtain p u where pu: "path_unescape path = Some p" "\<not> dot_segment p" "url_parse app = Some u"
      "u_host u \<noteq> ''''" "\<not> u_user u" "u_scheme u \<in> {''http'', ''https''}"
    and url: "url = operation_url app (u_scheme u) (u_host u) (trim_suffix (u_path u) ''/'' @ CHR ''/'' # dropWhile (\<lambda>c. c = CHR ''/'') p)"
    by (auto simp: scoped_api_path_def split: if_splits option.splits)
  let ?path = "trim_suffix (u_path u) ''/'' @ CHR ''/'' # dropWhile (\<lambda>c. c = CHR ''/'') p"
  let ?w = "escape_with path_must_escape ?path"
  have "url = u_scheme u @ ''://'' @ escape_with host_must_escape (u_host u) @ ?w @ (if force_query app then ''?'' else '''')"
    using pu(6) url by (auto simp: operation_url_def)
  moreover have "CHR ''?'' \<notin> set ?w" "CHR ''#'' \<notin> set ?w" by (simp_all add: escape_chars)
  moreover have "path_unescape ?w = Some ?path" by (simp add: path_unescape_def unescape_escape)
  ultimately show ?thesis
    unfolding below_application_def using pu
    by (intro exI [of _ u] exI [of _ p] exI [of _ ?w] exI [of _ "if force_query app then ''?'' else ''''"]) simp
qed

text \<open>What the checks of an approval establish.\<close>

definition approved_at :: "writer_env \<Rightarrow> job_request \<Rightarrow> app_scope \<Rightarrow> (string \<Rightarrow> string option) \<Rightarrow> write_approval \<Rightarrow> prepared_write \<Rightarrow> bool" where
  "approved_at env q sc files a p \<longleftrightarrow> approved_write_matches (qr_operations q @ qr_api_endpoints q) a
     \<and> wa_method a \<in> {''POST'', ''PUT'', ''PATCH'', ''DELETE''} \<and> wa_cleanup_method a \<in> {''DELETE'', ''PUT'', ''PATCH''}
     \<and> below_application (qr_target q) (wa_path a) (pw_url p)
     \<and> below_application (qr_target q) (wa_cleanup_path a) (pw_cleanup_url p)
     \<and> fst (allows sc (pw_url p)) \<and> excluded sc (wa_method a) (pw_url p) = None
     \<and> fst (allows sc (pw_cleanup_url p)) \<and> excluded sc (wa_cleanup_method a) (pw_cleanup_url p) = None
     \<and> fixture_of env files (wa_method a) (wa_fixture_ref a) = Some (pw_body p)
     \<and> fixture_of env files (wa_cleanup_method a) (wa_cleanup_ref a) = Some (pw_cleanup_body p)"

lemma outside_boundary_None:
  "outside_boundary env sc what method raw = None \<longleftrightarrow> fst (allows sc raw) \<and> excluded sc method raw = None"
  by (auto simp: outside_boundary_def split: prod.splits bool.splits option.splits)

lemma approved_write_matches_append:
  "approved_write_matches (es @ fs) a \<longleftrightarrow> approved_write_matches es a \<or> approved_write_matches fs a"
  by (simp add: approved_write_matches_def)

lemma prepare_write_approved:
  assumes "prepare_write env q sc files a = Inr p"
  shows "approved_at env q sc files a p"
proof -
  have known: "approved_write_matches (qr_operations q @ qr_api_endpoints q) a"
      "wa_method a \<in> {''POST'', ''PUT'', ''PATCH'', ''DELETE''}" "wa_cleanup_method a \<in> {''DELETE'', ''PUT'', ''PATCH''}"
    using assms unfolding approved_write_matches_append prepare_write_def by (simp_all split: if_splits)
  obtain url where url: "scoped_api_path (qr_target q) (wa_path a) = Inr url"
    using assms unfolding prepare_write_def by (cases "scoped_api_path (qr_target q) (wa_path a)") (simp_all split: if_splits)
  have in1: "outside_boundary env sc ''write'' (wa_method a) url = None"
    using assms url unfolding prepare_write_def by (simp split: if_splits option.splits)
  obtain body where body: "fixture_of env files (wa_method a) (wa_fixture_ref a) = Some body"
    using assms url in1 unfolding prepare_write_def by (simp split: if_splits option.splits)
  obtain cleanup where cleanup: "scoped_api_path (qr_target q) (wa_cleanup_path a) = Inr cleanup"
    using assms url in1 body unfolding prepare_write_def
    by (cases "scoped_api_path (qr_target q) (wa_cleanup_path a)") (simp_all split: if_splits)
  have in2: "outside_boundary env sc ''cleanup'' (wa_cleanup_method a) cleanup = None"
    using assms url in1 body cleanup unfolding prepare_write_def by (simp split: if_splits option.splits)
  obtain body2 where "fixture_of env files (wa_cleanup_method a) (wa_cleanup_ref a) = Some body2"
    and "p = \<lparr>pw_url = url, pw_body = body, pw_cleanup_url = cleanup, pw_cleanup_body = body2\<rparr>"
    using assms url in1 body cleanup in2 unfolding prepare_write_def by (simp split: if_splits option.splits)
  then show ?thesis
    using known body in1 in2 scoped_below [OF url] scoped_below [OF cleanup] by (simp add: approved_at_def outside_boundary_None)
qed

text \<open>C15: Approved API writes are confined and sent once. Every request the runner sends belongs to an approval of its
  request that matches a bound operation of the API; it is the approved write or its declared cleanup, with the
  approved method, a URL that is the application's with the approved path behind its own, lies inside the scope and
  is not excluded, and the approved fixture as its body. When the write goes out the journal already says that it may have been sent, when the
  cleanup goes out it says that the write was; no operation that the journal knew at the start is sent, and no write
  and no cleanup twice.\<close>
theorem approved_writes_confined:
  assumes "run_api_writes env x q moments = (r, s)" and "qr_app_scope q = Some sc"
  shows "(\<forall>e \<in> set (ws_log s). \<exists>a \<in> set (qr_writes q). \<exists>files p. approved_at env q sc files a p
      \<and> sl_operation e = operation_key q a \<and> journal_state_of (fst (wt_journal x)) (sl_operation e) = None
      \<and> (if sl_cleanup e
         then aq_method (sl_request e) = wa_cleanup_method a \<and> aq_url (sl_request e) = pw_cleanup_url p
              \<and> aq_body (sl_request e) = pw_cleanup_body p \<and> journal_state_of (sl_journal e) (sl_operation e) = Some WriteSent
         else aq_method (sl_request e) = wa_method a \<and> aq_url (sl_request e) = pw_url p
              \<and> aq_body (sl_request e) = pw_body p \<and> journal_state_of (sl_journal e) (sl_operation e) = Some WriteIntent))
    \<and> distinct (map (\<lambda>e. (sl_operation e, sl_cleanup e)) (ws_log s))"
  using assms(1)
proof (cases rule: run_api_writes_inv)
  case (ran sc')
  then have sc: "sc' = sc" using assms(2) by simp
  have "\<exists>a \<in> set (qr_writes q). \<exists>files p. approved_at env q sc files a p \<and> logged_write q a p e"
    if e: "e \<in> set (ws_log s)" for e
  proof -
    obtain a m p where a: "(a, m) \<in> set (zip (qr_writes q) (map moments [0..<length (qr_writes q)]))"
        and p: "prepare_write env q sc (wm_files m) a = Inr p" "logged_write q a p e"
      using ran(2) e unfolding write_inv_def sc by blast
    have "a \<in> set (qr_writes q)" using a by (rule set_zip_leftD)
    then show ?thesis using prepare_write_approved [OF p(1)] p(2) by blast
  qed
  moreover have "journal_state_of (fst (wt_journal x)) (sl_operation e) = None" if "e \<in> set (ws_log s)" for e
    using ran(2) that unfolding write_inv_def by blast
  moreover have "distinct (map (\<lambda>e. (sl_operation e, sl_cleanup e)) (ws_log s))" using ran(2) unfolding write_inv_def by blast
  ultimately show ?thesis
    by (fastforce simp: logged_write_def write_request_def cleanup_request_def scoped_api_request_def Let_def)
qed simp

text \<open>C16: A completed run of approved writes has cleaned up. If the runner reports completion, then for every approval
  both the write and its cleanup were sent and answered with success, and the journal says that the cleanup is done.\<close>
theorem completed_writes_cleaned_up:
  assumes "run_api_writes env x q moments = (r, s)" and "jr_status r = ''completed''"
  shows "\<forall>a \<in> set (qr_writes q). journal_state_of (fst (ws_journal s)) (operation_key q a) = Some WriteCleanupDone
    \<and> (\<forall>cl. \<exists>e \<in> set (ws_log s). sl_operation e = operation_key q a \<and> sl_cleanup e = cl \<and>
         (\<exists>c. sl_answer e = Some c \<and> 200 \<le> c \<and> c < 300))"
  using assms(1)
proof (cases rule: run_api_writes_inv)
  case (ran sc)
  show ?thesis
  proof
    fix a assume "a \<in> set (qr_writes q)"
    then obtain m where "(a, m) \<in> set (zip (qr_writes q) (map moments [0..<length (qr_writes q)]))"
      by (metis in_set_impl_in_set_zip1 length_map map_nth length_upt minus_nat.diff_0)
    then have "journal_state_of (fst (ws_journal s)) (operation_key q a) = Some WriteCleanupDone"
      and "\<exists>e \<in> set (ws_log s). sl_operation e = operation_key q a \<and> sl_cleanup e = cl \<and> answered_well e" for cl
      using ran(2) ran(3) [OF assms(2)] unfolding write_inv_def by blast+
    then show "journal_state_of (fst (ws_journal s)) (operation_key q a) = Some WriteCleanupDone
      \<and> (\<forall>cl. \<exists>e \<in> set (ws_log s). sl_operation e = operation_key q a \<and> sl_cleanup e = cl \<and>
           (\<exists>c. sl_answer e = Some c \<and> 200 \<le> c \<and> c < 300))"
      using answered_well_code by blast
  qed
qed (use assms(2) in simp)

section \<open>A run\<close>

definition sample_approval :: write_approval where
  "sample_approval = \<lparr>wa_target_id = ''t'', wa_method = ''DELETE'', wa_path = ''/o'', wa_operation_id = ''del'',
     wa_fixture_ref = '''', wa_content_type = '''', wa_cleanup_method = ''DELETE'', wa_cleanup_path = ''/c'',
     wa_cleanup_ref = '''', wa_cleanup_content_type = ''''\<rparr>"

definition sample_operation :: api_endpoint where
  "sample_operation = \<lparr>ae_request_url = '''', ae_method = ''delete'', ae_path = ''/o'', ae_origin = '''', ae_target_id = ''t'',
     ae_definition_id = '''', ae_operation_id = ''del'', ae_source = ''openapi'', ae_resolved = True, ae_eligible = True,
     ae_reason = '''', ae_required_inputs = False, ae_spec_servers = []\<rparr>"

definition sample_scope :: app_scope where
  "sample_scope = new_app_scope
     [\<lparr>ao_target_id = ''t'', ao_scheme = ''https'', ao_host = ''a.test'', ao_port = 0, ao_path_prefix = ''''\<rparr>] []"

definition sample_request :: job_request where
  "sample_request = \<lparr>qr_target = ''https://a.test'', qr_target_id = ''t'', qr_scope = ''s'', qr_workflow = '''',
     qr_app_scope = Some sample_scope, qr_test_environment = True, qr_wapiti_mode = '''', qr_journal = True, qr_fixtures = True,
     qr_post_approval = None, qr_writes = [sample_approval], qr_actions = [], qr_boundaries = [],
     qr_operations = [sample_operation], qr_api_endpoints = [], qr_auth_contexts = [], qr_expectations = [],
     qr_auth_context = '''', qr_auth_identity = '''', qr_auth_role = '''', qr_target_auth = ''Cookie: a=b'', qr_auth_kind = '''',
     qr_renewable = False, qr_structured = False, qr_inventory = False, qr_artifact = ('''', ''''), qr_cloud = False,
     qr_ssh_host = '''', qr_ports = [], qr_gvm = None, qr_application_url = '''', qr_endpoint_targets = [], qr_methods = [],
     qr_inputs = [], qr_attempt = '''', qr_fingerprint = '''', qr_gateway = False\<rparr>"

definition sample_writer :: writer_env where
  "sample_writer = \<lparr>we_sha = (\<lambda>s. ''''), we_texts = \<lparr>ge_gql = (\<lambda>s. None), ge_payload = (\<lambda>s. None), ge_sha = (\<lambda>s. ''''),
     ge_fuzz_json = (\<lambda>f. ''''), ge_scope_text = (\<lambda>r. ''''), ge_exclude_text = (\<lambda>r. '''')\<rparr>, we_guard = None\<rparr>"

definition sample_start :: writer_start where
  "sample_start = \<lparr>wt_typed = True, wt_store = True, wt_journal = (NoFile, Inr []), wt_directory = True, wt_artifact = True,
     wt_path = ''apiwrites/results.jsonl'', wt_encoded = True, wt_synced = True\<rparr>"

definition sample_moment :: write_moment where
  "sample_moment = \<lparr>wm_now = ''now'', wm_files = (\<lambda>r. None), wm_intent = healthy_io, wm_sent = healthy_io, wm_cleaned = healthy_io,
     wm_wait = None, wm_wait_cleanup = None, wm_resolve = (\<lambda>h. [''192.0.2.1'']), wm_answer = (\<lambda>r. Some 204)\<rparr>"

definition sample_writes :: "job_run \<times> write_state_of_run" where
  "sample_writes = run_api_writes sample_writer sample_start sample_request (\<lambda>n. sample_moment)"

lemma sample_writes_result:
  "jr_status (fst sample_writes) = ''completed'' \<and> length (ws_log (snd sample_writes)) = 2"
  by code_simp

lemma sample_writes_run:
  "run_api_writes sample_writer sample_start sample_request (\<lambda>n. sample_moment) = (fst sample_writes, snd sample_writes)"
  by (simp add: sample_writes_def)

theorem approved_writes_confined_witness:
  "(\<exists>files p. approved_at sample_writer sample_request sample_scope files sample_approval p)
    \<and> sl_operation (hd (ws_log (snd sample_writes))) = operation_key sample_request sample_approval
    \<and> distinct (map (\<lambda>e. (sl_operation e, sl_cleanup e)) (ws_log (snd sample_writes)))"
proof -
  have "ws_log (snd sample_writes) \<noteq> []" using sample_writes_result by auto
  then have "hd (ws_log (snd sample_writes)) \<in> set (ws_log (snd sample_writes))" by simp
  moreover have "qr_app_scope sample_request = Some sample_scope" "qr_writes sample_request = [sample_approval]"
    by (simp_all add: sample_request_def)
  ultimately show ?thesis using approved_writes_confined [OF sample_writes_run, of sample_scope] by fastforce
qed

theorem completed_writes_cleaned_up_witness:
  "journal_state_of (fst (ws_journal (snd sample_writes))) (operation_key sample_request sample_approval) = Some WriteCleanupDone"
  using completed_writes_cleaned_up [OF sample_writes_run] sample_writes_result by (simp add: sample_request_def)

end
