(* ===== verification/DashboardAuth.thy ===== *)
theory DashboardAuth
  imports SurfaceUrl Queue GoHttp
begin

text \<open>
  The gates in front of the dashboard (\<open>internal/web/auth_session.go\<close>, and of \<open>server.go\<close> the rate limiter, the
  check of the listen address and the middleware of the mux): the origin check, sessions, the lockout of a source of
  wrong passwords, the rate limit, and the handlers of login, logout and status. Each event reads the clock once; a
  login is two events, its arrival up to the lockout check and its end, so that other requests may come between. bcrypt
  and the random token are arguments. Times are nanoseconds.
\<close>

section \<open>Configuration\<close>

record dash_config =
  dc_username :: string
  dc_password :: string
  dc_password_hash :: string
  dc_bind :: string
  dc_rate_requests :: int
  dc_rate_window :: int

definition one_second :: int where "one_second = 1000000000"
definition session_duration :: int where "session_duration = 24 * 3600 * one_second"
definition login_attempt_window :: int where "login_attempt_window = 15 * 60 * one_second"
definition login_max_failures :: nat where "login_max_failures = 10"
definition login_lock_duration :: int where "login_lock_duration = 5 * 60 * one_second"

definition auth_configured :: "dash_config \<Rightarrow> bool" where
  "auth_configured c \<longleftrightarrow> dc_username c \<noteq> '''' \<and> (dc_password c \<noteq> '''' \<or> dc_password_hash c \<noteq> '''')"

definition verify_password :: "(string \<Rightarrow> string \<Rightarrow> bool) \<Rightarrow> dash_config \<Rightarrow> string \<Rightarrow> bool" where
  "verify_password bcrypt c presented =
     (if dc_password_hash c \<noteq> '''' then bcrypt (dc_password_hash c) presented
      else if dc_password c = '''' then False else presented = dc_password c)"

section \<open>Requests\<close>

text \<open>The headers are those \<open>Header.Get\<close> returns, empty when absent; \<open>dr_cookie\<close> is the session cookie and
  \<open>dr_login\<close> the credentials of a body that decodes.\<close>

record dash_request =
  dr_method :: string
  dr_path :: string
  dr_host :: string
  dr_sec_fetch :: string
  dr_origin :: string
  dr_referer :: string
  dr_cookie :: "string option"
  dr_remote :: string
  dr_login :: "(string \<times> string) option"

definition client_ip :: "dash_request \<Rightarrow> string" where
  "client_ip q = (case split_host_port (dr_remote q) of None \<Rightarrow> dr_remote q | Some (h, p) \<Rightarrow> h)"

definition origin_check :: "dash_request \<Rightarrow> string \<Rightarrow> bool \<times> bool" where
  "origin_check q raw =
     (if raw = '''' then (False, False)
      else case url_parse raw of
             None \<Rightarrow> (False, True)
           | Some u \<Rightarrow> if u_host u = '''' then (False, True) else (u_host u = dr_host q, True))"

definition is_csrf_safe :: "dash_request \<Rightarrow> bool" where
  "is_csrf_safe q =
     (if dr_method q \<in> set [''GET'', ''HEAD'', ''OPTIONS''] then True
      else if to_lower (dr_sec_fetch q) \<in> set [''same-origin'', ''none''] then True
      else if to_lower (dr_sec_fetch q) \<noteq> '''' then False
      else (case origin_check q (dr_origin q) of
              (ok, True) \<Rightarrow> ok
            | (_, False) \<Rightarrow>
                (case origin_check q (dr_referer q) of
                   (ok, True) \<Rightarrow> ok
                 | (_, False) \<Rightarrow> dr_cookie q = None)))"

definition static_asset_exts :: "string list" where
  "static_asset_exts = [''.css'', ''.js'', ''.map'', ''.png'', ''.jpg'', ''.jpeg'', ''.gif'', ''.svg'', ''.ico'', ''.webp'',
     ''.woff'', ''.woff2'']"

definition is_static_web_asset_path :: "string \<Rightarrow> bool" where
  "is_static_web_asset_path p =
     (if p = '''' \<or> has_prefix p ''/api/'' \<or> p = ''/ws'' then False
      else if has_prefix p ''/static/'' \<or> has_prefix p ''/assets/'' \<or> has_prefix p ''/chunks/'' then True
      else path_ext p \<in> set static_asset_exts)"

definition is_dashboard_read_path :: "string \<Rightarrow> string \<Rightarrow> bool" where
  "is_dashboard_read_path method p =
     (if method \<noteq> ''GET'' then False
      else if p \<in> set [''/api/auth/status'', ''/api/status'', ''/api/version'', ''/api/scans'', ''/api/findings'',
                 ''/api/findings/projects'', ''/api/findings/summary'', ''/api/instances'', ''/api/queue/status'',
                 ''/api/legacy-import/status''] then True
      else has_prefix p ''/api/scans/'' \<or> has_prefix p ''/api/instances/'')"

definition dashboard_routes :: "string list" where
  "dashboard_routes = [''/'', ''/ws'', ''/api/scan'', ''/api/stop'', ''/api/restart'', ''/api/status'',
     ''/api/legacy-import/status'', ''/api/scans'', ''/api/scans/'', ''/api/data-dirs/'', ''/api/schedules'',
     ''/api/schedules/'', ''/api/upload-targets'', ''/api/upload-logo'', ''/api/upload-context'', ''/api/findings'',
     ''/api/findings/projects'', ''/api/findings/summary'', ''/uploads/logos/'', ''/api/report/'', ''/api/reports/'',
     ''/api/scanners/status'', ''/api/scanners/registry'', ''/api/scans/plan'', ''/api/credentials'',
     ''/api/github/organization/repositories'', ''/api/credentials/'', ''/api/api-definitions'', ''/api/api-fixtures'',
     ''/api/api-fixtures/'', ''/api/settings/rate-limit'', ''/api/settings/environment'', ''/api/queue/status'',
     ''/api/queue/resume'', ''/api/queue/clear'', ''/api/version'', ''/api/instances'', ''/api/instances/'',
     ''/api/monitoring/'', ''/api/auth/login'', ''/api/auth/logout'', ''/api/auth/status'']"

section \<open>Sessions and the login lockout\<close>

type_synonym sessions = "string \<rightharpoonup> int"

definition is_valid_session :: "int \<Rightarrow> string \<Rightarrow> sessions \<Rightarrow> bool \<times> sessions" where
  "is_valid_session now tok ss =
     (case ss tok of
        None \<Rightarrow> (False, ss)
      | Some expiry \<Rightarrow> if now > expiry then (False, ss(tok := None)) else (True, ss))"

definition cookie_session :: "int \<Rightarrow> dash_request \<Rightarrow> sessions \<Rightarrow> bool \<times> sessions" where
  "cookie_session now q ss = (case dr_cookie q of None \<Rightarrow> (False, ss) | Some tok \<Rightarrow> is_valid_session now tok ss)"

definition reap_sessions :: "int \<Rightarrow> sessions \<Rightarrow> sessions" where
  "reap_sessions now ss = (\<lambda>tok. case ss tok of None \<Rightarrow> None | Some expiry \<Rightarrow> if now > expiry then None else Some expiry)"

text \<open>\<open>la_lock\<close> is the zero time when None.\<close>

record login_attempt =
  la_failures :: nat
  la_first :: int
  la_lock :: "int option"

type_synonym attempts = "string \<rightharpoonup> login_attempt"

definition stale_attempt :: "int \<Rightarrow> login_attempt \<Rightarrow> bool" where
  "stale_attempt now a \<longleftrightarrow> now - la_first a > login_attempt_window \<and> (case la_lock a of None \<Rightarrow> True | Some l \<Rightarrow> now > l)"

definition login_is_locked :: "int \<Rightarrow> string \<Rightarrow> attempts \<Rightarrow> int option \<times> attempts" where
  "login_is_locked now ip m =
     (let m' = (\<lambda>k. case m k of None \<Rightarrow> None | Some a \<Rightarrow> if stale_attempt now a then None else Some a)
      in (case m' ip of
            None \<Rightarrow> None
          | Some a \<Rightarrow> (case la_lock a of
                         None \<Rightarrow> None
                       | Some l \<Rightarrow> if now < l then Some ((l - now) div one_second + 1) else None), m'))"

definition login_record_failure :: "int \<Rightarrow> string \<Rightarrow> attempts \<Rightarrow> attempts" where
  "login_record_failure now ip m =
     (case m ip of
        None \<Rightarrow> m(ip \<mapsto> \<lparr>la_failures = 1, la_first = now, la_lock = None\<rparr>)
      | Some a \<Rightarrow>
          if now - la_first a > login_attempt_window then m(ip \<mapsto> \<lparr>la_failures = 1, la_first = now, la_lock = None\<rparr>)
          else (let n = la_failures a + 1
                in m(ip \<mapsto> a\<lparr>la_failures := n,
                      la_lock := (if n \<ge> login_max_failures then Some (now + login_lock_duration) else la_lock a)\<rparr>)))"

definition login_record_success :: "string \<Rightarrow> attempts \<Rightarrow> attempts" where
  "login_record_success ip m = m(ip := None)"

section \<open>The rate limiter\<close>

text \<open>\<open>rl_doomed\<close>: the cutoff and the addresses that the first pass of a clean-up has collected.\<close>

record dash_limiter =
  rl_limit :: int
  rl_window :: int
  rl_requests :: "string \<rightharpoonup> int list"
  rl_doomed :: "(int \<times> (string \<Rightarrow> bool)) option"
  rl_stopped :: bool

definition new_rate_limiter :: "int \<Rightarrow> int \<Rightarrow> dash_limiter" where
  "new_rate_limiter limit window = \<lparr>rl_limit = limit, rl_window = window, rl_requests = Map.empty, rl_doomed = None, rl_stopped = False\<rparr>"

definition rl_times :: "dash_limiter \<Rightarrow> string \<Rightarrow> int list" where
  "rl_times rl ip = (case rl_requests rl ip of None \<Rightarrow> [] | Some ts \<Rightarrow> ts)"

definition rl_allow :: "string \<Rightarrow> int \<Rightarrow> dash_limiter \<Rightarrow> bool \<times> dash_limiter" where
  "rl_allow ip now rl =
     (let valid = filter (\<lambda>t. t > now - rl_window rl) (rl_times rl ip)
      in if int (length valid) \<ge> rl_limit rl then (False, rl\<lparr>rl_requests := (rl_requests rl)(ip \<mapsto> valid)\<rparr>)
         else (True, rl\<lparr>rl_requests := (rl_requests rl)(ip \<mapsto> valid @ [now])\<rparr>))"

definition still_valid :: "int \<Rightarrow> int list \<Rightarrow> bool" where
  "still_valid cutoff ts \<longleftrightarrow> list_ex (\<lambda>t. t > cutoff) ts"

definition cleanup_collect :: "int \<Rightarrow> dash_limiter \<Rightarrow> dash_limiter" where
  "cleanup_collect now rl =
     (if rl_stopped rl then rl
      else let cutoff = now - rl_window rl
           in rl\<lparr>rl_doomed := Some (cutoff, \<lambda>ip. case rl_requests rl ip of None \<Rightarrow> False | Some ts \<Rightarrow> \<not> still_valid cutoff ts)\<rparr>)"

definition cleanup_delete :: "dash_limiter \<Rightarrow> dash_limiter" where
  "cleanup_delete rl =
     (case rl_doomed rl of
        None \<Rightarrow> rl
      | Some (cutoff, doomed) \<Rightarrow>
          rl\<lparr>rl_requests := (\<lambda>ip. case rl_requests rl ip of
                 None \<Rightarrow> None
               | Some ts \<Rightarrow> if doomed ip \<and> \<not> still_valid cutoff ts then None else Some ts),
             rl_doomed := None\<rparr>)"

definition rate_gate :: "int \<Rightarrow> dash_request \<Rightarrow> dash_limiter \<Rightarrow> bool \<times> dash_limiter" where
  "rate_gate now q rl =
     (if dr_path q = ''/ws'' \<or> is_static_web_asset_path (dr_path q) \<or> is_dashboard_read_path (dr_method q) (dr_path q)
      then (True, rl) else rl_allow (client_ip q) now rl)"

section \<open>The middleware\<close>

datatype gate_result = GateForbidden | GateUnauthorized | GateNext

definition is_public_path :: "string \<Rightarrow> bool" where
  "is_public_path p \<longleftrightarrow> p \<in> set [''/api/auth/login'', ''/api/auth/status''] \<or> is_static_web_asset_path p \<or> has_prefix p ''/uploads/''"

definition auth_gate :: "dash_config \<Rightarrow> int \<Rightarrow> dash_request \<Rightarrow> sessions \<Rightarrow> gate_result \<times> sessions" where
  "auth_gate c now q ss =
     (if has_prefix (dr_path q) ''/api/'' \<and> dr_path q \<noteq> ''/api/auth/login'' \<and> \<not> is_csrf_safe q then (GateForbidden, ss)
      else if \<not> auth_configured c then (GateNext, ss)
      else if is_public_path (dr_path q) then (GateNext, ss)
      else (let (valid, ss') = cookie_session now q ss
            in (if valid then GateNext
                else if has_prefix (dr_path q) ''/api/'' \<or> dr_path q = ''/ws'' then GateUnauthorized
                else GateNext, ss')))"

section \<open>The dashboard\<close>

text \<open>\<open>db_limiter\<close> is the limiter the middleware was built with; \<open>db_named\<close> the one that replaced it in the server
  when the settings changed. \<open>db_pending\<close>: the logins past the lockout check.\<close>

record dashboard =
  db_config :: dash_config
  db_sessions :: sessions
  db_attempts :: attempts
  db_pending :: "nat \<rightharpoonup> string \<times> string \<times> string"
  db_next :: nat
  db_limiter :: dash_limiter
  db_named :: "dash_limiter option"

datatype dash_reply =
    CsrfRefused | LoginNeeded | RateLimited | Handled
  | MethodNotAllowed | LockedOut int | BadRequest | Checking nat
  | WrongCredentials | TokenFailed | LoggedIn string | LoggedOut
  | AuthStatus bool bool | Done

definition login_arrives :: "int \<Rightarrow> dash_request \<Rightarrow> dashboard \<Rightarrow> dashboard \<times> dash_reply" where
  "login_arrives now q s =
     (if dr_method q \<noteq> ''POST'' then (s, MethodNotAllowed)
      else (let (locked, m) = login_is_locked now (client_ip q) (db_attempts s); s1 = s\<lparr>db_attempts := m\<rparr>
            in case locked of
                 Some retry \<Rightarrow> (s1, LockedOut retry)
               | None \<Rightarrow>
                   (case dr_login q of
                      None \<Rightarrow> (s1, BadRequest)
                    | Some (user, password) \<Rightarrow>
                        (s1\<lparr>db_pending := (db_pending s1)(db_next s1 \<mapsto> (client_ip q, user, password)),
                            db_next := db_next s1 + 1\<rparr>, Checking (db_next s1)))))"

definition login_ends ::
  "(string \<Rightarrow> string \<Rightarrow> bool) \<Rightarrow> nat \<Rightarrow> int \<Rightarrow> string option \<Rightarrow> dashboard \<Rightarrow> dashboard \<times> dash_reply" where
  "login_ends bcrypt n now token s =
     (case db_pending s n of
        None \<Rightarrow> (s, Done)
      | Some (ip, user, password) \<Rightarrow>
          (let s1 = s\<lparr>db_pending := (db_pending s)(n := None)\<rparr>
           in if user \<noteq> dc_username (db_config s) \<or> \<not> verify_password bcrypt (db_config s) password
              then (s1\<lparr>db_attempts := login_record_failure now ip (db_attempts s1)\<rparr>, WrongCredentials)
              else (let s2 = s1\<lparr>db_attempts := login_record_success ip (db_attempts s1)\<rparr>
                    in case token of
                         None \<Rightarrow> (s2, TokenFailed)
                       | Some tok \<Rightarrow>
                           (s2\<lparr>db_sessions := (db_sessions s2)(tok \<mapsto> now + session_duration)\<rparr>, LoggedIn tok))))"

definition handle_logout :: "dash_request \<Rightarrow> dashboard \<Rightarrow> dashboard \<times> dash_reply" where
  "handle_logout q s =
     (case dr_cookie q of
        None \<Rightarrow> (s, LoggedOut)
      | Some tok \<Rightarrow> (s\<lparr>db_sessions := (db_sessions s)(tok := None)\<rparr>, LoggedOut))"

definition handle_auth_status :: "int \<Rightarrow> dash_request \<Rightarrow> dashboard \<Rightarrow> dashboard \<times> dash_reply" where
  "handle_auth_status now q s =
     (if auth_configured (db_config s)
      then (let (valid, ss) = cookie_session now q (db_sessions s) in (s\<lparr>db_sessions := ss\<rparr>, AuthStatus True valid))
      else (s, AuthStatus False True))"

definition route_request :: "int \<Rightarrow> dash_request \<Rightarrow> dashboard \<Rightarrow> dashboard \<times> dash_reply" where
  "route_request now q s =
     (if dr_path q = ''/api/auth/login'' then login_arrives now q s
      else if dr_path q = ''/api/auth/logout'' then handle_logout q s
      else if dr_path q = ''/api/auth/status'' then handle_auth_status now q s
      else (s, Handled))"

definition serve_request :: "int \<Rightarrow> dash_request \<Rightarrow> dashboard \<Rightarrow> dashboard \<times> dash_reply" where
  "serve_request now q s =
     (case auth_gate (db_config s) now q (db_sessions s) of
        (GateForbidden, ss) \<Rightarrow> (s, CsrfRefused)
      | (GateUnauthorized, ss) \<Rightarrow> (s\<lparr>db_sessions := ss\<rparr>, LoginNeeded)
      | (GateNext, ss) \<Rightarrow>
          (case rate_gate now q (db_limiter s) of
             (False, rl) \<Rightarrow> (s\<lparr>db_sessions := ss, db_limiter := rl\<rparr>, RateLimited)
           | (True, rl) \<Rightarrow> route_request now q (s\<lparr>db_sessions := ss, db_limiter := rl\<rparr>)))"

text \<open>\<open>applyEnvironmentToRuntimeConfig\<close>, as far as it concerns the gates.\<close>

definition parse_int_setting :: "string \<Rightarrow> int \<Rightarrow> int" where
  "parse_int_setting v fallback = (case atoi (trim_space v) of None \<Rightarrow> fallback | Some n \<Rightarrow> n)"

definition apply_setting :: "string \<times> string \<Rightarrow> dash_config \<Rightarrow> dash_config" where
  "apply_setting kv c =
     (let (key, v) = kv
      in if key = ''XALGORIX_RATE_LIMIT_REQUESTS'' then c\<lparr>dc_rate_requests := parse_int_setting v 60\<rparr>
         else if key = ''XALGORIX_RATE_LIMIT_WINDOW'' then c\<lparr>dc_rate_window := parse_int_setting v 60\<rparr>
         else if key = ''XALGORIX_USERNAME'' then c\<lparr>dc_username := v\<rparr>
         else if key = ''XALGORIX_PASSWORD'' then c\<lparr>dc_password := v\<rparr>
         else if key = ''XALGORIX_PASSWORD_HASH'' then c\<lparr>dc_password_hash := v\<rparr>
         else if key = ''XALGORIX_BIND'' then c\<lparr>dc_bind := (if trim_space v = '''' then ''127.0.0.1'' else v)\<rparr>
         else c)"

definition apply_settings :: "(string \<times> string) list \<Rightarrow> dashboard \<Rightarrow> dashboard" where
  "apply_settings kvs s =
     (let c = fold apply_setting kvs (db_config s);
          rate_changed = list_ex (\<lambda>kv. fst kv \<in> set [''XALGORIX_RATE_LIMIT_REQUESTS'', ''XALGORIX_RATE_LIMIT_WINDOW'']) kvs
      in if \<not> rate_changed then s\<lparr>db_config := c\<rparr>
         else (let requests = clamp_int (dc_rate_requests c) 1 1000; window = clamp_int (dc_rate_window c) 10 3600;
                   old = (case db_named s of None \<Rightarrow> (db_limiter s)\<lparr>rl_stopped := True\<rparr> | Some n \<Rightarrow> db_limiter s)
               in s\<lparr>db_config := c\<lparr>dc_rate_requests := requests, dc_rate_window := window\<rparr>, db_limiter := old,
                    db_named := Some (new_rate_limiter requests (window * one_second))\<rparr>))"

definition rate_limit_settings :: "int \<Rightarrow> int \<Rightarrow> (string \<times> string) list" where
  "rate_limit_settings requests window =
     [(''XALGORIX_RATE_LIMIT_REQUESTS'', itoa (clamp_int requests 1 1000)),
      (''XALGORIX_RATE_LIMIT_WINDOW'', itoa (clamp_int window 10 3600))]"

definition listen_address :: "dash_config \<Rightarrow> string" where
  "listen_address c = (if dc_bind c = '''' then ''127.0.0.1'' else dc_bind c)"

definition is_loopback_bind :: "string \<Rightarrow> bool" where
  "is_loopback_bind a \<longleftrightarrow> a \<in> set [''127.0.0.1'', ''::1'', ''localhost'']"

definition start_dashboard :: "dash_config \<Rightarrow> dashboard option" where
  "start_dashboard c =
     (if \<not> is_loopback_bind (listen_address c) \<and> \<not> auth_configured c then None
      else Some \<lparr>db_config = c, db_sessions = Map.empty, db_attempts = Map.empty, db_pending = Map.empty, db_next = 0,
                 db_limiter = new_rate_limiter (dc_rate_requests c) (dc_rate_window c * one_second), db_named = None\<rparr>)"

section \<open>Runs\<close>

datatype dash_event =
    Arrives dash_request
  | LoginEnds nat "string option"
  | Reaps
  | Collects
  | Deletes
  | SettingsChange "(string \<times> string) list"

fun dash_step :: "(string \<Rightarrow> string \<Rightarrow> bool) \<Rightarrow> int \<times> dash_event \<Rightarrow> dashboard \<Rightarrow> dashboard \<times> dash_reply" where
  "dash_step bcrypt (now, Arrives q) s = serve_request now q s"
| "dash_step bcrypt (now, LoginEnds n token) s = login_ends bcrypt n now token s"
| "dash_step bcrypt (now, Reaps) s = (s\<lparr>db_sessions := reap_sessions now (db_sessions s)\<rparr>, Done)"
| "dash_step bcrypt (now, Collects) s = (s\<lparr>db_limiter := cleanup_collect now (db_limiter s)\<rparr>, Done)"
| "dash_step bcrypt (now, Deletes) s = (s\<lparr>db_limiter := cleanup_delete (db_limiter s)\<rparr>, Done)"
| "dash_step bcrypt (now, SettingsChange kvs) s = (apply_settings kvs s, Done)"

text \<open>A run keeps, for every event, the state it met, the event with its time, and the reply.\<close>

type_synonym dash_log = "(dashboard \<times> (int \<times> dash_event) \<times> dash_reply) list"

definition not_before :: "dash_log \<Rightarrow> int \<Rightarrow> bool" where
  "not_before h now \<longleftrightarrow> h = [] \<or> fst (fst (snd (last h))) \<le> now"

inductive dash_run :: "(string \<Rightarrow> string \<Rightarrow> bool) \<Rightarrow> dash_config \<Rightarrow> dash_log \<Rightarrow> dashboard \<Rightarrow> bool"
  for bcrypt c where
  start: "start_dashboard c = Some s \<Longrightarrow> dash_run bcrypt c [] s"
| event: "dash_run bcrypt c h s \<Longrightarrow> not_before h (fst e) \<Longrightarrow> dash_step bcrypt e s = (s', r) \<Longrightarrow>
     dash_run bcrypt c (h @ [(s, e, r)]) s'"

fun dash_exec ::
  "(string \<Rightarrow> string \<Rightarrow> bool) \<Rightarrow> (int \<times> dash_event) list \<Rightarrow> dashboard \<Rightarrow> dash_log \<Rightarrow> dash_log \<times> dashboard" where
  "dash_exec bcrypt [] s h = (h, s)"
| "dash_exec bcrypt (e # es) s h =
     (let (s', r) = dash_step bcrypt e s in dash_exec bcrypt es s' (h @ [(s, e, r)]))"

lemma dash_exec_run:
  assumes "dash_run bcrypt c h s" and "list_all (\<lambda>e. not_before h (fst e)) es" and "sorted (map fst es)"
    and "dash_exec bcrypt es s h = (h', s')"
  shows "dash_run bcrypt c h' s'"
  using assms
proof (induction es arbitrary: h s)
  case (Cons e es)
  obtain s1 r where e: "dash_step bcrypt e s = (s1, r)" by fastforce
  have "dash_run bcrypt c (h @ [(s, e, r)]) s1" using Cons.prems(1,2) e by (auto intro: dash_run.event)
  from Cons.IH [OF this] show ?case using Cons.prems e by (auto simp: list_all_iff not_before_def)
qed simp

end
