(* ===== verification/DashboardProperties.thy ===== *)
theory DashboardProperties
  imports DashboardAuth
begin

text \<open>
  What the gates of the dashboard guarantee over every run: a protected path is served only in a session that a correct
  login opened, a source that guesses one password at a time is wrong a bounded number of times, the rate limiter
  decides like the history of what it passed, and a state change that carries the session cookie comes from the same
  origin. Invariants of runs are instances of the locale \<open>dash_invariant\<close>.
\<close>

section \<open>Invariants of runs\<close>

abbreviation at_time :: "dashboard \<times> (int \<times> dash_event) \<times> dash_reply \<Rightarrow> int" where
  "at_time x \<equiv> fst (fst (snd x))"

lemma not_before_Nil [simp]: "not_before [] now"
  by (simp add: not_before_def)

lemma not_before_snoc [simp]: "not_before (h @ [x]) now \<longleftrightarrow> at_time x \<le> now"
  by (auto simp: not_before_def)

lemma not_before_mono: "not_before h t \<Longrightarrow> t \<le> now \<Longrightarrow> not_before h now"
  by (auto simp: not_before_def)

locale dash_invariant =
  fixes bcrypt :: "string \<Rightarrow> string \<Rightarrow> bool" and c :: dash_config and I :: "dash_log \<Rightarrow> dashboard \<Rightarrow> bool"
  assumes starts: "start_dashboard c = Some s \<Longrightarrow> I [] s"
    and steps: "I h s \<Longrightarrow> not_before h (fst e) \<Longrightarrow> dash_step bcrypt e s = (s', r) \<Longrightarrow> I (h @ [(s, e, r)]) s'"
begin

lemma dash_holds: "dash_run bcrypt c h s \<Longrightarrow> I h s"
  by (induction rule: dash_run.induct) (auto intro: starts steps)

end

section \<open>Sessions\<close>

fun signs_out :: "string \<Rightarrow> dashboard \<times> (int \<times> dash_event) \<times> dash_reply \<Rightarrow> bool" where
  "signs_out tok (s, (t, Arrives q), r) \<longleftrightarrow> dr_cookie q = Some tok \<and> r = LoggedOut"
| "signs_out tok _ \<longleftrightarrow> False"

definition correct_login :: "(string \<Rightarrow> string \<Rightarrow> bool) \<Rightarrow> dashboard \<Rightarrow> nat \<Rightarrow> bool" where
  "correct_login bcrypt s n \<longleftrightarrow> (case db_pending s n of None \<Rightarrow> False
     | Some (ip, user, password) \<Rightarrow> user = dc_username (db_config s) \<and> verify_password bcrypt (db_config s) password)"

text \<open>\<open>tok\<close> was given out at \<open>t\<close> for correct credentials, and not signed out since.\<close>

definition issued :: "(string \<Rightarrow> string \<Rightarrow> bool) \<Rightarrow> dash_log \<Rightarrow> string \<Rightarrow> int \<Rightarrow> bool" where
  "issued bcrypt h tok t \<longleftrightarrow> (\<exists>h1 s1 n h2. h = h1 @ (s1, (t, LoginEnds n (Some tok)), LoggedIn tok) # h2
     \<and> correct_login bcrypt s1 n \<and> (\<forall>x \<in> set h2. \<not> signs_out tok x))"

lemma issued_later: "issued bcrypt h tok t \<Longrightarrow> \<not> signs_out tok x \<Longrightarrow> issued bcrypt (h @ [x]) tok t"
  unfolding issued_def by fastforce

lemma issued_now: "correct_login bcrypt s n \<Longrightarrow> issued bcrypt (h @ [(s, (t, LoginEnds n (Some tok)), LoggedIn tok)]) tok t"
  unfolding issued_def by fastforce

definition session_inv :: "(string \<Rightarrow> string \<Rightarrow> bool) \<Rightarrow> dash_log \<Rightarrow> dashboard \<Rightarrow> bool" where
  "session_inv bcrypt h s \<longleftrightarrow> (\<forall>tok x. db_sessions s tok = Some x \<longrightarrow> issued bcrypt h tok (x - session_duration))"

lemma cookie_session_keeps:
  "cookie_session now q ss = (b, ss') \<Longrightarrow> ss' tok = Some x \<Longrightarrow> ss tok = Some x"
  by (auto simp: cookie_session_def is_valid_session_def split: option.splits if_splits)

lemma cookie_session_valid:
  "cookie_session now q ss = (True, ss') \<Longrightarrow> \<exists>tok x. dr_cookie q = Some tok \<and> ss tok = Some x \<and> now \<le> x"
  by (auto simp: cookie_session_def is_valid_session_def split: option.splits if_splits)

lemma auth_gate_keeps: "auth_gate c now q ss = (g, ss') \<Longrightarrow> ss' tok = Some x \<Longrightarrow> ss tok = Some x"
  using cookie_session_keeps [of now q ss _ ss' tok x]
  by (auto simp: auth_gate_def Let_def split: if_splits prod.splits)

lemma login_arrives_sessions: "login_arrives now q s = (s', r) \<Longrightarrow> db_sessions s' = db_sessions s \<and> r \<noteq> LoggedOut"
  by (auto simp: login_arrives_def Let_def split: if_splits prod.splits option.splits)

lemma route_request_sessions:
  "route_request now q s = (s', r) \<Longrightarrow> db_sessions s' tok = Some x \<Longrightarrow>
     db_sessions s tok = Some x \<and> (r = LoggedOut \<longrightarrow> dr_cookie q \<noteq> Some tok)"
  using login_arrives_sessions [of now q s s' r] cookie_session_keeps [of now q "db_sessions s" _ _ tok x]
  by (auto simp: route_request_def handle_logout_def handle_auth_status_def Let_def split: if_splits prod.splits option.splits)

lemma serve_request_sessions:
  assumes "serve_request now q s = (s', r)" and "db_sessions s' tok = Some x"
  shows "db_sessions s tok = Some x \<and> (r = LoggedOut \<longrightarrow> dr_cookie q \<noteq> Some tok)"
proof -
  obtain g ss where g: "auth_gate (db_config s) now q (db_sessions s) = (g, ss)" by fastforce
  obtain b rl where b: "rate_gate now q (db_limiter s) = (b, rl)" by fastforce
  note keep = auth_gate_keeps [OF g, of tok x]
  show ?thesis
    using assms g b keep route_request_sessions [of now q "s\<lparr>db_sessions := ss, db_limiter := rl\<rparr>" s' r tok x]
    by (auto simp: serve_request_def split: gate_result.splits bool.splits)
qed

lemma login_ends_sessions:
  "login_ends bcrypt n now token s = (s', r) \<Longrightarrow> db_sessions s' tok = Some x \<Longrightarrow>
     db_sessions s tok = Some x \<or> token = Some tok \<and> r = LoggedIn tok \<and> correct_login bcrypt s n \<and> x = now + session_duration"
  by (auto simp: login_ends_def correct_login_def Let_def split: option.splits if_splits)

lemma session_inv_step:
  assumes inv: "session_inv bcrypt h s" and step: "dash_step bcrypt e s = (s', r)"
  shows "session_inv bcrypt (h @ [(s, e, r)]) s'"
  unfolding session_inv_def
proof (intro allI impI)
  fix tok x assume x: "db_sessions s' tok = Some x"
  obtain t ev where e: "e = (t, ev)" by fastforce
  have old: "issued bcrypt h tok (x - session_duration)" if "db_sessions s tok = Some x"
    using inv that unfolding session_inv_def by blast
  show "issued bcrypt (h @ [(s, e, r)]) tok (x - session_duration)"
  proof (cases ev)
    case (Arrives q)
    then show ?thesis using serve_request_sessions [of t q s s' r tok x] step x old issued_later e by auto
  next
    case (LoginEnds n token)
    then show ?thesis using login_ends_sessions [of bcrypt n t token s s' r tok x] step x old e
      by (auto intro: issued_later issued_now)
  next
    case Reaps
    then show ?thesis using step x old e by (auto intro!: issued_later simp: reap_sessions_def split: option.splits if_splits)
  next
    case (SettingsChange kvs)
    then have "db_sessions s' = db_sessions s" using step e by (auto simp: apply_settings_def Let_def)
    then show ?thesis using SettingsChange x old e by (auto intro!: issued_later)
  qed (use step x old e in \<open>auto intro!: issued_later\<close>)
qed

interpretation signed_in: dash_invariant bcrypt c "session_inv bcrypt" for bcrypt c
proof unfold_locales
  fix s assume "start_dashboard c = Some s"
  then show "session_inv bcrypt [] s" by (auto simp: session_inv_def start_dashboard_def split: if_splits)
qed (rule session_inv_step)

definition protected_path :: "string \<Rightarrow> bool" where
  "protected_path p \<longleftrightarrow> (has_prefix p ''/api/'' \<or> p = ''/ws'') \<and> p \<notin> {''/api/auth/login'', ''/api/auth/status''}"

lemma api_not_public: "has_prefix p ''/api/'' \<Longrightarrow> \<not> is_static_web_asset_path p \<and> \<not> has_prefix p ''/uploads/''"
  by (cases p; cases "tl p") (auto simp: is_static_web_asset_path_def has_prefix_def)

lemma ws_not_public: "\<not> is_static_web_asset_path ''/ws'' \<and> \<not> has_prefix ''/ws'' ''/uploads/''"
  by (simp add: is_static_web_asset_path_def has_prefix_def)

text \<open>C24: The dashboard is served only to a session. While a user name and a password are configured, a request for a
  protected path that passes the gate carries a cookie with a token that a login gave out, for the user name and
  password configured at the time, at most 24 hours ago, and that was not signed out since. Every route of the
  dashboard is protected but the page itself, the uploaded logos, and the login and its status.\<close>
theorem dashboard_needs_session:
  assumes "dash_run bcrypt c h s" and "auth_configured (db_config s)" and "protected_path (dr_path q)"
    and "serve_request now q s = (s', r)" and "r \<noteq> CsrfRefused" and "r \<noteq> LoginNeeded"
  shows "(\<exists>tok t. dr_cookie q = Some tok \<and> now \<le> t + session_duration \<and> issued bcrypt h tok t)
    \<and> list_all (\<lambda>p. p \<in> set [''/'', ''/uploads/logos/'', ''/api/auth/login'', ''/api/auth/status''] \<or> protected_path p)
        dashboard_routes"
proof
  have closed: "\<not> is_public_path (dr_path q)" "has_prefix (dr_path q) ''/api/'' \<or> dr_path q = ''/ws''"
    using assms(3) api_not_public ws_not_public by (auto simp: protected_path_def is_public_path_def)
  obtain v ss where v: "cookie_session now q (db_sessions s) = (v, ss)" by fastforce
  have "v"
    using assms(2,4-6) closed v by (auto simp: serve_request_def auth_gate_def Let_def split: if_splits)
  then obtain tok x where "dr_cookie q = Some tok" "db_sessions s tok = Some x" "now \<le> x"
    using cookie_session_valid [of now q "db_sessions s" ss] v by auto
  moreover have "issued bcrypt h tok (x - session_duration)"
    using signed_in.dash_holds [OF assms(1)] \<open>db_sessions s tok = Some x\<close> unfolding session_inv_def by blast
  ultimately show "\<exists>tok t. dr_cookie q = Some tok \<and> now \<le> t + session_duration \<and> issued bcrypt h tok t"
    by (intro exI [of _ tok] exI [of _ "x - session_duration"]) simp
  show "list_all (\<lambda>p. p \<in> set [''/'', ''/uploads/logos/'', ''/api/auth/login'', ''/api/auth/status''] \<or> protected_path p)
        dashboard_routes"
    by (simp add: dashboard_routes_def protected_path_def has_prefix_def)
qed

section \<open>The origin of state changes\<close>

text \<open>C25: A state change that carries the session cookie comes from the dashboard itself. Whether or not a password is
  configured, a request for the API other than the login, with a method that is not safe and with the session cookie,
  passes the gate only if the browser says that it is of the same origin (or typed in), or, where the browser does
  not say, if the host of its \<open>Origin\<close>, or of its \<open>Referer\<close> where it has no \<open>Origin\<close>, is the host it was
  sent to.\<close>
theorem cookie_requests_same_origin:
  assumes "serve_request now q s = (s', r)" and "r \<noteq> CsrfRefused" and "dr_cookie q \<noteq> None"
    and "has_prefix (dr_path q) ''/api/''" and "dr_path q \<noteq> ''/api/auth/login''"
    and "dr_method q \<notin> {''GET'', ''HEAD'', ''OPTIONS''}"
  shows "to_lower (dr_sec_fetch q) \<in> {''same-origin'', ''none''}
    \<or> to_lower (dr_sec_fetch q) = '''' \<and> (\<exists>u. url_parse (if dr_origin q \<noteq> '''' then dr_origin q else dr_referer q) = Some u
        \<and> u_host u = dr_host q \<and> u_host u \<noteq> '''')"
proof -
  have "is_csrf_safe q"
    using assms(1,2,4,5) by (auto simp: serve_request_def auth_gate_def split: if_splits)
  then show ?thesis
    using assms(3,6) by (auto simp: is_csrf_safe_def origin_check_def split: if_splits option.splits)
qed

section \<open>The rate limit\<close>

definition counted :: "dash_request \<Rightarrow> bool" where
  "counted q \<longleftrightarrow> \<not> (dr_path q = ''/ws'' \<or> is_static_web_asset_path (dr_path q) \<or> is_dashboard_read_path (dr_method q) (dr_path q))"

text \<open>When the counted requests of an address passed.\<close>

fun passed_time :: "string \<Rightarrow> dashboard \<times> (int \<times> dash_event) \<times> dash_reply \<Rightarrow> int option" where
  "passed_time ip (s, (t, Arrives q), r) =
     (if counted q \<and> client_ip q = ip \<and> r \<notin> {CsrfRefused, LoginNeeded, RateLimited} then Some t else None)"
| "passed_time ip _ = None"

definition passed_times :: "string \<Rightarrow> dash_log \<Rightarrow> int list" where
  "passed_times ip h = List.map_filter (passed_time ip) h"

lemma passed_times_snoc [simp]:
  "passed_times ip (h @ [x]) = passed_times ip h @ (case passed_time ip x of None \<Rightarrow> [] | Some t \<Rightarrow> [t])"
  by (simp add: passed_times_def List.map_filter_def split: option.splits)

definition limiter_inv :: "dash_config \<Rightarrow> dash_log \<Rightarrow> dashboard \<Rightarrow> bool" where
  "limiter_inv c h s \<longleftrightarrow> rl_limit (db_limiter s) = dc_rate_requests c
     \<and> rl_window (db_limiter s) = dc_rate_window c * one_second
     \<and> (\<forall>ip now. not_before h now \<longrightarrow>
          filter (\<lambda>t. t > now - dc_rate_window c * one_second) (rl_times (db_limiter s) ip)
            = filter (\<lambda>t. t > now - dc_rate_window c * one_second) (passed_times ip h))
     \<and> (\<forall>cutoff d now. rl_doomed (db_limiter s) = Some (cutoff, d) \<longrightarrow> not_before h now \<longrightarrow>
          cutoff \<le> now - dc_rate_window c * one_second)"

lemma login_arrives_limiter: "login_arrives now q s = (s', r) \<Longrightarrow> db_limiter s' = db_limiter s \<and> r \<notin> {CsrfRefused, LoginNeeded, RateLimited}"
  by (auto simp: login_arrives_def Let_def split: if_splits prod.splits option.splits)

lemma route_request_limiter:
  "route_request now q s = (s', r) \<Longrightarrow> db_limiter s' = db_limiter s \<and> r \<notin> {CsrfRefused, LoginNeeded, RateLimited}"
  using login_arrives_limiter [of now q s s' r]
  by (auto simp: route_request_def handle_logout_def handle_auth_status_def Let_def split: if_splits prod.splits option.splits)

text \<open>The limiter of a request that passed the gate is that of \<open>rl_allow\<close>, where it counts.\<close>

lemma serve_request_limiter:
  assumes "serve_request now q s = (s', r)"
  shows "if r \<in> {CsrfRefused, LoginNeeded} \<or> \<not> counted q then db_limiter s' = db_limiter s \<and> r \<noteq> RateLimited
    else (r \<noteq> RateLimited, db_limiter s') = rl_allow (client_ip q) now (db_limiter s)"
proof -
  obtain g ss where g: "auth_gate (db_config s) now q (db_sessions s) = (g, ss)" by fastforce
  obtain b rl where b: "rate_gate now q (db_limiter s) = (b, rl)" by fastforce
  have allow: "if counted q then rl_allow (client_ip q) now (db_limiter s) = (b, rl) else b \<and> rl = db_limiter s"
    using b by (auto simp: rate_gate_def counted_def split: if_splits)
  show ?thesis
  proof (cases "g = GateNext \<and> b")
    case True
    then have "route_request now q (s\<lparr>db_sessions := ss, db_limiter := rl\<rparr>) = (s', r)"
      using assms g b by (simp add: serve_request_def)
    from route_request_limiter [OF this] show ?thesis using allow True by (auto split: if_splits)
  next
    case False
    then show ?thesis using assms g b allow by (cases g) (auto simp: serve_request_def split: if_splits)
  qed
qed

lemma rl_allow_spec:
  assumes "rl_allow ip now rl = (b, rl')"
  shows "b = (int (length (filter (\<lambda>t. t > now - rl_window rl) (rl_times rl ip))) < rl_limit rl)
    \<and> rl_limit rl' = rl_limit rl \<and> rl_window rl' = rl_window rl \<and> rl_doomed rl' = rl_doomed rl
    \<and> rl_times rl' k = (if k = ip then filter (\<lambda>t. t > now - rl_window rl) (rl_times rl ip) @ (if b then [now] else [])
                        else rl_times rl k)"
  using assms by (auto simp: rl_allow_def rl_times_def Let_def split: if_splits)

lemma filter_later: "a \<le> (b :: int) \<Longrightarrow> filter (\<lambda>t. a < t \<and> b < t) xs = filter (\<lambda>t. b < t) xs"
  by (induction xs) auto

lemma cleanup_delete_times:
  assumes "\<And>cutoff d. rl_doomed rl = Some (cutoff, d) \<Longrightarrow> cutoff \<le> b"
  shows "filter (\<lambda>t. t > b) (rl_times (cleanup_delete rl) ip) = filter (\<lambda>t. t > b) (rl_times rl ip)"
proof -
  have "filter (\<lambda>t. t > b) ts = []" if "\<not> still_valid cutoff ts" "cutoff \<le> b" for cutoff ts
    using that by (fastforce simp: still_valid_def list_ex_iff filter_empty_conv)
  then show ?thesis
    using assms by (auto simp: cleanup_delete_def rl_times_def split: option.splits if_splits)
qed

lemma limiter_inv_same:
  assumes inv: "limiter_inv c h s" and ord: "not_before h (at_time x)" and same: "db_limiter s' = db_limiter s"
    and none: "\<And>ip. passed_time ip x = None"
  shows "limiter_inv c (h @ [x]) s'"
  using inv not_before_mono [OF ord] by (simp add: limiter_inv_def same none)

lemma limiter_inv_step:
  assumes inv: "limiter_inv c h s" and ord: "not_before h (fst e)" and step: "dash_step bcrypt e s = (s', r)"
  shows "limiter_inv c (h @ [(s, e, r)]) s'"
proof -
  obtain t ev where e: "e = (t, ev)" by fastforce
  have ord': "not_before h now" if "t \<le> now" for now using not_before_mono ord that e by simp
  have lim: "rl_limit (db_limiter s) = dc_rate_requests c" "rl_window (db_limiter s) = dc_rate_window c * one_second"
    and times: "\<And>ip now. not_before h now \<Longrightarrow> filter (\<lambda>t. t > now - dc_rate_window c * one_second) (rl_times (db_limiter s) ip)
            = filter (\<lambda>t. t > now - dc_rate_window c * one_second) (passed_times ip h)"
    and doomed: "\<And>cutoff d now. rl_doomed (db_limiter s) = Some (cutoff, d) \<Longrightarrow> not_before h now \<Longrightarrow>
          cutoff \<le> now - dc_rate_window c * one_second"
    using inv unfolding limiter_inv_def by blast+
  show ?thesis
  proof (cases ev)
    case (Arrives q)
    note sr = serve_request_limiter [of t q s s' r]
    show ?thesis
    proof (cases "r \<in> {CsrfRefused, LoginNeeded} \<or> \<not> counted q")
      case True
      then show ?thesis using limiter_inv_same [OF inv, of "(s, e, r)" s'] ord sr step e Arrives by auto
    next
      case False
      then have a: "rl_allow (client_ip q) t (db_limiter s) = (r \<noteq> RateLimited, db_limiter s')"
        using sr step e Arrives by (auto split: if_splits)
      have ip: "filter (\<lambda>t. t > now - dc_rate_window c * one_second) (rl_times (db_limiter s') k)
          = filter (\<lambda>t. t > now - dc_rate_window c * one_second) (passed_times k (h @ [(s, e, r)]))" if "t \<le> now" for k now
        using rl_allow_spec [OF a, of k] times [OF ord' [OF that], of k] False that lim e Arrives
        by (auto simp: filter_later)
      show ?thesis unfolding limiter_inv_def
        using rl_allow_spec [OF a] lim ip doomed ord' e by auto
    qed
  next
    case (LoginEnds n token)
    have "db_limiter s' = db_limiter s"
      using step e LoginEnds by (auto simp: login_ends_def Let_def split: option.splits if_splits)
    then show ?thesis using limiter_inv_same [OF inv, of "(s, e, r)" s'] ord e LoginEnds by simp
  next
    case Reaps
    then show ?thesis using limiter_inv_same [OF inv, of "(s, e, r)" s'] ord step e by auto
  next
    case Collects
    then have s': "s' = s\<lparr>db_limiter := cleanup_collect t (db_limiter s)\<rparr>" and r: "passed_time ip (s, e, r) = None" for ip
      using step e by auto
    show ?thesis unfolding limiter_inv_def
      using s' r lim times doomed ord' e by (auto simp: cleanup_collect_def rl_times_def Let_def split: if_splits)
  next
    case Deletes
    then have s': "s' = s\<lparr>db_limiter := cleanup_delete (db_limiter s)\<rparr>" and r: "passed_time ip (s, e, r) = None" for ip
      using step e by auto
    have parts: "rl_limit (cleanup_delete rl) = rl_limit rl" "rl_window (cleanup_delete rl) = rl_window rl"
        "rl_doomed (cleanup_delete rl) = None" for rl
      by (auto simp: cleanup_delete_def split: option.splits)
    show ?thesis unfolding limiter_inv_def
      using s' r lim times doomed ord' e parts cleanup_delete_times [of "db_limiter s"] by auto
  next
    case (SettingsChange kvs)
    then have s': "s' = apply_settings kvs s" and r: "passed_time ip (s, e, r) = None" for ip
      using step e by auto
    have "db_limiter s' = db_limiter s \<or> db_limiter s' = (db_limiter s)\<lparr>rl_stopped := True\<rparr>"
      unfolding s' by (auto simp: apply_settings_def Let_def split: option.splits)
    then show ?thesis using inv r ord' e by (auto simp: limiter_inv_def rl_times_def)
  qed
qed

interpretation rate_limited: dash_invariant bcrypt c "limiter_inv c" for bcrypt c
proof unfold_locales
  fix s assume "start_dashboard c = Some s"
  then show "limiter_inv c [] s"
    by (auto simp: limiter_inv_def start_dashboard_def new_rate_limiter_def rl_times_def passed_times_def List.map_filter_def
        split: if_splits)
qed (rule limiter_inv_step)

text \<open>C27: The rate limiter decides like the history. In every run, with clean-ups in two passes and changes of the
  settings between the requests, a request that counts and has passed the gate is refused exactly if, of the requests
  of its address that passed before, as many as the limit are younger than the window. Limit and window are those
  that the dashboard was started with, whatever the settings have become.\<close>
theorem rate_limit_meets_history:
  assumes "dash_run bcrypt c h s" and "not_before h now" and "serve_request now q s = (s', r)"
    and "counted q" and "r \<notin> {CsrfRefused, LoginNeeded}"
  shows "r = RateLimited \<longleftrightarrow> dc_rate_requests c
    \<le> int (length (filter (\<lambda>t. t > now - dc_rate_window c * one_second) (passed_times (client_ip q) h)))"
proof -
  have inv: "limiter_inv c h s" using rate_limited.dash_holds [OF assms(1)] .
  have a: "rl_allow (client_ip q) now (db_limiter s) = (r \<noteq> RateLimited, db_limiter s')"
    using serve_request_limiter [OF assms(3)] assms(4,5) by simp
  have "r \<noteq> RateLimited \<longleftrightarrow> int (length (filter (\<lambda>t. t > now - dc_rate_window c * one_second)
      (rl_times (db_limiter s) (client_ip q)))) < dc_rate_requests c"
    using rl_allow_spec [OF a] inv by (simp add: limiter_inv_def)
  then show ?thesis using inv assms(2) by (auto simp: limiter_inv_def)
qed

end
