(* ===== verification/DashboardLogins.thy ===== *)
theory DashboardLogins
  imports DashboardProperties
begin

text \<open>
  The lockout of a source of wrong passwords: how many guesses an address gets in a given time when its logins do not
  overlap. One address is followed through a run; what counts is the record of its failures, whether one of its logins is
  past the lockout check, and the number of wrong passwords so far.
\<close>

lemmas lockout_defs = login_attempt_window_def login_lock_duration_def one_second_def

section \<open>The record of one address\<close>

text \<open>From ten failures on each failure locks for five minutes, so that the failures of one window are at most
  thirteen.\<close>

definition good_attempt :: "login_attempt \<Rightarrow> bool" where
  "good_attempt a \<longleftrightarrow> (case la_lock a of
      None \<Rightarrow> la_failures a \<le> 9
    | Some l \<Rightarrow> 10 \<le> la_failures a \<and> la_failures a \<le> 13 \<and> la_first a + login_lock_duration * (int (la_failures a) - 9) \<le> l)"

text \<open>\<open>n\<close> wrong passwords since \<open>t0\<close>: thirteen for each of \<open>k\<close> past records, and those of the present one. The
  first record may have been begun before \<open>t0\<close>; each later one begins a window after the one before.\<close>

definition begun :: "int \<Rightarrow> nat \<Rightarrow> int \<Rightarrow> bool" where
  "begun t0 k t \<longleftrightarrow> k = 0 \<or> t0 + login_attempt_window * (int k - 1) \<le> t"

definition guesses_ok :: "int \<Rightarrow> int \<Rightarrow> nat \<Rightarrow> bool \<Rightarrow> login_attempt option \<Rightarrow> bool" where
  "guesses_ok t0 now n pending att \<longleftrightarrow> (now < t0 \<longrightarrow> n = 0) \<and> (case att of
      None \<Rightarrow> (\<exists>k. n \<le> 13 * k \<and> begun t0 k now)
    | Some a \<Rightarrow> good_attempt a \<and> la_first a \<le> now \<and> (pending \<longrightarrow> (\<forall>l. la_lock a = Some l \<longrightarrow> l \<le> now))
        \<and> (\<exists>k. n \<le> 13 * k + la_failures a \<and> begun t0 k (la_first a)))"

lemma begun_0 [simp]: "begun t0 0 t"
  by (simp add: begun_def)

lemma begun_later: "begun t0 k t \<Longrightarrow> t \<le> t' \<Longrightarrow> begun t0 k t'"
  by (auto simp: begun_def)

lemma begun_next: "begun t0 k t \<Longrightarrow> t + login_attempt_window \<le> now \<Longrightarrow> t0 \<le> now \<Longrightarrow> begun t0 (Suc k) now"
  by (auto simp: begun_def algebra_simps lockout_defs)

lemma guesses_none: "now < t0 \<or> n = 0 \<Longrightarrow> (now < t0 \<longrightarrow> n = 0) \<Longrightarrow> guesses_ok t0 now n p None"
  by (auto simp: guesses_ok_def intro!: exI [of _ 0])

lemma guesses_later: "guesses_ok t0 now n p att \<Longrightarrow> now \<le> now' \<Longrightarrow> guesses_ok t0 now' n p att"
  using begun_later [of t0 _ now now'] by (fastforce simp: guesses_ok_def split: option.splits)

lemma guesses_fewer: "guesses_ok t0 now n p att \<Longrightarrow> (p' \<Longrightarrow> p) \<Longrightarrow> guesses_ok t0 now n p' att"
  by (auto simp: guesses_ok_def split: option.splits)

lemma guesses_admit:
  "guesses_ok t0 now n p att \<Longrightarrow> (\<And>a l. att = Some a \<Longrightarrow> la_lock a = Some l \<Longrightarrow> l \<le> now) \<Longrightarrow> guesses_ok t0 now n True att"
  by (auto simp: guesses_ok_def split: option.splits)

lemma good_attempt_bound: "good_attempt a \<Longrightarrow> la_failures a \<le> 13"
  by (auto simp: good_attempt_def split: option.splits)

text \<open>A record whose window is over counts as a past one.\<close>

lemma guesses_past:
  assumes "guesses_ok t0 now n p (Some a)" and "now - la_first a > login_attempt_window"
  obtains k where "n \<le> 13 * k" and "begun t0 k now"
proof (cases "now < t0")
  case True
  then show thesis using that [of 0] assms(1) by (simp add: guesses_ok_def)
next
  case False
  obtain k where k: "n \<le> 13 * k + la_failures a" "begun t0 k (la_first a)" "good_attempt a"
    using assms(1) by (auto simp: guesses_ok_def)
  then have "n \<le> 13 * Suc k" using good_attempt_bound [OF k(3)] by simp
  moreover have "begun t0 (Suc k) now" using begun_next [OF k(2)] assms(2) False by simp
  ultimately show thesis by (rule that)
qed

lemma guesses_forgotten:
  assumes "guesses_ok t0 now n p (Some a)" and "stale_attempt now a"
  shows "guesses_ok t0 now n q None"
proof -
  obtain k where "n \<le> 13 * k" "begun t0 k now"
    using guesses_past [OF assms(1)] assms(2) by (auto simp: stale_attempt_def)
  then show ?thesis using assms(1) by (auto simp: guesses_ok_def)
qed

lemma guesses_wrong:
  assumes "guesses_ok t0 now n True (m ip)"
  shows "guesses_ok t0 now (if t0 \<le> now then n + 1 else n) False (login_record_failure now ip m ip)"
proof (cases "m ip")
  case None
  then show ?thesis using assms by (auto simp: guesses_ok_def login_record_failure_def good_attempt_def)
next
  case (Some a)
  note ok = assms [unfolded Some]
  obtain k where k: "n \<le> 13 * k + la_failures a" "begun t0 k (la_first a)" "now < t0 \<longrightarrow> n = 0"
    and a: "good_attempt a" "la_first a \<le> now" "\<And>l. la_lock a = Some l \<Longrightarrow> l \<le> now"
    using ok by (auto simp: guesses_ok_def)
  show ?thesis
  proof (cases "now - la_first a > login_attempt_window")
    case True
    obtain j where "n \<le> 13 * j" "begun t0 j now" using guesses_past [OF ok True] .
    then show ?thesis
      using Some True k(3) by (auto simp: guesses_ok_def login_record_failure_def good_attempt_def intro!: exI [of _ j])
  next
    case False
    define b where "b = a\<lparr>la_failures := la_failures a + 1,
      la_lock := (if la_failures a + 1 \<ge> login_max_failures then Some (now + login_lock_duration) else la_lock a)\<rparr>"
    have b: "login_record_failure now ip m ip = Some b"
      using Some False by (simp add: login_record_failure_def Let_def b_def)
    have "good_attempt b"
    proof (cases "la_lock a")
      case None
      then show ?thesis using a(1,2) by (auto simp: good_attempt_def b_def login_max_failures_def lockout_defs)
    next
      case (Some l)
      then have "10 \<le> la_failures a" "la_first a + login_lock_duration * (int (la_failures a) - 9) \<le> now"
        using a(1) a(3) [OF Some] by (auto simp: good_attempt_def)
      then show ?thesis
        using False by (auto simp: good_attempt_def b_def login_max_failures_def lockout_defs)
    qed
    then show ?thesis using b k a(2) by (auto simp: guesses_ok_def b_def intro!: exI [of _ k])
  qed
qed

definition guess_limit :: "int \<Rightarrow> int \<Rightarrow> int" where
  "guess_limit t0 t1 = 13 * ((t1 - t0) div login_attempt_window + 2)"

lemma guesses_bound:
  assumes "guesses_ok t0 now n p att" and "now \<le> t1" and "t0 \<le> t1"
  shows "int n \<le> guess_limit t0 t1"
proof -
  obtain k where k: "n \<le> 13 * k + 13" "begun t0 k now"
  proof (cases att)
    case None
    then obtain k where "n \<le> 13 * k" "begun t0 k now" using assms(1) by (auto simp: guesses_ok_def)
    then show thesis using that [of k] by simp
  next
    case (Some a)
    then obtain k where "n \<le> 13 * k + la_failures a" "begun t0 k (la_first a)" "la_first a \<le> now" "good_attempt a"
      using assms(1) by (auto simp: guesses_ok_def)
    then show thesis using that [of k] good_attempt_bound [of a] begun_later [of t0 k "la_first a" now] by linarith
  qed
  have "int k \<le> (t1 - t0) div login_attempt_window + 1"
  proof (cases "k = 0")
    case True
    then show ?thesis using assms(3) pos_imp_zdiv_nonneg_iff [of login_attempt_window "t1 - t0"] by (simp add: lockout_defs)
  next
    case False
    then have "login_attempt_window * (int k - 1) \<le> t1 - t0" using k(2) assms(2) by (simp add: begun_def)
    from zdiv_mono1 [OF this, of login_attempt_window] show ?thesis by (simp add: lockout_defs)
  qed
  then show ?thesis using k(1) by (simp add: guess_limit_def)
qed

section \<open>One address in a run\<close>

fun ended_for :: "dashboard \<times> (int \<times> dash_event) \<times> dash_reply \<Rightarrow> string option" where
  "ended_for (s, (t, LoginEnds n token), r) = map_option fst (db_pending s n)"
| "ended_for _ = None"

definition wrong_guesses :: "string \<Rightarrow> dash_log \<Rightarrow> nat" where
  "wrong_guesses ip h = length (filter (\<lambda>x. ended_for x = Some ip \<and> snd (snd x) = WrongCredentials) h)"

definition never_right :: "string \<Rightarrow> dash_log \<Rightarrow> bool" where
  "never_right ip h \<longleftrightarrow> list_all (\<lambda>x. ended_for x \<noteq> Some ip \<or> snd (snd x) = WrongCredentials) h"

definition within :: "int \<Rightarrow> int \<Rightarrow> dash_log \<Rightarrow> dash_log" where
  "within t0 t1 h = filter (\<lambda>x. t0 \<le> at_time x \<and> at_time x \<le> t1) h"

text \<open>No login of the address passes the lockout check while another one has not ended.\<close>

definition pending_for :: "string \<Rightarrow> dashboard \<Rightarrow> nat set" where
  "pending_for ip s = {n. map_option fst (db_pending s n) = Some ip}"

fun alone :: "string \<Rightarrow> dashboard \<times> (int \<times> dash_event) \<times> dash_reply \<Rightarrow> bool" where
  "alone ip (s, (t, Arrives q), Checking n) \<longleftrightarrow> client_ip q \<noteq> ip \<or> pending_for ip s = {}"
| "alone ip _ \<longleftrightarrow> True"

lemma login_arrives_effect:
  assumes "login_arrives now q s = (s', r)"
  obtains (same) "db_attempts s' = db_attempts s" and "db_pending s' = db_pending s"
  | (checked) "db_attempts s' = snd (login_is_locked now (client_ip q) (db_attempts s))" and "db_pending s' = db_pending s"
  | (admitted) n up where "db_attempts s' = snd (login_is_locked now (client_ip q) (db_attempts s))"
      and "fst (login_is_locked now (client_ip q) (db_attempts s)) = None" and "r = Checking n"
      and "db_pending s' = (db_pending s)(n \<mapsto> (client_ip q, up))"
proof -
  obtain locked m where l: "login_is_locked now (client_ip q) (db_attempts s) = (locked, m)" by fastforce
  show thesis
  proof (cases "dr_method q = ''POST'' \<and> locked = None \<and> dr_login q \<noteq> None")
    case True
    then show thesis using admitted assms l by (auto simp: login_arrives_def Let_def)
  next
    case False
    then show thesis using same checked assms l by (auto simp: login_arrives_def Let_def split: if_splits option.splits)
  qed
qed

lemma serve_request_effect:
  assumes "serve_request now q s = (s', r)"
  obtains (same) "db_attempts s' = db_attempts s" and "db_pending s' = db_pending s"
  | (checked) "db_attempts s' = snd (login_is_locked now (client_ip q) (db_attempts s))" and "db_pending s' = db_pending s"
  | (admitted) n up where "db_attempts s' = snd (login_is_locked now (client_ip q) (db_attempts s))"
      and "fst (login_is_locked now (client_ip q) (db_attempts s)) = None" and "r = Checking n"
      and "db_pending s' = (db_pending s)(n \<mapsto> (client_ip q, up))"
proof -
  obtain g ss where g: "auth_gate (db_config s) now q (db_sessions s) = (g, ss)" by fastforce
  obtain b rl where b: "rate_gate now q (db_limiter s) = (b, rl)" by fastforce
  let ?s = "s\<lparr>db_sessions := ss, db_limiter := rl\<rparr>"
  show thesis
  proof (cases "g = GateNext \<and> b \<and> dr_path q = ''/api/auth/login''")
    case True
    then have "login_arrives now q ?s = (s', r)" using assms g b by (simp add: serve_request_def route_request_def)
    then show thesis by (cases rule: login_arrives_effect) (use same checked admitted in auto)
  next
    case False
    then show thesis using same assms g b
      by (cases g) (auto simp: serve_request_def route_request_def handle_logout_def handle_auth_status_def Let_def
          split: if_splits bool.splits option.splits prod.splits)
  qed
qed

text \<open>What the lockout check leaves of the record.\<close>

lemma login_is_locked_record:
  "guesses_ok t0 now n p (m ip) \<Longrightarrow> guesses_ok t0 now n p (snd (login_is_locked now k m) ip)"
  using guesses_forgotten [of t0 now n p _ p]
  by (auto simp: login_is_locked_def Let_def split: option.splits)

lemma login_is_locked_free:
  assumes "fst (login_is_locked now ip m) = None" and "snd (login_is_locked now ip m) ip = Some a" and "la_lock a = Some l"
  shows "l \<le> now"
  using assms by (auto simp: login_is_locked_def Let_def split: option.splits if_splits)

definition guess_inv :: "int \<Rightarrow> int \<Rightarrow> string \<Rightarrow> dash_log \<Rightarrow> dashboard \<Rightarrow> bool" where
  "guess_inv t0 t1 ip h s \<longleftrightarrow> (list_all (alone ip) h \<longrightarrow> never_right ip (within t0 t1 h) \<longrightarrow> t0 \<le> t1 \<longrightarrow>
     int (wrong_guesses ip (within t0 t1 h)) \<le> guess_limit t0 t1
     \<and> (\<forall>now. not_before h now \<longrightarrow> now \<le> t1 \<longrightarrow>
          guesses_ok t0 now (wrong_guesses ip (within t0 t1 h)) (pending_for ip s \<noteq> {}) (db_attempts s ip)
          \<and> (\<forall>m \<in> pending_for ip s. \<forall>m' \<in> pending_for ip s. m = m')))"

lemma within_snoc:
  "within t0 t1 (h @ [x]) = within t0 t1 h @ (if t0 \<le> at_time x \<and> at_time x \<le> t1 then [x] else [])"
  by (simp add: within_def)

lemma wrong_snoc: "wrong_guesses ip (h @ [x]) = wrong_guesses ip h + (if ended_for x = Some ip \<and> snd (snd x) = WrongCredentials then 1 else 0)"
  by (simp add: wrong_guesses_def)

text \<open>The three ways in which an event touches the record of the address.\<close>

lemma guess_request:
  assumes ok: "guesses_ok t0 t n (pending_for ip s \<noteq> {}) (db_attempts s ip)"
    and one: "\<And>m m'. m \<in> pending_for ip s \<Longrightarrow> m' \<in> pending_for ip s \<Longrightarrow> m = m'"
    and serve: "serve_request t q s = (s', r)" and alone: "alone ip (s, (t, Arrives q), r)"
  shows "guesses_ok t0 t n (pending_for ip s' \<noteq> {}) (db_attempts s' ip)
    \<and> (\<forall>m \<in> pending_for ip s'. \<forall>m' \<in> pending_for ip s'. m = m')"
proof -
  note locked = login_is_locked_record [of t0 t n "pending_for ip s \<noteq> {}" "db_attempts s" ip, OF ok]
  show ?thesis using serve
  proof (cases rule: serve_request_effect)
    case same
    then show ?thesis using ok one by (simp add: pending_for_def)
  next
    case checked
    then show ?thesis using locked one by (simp add: pending_for_def)
  next
    case (admitted k up)
    show ?thesis
    proof (cases "client_ip q = ip")
      case True
      then have "pending_for ip s' = {k}" using alone admitted(3,4) by (auto simp: pending_for_def)
      moreover have "l \<le> t" if "db_attempts s' ip = Some a" "la_lock a = Some l" for a l
        using login_is_locked_free [of t ip "db_attempts s" a l] admitted(1,2) that True by simp
      ultimately show ?thesis
        using guesses_admit [of t0 t n _ "db_attempts s' ip"] locked [of "client_ip q"] admitted(1) by auto
    next
      case False
      then have sub: "pending_for ip s' \<subseteq> pending_for ip s" using admitted(4) by (auto simp: pending_for_def split: if_splits)
      then show ?thesis
        using guesses_fewer [OF locked [of "client_ip q"], of "pending_for ip s' \<noteq> {}"] admitted(1) one by auto
    qed
  qed
qed

lemma guess_ends:
  assumes ok: "guesses_ok t0 t n (pending_for ip s \<noteq> {}) (db_attempts s ip)"
    and one: "\<And>m m'. m \<in> pending_for ip s \<Longrightarrow> m' \<in> pending_for ip s \<Longrightarrow> m = m'"
    and ends: "login_ends bcrypt k t token s = (s', r)" and x: "x = (s, (t, LoginEnds k token), r)"
    and right: "t0 \<le> t \<Longrightarrow> ended_for x \<noteq> Some ip \<or> r = WrongCredentials"
  shows "guesses_ok t0 t (n + (if t0 \<le> t \<and> ended_for x = Some ip then 1 else 0)) (pending_for ip s' \<noteq> {}) (db_attempts s' ip)
    \<and> (\<forall>m \<in> pending_for ip s'. \<forall>m' \<in> pending_for ip s'. m = m')"
proof (cases "ended_for x = Some ip")
  case True
  then obtain user password where p: "db_pending s k = Some (ip, user, password)" using x by auto
  then have k: "pending_for ip s = {k}" using one by (auto simp: pending_for_def)
  have "db_pending s' = (db_pending s)(k := None)"
    using ends p by (auto simp: login_ends_def Let_def split: if_splits option.splits)
  then have none: "pending_for ip s' = {}" using k by (auto simp: pending_for_def split: if_splits)
  show ?thesis
  proof (cases "r = WrongCredentials")
    case True
    then have "db_attempts s' = login_record_failure t ip (db_attempts s)"
      using ends p by (auto simp: login_ends_def Let_def split: if_splits option.splits)
    then show ?thesis
      using guesses_wrong [of t0 t n "db_attempts s" ip] ok k none \<open>ended_for x = Some ip\<close>
      by (simp split: if_splits)
  next
    case False
    then have "t < t0" using right \<open>ended_for x = Some ip\<close> by (cases "t0 \<le> t") auto
    moreover have "db_attempts s' ip = None"
      using False ends p by (auto simp: login_ends_def login_record_success_def Let_def split: if_splits option.splits)
    moreover have "n = 0" using ok \<open>t < t0\<close> by (simp add: guesses_ok_def)
    ultimately show ?thesis using none by (simp add: guesses_none)
  qed
next
  case False
  have "db_attempts s' ip = db_attempts s ip \<and> pending_for ip s' = pending_for ip s"
    using ends False x
    by (auto simp: login_ends_def pending_for_def login_record_failure_def login_record_success_def Let_def
        split: if_splits option.splits)
  then show ?thesis using ok one False by simp
qed

lemma guess_event:
  assumes ok: "guesses_ok t0 t n (pending_for ip s \<noteq> {}) (db_attempts s ip)"
    and one: "\<And>m m'. m \<in> pending_for ip s \<Longrightarrow> m' \<in> pending_for ip s \<Longrightarrow> m = m'"
    and step: "dash_step bcrypt (t, evt) s = (s', r)" and alone: "alone ip (s, (t, evt), r)"
    and right: "t0 \<le> t \<Longrightarrow> ended_for (s, (t, evt), r) \<noteq> Some ip \<or> r = WrongCredentials"
  shows "guesses_ok t0 t (n + (if t0 \<le> t \<and> ended_for (s, (t, evt), r) = Some ip then 1 else 0))
      (pending_for ip s' \<noteq> {}) (db_attempts s' ip)
    \<and> (\<forall>m \<in> pending_for ip s'. \<forall>m' \<in> pending_for ip s'. m = m')"
proof (cases evt)
  case (Arrives q)
  then show ?thesis using guess_request [OF ok one, of q s' r] step alone by simp
next
  case (LoginEnds k token)
  then show ?thesis using guess_ends [OF ok one, of bcrypt k token s' r "(s, (t, evt), r)"] step right by simp
next
  case (SettingsChange kvs)
  then have "db_attempts s' = db_attempts s" "db_pending s' = db_pending s"
    using step by (auto simp: apply_settings_def Let_def)
  then show ?thesis using ok one SettingsChange by (simp add: pending_for_def)
qed (use ok one step in \<open>auto simp: pending_for_def\<close>)

lemma guess_inv_step:
  assumes inv: "guess_inv t0 t1 ip h s" and ord: "not_before h (fst e)" and step: "dash_step bcrypt e s = (s', r)"
  shows "guess_inv t0 t1 ip (h @ [(s, e, r)]) s'"
  unfolding guess_inv_def
proof (intro impI)
  let ?x = "(s, e, r)"
  let ?n = "wrong_guesses ip (within t0 t1 h)" and ?n' = "wrong_guesses ip (within t0 t1 (h @ [?x]))"
  assume g: "list_all (alone ip) (h @ [?x])" "never_right ip (within t0 t1 (h @ [?x]))" "t0 \<le> t1"
  obtain t evt where e: "e = (t, evt)" by fastforce
  have before: "int ?n \<le> guess_limit t0 t1"
    "not_before h t \<Longrightarrow> t \<le> t1 \<Longrightarrow> guesses_ok t0 t ?n (pending_for ip s \<noteq> {}) (db_attempts s ip)
      \<and> (\<forall>m \<in> pending_for ip s. \<forall>m' \<in> pending_for ip s. m = m')"
    using inv g by (auto simp: guess_inv_def within_snoc never_right_def)
  have later: "t \<le> now" if "not_before (h @ [?x]) now" for now using that e by (simp add: not_before_def)
  show "int ?n' \<le> guess_limit t0 t1 \<and> (\<forall>now. not_before (h @ [?x]) now \<longrightarrow> now \<le> t1 \<longrightarrow>
      guesses_ok t0 now ?n' (pending_for ip s' \<noteq> {}) (db_attempts s' ip)
      \<and> (\<forall>m \<in> pending_for ip s'. \<forall>m' \<in> pending_for ip s'. m = m'))"
  proof (cases "t \<le> t1")
    case True
    have ok: "guesses_ok t0 t ?n (pending_for ip s \<noteq> {}) (db_attempts s ip)"
      and one: "\<And>m m'. m \<in> pending_for ip s \<Longrightarrow> m' \<in> pending_for ip s \<Longrightarrow> m = m'"
      using before(2) ord e True by auto
    have right: "t0 \<le> t \<Longrightarrow> ended_for ?x \<noteq> Some ip \<or> r = WrongCredentials"
      using g(2) e True by (auto simp: within_snoc never_right_def)
    have n: "?n' = ?n + (if t0 \<le> t \<and> ended_for ?x = Some ip then 1 else 0)"
      using right e True by (auto simp: within_snoc wrong_snoc)
    have "guesses_ok t0 t ?n' (pending_for ip s' \<noteq> {}) (db_attempts s' ip)
        \<and> (\<forall>m \<in> pending_for ip s'. \<forall>m' \<in> pending_for ip s'. m = m')"
      unfolding n using guess_event [OF ok one, of bcrypt evt s' r] step g(1) right e by simp
    then show ?thesis using guesses_bound [OF _ True g(3)] guesses_later later by blast
  next
    case False
    then have "?n' = ?n" using e by (simp add: within_snoc)
    then show ?thesis using before(1) False later by fastforce
  qed
qed

interpretation guessing: dash_invariant bcrypt c "guess_inv t0 t1 ip" for bcrypt c t0 t1 ip
proof unfold_locales
  fix s assume "start_dashboard c = Some s"
  then have "db_attempts s ip = None" "pending_for ip s = {}"
    by (auto simp: start_dashboard_def pending_for_def split: if_splits)
  then show "guess_inv t0 t1 ip [] s"
    using pos_imp_zdiv_nonneg_iff [of login_attempt_window "t1 - t0"]
    by (auto simp: guess_inv_def wrong_guesses_def within_def guesses_none guess_limit_def lockout_defs)
qed (rule guess_inv_step)

text \<open>C26: One address guesses a bounded number of passwords. In every run in which no login of an address passes the
  lockout check while another one of its logins has not ended, the wrong passwords that are checked for it in any
  interval from \<open>t0\<close> to \<open>t1\<close> in which none of its passwords is right are at most thirteen for every begun window
  of fifteen minutes in it and thirteen more, whatever happened before, whatever other addresses do and however
  the records are collected.\<close>
theorem wrong_passwords_bounded:
  assumes "dash_run bcrypt c h s" and "list_all (alone ip) h" and "never_right ip (within t0 t1 h)" and "t0 \<le> t1"
  shows "int (wrong_guesses ip (within t0 t1 h)) \<le> 13 * ((t1 - t0) div login_attempt_window + 2)"
  using guessing.dash_holds [OF assms(1), of t0 t1 ip] assms(2-4) by (simp add: guess_inv_def guess_limit_def)

end
