(* ===== verification/DashboardExamples.thy ===== *)
theory DashboardExamples
  imports DashboardLogins
begin

text \<open>
  Concrete runs of the dashboard: the properties of its gates at a login, at a second post within the window and at a
  wrong password; and what a change of the settings does to the login.
\<close>

definition demo_dash :: "string \<Rightarrow> int \<Rightarrow> dash_config" where
  "demo_dash user limit = \<lparr>dc_username = user, dc_password = ''pw'', dc_password_hash = '''', dc_bind = '''',
     dc_rate_requests = limit, dc_rate_window = 60\<rparr>"

definition dash_demo_request :: "string \<Rightarrow> string \<Rightarrow> string option \<Rightarrow> (string \<times> string) option \<Rightarrow> dash_request" where
  "dash_demo_request method p cookie creds = \<lparr>dr_method = method, dr_path = p, dr_host = ''h'', dr_sec_fetch = '''',
     dr_origin = '''', dr_referer = '''', dr_cookie = cookie, dr_remote = ''1.1.1.1:5'', dr_login = creds\<rparr>"

definition dash_demo_run :: "string \<Rightarrow> int \<Rightarrow> (int \<times> dash_event) list \<Rightarrow> dash_log \<times> dashboard" where
  "dash_demo_run user limit es = dash_exec (\<lambda>h p. False) es (the (start_dashboard (demo_dash user limit))) []"

lemma dash_demo_run_run:
  assumes "sorted (map fst es)"
  shows "dash_run (\<lambda>h p. False) (demo_dash user limit) (fst (dash_demo_run user limit es)) (snd (dash_demo_run user limit es))"
proof -
  have "start_dashboard (demo_dash user limit) = Some (the (start_dashboard (demo_dash user limit)))"
    by (simp add: start_dashboard_def demo_dash_def listen_address_def is_loopback_bind_def)
  from dash_run.start [OF this] show ?thesis unfolding dash_demo_run_def
    by (rule dash_exec_run) (use assms in \<open>simp_all add: list_all_iff\<close>)
qed

definition login_request :: "string \<Rightarrow> dash_request" where
  "login_request password = dash_demo_request ''POST'' ''/api/auth/login'' None (Some (''admin'', password))"

definition signed_in_run :: "dash_log \<times> dashboard" where
  "signed_in_run = dash_demo_run ''admin'' 60 [(0, Arrives (login_request ''pw'')), (1, LoginEnds 0 (Some ''tok''))]"

definition page_request :: dash_request where
  "page_request = dash_demo_request ''GET'' ''/api/credentials'' (Some ''tok'') None"

lemma page_served:
  "auth_configured (db_config (snd signed_in_run)) \<and> snd (serve_request 2 page_request (snd signed_in_run)) = Handled
   \<and> protected_path (dr_path page_request)"
  by code_simp

theorem dashboard_needs_session_witness:
  "\<exists>tok t. dr_cookie page_request = Some tok \<and> 2 \<le> t + session_duration \<and> issued (\<lambda>h p. False) (fst signed_in_run) tok t"
  using dashboard_needs_session [of "\<lambda>h p. False" "demo_dash ''admin'' 60" "fst signed_in_run" "snd signed_in_run"
      page_request 2 "fst (serve_request 2 page_request (snd signed_in_run))" Handled]
    page_served dash_demo_run_run by (auto simp: signed_in_run_def prod_eq_iff)

definition posting_run :: "dash_log \<times> dashboard" where
  "posting_run = dash_demo_run '''' 1 [(0, Arrives (dash_demo_request ''POST'' ''/api/scan'' None None))]"

lemma second_post_refused:
  "snd (serve_request 5 (dash_demo_request ''POST'' ''/api/scan'' None None) (snd posting_run)) = RateLimited
   \<and> counted (dash_demo_request ''POST'' ''/api/scan'' None None)"
  by code_simp

theorem rate_limit_meets_history_witness:
  "1 \<le> int (length (filter (\<lambda>t. t > 5 - 60 * one_second) (passed_times ''1.1.1.1'' (fst posting_run))))"
proof -
  let ?q = "dash_demo_request ''POST'' ''/api/scan'' None None"
  have "not_before (fst posting_run) 5" by code_simp
  moreover have "client_ip ?q = ''1.1.1.1''" by code_simp
  moreover have "dc_rate_requests (demo_dash '''' 1) = 1" "dc_rate_window (demo_dash '''' 1) = 60" by (simp_all add: demo_dash_def)
  ultimately show ?thesis
    using rate_limit_meets_history [of "\<lambda>h p. False" "demo_dash '''' 1" "fst posting_run" "snd posting_run" 5 ?q
        "fst (serve_request 5 ?q (snd posting_run))" RateLimited] second_post_refused dash_demo_run_run
    by (auto simp: posting_run_def prod_eq_iff)
qed

definition cross_request :: dash_request where
  "cross_request = (dash_demo_request ''POST'' ''/api/scan'' (Some ''tok'') None)\<lparr>dr_origin := ''http://h''\<rparr>"

theorem cookie_requests_same_origin_witness:
  "to_lower (dr_sec_fetch cross_request) = '''' \<and> (\<exists>u. url_parse ''http://h'' = Some u \<and> u_host u = ''h'')"
proof -
  have s: "snd (serve_request 5 cross_request (snd posting_run)) = RateLimited \<and> dr_cookie cross_request \<noteq> None
      \<and> has_prefix (dr_path cross_request) ''/api/'' \<and> dr_path cross_request \<noteq> ''/api/auth/login''
      \<and> to_lower (dr_sec_fetch cross_request) = '''' \<and> dr_method cross_request = ''POST''
      \<and> dr_origin cross_request = ''http://h'' \<and> dr_host cross_request = ''h''"
    by code_simp
  show ?thesis
    using cookie_requests_same_origin [of 5 cross_request "snd posting_run"
        "fst (serve_request 5 cross_request (snd posting_run))" RateLimited] s
    by (auto simp: prod_eq_iff)
qed

definition guess_run :: "dash_log \<times> dashboard" where
  "guess_run = dash_demo_run ''admin'' 60 [(0, Arrives (login_request ''x'')), (1, LoginEnds 0 None)]"

lemma alone_arrives: "pending_for ip s = {} \<Longrightarrow> alone ip (s, (t, Arrives q), r)"
  by (cases r) simp_all

lemma start_pending: "pending_for ip (the (start_dashboard (demo_dash user limit))) = {}"
  by (simp add: start_dashboard_def demo_dash_def listen_address_def is_loopback_bind_def pending_for_def)

theorem wrong_passwords_bounded_witness:
  "wrong_guesses ''1.1.1.1'' (within 1 1 (fst guess_run)) = 1 \<and> int (wrong_guesses ''1.1.1.1'' (within 1 1 (fst guess_run))) \<le> 26"
proof -
  have "list_all (alone ''1.1.1.1'') (fst guess_run)"
    by (simp add: guess_run_def dash_demo_run_def split_beta Let_def alone_arrives start_pending)
  moreover have "never_right ''1.1.1.1'' (within 1 1 (fst guess_run))
      \<and> wrong_guesses ''1.1.1.1'' (within 1 1 (fst guess_run)) = 1 \<and> (1 - 1) div login_attempt_window = 0"
    by code_simp
  ultimately show ?thesis
    using wrong_passwords_bounded [of "\<lambda>h p. False" "demo_dash ''admin'' 60" "fst guess_run" "snd guess_run" "''1.1.1.1''" 1 1]
      dash_demo_run_run by (simp add: guess_run_def)
qed

text \<open>The settings can take the login away from a dashboard that listens on the network.\<close>

lemma open_dashboard_serves:
  assumes "\<not> auth_configured (db_config s)"
  shows "snd (serve_request now q s) \<noteq> LoginNeeded"
proof -
  obtain g ss where g: "auth_gate (db_config s) now q (db_sessions s) = (g, ss)" by fastforce
  obtain b rl where b: "rate_gate now q (db_limiter s) = (b, rl)" by fastforce
  obtain s' r where r: "route_request now q (s\<lparr>db_sessions := ss, db_limiter := rl\<rparr>) = (s', r)" by fastforce
  have "g \<noteq> GateUnauthorized" using g assms by (auto simp: auth_gate_def split: if_splits)
  then show ?thesis using g b r route_request_limiter [OF r] by (cases g; cases b) (simp_all add: serve_request_def)
qed

lemma settings_drop_the_login:
  "snd (serve_request now q (apply_settings [(''XALGORIX_USERNAME'', '''')] s)) \<noteq> LoginNeeded"
  by (rule open_dashboard_serves) (simp add: apply_settings_def apply_setting_def auth_configured_def Let_def)

end
