(* ===== verification/Spec2Isabelle.thy ===== *)
theory Spec2Isabelle
  imports ScopeProperties ValidateProperties Capabilities PlannerProperties PlanStages ScopeGuard Budget JournalRuns GatewayProperties
    Merge ScheduleOnce JobRuns FallbackProperties GovernorProperties LifecycleProperties
    ApiWritesProperties DashboardExamples
begin

text \<open>
  \<^bold>\<open>The program.\<close> A server that runs security assessments. An operator describes an assessment (mode,
  targets, access, approved origins, exclusions, approved writes); the program normalises and
  validates the description, derives what evidence can be gathered, plans the jobs of the scanners,
  runs them, and correlates what they report. What makes it correct is mostly about confinement:
  nothing outside the approved boundary is contacted, no write is sent that was not approved or twice,
  credentials stay with their origin, a plan that changed since its review does not run.

  \<^bold>\<open>How the parts interact.\<close> \<open>Normalize\<close> and \<open>Validate\<close> take the configuration the API decodes; the
  planner calls both, \<open>DeriveCapabilities\<close> and the registry, and returns a plan with a fingerprint. The
  server wraps the planner with what it knows of its machine and with the scope guard, and the
  scheduler starts a stored request only when the plan it builds then is the reviewed one. A running
  scan asks the budget for endpoints and time, sends its requests through the recording gateway,
  which decides with the scope, and records approved writes in the journal before it sends them. What
  the scanners report is merged across scanners and correlated into findings; a probe of the same
  boundary may mark a finding as a false positive. How many scans and tools run at a time is decided by
  the resource governor; a scan that is cut off is picked up from its queue file.

  \<^bold>\<open>Theories, in the order of the code.\<close>

  \<^item> \<open>Prelude\<close>: Go's sort as a locale \<open>strict_weak_order\<close> with \<open>keyed_order\<close> for comparators by a
    key, interpreted for every comparator of the program that is sorted with; loops that skip what was
    seen; compaction of neighbours. \<open>GoStrings\<close>, \<open>GoPath\<close>, \<open>GoNet\<close>, \<open>GoStd\<close>, \<open>GoHttp\<close>, \<open>Calendar\<close>:
    what the program calls of Go's standard library (\<open>strings\<close>, \<open>strconv\<close>, \<open>path\<close>, \<open>net\<close>, \<open>net/netip\<close>,
    \<open>net/url\<close>, \<open>mime\<close>, \<open>net/http\<close>, \<open>time\<close>), with the laws the components use: \<open>path.Clean\<close> is canonical
    and idempotent, joining and splitting invert each other, an itoa'd number parses back.
  \<^item> \<open>AssessTypes\<close>: the data of \<open>internal/assessment/types.go\<close>, one record per struct.
  \<^item> \<open>AppScope\<close>, \<open>ScopeProperties\<close> (\<open>scope.go\<close>): normalisation of origins and exclusions,
    \<open>NewAppScope\<close>, \<open>Allows\<close>, \<open>Excluded\<close>, target scopes, the JSON form. The decision is refined from an
    abstract boundary of segments; exclusion is proved equal to a specification of path patterns, whose last
    part does not match a newline (\<open>newline_escapes_exclusion\<close> shows the consequence).
  \<^item> \<open>Normalize\<close>, \<open>Validate\<close>, \<open>ValidateProperties\<close> (\<open>validate.go\<close>, \<open>nextjs_actions.go\<close>,
    \<open>nextjs_boundaries.go\<close>): what an accepted configuration guarantees about modes, access, writes, seeds
    and campaigns.
  \<^item> \<open>Capabilities\<close> (\<open>capabilities.go\<close>): the evidence of each target.
  \<^item> \<open>Registry\<close>, \<open>Planner\<close>, \<open>PlannerProperties\<close>, \<open>PlanStages\<close> (\<open>internal/scanner/registry.go\<close>,
    \<open>descriptor.go\<close>, \<open>planner.go\<close> and the job expansions of \<open>tls_services.go\<close>, \<open>identity_routing.go\<close>,
    \<open>auth_context.go\<close>, \<open>wapiti_post.go\<close>, \<open>discovery_preparation.go\<close>): where each job comes from, that no
    supported pair is silently left out, and that dependencies are the nearest earlier stages.
  \<^item> \<open>ScopeGuard\<close> (\<open>internal/scopeguard\<close>): when a target is the operator's own machine.
  \<^item> \<open>PlanBuild\<close> (\<open>internal/web/scanner_handlers.go\<close>): availability of tools, state of bound
    credentials, the planner call, the guard over targets and origins.
  \<^item> \<open>Scheduler\<close>, \<open>ScheduleApi\<close>, \<open>NextRun\<close>, \<open>ScheduleProperties\<close>, \<open>ScheduleOnce\<close>
    (\<open>internal/web/scheduler.go\<close>, \<open>schedules.go\<close>): timing, review, tick, start of the server, the routes;
    the next run against a specification of slots; runs of the scheduler over any operations,
    restarts, and crashes in a tick between the start of a scan and the write of its schedule.
  \<^item> \<open>Budget\<close> (\<open>internal/scanner/budget.go\<close>, \<open>internal/ratelimit\<close>): endpoint, rate and time budget.
  \<^item> \<open>Redact\<close>, \<open>Telemetry\<close> (\<open>source.go\<close>, \<open>input_manifest.go\<close>): the URLs that are logged.
  \<^item> \<open>GatewayState\<close>, \<open>Gateway\<close>, \<open>GatewayRuns\<close>, \<open>GatewayProperties\<close> (\<open>recording_gateway.go\<close> with
    the policies it calls): one request up to and after the wait for the upstream, then any interleaving
    of connections as the relation \<open>gateway_step\<close>.
  \<^item> \<open>WriteJournal\<close>, \<open>JournalRuns\<close> (\<open>write_journal.go\<close>): the operations under their locks with the
    fate of each file operation, the file as a map, and several processes that share it and crash.
  \<^item> \<open>ApiWrites\<close>, \<open>ApiWritesProperties\<close> (\<open>apichecks_writes.go\<close>): the runner of approved writes. Each
    request it sends is logged with the journal of that moment; what is sent was approved, goes to the approved
    path behind the application's own, is journaled first, and a completed run has cleaned up. The proofs use the journal only through its refinement to a map.
  \<^item> \<open>Merge\<close> (\<open>merge.go\<close>): the merge of findings across scanners.
  \<^item> \<open>SurfaceUrl\<close>, \<open>Correlate\<close>, \<open>CorrelateProperties\<close> (\<open>attack_surface.go\<close>, \<open>findings.go\<close>,
    \<open>internal/web/findings_correlation.go\<close>): observations, fingerprints, findings, the status an operator
    sets. Findings are proved to be the classes of the observations by fingerprint.
  \<^item> \<open>Surface\<close>, \<open>SurfaceProperties\<close> (\<open>attack_surface.go\<close>): the inventory of endpoints, its merge, the
    gate that hands endpoints to scanners and the coverage it records. A refusal survives every order of
    observations, a pass stays inside the scope and its limit, and every endpoint says what became of it.
  \<^item> \<open>Outcome\<close> (\<open>pipeline.go\<close>, \<open>result_outcome.go\<close>, \<open>adapter_policy.go\<close>, \<open>egress_limitations.go\<close>):
    the record of a run, its sealing, the reading of a web report, credentials bound to an origin.
    \<open>Inventory\<close> (\<open>attack_surface.go\<close>, \<open>openapi.go\<close>, \<open>historical_surface.go\<close>, \<open>inventory_assets.go\<close>,
    \<open>input_manifest.go\<close>): API operations, archived URLs, hosts and services, what a scanner is told.
  \<^item> \<open>Jobs\<close>, \<open>JobGates\<close>, \<open>Executor\<close>, \<open>RunJobs\<close> (\<open>assessment_jobs.go\<close>): the execution of an accepted plan.
    The body of the loop over the jobs is a list of gates in the order of the code (checkpoint,
    prerequisites, identity, login, crawl, selection, session, inventory, reuse, credentials, resources,
    checkout, condition, deadline, runner, targets, cancellation, attempt, gateway); each answers the job
    or passes a fuller request on, and a job that passes all is one call of its runner.
    \<open>JobProperties\<close> chains what the gates establish through the locale \<open>gate_fact\<close>, interpreted once
    for each fact; \<open>JobRuns\<close> proves, by induction over the jobs handled so far, that the calls follow the
    plan, stay in scope, carry a session that was just renewed, that every job is answered, and that an
    interrupted write stops everything.
  \<^item> \<open>Fallback\<close>, \<open>FallbackProperties\<close> (\<open>fallback.go\<close>): the probe for answers that any path gets.
  \<^item> \<open>Governor\<close>, \<open>GovernorProperties\<close> (\<open>internal/resources/resources.go\<close>): pressure levels, limits,
    admission of scans, leases of tools under any sequence of acquisitions and releases. Sums of memory wrap
    at 64 bits; the admission theorem says for which values they do not.
  \<^item> \<open>Queue\<close>, \<open>QueueProperties\<close> (\<open>internal/web/queue_state.go\<close>, handlers of \<open>server.go\<close>): queue files
    and the requests that a queue, a paused instance, a restart and a start give.
  \<^item> \<open>DashboardAuth\<close>, \<open>DashboardProperties\<close>, \<open>DashboardLogins\<close>, \<open>DashboardExamples\<close>
    (\<open>internal/web/auth_session.go\<close>, the rate limiter and the middleware of \<open>server.go\<close>, \<open>settings_env.go\<close>): the
    gates in front of the dashboard as events with their replies. A run keeps its history; the locale
    \<open>dash_invariant\<close> is interpreted for the sessions, for the rate limiter, which is proved to decide like the
    history of what it passed, and for the guesses of one address: thirteen for every window of fifteen minutes
    begun in an interval and thirteen more, when its logins do not overlap.
  \<^item> \<open>Lifecycle\<close>, \<open>LifecycleProperties\<close> (\<open>internal/web/orchestrator.go\<close>, handlers of \<open>server.go\<close>): the
    goroutine of a scan and the handlers as interleaved steps, cut where the code gives up a lock or reads a
    status before it writes. A goroutine has a name of its own; identifiers are taken over by relaunches from the
    queue and from a resume. Events outside the model's bookkeeping (a session returned, a context was
    cancelled) are recorded as sightings of the run, and what a queue file leaves out is compared with them: the
    locale \<open>run_invariant\<close> for properties of states, \<open>observed_invariant\<close> for those of a state and what was seen.
    The cap on running scans, what a resumption skips, the stop that is lost and the target that a shutdown skips.

  \<^bold>\<open>Parameters.\<close> Code outside the repository and the state of the machine are arguments: digests
  (\<open>dg\<close>, and \<open>ge_sha\<close> of \<open>gateway_env\<close>), name resolution and interface addresses of the guard, the
  token bucket of the rate limiter, the fate of each file operation of the journal, the GraphQL parser,
  the clock and the budget of a gateway \<open>moment\<close>, locations (a zone lookup per name), what a server
  reads of its machine (\<open>server_env\<close>) and what a scheduler reads at one moment. An execution gets its
  settings as an \<open>exec_env\<close>, what it finds at its start as an \<open>exec_start\<close>, and for each job a
  \<open>job_moment\<close>: clocks, renewals of sessions, what the crawl and the other discovery tools returned, what
  a native campaign prepared, the run of the runner, and the fate of the checkpoint. The theorems
  hold for all of them.

  \<^bold>\<open>Errors and bounds.\<close> A Go error is a value: \<open>option\<close> where only its presence matters, a sum or
  an own datatype where the caller looks at it. Problems of a configuration keep their code, whether
  they block and their place, not their prose. Integers are \<open>int\<close> where the program bounds them first,
  and \<open>wrap64\<close> or the range check of \<open>strconv.Atoi\<close> where a width is visible. Loops are structural
  recursion; the two that are not end by a measure: \<open>visit\<close> of the stage dependencies (the stages not
  yet visited) and \<open>next_hour\<close> of an hourly schedule (the hours up to the given instant). The limits of
  the code are kept: bodies are read up to the limit of the gateway, requests and form posts are
  counted against the approved limits.

  \<^bold>\<open>Simplifications.\<close> Case mapping and trimming of strings are those of ASCII. A CVSS score is in
  tenths. The decoded JSON values are modelled, not their text. A tick of the scheduler is atomic but for a
  crash in it, as the code holds its lock for it. The trigger of a schedule, whose check and start the code does
  not hold together, happens at one moment, and so does a request of the gateway between its admission
  and its dispatch, where it waits for the budget and reads nothing that others write; apart from these the
  operations of the gateway, of the journal and of the scans are cut where the code gives up its lock.

  \<^bold>\<open>Not modelled.\<close> The adapters and parsers of external tools and the execution of their
  processes, browser discovery and login, the discovery of APIs, the probes and heuristics for Next.js
  and exposed files, credentials and other encrypted stores, the terminal user interface, rendering of
  reports and the HTTP plumbing of the server behind its gates: they drive programs, files and sockets, or render text.
  Left out as well are the legacy pipeline with its recon, which the executor of plans replaces, the
  manifest of the workflow and the proof of coverage, which summarise results that were already
  decided, and progress events.
\<close>

end
